(* ===== verification/Prelude.thy ===== *)
theory Prelude
  imports Main "HOL-Library.Word"
begin

text \<open>
  Shared vocabulary of the development: the machine integer types of the C and C++ sources,
  the counting loop, first-match search in an array, and the generic lemmas on lists, options
  and words that the component theories use.
\<close>

unbundle bit_operations_syntax

section \<open>Machine integers\<close>

type_synonym u8 = "8 word"
type_synonym u16 = "16 word"
type_synonym u32 = "32 word"
type_synonym u64 = "64 word"

text \<open>Collections of rewrite rules of the component theories.\<close>

named_theorems guard_simps \<open>unfolding rules of argument checks\<close>
named_theorems frame_simps \<open>fields an operation leaves alone\<close>
named_theorems inv_intros \<open>preservation of the invariants\<close>

section \<open>The counting loop\<close>

text \<open>
  \<^verbatim>\<open>for (i = 0; i < n; i++) body(i)\<close>, as a function of the state the body changes.
\<close>

primrec for_upto :: "nat \<Rightarrow> (nat \<Rightarrow> 's \<Rightarrow> 's) \<Rightarrow> 's \<Rightarrow> 's" where
  "for_upto 0 body s = s"
| "for_upto (Suc n) body s = body n (for_upto n body s)"

lemma for_upto_inv:
  assumes "P s" and "\<And>i t. i < n \<Longrightarrow> P t \<Longrightarrow> P (body i t)"
  shows "P (for_upto n body s)"
  using assms by (induction n) auto

text \<open>A loop that only rewrites cell \<open>i\<close> of an array in round \<open>i\<close> is a pointwise update.\<close>

lemma for_upto_cells:
  "for_upto n (\<lambda>i f. f(i := g i (f i))) f = (\<lambda>i. if i < n then g i (f i) else f i)"
  by (induction n) (auto simp: fun_eq_iff)

lemma for_upto_numeral:
  "for_upto (numeral k) body s = body (pred_numeral k) (for_upto (pred_numeral k) body s)"
  by (simp add: numeral_eq_Suc)

section \<open>Runs of a partial operation\<close>

text \<open>A sequence of calls of an operation that may be undefined (\<open>None\<close>).\<close>

primrec run_option :: "('a \<Rightarrow> 's \<Rightarrow> 's option) \<Rightarrow> 'a list \<Rightarrow> 's \<Rightarrow> 's option" where
  "run_option step [] s = Some s"
| "run_option step (x # xs) s = (case step x s of None \<Rightarrow> None | Some t \<Rightarrow> run_option step xs t)"

section \<open>Lists and options\<close>

text \<open>\<^verbatim>\<open>find\<close>: the first position of a pattern.\<close>

fun find_bytes :: "'a list \<Rightarrow> 'a list \<Rightarrow> nat option" where
  "find_bytes pat [] = (if pat = [] then Some 0 else None)"
| "find_bytes pat (x # xs) =
     (if take (length pat) (x # xs) = pat then Some 0 else map_option Suc (find_bytes pat xs))"

text \<open>\<open>contains pat s\<close> is \<^verbatim>\<open>s.find(pat) != npos\<close>.\<close>

definition contains :: "string \<Rightarrow> string \<Rightarrow> bool" where
  "contains pat s \<longleftrightarrow> find_bytes pat s \<noteq> None"

lemma sum_list_butlast_last:
  "xs \<noteq> [] \<Longrightarrow> sum_list (map f (butlast xs)) + f (last xs) = (sum_list (map f xs) :: nat)"
  by (induction xs) auto

lemma last_in_butlast_append [simp]: "last (butlast xs @ [y]) = y"
  by simp

lemma member_le_sum_list_nat: "x \<in> set xs \<Longrightarrow> f x \<le> (sum_list (map f xs) :: nat)"
  by (induction xs) auto

lemma option_cases_Some: "(\<And>x. y = Some x \<Longrightarrow> P) \<Longrightarrow> y \<noteq> None \<Longrightarrow> P"
  by auto

section \<open>Bit fields of words\<close>

lemma unat_and_mask: "unat (x AND mask n) = unat x mod 2 ^ n"
  for x :: "'a::len word"
  unfolding take_bit_eq_mask [symmetric] unsigned_take_bit_eq by (simp add: take_bit_eq_mod)

lemma unat_drop_bit: "unat (drop_bit n x) = unat x div 2 ^ n"
  for x :: "'a::len word"
  unfolding unat_drop_bit_eq by (simp add: drop_bit_eq_div)

lemma unat_push_bit: "unat (push_bit n x) = 2 ^ n * unat x mod 2 ^ LENGTH('a)"
  for x :: "'a::len word"
  unfolding unsigned_push_bit_eq by (simp add: push_bit_eq_mult take_bit_eq_mod ac_simps)

lemma u32_masks:
  "(0xff :: u32) = mask 8" "(0xf :: u32) = mask 4" "(0x3f :: u32) = mask 6" "(0x3fff :: u32) = mask 14"
  by (simp_all add: mask_eq_exp_minus_1)

lemmas unat_fields = unat_and_mask unat_drop_bit unat_push_bit drop_bit_and u32_masks

lemma unat_le_max [simp]: "unat (x :: u32) \<le> 4294967295"
  using unsigned_less [of x, where ?'a = nat] by simp

lemma two_bytes: "256 * (x div 256 mod 256) + x mod 256 = x mod (65536 :: nat)"
  using mod_mult2_eq [of x 256 256] by simp

lemma byte_and_nibbles:
  "4096 * (x div 4096 mod 16) + 16 * (x div 16 mod 256) + x mod 16 = x mod (65536 :: nat)"
proof -
  have "x mod 65536 = 4096 * (x div 4096 mod 16) + x mod 4096"
    using mod_mult2_eq [of x 4096 16] by simp
  moreover have "x mod 4096 = 16 * (x div 16 mod 256) + x mod 16"
    using mod_mult2_eq [of x 16 256] by simp
  ultimately show ?thesis by simp
qed

end
