(* ===== verification/Media_Frame.thy ===== *)
theory Media_Frame
  imports Prelude
begin

text \<open>
  Frames of the media bus (src/include/media/media\_frame.h, src/src/media/media\_frame.cpp,
  src/include/media/media\_format.h) and the track metadata (src/include/media/stream\_track.h).
  A frame owns its payload; the NAL unit views are offset/size pairs into it.  The lemmas show
  that every view a frame carries stays inside the payload, whatever was passed to
  \<open>add_nalu\<close>.
\<close>

section \<open>Formats\<close>

datatype media_type = Video | Audio

datatype codec = Codec_Unknown | H264 | H265 | AAC | G711A | G711U

datatype frame_kind = Kind_Unknown | Key | Inter | Kind_Audio

record video_format =
  vf_codec :: codec
  vf_width :: int
  vf_height :: int
  vf_frame_rate :: int
  vf_extradata :: "u8 list"

record audio_format =
  af_codec :: codec
  af_sample_rate :: int
  af_channels :: int
  af_bits_per_sample :: int
  af_extradata :: "u8 list"

record stream_track =
  st_stream_id :: int
  st_type :: media_type
  st_clock_rate :: int
  st_video :: video_format
  st_audio :: audio_format

definition track_codec :: "stream_track \<Rightarrow> codec" where
  "track_codec t = (if st_type t = Video then vf_codec (st_video t) else af_codec (st_audio t))"

section \<open>Frames\<close>

record nalu_view =
  nv_offset :: nat
  nv_size :: nat

record media_frame =
  mf_type :: media_type
  mf_codec :: codec
  mf_stream_id :: int
  mf_kind :: frame_kind
  mf_codec_config :: bool
  mf_pts_ms :: int
  mf_dts_ms :: int
  mf_payload :: "u8 list"
  mf_nalus :: "nalu_view list"

text \<open>\<^verbatim>\<open>MediaFrame::create\<close>: the payload is a zeroed vector of the given size.\<close>

definition create_frame :: "media_type \<Rightarrow> codec \<Rightarrow> int \<Rightarrow> nat \<Rightarrow> media_frame" where
  "create_frame ty c sid n =
     \<lparr>mf_type = ty, mf_codec = c, mf_stream_id = sid, mf_kind = Kind_Unknown,
      mf_codec_config = False, mf_pts_ms = 0, mf_dts_ms = 0,
      mf_payload = replicate n 0, mf_nalus = []\<rparr>"

definition frame_size :: "media_frame \<Rightarrow> nat" where
  "frame_size f = length (mf_payload f)"

definition keyframe :: "media_frame \<Rightarrow> bool" where
  "keyframe f \<longleftrightarrow> mf_kind f = Key"

definition set_timestamps :: "int \<Rightarrow> int \<Rightarrow> media_frame \<Rightarrow> media_frame" where
  "set_timestamps pts dts f = f\<lparr>mf_pts_ms := pts, mf_dts_ms := dts\<rparr>"

definition add_nalu :: "nat \<Rightarrow> nat \<Rightarrow> media_frame \<Rightarrow> media_frame" where
  "add_nalu off sz f =
     (if off > frame_size f \<or> sz > frame_size f - off then f
      else f\<lparr>mf_nalus := mf_nalus f @ [\<lparr>nv_offset = off, nv_size = sz\<rparr>]\<rparr>)"

text \<open>Every view lies in the payload: the readers of \<open>nalus()\<close> index it without a check.\<close>

definition nalus_in_payload :: "media_frame \<Rightarrow> bool" where
  "nalus_in_payload f \<longleftrightarrow>
     list_all (\<lambda>v. nv_offset v + nv_size v \<le> frame_size f) (mf_nalus f)"

lemma create_frame_size [simp]: "frame_size (create_frame ty c sid n) = n"
  by (simp add: frame_size_def create_frame_def)

lemma add_nalu_size [frame_simps]: "frame_size (add_nalu off sz f) = frame_size f"
  by (simp add: add_nalu_def frame_size_def)

lemma create_frame_in_payload [inv_intros]: "nalus_in_payload (create_frame ty c sid n)"
  by (simp add: nalus_in_payload_def create_frame_def)

lemma add_nalu_in_payload [inv_intros]:
  "nalus_in_payload f \<Longrightarrow> nalus_in_payload (add_nalu off sz f)"
  by (auto simp: nalus_in_payload_def add_nalu_def frame_size_def)

text \<open>A whole run of \<open>add_nalu\<close> calls, as the packetiser of the encoder stream makes it.\<close>

fun add_nalus :: "(nat \<times> nat) list \<Rightarrow> media_frame \<Rightarrow> media_frame" where
  "add_nalus [] f = f"
| "add_nalus ((off, sz) # vs) f = add_nalus vs (add_nalu off sz f)"

lemma add_nalus_in_payload:
  "nalus_in_payload f \<Longrightarrow> nalus_in_payload (add_nalus vs f)"
  by (induction vs f rule: add_nalus.induct) (auto intro: inv_intros)

end
