(* ===== verification/Gop_Cache.thy ===== *)
theory Gop_Cache
  imports Media_Frame
begin

text \<open>
  The GOP cache (src/include/media/gop\_cache.h, src/src/media/gop\_cache.cpp): a bounded deque of
  groups of pictures from which a new viewer is served the frames since the latest keyframe.

  The operations return \<open>None\<close> where the C++ would be undefined or wrap: \<open>front()\<close> of an empty
  deque in the loop of \<open>trim_locked\<close>, and \<open>bytes_ -= front.bytes\<close> below zero.  The first group of
  lemmas shows that neither happens and that the invariant is kept; the second refines the cache
  to its contract, the list of frames since the latest keyframe.
\<close>

section \<open>State\<close>

record gop_cache_config =
  max_gops :: nat
  max_bytes :: nat
  max_duration_ms :: int

record cached_gop =
  cg_frames :: "media_frame list"
  cg_start_pts_ms :: int
  cg_end_pts_ms :: int
  cg_bytes :: nat

record gop_cache =
  gc_config :: gop_cache_config
  gc_gops :: "cached_gop list"
  gc_bytes :: nat

definition new_gop_cache :: "gop_cache_config \<Rightarrow> gop_cache" where
  "new_gop_cache cfg = \<lparr>gc_config = cfg, gc_gops = [], gc_bytes = 0\<rparr>"

section \<open>Operations\<close>

definition start_new_gop_locked :: "media_frame \<Rightarrow> gop_cache \<Rightarrow> gop_cache" where
  "start_new_gop_locked f c =
     (let gop = \<lparr>cg_frames = [f], cg_start_pts_ms = mf_pts_ms f, cg_end_pts_ms = mf_pts_ms f,
                 cg_bytes = frame_size f\<rparr>
      in c\<lparr>gc_bytes := gc_bytes c + cg_bytes gop, gc_gops := gc_gops c @ [gop]\<rparr>)"

text \<open>The loop condition of \<open>trim_locked\<close> on the deque and the byte counter.\<close>

definition over_limit :: "gop_cache_config \<Rightarrow> cached_gop list \<Rightarrow> nat \<Rightarrow> bool" where
  "over_limit cfg gs b \<longleftrightarrow>
     length gs > max_gops cfg \<or> b > max_bytes cfg \<or>
     (length gs > 1 \<and> max_duration_ms cfg > 0 \<and>
      cg_end_pts_ms (last gs) - cg_start_pts_ms (hd gs) > max_duration_ms cfg)"

fun trim_loop :: "gop_cache_config \<Rightarrow> cached_gop list \<Rightarrow> nat \<Rightarrow> (cached_gop list \<times> nat) option" where
  "trim_loop cfg [] b = (if over_limit cfg [] b then None else Some ([], b))"
| "trim_loop cfg (g # gs) b =
     (if over_limit cfg (g # gs) b
      then if cg_bytes g \<le> b then trim_loop cfg gs (b - cg_bytes g) else None
      else Some (g # gs, b))"

definition trim_locked :: "gop_cache \<Rightarrow> gop_cache option" where
  "trim_locked c =
     (case trim_loop (gc_config c) (gc_gops c) (gc_bytes c) of
        None \<Rightarrow> None
      | Some (gs, b) \<Rightarrow> Some (c\<lparr>gc_gops := gs, gc_bytes := b\<rparr>))"

text \<open>\<^verbatim>\<open>GopCache::push\<close>: \<open>None\<close> is the null pointer argument.\<close>

definition push :: "media_frame option \<Rightarrow> gop_cache \<Rightarrow> (bool \<times> gop_cache) option" where
  "push frame c =
     (case frame of
        None \<Rightarrow> Some (False, c)
      | Some f \<Rightarrow>
          let cfg = gc_config c in
          if mf_type f \<noteq> Video \<or> frame_size f = 0 then Some (False, c)
          else if max_gops cfg = 0 \<or> max_bytes cfg = 0 \<or> frame_size f > max_bytes cfg
          then Some (False, c)
          else if keyframe f
          then map_option (Pair True) (trim_locked (start_new_gop_locked f c))
          else if gc_gops c = [] then Some (False, c)
          else
            let gop = last (gc_gops c) in
            if cg_bytes gop > max_bytes cfg - frame_size f \<or>
               (max_duration_ms cfg > 0 \<and>
                mf_pts_ms f - cg_start_pts_ms gop > max_duration_ms cfg)
            then Some (False, c)
            else
              let gop' = gop\<lparr>cg_end_pts_ms := mf_pts_ms f, cg_bytes := cg_bytes gop + frame_size f,
                             cg_frames := cg_frames gop @ [f]\<rparr>
              in map_option (Pair True)
                   (trim_locked (c\<lparr>gc_gops := butlast (gc_gops c) @ [gop'],
                                   gc_bytes := gc_bytes c + frame_size f\<rparr>)))"

definition snapshot_from_latest_key :: "gop_cache \<Rightarrow> media_frame list" where
  "snapshot_from_latest_key c =
     (if gc_gops c = [] then [] else cg_frames (last (gc_gops c)))"

section \<open>Invariant\<close>

text \<open>
  A group is decodable on its own: it starts at a keyframe and holds no other, all of it is
  non-empty video, and its counters agree with its frames.
\<close>

definition gop_ok :: "gop_cache_config \<Rightarrow> cached_gop \<Rightarrow> bool" where
  "gop_ok cfg g \<longleftrightarrow>
     cg_frames g \<noteq> [] \<and> keyframe (hd (cg_frames g)) \<and>
     list_all (\<lambda>f. \<not> keyframe f) (tl (cg_frames g)) \<and>
     list_all (\<lambda>f. mf_type f = Video \<and> frame_size f > 0) (cg_frames g) \<and>
     cg_start_pts_ms g = mf_pts_ms (hd (cg_frames g)) \<and>
     cg_end_pts_ms g = mf_pts_ms (last (cg_frames g)) \<and>
     cg_bytes g = sum_list (map frame_size (cg_frames g)) \<and>
     cg_bytes g \<le> max_bytes cfg"

definition counted :: "cached_gop list \<Rightarrow> nat \<Rightarrow> bool" where
  "counted gs b \<longleftrightarrow> b = sum_list (map cg_bytes gs)"

definition gop_cache_inv :: "gop_cache \<Rightarrow> bool" where
  "gop_cache_inv c \<longleftrightarrow>
     list_all (gop_ok (gc_config c)) (gc_gops c) \<and>
     counted (gc_gops c) (gc_bytes c) \<and>
     \<not> over_limit (gc_config c) (gc_gops c) (gc_bytes c)"

lemma new_gop_cache_inv [inv_intros]: "gop_cache_inv (new_gop_cache cfg)"
  by (simp add: gop_cache_inv_def new_gop_cache_def counted_def over_limit_def)

lemma new_gop_cache_simps [simp]:
  "gc_config (new_gop_cache cfg) = cfg"
  "snapshot_from_latest_key (new_gop_cache cfg) = []"
  by (simp_all add: new_gop_cache_def snapshot_from_latest_key_def)

section \<open>Trimming\<close>

text \<open>
  Trimming drops a prefix, keeps the newest group, and ends below every limit: it needs the
  counter to be exact and the newest group to fit on its own.
\<close>

lemma trim_loop_total:
  assumes "gs \<noteq> []" and "counted gs b" and "cg_bytes (last gs) \<le> max_bytes cfg"
    and "max_gops cfg > 0"
  shows "\<exists>gs' b' k. trim_loop cfg gs b = Some (gs', b') \<and> gs' = drop k gs \<and> gs' \<noteq> [] \<and>
           counted gs' b' \<and> \<not> over_limit cfg gs' b'"
  using assms
proof (induction gs arbitrary: b)
  case Nil
  then show ?case by simp
next
  case (Cons g gs)
  show ?case
  proof (cases "over_limit cfg (g # gs) b")
    case False
    then show ?thesis using Cons.prems by (intro exI [of _ 0] exI) auto
  next
    case True
    with Cons.prems have "gs \<noteq> []" by (auto simp: over_limit_def counted_def)
    moreover have "counted gs (b - cg_bytes g)" and le: "cg_bytes g \<le> b"
      using Cons.prems(2) by (auto simp: counted_def)
    ultimately obtain gs' b' k where *: "trim_loop cfg gs (b - cg_bytes g) = Some (gs', b')"
        "gs' = drop k gs" "gs' \<noteq> []" "counted gs' b'" "\<not> over_limit cfg gs' b'"
      using Cons.IH [of "b - cg_bytes g"] Cons.prems by auto
    have "trim_loop cfg (g # gs) b = Some (gs', b')"
      using True le *(1) by simp
    moreover have "gs' = drop (Suc k) (g # gs)" using *(2) by simp
    ultimately show ?thesis using *(3-5) by blast
  qed
qed

lemma last_drop_nonempty: "drop k xs \<noteq> [] \<Longrightarrow> last (drop k xs) = last xs"
  by (metis drop_eq_Nil last_drop linorder_not_le)

lemma trim_locked_total:
  assumes "gc_gops c \<noteq> []" and "list_all (gop_ok (gc_config c)) (gc_gops c)"
    and "counted (gc_gops c) (gc_bytes c)" and "max_gops (gc_config c) > 0"
  shows "\<exists>c'. trim_locked c = Some c' \<and> gop_cache_inv c' \<and> gc_config c' = gc_config c \<and>
           gc_gops c' \<noteq> [] \<and> last (gc_gops c') = last (gc_gops c)"
proof -
  have "gop_ok (gc_config c) (last (gc_gops c))"
    using assms(1,2) by (simp add: list_all_iff)
  then have "cg_bytes (last (gc_gops c)) \<le> max_bytes (gc_config c)"
    by (simp add: gop_ok_def)
  from trim_loop_total [OF assms(1,3) this assms(4)] obtain gs' b' k where
    t: "trim_loop (gc_config c) (gc_gops c) (gc_bytes c) = Some (gs', b')"
    and g: "gs' = drop k (gc_gops c)" "gs' \<noteq> []" "counted gs' b'"
      "\<not> over_limit (gc_config c) gs' b'"
    by blast
  have "list_all (gop_ok (gc_config c)) gs'"
    using assms(2) g(1) by (auto simp: list_all_iff dest: in_set_dropD)
  with t g show ?thesis
    by (auto simp: trim_locked_def gop_cache_inv_def last_drop_nonempty)
qed

section \<open>Pushing\<close>

text \<open>What \<open>push\<close> accepts, read off the frames since the latest keyframe alone.\<close>

definition live_accepts :: "gop_cache_config \<Rightarrow> media_frame list \<Rightarrow> media_frame \<Rightarrow> bool" where
  "live_accepts cfg live f \<longleftrightarrow>
     mf_type f = Video \<and> 0 < frame_size f \<and> 0 < max_gops cfg \<and> frame_size f \<le> max_bytes cfg \<and>
     (keyframe f \<or>
      live \<noteq> [] \<and>
      sum_list (map frame_size live) + frame_size f \<le> max_bytes cfg \<and>
      (max_duration_ms cfg > 0 \<longrightarrow> mf_pts_ms f - mf_pts_ms (hd live) \<le> max_duration_ms cfg))"

definition live_push :: "gop_cache_config \<Rightarrow> media_frame list \<Rightarrow> media_frame \<Rightarrow> media_frame list" where
  "live_push cfg live f =
     (if \<not> live_accepts cfg live f then live else if keyframe f then [f] else live @ [f])"

lemma gop_ok_single:
  "\<lbrakk>keyframe f; mf_type f = Video; frame_size f > 0; frame_size f \<le> max_bytes cfg\<rbrakk> \<Longrightarrow>
   gop_ok cfg \<lparr>cg_frames = [f], cg_start_pts_ms = mf_pts_ms f, cg_end_pts_ms = mf_pts_ms f,
               cg_bytes = frame_size f\<rparr>"
  by (simp add: gop_ok_def)

lemma gop_ok_snoc:
  assumes "gop_ok cfg g" and "\<not> keyframe f" "mf_type f = Video" "frame_size f > 0"
    and "cg_bytes g + frame_size f \<le> max_bytes cfg"
  shows "gop_ok cfg (g\<lparr>cg_end_pts_ms := mf_pts_ms f, cg_bytes := cg_bytes g + frame_size f,
                       cg_frames := cg_frames g @ [f]\<rparr>)"
  using assms by (cases "cg_frames g") (auto simp: gop_ok_def)

lemma snapshot_nonempty:
  "gop_cache_inv c \<Longrightarrow> gc_gops c \<noteq> [] \<Longrightarrow> gop_ok (gc_config c) (last (gc_gops c))"
  by (simp add: gop_cache_inv_def list_all_iff)

lemma counted_replace_last:
  assumes "counted gs b" and "gs \<noteq> []"
  shows "counted (butlast gs @ [g\<lparr>cg_end_pts_ms := e, cg_bytes := cg_bytes (last gs) + n,
                                    cg_frames := fs\<rparr>]) (b + n)"
  using assms sum_list_butlast_last [of gs cg_bytes] by (simp add: counted_def)

lemma push_key:
  assumes "gop_cache_inv c" "keyframe f" "mf_type f = Video" "frame_size f > 0"
    "frame_size f \<le> max_bytes (gc_config c)" "max_gops (gc_config c) > 0"
  shows "\<exists>c'. push (Some f) c = Some (True, c') \<and> gop_cache_inv c' \<and> gc_config c' = gc_config c \<and>
           snapshot_from_latest_key c' = [f]"
proof -
  let ?c = "start_new_gop_locked f c"
  have "gc_gops ?c \<noteq> []" and cfg: "gc_config ?c = gc_config c"
    by (simp_all add: start_new_gop_locked_def Let_def)
  moreover have "list_all (gop_ok (gc_config ?c)) (gc_gops ?c)"
    using assms gop_ok_single [of f "gc_config c"]
    by (simp add: start_new_gop_locked_def Let_def gop_cache_inv_def)
  moreover have "counted (gc_gops ?c) (gc_bytes ?c)"
    using assms(1) by (simp add: start_new_gop_locked_def Let_def gop_cache_inv_def counted_def)
  ultimately obtain c' where c': "trim_locked ?c = Some c'" "gop_cache_inv c'"
      "gc_config c' = gc_config c" "gc_gops c' \<noteq> []" "last (gc_gops c') = last (gc_gops ?c)"
    using trim_locked_total [of ?c] assms(6) by (auto simp: cfg)
  have "snapshot_from_latest_key c' = [f]"
    using c'(4,5) by (simp add: snapshot_from_latest_key_def start_new_gop_locked_def Let_def)
  with c' assms show ?thesis by (auto simp: push_def Let_def)
qed

lemma push_inter:
  assumes inv: "gop_cache_inv c" and "\<not> keyframe f" "mf_type f = Video" "frame_size f > 0"
    "frame_size f \<le> max_bytes (gc_config c)" "max_gops (gc_config c) > 0" "gc_gops c \<noteq> []"
    and fit: "cg_bytes (last (gc_gops c)) + frame_size f \<le> max_bytes (gc_config c)"
    and dur: "max_duration_ms (gc_config c) > 0 \<longrightarrow>
      mf_pts_ms f - cg_start_pts_ms (last (gc_gops c)) \<le> max_duration_ms (gc_config c)"
  shows "\<exists>c'. push (Some f) c = Some (True, c') \<and> gop_cache_inv c' \<and> gc_config c' = gc_config c \<and>
           snapshot_from_latest_key c' = snapshot_from_latest_key c @ [f]"
proof -
  let ?g = "(last (gc_gops c))\<lparr>cg_end_pts_ms := mf_pts_ms f,
              cg_bytes := cg_bytes (last (gc_gops c)) + frame_size f,
              cg_frames := cg_frames (last (gc_gops c)) @ [f]\<rparr>"
  let ?c = "c\<lparr>gc_gops := butlast (gc_gops c) @ [?g], gc_bytes := gc_bytes c + frame_size f\<rparr>"
  have ok: "gop_ok (gc_config c) ?g"
    using gop_ok_snoc [OF snapshot_nonempty [OF inv \<open>gc_gops c \<noteq> []\<close>] assms(2-4) fit] .
  have "list_all (gop_ok (gc_config ?c)) (gc_gops ?c)"
    using inv ok by (auto simp: gop_cache_inv_def list_all_iff dest: in_set_butlastD)
  moreover have "counted (gc_gops ?c) (gc_bytes ?c)"
    using counted_replace_last inv \<open>gc_gops c \<noteq> []\<close> by (simp add: gop_cache_inv_def)
  ultimately obtain c' where c': "trim_locked ?c = Some c'" "gop_cache_inv c'"
      "gc_config c' = gc_config c" "gc_gops c' \<noteq> []" "last (gc_gops c') = ?g"
    using trim_locked_total [of ?c] assms(6) by auto
  have "snapshot_from_latest_key c' = snapshot_from_latest_key c @ [f]"
    using c'(4,5) \<open>gc_gops c \<noteq> []\<close> by (simp add: snapshot_from_latest_key_def)
  moreover have "push (Some f) c = Some (True, c')"
    using assms(2-7) fit dur c'(1) by (auto simp: push_def Let_def)
  ultimately show ?thesis using c'(2,3) by blast
qed

text \<open>The guards of \<open>push\<close> are \<open>live_accepts\<close> of the snapshot.\<close>

lemma live_accepts_snapshot:
  assumes "gop_cache_inv c"
  shows "live_accepts (gc_config c) (snapshot_from_latest_key c) f \<longleftrightarrow>
     mf_type f = Video \<and> 0 < frame_size f \<and> 0 < max_gops (gc_config c) \<and>
     frame_size f \<le> max_bytes (gc_config c) \<and>
     (keyframe f \<or>
      gc_gops c \<noteq> [] \<and> cg_bytes (last (gc_gops c)) + frame_size f \<le> max_bytes (gc_config c) \<and>
      (max_duration_ms (gc_config c) > 0 \<longrightarrow>
       mf_pts_ms f - cg_start_pts_ms (last (gc_gops c)) \<le> max_duration_ms (gc_config c)))"
proof (cases "gc_gops c = []")
  case True
  then show ?thesis by (auto simp: live_accepts_def snapshot_from_latest_key_def)
next
  case False
  with snapshot_nonempty [OF assms False] show ?thesis
    by (auto simp: live_accepts_def snapshot_from_latest_key_def gop_ok_def)
qed

lemma push_rejected:
  assumes "gop_cache_inv c" "\<not> live_accepts (gc_config c) (snapshot_from_latest_key c) f"
  shows "push (Some f) c = Some (False, c)"
  using assms(2) unfolding live_accepts_snapshot [OF assms(1)]
  by (auto simp: push_def Let_def not_le)

lemma push_accepted:
  assumes "gop_cache_inv c" "live_accepts (gc_config c) (snapshot_from_latest_key c) f"
  shows "\<exists>c'. push (Some f) c = Some (True, c') \<and> gop_cache_inv c' \<and> gc_config c' = gc_config c \<and>
           snapshot_from_latest_key c' =
             (if keyframe f then [f] else snapshot_from_latest_key c @ [f])"
proof (cases "keyframe f")
  case True
  with assms show ?thesis unfolding live_accepts_snapshot [OF assms(1)]
    using push_key [OF assms(1) True] by auto
next
  case False
  with assms show ?thesis unfolding live_accepts_snapshot [OF assms(1)]
    using push_inter [OF assms(1) False] by auto
qed

section \<open>The contract of the cache\<close>

text \<open>
  What the media source relies on: pushing never fails, keeps the invariant, and serves exactly
  the accepted frames since the latest keyframe.
\<close>

locale live_cache =
  fixes cache_push :: "media_frame option \<Rightarrow> 'c \<Rightarrow> (bool \<times> 'c) option"
    and snapshot :: "'c \<Rightarrow> media_frame list"
    and config :: "'c \<Rightarrow> gop_cache_config"
    and invar :: "'c \<Rightarrow> bool"
  assumes push_null: "cache_push None c = Some (False, c)"
    and push_frame: "invar c \<Longrightarrow>
      \<exists>c'. cache_push (Some f) c = Some (live_accepts (config c) (snapshot c) f, c') \<and>
           invar c' \<and> config c' = config c \<and>
           snapshot c' = live_push (config c) (snapshot c) f"
begin

lemma push_total: "invar c \<Longrightarrow> \<exists>b c'. cache_push frame c = Some (b, c') \<and> invar c'"
  using push_null push_frame by (cases frame) blast+

lemma run_live:
  assumes "invar c"
  shows "\<exists>c'. run_option (\<lambda>f s. map_option snd (cache_push (Some f) s)) fs c = Some c' \<and>
              invar c' \<and> config c' = config c \<and>
              snapshot c' = foldl (live_push (config c)) (snapshot c) fs"
  using assms
proof (induction fs arbitrary: c)
  case Nil
  then show ?case by simp
next
  case (Cons f fs)
  from push_frame [OF Cons.prems, of f] obtain c' where c':
    "cache_push (Some f) c = Some (live_accepts (config c) (snapshot c) f, c')"
    "invar c'" "config c' = config c" "snapshot c' = live_push (config c) (snapshot c) f"
    by blast
  from Cons.IH [OF c'(2)] c' show ?case by simp
qed

end

interpretation gc: live_cache push snapshot_from_latest_key gc_config gop_cache_inv
proof
  show "push None c = Some (False, c)" for c
    by (simp add: push_def)
  show "\<exists>c'. push (Some f) c =
            Some (live_accepts (gc_config c) (snapshot_from_latest_key c) f, c') \<and>
          gop_cache_inv c' \<and> gc_config c' = gc_config c \<and>
          snapshot_from_latest_key c' = live_push (gc_config c) (snapshot_from_latest_key c) f"
    if "gop_cache_inv c" for c f
    using push_accepted [OF that, of f] push_rejected [OF that, of f] that
    by (auto simp: live_push_def)
qed

text \<open>The live list is decodable and bounded: this is what a new viewer is sent first.\<close>

definition live_ok :: "gop_cache_config \<Rightarrow> media_frame list \<Rightarrow> bool" where
  "live_ok cfg live \<longleftrightarrow>
     live = [] \<or>
     keyframe (hd live) \<and> list_all (\<lambda>f. \<not> keyframe f) (tl live) \<and>
     list_all (\<lambda>f. mf_type f = Video \<and> frame_size f > 0) live \<and>
     sum_list (map frame_size live) \<le> max_bytes cfg \<and>
     (max_duration_ms cfg > 0 \<longrightarrow>
      list_all (\<lambda>f. mf_pts_ms f - mf_pts_ms (hd live) \<le> max_duration_ms cfg) live)"

lemma live_push_ok: "live_ok cfg live \<Longrightarrow> live_ok cfg (live_push cfg live f)"
  by (cases live) (auto simp: live_ok_def live_push_def live_accepts_def)

lemma foldl_live_push_ok: "live_ok cfg live \<Longrightarrow> live_ok cfg (foldl (live_push cfg) live fs)"
  by (induction fs arbitrary: live) (auto intro: live_push_ok)

section \<open>Properties\<close>

text \<open>
  In every state satisfying the invariant, \<^verbatim>\<open>GopCache::push\<close> of any argument, null included,
  returns (it neither pops an empty deque nor lets the byte counter wrap) and keeps the
  invariant: exact byte counters, groups that start at their only keyframe, and the limits on
  groups, bytes and duration.
\<close>

theorem push_keeps_inv:
  assumes "gop_cache_inv c"
  shows "\<exists>accepted c'. push frame c = Some (accepted, c') \<and> gop_cache_inv c'"
  using gc.push_total [OF assms] .

definition demo_cfg :: gop_cache_config where
  "demo_cfg = \<lparr>max_gops = 1, max_bytes = 5, max_duration_ms = 2000\<rparr>"

definition demo_frame :: "frame_kind \<Rightarrow> int \<Rightarrow> nat \<Rightarrow> media_frame" where
  "demo_frame k pts n = (create_frame Video H264 0 n)\<lparr>mf_kind := k, mf_pts_ms := pts\<rparr>"

theorem push_keeps_inv_witness:
  "gop_cache_inv (new_gop_cache demo_cfg) \<and>
   (\<exists>accepted c'. push (Some (demo_frame Key 0 3)) (new_gop_cache demo_cfg) = Some (accepted, c') \<and>
      gop_cache_inv c')"
  using push_keeps_inv [OF new_gop_cache_inv, of "Some (demo_frame Key 0 3)" demo_cfg]
    new_gop_cache_inv by blast

text \<open>
  C9: refinement of one push.  The cache accepts a frame exactly when the specification on the
  frames since the latest keyframe does (video, non-empty, and either a keyframe that fits or a
  delta frame that keeps the group within the byte and duration limits), and the snapshot it then
  serves is that of the specification: the keyframe alone, the list extended, or unchanged.
\<close>

theorem push_refines_live:
  assumes "gop_cache_inv c"
  shows "\<exists>c'. push (Some f) c =
            Some (live_accepts (gc_config c) (snapshot_from_latest_key c) f, c') \<and>
          gc_config c' = gc_config c \<and>
          snapshot_from_latest_key c' = live_push (gc_config c) (snapshot_from_latest_key c) f"
  using gc.push_frame [OF assms] by blast

theorem push_refines_live_witness:
  "gop_cache_inv (new_gop_cache demo_cfg) \<and>
   (\<exists>c'. push (Some (demo_frame Key 7 3)) (new_gop_cache demo_cfg) = Some (True, c') \<and>
      snapshot_from_latest_key c' = [demo_frame Key 7 3])"
proof -
  have "live_accepts demo_cfg [] (demo_frame Key 7 3)"
    by (simp add: live_accepts_def demo_cfg_def demo_frame_def frame_size_def create_frame_def
        keyframe_def)
  moreover have "live_push demo_cfg [] (demo_frame Key 7 3) = [demo_frame Key 7 3]"
    using calculation by (simp add: live_push_def demo_frame_def keyframe_def)
  ultimately show ?thesis
    using push_refines_live [OF new_gop_cache_inv, of "demo_frame Key 7 3" demo_cfg]
      new_gop_cache_inv [of demo_cfg]
    by auto
qed

text \<open>
  C3: whatever frames are pushed into a fresh cache, in whatever order, the snapshot a new viewer
  gets is decodable and bounded: it is empty or starts at a keyframe, holds no second keyframe,
  is video only, and stays within \<open>max_bytes\<close> and \<open>max_duration_ms\<close>; and it is the fold of the
  specification over the pushed frames.
\<close>

theorem snapshot_decodable:
  "\<exists>c'. run_option (\<lambda>f s. map_option snd (push (Some f) s)) fs (new_gop_cache cfg) = Some c' \<and>
        snapshot_from_latest_key c' = foldl (live_push cfg) [] fs \<and>
        live_ok cfg (snapshot_from_latest_key c')"
proof -
  have "live_ok cfg (foldl (live_push cfg) [] fs)"
    by (rule foldl_live_push_ok) (simp add: live_ok_def)
  then show ?thesis
    using gc.run_live [OF new_gop_cache_inv, of fs cfg] by auto
qed

end
