(* ===== verification/Subscriptions.thy ===== *)
theory Subscriptions
  imports Prelude
begin

text \<open>
  The contract of a subscription registry, which the media source (per stream) and the detection
  source share: a table of handlers under 64-bit identifiers, handed out from a counter that
  starts at 1 so that 0 can mean failure.  The table of the C++ is an \<open>unordered_map\<close>: the model
  keeps an association list, and nothing proved here depends on the order of its entries beyond
  the order being that of the iteration.
\<close>

section \<open>The table\<close>

type_synonym 'h entries = "(u64 \<times> 'h) list"

text \<open>\<^verbatim>\<open>emplace\<close>: no effect when the key is present.\<close>

definition emplace :: "u64 \<Rightarrow> 'h \<Rightarrow> 'h entries \<Rightarrow> 'h entries" where
  "emplace i h es = (if i \<in> fst ` set es then es else es @ [(i, h)])"

definition erase :: "u64 \<Rightarrow> 'h entries \<Rightarrow> 'h entries" where
  "erase i es = filter (\<lambda>e. fst e \<noteq> i) es"

text \<open>Identifiers are distinct, never 0, and below the counter.\<close>

definition entries_ok :: "u64 \<Rightarrow> 'h entries \<Rightarrow> bool" where
  "entries_ok next_id es \<longleftrightarrow>
     next_id \<noteq> 0 \<and> distinct (map fst es) \<and> list_all (\<lambda>e. fst e \<noteq> 0 \<and> fst e < next_id) es"

lemma entries_ok_Nil [simp]: "entries_ok n [] \<longleftrightarrow> n \<noteq> 0"
  by (simp add: entries_ok_def)

lemma word_less_succ: "(n::u64) \<noteq> - 1 \<Longrightarrow> n < n + 1"
proof -
  assume "n \<noteq> - 1"
  then have "n + 1 \<noteq> 0" by (metis add.commute add_eq_0_iff)
  then have "unat (n + 1) = Suc (unat n)" by (simp add: add.commute [of n] unatSuc)
  then show ?thesis by (simp add: word_less_nat_alt)
qed

lemma entries_ok_next:
  "entries_ok n es \<Longrightarrow> n \<notin> fst ` set es"
  by (auto simp: entries_ok_def list_all_iff)

lemma entries_ok_bump:
  assumes "entries_ok n es" and "n \<noteq> - 1"
  shows "entries_ok (n + 1) es"
proof -
  have "n < n + 1" using assms(2) by (rule word_less_succ)
  then have "n + 1 \<noteq> 0" by auto
  with assms(1) \<open>n < n + 1\<close> show ?thesis
    by (auto simp: entries_ok_def list_all_iff intro: less_trans)
qed

lemma entries_ok_emplace:
  assumes "entries_ok n es" and "n \<noteq> - 1"
  shows "entries_ok (n + 1) (emplace n h es)"
  using entries_ok_bump [OF assms] entries_ok_next [OF assms(1)] word_less_succ [OF assms(2)]
    assms(1)
  by (auto simp: entries_ok_def emplace_def)

lemma entries_ok_erase: "entries_ok n es \<Longrightarrow> entries_ok n (erase i es)"
  by (auto simp: entries_ok_def erase_def list_all_iff distinct_map_filter)

lemma erase_absent: "i \<notin> fst ` set es \<Longrightarrow> erase i es = es"
  by (auto simp: erase_def filter_id_conv)

lemma erase_emplace: "entries_ok n es \<Longrightarrow> erase n (emplace n h es) = es"
  using entries_ok_next [of n es] by (auto simp: emplace_def erase_def filter_id_conv)

section \<open>The contract\<close>

locale registry =
  fixes sub :: "'h \<Rightarrow> 's \<Rightarrow> u64 \<times> 's"
    and unsub :: "u64 \<Rightarrow> 's \<Rightarrow> 's"
    and entries :: "'s \<Rightarrow> 'h entries"
    and room :: "'s \<Rightarrow> bool"
    and invar :: "'s \<Rightarrow> bool"
  assumes distinct_ids: "invar s \<Longrightarrow> distinct (map fst (entries s))"
    and sub_invar: "invar s \<Longrightarrow> room s \<Longrightarrow> invar (snd (sub h s))"
    and sub_entries: "invar s \<Longrightarrow> room s \<Longrightarrow>
      entries (snd (sub h s)) =
        (if fst (sub h s) = 0 then entries s else entries s @ [(fst (sub h s), h)])"
    and sub_fresh: "invar s \<Longrightarrow> fst (sub h s) \<notin> fst ` set (entries s)"
    and unsub_invar: "invar s \<Longrightarrow> invar (unsub i s)"
    and unsub_entries: "invar s \<Longrightarrow> entries (unsub i s) = erase i (entries s)"
begin

text \<open>Leaving undoes joining, whatever was registered before.\<close>

lemma unsub_sub:
  assumes "invar s" "room s"
  shows "entries (unsub (fst (sub h s)) (snd (sub h s))) = entries s"
proof -
  have "erase (fst (sub h s)) (entries s) = entries s"
    using sub_fresh [OF assms(1)] by (rule erase_absent)
  then show ?thesis
    using sub_entries [OF assms, of h] unsub_entries [OF sub_invar [OF assms], of _ h]
    by (auto simp: erase_def)
qed

text \<open>Other subscribers are not affected by a departure, and the one that left is gone.\<close>

lemma unsub_others: "invar s \<Longrightarrow> (j, h) \<in> set (entries (unsub i s)) \<longleftrightarrow> j \<noteq> i \<and> (j, h) \<in> set (entries s)"
  by (auto simp: unsub_entries erase_def)

end

end
