(* ===== verification/Detection_Source.thy ===== *)
theory Detection_Source
  imports Subscriptions
begin

text \<open>
  The detection source (src/include/media/detection\_source.h, src/src/media/detection\_source.cpp):
  fan-out of detector results.  \<open>publish\<close> copies the handlers under the lock and calls the copies
  outside it; the model returns the calls in order.  A null \<open>std::function\<close> is \<open>None\<close>.
\<close>

record 'h detection_source =
  ds_next_id :: u64
  ds_handlers :: "'h entries"

definition new_detection_source :: "'h detection_source" where
  "new_detection_source = \<lparr>ds_next_id = 1, ds_handlers = []\<rparr>"

definition ds_subscribe :: "'h option \<Rightarrow> 'h detection_source \<Rightarrow> u64 \<times> 'h detection_source" where
  "ds_subscribe handler d =
     (case handler of
        None \<Rightarrow> (0, d)
      | Some h \<Rightarrow>
          (ds_next_id d,
           d\<lparr>ds_next_id := ds_next_id d + 1,
             ds_handlers := emplace (ds_next_id d) h (ds_handlers d)\<rparr>))"

definition ds_unsubscribe :: "u64 \<Rightarrow> 'h detection_source \<Rightarrow> 'h detection_source" where
  "ds_unsubscribe i d = d\<lparr>ds_handlers := erase i (ds_handlers d)\<rparr>"

definition ds_publish :: "'r \<Rightarrow> 'h detection_source \<Rightarrow> ('h \<times> 'r) list" where
  "ds_publish result d = map (\<lambda>h. (h, result)) (map snd (ds_handlers d))"

definition subscriber_count :: "'h detection_source \<Rightarrow> nat" where
  "subscriber_count d = length (ds_handlers d)"

definition ds_inv :: "'h detection_source \<Rightarrow> bool" where
  "ds_inv d \<longleftrightarrow> entries_ok (ds_next_id d) (ds_handlers d)"

lemma new_detection_source_inv [inv_intros]: "ds_inv new_detection_source"
  by (simp add: ds_inv_def new_detection_source_def)

interpretation det: registry "\<lambda>h. ds_subscribe (Some h)" ds_unsubscribe ds_handlers
    "\<lambda>d. ds_next_id d \<noteq> - 1" ds_inv
proof
  fix s :: "'h detection_source" and h i
  assume inv: "ds_inv s"
  then have nz: "ds_next_id s \<noteq> 0" by (simp add: ds_inv_def entries_ok_def)
  show "distinct (map fst (ds_handlers s))"
    using inv by (simp add: ds_inv_def entries_ok_def)
  show "fst (ds_subscribe (Some h) s) \<notin> fst ` set (ds_handlers s)"
    using inv entries_ok_next by (auto simp: ds_inv_def ds_subscribe_def)
  show "ds_inv (ds_unsubscribe i s)"
    using inv by (simp add: ds_inv_def ds_unsubscribe_def entries_ok_erase)
  show "ds_handlers (ds_unsubscribe i s) = erase i (ds_handlers s)"
    by (simp add: ds_unsubscribe_def)
  assume room: "ds_next_id s \<noteq> - 1"
  show "ds_inv (snd (ds_subscribe (Some h) s))"
    using inv room by (simp add: ds_inv_def ds_subscribe_def entries_ok_emplace)
  show "ds_handlers (snd (ds_subscribe (Some h) s)) =
        (if fst (ds_subscribe (Some h) s) = 0 then ds_handlers s
         else ds_handlers s @ [(fst (ds_subscribe (Some h) s), h)])"
    using inv nz entries_ok_next by (auto simp: ds_inv_def ds_subscribe_def emplace_def)
qed

end
