(* ===== verification/Media_Source.thy ===== *)
theory Media_Source
  imports Gop_Cache Subscriptions
begin

text \<open>
  The media source (src/include/media/media\_source.h, src/src/media/media\_source.cpp): the bus
  between the encoder and the protocol plugins.  Per stream it keeps the tracks, the GOP cache and
  the subscribers; it asks the device to start a stream for the first subscriber and to stop it
  after the last.

  The locks make each method atomic towards the table, so a method is a function on the state.
  Handlers are parameters: \<open>ms_demand_handler\<close> answers from the calls it has had, which the
  auxiliary field \<open>ms_demand_log\<close> records.  Deliveries to subscribers are returned as a list.
\<close>

section \<open>State\<close>

record 'h stream_state =
  ss_video_track :: "stream_track option"
  ss_audio_track :: "stream_track option"
  ss_cache :: gop_cache
  ss_subscribers :: "'h entries"
  ss_snapshot :: "'h list"

text \<open>One call of the demand handler: stream, requested activity, answer.\<close>

type_synonym demand_log = "(int \<times> bool \<times> bool) list"

record 'h media_source =
  ms_channel_id :: int
  ms_cache_config :: gop_cache_config
  ms_next_subscription_id :: u64
  ms_streams :: "int \<Rightarrow> 'h stream_state option"
  ms_keyframe_request_handler :: "(int \<Rightarrow> int \<Rightarrow> bool) option"
  ms_stream_demand_handler :: "(demand_log \<Rightarrow> int \<Rightarrow> int \<Rightarrow> bool \<Rightarrow> bool) option"
  ms_audio_playback_handler :: "(u8 list \<Rightarrow> bool) option"
  ms_demand_log :: demand_log

definition new_media_source :: "int \<Rightarrow> gop_cache_config \<Rightarrow> 'h media_source" where
  "new_media_source chan cfg =
     \<lparr>ms_channel_id = chan, ms_cache_config = cfg, ms_next_subscription_id = 1,
      ms_streams = Map.empty, ms_keyframe_request_handler = None,
      ms_stream_demand_handler = None, ms_audio_playback_handler = None, ms_demand_log = []\<rparr>"

section \<open>Operations\<close>

definition set_keyframe_request_handler ::
  "(int \<Rightarrow> int \<Rightarrow> bool) option \<Rightarrow> 'h media_source \<Rightarrow> 'h media_source" where
  "set_keyframe_request_handler h s = s\<lparr>ms_keyframe_request_handler := h\<rparr>"

definition set_stream_demand_handler ::
  "(demand_log \<Rightarrow> int \<Rightarrow> int \<Rightarrow> bool \<Rightarrow> bool) option \<Rightarrow> 'h media_source \<Rightarrow> 'h media_source" where
  "set_stream_demand_handler h s = s\<lparr>ms_stream_demand_handler := h\<rparr>"

definition set_audio_playback_handler ::
  "(u8 list \<Rightarrow> bool) option \<Rightarrow> 'h media_source \<Rightarrow> 'h media_source" where
  "set_audio_playback_handler h s = s\<lparr>ms_audio_playback_handler := h\<rparr>"

definition new_stream_state :: "gop_cache_config \<Rightarrow> 'h stream_state" where
  "new_stream_state cfg =
     \<lparr>ss_video_track = None, ss_audio_track = None, ss_cache = new_gop_cache cfg,
      ss_subscribers = [], ss_snapshot = []\<rparr>"

definition set_track :: "stream_track \<Rightarrow> 'h media_source \<Rightarrow> 'h media_source" where
  "set_track t s =
     (let st = (case ms_streams s (st_stream_id t) of
                  None \<Rightarrow> new_stream_state (ms_cache_config s)
                | Some st \<Rightarrow> st);
          st' = (if st_type t = Video then st\<lparr>ss_video_track := Some t\<rparr>
                 else st\<lparr>ss_audio_track := Some t\<rparr>)
      in s\<lparr>ms_streams := (ms_streams s)(st_stream_id t \<mapsto> st')\<rparr>)"

definition track :: "int \<Rightarrow> media_type \<Rightarrow> 'h media_source \<Rightarrow> stream_track option" where
  "track sid ty s =
     (case ms_streams s sid of
        None \<Rightarrow> None
      | Some st \<Rightarrow> if ty = Video then ss_video_track st else ss_audio_track st)"

definition gop_snapshot :: "int \<Rightarrow> 'h media_source \<Rightarrow> media_frame list" where
  "gop_snapshot sid s =
     (case ms_streams s sid of None \<Rightarrow> [] | Some st \<Rightarrow> snapshot_from_latest_key (ss_cache st))"

text \<open>
  \<open>publish\<close> returns the answer, the deliveries in order and the new state; \<open>None\<close> only where the
  cache operation is undefined.
\<close>

definition publish ::
  "media_frame option \<Rightarrow> 'h media_source \<Rightarrow> (bool \<times> ('h \<times> media_frame) list \<times> 'h media_source) option"
  where
  "publish frame s =
     (case frame of
        None \<Rightarrow> Some (False, [], s)
      | Some f \<Rightarrow>
          (case ms_streams s (mf_stream_id f) of
             None \<Rightarrow> Some (False, [], s)
           | Some st \<Rightarrow>
               (case (if mf_type f = Video then push (Some f) (ss_cache st)
                      else Some (False, ss_cache st)) of
                  None \<Rightarrow> None
                | Some (_, c') \<Rightarrow>
                    Some (True, map (\<lambda>h. (h, f)) (ss_snapshot st),
                          s\<lparr>ms_streams := (ms_streams s)(mf_stream_id f \<mapsto> st\<lparr>ss_cache := c'\<rparr>)\<rparr>))))"

text \<open>Calling the demand handler, when there is one.\<close>

definition call_demand :: "int \<Rightarrow> bool \<Rightarrow> 'h media_source \<Rightarrow> bool \<times> 'h media_source" where
  "call_demand sid active s =
     (case ms_stream_demand_handler s of
        None \<Rightarrow> (True, s)
      | Some d \<Rightarrow>
          let r = d (ms_demand_log s) (ms_channel_id s) sid active
          in (r, s\<lparr>ms_demand_log := ms_demand_log s @ [(sid, active, r)]\<rparr>))"

definition set_subscribers :: "'h entries \<Rightarrow> 'h stream_state \<Rightarrow> 'h stream_state" where
  "set_subscribers es st = st\<lparr>ss_subscribers := es, ss_snapshot := map snd es\<rparr>"

definition subscribe :: "int \<Rightarrow> 'h option \<Rightarrow> 'h media_source \<Rightarrow> u64 \<times> 'h media_source" where
  "subscribe sid subscriber s =
     (case subscriber of
        None \<Rightarrow> (0, s)
      | Some h \<Rightarrow>
          (case ms_streams s sid of
             None \<Rightarrow> (0, s)
           | Some st \<Rightarrow>
               let (ok, s1) = (if ss_subscribers st = [] then call_demand sid True s else (True, s))
               in if \<not> ok then (0, s1)
                  else (case ms_streams s1 sid of
                          None \<Rightarrow> (0, s1)
                        | Some st1 \<Rightarrow>
                            let i = ms_next_subscription_id s1
                            in (i, s1\<lparr>ms_next_subscription_id := i + 1,
                                      ms_streams := (ms_streams s1)
                                        (sid \<mapsto> set_subscribers (emplace i h (ss_subscribers st1)) st1)\<rparr>))))"

definition unsubscribe :: "int \<Rightarrow> u64 \<Rightarrow> 'h media_source \<Rightarrow> 'h media_source" where
  "unsubscribe sid i s =
     (case ms_streams s sid of
        None \<Rightarrow> s
      | Some st \<Rightarrow>
          if i \<notin> fst ` set (ss_subscribers st) then s
          else
            let es = erase i (ss_subscribers st);
                s1 = s\<lparr>ms_streams := (ms_streams s)(sid \<mapsto> set_subscribers es st)\<rparr>
            in if es = [] then snd (call_demand sid False s1) else s1)"

definition request_keyframe :: "int \<Rightarrow> 'h media_source \<Rightarrow> bool" where
  "request_keyframe sid s =
     (case ms_keyframe_request_handler s of None \<Rightarrow> False | Some h \<Rightarrow> h (ms_channel_id s) sid)"

definition play_g711u :: "u8 list \<Rightarrow> 'h media_source \<Rightarrow> bool" where
  "play_g711u bs s = (case ms_audio_playback_handler s of None \<Rightarrow> False | Some h \<Rightarrow> h bs)"

section \<open>Invariant\<close>

definition stream_ok :: "u64 \<Rightarrow> gop_cache_config \<Rightarrow> 'h stream_state \<Rightarrow> bool" where
  "stream_ok n cfg st \<longleftrightarrow>
     gop_cache_inv (ss_cache st) \<and> gc_config (ss_cache st) = cfg \<and>
     entries_ok n (ss_subscribers st) \<and> ss_snapshot st = map snd (ss_subscribers st)"

definition ms_inv :: "'h media_source \<Rightarrow> bool" where
  "ms_inv s \<longleftrightarrow>
     ms_next_subscription_id s \<noteq> 0 \<and>
     (\<forall>sid st. ms_streams s sid = Some st \<longrightarrow>
        stream_ok (ms_next_subscription_id s) (ms_cache_config s) st)"

definition subscribers_of :: "int \<Rightarrow> 'h media_source \<Rightarrow> 'h entries" where
  "subscribers_of sid s = (case ms_streams s sid of None \<Rightarrow> [] | Some st \<Rightarrow> ss_subscribers st)"

lemma ms_invD: "ms_inv s \<Longrightarrow> ms_streams s sid = Some st \<Longrightarrow>
    stream_ok (ms_next_subscription_id s) (ms_cache_config s) st"
  by (simp add: ms_inv_def)

lemma subscribers_of_ok:
  "ms_inv s \<Longrightarrow> entries_ok (ms_next_subscription_id s) (subscribers_of sid s)"
  by (auto simp: subscribers_of_def stream_ok_def ms_inv_def split: option.splits)

lemma new_media_source_inv [inv_intros]: "ms_inv (new_media_source chan cfg)"
  by (simp add: ms_inv_def new_media_source_def)

text \<open>Replacing one stream by a good one keeps the invariant.\<close>

lemma ms_inv_stream:
  assumes "ms_inv s" and "stream_ok (ms_next_subscription_id s) (ms_cache_config s) st"
  shows "ms_inv (s\<lparr>ms_streams := (ms_streams s)(sid \<mapsto> st)\<rparr>)"
  using assms by (auto simp: ms_inv_def)

lemma call_demand_frame [frame_simps]:
  "ms_streams (snd (call_demand sid a s)) = ms_streams s"
  "ms_next_subscription_id (snd (call_demand sid a s)) = ms_next_subscription_id s"
  "ms_cache_config (snd (call_demand sid a s)) = ms_cache_config s"
  "ms_stream_demand_handler (snd (call_demand sid a s)) = ms_stream_demand_handler s"
  "ms_inv (snd (call_demand sid a s)) = ms_inv s"
  "subscribers_of sid' (snd (call_demand sid a s)) = subscribers_of sid' s"
  by (simp_all add: call_demand_def ms_inv_def subscribers_of_def Let_def split: option.split)

lemma set_track_inv [inv_intros]: "ms_inv s \<Longrightarrow> ms_inv (set_track t s)"
  unfolding set_track_def Let_def
  by (rule ms_inv_stream)
    (auto simp: stream_ok_def new_stream_state_def new_gop_cache_inv ms_inv_def split: option.split)

lemma publish_stream:
  assumes "ms_inv s" and "ms_streams s (mf_stream_id f) = Some st"
  shows "\<exists>c'. publish (Some f) s =
      Some (True, map (\<lambda>e. (snd e, f)) (ss_subscribers st),
            s\<lparr>ms_streams := (ms_streams s)(mf_stream_id f \<mapsto> st\<lparr>ss_cache := c'\<rparr>)\<rparr>) \<and>
    gop_cache_inv c' \<and> gc_config c' = gc_config (ss_cache st) \<and>
    snapshot_from_latest_key c' =
      (if mf_type f = Video
       then live_push (ms_cache_config s) (snapshot_from_latest_key (ss_cache st)) f
       else snapshot_from_latest_key (ss_cache st))"
proof -
  have ok: "gop_cache_inv (ss_cache st)" "gc_config (ss_cache st) = ms_cache_config s"
      "ss_snapshot st = map snd (ss_subscribers st)"
    using ms_invD [OF assms] by (auto simp: stream_ok_def)
  show ?thesis
  proof (cases "mf_type f = Video")
    case True
    with gc.push_frame [OF ok(1), of f] ok assms(2) show ?thesis
      by (auto simp: publish_def)
  next
    case False
    with ok assms(2) show ?thesis
      by (intro exI [of _ "ss_cache st"]) (simp add: publish_def)
  qed
qed

lemma publish_inv [inv_intros]:
  assumes "ms_inv s" and "publish frame s = Some (b, ds, s')"
  shows "ms_inv s'"
proof (cases "\<exists>f st. frame = Some f \<and> ms_streams s (mf_stream_id f) = Some st")
  case True
  then obtain f st where f: "frame = Some f" "ms_streams s (mf_stream_id f) = Some st" by blast
  from publish_stream [OF assms(1) f(2)] assms(2) f(1) obtain c' where
    "s' = s\<lparr>ms_streams := (ms_streams s)(mf_stream_id f \<mapsto> st\<lparr>ss_cache := c'\<rparr>)\<rparr>"
    "gop_cache_inv c'" "gc_config c' = gc_config (ss_cache st)"
    by auto
  with ms_invD [OF assms(1) f(2)] show ?thesis
    by (auto intro!: ms_inv_stream assms(1) simp: stream_ok_def)
next
  case False
  with assms show ?thesis by (cases frame) (auto simp: publish_def split: option.splits)
qed

text \<open>What one \<open>subscribe\<close> does, on each of its branches.\<close>

lemma subscribe_cases:
  assumes "ms_inv s"
  obtains (refused) "fst (subscribe sid sub s) = 0"
      "subscribers_of sid (snd (subscribe sid sub s)) = subscribers_of sid s"
      "ms_streams (snd (subscribe sid sub s)) = ms_streams s"
      "ms_next_subscription_id (snd (subscribe sid sub s)) = ms_next_subscription_id s"
  | (joined) h st where "sub = Some h" "ms_streams s sid = Some st"
      "fst (subscribe sid sub s) = ms_next_subscription_id s"
      "snd (subscribe sid sub s) =
         (let s1 = (if ss_subscribers st = [] then snd (call_demand sid True s) else s)
          in s1\<lparr>ms_next_subscription_id := ms_next_subscription_id s + 1,
                ms_streams := (ms_streams s)(sid \<mapsto> set_subscribers
                  (ss_subscribers st @ [(ms_next_subscription_id s, h)]) st)\<rparr>)"
      "ss_subscribers st = [] \<longrightarrow> fst (call_demand sid True s)"
proof (cases sub)
  case None
  then show ?thesis by (intro refused) (simp_all add: subscribe_def)
next
  case (Some h)
  show ?thesis
  proof (cases "ms_streams s sid")
    case None
    then show ?thesis using Some by (intro refused) (simp_all add: subscribe_def)
  next
    case st: (Some st)
    have fresh: "ms_next_subscription_id s \<notin> fst ` set (ss_subscribers st)"
      using ms_invD [OF assms st] entries_ok_next by (auto simp: stream_ok_def)
    have f: "ms_streams (snd (call_demand sid True s)) sid = Some st"
      using st by (simp add: frame_simps)
    show ?thesis
    proof (cases "ss_subscribers st = [] \<and> \<not> fst (call_demand sid True s)")
      case True
      then have "subscribe sid sub s = (0, snd (call_demand sid True s))"
        using Some st by (simp add: subscribe_def case_prod_beta)
      then show ?thesis by (intro refused) (simp_all add: frame_simps)
    next
      case False
      then show ?thesis using Some st f fresh
        by (intro joined) (auto simp: subscribe_def emplace_def case_prod_beta frame_simps Let_def)
    qed
  qed
qed

lemma ms_inv_bump:
  assumes "ms_inv s" and "ms_next_subscription_id s \<noteq> - 1"
  shows "ms_inv (s\<lparr>ms_next_subscription_id := ms_next_subscription_id s + 1\<rparr>)"
proof -
  have "ms_next_subscription_id s + 1 \<noteq> 0"
    using word_less_succ [OF assms(2)] by auto
  then show ?thesis
    using assms entries_ok_bump by (fastforce simp: ms_inv_def stream_ok_def)
qed

lemma subscribe_inv [inv_intros]:
  assumes "ms_inv s" and "ms_next_subscription_id s \<noteq> - 1"
  shows "ms_inv (snd (subscribe sid sub s))"
  using assms(1)
proof (cases rule: subscribe_cases [of s sid sub])
  case refused
  have "ms_cache_config (snd (subscribe sid sub s)) = ms_cache_config s"
    by (simp add: subscribe_def case_prod_beta frame_simps Let_def split: option.split)
  with refused assms(1) show ?thesis by (simp add: ms_inv_def)
next
  case (joined h st)
  have ok: "stream_ok (ms_next_subscription_id s) (ms_cache_config s) st"
    using ms_invD [OF assms(1) joined(2)] .
  let ?n = "ms_next_subscription_id s"
  have "stream_ok (?n + 1) (ms_cache_config s)
      (set_subscribers (ss_subscribers st @ [(?n, h)]) st)"
    using ok entries_ok_emplace [OF _ assms(2), of "ss_subscribers st" h]
      entries_ok_next [of ?n "ss_subscribers st"]
    by (auto simp: stream_ok_def set_subscribers_def emplace_def)
  with ms_inv_bump [OF assms] show ?thesis
    unfolding joined(4) Let_def by (auto simp: ms_inv_def frame_simps)
qed

lemma unsubscribe_inv [inv_intros]:
  assumes "ms_inv s"
  shows "ms_inv (unsubscribe sid i s)"
proof (cases "ms_streams s sid")
  case None
  then show ?thesis using assms by (simp add: unsubscribe_def)
next
  case (Some st)
  have "ms_inv (s\<lparr>ms_streams := (ms_streams s)(sid \<mapsto> set_subscribers (erase i (ss_subscribers st)) st)\<rparr>)"
    using ms_invD [OF assms Some]
    by (intro ms_inv_stream assms) (simp add: stream_ok_def set_subscribers_def entries_ok_erase)
  then show ?thesis
    using assms Some by (auto simp: unsubscribe_def frame_simps Let_def)
qed

lemma unsubscribe_subscribers:
  "subscribers_of sid (unsubscribe sid i s) = erase i (subscribers_of sid s)"
  by (auto simp: unsubscribe_def subscribers_of_def set_subscribers_def Let_def erase_absent
      call_demand_def split: option.splits)

lemma subscribe_subscribers:
  assumes "ms_inv s"
  shows "subscribers_of sid (snd (subscribe sid (Some h) s)) =
     (if fst (subscribe sid (Some h) s) = 0 then subscribers_of sid s
      else subscribers_of sid s @ [(fst (subscribe sid (Some h) s), h)])"
  using assms
proof (cases rule: subscribe_cases [of s sid "Some h"])
  case refused
  then show ?thesis by simp
next
  case (joined h' st)
  then show ?thesis using assms
    by (auto simp: subscribers_of_def set_subscribers_def Let_def ms_inv_def)
qed

interpretation stream: registry "\<lambda>h. subscribe sid (Some h)" "unsubscribe sid"
    "subscribers_of sid" "\<lambda>s. ms_next_subscription_id s \<noteq> - 1" ms_inv for sid
proof
  fix s :: "'h media_source" and h i
  assume inv: "ms_inv s"
  show "distinct (map fst (subscribers_of sid s))"
    using subscribers_of_ok [OF inv] by (simp add: entries_ok_def)
  show "fst (subscribe sid (Some h) s) \<notin> fst ` set (subscribers_of sid s)"
    using inv
  proof (cases rule: subscribe_cases [of s sid "Some h"])
    case refused
    then show ?thesis using subscribers_of_ok [OF inv, of sid]
      by (auto simp: entries_ok_def list_all_iff)
  next
    case (joined h' st)
    then show ?thesis using entries_ok_next [OF subscribers_of_ok [OF inv]] by simp
  qed
  show "ms_inv (unsubscribe sid i s)" using inv by (rule unsubscribe_inv)
  show "subscribers_of sid (unsubscribe sid i s) = erase i (subscribers_of sid s)"
    by (rule unsubscribe_subscribers)
  assume "ms_next_subscription_id s \<noteq> - 1"
  then show "ms_inv (snd (subscribe sid (Some h) s))" using inv by (intro subscribe_inv)
  show "subscribers_of sid (snd (subscribe sid (Some h) s)) =
     (if fst (subscribe sid (Some h) s) = 0 then subscribers_of sid s
      else subscribers_of sid s @ [(fst (subscribe sid (Some h) s), h)])"
    using inv by (rule subscribe_subscribers)
qed

section \<open>Demand on the device\<close>

text \<open>What the device has last been told about a stream: on, if the last call asked for it and
  was granted.\<close>

fun demanded :: "int \<Rightarrow> demand_log \<Rightarrow> bool" where
  "demanded sid calls =
     foldl (\<lambda>d (i, active, answer). if i = sid then active \<and> answer else d) False calls"

declare demanded.simps [simp del]

lemma demanded_Nil [simp]: "\<not> demanded sid []"
  by (simp add: demanded.simps)

lemma demanded_snoc [simp]:
  "demanded sid (calls @ [(i, a, r)]) = (if i = sid then a \<and> r else demanded sid calls)"
  by (simp add: demanded.simps)

definition demand_agrees :: "'h media_source \<Rightarrow> bool" where
  "demand_agrees s \<longleftrightarrow>
     ms_stream_demand_handler s \<noteq> None \<longrightarrow>
     (\<forall>sid. demanded sid (ms_demand_log s) \<longleftrightarrow> subscribers_of sid s \<noteq> [])"

text \<open>The calls a running system makes, one step each.  The identifier counter of a step that
  subscribes is not yet exhausted (64 bits).\<close>

inductive ms_step :: "'h media_source \<Rightarrow> 'h media_source \<Rightarrow> bool" where
  step_track: "ms_step s (set_track t s)"
| step_publish: "publish frame s = Some (b, ds, s') \<Longrightarrow> ms_step s s'"
| step_subscribe: "ms_next_subscription_id s \<noteq> - 1 \<Longrightarrow> ms_step s (snd (subscribe sid sub s))"
| step_unsubscribe: "ms_step s (unsubscribe sid i s)"

inductive ms_reachable :: "'h media_source \<Rightarrow> 'h media_source \<Rightarrow> bool" for s0 where
  reach_start: "ms_reachable s0 s0"
| reach_step: "ms_reachable s0 s \<Longrightarrow> ms_step s s' \<Longrightarrow> ms_reachable s0 s'"

inductive_cases ms_stepE: "ms_step s s'"

lemma ms_step_inv: "ms_step s s' \<Longrightarrow> ms_inv s \<Longrightarrow> ms_inv s'"
  by (erule ms_stepE) (auto intro: inv_intros)

lemma set_track_demand: "demand_agrees s \<Longrightarrow> demand_agrees (set_track t s)"
  by (auto simp: demand_agrees_def set_track_def subscribers_of_def new_stream_state_def Let_def
      split: option.splits)

lemma publish_frame:
  "publish frame s = Some (b, ds, s') \<Longrightarrow>
   subscribers_of sid s' = subscribers_of sid s \<and> ms_demand_log s' = ms_demand_log s \<and>
   ms_stream_demand_handler s' = ms_stream_demand_handler s"
  by (cases frame) (auto simp: publish_def subscribers_of_def split: option.splits if_splits)

lemma publish_demand:
  "publish frame s = Some (b, ds, s') \<Longrightarrow> demand_agrees s \<Longrightarrow> demand_agrees s'"
  by (simp add: demand_agrees_def publish_frame)

lemma subscribe_demand:
  assumes "ms_inv s" "demand_agrees s"
  shows "demand_agrees (snd (subscribe sid sub s))"
  using assms(1)
proof (cases rule: subscribe_cases [of s sid sub])
  case refused
  show ?thesis
  proof (cases "snd (subscribe sid sub s) = s")
    case False
    then obtain h st where h: "sub = Some h" "ms_streams s sid = Some st"
      by (auto simp: subscribe_def split: option.splits)
    with False refused(1) assms(1) have e: "ss_subscribers st = []"
        "snd (subscribe sid sub s) = snd (call_demand sid True s)" "\<not> fst (call_demand sid True s)"
      by (auto simp: subscribe_def case_prod_beta frame_simps Let_def ms_inv_def
          split: if_splits option.splits)
    then show ?thesis using assms(2) h(2)
      by (auto simp: demand_agrees_def call_demand_def subscribers_of_def Let_def
          split: option.splits)
  qed (use assms in simp)
next
  case (joined h st)
  show ?thesis
    using assms(2) joined(2,5) unfolding joined(4) Let_def
    by (auto simp: demand_agrees_def set_subscribers_def call_demand_def subscribers_of_def Let_def
        split: option.splits)
qed

lemma unsubscribe_demand:
  assumes "demand_agrees s"
  shows "demand_agrees (unsubscribe sid i s)"
proof (cases "ms_streams s sid")
  case None
  then show ?thesis using assms by (simp add: unsubscribe_def)
next
  case (Some st)
  show ?thesis
    using assms Some
    by (auto simp: demand_agrees_def unsubscribe_def subscribers_of_def set_subscribers_def
        call_demand_def Let_def split: option.splits)
qed

lemma ms_step_demand: "ms_step s s' \<Longrightarrow> ms_inv s \<Longrightarrow> demand_agrees s \<Longrightarrow> demand_agrees s'"
  by (erule ms_stepE)
    (auto intro: set_track_demand publish_demand subscribe_demand unsubscribe_demand)

lemma ms_reachable_ok:
  assumes "ms_reachable s0 s" and "ms_inv s0" and "demand_agrees s0"
  shows "ms_inv s \<and> demand_agrees s"
  using assms by (induction rule: ms_reachable.induct) (auto intro: ms_step_inv ms_step_demand)

lemma start_demand:
  "demand_agrees (set_stream_demand_handler d (new_media_source chan cfg))"
  "ms_inv (set_stream_demand_handler d (new_media_source chan cfg))"
  by (simp_all add: demand_agrees_def set_stream_demand_handler_def new_media_source_def
      subscribers_of_def ms_inv_def)

section \<open>Properties\<close>

text \<open>
  C1: in every state reachable from a fresh media source whose demand handler is installed, through
  any interleaving of \<open>set_track\<close>, \<open>publish\<close>, \<open>subscribe\<close> and \<open>unsubscribe\<close>, the device has been
  asked to run a stream, and has granted it, exactly when the stream has a subscriber; the caches
  and the subscription tables satisfy their invariants there.
\<close>

theorem stream_active_iff_subscribed:
  assumes "ms_reachable (set_stream_demand_handler (Some d) (new_media_source chan cfg)) s"
    and "ms_stream_demand_handler s = Some d"
  shows "(demanded sid (ms_demand_log s) \<longleftrightarrow> subscribers_of sid s \<noteq> []) \<and> ms_inv s"
  using ms_reachable_ok [OF assms(1) start_demand(2,1)] assms(2)
  by (auto simp: demand_agrees_def)

definition demo_track :: stream_track where
  "demo_track = \<lparr>st_stream_id = 0, st_type = Video, st_clock_rate = 90000,
     st_video = \<lparr>vf_codec = H264, vf_width = 1920, vf_height = 1080, vf_frame_rate = 30,
                 vf_extradata = []\<rparr>,
     st_audio = \<lparr>af_codec = Codec_Unknown, af_sample_rate = 0, af_channels = 0,
                 af_bits_per_sample = 0, af_extradata = []\<rparr>\<rparr>"

definition demo_source :: "nat media_source" where
  "demo_source =
     set_track demo_track
       (set_stream_demand_handler (Some (\<lambda>_ _ _ _. True)) (new_media_source 0 demo_cfg))"

lemma demo_source_reachable:
  "ms_reachable (set_stream_demand_handler (Some (\<lambda>_ _ _ _. True)) (new_media_source 0 demo_cfg))
     demo_source"
  unfolding demo_source_def
  by (rule ms_reachable.reach_step [OF ms_reachable.reach_start ms_step.step_track])

lemma demo_source_handler: "ms_stream_demand_handler demo_source = Some (\<lambda>_ _ _ _. True)"
  by (simp add: demo_source_def set_track_def set_stream_demand_handler_def new_media_source_def
      Let_def)

lemma demo_source_next: "ms_next_subscription_id demo_source = 1"
  by (simp add: demo_source_def set_track_def set_stream_demand_handler_def new_media_source_def
      Let_def)

lemma demo_source_inv: "ms_inv demo_source"
  unfolding demo_source_def by (rule set_track_inv) (rule start_demand)

lemma demo_subscribe: "fst (subscribe 0 (Some h) demo_source) = 1"
proof -
  have "ms_streams demo_source 0 \<noteq> None"
    by (simp add: demo_source_def set_track_def demo_track_def Let_def)
  then show ?thesis
    by (auto simp: subscribe_def demo_source_handler demo_source_next call_demand_def Let_def case_prod_beta)
qed

text \<open>The source with one subscriber.\<close>

definition demo_watched :: "nat media_source" where
  "demo_watched = snd (subscribe 0 (Some 7) demo_source)"

lemma demo_watched_facts:
  "ms_inv demo_watched" "ms_streams demo_watched 0 \<noteq> None" "subscribers_of 0 demo_watched = [(1, 7)]"
proof -
  have "subscribers_of 0 demo_source = []"
    by (simp add: subscribers_of_def demo_source_def set_track_def demo_track_def new_stream_state_def
        set_stream_demand_handler_def new_media_source_def Let_def)
  then show subs: "subscribers_of 0 demo_watched = [(1, 7)]"
    using subscribe_subscribers [OF demo_source_inv, of 0 7] by (simp add: demo_watched_def demo_subscribe)
  then show "ms_streams demo_watched 0 \<noteq> None" by (auto simp: subscribers_of_def split: option.splits)
  show "ms_inv demo_watched"
    unfolding demo_watched_def using demo_source_inv by (rule subscribe_inv) (simp add: demo_source_next)
qed

theorem stream_active_iff_subscribed_witness:
  "(demanded 0 (ms_demand_log (snd (subscribe 0 (Some 7) demo_source))) \<longleftrightarrow>
    subscribers_of 0 (snd (subscribe 0 (Some 7) demo_source)) \<noteq> []) \<and>
   ms_inv (snd (subscribe 0 (Some 7) demo_source))"
proof (rule stream_active_iff_subscribed)
  show "ms_reachable
      (set_stream_demand_handler (Some (\<lambda>_ _ _ _. True)) (new_media_source 0 demo_cfg))
      (snd (subscribe 0 (Some 7) demo_source))"
    by (rule ms_reachable.reach_step [OF demo_source_reachable ms_step.step_subscribe])
      (simp add: demo_source_next)
  show "ms_stream_demand_handler (snd (subscribe 0 (Some 7) demo_source)) =
      Some (\<lambda>_ _ _ _. True)"
    by (simp add: subscribe_def demo_source_handler case_prod_beta frame_simps Let_def
        split: option.split)
qed

text \<open>
  C13: publishing on a registered stream reaches every current subscriber exactly once and nobody
  else, in table order, whatever the frame; and the GOP snapshot of the stream follows the
  specification of the cache (audio frames leave it alone).
\<close>

theorem publish_delivers:
  assumes "ms_inv s" and "ms_streams s (mf_stream_id f) \<noteq> None"
  shows "\<exists>s'. publish (Some f) s =
            Some (True, map (\<lambda>e. (snd e, f)) (subscribers_of (mf_stream_id f) s), s') \<and>
          ms_inv s' \<and>
          subscribers_of (mf_stream_id f) s' = subscribers_of (mf_stream_id f) s \<and>
          gop_snapshot (mf_stream_id f) s' =
            (if mf_type f = Video
             then live_push (ms_cache_config s) (gop_snapshot (mf_stream_id f) s) f
             else gop_snapshot (mf_stream_id f) s)"
proof -
  obtain st where st: "ms_streams s (mf_stream_id f) = Some st" using assms(2) by blast
  from publish_stream [OF assms(1) st] obtain c' where
    p: "publish (Some f) s =
      Some (True, map (\<lambda>e. (snd e, f)) (ss_subscribers st),
            s\<lparr>ms_streams := (ms_streams s)(mf_stream_id f \<mapsto> st\<lparr>ss_cache := c'\<rparr>)\<rparr>)"
    and c: "snapshot_from_latest_key c' =
      (if mf_type f = Video
       then live_push (ms_cache_config s) (snapshot_from_latest_key (ss_cache st)) f
       else snapshot_from_latest_key (ss_cache st))"
    by blast
  show ?thesis
    using p c st publish_inv [OF assms(1) p] by (simp add: subscribers_of_def gop_snapshot_def)
qed

theorem publish_delivers_witness:
  "ms_inv demo_source \<and> ms_streams demo_source 0 \<noteq> None \<and>
   (\<exists>s'. publish (Some (demo_frame Key 7 3)) demo_source =
      Some (True, map (\<lambda>e. (snd e, demo_frame Key 7 3)) (subscribers_of 0 demo_source), s'))"
proof -
  have "ms_streams demo_source 0 \<noteq> None" and "mf_stream_id (demo_frame Key 7 3) = 0"
    by (simp_all add: demo_source_def set_track_def demo_track_def demo_frame_def create_frame_def
        Let_def)
  then show ?thesis
    using publish_delivers [OF demo_source_inv, of "demo_frame Key 7 3"] demo_source_inv by auto
qed

text \<open>
  Leaving undoes joining.  Unsubscribing with the identifier that \<open>subscribe\<close> returned gives
  back the subscribers the stream had before, also when the subscription was refused (the
  identifier is then 0, which no subscriber holds).
\<close>

theorem unsubscribe_undoes_subscribe:
  assumes "ms_inv s" and "ms_next_subscription_id s \<noteq> - 1"
  shows "subscribers_of sid
           (unsubscribe sid (fst (subscribe sid (Some h) s)) (snd (subscribe sid (Some h) s)))
         = subscribers_of sid s"
  using stream.unsub_sub [OF assms] .

theorem unsubscribe_undoes_subscribe_witness:
  "ms_inv demo_source \<and> ms_next_subscription_id demo_source \<noteq> - 1 \<and>
   subscribers_of 0
     (unsubscribe 0 (fst (subscribe 0 (Some 7) demo_source)) (snd (subscribe 0 (Some 7) demo_source)))
   = subscribers_of 0 demo_source"
proof -
  have "ms_next_subscription_id demo_source \<noteq> - 1" by (simp add: demo_source_next)
  from demo_source_inv this unsubscribe_undoes_subscribe [OF demo_source_inv this, of 0 7]
  show ?thesis by blast
qed

end
