(* ===== verification/Application.thy ===== *)
theory Application
  imports Prelude
begin

text \<open>
  The composition root (src/include/core/application.h, src/src/core/application.cpp): starts the
  device and then the protocol plugins, rolls back when one of them fails, and stops them in two
  phases around the release of the device.

  The device and the plugins are interfaces: the answers of their \<open>start\<close> methods are a parameter
  \<open>answer\<close> of the model, a function of the calls made so far and of the call itself.  A plugin is
  known by its index; the list \<open>app_protocols\<close> holds its constant \<open>stop_after_device()\<close>.  The
  auxiliary field \<open>app_calls\<close> records the calls in order.
\<close>

section \<open>State\<close>

datatype app_call =
    Dev_set_detection_source
  | Dev_start
  | Dev_stop
  | Proto_start nat
  | Proto_stop nat

type_synonym answers = "app_call list \<Rightarrow> app_call \<Rightarrow> bool"

record application =
  app_device :: bool
  app_protocols :: "bool list"
  app_media :: bool
  app_started_protocol_count :: nat
  app_device_started :: bool
  app_running :: bool
  app_calls :: "app_call list"

definition new_application :: "bool \<Rightarrow> application" where
  "new_application device =
     \<lparr>app_device = device, app_protocols = [], app_media = False,
      app_started_protocol_count = 0, app_device_started = False, app_running = False,
      app_calls = []\<rparr>"

definition app_log :: "app_call list \<Rightarrow> application \<Rightarrow> application" where
  "app_log cs a = a\<lparr>app_calls := app_calls a @ cs\<rparr>"

section \<open>Operations\<close>

definition add_protocol :: "bool option \<Rightarrow> application \<Rightarrow> application" where
  "add_protocol protocol a =
     (case protocol of
        None \<Rightarrow> a
      | Some after_device \<Rightarrow> a\<lparr>app_protocols := app_protocols a @ [after_device]\<rparr>)"

text \<open>The indices of the started plugins, last first: the loops \<^verbatim>\<open>for (i = count; i > 0; --i)\<close>.\<close>

definition started_rev :: "application \<Rightarrow> nat list" where
  "started_rev a = rev [0..<app_started_protocol_count a]"

text \<open>The failing iteration of the start loop: stop the plugin itself, those before it in reverse
  order, and the device.\<close>

definition start_rollback :: "nat \<Rightarrow> application \<Rightarrow> application" where
  "start_rollback i a =
     (let a1 = app_log (Proto_stop i # map Proto_stop (started_rev a)) a;
          a2 = a1\<lparr>app_started_protocol_count := 0\<rparr>;
          a3 = (if app_device_started a2 then (app_log [Dev_stop] a2)\<lparr>app_device_started := False\<rparr>
                else a2)
      in a3\<lparr>app_media := False\<rparr>)"

fun start_protocols :: "answers \<Rightarrow> nat list \<Rightarrow> application \<Rightarrow> bool \<times> application" where
  "start_protocols answer [] a = (True, a)"
| "start_protocols answer (i # is) a =
     (let ok = answer (app_calls a) (Proto_start i);
          a1 = app_log [Proto_start i] a
      in if \<not> ok then (False, start_rollback i a1)
         else start_protocols answer is
                (a1\<lparr>app_started_protocol_count := app_started_protocol_count a1 + 1\<rparr>))"

definition app_start :: "answers \<Rightarrow> application \<Rightarrow> bool \<times> application" where
  "app_start answer a =
     (if app_running a then (True, a)
      else if \<not> app_device a then (False, a)
      else
        let a1 = app_log [Dev_set_detection_source] (a\<lparr>app_media := True\<rparr>);
            ok = answer (app_calls a1) Dev_start;
            a2 = app_log [Dev_start] a1
        in if \<not> ok then (False, a2\<lparr>app_media := False\<rparr>)
           else
             (case start_protocols answer [0..<length (app_protocols a2)]
                     (a2\<lparr>app_device_started := True\<rparr>) of
                (False, a3) \<Rightarrow> (False, a3)
              | (True, a3) \<Rightarrow> (True, a3\<lparr>app_running := True\<rparr>)))"

definition stop_media :: "application \<Rightarrow> application" where
  "stop_media a =
     (let a1 = app_log (map Proto_stop (filter (\<lambda>i. \<not> app_protocols a ! i) (started_rev a))) a
      in if app_device_started a1 \<and> app_device a1
         then (app_log [Dev_stop] a1)\<lparr>app_device_started := False\<rparr>
         else a1)"

definition stop_network :: "application \<Rightarrow> application" where
  "stop_network a =
     (app_log (map Proto_stop (filter (\<lambda>i. app_protocols a ! i) (started_rev a))) a)
       \<lparr>app_started_protocol_count := 0, app_media := False, app_running := False\<rparr>"

definition app_stop :: "application \<Rightarrow> application" where
  "app_stop a = stop_network (stop_media a)"

section \<open>Invariant\<close>

text \<open>Plugin indices are in range; when the application does not run, nothing is held.\<close>

definition app_inv :: "application \<Rightarrow> bool" where
  "app_inv a \<longleftrightarrow>
     app_started_protocol_count a \<le> length (app_protocols a) \<and>
     (app_device_started a \<longrightarrow> app_device a) \<and>
     (\<not> app_running a \<longrightarrow>
        app_started_protocol_count a = 0 \<and> \<not> app_device_started a \<and> \<not> app_media a)"

definition idle :: "application \<Rightarrow> bool" where
  "idle a \<longleftrightarrow> \<not> app_running a \<and> \<not> app_media a \<and> \<not> app_device_started a \<and>
     app_started_protocol_count a = 0"

lemma app_log_simps [simp]:
  "app_calls (app_log cs a) = app_calls a @ cs"
  "app_protocols (app_log cs a) = app_protocols a"
  "app_device (app_log cs a) = app_device a"
  "app_media (app_log cs a) = app_media a"
  "app_running (app_log cs a) = app_running a"
  "app_device_started (app_log cs a) = app_device_started a"
  "app_started_protocol_count (app_log cs a) = app_started_protocol_count a"
  by (simp_all add: app_log_def)

lemma new_application_inv [inv_intros]: "app_inv (new_application d)"
  by (simp add: app_inv_def new_application_def)

lemma add_protocol_inv [inv_intros]: "app_inv a \<Longrightarrow> app_inv (add_protocol p a)"
  by (auto simp: app_inv_def add_protocol_def split: option.split)

text \<open>
  The start loop, from a state in which exactly the plugins below the first index are started:
  it starts a prefix, and where it fails it stops exactly that prefix and the failing plugin.
\<close>

lemma start_protocols_spec:
  assumes "app_started_protocol_count a = k" "app_device_started a" "app_media a"
    "\<not> app_running a"
  shows "(\<exists>a'. start_protocols answer [k..<k + m] a = (True, a') \<and>
            a' = app_log (map Proto_start [k..<k + m]) (a\<lparr>app_started_protocol_count := k + m\<rparr>)) \<or>
         (\<exists>j a'. k \<le> j \<and> j < k + m \<and> start_protocols answer [k..<k + m] a = (False, a') \<and>
            a' = (app_log (map Proto_start [k..<Suc j] @ map Proto_stop (rev [0..<Suc j]) @ [Dev_stop]) a)
                   \<lparr>app_started_protocol_count := 0, app_device_started := False, app_media := False\<rparr>)"
  using assms
proof (induction m arbitrary: k a)
  case 0
  then show ?case by (simp add: app_log_def)
next
  case (Suc m)
  let ?a = "app_log [Proto_start k] a"
  have range: "[k..<k + Suc m] = k # [Suc k..<Suc k + m]"
    by (simp add: upt_conv_Cons)
  show ?case
  proof (cases "answer (app_calls a) (Proto_start k)")
    case False
    have "start_rollback k ?a =
        (app_log (Proto_start k # Proto_stop k # map Proto_stop (rev [0..<k]) @ [Dev_stop]) a)
          \<lparr>app_started_protocol_count := 0, app_device_started := False, app_media := False\<rparr>"
      using Suc.prems by (simp add: start_rollback_def started_rev_def Let_def app_log_def)
    with False show ?thesis unfolding range
      by (intro disjI2 exI [of _ k]) (simp add: Let_def)
  next
    case True
    let ?b = "?a\<lparr>app_started_protocol_count := Suc k\<rparr>"
    have step: "start_protocols answer [k..<k + Suc m] a = start_protocols answer [Suc k..<Suc k + m] ?b"
      unfolding range using True Suc.prems(1) by (simp add: Let_def)
    from Suc.IH [of ?b "Suc k"] Suc.prems consider
      (all) "start_protocols answer [Suc k..<Suc k + m] ?b =
        (True, app_log (map Proto_start [Suc k..<Suc k + m])
                 (?b\<lparr>app_started_protocol_count := Suc k + m\<rparr>))"
    | (fail) j where "Suc k \<le> j" "j < Suc k + m"
        "start_protocols answer [Suc k..<Suc k + m] ?b =
          (False, (app_log (map Proto_start [Suc k..<Suc j] @ map Proto_stop (rev [0..<Suc j]) @ [Dev_stop]) ?b)
             \<lparr>app_started_protocol_count := 0, app_device_started := False, app_media := False\<rparr>)"
      by auto
    then show ?thesis
    proof cases
      case all
      then show ?thesis unfolding step unfolding range
        by (intro disjI1) (simp add: app_log_def del: upt_Suc)
    next
      case (fail j)
      have "Proto_start k # map Proto_start [Suc k..<Suc j] = map Proto_start [k..<Suc j]"
        using fail(1) by (simp add: upt_conv_Cons del: upt_Suc)
      with fail show ?thesis unfolding step
        by (intro disjI2 exI [of _ j]) (simp add: app_log_def del: upt_Suc)
    qed
  qed
qed

text \<open>Both outcomes of \<open>app_start\<close> from an idle application with a device.\<close>

lemma app_start_cases:
  assumes "idle a" "app_device a"
  obtains (device_failed)
      "app_start answer a = (False, app_log [Dev_set_detection_source, Dev_start] a)"
  | (protocol_failed) j where "j < length (app_protocols a)"
      "app_start answer a =
        (False, app_log ([Dev_set_detection_source, Dev_start] @ map Proto_start [0..<Suc j] @
                         map Proto_stop (rev [0..<Suc j]) @ [Dev_stop]) a)"
  | (started)
      "app_start answer a =
        (True, (app_log ([Dev_set_detection_source, Dev_start] @
                         map Proto_start [0..<length (app_protocols a)]) a)
           \<lparr>app_media := True, app_device_started := True, app_running := True,
            app_started_protocol_count := length (app_protocols a)\<rparr>)"
proof (cases "answer (app_calls a @ [Dev_set_detection_source]) Dev_start")
  case False
  with assms show ?thesis
    by (intro device_failed) (simp add: app_start_def idle_def Let_def app_log_def)
next
  case True
  let ?n = "length (app_protocols a)"
  let ?b = "(app_log [Dev_set_detection_source, Dev_start] a)
    \<lparr>app_media := True, app_device_started := True\<rparr>"
  have start: "app_start answer a = (case start_protocols answer [0..<?n] ?b of
      (False, c) \<Rightarrow> (False, c) | (True, c) \<Rightarrow> (True, c\<lparr>app_running := True\<rparr>))"
    using True assms by (cases a) (simp add: app_start_def idle_def Let_def app_log_def)
  have "app_started_protocol_count ?b = 0" "app_device_started ?b" "app_media ?b" "\<not> app_running ?b"
    using assms by (simp_all add: idle_def)
  from start_protocols_spec [OF this, of answer ?n] consider
    (all) "start_protocols answer [0..<?n] ?b =
       (True, app_log (map Proto_start [0..<?n]) (?b\<lparr>app_started_protocol_count := ?n\<rparr>))"
  | (fail) j where "j < ?n" "start_protocols answer [0..<?n] ?b =
       (False, (app_log (map Proto_start [0..<Suc j] @ map Proto_stop (rev [0..<Suc j]) @ [Dev_stop]) ?b)
          \<lparr>app_started_protocol_count := 0, app_device_started := False, app_media := False\<rparr>)"
    by auto
  then show ?thesis
  proof cases
    case all
    then show ?thesis using start by (intro started) (simp add: app_log_def)
  next
    case (fail j)
    moreover have "a\<lparr>app_calls := cs, app_started_protocol_count := 0,
        app_device_started := False, app_media := False\<rparr> = a\<lparr>app_calls := cs\<rparr>" for cs
      using assms(1) by (cases a) (simp add: idle_def)
    ultimately show ?thesis using start
      by (intro protocol_failed [of j]) (simp_all add: app_log_def del: upt_Suc)
  qed
qed

lemma app_inv_idle: "app_inv a \<Longrightarrow> \<not> app_running a \<Longrightarrow> idle a"
  by (simp add: app_inv_def idle_def)

lemma app_log_inv [simp]: "app_inv (app_log cs a) = app_inv a" "idle (app_log cs a) = idle a"
  by (simp_all add: app_inv_def idle_def)

lemma app_start_inv [inv_intros]:
  assumes "app_inv a"
  shows "app_inv (snd (app_start answer a))"
proof (cases "\<not> app_running a \<and> app_device a")
  case True
  then have "idle a" "app_device a" using assms by (simp_all add: app_inv_idle)
  then show ?thesis
  proof (cases rule: app_start_cases [of a answer])
    case started
    then show ?thesis using assms True by (simp add: app_inv_def)
  qed (use assms in auto)
next
  case False
  then show ?thesis using assms by (auto simp: app_start_def)
qed

lemma stop_media_inv [inv_intros]: "app_inv a \<Longrightarrow> app_inv (stop_media a)"
  by (auto simp: stop_media_def app_inv_def Let_def)

lemma app_stop_idle: "app_inv a \<Longrightarrow> idle (app_stop a) \<and> app_inv (app_stop a)"
  by (auto simp: app_stop_def stop_network_def stop_media_def idle_def app_inv_def Let_def)

lemma app_stop_calls:
  assumes "app_inv a"
  shows "app_calls (app_stop a) = app_calls a @
     map Proto_stop (filter (\<lambda>i. \<not> app_protocols a ! i) (started_rev a)) @
     (if app_device_started a then [Dev_stop] else []) @
     map Proto_stop (filter (\<lambda>i. app_protocols a ! i) (started_rev a))"
  using assms by (auto simp: app_stop_def stop_network_def stop_media_def started_rev_def app_inv_def
      Let_def)

section \<open>Properties\<close>

text \<open>
  C6: start is all or nothing.  From an idle application it either succeeds, with the device and
  then every plugin started in order and all of them recorded as started; or it fails and the
  application is idle again, where the calls made are exactly: none (no device); the device start
  alone; or, for the first plugin \<open>j\<close> that refuses, the starts up to \<open>j\<close>, the stops of \<open>j\<close> down to
  0, and the stop of the device.
\<close>

theorem start_all_or_nothing:
  assumes "idle a" and "app_start answer a = (ok, a')"
  shows "(ok \<and> app_running a' \<and> app_device_started a' \<and>
            app_started_protocol_count a' = length (app_protocols a) \<and>
            app_calls a' = app_calls a @ [Dev_set_detection_source, Dev_start] @
                           map Proto_start [0..<length (app_protocols a)]) \<or>
         (\<not> ok \<and> idle a' \<and>
            (app_calls a' = app_calls a \<or>
             app_calls a' = app_calls a @ [Dev_set_detection_source, Dev_start] \<or>
             (\<exists>j < length (app_protocols a).
                app_calls a' = app_calls a @ [Dev_set_detection_source, Dev_start] @
                  map Proto_start [0..<Suc j] @ map Proto_stop (rev [0..<Suc j]) @ [Dev_stop])))"
proof (cases "app_device a")
  case False
  with assms show ?thesis by (auto simp: app_start_def idle_def)
next
  case True
  with assms(1) show ?thesis
  proof (cases rule: app_start_cases [of a answer])
    case (protocol_failed j)
    then show ?thesis using assms by (auto simp del: upt_Suc)
  qed (use assms in auto)
qed

definition demo_app :: application where
  "demo_app = add_protocol (Some True) (add_protocol (Some False) (new_application True))"

lemma demo_app_simps [simp]:
  "idle demo_app" "app_inv demo_app" "app_calls demo_app = []" "app_protocols demo_app = [False, True]"
  "app_device demo_app"
  by (simp_all add: demo_app_def add_protocol_def new_application_def idle_def app_inv_def)

theorem start_all_or_nothing_witness:
  "idle (snd (app_start (\<lambda>_ c. c \<noteq> Proto_start 1) demo_app)) \<and>
   \<not> fst (app_start (\<lambda>_ c. c \<noteq> Proto_start 1) demo_app)"
proof -
  have "app_start (\<lambda>_ c. c \<noteq> Proto_start 1) demo_app =
      (False, snd (app_start (\<lambda>_ c. c \<noteq> Proto_start 1) demo_app))"
    by (simp add: app_start_def demo_app_def add_protocol_def new_application_def upt_rec Let_def)
  from start_all_or_nothing [OF demo_app_simps(1) this] this show ?thesis
    by (metis fst_conv)
qed

text \<open>
  C14: a whole life cycle.  After a successful start, \<open>stop\<close> stops every plugin exactly once: first,
  last started first, those that do not ask to outlive the device, then the device, then the
  others in the same order; the application is idle again, and stopping it once more (as the
  destructor does) makes no call.
\<close>

theorem start_stop_cycle:
  assumes "idle a" "app_inv a" and "app_start answer a = (True, a')"
  shows "app_calls (app_stop a') = app_calls a' @
           map Proto_stop (filter (\<lambda>i. \<not> app_protocols a ! i) (rev [0..<length (app_protocols a)])) @
           [Dev_stop] @
           map Proto_stop (filter (\<lambda>i. app_protocols a ! i) (rev [0..<length (app_protocols a)])) \<and>
         idle (app_stop a') \<and> app_calls (app_stop (app_stop a')) = app_calls (app_stop a')"
proof -
  have dev: "app_device a" using assms(1,3) by (auto simp: app_start_def idle_def split: if_splits)
  have a': "app_device_started a' \<and> app_started_protocol_count a' = length (app_protocols a) \<and>
      app_protocols a' = app_protocols a"
    using assms(1) dev by (cases rule: app_start_cases [of a answer]) (use assms(3) in auto)
  have inv: "app_inv a'" using app_start_inv [OF assms(2), of answer] assms(3) by simp
  have idle: "idle (app_stop a')" and "app_inv (app_stop a')"
    using app_stop_idle [OF inv] by auto
  from app_stop_calls [OF this(2)] idle
  have "app_calls (app_stop (app_stop a')) = app_calls (app_stop a')"
    by (simp add: idle_def started_rev_def)
  with idle app_stop_calls [OF inv] a' show ?thesis by (simp add: started_rev_def)
qed

theorem start_stop_cycle_witness:
  "app_calls (app_stop (snd (app_start (\<lambda>_ _. True) demo_app))) =
   app_calls (snd (app_start (\<lambda>_ _. True) demo_app)) @ [Proto_stop 0, Dev_stop, Proto_stop 1]"
proof -
  have "app_start (\<lambda>_ _. True) demo_app = (True, snd (app_start (\<lambda>_ _. True) demo_app))"
    by (simp add: app_start_def demo_app_def add_protocol_def new_application_def upt_rec Let_def)
  from start_stop_cycle [OF demo_app_simps(1,2) this] show ?thesis
    by (simp add: upt_rec)
qed

end
