(* ===== verification/Float32.thy ===== *)
theory Float32
  imports Complex_Main Prelude
begin

text \<open>
  Single precision arithmetic as the sensor drivers use it.  A finite \<^verbatim>\<open>td_float\<close> is the rational
  number it denotes; every arithmetic operation of the C sources computes the exact rational
  result and then rounds it to 24 significant bits, to nearest with ties to even.  The magnitudes
  the drivers compute with lie between 1 and \<open>10\<^sup>9\<close>, far inside the exponent range of the format,
  so the exponent is left unbounded.
\<close>

section \<open>Rounding\<close>

type_synonym f32 = rat

fun ilog2 :: "nat \<Rightarrow> nat" where
  "ilog2 n = (if n < 2 then 0 else Suc (ilog2 (n div 2)))"

declare ilog2.simps [simp del]

text \<open>The exponent of the unit in the last place of \<open>q > 0\<close>.\<close>

definition f32_ulp_exp :: "rat \<Rightarrow> int" where
  "f32_ulp_exp q =
     (if 1 \<le> q then int (ilog2 (nat \<lfloor>q\<rfloor>))
      else - (int (ilog2 (nat (\<lceil>1 / q\<rceil> - 1))) + 1)) - 23"

text \<open>Round to the nearest integer, ties to even.\<close>

definition round_even :: "rat \<Rightarrow> int" where
  "round_even q =
     (let n = \<lfloor>q\<rfloor>; r = q - of_int n
      in if r < 1 / 2 then n
         else if 1 / 2 < r then n + 1
         else if even n then n else n + 1)"

definition f32_rnd :: "rat \<Rightarrow> f32" where
  "f32_rnd q =
     (if q = 0 then 0
      else if 0 < q then of_int (round_even (q / 2 powi f32_ulp_exp q)) * 2 powi f32_ulp_exp q
      else - (of_int (round_even (- q / 2 powi f32_ulp_exp (- q))) * 2 powi f32_ulp_exp (- q)))"

text \<open>The operations the C sources apply to \<^verbatim>\<open>td_float\<close> operands.\<close>

definition f32_mul :: "f32 \<Rightarrow> f32 \<Rightarrow> f32" where
  "f32_mul x y = f32_rnd (x * y)"

definition f32_div :: "f32 \<Rightarrow> f32 \<Rightarrow> f32" where
  "f32_div x y = f32_rnd (x / y)"

definition u32_to_f32 :: "u32 \<Rightarrow> f32" where
  "u32_to_f32 w = f32_rnd (of_int (uint w))"

text \<open>
  The conversion \<^verbatim>\<open>(td_u32)x\<close> cuts off the fraction; for values outside the range of
  \<^verbatim>\<open>td_u32\<close> it is undefined in C, and the lemmas below only use it inside.
\<close>

definition f32_to_u32 :: "f32 \<Rightarrow> u32" where
  "f32_to_u32 q = word_of_int \<lfloor>q\<rfloor>"

section \<open>The laws of a rounding\<close>

text \<open>
  What the drivers rely on: rounding is monotone and does not move integers of up to 24 bits.
\<close>

locale rounding =
  fixes rnd :: "rat \<Rightarrow> rat"
  assumes rnd_mono: "p \<le> q \<Longrightarrow> rnd p \<le> rnd q"
    and rnd_int: "\<bar>n\<bar> \<le> 2 ^ 24 \<Longrightarrow> rnd (of_int n) = of_int n"
begin

lemma rnd_ge_int: "\<bar>n\<bar> \<le> 2 ^ 24 \<Longrightarrow> of_int n \<le> q \<Longrightarrow> of_int n \<le> rnd q"
  using rnd_mono [of "of_int n" q] rnd_int [of n] by simp

lemma rnd_le_int: "\<bar>n\<bar> \<le> 2 ^ 24 \<Longrightarrow> q \<le> of_int n \<Longrightarrow> rnd q \<le> of_int n"
  using rnd_mono [of q "of_int n"] rnd_int [of n] by simp

lemma rnd_int_bounds:
  assumes "\<bar>a\<bar> \<le> 2 ^ 24" "\<bar>b\<bar> \<le> 2 ^ 24" "of_int a \<le> q" "q \<le> of_int b"
  shows "a \<le> \<lfloor>rnd q\<rfloor> \<and> \<lfloor>rnd q\<rfloor> \<le> b"
proof -
  have "of_int a \<le> rnd q" "rnd q \<le> of_int b"
    using assms rnd_ge_int rnd_le_int by blast+
  then show ?thesis
    by (metis floor_mono floor_of_int)
qed

end

section \<open>The binary exponent\<close>

lemma ilog2_bounds: "0 < n \<Longrightarrow> 2 ^ ilog2 n \<le> n \<and> n < 2 ^ Suc (ilog2 n)"
proof (induction n rule: ilog2.induct)
  case (1 n)
  show ?case
  proof (cases "n < 2")
    case True
    then show ?thesis using 1 by (simp add: ilog2.simps [of n])
  next
    case False
    then have IH: "2 ^ ilog2 (n div 2) \<le> n div 2 \<and> n div 2 < 2 ^ Suc (ilog2 (n div 2))"
      using 1 by simp
    have e: "ilog2 n = Suc (ilog2 (n div 2))"
      using False by (simp add: ilog2.simps [of n])
    have "2 * 2 ^ ilog2 (n div 2) \<le> n" "n < 2 * 2 ^ Suc (ilog2 (n div 2))"
      using IH by linarith+
    then show ?thesis unfolding e by simp
  qed
qed

lemma ulp_bounds:
  assumes "0 < q"
  shows "2 ^ 23 \<le> q / 2 powi f32_ulp_exp q \<and> q / 2 powi f32_ulp_exp q < 2 ^ 24"
proof (cases "1 \<le> q")
  case True
  define k where "k = ilog2 (nat \<lfloor>q\<rfloor>)"
  have "0 < nat \<lfloor>q\<rfloor>" using True by simp
  then have "2 ^ k \<le> nat \<lfloor>q\<rfloor>" "nat \<lfloor>q\<rfloor> < 2 ^ Suc k"
    using ilog2_bounds k_def by blast+
  then have "int (2 ^ k) \<le> \<lfloor>q\<rfloor>" "\<lfloor>q\<rfloor> < int (2 ^ Suc k)"
    using True by linarith+
  then have *: "2 ^ k \<le> q" "q < 2 * 2 ^ k"
    by (simp_all add: le_floor_iff floor_less_iff)
  have "(2::rat) powi f32_ulp_exp q = 2 ^ k / 2 ^ 23"
    using True by (simp add: f32_ulp_exp_def k_def power_int_diff)
  then show ?thesis using * by (simp add: field_simps)
next
  case False
  define k where "k = ilog2 (nat (\<lceil>1 / q\<rceil> - 1))"
  have gt: "1 < 1 / q" using False assms by (simp add: field_simps)
  then have "2 \<le> \<lceil>1 / q\<rceil>" by linarith
  then have pos: "0 < nat (\<lceil>1 / q\<rceil> - 1)" by simp
  then have "2 ^ k \<le> nat (\<lceil>1 / q\<rceil> - 1)" "nat (\<lceil>1 / q\<rceil> - 1) < 2 ^ Suc k"
    using ilog2_bounds k_def by blast+
  then have "int (2 ^ k) < \<lceil>1 / q\<rceil>" "\<lceil>1 / q\<rceil> \<le> int (2 ^ Suc k)"
    using pos by linarith+
  then have *: "2 ^ k < 1 / q" "1 / q \<le> 2 * 2 ^ k"
    by (simp_all add: less_ceiling_iff ceiling_le_iff)
  have e: "(2::rat) powi f32_ulp_exp q = 1 / (2 ^ Suc k * 2 ^ 23)"
    using False by (simp add: f32_ulp_exp_def k_def power_int_diff power_int_minus power_int_add
        field_simps)
  show ?thesis unfolding e using * assms by (simp add: field_simps)
qed

section \<open>Rounding is monotone and exact on integers\<close>

lemma round_even_int [simp]: "round_even (of_int n) = n"
  by (simp add: round_even_def)

lemma round_even_near: "\<lfloor>q\<rfloor> \<le> round_even q \<and> round_even q \<le> \<lfloor>q\<rfloor> + 1"
  by (simp add: round_even_def Let_def)

lemma round_even_mono:
  assumes "p \<le> q"
  shows "round_even p \<le> round_even q"
proof (cases "\<lfloor>p\<rfloor> = \<lfloor>q\<rfloor>")
  case True
  then show ?thesis using assms by (auto simp: round_even_def Let_def)
next
  case False
  then have "\<lfloor>p\<rfloor> + 1 \<le> \<lfloor>q\<rfloor>" using floor_mono [OF assms] by linarith
  then show ?thesis using round_even_near [of p] round_even_near [of q] by linarith
qed

lemma f32_rnd_bounds:
  assumes "0 < q"
  shows "2 ^ 23 * 2 powi f32_ulp_exp q \<le> f32_rnd q \<and> f32_rnd q \<le> 2 ^ 24 * 2 powi f32_ulp_exp q"
proof -
  define m where "m = q / 2 powi f32_ulp_exp q"
  have "of_int (2 ^ 23) \<le> m" "m \<le> of_int (2 ^ 24)"
    using ulp_bounds [OF assms] unfolding m_def by simp_all
  then have "round_even (of_int (2 ^ 23)) \<le> round_even m" "round_even m \<le> round_even (of_int (2 ^ 24))"
    using round_even_mono by blast+
  then have "2 ^ 23 \<le> round_even m" "round_even m \<le> 2 ^ 24"
    by (simp_all only: round_even_int)
  then have "(of_int (2 ^ 23) :: rat) \<le> of_int (round_even m)"
      "(of_int (round_even m) :: rat) \<le> of_int (2 ^ 24)"
    by (simp_all only: of_int_le_iff)
  then show ?thesis using assms unfolding f32_rnd_def m_def
    by (simp add: mult_right_mono)
qed

lemma f32_rnd_mono_pos:
  assumes "0 < p" "p \<le> q"
  shows "f32_rnd p \<le> f32_rnd q"
proof -
  let ?u = "\<lambda>x. (2::rat) powi f32_ulp_exp x"
  have q: "0 < q" using assms by simp
  consider "f32_ulp_exp p = f32_ulp_exp q" | "f32_ulp_exp p + 1 \<le> f32_ulp_exp q"
    | "f32_ulp_exp q + 1 \<le> f32_ulp_exp p" by linarith
  then show ?thesis
  proof cases
    case 1
    then have "p / ?u p \<le> q / ?u q" using assms by (simp add: divide_right_mono)
    then show ?thesis
      using 1 assms q round_even_mono by (simp add: f32_rnd_def mult_right_mono)
  next
    case 2
    then have "?u p * 2 \<le> ?u q"
      using power_int_increasing [of "f32_ulp_exp p + 1" "f32_ulp_exp q" "2::rat"]
      by (simp add: power_int_add)
    then have "2 ^ 24 * ?u p \<le> 2 ^ 23 * ?u q" by simp
    then show ?thesis
      using f32_rnd_bounds [OF assms(1)] f32_rnd_bounds [OF q] by linarith
  next
    case 3
    then have "?u q * 2 \<le> ?u p"
      using power_int_increasing [of "f32_ulp_exp q + 1" "f32_ulp_exp p" "2::rat"]
      by (simp add: power_int_add)
    then have "2 ^ 24 * ?u q \<le> 2 ^ 23 * ?u p" by simp
    moreover have "q < 2 ^ 24 * ?u q" "2 ^ 23 * ?u p \<le> p"
      using ulp_bounds [OF q] ulp_bounds [OF assms(1)] by (simp_all add: field_simps)
    ultimately show ?thesis using assms by linarith
  qed
qed

lemma f32_rnd_neg: "f32_rnd (- q) = - f32_rnd q"
  by (simp add: f32_rnd_def)

lemma f32_rnd_nonneg: "0 \<le> q \<Longrightarrow> 0 \<le> f32_rnd q"
  using f32_rnd_bounds [of q] by (cases "q = 0") (auto simp: f32_rnd_def intro: order_trans)

lemma f32_rnd_mono: "p \<le> q \<Longrightarrow> f32_rnd p \<le> f32_rnd q"
proof -
  assume le: "p \<le> q"
  consider "0 < p" | "p \<le> 0" "0 \<le> q" | "q < 0" by linarith
  then show ?thesis
  proof cases
    case 1
    then show ?thesis using le by (rule f32_rnd_mono_pos)
  next
    case 2
    then show ?thesis
      using f32_rnd_nonneg [of q] f32_rnd_nonneg [of "- p"] by (simp add: f32_rnd_neg)
  next
    case 3
    then show ?thesis
      using f32_rnd_mono_pos [of "- q" "- p"] le by (simp add: f32_rnd_neg)
  qed
qed

lemma f32_rnd_scaled:
  assumes "0 < q" "q / 2 powi f32_ulp_exp q = of_int m"
  shows "f32_rnd q = q"
proof -
  have "f32_rnd q = of_int m * 2 powi f32_ulp_exp q"
    using assms by (simp add: f32_rnd_def)
  then show ?thesis unfolding assms(2) [symmetric] by simp
qed

lemma f32_rnd_pos_int:
  assumes "0 < n" "n \<le> 2 ^ 24"
  shows "f32_rnd (of_int n) = of_int n"
proof -
  define k where "k = ilog2 (nat n)"
  have e: "f32_ulp_exp (of_int n) = int k - 23"
    using assms by (simp add: f32_ulp_exp_def k_def)
  have k: "2 ^ k \<le> nat n" using ilog2_bounds [of "nat n"] assms k_def by simp
  have "(2::nat) ^ k \<le> 2 ^ 24"
    using nat_mono [OF assms(2)] by (intro order_trans [OF k]) simp
  then have "k \<le> 24" using power_le_imp_le_exp [of "2::nat" k 24] by simp
  then consider "k \<le> 23" | "k = 24" by linarith
  then show ?thesis
  proof cases
    case 1
    then have "(2::rat) ^ 23 = 2 ^ k * 2 ^ (23 - k)"
      by (simp only: power_add [symmetric] le_add_diff_inverse)
    moreover have "(2::rat) powi (int k - 23) = 2 ^ k / 2 ^ 23"
      using power_int_diff [of "2::rat" "int k" 23] by simp
    ultimately have "(2::rat) powi (int k - 23) = 1 / 2 ^ (23 - k)"
      by (metis divide_divide_eq_left power_not_zero zero_neq_numeral divide_self mult.commute)
    then have "of_int n / (2::rat) powi f32_ulp_exp (of_int n) = of_int (n * 2 ^ (23 - k))"
      using e by simp
    then show ?thesis using assms by - (rule f32_rnd_scaled, simp_all only: of_int_0_less_iff)
  next
    case 2
    then have "n = 2 ^ 24" using k assms by simp
    then have "of_int n / (2::rat) powi f32_ulp_exp (of_int n) = of_int (2 ^ 23)"
      using e 2 by (simp add: power_int_def)
    then show ?thesis using assms by - (rule f32_rnd_scaled, simp_all only: of_int_0_less_iff)
  qed
qed

lemma f32_rnd_int: "\<bar>n\<bar> \<le> 2 ^ 24 \<Longrightarrow> f32_rnd (of_int n) = of_int n"
proof (cases n "0::int" rule: linorder_cases)
  case less
  assume "\<bar>n\<bar> \<le> 2 ^ 24"
  then have "f32_rnd (of_int (- n)) = of_int (- n)" using less by (intro f32_rnd_pos_int) simp_all
  then show ?thesis using f32_rnd_neg [of "of_int n"] by simp
qed (auto simp: f32_rnd_def [of 0] intro: f32_rnd_pos_int)

interpretation f32: rounding f32_rnd
  by unfold_locales (auto intro: f32_rnd_mono f32_rnd_int)

lemma f32_rnd_numeral [simp]: "numeral w \<le> (2 ^ 24 :: int) \<Longrightarrow> f32_rnd (numeral w) = numeral w"
  using f32_rnd_int [of "numeral w"] by simp

section \<open>Scaling by two\<close>

lemma ulp_unique:
  assumes "2 ^ 23 \<le> q / 2 powi e" "q / 2 powi e < (2 ^ 24 :: rat)"
  shows "f32_ulp_exp q = e"
proof -
  let ?f = "f32_ulp_exp q"
  have "0 < q / 2 powi e" using assms(1) by (rule less_le_trans [rotated]) simp
  moreover have "(0::rat) < 2 powi e" by simp
  ultimately have q: "0 < q" by (metis zero_less_divide_iff less_asym)
  note u = ulp_bounds [OF q]
  have lt: "x < y + 1" if "2 ^ 23 \<le> q / 2 powi x" "q / 2 powi y < (2 ^ 24 :: rat)" for x y
  proof (rule ccontr)
    assume "\<not> x < y + 1"
    then have "(2::rat) powi (y + 1) \<le> 2 powi x" by (intro power_int_increasing) auto
    then have "q / 2 powi x \<le> q / 2 powi (y + 1)"
      using q by (intro divide_left_mono) auto
    also have "\<dots> = q / 2 powi y / 2" by (simp add: power_int_add)
    also have "\<dots> < 2 ^ 23" using that(2) by simp
    finally show False using that(1) by simp
  qed
  show ?thesis using lt [of ?f e] lt [of e ?f] u assms by simp
qed

lemma f32_rnd_half: "f32_rnd (q / 2) = f32_rnd q / 2"
proof -
  have pos: "f32_rnd (q / 2) = f32_rnd q / 2" if "0 < q" for q :: rat
  proof -
    have e: "(q / 2) / 2 powi (f32_ulp_exp q - 1) = q / 2 powi f32_ulp_exp q"
      by (simp add: power_int_diff)
    then have "f32_ulp_exp (q / 2) = f32_ulp_exp q - 1"
      by (intro ulp_unique) (simp_all only: e ulp_bounds [OF that])
    then show ?thesis using that e by (simp add: f32_rnd_def power_int_diff)
  qed
  consider "0 < q" | "q = 0" | "q < 0" by linarith
  then show ?thesis
  proof cases
    case 1
    then show ?thesis by (rule pos)
  next
    case 2
    then show ?thesis by (simp add: f32_rnd_def)
  next
    case 3
    then show ?thesis using pos [of "- q"] f32_rnd_neg [of "q / 2"] f32_rnd_neg [of q] by simp
  qed
qed

text \<open>Quarters of 24-bit integers are exact too.\<close>

lemma f32_rnd_quarter: "\<bar>n\<bar> \<le> 2 ^ 24 \<Longrightarrow> f32_rnd (of_int n / 4) = of_int n / 4"
  using f32_rnd_half [of "of_int n"] f32_rnd_half [of "of_int n / 2"] f32_rnd_int [of n] by simp

lemma f32_rnd_le_quarter: "\<bar>n\<bar> \<le> 2 ^ 24 \<Longrightarrow> q \<le> of_int n / 4 \<Longrightarrow> f32_rnd q \<le> of_int n / 4"
  using f32_rnd_mono [of q "of_int n / 4"] f32_rnd_quarter [of n] by simp

lemma u32_to_f32_exact: "uint w \<le> 2 ^ 24 \<Longrightarrow> u32_to_f32 w = of_int (uint w)"
  unfolding u32_to_f32_def by (rule f32_rnd_int) simp

lemma f32_to_u32_bounds:
  assumes "of_int a \<le> q" "q \<le> of_int b" "0 \<le> a" "b < 2 ^ 32"
  shows "a \<le> uint (f32_to_u32 q) \<and> uint (f32_to_u32 q) \<le> b"
proof -
  have "a \<le> \<lfloor>q\<rfloor>" "\<lfloor>q\<rfloor> \<le> b"
    using assms by (auto simp: le_floor_iff intro: floor_mono order_trans [OF floor_mono])
  then show ?thesis using assms by (simp add: f32_to_u32_def uint_word_of_int)
qed

lemma round_even_eval:
  assumes "of_int m - 1 / 2 < q" "q < of_int m + 1 / 2"
  shows "round_even q = m"
proof (cases "of_int m \<le> q")
  case True
  then have "\<lfloor>q\<rfloor> = m" using assms by (simp add: floor_eq_iff)
  then show ?thesis using assms by (simp add: round_even_def Let_def)
next
  case False
  then have "\<lfloor>q\<rfloor> = m - 1" using assms by (simp add: floor_eq_iff)
  then show ?thesis using assms by (simp add: round_even_def Let_def)
qed

text \<open>Evaluation: \<open>m\<close> units of \<open>2\<^sup>-\<^sup>n\<close> is the nearest 24-bit number.\<close>

lemma f32_rnd_eval:
  assumes "2 ^ 23 \<le> q * 2 ^ n" "q * 2 ^ n < 2 ^ 24"
    and "of_int m - 1 / 2 < q * 2 ^ n" "q * 2 ^ n < of_int m + 1 / 2"
  shows "f32_rnd q = of_int m / 2 ^ n"
proof -
  have "0 < q * 2 ^ n" using assms(1) by (rule less_le_trans [rotated]) simp
  then have q: "0 < q" by (simp add: zero_less_mult_iff)
  have e: "q / 2 powi (- int n) = q * 2 ^ n" by (simp add: power_int_minus field_simps)
  then have "f32_ulp_exp q = - int n" using assms by (intro ulp_unique) simp_all
  then show ?thesis using q e round_even_eval [OF assms(3,4)]
    by (simp add: f32_rnd_def power_int_minus field_simps)
qed

lemma f32_to_u32_eval: "of_int n \<le> q \<Longrightarrow> q < of_int n + 1 \<Longrightarrow> f32_to_u32 q = word_of_int n"
  by (simp add: f32_to_u32_def floor_unique)

lemma u32_to_f32_bounds:
  "uint w \<le> n \<Longrightarrow> n \<le> 2 ^ 24 \<Longrightarrow> u32_to_f32 w \<le> of_int n"
  "m \<le> uint w \<Longrightarrow> 0 \<le> m \<Longrightarrow> m \<le> 2 ^ 24 \<Longrightarrow> of_int m \<le> u32_to_f32 w"
proof -
  assume a: "uint w \<le> n" "n \<le> 2 ^ 24"
  then have "(of_int (uint w) :: rat) \<le> of_int n" "\<bar>n\<bar> \<le> 2 ^ 24"
    using order_trans [OF uint_nonnegative a(1)] by (simp_all only: of_int_le_iff abs_of_nonneg)
  then show "u32_to_f32 w \<le> of_int n" unfolding u32_to_f32_def using f32.rnd_le_int by blast
next
  assume "m \<le> uint w" "0 \<le> m" "m \<le> 2 ^ 24"
  then have "(of_int m :: rat) \<le> of_int (uint w)" "\<bar>m\<bar> \<le> 2 ^ 24"
    by (simp_all only: of_int_le_iff abs_of_nonneg)
  then show "of_int m \<le> u32_to_f32 w" unfolding u32_to_f32_def using f32.rnd_ge_int by blast
qed

text \<open>
  The frame length of a rate change, \<^verbatim>\<open>(td_u32)(lines * max_fps / fps)\<close>: at least \<open>lines\<close> when the
  requested rate is at most the maximal one, and at most \<open>hi\<close> when it is at least \<open>lines * max_fps / hi\<close>.
\<close>

lemma frame_length_bounds:
  assumes "0 < fps" "fps \<le> of_int mx" "of_int (n * mx) \<le> of_int hi * fps"
    and "0 \<le> n" "n * mx \<le> 2 ^ 24" "n \<le> 2 ^ 24" "hi \<le> 2 ^ 24" "0 \<le> hi"
  shows "n \<le> uint (f32_to_u32 (f32_div (f32_mul (of_int n) (of_int mx)) fps))
    \<and> uint (f32_to_u32 (f32_div (f32_mul (of_int n) (of_int mx)) fps)) \<le> hi"
proof -
  have mx: "0 \<le> mx" using assms(1,2) by (metis of_int_0_le_iff order.strict_implies_order order_trans)
  then have p: "f32_mul (of_int n) (of_int mx) = of_int (n * mx)"
    using assms f32_rnd_int [of "n * mx"] by (simp add: f32_mul_def)
  have "of_int n \<le> of_int (n * mx) / fps" "of_int (n * mx) / fps \<le> of_int hi"
    using assms mult_right_mono [of fps "of_int mx" "of_int n"] by (simp_all add: field_simps)
  then have "of_int n \<le> f32_div (of_int (n * mx)) fps"
      "f32_div (of_int (n * mx)) fps \<le> of_int hi"
    unfolding f32_div_def using assms by (auto intro!: f32.rnd_ge_int f32.rnd_le_int)
  then show ?thesis unfolding p using assms f32_to_u32_bounds by simp
qed

end
