(* ===== verification/Sensor_Common.thy ===== *)
theory Sensor_Common
  imports Float32
begin

text \<open>
  The code shared by the image sensor drivers, \<^verbatim>\<open>devices/hisi_3516cv610/sensor/common/\<close>: the
  driver state \<^verbatim>\<open>cis_info\<close>, the registration with the ISP, AE and AWB libraries, and the I2C
  access to the sensor.

  The structures of the vendor SDK appear with the fields the drivers touch.  The operating
  system and the SDK are a parameter: a driver operation extends a trace of external calls, and
  the answer to each call is a function of the trace before it (\<open>answer\<close>), so every behaviour of
  the outside world is covered, failures included.  Messages, mutexes and \<^verbatim>\<open>printf\<close> are not
  modelled; every operation runs to its end before the next one starts.
\<close>

unbundle bit_operations_syntax

section \<open>Return codes and external calls\<close>

text \<open>The SDK's codes are kept symbolic; \<open>RET\<close> is any other value an external call returns.\<close>

datatype ret =
    TD_SUCCESS
  | TD_FAILURE
  | OT_ERR_ISP_ILLEGAL_PARAM
  | OT_ERR_ISP_NULL_PTR
  | OT_ERR_ISP_NOMEM
  | OT_ISP_DO_NOT_NEED_SWITCH_IMAGEMODE
  | RET int

definition ret_of :: "int \<Rightarrow> ret" where
  "ret_of n = (if n = 0 then TD_SUCCESS else if n = -1 then TD_FAILURE else RET n)"

datatype mpi_lib = ISP | AE | AWB

datatype ext_call =
    Call_open string
  | Call_ioctl_slave int u32
  | Call_write int "u8 list" nat
  | Call_close int
  | Call_usleep u32
  | Call_malloc
  | Call_free
  | Call_reg_callback mpi_lib int u32
  | Call_unreg_callback mpi_lib int u32
  | Call_get_ctrl_param int

type_synonym trace = "(ext_call \<times> int) list"

datatype ot_wdr_mode =
    OT_WDR_MODE_NONE
  | OT_WDR_MODE_2To1_LINE
  | OT_WDR_MODE_2To1_FRAME
  | OT_WDR_MODE_OTHER u8

text \<open>
  What the drivers use of the SDK: the answers of the external calls, the quick start flag that
  \<^verbatim>\<open>ot_mpi_isp_get_ctrl_param\<close> stores, the numbering of the WDR modes, and its arithmetic macros.
\<close>

record sdk =
  answer :: "trace \<Rightarrow> ext_call \<Rightarrow> int"
  quick_start_of :: "trace \<Rightarrow> int \<Rightarrow> bool"
  wdr_mode_of :: "u8 \<Rightarrow> ot_wdr_mode"
  div_0_to_1 :: "u32 \<Rightarrow> u32"
  div_0_to_1_float :: "f32 \<Rightarrow> f32"

text \<open>Documented behaviour of the division guards: zero becomes one, other divisors stay.\<close>

definition div_guards :: "sdk \<Rightarrow> bool" where
  "div_guards k \<longleftrightarrow> div_0_to_1 k 0 = 1 \<and> (\<forall>x. x \<noteq> 0 \<longrightarrow> div_0_to_1 k x = x)
     \<and> (\<forall>q. 1 \<le> q \<longrightarrow> div_0_to_1_float k q = q)"

definition ask :: "sdk \<Rightarrow> ext_call \<Rightarrow> trace \<Rightarrow> int \<times> trace" where
  "ask k c tr = (let n = answer k tr c in (n, tr @ [(c, n)]))"

section \<open>State\<close>

text \<open>\<^verbatim>\<open>ot_isp_i2c_data\<close>: one register of the set that the ISP writes at a frame boundary.\<close>

record ot_isp_i2c_data =
  d_update :: bool
  d_delay_frame_num :: u8
  d_dev_addr :: u8
  d_reg_addr :: u32
  d_addr_byte_num :: u32
  d_data :: u32
  d_data_byte_num :: u32

definition zero_i2c_data :: ot_isp_i2c_data where
  "zero_i2c_data = \<lparr>d_update = False, d_delay_frame_num = 0, d_dev_addr = 0, d_reg_addr = 0,
     d_addr_byte_num = 0, d_data = 0, d_data_byte_num = 0\<rparr>"

text \<open>\<open>sns_i2c\<close> says that \<^verbatim>\<open>sns_type\<close> was set to \<^verbatim>\<open>OT_ISP_SNS_TYPE_I2C\<close>.\<close>

record ot_isp_sns_regs_info =
  sns_i2c :: bool
  com_bus_i2c_dev :: int
  reg_num :: u32
  cfg2_valid_delay_max :: u8
  i2c_data :: "nat \<Rightarrow> ot_isp_i2c_data"
  config :: bool

definition zero_regs_info :: ot_isp_sns_regs_info where
  "zero_regs_info = \<lparr>sns_i2c = False, com_bus_i2c_dev = 0, reg_num = 0, cfg2_valid_delay_max = 0,
     i2c_data = (\<lambda>_. zero_i2c_data), config = False\<rparr>"

record ot_isp_sns_state =
  init :: bool
  sync_init :: bool
  img_mode :: u8
  wdr_mode :: ot_wdr_mode
  regs_info :: "nat \<Rightarrow> ot_isp_sns_regs_info"
  fl :: "nat \<Rightarrow> u32"
  fl_std :: u32
  wdr_int_time :: "nat \<Rightarrow> u32"

definition zero_sns_state :: "sdk \<Rightarrow> ot_isp_sns_state" where
  "zero_sns_state k = \<lparr>init = False, sync_init = False, img_mode = 0, wdr_mode = wdr_mode_of k 0,
     regs_info = (\<lambda>_. zero_regs_info), fl = (\<lambda>_. 0), fl_std = 0, wdr_int_time = (\<lambda>_. 0)\<rparr>"

text \<open>An exposure route; its node array is not interpreted.\<close>

record ot_isp_ae_route =
  total_num :: u32
  route_node :: "u32 list"

definition zero_route :: ot_isp_ae_route where
  "zero_route = \<lparr>total_num = 0, route_node = []\<rparr>"

datatype ot_isp_fswdr_mode =
    OT_ISP_FSWDR_NORMAL_MODE
  | OT_ISP_FSWDR_LONG_FRAME_MODE
  | OT_ISP_FSWDR_AUTO_LONG_FRAME_MODE

text \<open>An entry of a register table: address and value.\<close>

type_synonym cis_reg_cfg = "u16 \<times> u16"

record cis_video_mode_tbl =
  ver_lines :: u32
  max_ver_lines :: u32
  max_fps :: f32
  min_fps :: f32
  width :: u32
  height :: u32
  sns_mode :: u8
  tbl_wdr_mode :: ot_wdr_mode
  mode_name :: string

record cis_i2c =
  fd :: int
  i2c_addr :: u32
  addr_byte_num :: u8
  data_byte_num :: u8

record cis_info =
  pipe :: int
  sns_id :: u32
  fswdr_mode :: ot_isp_fswdr_mode
  ae_stat_pos :: u8
  max_time_get_cnt :: u32
  init_exposure :: u32
  init_int_time :: u32
  init_again :: u32
  init_dgain :: u32
  init_isp_dgain :: u32
  lines_per500ms :: u32
  init_wb_r_gain :: u16
  init_wb_g_gain :: u16
  init_wb_b_gain :: u16
  sample_r_gain :: u16
  sample_b_gain :: u16
  quick_start_en :: bool
  fast_ae_en :: bool
  ae_route_ex_valid :: bool
  init_ae_route :: ot_isp_ae_route
  init_ae_route_ex :: ot_isp_ae_route
  init_ae_route_sf :: ot_isp_ae_route
  init_ae_route_sf_ex :: ot_isp_ae_route
  max_short_exp :: u32
  i2c_dev :: int
  sns_state :: "ot_isp_sns_state option"
  blc_clamp_info :: bool
  mode_tbl :: "cis_video_mode_tbl list"
  i2c :: cis_i2c

record ot_isp_init_attr =
  ia_exposure :: u32
  ia_exp_time :: u32
  ia_a_gain :: u32
  ia_d_gain :: u32
  ia_ispd_gain :: u32
  ia_lines_per500ms :: u32
  ia_wb_r_gain :: u16
  ia_wb_g_gain :: u16
  ia_wb_b_gain :: u16
  ia_sample_r_gain :: u16
  ia_sample_b_gain :: u16
  ia_quick_start_en :: bool
  ia_ae_stat_pos :: u32
  ia_ae_route_ex_valid :: bool
  ia_ae_route :: ot_isp_ae_route
  ia_ae_route_ex :: ot_isp_ae_route
  ia_ae_route_sf :: ot_isp_ae_route
  ia_ae_route_sf_ex :: ot_isp_ae_route

section \<open>Operations\<close>

definition cis_delay_ms :: "sdk \<Rightarrow> u32 \<Rightarrow> trace \<Rightarrow> trace" where
  "cis_delay_ms k ms tr = snd (ask k (Call_usleep (ms * 1000)) tr)"

definition cis_create_state :: "sdk \<Rightarrow> cis_info \<Rightarrow> trace \<Rightarrow> ret \<times> cis_info \<times> trace" where
  "cis_create_state k ci tr =
     (case sns_state ci of
        Some _ \<Rightarrow> (OT_ERR_ISP_NOMEM, ci, tr)
      | None \<Rightarrow>
          (let (p, tr) = ask k Call_malloc tr
           in if p = 0 then (OT_ERR_ISP_NOMEM, ci, tr)
              else (TD_SUCCESS, ci\<lparr>sns_state := Some (zero_sns_state k)\<rparr>, tr)))"

text \<open>\<^verbatim>\<open>sns_free\<close> frees a pointer that is not null.\<close>

definition cis_destroy_state :: "sdk \<Rightarrow> cis_info \<Rightarrow> trace \<Rightarrow> cis_info \<times> trace" where
  "cis_destroy_state k ci tr =
     (ci\<lparr>sns_state := None\<rparr>,
      case sns_state ci of None \<Rightarrow> tr | Some _ \<Rightarrow> snd (ask k Call_free tr))"

text \<open>
  Registration of the driver's callbacks with the three libraries, and the jumps to \<^verbatim>\<open>OUT2\<close>,
  \<^verbatim>\<open>OUT1\<close> and \<^verbatim>\<open>OUT0\<close> when one of them refuses.  The operations fall through the labels downwards.
\<close>

definition register_out0 :: "sdk \<Rightarrow> int \<Rightarrow> cis_info \<Rightarrow> trace \<Rightarrow> ret \<times> cis_info \<times> trace" where
  "register_out0 k n ci tr = (let (ci, tr) = cis_destroy_state k ci tr in (ret_of n, ci, tr))"

definition register_out1 :: "sdk \<Rightarrow> int \<Rightarrow> cis_info \<Rightarrow> trace \<Rightarrow> ret \<times> cis_info \<times> trace" where
  "register_out1 k n ci tr =
     register_out0 k n ci (snd (ask k (Call_unreg_callback ISP (pipe ci) (sns_id ci)) tr))"

definition register_out2 :: "sdk \<Rightarrow> int \<Rightarrow> cis_info \<Rightarrow> trace \<Rightarrow> ret \<times> cis_info \<times> trace" where
  "register_out2 k n ci tr =
     register_out1 k n ci (snd (ask k (Call_unreg_callback AE (pipe ci) (sns_id ci)) tr))"

definition cis_register_callback :: "sdk \<Rightarrow> cis_info \<Rightarrow> trace \<Rightarrow> ret \<times> cis_info \<times> trace" where
  "cis_register_callback k ci tr =
     (case cis_create_state k ci tr of (r, ci, tr) \<Rightarrow>
        if r \<noteq> TD_SUCCESS then (r, ci, tr)
        else case ask k (Call_reg_callback ISP (pipe ci) (sns_id ci)) tr of (n, tr) \<Rightarrow>
          if n \<noteq> 0 then register_out0 k n ci tr
          else case ask k (Call_reg_callback AE (pipe ci) (sns_id ci)) tr of (n, tr) \<Rightarrow>
            if n \<noteq> 0 then register_out1 k n ci tr
            else case ask k (Call_reg_callback AWB (pipe ci) (sns_id ci)) tr of (n, tr) \<Rightarrow>
              if n \<noteq> 0 then register_out2 k n ci tr
              else (TD_SUCCESS, ci, tr))"

definition cis_unregister_callback :: "sdk \<Rightarrow> cis_info \<Rightarrow> trace \<Rightarrow> ret \<times> cis_info \<times> trace" where
  "cis_unregister_callback k ci tr =
     (case ask k (Call_unreg_callback ISP (pipe ci) (sns_id ci)) tr of (n, tr) \<Rightarrow>
        if n \<noteq> 0 then (ret_of n, ci, tr)
        else case ask k (Call_unreg_callback AE (pipe ci) (sns_id ci)) tr of (n, tr) \<Rightarrow>
          if n \<noteq> 0 then (ret_of n, ci, tr)
          else case ask k (Call_unreg_callback AWB (pipe ci) (sns_id ci)) tr of (n, tr) \<Rightarrow>
            if n \<noteq> 0 then (ret_of n, ci, tr)
            else case cis_destroy_state k ci tr of (ci, tr) \<Rightarrow> (TD_SUCCESS, ci, tr))"

text \<open>Decimal digits, as \<^verbatim>\<open>%u\<close> prints them.\<close>

fun decimal :: "nat \<Rightarrow> string" where
  "decimal n = (if n < 10 then [char_of (48 + n)]
                else decimal (n div 10) @ [char_of (48 + n mod 10)])"

declare decimal.simps [simp del]

definition i2c_dev_file :: "u8 \<Rightarrow> string" where
  "i2c_dev_file n = ''/dev/i2c-'' @ decimal (unat n)"

text \<open>\<^verbatim>\<open>I2C_DEV_FILE_NUM\<close> is 16, and \<^verbatim>\<open>snprintf_s\<close> fails when the name does not fit.\<close>

definition cis_i2c_init :: "sdk \<Rightarrow> cis_info \<Rightarrow> trace \<Rightarrow> ret \<times> cis_info \<times> trace" where
  "cis_i2c_init k ci tr =
     (if 0 \<le> fd (i2c ci) then (TD_SUCCESS, ci, tr)
      else let dev_file = i2c_dev_file (word_of_int (i2c_dev ci))
      in if 16 \<le> length dev_file then (TD_FAILURE, ci, tr)
      else case ask k (Call_open dev_file) tr of (n, tr) \<Rightarrow>
        let ci = ci\<lparr>i2c := (i2c ci)\<lparr>fd := n\<rparr>\<rparr>
        in if n < 0 then (TD_FAILURE, ci, tr)
        else case ask k (Call_ioctl_slave n (drop_bit 1 (i2c_addr (i2c ci)))) tr of (r, tr) \<Rightarrow>
          if r < 0
          then (ret_of r, ci\<lparr>i2c := (i2c ci)\<lparr>fd := -1\<rparr>\<rparr>, snd (ask k (Call_close n) tr))
          else (TD_SUCCESS, ci, tr))"

definition cis_i2c_exit :: "sdk \<Rightarrow> cis_info \<Rightarrow> trace \<Rightarrow> ret \<times> cis_info \<times> trace" where
  "cis_i2c_exit k ci tr =
     (if 0 \<le> fd (i2c ci)
      then (TD_SUCCESS, ci\<lparr>i2c := (i2c ci)\<lparr>fd := -1\<rparr>\<rparr>, snd (ask k (Call_close (fd (i2c ci))) tr))
      else (TD_FAILURE, ci, tr))"

definition cis_read_reg :: "cis_i2c \<Rightarrow> u32 \<Rightarrow> ret" where
  "cis_read_reg i addr = TD_SUCCESS"

definition high_byte :: "u32 \<Rightarrow> u8" where
  "high_byte x = ucast (drop_bit 8 x AND 0xff)"

definition low_byte :: "u32 \<Rightarrow> u8" where
  "low_byte x = ucast (x AND 0xff)"

text \<open>
  The buffer holds the address bytes and the data bytes, big endian; \<^verbatim>\<open>write\<close> is told to send
  \<^verbatim>\<open>addr_byte_num + data_byte_num\<close> bytes of it.
\<close>

definition cis_write_buf :: "cis_i2c \<Rightarrow> u32 \<Rightarrow> u32 \<Rightarrow> u8 list" where
  "cis_write_buf i addr dat =
     (if addr_byte_num i = 2 then [high_byte addr, low_byte addr] else [low_byte addr]) @
     (if data_byte_num i = 2 then [high_byte dat, low_byte dat] else [low_byte dat])"

definition cis_write_reg :: "sdk \<Rightarrow> cis_i2c option \<Rightarrow> u32 \<Rightarrow> u32 \<Rightarrow> trace \<Rightarrow> ret \<times> trace" where
  "cis_write_reg k bus addr dat tr =
     (case bus of
        None \<Rightarrow> (OT_ERR_ISP_NULL_PTR, tr)
      | Some i \<Rightarrow>
          if fd i < 0 then (TD_FAILURE, tr)
          else case ask k (Call_write (fd i) (cis_write_buf i addr dat)
                            (unat (addr_byte_num i) + unat (data_byte_num i))) tr of (n, tr) \<Rightarrow>
            if n < 0 then (TD_FAILURE, tr) else (TD_SUCCESS, tr))"

definition cis_wdr_range_check :: "(nat \<Rightarrow> u32) \<Rightarrow> ret" where
  "cis_wdr_range_check ratio = (if ratio 0 < 64 \<or> 2047 < ratio 0 then TD_FAILURE else TD_SUCCESS)"

definition cis_init_attr :: "cis_info \<Rightarrow> ot_isp_init_attr \<Rightarrow> cis_info" where
  "cis_init_attr ci a = ci\<lparr>
     init_exposure := ia_exposure a,
     init_int_time := ia_exp_time a,
     init_again := ia_a_gain a,
     init_dgain := ia_d_gain a,
     init_isp_dgain := ia_ispd_gain a,
     lines_per500ms := ia_lines_per500ms a,
     init_wb_r_gain := ia_wb_r_gain a,
     init_wb_g_gain := ia_wb_g_gain a,
     init_wb_b_gain := ia_wb_b_gain a,
     sample_r_gain := ia_sample_r_gain a,
     sample_b_gain := ia_sample_b_gain a,
     quick_start_en := ia_quick_start_en a,
     ae_stat_pos := ucast (ia_ae_stat_pos a),
     ae_route_ex_valid := ia_ae_route_ex_valid a,
     init_ae_route := ia_ae_route a,
     init_ae_route_ex := ia_ae_route_ex a,
     init_ae_route_sf := ia_ae_route_sf a,
     init_ae_route_sf_ex := ia_ae_route_sf_ex a\<rparr>"

section \<open>Reading a trace\<close>

text \<open>
  The libraries a driver is registered with, by pipe: accepted registrations whose removal has
  not been requested since.
\<close>

fun held_step :: "(mpi_lib \<times> int) set \<Rightarrow> ext_call \<times> int \<Rightarrow> (mpi_lib \<times> int) set" where
  "held_step H (Call_reg_callback l p s, n) = (if n = 0 then insert (l, p) H else H)"
| "held_step H (Call_unreg_callback l p s, n) = H - {(l, p)}"
| "held_step H _ = H"

definition held :: "trace \<Rightarrow> (mpi_lib \<times> int) set" where
  "held tr = foldl held_step {} tr"

fun alloc_step :: "ext_call \<times> int \<Rightarrow> int" where
  "alloc_step (Call_malloc, n) = (if n = 0 then 0 else 1)"
| "alloc_step (Call_free, n) = - 1"
| "alloc_step _ = 0"

definition live_allocs :: "trace \<Rightarrow> int" where
  "live_allocs tr = sum_list (map alloc_step tr)"

fun fds_step :: "int set \<Rightarrow> ext_call \<times> int \<Rightarrow> int set" where
  "fds_step F (Call_open f, n) = (if n < 0 then F else insert n F)"
| "fds_step F (Call_close f, n) = F - {f}"
| "fds_step F _ = F"

definition open_fds :: "trace \<Rightarrow> int set" where
  "open_fds tr = foldl fds_step {} tr"

text \<open>\<^verbatim>\<open>open\<close> never hands out a descriptor that is still open.\<close>

definition fresh_fds :: "sdk \<Rightarrow> bool" where
  "fresh_fds k \<longleftrightarrow> (\<forall>tr f. answer k tr (Call_open f) \<notin> open_fds tr)"

lemma held_append [simp]: "held (tr @ es) = foldl held_step (held tr) es"
  by (simp add: held_def)

lemma live_allocs_append [simp]:
  "live_allocs (tr @ es) = live_allocs tr + sum_list (map alloc_step es)"
  by (simp add: live_allocs_def)

lemma open_fds_append [simp]: "open_fds (tr @ es) = foldl fds_step (open_fds tr) es"
  by (simp add: open_fds_def)

lemma ask_eq [simp]: "ask k c tr = (answer k tr c, tr @ [(c, answer k tr c)])"
  by (simp add: ask_def Let_def)

lemma ret_of_success [simp]: "ret_of n = TD_SUCCESS \<longleftrightarrow> n = 0"
  by (simp add: ret_of_def)

lemmas register_outs = register_out0_def register_out1_def register_out2_def cis_destroy_state_def

section \<open>Registration\<close>

text \<open>A driver that is registered already stays as it is.\<close>

lemma register_twice:
  "sns_state ci = Some st \<Longrightarrow> cis_register_callback k ci tr = (OT_ERR_ISP_NOMEM, ci, tr)"
  by (simp add: cis_register_callback_def cis_create_state_def)

lemma register_cases:
  assumes "sns_state ci = None" and "cis_register_callback k ci tr = (r, ci', tr')"
  shows "(r = TD_SUCCESS \<and> ci' = ci\<lparr>sns_state := Some (zero_sns_state k)\<rparr>) \<or>
         (r \<noteq> TD_SUCCESS \<and> ci' = ci)"
  using assms
  by (auto simp: cis_register_callback_def cis_create_state_def register_outs Let_def
      split: if_splits)

text \<open>
  C8: registration is all or nothing.  For a driver that is not registered,
  \<^verbatim>\<open>cis_register_callback\<close> either succeeds, holding the ISP, AE and AWB registrations of its pipe and
  one zeroed sensor state, or it fails, and then the driver structure is as before, every
  registration that was accepted has been taken back and the allocated state has been freed.
\<close>

theorem register_all_or_nothing:
  assumes "sns_state ci = None" and "\<forall>l. (l, pipe ci) \<notin> held tr"
    and "cis_register_callback k ci tr = (r, ci', tr')"
  shows "if r = TD_SUCCESS
         then ci' = ci\<lparr>sns_state := Some (zero_sns_state k)\<rparr>
            \<and> held tr' = held tr \<union> {(ISP, pipe ci), (AE, pipe ci), (AWB, pipe ci)}
            \<and> live_allocs tr' = live_allocs tr + 1
         else ci' = ci \<and> held tr' = held tr \<and> live_allocs tr' = live_allocs tr"
  using assms
  by (auto simp: cis_register_callback_def cis_create_state_def register_outs Let_def
      split: if_splits)

definition demo_i2c :: cis_i2c where
  "demo_i2c = \<lparr>fd = -1, i2c_addr = 0x60, addr_byte_num = 2, data_byte_num = 1\<rparr>"

definition demo_cis :: cis_info where
  "demo_cis = \<lparr>pipe = 0, sns_id = 4336, fswdr_mode = OT_ISP_FSWDR_NORMAL_MODE, ae_stat_pos = 0,
     max_time_get_cnt = 0, init_exposure = 0, init_int_time = 0, init_again = 0, init_dgain = 0,
     init_isp_dgain = 0, lines_per500ms = 0, init_wb_r_gain = 0, init_wb_g_gain = 0,
     init_wb_b_gain = 0, sample_r_gain = 0, sample_b_gain = 0, quick_start_en = False,
     fast_ae_en = False, ae_route_ex_valid = False, init_ae_route = zero_route,
     init_ae_route_ex = zero_route, init_ae_route_sf = zero_route,
     init_ae_route_sf_ex = zero_route, max_short_exp = 0, i2c_dev = 5, sns_state = None,
     blc_clamp_info = True, mode_tbl = [], i2c = demo_i2c\<rparr>"

text \<open>
  A board on which allocation and the I2C device work and the library \<open>bad\<close> refuses every
  registration.  A new descriptor is larger than every answer given so far.
\<close>

definition demo_sdk :: "mpi_lib option \<Rightarrow> sdk" where
  "demo_sdk bad = \<lparr>
     answer = (\<lambda>tr c. case c of
         Call_malloc \<Rightarrow> 1
       | Call_open f \<Rightarrow> 3 + sum_list (map (\<lambda>e. \<bar>snd e\<bar>) tr)
       | Call_write f bs n \<Rightarrow> int n
       | Call_reg_callback l p s \<Rightarrow> (if Some l = bad then 7 else 0)
       | _ \<Rightarrow> 0),
     quick_start_of = (\<lambda>tr p. False),
     wdr_mode_of = (\<lambda>n. if n = 0 then OT_WDR_MODE_NONE else OT_WDR_MODE_OTHER n),
     div_0_to_1 = (\<lambda>n. if n = 0 then 1 else n),
     div_0_to_1_float = (\<lambda>q. if q = 0 then 1 else q)\<rparr>"

theorem register_all_or_nothing_witness:
  "let (r, ci', tr') = cis_register_callback (demo_sdk (Some AWB)) demo_cis []
   in r = RET 7 \<and> ci' = demo_cis \<and> held tr' = {} \<and> live_allocs tr' = 0"
proof -
  obtain r ci' tr' where
    e: "cis_register_callback (demo_sdk (Some AWB)) demo_cis [] = (r, ci', tr')"
    by (metis prod_cases3)
  moreover have "r = RET 7"
    using e by (simp add: demo_cis_def demo_sdk_def cis_register_callback_def cis_create_state_def
        register_outs ret_of_def)
  moreover have "sns_state demo_cis = None" by (simp add: demo_cis_def)
  ultimately show ?thesis
    using register_all_or_nothing [of demo_cis "[]" "demo_sdk (Some AWB)" r ci' tr']
    by (simp add: held_def live_allocs_def)
qed

section \<open>The I2C device\<close>

lemma decimal_small: "n < 256 \<Longrightarrow> length (decimal n) \<le> 3"
  by (simp add: decimal.simps [of n] decimal.simps [of "n div 10"] decimal.simps [of "n div 10 div 10"])

lemma dev_file_fits: "length (i2c_dev_file n) < 16"
  using decimal_small [of "unat n"] unsigned_less [of n, where ?'a = nat] by (simp add: i2c_dev_file_def)

lemma i2c_init_cases:
  assumes "fd (i2c ci) < 0" "fresh_fds k" "cis_i2c_init k ci tr = (r, ci', tr')"
  shows "if r = TD_SUCCESS
         then 0 \<le> fd (i2c ci') \<and> fd (i2c ci') \<notin> open_fds tr
            \<and> open_fds tr' = insert (fd (i2c ci')) (open_fds tr)
         else fd (i2c ci') < 0 \<and> open_fds tr' = open_fds tr"
  using assms dev_file_fits [of "word_of_int (i2c_dev ci)"]
  by (auto simp: cis_i2c_init_def fresh_fds_def Let_def split: if_splits)

lemma open_fds_bound: "x \<in> open_fds tr \<Longrightarrow> x \<le> sum_list (map (\<lambda>e. \<bar>snd e\<bar>) tr)"
proof (induction tr rule: rev_induct)
  case (snoc e tr)
  have "fds_step F e \<subseteq> insert (snd e) F" for F
    by (cases "(F, e)" rule: fds_step.cases) auto
  moreover have "0 \<le> sum_list (map (\<lambda>e. \<bar>snd e\<bar>) tr)"
    by (rule sum_list_nonneg) auto
  moreover have "x \<in> fds_step (open_fds tr) e" using snoc.prems by simp
  ultimately have "x = snd e \<or> x \<in> open_fds tr" by blast
  then show ?case
    using snoc.IH \<open>0 \<le> sum_list (map (\<lambda>e. \<bar>snd e\<bar>) tr)\<close> by auto
qed (simp add: open_fds_def)

lemma demo_fresh: "fresh_fds (demo_sdk bad)"
  unfolding fresh_fds_def demo_sdk_def by (auto dest: open_fds_bound)

text \<open>
  Descriptors are not leaked.  From a closed device, \<^verbatim>\<open>cis_i2c_init\<close> followed by \<^verbatim>\<open>cis_i2c_exit\<close>
  leaves exactly the descriptors open that were open before, whatever the open and the slave
  selection answer, and leaves the device closed; the exit succeeds exactly when the
  initialisation did.
\<close>

theorem i2c_init_exit_balanced:
  assumes "fd (i2c ci) < 0" "fresh_fds k"
    and "cis_i2c_init k ci tr = (r1, ci1, tr1)" "cis_i2c_exit k ci1 tr1 = (r2, ci2, tr2)"
  shows "open_fds tr2 = open_fds tr \<and> fd (i2c ci2) < 0 \<and> (r2 = TD_SUCCESS \<longleftrightarrow> r1 = TD_SUCCESS)"
  using i2c_init_cases [OF assms(1-3)] assms(4)
  by (auto simp: cis_i2c_exit_def split: if_splits)

theorem i2c_init_exit_balanced_witness:
  "case cis_i2c_init (demo_sdk None) demo_cis [] of (r1, ci1, tr1) \<Rightarrow>
     case cis_i2c_exit (demo_sdk None) ci1 tr1 of (r2, ci2, tr2) \<Rightarrow>
       r1 = TD_SUCCESS \<and> r2 = TD_SUCCESS \<and> open_fds tr1 = {3} \<and> open_fds tr2 = {} \<and> fd (i2c ci2) < 0"
proof -
  obtain r1 ci1 tr1 where e1: "cis_i2c_init (demo_sdk None) demo_cis [] = (r1, ci1, tr1)"
    by (metis prod_cases3)
  obtain r2 ci2 tr2 where e2: "cis_i2c_exit (demo_sdk None) ci1 tr1 = (r2, ci2, tr2)"
    by (metis prod_cases3)
  have "r1 = TD_SUCCESS \<and> open_fds tr1 = {3}"
    using e1 dev_file_fits [of "5"]
    by (auto simp: demo_cis_def demo_i2c_def demo_sdk_def cis_i2c_init_def Let_def open_fds_def)
  then show ?thesis
    using i2c_init_exit_balanced [OF _ demo_fresh e1 e2] e1 e2
    by (simp add: demo_cis_def demo_i2c_def open_fds_def)
qed

text \<open>The number a byte string denotes, most significant byte first.\<close>

definition be_value :: "u8 list \<Rightarrow> nat" where
  "be_value bs = foldl (\<lambda>a b. 256 * a + unat b) 0 bs"

lemma unat_high_byte: "unat (high_byte x) = unat x div 256 mod 256"
  by (simp add: high_byte_def unsigned_ucast_eq unat_fields take_bit_eq_mod)

lemma unat_low_byte: "unat (low_byte x) = unat x mod 256"
  by (simp add: low_byte_def unsigned_ucast_eq unat_fields take_bit_eq_mod)

text \<open>
  Round trip of a register write.  With one or two address bytes and one or two data bytes,
  the bytes handed to the bus are exactly as many as announced, and the receiver who splits them
  after the address recovers the register address and the value, each cut to its width.
\<close>

theorem write_buf_roundtrip:
  assumes "addr_byte_num i \<in> {1, 2}" "data_byte_num i \<in> {1, 2}"
  shows "length (cis_write_buf i addr dat) = unat (addr_byte_num i) + unat (data_byte_num i) \<and>
    be_value (take (unat (addr_byte_num i)) (cis_write_buf i addr dat))
      = unat addr mod 256 ^ unat (addr_byte_num i) \<and>
    be_value (drop (unat (addr_byte_num i)) (cis_write_buf i addr dat))
      = unat dat mod 256 ^ unat (data_byte_num i)"
  using assms
  by (auto simp: cis_write_buf_def be_value_def unat_high_byte unat_low_byte power2_eq_square two_bytes)

theorem write_buf_roundtrip_witness:
  "addr_byte_num demo_i2c \<in> {1, 2} \<and> data_byte_num demo_i2c \<in> {1, 2} \<and>
   cis_write_buf demo_i2c 0x320E 0x5DC = [0x32, 0x0E, 0xDC] \<and>
   be_value (take 2 (cis_write_buf demo_i2c 0x320E 0x5DC)) = 0x320E"
proof -
  have "cis_write_buf demo_i2c 0x320E 0x5DC = [0x32, 0x0E, 0xDC]"
    by (simp add: cis_write_buf_def demo_i2c_def high_byte_def low_byte_def drop_bit_eq_div)
  then show ?thesis
    using write_buf_roundtrip [of demo_i2c "0x320E" "0x5DC"] by (simp add: demo_i2c_def)
qed

section \<open>Register fields\<close>

text \<open>The macros of the drivers' headers that cut a value into register bytes.\<close>

definition high_8bits :: "u32 \<Rightarrow> u32" where
  "high_8bits x = drop_bit 8 (x AND 0xff00)"

definition low_8bits :: "u32 \<Rightarrow> u32" where
  "low_8bits x = x AND 0xff"

definition lower_4bits :: "u32 \<Rightarrow> u32" where
  "lower_4bits x = push_bit 4 (x AND 0x000F)"

definition higher_8bits :: "u32 \<Rightarrow> u32" where
  "higher_8bits x = drop_bit 4 (x AND 0x0FF0)"

definition higher_4bits :: "u32 \<Rightarrow> u32" where
  "higher_4bits x = drop_bit 12 (x AND 0xF000)"

definition clip3 :: "u32 \<Rightarrow> u32 \<Rightarrow> u32 \<Rightarrow> u32" where
  "clip3 x lo hi = (if x < lo then lo else if hi < x then hi else x)"

lemma unat_high_8bits: "unat (high_8bits x) = unat x div 256 mod 256"
  by (simp add: high_8bits_def unat_fields)

lemma unat_low_8bits: "unat (low_8bits x) = unat x mod 256"
  by (simp add: low_8bits_def unat_fields)

lemma unat_lower_4bits: "unat (lower_4bits x) = 16 * (unat x mod 16)"
  unfolding lower_4bits_def unat_push_bit u32_masks unat_and_mask by simp

lemma unat_higher_8bits: "unat (higher_8bits x) = unat x div 16 mod 256"
  by (simp add: higher_8bits_def unat_fields)

lemma unat_higher_4bits: "unat (higher_4bits x) = unat x div 4096 mod 16"
  by (simp add: higher_4bits_def unat_fields)

lemmas unat_macros =
  unat_high_8bits unat_low_8bits unat_lower_4bits unat_higher_8bits unat_higher_4bits

text \<open>What the sensor makes of the bytes: frame length and exposure.\<close>

definition vmax_value :: "u32 \<Rightarrow> u32 \<Rightarrow> nat" where
  "vmax_value h l = 256 * unat h + unat l"

definition expo_value :: "u32 \<Rightarrow> u32 \<Rightarrow> u32 \<Rightarrow> nat" where
  "expo_value h m l = 4096 * unat h + 16 * unat m + unat l div 16"

lemma vmax_fields: "vmax_value (high_8bits x) (low_8bits x) = unat x mod 65536"
  unfolding vmax_value_def unat_macros by (rule two_bytes)

lemma expo_fields: "expo_value (higher_4bits x) (higher_8bits x) (lower_4bits x) = unat x mod 65536"
  unfolding expo_value_def unat_macros using byte_and_nibbles [of "unat x"] by simp

lemma clip3_bounds: "lo \<le> hi \<Longrightarrow> lo \<le> clip3 x lo hi \<and> clip3 x lo hi \<le> hi"
  by (auto simp: clip3_def)

end
