(* ===== verification/Gain_Table.thy ===== *)
theory Gain_Table
  imports Sensor_Common
begin

text \<open>
  The table search of the drivers' \<^verbatim>\<open>cmos_again_calc_table\<close> and \<^verbatim>\<open>cmos_dgain_calc_table\<close>.  AE asks for
  a linear gain; the driver answers with the gain the sensor can really apply and with the
  register code of that gain.  The locale states what a gain table must satisfy and proves the
  search correct once; every driver interprets it on its own tables.
\<close>

section \<open>The search\<close>

text \<open>
  The loop \<^verbatim>\<open>for (i = 1; i < N; i++) if (v < index[i])\<close> up to its \<^verbatim>\<open>break\<close>: the first such
  position, if there is one.
\<close>

definition first_above :: "u32 \<Rightarrow> u32 list \<Rightarrow> nat option" where
  "first_above v xs = List.find (\<lambda>i. v < xs ! i) [1..<length xs]"

text \<open>
  The body of the functions on a request \<open>lin\<close> and the old code \<open>db\<close>: clamp at the top of the
  table, otherwise step down to the entry before the first larger one; nothing is assigned when
  the loop ends without a \<^verbatim>\<open>break\<close>.
\<close>

definition gain_calc :: "u32 list \<Rightarrow> u32 list \<Rightarrow> u32 \<times> u32 \<Rightarrow> u32 \<times> u32" where
  "gain_calc index codes g =
     (case g of (lin, db) \<Rightarrow>
        if index ! (length index - 1) \<le> lin
        then (index ! (length index - 1), codes ! (length index - 1))
        else case first_above lin index of
               Some i \<Rightarrow> (index ! (i - 1), codes ! (i - 1))
             | None \<Rightarrow> (lin, db))"

section \<open>Its contract\<close>

lemma find_upt_Some:
  "List.find P [a..<b] = Some i \<Longrightarrow> P i \<and> a \<le> i \<and> i < b \<and> (\<forall>j. a \<le> j \<and> j < i \<longrightarrow> \<not> P j)"
proof -
  assume "List.find P [a..<b] = Some i"
  then obtain n where n: "n < length [a..<b]" "P ([a..<b] ! n)" "i = [a..<b] ! n"
      "\<forall>m<n. \<not> P ([a..<b] ! m)"
    unfolding find_Some_iff by blast
  have "\<not> P j" if "a \<le> j" "j < i" for j
    using n(1,3) n(4) [rule_format, of "j - a"] that by simp
  then show ?thesis using n by simp
qed

lemma find_upt_None: "List.find P [a..<b] = None \<longleftrightarrow> (\<forall>i. a \<le> i \<and> i < b \<longrightarrow> \<not> P i)"
  by (auto simp: find_None_iff)

lemma strictly_increasing:
  "successively (<) xs \<Longrightarrow> i < j \<Longrightarrow> j < length xs \<Longrightarrow> xs ! i < (xs ! j :: 'a::order)"
  by (metis successively_conv_sorted_wrt transp_on_less sorted_wrt_nth_less)

text \<open>The position of a request in a table: of the greatest entry not above it.\<close>

definition at_position :: "u32 list \<Rightarrow> u32 \<Rightarrow> nat \<Rightarrow> bool" where
  "at_position index v j \<longleftrightarrow> j < length index \<and>
     (index ! 0 \<le> v \<longrightarrow> index ! j \<le> v) \<and> (v < index ! 0 \<longrightarrow> j = 0) \<and>
     (\<forall>i < length index. index ! i \<le> v \<longrightarrow> i \<le> j)"

locale gain_table =
  fixes index codes :: "u32 list"
  assumes two_entries: "2 \<le> length index"
    and increasing: "successively (<) index"
    and paired: "length codes = length index"
begin

lemma entries_less: "i < j \<Longrightarrow> j < length index \<Longrightarrow> index ! i < index ! j"
  using increasing by (rule strictly_increasing)

lemma entries_le: "i \<le> j \<Longrightarrow> j < length index \<Longrightarrow> index ! i \<le> index ! j"
  using entries_less by (cases "i = j") (auto simp: less_imp_le)

lemma top_entry: "i < length index \<Longrightarrow> index ! i \<le> index ! (length index - 1)"
  using two_entries by (intro entries_le) auto

lemma calc_position:
  "\<exists>j. at_position index lin j \<and> gain_calc index codes (lin, db) = (index ! j, codes ! j)"
proof (cases "index ! (length index - 1) \<le> lin")
  case True
  have "0 < length index" using two_entries by linarith
  then show ?thesis
    using True top_entry unfolding gain_calc_def at_position_def
    by (intro exI [of _ "length index - 1"]) (auto dest: order_trans leD)
next
  case top: False
  show ?thesis
  proof (cases "first_above lin index")
    case None
    moreover have "1 \<le> length index - 1 \<and> length index - 1 < length index"
      using two_entries by linarith
    ultimately have "\<not> lin < index ! (length index - 1)"
      unfolding first_above_def find_upt_None by blast
    then show ?thesis using top by simp
  next
    case (Some i)
    then have i: "lin < index ! i" "1 \<le> i" "i < length index"
        "\<And>j. 1 \<le> j \<Longrightarrow> j < i \<Longrightarrow> index ! j \<le> lin"
      unfolding first_above_def by (auto dest!: find_upt_Some simp: not_less)
    have "j \<le> i - 1" if "j < length index" "index ! j \<le> lin" for j
    proof (rule ccontr)
      assume "\<not> j \<le> i - 1"
      then have "index ! i \<le> index ! j" using that by (intro entries_le) auto
      then show False using that i(1) by simp
    qed
    moreover have "index ! (i - 1) \<le> lin" if "index ! 0 \<le> lin"
      using that i by (cases "i = 1") auto
    moreover have "i = 1" if "lin < index ! 0"
      using i(4) [of 1] entries_le [of 0 1] i(2,3) that by (cases "i = 1") auto
    ultimately show ?thesis
      using top i Some unfolding gain_calc_def at_position_def
      by (intro exI [of _ "i - 1"]) auto
  qed
qed

lemma position_unique: "at_position index v i \<Longrightarrow> at_position index v j \<Longrightarrow> i = j"
  unfolding at_position_def using two_entries by (meson le_antisym linorder_not_le order_trans)

lemma calc_at: "at_position index lin j \<Longrightarrow> gain_calc index codes (lin, db) = (index ! j, codes ! j)"
  using calc_position [of lin db] position_unique by blast

lemma position_of_entry: "j < length index \<Longrightarrow> at_position index (index ! j) j"
  unfolding at_position_def using entries_le [of 0 j] entries_less
  by (auto simp: not_less [symmetric])

text \<open>The gain reported back is a fixed point: asking for it again changes nothing.\<close>

lemma calc_idem: "gain_calc index codes (gain_calc index codes (lin, db)) = gain_calc index codes (lin, db)"
proof -
  obtain j where j: "at_position index lin j" "gain_calc index codes (lin, db) = (index ! j, codes ! j)"
    using calc_position by blast
  then have "j < length index" by (simp add: at_position_def)
  then show ?thesis using j calc_at [OF position_of_entry] by simp
qed

lemma calc_mono:
  assumes "v \<le> w"
  shows "fst (gain_calc index codes (v, a)) \<le> fst (gain_calc index codes (w, b))"
proof -
  obtain i j where ij: "at_position index v i" "gain_calc index codes (v, a) = (index ! i, codes ! i)"
      "at_position index w j" "gain_calc index codes (w, b) = (index ! j, codes ! j)"
    using calc_position by metis
  have "i \<le> j"
    using ij(1,3) assms unfolding at_position_def by (meson le0 linorder_not_less order_trans)
  then show ?thesis using ij entries_le [of i j] by (simp add: at_position_def)
qed

lemma calc_bounds:
  "index ! 0 \<le> fst (gain_calc index codes (v, a)) \<and>
   fst (gain_calc index codes (v, a)) \<le> index ! (length index - 1)"
proof -
  obtain j where "at_position index v j" "gain_calc index codes (v, a) = (index ! j, codes ! j)"
    using calc_position by blast
  then show ?thesis using entries_le [of 0 j] top_entry [of j] by (simp add: at_position_def)
qed

lemma calc_not_above:
  "index ! 0 \<le> v \<Longrightarrow> fst (gain_calc index codes (v, a)) \<le> v"
  using calc_position [of v a] by (auto simp: at_position_def)

text \<open>No entry of the table lies between the reported gain and the request.\<close>

lemma calc_greatest:
  "x \<in> set index \<Longrightarrow> x \<le> v \<Longrightarrow> x \<le> fst (gain_calc index codes (v, a))"
proof -
  assume "x \<in> set index" "x \<le> v"
  then obtain i where i: "i < length index" "x = index ! i" by (auto simp: in_set_conv_nth)
  obtain j where j: "at_position index v j" "gain_calc index codes (v, a) = (index ! j, codes ! j)"
    using calc_position by blast
  then have "i \<le> j" using i \<open>x \<le> v\<close> by (simp add: at_position_def)
  then show ?thesis using i j entries_le [of i j] by (simp add: at_position_def)
qed

text \<open>The code reported is the one stored beside the gain.\<close>

lemma calc_pair: "gain_calc index codes (v, a) \<in> set (zip index codes)"
proof -
  obtain j where "at_position index v j" "gain_calc index codes (v, a) = (index ! j, codes ! j)"
    using calc_position by blast
  then show ?thesis using paired by (auto simp: at_position_def in_set_zip)
qed

end

end
