(* ===== verification/Sensor_Driver.thy ===== *)
theory Sensor_Driver
  imports Gain_Table
begin

text \<open>
  What the sensor drivers have in common beyond \<^verbatim>\<open>sensor_common.c\<close>: the array of \<^verbatim>\<open>cis_info\<close>
  structures of a driver, access to them by pipe, the structures in which the driver reports its
  defaults to the ISP, AE and AWB libraries, and the protocol by which the ISP fetches the
  registers to write at a frame boundary.
\<close>

unbundle bit_operations_syntax

section \<open>The state of a driver\<close>

text \<open>
  \<open>g_info\<close> is the static array with one entry per ISP pipe (its length is
  \<^verbatim>\<open>OT_ISP_MAX_PIPE_NUM\<close>), \<open>calls\<close> the trace of external calls so far.
\<close>

record drv =
  g_info :: "cis_info list"
  g_standby_cfg_init :: "bool list"
  calls :: trace

definition cmos_get_info :: "int \<Rightarrow> 'a drv_scheme \<Rightarrow> cis_info option" where
  "cmos_get_info vi_pipe d =
     (if vi_pipe < 0 \<or> int (length (g_info d)) \<le> vi_pipe then None else Some (g_info d ! nat vi_pipe))"

definition cmos_get_state :: "int \<Rightarrow> 'a drv_scheme \<Rightarrow> ot_isp_sns_state option" where
  "cmos_get_state vi_pipe d =
     (case cmos_get_info vi_pipe d of None \<Rightarrow> None | Some ci \<Rightarrow> sns_state ci)"

text \<open>Assignments through the pointers that these two return.\<close>

definition put_info :: "int \<Rightarrow> cis_info \<Rightarrow> 'a drv_scheme \<Rightarrow> 'a drv_scheme" where
  "put_info vi_pipe ci d = d\<lparr>g_info := (g_info d)[nat vi_pipe := ci]\<rparr>"

definition put_state :: "int \<Rightarrow> ot_isp_sns_state \<Rightarrow> 'a drv_scheme \<Rightarrow> 'a drv_scheme" where
  "put_state vi_pipe st d =
     (case cmos_get_info vi_pipe d of
        None \<Rightarrow> d | Some ci \<Rightarrow> put_info vi_pipe (ci\<lparr>sns_state := Some st\<rparr>) d)"

text \<open>One register write, and a sequence of writes whose results are ignored.\<close>

definition drv_write :: "sdk \<Rightarrow> cis_i2c \<Rightarrow> u32 \<Rightarrow> u32 \<Rightarrow> 'a drv_scheme \<Rightarrow> ret \<times> 'a drv_scheme" where
  "drv_write k i addr dat d =
     (case cis_write_reg k (Some i) addr dat (calls d) of (r, tr) \<Rightarrow> (r, d\<lparr>calls := tr\<rparr>))"

fun drv_writes :: "sdk \<Rightarrow> cis_i2c \<Rightarrow> (u32 \<times> u32) list \<Rightarrow> 'a drv_scheme \<Rightarrow> 'a drv_scheme" where
  "drv_writes k i [] d = d"
| "drv_writes k i ((addr, dat) # ws) d = drv_writes k i ws (snd (drv_write k i addr dat d))"

text \<open>A sequence of writes that stops at the first failure (\<^verbatim>\<open>sns_check_return\<close>).\<close>

fun drv_writes_checked ::
  "sdk \<Rightarrow> cis_i2c \<Rightarrow> (u32 \<times> u32) list \<Rightarrow> 'a drv_scheme \<Rightarrow> ret \<times> 'a drv_scheme" where
  "drv_writes_checked k i [] d = (TD_SUCCESS, d)"
| "drv_writes_checked k i ((addr, dat) # ws) d =
     (case drv_write k i addr dat d of (r, d) \<Rightarrow>
        if r = TD_SUCCESS then drv_writes_checked k i ws d else (r, d))"

definition drv_delay_ms :: "sdk \<Rightarrow> u32 \<Rightarrow> 'a drv_scheme \<Rightarrow> 'a drv_scheme" where
  "drv_delay_ms k ms d = d\<lparr>calls := cis_delay_ms k ms (calls d)\<rparr>"

text \<open>\<^verbatim>\<open>regs_info[0].i2c_data[j].data = v\<close>, and the fields that \<^verbatim>\<open>reg_info_init\<close> assigns.\<close>

definition upd_regs0 ::
  "(ot_isp_sns_regs_info \<Rightarrow> ot_isp_sns_regs_info) \<Rightarrow> ot_isp_sns_state \<Rightarrow> ot_isp_sns_state" where
  "upd_regs0 f st = st\<lparr>regs_info := (regs_info st)(0 := f (regs_info st 0))\<rparr>"

definition upd_i2c_data :: "nat \<Rightarrow> (ot_isp_i2c_data \<Rightarrow> ot_isp_i2c_data) \<Rightarrow>
    ot_isp_sns_regs_info \<Rightarrow> ot_isp_sns_regs_info" where
  "upd_i2c_data j f r = r\<lparr>i2c_data := (i2c_data r)(j := f (i2c_data r j))\<rparr>"

definition set_data :: "nat \<Rightarrow> u32 \<Rightarrow> ot_isp_sns_state \<Rightarrow> ot_isp_sns_state" where
  "set_data j v = upd_regs0 (upd_i2c_data j (\<lambda>x. x\<lparr>d_data := v\<rparr>))"

definition set_slot :: "nat \<Rightarrow> u8 \<Rightarrow> u32 \<Rightarrow> ot_isp_sns_regs_info \<Rightarrow> ot_isp_sns_regs_info" where
  "set_slot j delay addr = upd_i2c_data j (\<lambda>x. x\<lparr>d_delay_frame_num := delay, d_reg_addr := addr\<rparr>)"

definition set_delay :: "nat \<Rightarrow> u8 \<Rightarrow> ot_isp_sns_regs_info \<Rightarrow> ot_isp_sns_regs_info" where
  "set_delay j delay = upd_i2c_data j (\<lambda>x. x\<lparr>d_delay_frame_num := delay\<rparr>)"

text \<open>The loop that marks every register for transmission.\<close>

definition mark_all :: "u8 \<Rightarrow> u32 \<Rightarrow> u32 \<Rightarrow> ot_isp_sns_regs_info \<Rightarrow> ot_isp_sns_regs_info" where
  "mark_all dev ab db r = r\<lparr>i2c_data :=
     for_upto (unat (reg_num r))
       (\<lambda>i f. f(i := (f i)\<lparr>d_update := True, d_dev_addr := dev, d_addr_byte_num := ab,
                           d_data_byte_num := db\<rparr>)) (i2c_data r)\<rparr>"

text \<open>The loop that marks the registers whose data differ from those sent last.\<close>

definition mark_changed :: "ot_isp_sns_state \<Rightarrow> ot_isp_sns_state" where
  "mark_changed st = upd_regs0 (\<lambda>r. r\<lparr>i2c_data :=
     for_upto (unat (reg_num r))
       (\<lambda>i f. f(i := (f i)\<lparr>d_update := (d_data (f i) \<noteq> d_data (i2c_data (regs_info st 1) i))\<rparr>))
       (i2c_data r)\<rparr>) st"

text \<open>The table row of the current image mode.\<close>

definition cur_mode :: "cis_info \<Rightarrow> ot_isp_sns_state \<Rightarrow> cis_video_mode_tbl" where
  "cur_mode ci st = mode_tbl ci ! unat (img_mode st)"

section \<open>Defaults reported to the libraries\<close>

datatype ae_accu_type = OT_ISP_AE_ACCURACY_DB | OT_ISP_AE_ACCURACY_LINEAR | OT_ISP_AE_ACCURACY_TABLE

datatype ae_exp_strategy = OT_ISP_AE_EXP_HIGHLIGHT_PRIOR | OT_ISP_AE_EXP_LOWLIGHT_PRIOR

datatype iris_f_no = OT_ISP_IRIS_F_NO_1_4 | OT_ISP_IRIS_F_NO_5_6 | OT_ISP_IRIS_F_NO_OTHER nat

record ot_isp_ae_accuracy =
  accu_type :: ae_accu_type
  accuracy :: f32
  accu_offset :: f32

text \<open>
  \<^verbatim>\<open>ot_isp_ae_sensor_default\<close>.  Calibration structures of \<^verbatim>\<open>*_cmos_param.h\<close> that are copied as a
  whole appear here and below as the name of the constant they are copied from.
\<close>

record ot_isp_ae_sensor_default =
  dft_int_time_accu :: ot_isp_ae_accuracy
  dft_again_accu :: ot_isp_ae_accuracy
  dft_dgain_accu :: ot_isp_ae_accuracy
  dft_full_lines_std :: u32
  dft_full_lines_max :: u32
  dft_full_lines :: u32
  dft_flicker_freq :: u32
  dft_hmax_times :: u32
  dft_isp_dgain_shift :: u32
  dft_min_isp_dgain_target :: u32
  dft_max_isp_dgain_target :: u32
  dft_piris_attr :: string
  dft_lines_per500ms :: u32
  dft_max_iris_fno :: iris_f_no
  dft_min_iris_fno :: iris_f_no
  dft_ae_route_ex_valid :: bool
  dft_ae_route_attr :: ot_isp_ae_route
  dft_ae_route_attr_ex :: ot_isp_ae_route
  dft_ae_route_sf_attr :: ot_isp_ae_route
  dft_ae_route_sf_attr_ex :: ot_isp_ae_route
  dft_quick_start_enable :: bool
  dft_black_frame_num :: u8
  dft_ae_stat_pos :: u8
  dft_max_again :: u32
  dft_min_again :: u32
  dft_max_again_target :: u32
  dft_min_again_target :: u32
  dft_max_dgain :: u32
  dft_min_dgain :: u32
  dft_max_dgain_target :: u32
  dft_min_dgain_target :: u32
  dft_ae_compensation :: u8
  dft_ae_exp_mode :: ae_exp_strategy
  dft_init_exposure :: u32
  dft_init_int_time :: u32
  dft_init_again :: u32
  dft_init_dgain :: u32
  dft_init_isp_dgain :: u32
  dft_max_int_time :: u32
  dft_min_int_time :: u32
  dft_max_int_time_target :: u32
  dft_min_int_time_target :: u32
  dft_fps :: f32
  dft_diff_gain_support :: bool
  dft_man_ratio_enable :: bool
  dft_arr_ratio :: "nat \<Rightarrow> u32"
  dft_lf_min_exposure :: u32

record ot_isp_awb_sensor_default =
  wb_ref_temp :: u16
  gain_offset :: "nat \<Rightarrow> u16"
  wb_para :: "nat \<Rightarrow> int"
  golden_rgain :: u16
  golden_bgain :: u16
  awb_ccm :: string
  awb_agc_tbl :: string
  awb_sector :: string
  awb_init_rgain :: u16
  awb_init_ggain :: u16
  awb_init_bgain :: u16
  awb_sample_rgain :: u16
  awb_sample_bgain :: u16

definition zero_awb_default :: ot_isp_awb_sensor_default where
  "zero_awb_default = \<lparr>wb_ref_temp = 0, gain_offset = (\<lambda>_. 0), wb_para = (\<lambda>_. 0), golden_rgain = 0,
     golden_bgain = 0, awb_ccm = '''', awb_agc_tbl = '''', awb_sector = '''', awb_init_rgain = 0,
     awb_init_ggain = 0, awb_init_bgain = 0, awb_sample_rgain = 0, awb_sample_bgain = 0\<rparr>"

text \<open>The blocks of the ISP a driver brings parameters for.\<close>

datatype isp_block =
    Ca | Dpc | Wdr | Lsc | Acs | Pregamma | Demosaic | Sharpen | Drc | Bayer_nr | Anti_false_color
  | Cac | Ldci | Gamma | Clut | Ge | Dehaze

text \<open>Compile-time switches and array bounds of the SDK build.\<close>

record isp_build =
  cr_support :: bool
  ca_support :: bool
  pregamma_support :: bool
  bayer_chn_num :: nat
  wdr_max_frame_num :: nat

record dng_raw_format =
  bits_per_sample :: u8
  white_level :: u32
  scale_hor :: "u32 \<times> u32"
  scale_ver :: "u32 \<times> u32"
  cfa_repeat_pattern_dim :: "u16 \<times> u16"
  black_level_repeat_dim :: "u16 \<times> u16"
  cfa_layout_rectangular :: bool
  cfa_plane_color :: "nat \<Rightarrow> u8"
  cfa_pattern :: "nat \<Rightarrow> u8"

record dng_color_param =
  wb_gain1 :: "u16 list"
  wb_gain2 :: "u16 list"
  ccm1 :: "u16 \<times> u16 list"
  ccm2 :: "u16 \<times> u16 list"

record ot_isp_cmos_default =
  key_bit :: "isp_block \<Rightarrow> bool"
  isp_param :: "isp_block \<Rightarrow> string option"
  noise_calibration :: string
  exp_ratio :: "nat \<Rightarrow> u32"
  def_sns_id :: u32
  def_sns_mode :: u8
  dng_raw :: dng_raw_format
  valid_dng_raw_format :: bool
  dng_color :: dng_color_param

definition zero_cmos_default :: ot_isp_cmos_default where
  "zero_cmos_default = \<lparr>key_bit = (\<lambda>_. False), isp_param = (\<lambda>_. None), noise_calibration = '''',
     exp_ratio = (\<lambda>_. 0), def_sns_id = 0, def_sns_mode = 0,
     dng_raw = \<lparr>bits_per_sample = 0, white_level = 0, scale_hor = (0, 0), scale_ver = (0, 0),
       cfa_repeat_pattern_dim = (0, 0), black_level_repeat_dim = (0, 0),
       cfa_layout_rectangular = False, cfa_plane_color = (\<lambda>_. 0), cfa_pattern = (\<lambda>_. 0)\<rparr>,
     valid_dng_raw_format = False,
     dng_color = \<lparr>wb_gain1 = [], wb_gain2 = [], ccm1 = (0, []), ccm2 = (0, [])\<rparr>\<rparr>"

text \<open>\<^verbatim>\<open>isp_def->key.bit1_b = on; isp_def->b = &p;\<close>\<close>

definition set_block :: "isp_block \<Rightarrow> bool \<Rightarrow> string \<Rightarrow> ot_isp_cmos_default \<Rightarrow> ot_isp_cmos_default" where
  "set_block b on p x = x\<lparr>key_bit := (key_bit x)(b := on), isp_param := (isp_param x)(b := Some p)\<rparr>"

text \<open>
  \<^verbatim>\<open>ot_isp_cmos_black_level\<close>: the copied default, the update flag of the automatic attribute and
  its levels by exposure frame and Bayer channel, \<open>None\<close> where the copied value stays.
\<close>

record ot_isp_cmos_black_level =
  blc_base :: string
  blc_update :: bool
  blc_level :: "nat \<Rightarrow> nat \<Rightarrow> u16 option"

record ot_isp_cmos_sns_image_mode =
  im_width :: u32
  im_height :: u32
  im_fps :: f32

record ot_isp_ae_int_time_range =
  int_time_max :: "nat \<Rightarrow> u32"
  int_time_min :: "nat \<Rightarrow> u32"

record ot_isp_ae_fast_ae_attr =
  fast_enable :: bool
  sns_delay_frame :: u8

text \<open>The condition of the search for an image mode.\<close>

definition mode_fits :: "ot_isp_cmos_sns_image_mode \<Rightarrow> ot_wdr_mode \<Rightarrow> cis_video_mode_tbl \<Rightarrow> bool" where
  "mode_fits im w m \<longleftrightarrow> im_fps im \<le> max_fps m \<and> im_width im \<le> width m \<and> im_height im \<le> height m
     \<and> w = tbl_wdr_mode m"

section \<open>The callback tables\<close>

text \<open>
  The tables of function pointers a driver hands to the ISP, AE and AWB libraries, and the sensor
  object through which the application reaches it.  Out-parameters are options, \<open>None\<close> being a
  null pointer; an operation returns the contents of its out-parameters and the driver state.
  Pointers that a driver may leave null are options.  \<open>pfn_standby\<close> is partial because a driver
  may read outside an array there.
\<close>

record 'd ot_isp_sns_exp_func =
  pfn_cmos_sns_init :: "int \<Rightarrow> 'd \<Rightarrow> 'd"
  pfn_cmos_sns_exit :: "int \<Rightarrow> 'd \<Rightarrow> 'd"
  pfn_cmos_sns_global_init :: "int \<Rightarrow> 'd \<Rightarrow> 'd"
  pfn_cmos_set_image_mode :: "int \<Rightarrow> ot_isp_cmos_sns_image_mode option \<Rightarrow> 'd \<Rightarrow> ret \<times> 'd"
  pfn_cmos_set_wdr_mode :: "int \<Rightarrow> u8 \<Rightarrow> 'd \<Rightarrow> ret \<times> 'd"
  pfn_cmos_get_isp_default ::
    "int \<Rightarrow> ot_isp_cmos_default option \<Rightarrow> 'd \<Rightarrow> ret \<times> ot_isp_cmos_default option"
  pfn_cmos_get_isp_black_level ::
    "int \<Rightarrow> ot_isp_cmos_black_level option \<Rightarrow> 'd \<Rightarrow> ret \<times> ot_isp_cmos_black_level option"
  pfn_cmos_get_blc_clamp_info :: "int \<Rightarrow> bool option \<Rightarrow> 'd \<Rightarrow> ret \<times> bool option"
  pfn_cmos_set_pixel_detect :: "int \<Rightarrow> bool \<Rightarrow> 'd \<Rightarrow> 'd"
  pfn_cmos_get_sns_reg_info ::
    "int \<Rightarrow> ot_isp_sns_regs_info option \<Rightarrow> 'd \<Rightarrow> ret \<times> ot_isp_sns_regs_info option \<times> 'd"
  pfn_cmos_get_standby_cfg ::
    "(int \<Rightarrow> ot_isp_sns_regs_info option \<Rightarrow> 'd \<Rightarrow> ret \<times> ot_isp_sns_regs_info option \<times> 'd) option"

record 'd ot_isp_ae_sensor_exp_func =
  pfn_cmos_get_ae_default ::
    "int \<Rightarrow> ot_isp_ae_sensor_default option \<Rightarrow> 'd \<Rightarrow> ret \<times> ot_isp_ae_sensor_default option"
  pfn_cmos_fps_set ::
    "int \<Rightarrow> f32 \<Rightarrow> ot_isp_ae_sensor_default option \<Rightarrow> 'd \<Rightarrow> ot_isp_ae_sensor_default option \<times> 'd"
  pfn_cmos_slow_framerate_set ::
    "int \<Rightarrow> u32 \<Rightarrow> ot_isp_ae_sensor_default option \<Rightarrow> 'd \<Rightarrow> ot_isp_ae_sensor_default option \<times> 'd"
  pfn_cmos_inttime_update :: "int \<Rightarrow> u32 \<Rightarrow> 'd \<Rightarrow> 'd"
  pfn_cmos_gains_update :: "int \<Rightarrow> u32 \<Rightarrow> u32 \<Rightarrow> 'd \<Rightarrow> 'd"
  pfn_cmos_again_calc_table :: "int \<Rightarrow> u32 option \<Rightarrow> u32 option \<Rightarrow> u32 option \<times> u32 option"
  pfn_cmos_dgain_calc_table :: "(int \<Rightarrow> u32 option \<Rightarrow> u32 option \<Rightarrow> u32 option \<times> u32 option) option"
  pfn_cmos_get_inttime_max ::
    "int \<Rightarrow> u16 \<Rightarrow> (nat \<Rightarrow> u32) option \<Rightarrow> ot_isp_ae_int_time_range option \<Rightarrow> u32 option \<Rightarrow> 'd \<Rightarrow>
     ot_isp_ae_int_time_range option \<times> u32 option"
  pfn_cmos_ae_fswdr_attr_set :: "int \<Rightarrow> ot_isp_fswdr_mode option \<Rightarrow> 'd \<Rightarrow> 'd"
  pfn_cmos_ae_quick_start_status_set :: "(int \<Rightarrow> bool \<Rightarrow> 'd \<Rightarrow> 'd) option"
  pfn_cmos_ae_fast_ae_attr_get ::
    "(int \<Rightarrow> ot_isp_ae_fast_ae_attr option \<Rightarrow> 'd \<Rightarrow> ot_isp_ae_fast_ae_attr option) option"
  pfn_cmos_ae_fast_ae_attr_set :: "(int \<Rightarrow> ot_isp_ae_fast_ae_attr option \<Rightarrow> 'd \<Rightarrow> 'd) option"

record 'd ot_isp_awb_sensor_exp_func =
  pfn_cmos_get_awb_default ::
    "int \<Rightarrow> ot_isp_awb_sensor_default option \<Rightarrow> 'd \<Rightarrow> ret \<times> ot_isp_awb_sensor_default option"

record 'd ot_isp_sns_obj =
  pfn_register_callback :: "int \<Rightarrow> bool \<Rightarrow> bool \<Rightarrow> 'd \<Rightarrow> ret \<times> 'd"
  pfn_un_register_callback :: "int \<Rightarrow> bool \<Rightarrow> bool \<Rightarrow> 'd \<Rightarrow> ret \<times> 'd"
  pfn_standby :: "int \<Rightarrow> 'd \<Rightarrow> 'd option"
  pfn_restart :: "int \<Rightarrow> 'd \<Rightarrow> 'd"
  pfn_mirror_flip :: "(int \<Rightarrow> nat \<Rightarrow> 'd \<Rightarrow> 'd) option"
  pfn_set_blc_clamp :: "(int \<Rightarrow> bool \<Rightarrow> 'd \<Rightarrow> ret \<times> 'd) option"
  pfn_write_reg :: "int \<Rightarrow> u32 \<Rightarrow> u32 \<Rightarrow> 'd \<Rightarrow> ret \<times> 'd"
  pfn_read_reg :: "int \<Rightarrow> u32 \<Rightarrow> ret"
  pfn_set_bus_info :: "int \<Rightarrow> int \<Rightarrow> 'd \<Rightarrow> ret \<times> 'd"
  pfn_set_init :: "int \<Rightarrow> ot_isp_init_attr option \<Rightarrow> 'd \<Rightarrow> ret \<times> 'd"
  pfn_set_fast_ae :: "(int \<Rightarrow> bool option \<Rightarrow> 'd \<Rightarrow> ret \<times> 'd) option"

section \<open>Access lemmas\<close>

lemma get_info_Some:
  "cmos_get_info p d = Some ci \<longleftrightarrow> 0 \<le> p \<and> nat p < length (g_info d) \<and> ci = g_info d ! nat p"
  by (auto simp: cmos_get_info_def)

lemma get_put_info [simp]:
  "cmos_get_info p (put_info p ci d) = (if cmos_get_info p d = None then None else Some ci)"
  by (auto simp: cmos_get_info_def put_info_def)

lemma get_put_state [simp]:
  "cmos_get_info p (put_state p st d) =
     map_option (\<lambda>ci. ci\<lparr>sns_state := Some st\<rparr>) (cmos_get_info p d)"
  by (auto simp: put_state_def split: option.splits)

lemma put_info_frame [simp]:
  "calls (put_info p ci d) = calls d"
  "g_standby_cfg_init (put_info p ci d) = g_standby_cfg_init d"
  "length (g_info (put_info p ci d)) = length (g_info d)"
  by (simp_all add: put_info_def)

lemma put_state_frame [simp]:
  "calls (put_state p st d) = calls d"
  "length (g_info (put_state p st d)) = length (g_info d)"
  by (simp_all add: put_state_def split: option.splits)

text \<open>Operations on one pipe leave the others alone.\<close>

lemma put_info_other:
  "0 \<le> p \<Longrightarrow> 0 \<le> q \<Longrightarrow> p \<noteq> q \<Longrightarrow> cmos_get_info q (put_info p ci d) = cmos_get_info q d"
  by (auto simp: cmos_get_info_def put_info_def nth_list_update)

lemma drv_write_frame [simp]:
  "g_info (snd (drv_write k i a v d)) = g_info d"
  "g_standby_cfg_init (snd (drv_write k i a v d)) = g_standby_cfg_init d"
  by (simp_all add: drv_write_def split: prod.splits)

lemma drv_writes_frame [simp]:
  "g_info (drv_writes k i ws d) = g_info d"
  "g_standby_cfg_init (drv_writes k i ws d) = g_standby_cfg_init d"
  by (induction ws arbitrary: d) auto

lemma get_info_cong: "g_info d = g_info e \<Longrightarrow> cmos_get_info p d = cmos_get_info p e"
  by (simp add: cmos_get_info_def)

text \<open>Bus operations change nothing but the trace.\<close>

lemma drv_write_calls: "\<exists>tr. snd (drv_write k i a v d) = d\<lparr>calls := tr\<rparr>"
  by (auto simp: drv_write_def split: prod.splits)

lemma drv_writes_calls: "\<exists>tr. drv_writes k i ws d = d\<lparr>calls := tr\<rparr>"
proof (induction ws arbitrary: d)
  case Nil
  show ?case by (auto intro!: exI [of _ "calls d"])
next
  case (Cons w ws)
  obtain tr where "snd (drv_write k i (fst w) (snd w) d) = d\<lparr>calls := tr\<rparr>"
    using drv_write_calls by blast
  moreover obtain tr' where "drv_writes k i ws (d\<lparr>calls := tr\<rparr>) = d\<lparr>calls := tr'\<rparr>"
    using Cons.IH [of "d\<lparr>calls := tr\<rparr>"] by auto
  ultimately show ?case by (cases w) auto
qed

lemma drv_writes_checked_calls: "\<exists>tr. snd (drv_writes_checked k i ws d) = d\<lparr>calls := tr\<rparr>"
proof (induction ws arbitrary: d)
  case Nil
  show ?case by (auto intro!: exI [of _ "calls d"])
next
  case (Cons w ws)
  obtain r e where e: "drv_write k i (fst w) (snd w) d = (r, e)" by fastforce
  then obtain tr where tr: "e = d\<lparr>calls := tr\<rparr>"
    using drv_write_calls [of k i "fst w" "snd w" d] by auto
  moreover obtain tr' where "snd (drv_writes_checked k i ws e) = d\<lparr>calls := tr'\<rparr>"
    using Cons.IH [of e] tr by auto
  ultimately show ?case using e by (cases w) auto
qed

lemma drv_writes_checked_frame [simp]: "g_info (snd (drv_writes_checked k i ws d)) = g_info d"
  using drv_writes_checked_calls [of k i ws d] by auto

lemma get_info_writes [simp]:
  "cmos_get_info p (drv_writes k i ws d) = cmos_get_info p d"
  "cmos_get_info p (snd (drv_write k i a v d)) = cmos_get_info p d"
  "cmos_get_info p (snd (drv_writes_checked k i ws d)) = cmos_get_info p d"
  by (simp_all add: cmos_get_info_def)

lemma get_info_calls [simp]: "cmos_get_info p (d\<lparr>calls := tr\<rparr>) = cmos_get_info p d"
  by (simp add: cmos_get_info_def)

section \<open>A board for examples\<close>

lemma demo_sdk_answers [simp]:
  "answer (demo_sdk None) tr Call_malloc = 1"
  "answer (demo_sdk None) tr (Call_reg_callback l p s) = 0"
  "wdr_mode_of (demo_sdk b) 0 = OT_WDR_MODE_NONE"
  by (simp_all add: demo_sdk_def)

lemma demo_div_guards: "div_guards (demo_sdk b)"
  by (auto simp: div_guards_def demo_sdk_def)

lemma demo_register:
  "sns_state ci = None \<Longrightarrow>
   \<exists>tr'. cis_register_callback (demo_sdk None) ci tr =
     (TD_SUCCESS, ci\<lparr>sns_state := Some (zero_sns_state (demo_sdk None))\<rparr>, tr')"
  by (simp add: cis_register_callback_def cis_create_state_def)

text \<open>A block of memory for AE defaults before a driver fills it.\<close>

definition demo_accu :: ot_isp_ae_accuracy where
  "demo_accu = \<lparr>accu_type = OT_ISP_AE_ACCURACY_DB, accuracy = 0, accu_offset = 0\<rparr>"

definition demo_ae :: ot_isp_ae_sensor_default where
  "demo_ae = \<lparr>dft_int_time_accu = demo_accu, dft_again_accu = demo_accu, dft_dgain_accu = demo_accu,
     dft_full_lines_std = 0, dft_full_lines_max = 0, dft_full_lines = 0, dft_flicker_freq = 0,
     dft_hmax_times = 0, dft_isp_dgain_shift = 0, dft_min_isp_dgain_target = 0,
     dft_max_isp_dgain_target = 0, dft_piris_attr = '''', dft_lines_per500ms = 0,
     dft_max_iris_fno = OT_ISP_IRIS_F_NO_OTHER 0, dft_min_iris_fno = OT_ISP_IRIS_F_NO_OTHER 0,
     dft_ae_route_ex_valid = False, dft_ae_route_attr = zero_route, dft_ae_route_attr_ex = zero_route,
     dft_ae_route_sf_attr = zero_route, dft_ae_route_sf_attr_ex = zero_route,
     dft_quick_start_enable = False, dft_black_frame_num = 0, dft_ae_stat_pos = 0, dft_max_again = 0,
     dft_min_again = 0, dft_max_again_target = 0, dft_min_again_target = 0, dft_max_dgain = 0,
     dft_min_dgain = 0, dft_max_dgain_target = 0, dft_min_dgain_target = 0, dft_ae_compensation = 0,
     dft_ae_exp_mode = OT_ISP_AE_EXP_HIGHLIGHT_PRIOR, dft_init_exposure = 0, dft_init_int_time = 0,
     dft_init_again = 0, dft_init_dgain = 0, dft_init_isp_dgain = 0, dft_max_int_time = 0,
     dft_min_int_time = 0, dft_max_int_time_target = 0, dft_min_int_time_target = 0, dft_fps = 0,
     dft_diff_gain_support = False, dft_man_ratio_enable = False, dft_arr_ratio = (\<lambda>_. 0),
     dft_lf_min_exposure = 0\<rparr>"

section \<open>Bus traffic\<close>

text \<open>The byte strings handed to \<^verbatim>\<open>write\<close>, in order, and whether the last one was accepted.\<close>

fun sent :: "trace \<Rightarrow> u8 list list" where
  "sent [] = []"
| "sent ((Call_write f bs n, a) # tr) = bs # sent tr"
| "sent (e # tr) = sent tr"

definition last_refused :: "trace \<Rightarrow> bool" where
  "last_refused tr \<longleftrightarrow> (\<exists>f bs n a tr'. tr = tr' @ [(Call_write f bs n, a)] \<and> a < 0)"

lemma sent_append [simp]: "sent (tr @ tr') = sent tr @ sent tr'"
  by (induction tr rule: sent.induct) auto

definition buf_of :: "cis_i2c \<Rightarrow> u32 \<times> u32 \<Rightarrow> u8 list" where
  "buf_of i w = cis_write_buf i (fst w) (snd w)"

lemma drv_write_sent:
  assumes "0 \<le> fd i" "drv_write k i a v d = (r, e)"
  shows "sent (calls e) = sent (calls d) @ [buf_of i (a, v)] \<and>
    (r = TD_SUCCESS \<or> (r \<noteq> TD_SUCCESS \<and> last_refused (calls e)))"
  using assms by (auto simp: drv_write_def cis_write_reg_def buf_of_def last_refused_def split: if_splits)

lemma drv_writes_sent:
  "0 \<le> fd i \<Longrightarrow> sent (calls (drv_writes k i ws d)) = sent (calls d) @ map (buf_of i) ws"
proof (induction ws arbitrary: d)
  case (Cons w ws)
  obtain r e where e: "drv_write k i (fst w) (snd w) d = (r, e)" by fastforce
  then show ?case
    using Cons.IH [OF Cons.prems, of e] drv_write_sent [OF Cons.prems e] by (cases w) simp
qed simp

lemma drv_writes_checked_sent:
  assumes "0 \<le> fd i" "drv_writes_checked k i ws d = (r, e)"
  shows "if r = TD_SUCCESS then sent (calls e) = sent (calls d) @ map (buf_of i) ws
    else last_refused (calls e) \<and>
      (\<exists>n < length ws. sent (calls e) = sent (calls d) @ map (buf_of i) (take (Suc n) ws))"
  using assms(2)
proof (induction ws arbitrary: d)
  case (Cons w ws)
  obtain r1 e1 where e1: "drv_write k i (fst w) (snd w) d = (r1, e1)" by fastforce
  note s1 = drv_write_sent [OF assms(1) e1]
  show ?case
  proof (cases "r1 = TD_SUCCESS")
    case True
    then have "drv_writes_checked k i ws e1 = (r, e)" using Cons.prems e1 by (cases w) simp
    note IH = Cons.IH [OF this]
    show ?thesis
    proof (cases "r = TD_SUCCESS")
      case ok: True
      then show ?thesis using IH s1 by (cases w) simp
    next
      case bad: False
      then obtain n where "n < length ws" "last_refused (calls e)"
          "sent (calls e) = sent (calls e1) @ map (buf_of i) (take (Suc n) ws)"
        using IH by auto
      then show ?thesis using bad s1 by (cases w) (auto intro!: exI [of _ "Suc n"])
    qed
  next
    case False
    then show ?thesis using Cons.prems e1 s1 by (cases w) (auto intro!: exI [of _ 0])
  qed
qed simp

lemma delay_sent [simp]: "sent (calls (drv_delay_ms k ms d)) = sent (calls d)"
  by (simp add: drv_delay_ms_def cis_delay_ms_def)

section \<open>Start-up sequences\<close>

text \<open>
  The sequence with which the drivers start a sensor: software reset, a delay, the register table
  of the mode up to the first failure, the pending register set, streaming on.
\<close>

definition cfg_writes :: "cis_reg_cfg list \<Rightarrow> (u32 \<times> u32) list" where
  "cfg_writes cfg = map (map_prod ucast ucast) cfg"

definition pending_writes :: "ot_isp_sns_state \<Rightarrow> (u32 \<times> u32) list" where
  "pending_writes st =
     map (\<lambda>i. (d_reg_addr (i2c_data (regs_info st 0) i), d_data (i2c_data (regs_info st 0) i)))
         [0..<unat (reg_num (regs_info st 0))]"

definition start_sequence ::
  "sdk \<Rightarrow> cis_i2c \<Rightarrow> (u32 \<times> u32) list \<Rightarrow> (u32 \<times> u32) list \<Rightarrow> 'a drv_scheme \<Rightarrow> ret \<times> 'a drv_scheme" where
  "start_sequence k i cfg ws d =
     (case drv_write k i 0x0103 0x01 d of (r, d) \<Rightarrow>
        if r \<noteq> TD_SUCCESS then (r, d)
        else case drv_writes_checked k i cfg (drv_delay_ms k 1 d) of (r, d) \<Rightarrow>
          if r \<noteq> TD_SUCCESS then (r, d)
          else drv_write k i 0x0100 0x01 (drv_writes k i ws d))"

definition start_writes :: "(u32 \<times> u32) list \<Rightarrow> (u32 \<times> u32) list \<Rightarrow> (u32 \<times> u32) list" where
  "start_writes cfg ws = (0x0103, 0x01) # cfg @ ws @ [(0x0100, 0x01)]"

lemma length_cfg_writes [simp]: "length (cfg_writes cfg) = length cfg"
  by (simp add: cfg_writes_def)

lemma start_sequence_calls: "\<exists>tr. snd (start_sequence k i cfg ws d) = d\<lparr>calls := tr\<rparr>"
proof -
  obtain r1 e1 where 1: "drv_write k i 0x0103 0x01 d = (r1, e1)" by fastforce
  then obtain t1 where t1: "e1 = d\<lparr>calls := t1\<rparr>" using drv_write_calls [of k i _ _ d] by (metis snd_conv)
  obtain r2 e2 where 2: "drv_writes_checked k i cfg (drv_delay_ms k 1 e1) = (r2, e2)" by fastforce
  then obtain t2 where t2: "e2 = d\<lparr>calls := t2\<rparr>"
    using drv_writes_checked_calls [of k i cfg "drv_delay_ms k 1 e1"] t1 by (auto simp: drv_delay_ms_def)
  obtain t3 where t3: "drv_writes k i ws e2 = d\<lparr>calls := t3\<rparr>"
    using drv_writes_calls [of k i ws e2] t2 by auto
  obtain t4 where "snd (drv_write k i 0x0100 0x01 (d\<lparr>calls := t3\<rparr>)) = d\<lparr>calls := t4\<rparr>"
    using drv_write_calls [of k i _ _ "d\<lparr>calls := t3\<rparr>"] by fastforce
  then show ?thesis using 1 2 t1 t2 t3 by (auto simp: start_sequence_def)
qed

lemma start_sequence_frame [simp]: "g_info (snd (start_sequence k i cfg ws d)) = g_info d"
  using start_sequence_calls [of k i cfg ws d] by auto

lemma start_sequence_sent:
  assumes "0 \<le> fd i" "start_sequence k i cfg ws d = (r, e)"
  shows "if r = TD_SUCCESS
    then sent (calls e) = sent (calls d) @ map (buf_of i) (start_writes cfg ws)
    else last_refused (calls e) \<and> (\<exists>n \<le> length (start_writes cfg ws).
      sent (calls e) = sent (calls d) @ map (buf_of i) (take n (start_writes cfg ws)) \<and>
      (n \<le> length cfg + 1 \<or> n = length (start_writes cfg ws)))"
proof -
  obtain r1 e1 where 1: "drv_write k i 0x0103 0x01 d = (r1, e1)" by fastforce
  obtain r2 e2 where 2: "drv_writes_checked k i cfg (drv_delay_ms k 1 e1) = (r2, e2)" by fastforce
  obtain r3 e3 where 3: "drv_write k i 0x0100 0x01 (drv_writes k i ws e2) = (r3, e3)" by fastforce
  note s = drv_write_sent [OF assms(1) 1] drv_writes_checked_sent [OF assms(1) 2]
    drv_write_sent [OF assms(1) 3]
  consider (reset) "r1 \<noteq> TD_SUCCESS" | (tbl) "r1 = TD_SUCCESS" "r2 \<noteq> TD_SUCCESS"
    | (last) "r1 = TD_SUCCESS" "r2 = TD_SUCCESS" by blast
  then show ?thesis
  proof cases
    case reset
    then have "r = r1" "e = e1" using assms(2) 1 by (auto simp: start_sequence_def)
    then show ?thesis using s(1) reset by (auto simp: start_writes_def intro!: exI [of _ 1])
  next
    case tbl
    then have "r = r2" "e = e2" using assms(2) 1 2 by (auto simp: start_sequence_def)
    moreover obtain n where "n < length cfg"
      "sent (calls e2) = sent (calls d) @ map (buf_of i) ((0x0103, 0x01) # take (Suc n) cfg)"
      "last_refused (calls e2)"
      using s(1,2) tbl by auto
    ultimately show ?thesis using tbl
      by (auto simp: start_writes_def take_Cons' take_map intro!: exI [of _ "Suc (Suc n)"])
  next
    case last
    then have "r = r3" "e = e3" using assms(2) 1 2 3 by (auto simp: start_sequence_def)
    moreover have "sent (calls e3) = sent (calls d) @ map (buf_of i) (start_writes cfg ws)"
      using s last by (simp add: start_writes_def drv_writes_sent [OF assms(1)])
    moreover have "r3 = TD_SUCCESS \<or> last_refused (calls e3)" using s(3) by blast
    ultimately show ?thesis by auto
  qed
qed

section \<open>Register slots\<close>

lemma data_set_data [simp]:
  "d_data (i2c_data (regs_info (set_data j v st) 0) i) =
     (if i = j then v else d_data (i2c_data (regs_info st 0) i))"
  by (simp add: set_data_def upd_regs0_def upd_i2c_data_def)

lemma set_data_frame [simp]:
  "regs_info (set_data j v st) (Suc 0) = regs_info st (Suc 0)"
  "reg_num (regs_info (set_data j v st) 0) = reg_num (regs_info st 0)"
  "d_reg_addr (i2c_data (regs_info (set_data j v st) 0) i) = d_reg_addr (i2c_data (regs_info st 0) i)"
  "sync_init (set_data j v st) = sync_init st" "init (set_data j v st) = init st"
  "wdr_mode (set_data j v st) = wdr_mode st" "img_mode (set_data j v st) = img_mode st"
  "fl (set_data j v st) = fl st" "fl_std (set_data j v st) = fl_std st"
  "wdr_int_time (set_data j v st) = wdr_int_time st"
  by (simp_all add: set_data_def upd_regs0_def upd_i2c_data_def)

lemma mark_all_i2c:
  "i2c_data (mark_all dev ab db r) i =
     (if i < unat (reg_num r)
      then (i2c_data r i)\<lparr>d_update := True, d_dev_addr := dev, d_addr_byte_num := ab, d_data_byte_num := db\<rparr>
      else i2c_data r i)"
  unfolding mark_all_def
  by (simp add: for_upto_cells [where g = "\<lambda>_ x. x\<lparr>d_update := True, d_dev_addr := dev,
      d_addr_byte_num := ab, d_data_byte_num := db\<rparr>"])

lemma mark_changed_i2c:
  "i2c_data (regs_info (mark_changed st) 0) i =
     (if i < unat (reg_num (regs_info st 0))
      then (i2c_data (regs_info st 0) i)
        \<lparr>d_update := (d_data (i2c_data (regs_info st 0) i) \<noteq> d_data (i2c_data (regs_info st 1) i))\<rparr>
      else i2c_data (regs_info st 0) i)"
  unfolding mark_changed_def
  by (simp add: upd_regs0_def for_upto_cells [where g = "\<lambda>i x. x\<lparr>d_update :=
      (d_data x \<noteq> d_data (i2c_data (regs_info st (Suc 0)) i))\<rparr>"])

lemma mark_changed_frame [simp]:
  "regs_info (mark_changed st) (Suc 0) = regs_info st (Suc 0)"
  "reg_num (regs_info (mark_changed st) 0) = reg_num (regs_info st 0)"
  "sync_init (mark_changed st) = sync_init st"  "wdr_mode (mark_changed st) = wdr_mode st"
  by (simp_all add: mark_changed_def upd_regs0_def)

lemmas slot_defs = set_slot_def upd_i2c_data_def upd_regs0_def mark_all_i2c

lemma reg_num_slots [simp]:
  "reg_num (set_slot j w a r) = reg_num r" "reg_num (mark_all x y z r) = reg_num r"
  "reg_num (set_delay j w r) = reg_num r"
  by (simp_all add: set_slot_def set_delay_def upd_i2c_data_def mark_all_def)

lemma i2c_init_frame:
  "cis_i2c_init k ci tr = (r, ci', tr') \<Longrightarrow> mode_tbl ci' = mode_tbl ci \<and> sns_state ci' = sns_state ci"
  by (auto simp: cis_i2c_init_def Let_def split: if_splits)

lemma i2c_exit_frame:
  "cis_i2c_exit k ci tr = (r, ci', tr') \<Longrightarrow> mode_tbl ci' = mode_tbl ci \<and> sns_state ci' = sns_state ci"
  by (auto simp: cis_i2c_exit_def split: if_splits)

section \<open>The frame boundary\<close>

text \<open>
  At a frame boundary the ISP fetches \<^verbatim>\<open>regs_info[0]\<close> and writes the registers whose \<^verbatim>\<open>update\<close> flag
  is set.  \<open>image\<close> is the register file of the sensor.
\<close>

definition reg_addrs :: "ot_isp_sns_regs_info \<Rightarrow> u32 list" where
  "reg_addrs r = map (\<lambda>i. d_reg_addr (i2c_data r i)) [0..<unat (reg_num r)]"

definition isp_writes :: "ot_isp_sns_regs_info \<Rightarrow> (u32 \<times> u32) list" where
  "isp_writes r = map (\<lambda>i. (d_reg_addr (i2c_data r i), d_data (i2c_data r i)))
     (filter (\<lambda>i. d_update (i2c_data r i)) [0..<unat (reg_num r)])"

definition apply_writes :: "(u32 \<times> u32) list \<Rightarrow> (u32 \<Rightarrow> u32) \<Rightarrow> (u32 \<Rightarrow> u32)" where
  "apply_writes ws S = fold (\<lambda>(a, v) S. S(a := v)) ws S"

definition in_sync :: "ot_isp_sns_regs_info \<Rightarrow> (u32 \<Rightarrow> u32) \<Rightarrow> bool" where
  "in_sync r S \<longleftrightarrow> (\<forall>i < unat (reg_num r). S (d_reg_addr (i2c_data r i)) = d_data (i2c_data r i))"

lemma apply_writes_other: "a \<notin> fst ` set ws \<Longrightarrow> apply_writes ws S a = S a"
  unfolding apply_writes_def by (induction ws arbitrary: S) auto

lemma apply_writes_in:
  "distinct (map fst ws) \<Longrightarrow> (a, v) \<in> set ws \<Longrightarrow> apply_writes ws S a = v"
proof (induction ws arbitrary: S)
  case (Cons w ws)
  then show ?case
    using apply_writes_other [of a ws "S(a := v)"]
    by (cases w) (auto simp: apply_writes_def image_iff)
qed simp

lemma distinct_reg_addrs_nth:
  "distinct (reg_addrs r) \<Longrightarrow> i < unat (reg_num r) \<Longrightarrow> j < unat (reg_num r) \<Longrightarrow>
   d_reg_addr (i2c_data r i) = d_reg_addr (i2c_data r j) \<longleftrightarrow> i = j"
  unfolding reg_addrs_def by (auto simp: distinct_map inj_on_def)

lemma apply_isp_writes:
  assumes dist: "distinct (reg_addrs r)"
    and clean: "\<And>i. i < unat (reg_num r) \<Longrightarrow> \<not> d_update (i2c_data r i) \<Longrightarrow>
      S (d_reg_addr (i2c_data r i)) = d_data (i2c_data r i)"
  shows "in_sync r (apply_writes (isp_writes r) S)"
  unfolding in_sync_def
proof (intro allI impI)
  fix i
  assume i: "i < unat (reg_num r)"
  have dw: "distinct (map fst (isp_writes r))"
    using dist unfolding isp_writes_def reg_addrs_def by (auto simp: distinct_map inj_on_def)
  show "apply_writes (isp_writes r) S (d_reg_addr (i2c_data r i)) = d_data (i2c_data r i)"
  proof (cases "d_update (i2c_data r i)")
    case True
    then show ?thesis
      using i dw by (intro apply_writes_in) (auto simp: isp_writes_def)
  next
    case False
    have "d_reg_addr (i2c_data r i) \<notin> fst ` set (isp_writes r)"
    proof
      assume "d_reg_addr (i2c_data r i) \<in> fst ` set (isp_writes r)"
      then obtain j where j: "j < unat (reg_num r)" "d_update (i2c_data r j)"
          "d_reg_addr (i2c_data r i) = d_reg_addr (i2c_data r j)"
        by (auto simp: isp_writes_def)
      then show False using distinct_reg_addrs_nth [OF dist i j(1)] False by auto
    qed
    then show ?thesis using clean [OF i False] by (simp add: apply_writes_other)
  qed
qed

text \<open>
  The common body of \<^verbatim>\<open>cmos_isp_get_sns_regs_info\<close>: a full initialisation of the register set on the
  first call after a change of mode (or when the ISP says that it has not configured the sensor),
  the marking of changed registers otherwise; then the set is remembered as sent.
\<close>

definition sync_regs ::
  "(cis_info \<Rightarrow> ot_isp_sns_state \<Rightarrow> ot_isp_sns_state) \<Rightarrow> (ot_isp_sns_state \<Rightarrow> ot_isp_sns_state) \<Rightarrow>
   cis_info \<Rightarrow> bool \<Rightarrow> ot_isp_sns_state \<Rightarrow> ot_isp_sns_state" where
  "sync_regs reg_init reg_update ci cfg st =
     (let st = (if \<not> sync_init st \<or> \<not> cfg then (reg_init ci st)\<lparr>sync_init := True\<rparr> else reg_update st)
      in st\<lparr>regs_info := (regs_info st)(1 := regs_info st 0), fl := (fl st)(1 := fl st 0)\<rparr>)"

text \<open>
  A round of the frame loop: AE changes register data (\<open>us\<close>), then the ISP fetches the set and
  writes the marked registers; \<open>sync\<close> is the fetch.
\<close>

definition frame_round ::
  "(ot_isp_sns_state \<Rightarrow> ot_isp_sns_state) \<Rightarrow> (nat \<times> u32) list \<Rightarrow>
   ot_isp_sns_state \<times> (u32 \<Rightarrow> u32) \<Rightarrow> ot_isp_sns_state \<times> (u32 \<Rightarrow> u32)" where
  "frame_round sync us x =
     (let st = sync (fold (\<lambda>(j, v). set_data j v) us (fst x))
      in (st, apply_writes (isp_writes (regs_info st 0)) (snd x)))"

text \<open>What a driver's two register-set operations must do for the protocol to work.\<close>

locale register_sync =
  fixes reg_init :: "cis_info \<Rightarrow> ot_isp_sns_state \<Rightarrow> ot_isp_sns_state"
    and reg_update :: "ot_isp_sns_state \<Rightarrow> ot_isp_sns_state"
    and layout :: "ot_wdr_mode \<Rightarrow> u32 list"
  assumes layout_distinct: "distinct (layout w)"
    and init_layout: "reg_addrs (regs_info (reg_init ci st) 0) = layout (wdr_mode st)"
    and init_data: "d_data (i2c_data (regs_info (reg_init ci st) 0) i)
          = d_data (i2c_data (regs_info st 0) i)"
    and init_marks: "i < unat (reg_num (regs_info (reg_init ci st) 0)) \<Longrightarrow>
          d_update (i2c_data (regs_info (reg_init ci st) 0) i)"
    and init_frame: "wdr_mode (reg_init ci st) = wdr_mode st"
    and update_layout: "reg_addrs (regs_info (reg_update st) 0) = reg_addrs (regs_info st 0)"
    and update_num: "reg_num (regs_info (reg_update st) 0) = reg_num (regs_info st 0)"
    and update_data: "d_data (i2c_data (regs_info (reg_update st) 0) i)
          = d_data (i2c_data (regs_info st 0) i)"
    and update_marks: "i < unat (reg_num (regs_info st 0)) \<Longrightarrow>
          d_update (i2c_data (regs_info (reg_update st) 0) i) \<longleftrightarrow>
          d_data (i2c_data (regs_info st 0) i) \<noteq> d_data (i2c_data (regs_info st 1) i)"
    and update_frame: "wdr_mode (reg_update st) = wdr_mode st" "sync_init (reg_update st) = sync_init st"
begin

text \<open>Once synchronised, both register sets carry the layout of the mode.\<close>

definition laid_out :: "ot_isp_sns_state \<Rightarrow> bool" where
  "laid_out st \<longleftrightarrow> (sync_init st \<longrightarrow>
     reg_addrs (regs_info st 0) = layout (wdr_mode st) \<and>
     reg_addrs (regs_info st 1) = layout (wdr_mode st))"

lemma reg_addrs_eq_nth:
  "reg_addrs r = reg_addrs r' \<Longrightarrow> i < unat (reg_num r) \<Longrightarrow>
   unat (reg_num r) = unat (reg_num r') \<and> d_reg_addr (i2c_data r i) = d_reg_addr (i2c_data r' i)"
proof -
  assume e: "reg_addrs r = reg_addrs r'" and i: "i < unat (reg_num r)"
  from arg_cong [OF e, of length] have "unat (reg_num r) = unat (reg_num r')"
    by (simp add: reg_addrs_def)
  moreover from arg_cong [OF e, of "\<lambda>xs. xs ! i"] calculation i
  have "d_reg_addr (i2c_data r i) = d_reg_addr (i2c_data r' i)"
    by (simp add: reg_addrs_def)
  ultimately show ?thesis by simp
qed

lemma set_data_laid_out: "laid_out st \<Longrightarrow> laid_out (set_data j v st)"
  by (simp add: laid_out_def reg_addrs_def)

lemma set_datas:
  "laid_out st \<Longrightarrow> laid_out (fold (\<lambda>(j, v). set_data j v) us st) \<and>
     regs_info (fold (\<lambda>(j, v). set_data j v) us st) 1 = regs_info st 1 \<and>
     sync_init (fold (\<lambda>(j, v). set_data j v) us st) = sync_init st"
proof (induction us arbitrary: st)
  case (Cons u us)
  then show ?case
    using Cons.IH [OF set_data_laid_out [OF Cons.prems, of "fst u" "snd u"]] by (cases u) simp
qed simp

text \<open>One fetch: afterwards the sensor agrees with the driver's register set.\<close>

lemma sync_step:
  assumes lay: "laid_out st"
    and old: "sync_init st \<Longrightarrow> cfg \<Longrightarrow> in_sync (regs_info st 1) S"
    and st': "st' = sync_regs reg_init reg_update ci cfg st"
  shows "in_sync (regs_info st' 0) (apply_writes (isp_writes (regs_info st' 0)) S)
    \<and> regs_info st' 1 = regs_info st' 0 \<and> sync_init st' \<and> laid_out st'"
proof (cases "sync_init st \<and> cfg")
  case True
  let ?r = "regs_info (reg_update st) 0"
  have addrs: "reg_addrs ?r = layout (wdr_mode st)" "reg_addrs (regs_info st 1) = reg_addrs ?r"
      "reg_addrs (regs_info st 0) = reg_addrs ?r"
    using lay True by (auto simp: laid_out_def update_layout)
  have "in_sync ?r (apply_writes (isp_writes ?r) S)"
  proof (rule apply_isp_writes)
    show "distinct (reg_addrs ?r)" using addrs layout_distinct by simp
    fix i
    assume i: "i < unat (reg_num ?r)" "\<not> d_update (i2c_data ?r i)"
    then have "d_data (i2c_data ?r i) = d_data (i2c_data (regs_info st 1) i)"
      using update_marks update_data update_num by metis
    moreover have "d_reg_addr (i2c_data ?r i) = d_reg_addr (i2c_data (regs_info st 1) i)"
        "i < unat (reg_num (regs_info st 1))"
      using reg_addrs_eq_nth [OF addrs(2) [symmetric] i(1)] i(1) by auto
    ultimately show "S (d_reg_addr (i2c_data ?r i)) = d_data (i2c_data ?r i)"
      using old True by (simp add: in_sync_def)
  qed
  then show ?thesis
    using True addrs unfolding st' sync_regs_def laid_out_def
    by (simp add: Let_def update_frame)
next
  case False
  let ?r = "regs_info (reg_init ci st) 0"
  have "in_sync ?r (apply_writes (isp_writes ?r) S)"
    by (rule apply_isp_writes) (auto simp: init_layout layout_distinct init_marks)
  then show ?thesis
    using False unfolding st' sync_regs_def laid_out_def
    by (auto simp: Let_def init_layout init_frame)
qed

text \<open>
  A driver that keeps the state of pipe \<open>p\<close> and a sensor: the sensor agrees with the set that was
  sent last, as long as that set counts as sent.
\<close>

definition synced :: "int \<Rightarrow> 'a drv_scheme \<times> (u32 \<Rightarrow> u32) \<Rightarrow> bool" where
  "synced p x \<longleftrightarrow> (\<exists>ci st. cmos_get_info p (fst x) = Some ci \<and> sns_state ci = Some st \<and>
     laid_out st \<and> (sync_init st \<longrightarrow> in_sync (regs_info st 1) (snd x)))"

lemma laid_out_fields [simp]:
  "laid_out (st\<lparr>fl := f\<rparr>) = laid_out st"
  "laid_out (st\<lparr>fl_std := v\<rparr>) = laid_out st"
  "laid_out (st\<lparr>wdr_int_time := t\<rparr>) = laid_out st"
  "laid_out (st\<lparr>sync_init := False\<rparr>)"
  by (simp_all add: laid_out_def)

lemma laid_out_off: "\<not> sync_init st \<Longrightarrow> laid_out st"
  by (simp add: laid_out_def)

lemma synced_off:
  "cmos_get_info p d = Some ci \<Longrightarrow> sns_state ci = Some st \<Longrightarrow> \<not> sync_init st \<Longrightarrow> synced p (d, S)"
  by (auto simp: synced_def laid_out_off)

lemma synced_put_state:
  assumes "cmos_get_info p d = Some ci" "sns_state ci = Some st" "synced p (d, S)"
    and "laid_out st \<Longrightarrow> laid_out st'"
    and "sync_init st' \<Longrightarrow> sync_init st \<and> regs_info st' 1 = regs_info st 1"
  shows "synced p (put_state p st' d, S)"
  using assms by (auto simp: synced_def)

lemma fetch_synced:
  assumes "synced p (d, S)" "cmos_get_info p d = Some ci" "sns_state ci = Some st"
    and st': "st' = sync_regs reg_init reg_update ci cfg st"
  shows "in_sync (regs_info st' 0) (apply_writes (isp_writes (regs_info st' 0)) S)
    \<and> reg_addrs (regs_info st' 0) = layout (wdr_mode st)
    \<and> synced p (put_state p st' d, apply_writes (isp_writes (regs_info st' 0)) S)"
proof -
  have "laid_out st" "sync_init st \<Longrightarrow> in_sync (regs_info st 1) S"
    using assms(1-3) by (auto simp: synced_def)
  then have s: "in_sync (regs_info st' 0) (apply_writes (isp_writes (regs_info st' 0)) S)
      \<and> regs_info st' 1 = regs_info st' 0 \<and> sync_init st' \<and> laid_out st'"
    using sync_step [of st cfg S st' ci] st' by blast
  moreover have "wdr_mode st' = wdr_mode st"
    by (simp add: st' sync_regs_def Let_def init_frame update_frame)
  ultimately show ?thesis using assms(2,3) by (auto simp: laid_out_def synced_def)
qed

text \<open>An unchanged register set causes no bus traffic.\<close>

lemma sync_idle:
  assumes "sync_init st" "regs_info st 1 = regs_info st 0"
  shows "isp_writes (regs_info (sync_regs reg_init reg_update ci True st) 0) = []"
  using assms update_marks [of _ st]
  by (auto simp: sync_regs_def isp_writes_def filter_empty_conv update_num Let_def)

text \<open>Any number of rounds: the sensor follows the driver.\<close>

lemma rounds_in_sync:
  assumes "laid_out st" "sync_init st \<Longrightarrow> in_sync (regs_info st 1) S"
    and "fold (frame_round (sync_regs reg_init reg_update ci True)) (us # uss) (st, S) = (st', S')"
  shows "in_sync (regs_info st' 0) S' \<and> regs_info st' 1 = regs_info st' 0 \<and> sync_init st' \<and> laid_out st'"
  using assms
proof (induction uss arbitrary: st S us)
  case Nil
  let ?st = "sync_regs reg_init reg_update ci True (fold (\<lambda>(j, v). set_data j v) us st)"
  have "st' = ?st" "S' = apply_writes (isp_writes (regs_info ?st 0)) S"
    using Nil.prems(3) by (auto simp: frame_round_def Let_def)
  then show ?case
    using sync_step [of "fold (\<lambda>(j, v). set_data j v) us st" True S ?st ci] set_datas [of st us]
      Nil.prems(1,2) by auto
next
  case (Cons us' uss)
  let ?st = "sync_regs reg_init reg_update ci True (fold (\<lambda>(j, v). set_data j v) us st)"
  let ?S = "apply_writes (isp_writes (regs_info ?st 0)) S"
  have "in_sync (regs_info ?st 0) ?S \<and> regs_info ?st 1 = regs_info ?st 0 \<and> laid_out ?st"
    using sync_step [of "fold (\<lambda>(j, v). set_data j v) us st" True S ?st ci] set_datas [of st us]
      Cons.prems by auto
  moreover have "fold (frame_round (sync_regs reg_init reg_update ci True)) (us' # uss) (?st, ?S) = (st', S')"
    using Cons.prems(3) by (simp add: frame_round_def [of _ us] Let_def)
  ultimately show ?case using Cons.IH [of ?st ?S us'] by simp
qed

end

end
