(* ===== verification/Sc4336p_Tables.thy ===== *)
theory Sc4336p_Tables
  imports Gain_Table
begin

text \<open>
  The constant tables of the SC4336P driver: the gain tables of \<^verbatim>\<open>smart_sc4336p/sc4336p_cmos.c\<close>, its
  two video modes, and the register sequences of \<^verbatim>\<open>sc4336p_cfg.h\<close>.
\<close>

section \<open>Gain tables\<close>

definition sc4336p_again_index :: "u32 list" where
  "sc4336p_again_index = [
    1024, 2048, 4096, 8192, 16384, 32768]"

definition sc4336p_dgain_index :: "u32 list" where
  "sc4336p_dgain_index = [
    1024, 1056, 1088, 1120, 1152, 1184, 1216, 1248, 1280, 1312, 1344, 1376, 1408, 1440, 1472,
    1504, 1536, 1568, 1600, 1632, 1664, 1696, 1728, 1760, 1792, 1824, 1856, 1888, 1920, 1952,
    1984, 2016, 2048, 2112, 2176, 2240, 2304, 2368, 2432, 2496, 2560, 2624, 2688, 2752, 2816,
    2880, 2944, 3008, 3072, 3136, 3200, 3264, 3328, 3392, 3456, 3520, 3584, 3648, 3712, 3776,
    3840, 3904, 3968, 4032, 4096, 4224, 4352, 4480, 4608, 4736, 4864, 4992, 5120, 5248, 5376,
    5504, 5632, 5760, 5888, 6016, 6144, 6272, 6400, 6528, 6656, 6784, 6912, 7040, 7168, 7296,
    7424, 7552, 7680, 7808, 7936, 8064, 8192, 8448, 8704, 8960, 9216, 9472, 9728, 9984, 10240,
    10496, 10752, 11008, 11264, 11520, 11776, 12032, 12288, 12544, 12800, 13056, 13312, 13568,
    13824, 14080, 14336, 14592, 14848, 15104, 15360, 15616, 15872, 16128]"

definition sc4336p_again_table :: "u32 list" where
  "sc4336p_again_table = [
    0x0, 0x8, 0x9, 0xb, 0x0f, 0x1f]"

definition sc4336p_dgain_table :: "u32 list" where
  "sc4336p_dgain_table = [
    0x0080, 0x0084, 0x0088, 0x008C, 0x0090, 0x0094, 0x0098, 0x009C, 0x00A0, 0x00A4, 0x00A8,
    0x00AC, 0x00B0, 0x00B4, 0x00B8, 0x00BC, 0x00C0, 0x00C4, 0x00C8, 0x00CC, 0x00D0, 0x00D4,
    0x00D8, 0x00DC, 0x00E0, 0x00E4, 0x00E8, 0x00EC, 0x00F0, 0x00F4, 0x00F8, 0x00FC, 0x0180,
    0x0184, 0x0188, 0x018C, 0x0190, 0x0194, 0x0198, 0x019C, 0x01A0, 0x01A4, 0x01A8, 0x01AC,
    0x01B0, 0x01B4, 0x01B8, 0x01BC, 0x01C0, 0x01C4, 0x01C8, 0x01CC, 0x01D0, 0x01D4, 0x01D8,
    0x01DC, 0x01E0, 0x01E4, 0x01E8, 0x01EC, 0x01F0, 0x01F4, 0x01F8, 0x01FC, 0x0380, 0x0384,
    0x0388, 0x038C, 0x0390, 0x0394, 0x0398, 0x039C, 0x03A0, 0x03A4, 0x03A8, 0x03AC, 0x03B0,
    0x03B4, 0x03B8, 0x03BC, 0x03C0, 0x03C4, 0x03C8, 0x03CC, 0x03D0, 0x03D4, 0x03D8, 0x03DC,
    0x03E0, 0x03E4, 0x03E8, 0x03EC, 0x03F0, 0x03F4, 0x03F8, 0x03FC, 0x0780, 0x0784, 0x0788,
    0x078C, 0x0790, 0x0794, 0x0798, 0x079C, 0x07A0, 0x07A4, 0x07A8, 0x07AC, 0x07B0, 0x07B4,
    0x07B8, 0x07BC, 0x07C0, 0x07C4, 0x07C8, 0x07CC, 0x07D0, 0x07D4, 0x07D8, 0x07DC, 0x07E0,
    0x07E4, 0x07E8, 0x07EC, 0x07F0, 0x07F4, 0x07F8, 0x07FC]"

interpretation sc4336p_again: gain_table sc4336p_again_index sc4336p_again_table
  by unfold_locales (simp_all add: sc4336p_again_index_def sc4336p_again_table_def)

interpretation sc4336p_dgain: gain_table sc4336p_dgain_index sc4336p_dgain_table
  by unfold_locales (simp_all add: sc4336p_dgain_index_def sc4336p_dgain_table_def)

section \<open>Video modes\<close>

text \<open>The constants \<^verbatim>\<open>SC4336P_VMAX_*\<close> and \<^verbatim>\<open>SC4336P_FULL_LINES_MAX_*\<close> with no increase of lines.\<close>

definition sc4336p_mode_tbl :: "cis_video_mode_tbl list" where
  "sc4336p_mode_tbl = [
     \<lparr>ver_lines = 1125, max_ver_lines = 0x34bc, max_fps = 30, min_fps = 5 / 2, width = 1920,
      height = 1080, sns_mode = 0, tbl_wdr_mode = OT_WDR_MODE_NONE,
      mode_name = ''SC4336P_2M_30FPS_10BIT_LINEAR_MODE''\<rparr>,
     \<lparr>ver_lines = 1500, max_ver_lines = 0x4650, max_fps = 30, min_fps = 5 / 2, width = 2560,
      height = 1440, sns_mode = 0, tbl_wdr_mode = OT_WDR_MODE_NONE,
      mode_name = ''SC4336P_4M_30FPS_10BIT_LINEAR_MODE''\<rparr>]"

section \<open>Register sequences\<close>

definition sc4336p_linear_4m30_10bit :: "cis_reg_cfg list" where
  "sc4336p_linear_4m30_10bit = [
    (0x0100, 0x00), (0x36e9, 0x80), (0x37f9, 0x80), (0x301f, 0x01), (0x30b8, 0x44),
    (0x3253, 0x10), (0x3301, 0x0a), (0x3302, 0xff), (0x3305, 0x00), (0x3306, 0x90),
    (0x3308, 0x08), (0x330a, 0x01), (0x330b, 0xb0), (0x330d, 0xf0), (0x3314, 0x14),
    (0x3333, 0x10), (0x3334, 0x40), (0x335e, 0x06), (0x335f, 0x0a), (0x3364, 0x5e),
    (0x337d, 0x0e), (0x338f, 0x20), (0x3390, 0x08), (0x3391, 0x09), (0x3392, 0x0f),
    (0x3393, 0x18), (0x3394, 0x60), (0x3395, 0xff), (0x3396, 0x08), (0x3397, 0x09),
    (0x3398, 0x0f), (0x3399, 0x0a), (0x339a, 0x18), (0x339b, 0x60), (0x339c, 0xff),
    (0x33a2, 0x04), (0x33ad, 0x0c), (0x33b2, 0x40), (0x33b3, 0x30), (0x33f8, 0x00),
    (0x33f9, 0xb0), (0x33fa, 0x00), (0x33fb, 0xf8), (0x33fc, 0x09), (0x33fd, 0x1f),
    (0x349f, 0x03), (0x34a6, 0x09), (0x34a7, 0x1f), (0x34a8, 0x28), (0x34a9, 0x28),
    (0x34aa, 0x01), (0x34ab, 0xe0), (0x34ac, 0x02), (0x34ad, 0x28), (0x34f8, 0x1f),
    (0x34f9, 0x20), (0x3630, 0xc0), (0x3631, 0x84), (0x3632, 0x54), (0x3633, 0x44),
    (0x3637, 0x49), (0x363f, 0xc0), (0x3641, 0x28), (0x3670, 0x56), (0x3674, 0xb0),
    (0x3675, 0xa0), (0x3676, 0xa0), (0x3677, 0x84), (0x3678, 0x88), (0x3679, 0x8d),
    (0x367c, 0x09), (0x367d, 0x0b), (0x367e, 0x08), (0x367f, 0x0f), (0x3696, 0x24),
    (0x3697, 0x34), (0x3698, 0x34), (0x36a0, 0x0f), (0x36a1, 0x1f), (0x36b0, 0x81),
    (0x36b1, 0x83), (0x36b2, 0x85), (0x36b3, 0x8b), (0x36b4, 0x09), (0x36b5, 0x0b),
    (0x36b6, 0x0f), (0x370f, 0x01), (0x3722, 0x09), (0x3724, 0x21), (0x3771, 0x09),
    (0x3772, 0x05), (0x3773, 0x05), (0x377a, 0x0f), (0x377b, 0x1f), (0x3905, 0x8c),
    (0x391d, 0x02), (0x391f, 0x49), (0x3926, 0x21), (0x3933, 0x80), (0x3934, 0x03),
    (0x3937, 0x7b), (0x3939, 0x00), (0x393a, 0x00), (0x39dc, 0x02), (0x3e00, 0x00),
    (0x3e01, 0x5d), (0x3e02, 0x40), (0x440d, 0x10), (0x440e, 0x01), (0x4509, 0x28),
    (0x450d, 0x32), (0x5000, 0x06), (0x5780, 0x76), (0x5784, 0x10), (0x5785, 0x04),
    (0x5787, 0x0a), (0x5788, 0x0a), (0x5789, 0x08), (0x578a, 0x0a), (0x578b, 0x0a),
    (0x578c, 0x08), (0x578d, 0x40), (0x5790, 0x08), (0x5791, 0x04), (0x5792, 0x04),
    (0x5793, 0x08), (0x5794, 0x04), (0x5795, 0x04), (0x5799, 0x46), (0x579a, 0x77),
    (0x57a1, 0x04), (0x57a8, 0xd2), (0x57aa, 0x2a), (0x57ab, 0x7f), (0x57ac, 0x00),
    (0x57ad, 0x00), (0x57d9, 0x46), (0x57da, 0x77), (0x59e2, 0x08), (0x59e3, 0x03),
    (0x59e4, 0x00), (0x59e5, 0x10), (0x59e6, 0x06), (0x59e7, 0x00), (0x59e8, 0x08),
    (0x59e9, 0x02), (0x59ea, 0x00), (0x59eb, 0x10), (0x59ec, 0x04), (0x59ed, 0x00),
    (0x5ae0, 0xfe), (0x5ae1, 0x40), (0x5ae2, 0x38), (0x5ae3, 0x30), (0x5ae4, 0x28),
    (0x5ae5, 0x38), (0x5ae6, 0x30), (0x5ae7, 0x28), (0x5ae8, 0x3f), (0x5ae9, 0x34),
    (0x5aea, 0x2c), (0x5aeb, 0x3f), (0x5aec, 0x34), (0x5aed, 0x2c), (0x36e9, 0x44),
    (0x37f9, 0x44), (0x3221, 0x66)]"

definition sc4336p_linear_2m30_10bit :: "cis_reg_cfg list" where
  "sc4336p_linear_2m30_10bit = [
    (0x36e9, 0x80), (0x37f9, 0x80), (0x301f, 0x1e), (0x30b8, 0x44), (0x3200, 0x00),
    (0x3201, 0x00), (0x3202, 0x00), (0x3203, 0xb4), (0x3204, 0x0a), (0x3205, 0x07),
    (0x3206, 0x04), (0x3207, 0xf3), (0x3208, 0x07), (0x3209, 0x80), (0x320a, 0x04),
    (0x320b, 0x38), (0x320c, 0x0a), (0x320d, 0xf0), (0x320e, 0x04), (0x320f, 0x65),
    (0x3210, 0x01), (0x3211, 0x44), (0x3212, 0x00), (0x3213, 0x04), (0x3253, 0x10),
    (0x3301, 0x0a), (0x3302, 0xff), (0x3305, 0x00), (0x3306, 0x90), (0x3308, 0x08),
    (0x330a, 0x01), (0x330b, 0xb0), (0x330d, 0xf0), (0x3314, 0x14), (0x3333, 0x10),
    (0x3334, 0x40), (0x335e, 0x06), (0x335f, 0x0a), (0x3364, 0x5e), (0x337d, 0x0e),
    (0x338f, 0x20), (0x3390, 0x08), (0x3391, 0x09), (0x3392, 0x0f), (0x3393, 0x18),
    (0x3394, 0x60), (0x3395, 0xff), (0x3396, 0x08), (0x3397, 0x09), (0x3398, 0x0f),
    (0x3399, 0x0a), (0x339a, 0x18), (0x339b, 0x60), (0x339c, 0xff), (0x33a2, 0x04),
    (0x33ad, 0x0c), (0x33b2, 0x40), (0x33b3, 0x30), (0x33f8, 0x00), (0x33f9, 0xb0),
    (0x33fa, 0x00), (0x33fb, 0xf8), (0x33fc, 0x09), (0x33fd, 0x1f), (0x349f, 0x03),
    (0x34a6, 0x09), (0x34a7, 0x1f), (0x34a8, 0x28), (0x34a9, 0x28), (0x34aa, 0x01),
    (0x34ab, 0xe0), (0x34ac, 0x02), (0x34ad, 0x18), (0x34f8, 0x1f), (0x34f9, 0x20),
    (0x3630, 0xc0), (0x3631, 0x84), (0x3632, 0x54), (0x3633, 0x44), (0x3637, 0x49),
    (0x363f, 0xc0), (0x3641, 0x28), (0x3670, 0x56), (0x3674, 0xb0), (0x3675, 0xa0),
    (0x3676, 0xa0), (0x3677, 0x84), (0x3678, 0x88), (0x3679, 0x8d), (0x367c, 0x09),
    (0x367d, 0x0b), (0x367e, 0x08), (0x367f, 0x0f), (0x3696, 0x24), (0x3697, 0x34),
    (0x3698, 0x34), (0x36a0, 0x0f), (0x36a1, 0x1f), (0x36b0, 0x81), (0x36b1, 0x83),
    (0x36b2, 0x85), (0x36b3, 0x8b), (0x36b4, 0x09), (0x36b5, 0x0b), (0x36b6, 0x0f),
    (0x36ea, 0x07), (0x36eb, 0x14), (0x36ec, 0x0c), (0x36ed, 0x2a), (0x370f, 0x01),
    (0x3722, 0x09), (0x3724, 0x21), (0x3771, 0x09), (0x3772, 0x05), (0x3773, 0x05),
    (0x377a, 0x0f), (0x377b, 0x1f), (0x37fa, 0x07), (0x37fb, 0x31), (0x37fc, 0x11),
    (0x37fd, 0x16), (0x3905, 0x8c), (0x391d, 0x02), (0x391f, 0x49), (0x3926, 0x21),
    (0x3933, 0x80), (0x3934, 0x03), (0x3937, 0x7b), (0x3939, 0x00), (0x393a, 0x00),
    (0x39dc, 0x02), (0x3e00, 0x00), (0x3e01, 0x45), (0x3e02, 0xd0), (0x440d, 0x10),
    (0x440e, 0x01), (0x4509, 0x28), (0x450d, 0x32), (0x4819, 0x06), (0x481b, 0x04),
    (0x481d, 0x0d), (0x481f, 0x03), (0x4821, 0x09), (0x4823, 0x03), (0x4825, 0x03),
    (0x4827, 0x03), (0x4829, 0x05), (0x5000, 0x06), (0x5780, 0x76), (0x5784, 0x10),
    (0x5785, 0x04), (0x5787, 0x0a), (0x5788, 0x0a), (0x5789, 0x08), (0x578a, 0x0a),
    (0x578b, 0x0a), (0x578c, 0x08), (0x578d, 0x40), (0x5790, 0x08), (0x5791, 0x04),
    (0x5792, 0x04), (0x5793, 0x08), (0x5794, 0x04), (0x5795, 0x04), (0x5799, 0x46),
    (0x579a, 0x77), (0x57a1, 0x04), (0x57a8, 0xd2), (0x57aa, 0x2a), (0x57ab, 0x7f),
    (0x57ac, 0x00), (0x57ad, 0x00), (0x57d9, 0x46), (0x57da, 0x77), (0x59e2, 0x08),
    (0x59e3, 0x03), (0x59e4, 0x00), (0x59e5, 0x10), (0x59e6, 0x06), (0x59e7, 0x00),
    (0x59e8, 0x08), (0x59e9, 0x02), (0x59ea, 0x00), (0x59eb, 0x10), (0x59ec, 0x04),
    (0x59ed, 0x00), (0x5ae0, 0xfe), (0x5ae1, 0x40), (0x5ae2, 0x38), (0x5ae3, 0x30),
    (0x5ae4, 0x28), (0x5ae5, 0x38), (0x5ae6, 0x30), (0x5ae7, 0x28), (0x5ae8, 0x3f),
    (0x5ae9, 0x34), (0x5aea, 0x2c), (0x5aeb, 0x3f), (0x5aec, 0x34), (0x5aed, 0x2c),
    (0x36e9, 0x24), (0x37f9, 0x43)]"

definition sc4336p_standby_cfg :: "cis_reg_cfg list" where
  "sc4336p_standby_cfg = [(0x0100, 0x00)]"

end
