(* ===== verification/Sc4336p.thy ===== *)
theory Sc4336p
  imports Sensor_Driver Sc4336p_Tables
begin

text \<open>
  The SC4336P driver, \<^verbatim>\<open>smart_sc4336p/sc4336p_cmos.c\<close> and \<^verbatim>\<open>sc4336p_sensor_ctrl.c\<close>: all its
  operations in the order of the source, then frame rate, exposure and gain control, the register
  protocol, the choice of the image mode and the start-up sequence.  Image mode 0 is the 2M mode
  and image mode 1 the 4M mode.
\<close>

unbundle bit_operations_syntax

section \<open>Initial state\<close>

definition sc4336p_info0 :: cis_info where
  "sc4336p_info0 = \<lparr>pipe = 0, sns_id = 4336, fswdr_mode = OT_ISP_FSWDR_NORMAL_MODE, ae_stat_pos = 0,
     max_time_get_cnt = 0, init_exposure = 0, init_int_time = 0, init_again = 0, init_dgain = 0,
     init_isp_dgain = 0, lines_per500ms = 0, init_wb_r_gain = 0, init_wb_g_gain = 0,
     init_wb_b_gain = 0, sample_r_gain = 0, sample_b_gain = 0, quick_start_en = False,
     fast_ae_en = False, ae_route_ex_valid = False, init_ae_route = zero_route,
     init_ae_route_ex = zero_route, init_ae_route_sf = zero_route,
     init_ae_route_sf_ex = zero_route, max_short_exp = 0, i2c_dev = -1, sns_state = None,
     blc_clamp_info = True, mode_tbl = sc4336p_mode_tbl,
     i2c = \<lparr>fd = -1, i2c_addr = 0, addr_byte_num = 0, data_byte_num = 0\<rparr>\<rparr>"

definition sc4336p_drv0 :: "nat \<Rightarrow> drv" where
  "sc4336p_drv0 n = \<lparr>g_info = replicate n sc4336p_info0, g_standby_cfg_init = replicate n False,
     calls = []\<rparr>"

section \<open>AE defaults\<close>

definition sc4336p_get_ae_comm_default ::
  "cis_info \<Rightarrow> ot_isp_sns_state \<Rightarrow> ot_isp_ae_sensor_default \<Rightarrow> ot_isp_ae_sensor_default" where
  "sc4336p_get_ae_comm_default ci st ae =
     (let lns = ver_lines (cur_mode ci st);
          mx = max_fps (cur_mode ci st);
          ae = (if img_mode st = 1 \<or> img_mode st = 0
                then ae\<lparr>dft_int_time_accu := \<lparr>accu_type = OT_ISP_AE_ACCURACY_LINEAR, accuracy = 1,
                                              accu_offset = f32_rnd (386 / 1000)\<rparr>\<rparr>
                else ae)
      in ae\<lparr>
        dft_full_lines_std := fl_std st,
        dft_flicker_freq := 50 * 256,
        dft_full_lines_max := max_ver_lines (cur_mode ci st),
        dft_hmax_times :=
          f32_to_u32 (f32_div (f32_rnd 1000000000) (f32_mul (u32_to_f32 lns) mx)),
        dft_again_accu := (dft_again_accu ae)\<lparr>accu_type := OT_ISP_AE_ACCURACY_TABLE, accuracy := 1\<rparr>,
        dft_dgain_accu := (dft_dgain_accu ae)\<lparr>accu_type := OT_ISP_AE_ACCURACY_TABLE, accuracy := 1\<rparr>,
        dft_isp_dgain_shift := 8,
        dft_min_isp_dgain_target := push_bit 8 1,
        dft_max_isp_dgain_target := push_bit 8 32,
        dft_piris_attr := ''g_piris'',
        dft_lines_per500ms :=
          (if lines_per500ms ci = 0 then f32_to_u32 (f32_div (f32_mul (u32_to_f32 lns) mx) 2)
           else lines_per500ms ci),
        dft_max_iris_fno := OT_ISP_IRIS_F_NO_1_4,
        dft_min_iris_fno := OT_ISP_IRIS_F_NO_5_6,
        dft_ae_route_ex_valid := False,
        dft_ae_route_attr := (dft_ae_route_attr ae)\<lparr>total_num := 0\<rparr>,
        dft_ae_route_attr_ex := (dft_ae_route_attr_ex ae)\<lparr>total_num := 0\<rparr>,
        dft_quick_start_enable := quick_start_en ci,
        dft_black_frame_num := 0,
        dft_ae_stat_pos := ae_stat_pos ci\<rparr>)"

definition sc4336p_get_ae_linear_default ::
  "cis_info \<Rightarrow> ot_isp_sns_state \<Rightarrow> ot_isp_ae_sensor_default \<Rightarrow> ot_isp_ae_sensor_default" where
  "sc4336p_get_ae_linear_default ci st ae = ae\<lparr>
     dft_max_again := 32768, dft_min_again := 1024,
     dft_max_again_target := 32768, dft_min_again_target := 1024,
     dft_max_dgain := 16128, dft_min_dgain := 1024,
     dft_max_dgain_target := 16128, dft_min_dgain_target := 1024,
     dft_ae_compensation := 0x40,
     dft_ae_exp_mode := OT_ISP_AE_EXP_HIGHLIGHT_PRIOR,
     dft_init_exposure := (if init_exposure ci \<noteq> 0 then init_exposure ci else 148859),
     dft_max_int_time := fl_std st - 10,
     dft_min_int_time := 2,
     dft_max_int_time_target := 65535,
     dft_min_int_time_target := 2,
     dft_ae_route_ex_valid := ae_route_ex_valid ci,
     dft_ae_route_attr := init_ae_route ci,
     dft_ae_route_attr_ex := init_ae_route_ex ci\<rparr>"

definition sc4336p_get_ae_default ::
  "int \<Rightarrow> ot_isp_ae_sensor_default option \<Rightarrow> drv \<Rightarrow> ret \<times> ot_isp_ae_sensor_default option" where
  "sc4336p_get_ae_default vi_pipe ae d =
     (case cmos_get_info vi_pipe d of
        None \<Rightarrow> (OT_ERR_ISP_ILLEGAL_PARAM, ae)
      | Some ci \<Rightarrow> (case ae of
          None \<Rightarrow> (OT_ERR_ISP_NULL_PTR, ae)
        | Some a \<Rightarrow> (case sns_state ci of
            None \<Rightarrow> (OT_ERR_ISP_NULL_PTR, ae)
          | Some st \<Rightarrow>
              (TD_SUCCESS,
               Some (sc4336p_get_ae_linear_default ci st
                 (sc4336p_get_ae_comm_default ci st (a\<lparr>dft_ae_route_attr := zero_route\<rparr>)))))))"

section \<open>Frame rate\<close>

text \<open>Register slots: exposure 0 to 2 (low, middle, high), analog gain 3, digital gain 4 (low) and
  5 (high), frame length 6 (low) and 7 (high).\<close>

definition sc4336p_config_vmax :: "u32 \<Rightarrow> ot_isp_sns_state \<Rightarrow> ot_isp_sns_state" where
  "sc4336p_config_vmax vmax st =
     (if wdr_mode st = OT_WDR_MODE_NONE
      then set_data 7 (high_8bits vmax) (set_data 6 (low_8bits vmax) st) else st)"

definition sc4336p_fps_set :: "sdk \<Rightarrow> int \<Rightarrow> f32 \<Rightarrow> ot_isp_ae_sensor_default option \<Rightarrow> drv \<Rightarrow>
    ot_isp_ae_sensor_default option \<times> drv" where
  "sc4336p_fps_set k vi_pipe fps ae d =
     (case cmos_get_info vi_pipe d of
        None \<Rightarrow> (ae, d)
      | Some ci \<Rightarrow> (case ae of
          None \<Rightarrow> (ae, d)
        | Some a \<Rightarrow> (case sns_state ci of
            None \<Rightarrow> (ae, d)
          | Some st \<Rightarrow>
              (let lns = ver_lines (cur_mode ci st); lines_max = max_ver_lines (cur_mode ci st);
                   mx = max_fps (cur_mode ci st); mn = min_fps (cur_mode ci st)
               in if mx < fps \<or> fps < mn then (ae, d)
               else
                 let vmax = f32_to_u32 (f32_div (f32_mul (u32_to_f32 lns) mx) (div_0_to_1_float k fps));
                     vmax = (if lines_max < vmax then lines_max else vmax);
                     st = (sc4336p_config_vmax vmax st)\<lparr>fl_std := vmax\<rparr>;
                     l500 = f32_to_u32 (f32_div (f32_mul (u32_to_f32 lns) mx) 2);
                     a = a\<lparr>dft_lines_per500ms := l500, dft_fps := fps, dft_full_lines_std := fl_std st\<rparr>;
                     a = (if wdr_mode st = OT_WDR_MODE_NONE
                          then a\<lparr>dft_max_int_time := fl_std st - 10\<rparr> else a);
                     st = st\<lparr>fl := (fl st)(0 := fl_std st)\<rparr>;
                     a = a\<lparr>dft_full_lines := fl st 0,
                           dft_hmax_times := f32_to_u32 (f32_div (f32_rnd 1000000000)
                             (f32_mul (u32_to_f32 (fl_std st)) (div_0_to_1_float k fps)))\<rparr>
                 in (Some a,
                     put_info vi_pipe (ci\<lparr>lines_per500ms := l500, sns_state := Some st\<rparr>) d)))))"

definition sc4336p_slow_framerate_set :: "int \<Rightarrow> u32 \<Rightarrow> ot_isp_ae_sensor_default option \<Rightarrow> drv \<Rightarrow>
    ot_isp_ae_sensor_default option \<times> drv" where
  "sc4336p_slow_framerate_set vi_pipe full_lines ae d =
     (case cmos_get_info vi_pipe d of
        None \<Rightarrow> (ae, d)
      | Some ci \<Rightarrow> (case ae of
          None \<Rightarrow> (ae, d)
        | Some a \<Rightarrow> (case sns_state ci of
            None \<Rightarrow> (ae, d)
          | Some st \<Rightarrow>
              (let lns = ver_lines (cur_mode ci st); lines_max = max_ver_lines (cur_mode ci st);
                   vmax = clip3 (full_lines + 10) lns lines_max;
                   st = st\<lparr>fl := (fl st)(0 := vmax)\<rparr>;
                   st = set_data 7 (high_8bits vmax) (set_data 6 (low_8bits vmax) st);
                   a = (if wdr_mode st = OT_WDR_MODE_NONE
                        then a\<lparr>dft_max_int_time := fl st 0 - 10\<rparr> else a);
                   a = a\<lparr>dft_full_lines := full_lines\<rparr>
               in (Some a, put_info vi_pipe (ci\<lparr>sns_state := Some st\<rparr>) d)))))"

section \<open>Exposure and gain\<close>

definition quick_bus :: "cis_info \<Rightarrow> bool" where
  "quick_bus ci \<longleftrightarrow> quick_start_en ci \<and> 0 \<le> fd (i2c ci)"

definition sc4336p_inttime_update_linear ::
  "sdk \<Rightarrow> int \<Rightarrow> cis_info \<Rightarrow> ot_isp_sns_state \<Rightarrow> u32 \<Rightarrow> drv \<Rightarrow> drv" where
  "sc4336p_inttime_update_linear k vi_pipe ci st int_time d =
     (if quick_bus ci
      then drv_writes k (i2c ci) [(0x3E02, lower_4bits int_time), (0x3E01, higher_8bits int_time),
                                  (0x3E00, higher_4bits int_time)] d
      else put_info vi_pipe (ci\<lparr>sns_state := Some
             (set_data 2 (higher_4bits int_time) (set_data 1 (higher_8bits int_time)
               (set_data 0 (lower_4bits int_time) st)))\<rparr>) d)"

definition sc4336p_inttime_update :: "sdk \<Rightarrow> int \<Rightarrow> u32 \<Rightarrow> drv \<Rightarrow> drv" where
  "sc4336p_inttime_update k vi_pipe int_time d =
     (case cmos_get_info vi_pipe d of
        None \<Rightarrow> d
      | Some ci \<Rightarrow> (case sns_state ci of
          None \<Rightarrow> d
        | Some st \<Rightarrow>
            if wdr_mode st = OT_WDR_MODE_NONE
            then sc4336p_inttime_update_linear k vi_pipe ci st int_time d else d))"

text \<open>The two table searches; a null pointer returns at once.\<close>

definition sc4336p_again_calc_table ::
  "int \<Rightarrow> u32 option \<Rightarrow> u32 option \<Rightarrow> u32 option \<times> u32 option" where
  "sc4336p_again_calc_table vi_pipe again_lin again_db =
     (case (again_lin, again_db) of
        (Some l, Some b) \<Rightarrow>
          map_prod Some Some (gain_calc sc4336p_again_index sc4336p_again_table (l, b))
      | _ \<Rightarrow> (again_lin, again_db))"

definition sc4336p_dgain_calc_table ::
  "int \<Rightarrow> u32 option \<Rightarrow> u32 option \<Rightarrow> u32 option \<times> u32 option" where
  "sc4336p_dgain_calc_table vi_pipe dgain_lin dgain_db =
     (case (dgain_lin, dgain_db) of
        (Some l, Some b) \<Rightarrow>
          map_prod Some Some (gain_calc sc4336p_dgain_index sc4336p_dgain_table (l, b))
      | _ \<Rightarrow> (dgain_lin, dgain_db))"

definition sc4336p_gains_update :: "sdk \<Rightarrow> int \<Rightarrow> u32 \<Rightarrow> u32 \<Rightarrow> drv \<Rightarrow> drv" where
  "sc4336p_gains_update k vi_pipe again dgain d =
     (case cmos_get_info vi_pipe d of
        None \<Rightarrow> d
      | Some ci \<Rightarrow> (case sns_state ci of
          None \<Rightarrow> d
        | Some st \<Rightarrow>
            (let reg_0x3e06 = high_8bits dgain; reg_0x3e07 = low_8bits dgain;
                 reg_0x3e09 = low_8bits again
             in if quick_bus ci
                then drv_writes k (i2c ci)
                       [(0x3E06, reg_0x3e06), (0x3E07, reg_0x3e07), (0x3E09, reg_0x3e09)] d
                else put_info vi_pipe (ci\<lparr>sns_state := Some
                       (set_data 3 reg_0x3e09 (set_data 4 reg_0x3e07 (set_data 5 reg_0x3e06 st)))\<rparr>) d)))"

text \<open>Both long and short exposure limits are the business of WDR modes; here nothing is assigned.\<close>

definition sc4336p_get_inttime_max ::
  "int \<Rightarrow> u16 \<Rightarrow> (nat \<Rightarrow> u32) option \<Rightarrow> ot_isp_ae_int_time_range option \<Rightarrow> u32 option \<Rightarrow> drv \<Rightarrow>
   ot_isp_ae_int_time_range option \<times> u32 option" where
  "sc4336p_get_inttime_max vi_pipe man_ratio_enable ratio int_time lf_max_int_time d =
     (int_time, lf_max_int_time)"

definition sc4336p_ae_fswdr_attr_set :: "int \<Rightarrow> ot_isp_fswdr_mode option \<Rightarrow> drv \<Rightarrow> drv" where
  "sc4336p_ae_fswdr_attr_set vi_pipe attr d =
     (case cmos_get_info vi_pipe d of
        None \<Rightarrow> d
      | Some ci \<Rightarrow> (case attr of
          None \<Rightarrow> d
        | Some m \<Rightarrow> put_info vi_pipe (ci\<lparr>fswdr_mode := m, max_time_get_cnt := 0\<rparr>) d))"

definition sc4336p_ae_quick_start_status_set :: "int \<Rightarrow> bool \<Rightarrow> drv \<Rightarrow> drv" where
  "sc4336p_ae_quick_start_status_set vi_pipe en d =
     (case cmos_get_info vi_pipe d of
        None \<Rightarrow> d
      | Some ci \<Rightarrow> (case sns_state ci of
          None \<Rightarrow> d
        | Some st \<Rightarrow>
            put_info vi_pipe (ci\<lparr>quick_start_en := en, sns_state := Some (st\<lparr>sync_init := False\<rparr>)\<rparr>) d))"

definition sc4336p_fast_ae_attr_get ::
  "int \<Rightarrow> ot_isp_ae_fast_ae_attr option \<Rightarrow> drv \<Rightarrow> ot_isp_ae_fast_ae_attr option" where
  "sc4336p_fast_ae_attr_get vi_pipe attr d =
     (case cmos_get_info vi_pipe d of
        None \<Rightarrow> attr
      | Some ci \<Rightarrow> map_option (\<lambda>a. a\<lparr>fast_enable := fast_ae_en ci, sns_delay_frame := 1 + 2\<rparr>) attr)"

definition sc4336p_fast_ae_attr_set :: "int \<Rightarrow> ot_isp_ae_fast_ae_attr option \<Rightarrow> drv \<Rightarrow> drv" where
  "sc4336p_fast_ae_attr_set vi_pipe attr d =
     (case cmos_get_info vi_pipe d of
        None \<Rightarrow> d
      | Some ci \<Rightarrow> (case attr of
          None \<Rightarrow> d
        | Some a \<Rightarrow> put_info vi_pipe (ci\<lparr>fast_ae_en := fast_enable a\<rparr>) d))"

definition sc4336p_init_ae_exp_function :: "sdk \<Rightarrow> drv ot_isp_ae_sensor_exp_func" where
  "sc4336p_init_ae_exp_function k = \<lparr>
     pfn_cmos_get_ae_default = sc4336p_get_ae_default,
     pfn_cmos_fps_set = sc4336p_fps_set k,
     pfn_cmos_slow_framerate_set = sc4336p_slow_framerate_set,
     pfn_cmos_inttime_update = sc4336p_inttime_update k,
     pfn_cmos_gains_update = sc4336p_gains_update k,
     pfn_cmos_again_calc_table = sc4336p_again_calc_table,
     pfn_cmos_dgain_calc_table = Some sc4336p_dgain_calc_table,
     pfn_cmos_get_inttime_max = sc4336p_get_inttime_max,
     pfn_cmos_ae_fswdr_attr_set = sc4336p_ae_fswdr_attr_set,
     pfn_cmos_ae_quick_start_status_set = Some sc4336p_ae_quick_start_status_set,
     pfn_cmos_ae_fast_ae_attr_get = Some sc4336p_fast_ae_attr_get,
     pfn_cmos_ae_fast_ae_attr_set = Some sc4336p_fast_ae_attr_set\<rparr>"

section \<open>AWB and ISP defaults\<close>

definition sc4336p_awb_get_default ::
  "int \<Rightarrow> ot_isp_awb_sensor_default option \<Rightarrow> drv \<Rightarrow> ret \<times> ot_isp_awb_sensor_default option" where
  "sc4336p_awb_get_default vi_pipe awb d =
     (case cmos_get_info vi_pipe d of
        None \<Rightarrow> (OT_ERR_ISP_ILLEGAL_PARAM, awb)
      | Some ci \<Rightarrow> (case awb of
          None \<Rightarrow> (OT_ERR_ISP_NULL_PTR, awb)
        | Some _ \<Rightarrow> (case sns_state ci of
            None \<Rightarrow> (OT_ERR_ISP_NULL_PTR, awb)
          | Some st \<Rightarrow>
              (TD_SUCCESS, Some (zero_awb_default\<lparr>
                 wb_ref_temp := 5000,
                 gain_offset := (\<lambda>_. 0)(0 := 409, 1 := 256, 2 := 256, 3 := 452),
                 wb_para := (\<lambda>_. 0)(0 := 36, 1 := 220, 2 := 0, 3 := 218409, 4 := 128, 5 := -167686),
                 golden_rgain := 0, golden_bgain := 0,
                 awb_ccm := ''g_awb_ccm'', awb_agc_tbl := ''g_awb_agc_table'',
                 awb_init_rgain := init_wb_r_gain ci, awb_init_ggain := init_wb_g_gain ci,
                 awb_init_bgain := init_wb_b_gain ci,
                 awb_sample_rgain := sample_r_gain ci, awb_sample_bgain := sample_b_gain ci\<rparr>)))))"

definition sc4336p_init_awb_exp_function :: "drv ot_isp_awb_sensor_exp_func" where
  "sc4336p_init_awb_exp_function = \<lparr>pfn_cmos_get_awb_default = sc4336p_awb_get_default\<rparr>"

definition sc4336p_isp_get_dng_default ::
  "ot_isp_sns_state \<Rightarrow> ot_isp_cmos_default \<Rightarrow> ot_isp_cmos_default" where
  "sc4336p_isp_get_dng_default st x =
     (let raw = dng_raw x;
          raw = (if img_mode st = 1 \<or> img_mode st = 0
                 then raw\<lparr>bits_per_sample := 10, white_level := 1023\<rparr> else raw);
          raw = raw\<lparr>scale_hor := (1, 1), scale_ver := (1, 1), cfa_repeat_pattern_dim := (2, 2),
                    black_level_repeat_dim := (2, 2), cfa_layout_rectangular := True,
                    cfa_plane_color := (cfa_plane_color raw)(0 := 0, 1 := 1, 2 := 2),
                    cfa_pattern := (cfa_pattern raw)(0 := 0, 1 := 1, 2 := 1, 3 := 2)\<rparr>
      in x\<lparr>dng_color := \<lparr>
             wb_gain1 = [286, 256, 608], wb_gain2 = [415, 256, 429],
             ccm1 = (2810, [0x01AC, 0x8093, 0x8019, 0x8070, 0x01EA, 0x807A, 0x802A, 0x80F3, 0x021D]),
             ccm2 = (4940, [0x01D7, 0x8084, 0x8053, 0x8053, 0x01D9, 0x8086, 0x8010, 0x80B3, 0x01C3])\<rparr>,
           dng_raw := raw, valid_dng_raw_format := True\<rparr>)"

definition sc4336p_isp_get_linear_default :: "isp_build \<Rightarrow> ot_isp_cmos_default \<Rightarrow> ot_isp_cmos_default" where
  "sc4336p_isp_get_linear_default b x =
     (let x = set_block Demosaic True ''g_cmos_demosaic'' x;
          x = set_block Sharpen True ''g_cmos_yuv_sharpen'' x;
          x = set_block Drc True ''g_cmos_drc'' x;
          x = set_block Bayer_nr True ''g_cmos_bayer_nr'' x;
          x = set_block Anti_false_color True ''g_cmos_anti_false_color'' x;
          x = set_block Cac True ''g_cmos_cac'' x;
          x = set_block Ldci True ''g_cmos_ldci'' x;
          x = set_block Gamma True ''g_cmos_gamma'' x;
          x = set_block Clut True ''g_cmos_clut'' x;
          x = (if cr_support b then set_block Ge True ''g_cmos_ge'' x else x);
          x = set_block Dehaze True ''g_cmos_dehaze'' x;
          x = set_block Ca True ''g_cmos_ca'' x
      in x\<lparr>noise_calibration := ''g_cmos_noise_calibration''\<rparr>)"

definition sc4336p_isp_get_default ::
  "isp_build \<Rightarrow> int \<Rightarrow> ot_isp_cmos_default option \<Rightarrow> drv \<Rightarrow> ret \<times> ot_isp_cmos_default option" where
  "sc4336p_isp_get_default b vi_pipe isp_def d =
     (case cmos_get_info vi_pipe d of
        None \<Rightarrow> (OT_ERR_ISP_ILLEGAL_PARAM, isp_def)
      | Some ci \<Rightarrow> (case isp_def of
          None \<Rightarrow> (OT_ERR_ISP_NULL_PTR, isp_def)
        | Some _ \<Rightarrow> (case sns_state ci of
            None \<Rightarrow> (OT_ERR_ISP_NULL_PTR, isp_def)
          | Some st \<Rightarrow>
              (let x = zero_cmos_default;
                   x = (if ca_support b then set_block Ca True ''g_cmos_ca'' x else x);
                   x = set_block Dpc True ''g_cmos_dpc'' x;
                   x = set_block Wdr True ''g_cmos_wdr'' x;
                   x = set_block Lsc False ''g_cmos_lsc'' x;
                   x = set_block Acs False ''g_cmos_acs'' x;
                   x = (if pregamma_support b then set_block Pregamma False ''g_cmos_pregamma'' x else x);
                   x = sc4336p_isp_get_linear_default b x;
                   x = x\<lparr>exp_ratio := (exp_ratio x)(0 := 0x40), def_sns_id := 4336,
                         def_sns_mode := img_mode st\<rparr>
               in (TD_SUCCESS, Some (sc4336p_isp_get_dng_default st x))))))"

definition sc4336p_isp_get_black_level ::
  "isp_build \<Rightarrow> int \<Rightarrow> ot_isp_cmos_black_level option \<Rightarrow> drv \<Rightarrow> ret \<times> ot_isp_cmos_black_level option" where
  "sc4336p_isp_get_black_level b vi_pipe bl d =
     (case cmos_get_info vi_pipe d of
        None \<Rightarrow> (OT_ERR_ISP_ILLEGAL_PARAM, bl)
      | Some ci \<Rightarrow> (case bl of
          None \<Rightarrow> (OT_ERR_ISP_NULL_PTR, bl)
        | Some x \<Rightarrow> (case sns_state ci of
            None \<Rightarrow> (OT_ERR_ISP_NULL_PTR, bl)
          | Some st \<Rightarrow>
              (TD_SUCCESS, Some (x\<lparr>blc_base := ''g_cmos_blc'', blc_update := False,
                 blc_level :=
                   (if wdr_mode st = OT_WDR_MODE_NONE
                    then for_upto (bayer_chn_num b) (\<lambda>i f. f(0 := (f 0)(i := Some 0x410))) (\<lambda>_ _. None)
                    else for_upto (wdr_max_frame_num b)
                           (\<lambda>i f. f(i := (f i)(0 := Some 0x410, 1 := Some 0x410, 2 := Some 0x410, 3 := Some 0x410)))
                           (\<lambda>_ _. None))\<rparr>)))))"

definition sc4336p_isp_get_blc_clamp_info :: "int \<Rightarrow> bool option \<Rightarrow> drv \<Rightarrow> ret \<times> bool option" where
  "sc4336p_isp_get_blc_clamp_info vi_pipe en d =
     (case cmos_get_info vi_pipe d of
        None \<Rightarrow> (OT_ERR_ISP_ILLEGAL_PARAM, en)
      | Some ci \<Rightarrow> (case en of
          None \<Rightarrow> (OT_ERR_ISP_NULL_PTR, en)
        | Some _ \<Rightarrow> (TD_SUCCESS, Some (blc_clamp_info ci))))"

section \<open>Modes\<close>

definition sc4336p_isp_set_wdr_mode :: "sdk \<Rightarrow> int \<Rightarrow> u8 \<Rightarrow> drv \<Rightarrow> ret \<times> drv" where
  "sc4336p_isp_set_wdr_mode k vi_pipe mode d =
     (case cmos_get_info vi_pipe d of
        None \<Rightarrow> (OT_ERR_ISP_ILLEGAL_PARAM, d)
      | Some ci \<Rightarrow> (case sns_state ci of
          None \<Rightarrow> (OT_ERR_ISP_NULL_PTR, d)
        | Some st \<Rightarrow>
            (let st = st\<lparr>sync_init := False\<rparr>
             in case wdr_mode_of k (mode AND 0x3F) of
                  OT_WDR_MODE_NONE \<Rightarrow>
                    (TD_SUCCESS, put_state vi_pipe
                       (st\<lparr>wdr_mode := OT_WDR_MODE_NONE, wdr_int_time := (\<lambda>_. 0)\<rparr>) d)
                | _ \<Rightarrow> (TD_FAILURE, put_state vi_pipe st d))))"

section \<open>The register set\<close>

definition sc4336p_sns_reg_info_init :: "cis_info \<Rightarrow> ot_isp_sns_state \<Rightarrow> ot_isp_sns_state" where
  "sc4336p_sns_reg_info_init ci = upd_regs0 (\<lambda>r.
     let r = r\<lparr>sns_i2c := True, com_bus_i2c_dev := i2c_dev ci,
               cfg2_valid_delay_max := (if quick_start_en ci then 1 else 2), reg_num := 8\<rparr>;
         r = mark_all 0x60 2 1 r;
         r = set_slot 0 0 0x3E02 r;
         r = set_slot 1 0 0x3E01 r;
         r = set_slot 2 0 0x3E00 r;
         r = set_slot 3 0 0x3E09 r;
         r = set_slot 5 0 0x3E06 r;
         r = set_slot 4 0 0x3E07 r;
         r = set_slot 6 1 0x320F r;
         r = set_slot 7 1 0x320E r
     in r)"

definition sc4336p_sns_config_logic_update :: "ot_isp_sns_state \<Rightarrow> ot_isp_sns_state" where
  "sc4336p_sns_config_logic_update st = st"

definition sc4336p_sns_reg_info_update :: "ot_isp_sns_state \<Rightarrow> ot_isp_sns_state" where
  "sc4336p_sns_reg_info_update st = sc4336p_sns_config_logic_update (mark_changed st)"

definition sc4336p_isp_get_sns_regs_info ::
  "int \<Rightarrow> ot_isp_sns_regs_info option \<Rightarrow> drv \<Rightarrow> ret \<times> ot_isp_sns_regs_info option \<times> drv" where
  "sc4336p_isp_get_sns_regs_info vi_pipe regs d =
     (case cmos_get_info vi_pipe d of
        None \<Rightarrow> (OT_ERR_ISP_ILLEGAL_PARAM, regs, d)
      | Some ci \<Rightarrow> (case regs of
          None \<Rightarrow> (OT_ERR_ISP_NULL_PTR, regs, d)
        | Some r \<Rightarrow> (case sns_state ci of
            None \<Rightarrow> (OT_ERR_ISP_NULL_PTR, regs, d)
          | Some st \<Rightarrow>
              (let st = sync_regs sc4336p_sns_reg_info_init sc4336p_sns_reg_info_update ci (config r) st
               in (TD_SUCCESS, Some (regs_info st 0), put_state vi_pipe st d)))))"

text \<open>\<^verbatim>\<open>sc4336p_get_standby_cfg\<close> of \<^verbatim>\<open>sc4336p_sensor_ctrl.c\<close>, and its caller.\<close>

definition sc4336p_get_standby_cfg :: "ot_isp_sns_regs_info \<Rightarrow> ret \<times> ot_isp_sns_regs_info" where
  "sc4336p_get_standby_cfg r =
     (let r = r\<lparr>reg_num := of_nat (length sc4336p_standby_cfg)\<rparr>
      in (TD_SUCCESS, r\<lparr>i2c_data := for_upto (unat (reg_num r))
            (\<lambda>i f. f(i := (f i)\<lparr>d_dev_addr := 0x60, d_addr_byte_num := 2, d_data_byte_num := 1,
                      d_reg_addr := ucast (fst (sc4336p_standby_cfg ! i)),
                      d_data := ucast (snd (sc4336p_standby_cfg ! i))\<rparr>)) (i2c_data r)\<rparr>))"

definition sc4336p_isp_get_standby_cfg ::
  "int \<Rightarrow> ot_isp_sns_regs_info option \<Rightarrow> drv \<Rightarrow> ret \<times> ot_isp_sns_regs_info option \<times> drv" where
  "sc4336p_isp_get_standby_cfg vi_pipe standby_cfg d =
     (case cmos_get_info vi_pipe d of
        None \<Rightarrow> (OT_ERR_ISP_ILLEGAL_PARAM, standby_cfg, d)
      | Some ci \<Rightarrow> (case standby_cfg of
          None \<Rightarrow> (OT_ERR_ISP_NULL_PTR, standby_cfg, d)
        | Some r \<Rightarrow>
            (case sc4336p_get_standby_cfg (r\<lparr>sns_i2c := True, com_bus_i2c_dev := i2c_dev ci\<rparr>) of
               (ret, r) \<Rightarrow> (TD_SUCCESS, Some r,
                 if ret = TD_SUCCESS
                 then d\<lparr>g_standby_cfg_init := (g_standby_cfg_init d)[nat vi_pipe := True]\<rparr> else d))))"

section \<open>Image mode, start and stop\<close>

definition sc4336p_isp_config_image_mode_param :: "u8 \<Rightarrow> ot_isp_sns_state \<Rightarrow> ot_isp_sns_state" where
  "sc4336p_isp_config_image_mode_param m st =
     (if m = 1 then st\<lparr>fl_std := 1500\<rparr> else if m = 0 then st\<lparr>fl_std := 1125\<rparr> else st\<lparr>fl_std := 1500\<rparr>)"

definition sc4336p_isp_set_image_mode ::
  "int \<Rightarrow> ot_isp_cmos_sns_image_mode option \<Rightarrow> drv \<Rightarrow> ret \<times> drv" where
  "sc4336p_isp_set_image_mode vi_pipe im d =
     (case cmos_get_info vi_pipe d of
        None \<Rightarrow> (OT_ERR_ISP_ILLEGAL_PARAM, d)
      | Some ci \<Rightarrow> (case im of
          None \<Rightarrow> (OT_ERR_ISP_NULL_PTR, d)
        | Some x \<Rightarrow> (case sns_state ci of
            None \<Rightarrow> (OT_ERR_ISP_NULL_PTR, d)
          | Some st \<Rightarrow>
              (case List.find (\<lambda>i. mode_fits x (wdr_mode st) (mode_tbl ci ! i)) [0..<2] of
                 None \<Rightarrow> (TD_FAILURE, d)
               | Some i \<Rightarrow>
                   (let image_mode = of_nat i;
                        st = sc4336p_isp_config_image_mode_param image_mode st
                    in if init st \<and> image_mode = img_mode st
                       then (OT_ISP_DO_NOT_NEED_SWITCH_IMAGEMODE, put_state vi_pipe st d)
                       else (TD_SUCCESS, put_state vi_pipe
                              (st\<lparr>sync_init := False, img_mode := image_mode,
                                  fl := (fl st)(0 := fl_std st, 1 := fl_std st)\<rparr>) d))))))"

definition sc4336p_isp_get_quick_start_flag :: "sdk \<Rightarrow> int \<Rightarrow> drv \<Rightarrow> bool \<times> drv" where
  "sc4336p_isp_get_quick_start_flag k vi_pipe d =
     (case ask k (Call_get_ctrl_param vi_pipe) (calls d) of (n, tr) \<Rightarrow>
        (if n \<noteq> 0 then False else quick_start_of k (calls d) vi_pipe, d\<lparr>calls := tr\<rparr>))"

text \<open>The start-up sequence, from \<^verbatim>\<open>sc4336p_sensor_ctrl.c\<close>.\<close>

definition sc4336p_default_reg_init :: "sdk \<Rightarrow> cis_info \<Rightarrow> ot_isp_sns_state \<Rightarrow> drv \<Rightarrow> drv" where
  "sc4336p_default_reg_init k ci st d = drv_writes k (i2c ci) (pending_writes st) d"

definition sc4336p_reg_init ::
  "sdk \<Rightarrow> cis_info \<Rightarrow> ot_isp_sns_state \<Rightarrow> cis_reg_cfg list \<Rightarrow> drv \<Rightarrow> ret \<times> drv" where
  "sc4336p_reg_init k ci st cfg d =
     (case drv_write k (i2c ci) 0x0103 0x01 d of (r, d) \<Rightarrow>
        if r \<noteq> TD_SUCCESS then (r, d)
        else case drv_writes_checked k (i2c ci) (cfg_writes cfg) (drv_delay_ms k 1 d) of
          (r, d) \<Rightarrow>
            if r \<noteq> TD_SUCCESS then (r, d)
            else drv_write k (i2c ci) 0x0100 0x01 (sc4336p_default_reg_init k ci st d))"

definition sc4336p_linear_4m30_10bit_init :: "sdk \<Rightarrow> cis_info \<Rightarrow> drv \<Rightarrow> ret \<times> drv" where
  "sc4336p_linear_4m30_10bit_init k ci d =
     (case sns_state ci of
        None \<Rightarrow> (OT_ERR_ISP_NULL_PTR, d)
      | Some st \<Rightarrow>
          if img_mode st = 1 then sc4336p_reg_init k ci st sc4336p_linear_4m30_10bit d
          else if img_mode st = 0 then sc4336p_reg_init k ci st sc4336p_linear_2m30_10bit d
          else (TD_FAILURE, d))"

definition sc4336p_isp_init :: "sdk \<Rightarrow> int \<Rightarrow> drv \<Rightarrow> drv" where
  "sc4336p_isp_init k vi_pipe d =
     (case cmos_get_info vi_pipe d of
        None \<Rightarrow> d
      | Some ci \<Rightarrow> (case sns_state ci of
          None \<Rightarrow> d
        | Some st \<Rightarrow>
            (let ci = ci\<lparr>i2c := (i2c ci)\<lparr>i2c_addr := 0x60, addr_byte_num := 2, data_byte_num := 1\<rparr>\<rparr>
             in case cis_i2c_init k ci (calls d) of (r, ci, tr) \<Rightarrow>
               (let d = put_info vi_pipe ci (d\<lparr>calls := tr\<rparr>)
                in if r \<noteq> TD_SUCCESS then d
                else case sc4336p_isp_get_quick_start_flag k vi_pipe d of (quick, d) \<Rightarrow>
                  if quick then put_state vi_pipe (st\<lparr>init := True\<rparr>) d
                  else put_state vi_pipe (st\<lparr>init := True\<rparr>)
                         (snd (sc4336p_linear_4m30_10bit_init k ci d))))))"

definition sc4336p_isp_exit :: "sdk \<Rightarrow> int \<Rightarrow> drv \<Rightarrow> drv" where
  "sc4336p_isp_exit k vi_pipe d =
     (case cmos_get_info vi_pipe d of
        None \<Rightarrow> d
      | Some ci \<Rightarrow> (case cis_i2c_exit k ci (calls d) of (r, ci, tr) \<Rightarrow>
          put_info vi_pipe ci (d\<lparr>calls := tr\<rparr>)))"

definition sc4336p_isp_global_init :: "int \<Rightarrow> drv \<Rightarrow> drv" where
  "sc4336p_isp_global_init vi_pipe d =
     (case cmos_get_info vi_pipe d of
        None \<Rightarrow> d
      | Some ci \<Rightarrow> (case sns_state ci of
          None \<Rightarrow> d
        | Some st \<Rightarrow> put_state vi_pipe (st\<lparr>init := False, sync_init := False, img_mode := 1,
            wdr_mode := OT_WDR_MODE_NONE, fl_std := 1500, fl := (fl st)(0 := 1500, 1 := 1500),
            regs_info := (regs_info st)(0 := zero_regs_info, 1 := zero_regs_info)\<rparr>) d))"

definition sc4336p_isp_set_pixel_detect :: "sdk \<Rightarrow> int \<Rightarrow> bool \<Rightarrow> drv \<Rightarrow> drv" where
  "sc4336p_isp_set_pixel_detect k vi_pipe enable d =
     (case cmos_get_info vi_pipe d of
        None \<Rightarrow> d
      | Some ci \<Rightarrow> (case sns_state ci of
          None \<Rightarrow> d
        | Some st \<Rightarrow>
            if wdr_mode st = OT_WDR_MODE_2To1_LINE then d
            else if img_mode st \<noteq> 1 \<and> img_mode st \<noteq> 0 then d
            else
              (let full_lines_5fps = (if img_mode st = 1 then (1500 * 30) div 5 else (1125 * 30) div 5)
               in if enable
                  then drv_writes k (i2c ci)
                    [(0x3E09, 0x00), (0x3E06, 0x00), (0x3E07, 0x80),
                     (0x320F, low_8bits full_lines_5fps), (0x320E, high_8bits full_lines_5fps),
                     (0x3E02, lower_4bits (full_lines_5fps - 10)),
                     (0x3E01, higher_8bits (full_lines_5fps - 10)),
                     (0x3E00, higher_4bits (full_lines_5fps - 10))] d
                  else
                    (let lines_max = max_ver_lines (cur_mode ci st);
                         v = (if lines_max < fl_std st then lines_max else fl_std st)
                     in put_state vi_pipe (st\<lparr>fl_std := v, sync_init := False\<rparr>)
                          (drv_writes k (i2c ci) [(0x320F, low_8bits v), (0x320E, high_8bits v)] d)))))"

definition sc4336p_init_sensor_exp_function :: "sdk \<Rightarrow> isp_build \<Rightarrow> drv ot_isp_sns_exp_func" where
  "sc4336p_init_sensor_exp_function k b = \<lparr>
     pfn_cmos_sns_init = sc4336p_isp_init k,
     pfn_cmos_sns_exit = sc4336p_isp_exit k,
     pfn_cmos_sns_global_init = sc4336p_isp_global_init,
     pfn_cmos_set_image_mode = sc4336p_isp_set_image_mode,
     pfn_cmos_set_wdr_mode = sc4336p_isp_set_wdr_mode k,
     pfn_cmos_get_isp_default = sc4336p_isp_get_default b,
     pfn_cmos_get_isp_black_level = sc4336p_isp_get_black_level b,
     pfn_cmos_get_blc_clamp_info = sc4336p_isp_get_blc_clamp_info,
     pfn_cmos_set_pixel_detect = sc4336p_isp_set_pixel_detect k,
     pfn_cmos_get_sns_reg_info = sc4336p_isp_get_sns_regs_info,
     pfn_cmos_get_standby_cfg = Some sc4336p_isp_get_standby_cfg\<rparr>"

section \<open>The sensor object\<close>

text \<open>The flags say whether the library pointers \<^verbatim>\<open>ae_lib\<close> and \<^verbatim>\<open>awb_lib\<close> are given.\<close>

definition sc4336p_register_callback :: "sdk \<Rightarrow> int \<Rightarrow> bool \<Rightarrow> bool \<Rightarrow> drv \<Rightarrow> ret \<times> drv" where
  "sc4336p_register_callback k vi_pipe ae_lib awb_lib d =
     (case cmos_get_info vi_pipe d of
        None \<Rightarrow> (OT_ERR_ISP_ILLEGAL_PARAM, d)
      | Some ci \<Rightarrow>
          if \<not> ae_lib \<or> \<not> awb_lib then (OT_ERR_ISP_NULL_PTR, d)
          else case cis_register_callback k (ci\<lparr>pipe := vi_pipe\<rparr>) (calls d) of (r, ci, tr) \<Rightarrow>
            (r, put_info vi_pipe ci (d\<lparr>calls := tr\<rparr>)))"

definition sc4336p_unregister_callback :: "sdk \<Rightarrow> int \<Rightarrow> bool \<Rightarrow> bool \<Rightarrow> drv \<Rightarrow> ret \<times> drv" where
  "sc4336p_unregister_callback k vi_pipe ae_lib awb_lib d =
     (case cmos_get_info vi_pipe d of
        None \<Rightarrow> (OT_ERR_ISP_ILLEGAL_PARAM, d)
      | Some ci \<Rightarrow>
          if \<not> ae_lib \<or> \<not> awb_lib then (OT_ERR_ISP_NULL_PTR, d)
          else case cis_unregister_callback k ci (calls d) of (r, ci, tr) \<Rightarrow>
            (r, put_info vi_pipe ci (d\<lparr>calls := tr\<rparr>)))"

text \<open>
  \<^verbatim>\<open>cmos_standby\<close> reads \<^verbatim>\<open>g_standby_cfg_init[vi_pipe]\<close> before it checks the pipe; \<open>None\<close> is the
  read outside the array.
\<close>

definition sc4336p_standby :: "sdk \<Rightarrow> int \<Rightarrow> drv \<Rightarrow> drv option" where
  "sc4336p_standby k vi_pipe d =
     (if vi_pipe < 0 \<or> int (length (g_standby_cfg_init d)) \<le> vi_pipe then None
      else if g_standby_cfg_init d ! nat vi_pipe then Some d
      else case cmos_get_info vi_pipe d of
        None \<Rightarrow> Some d
      | Some ci \<Rightarrow> Some (snd (drv_write k (i2c ci) 0x0100 0x00 d)))"

definition sc4336p_restart :: "sdk \<Rightarrow> int \<Rightarrow> drv \<Rightarrow> drv" where
  "sc4336p_restart k vi_pipe d =
     (case cmos_get_info vi_pipe d of
        None \<Rightarrow> d
      | Some ci \<Rightarrow> snd (drv_write k (i2c ci) 0x0100 0x01 d))"

definition sc4336p_write_register :: "sdk \<Rightarrow> int \<Rightarrow> u32 \<Rightarrow> u32 \<Rightarrow> drv \<Rightarrow> ret \<times> drv" where
  "sc4336p_write_register k vi_pipe addr dat d =
     (case cmos_get_info vi_pipe d of
        None \<Rightarrow> (OT_ERR_ISP_ILLEGAL_PARAM, d)
      | Some ci \<Rightarrow> drv_write k (i2c ci) addr dat d)"

definition sc4336p_read_register :: "int \<Rightarrow> u32 \<Rightarrow> ret" where
  "sc4336p_read_register vi_pipe addr = TD_SUCCESS"

definition sc4336p_set_bus_info :: "int \<Rightarrow> int \<Rightarrow> drv \<Rightarrow> ret \<times> drv" where
  "sc4336p_set_bus_info vi_pipe bus d =
     (case cmos_get_info vi_pipe d of
        None \<Rightarrow> (OT_ERR_ISP_ILLEGAL_PARAM, d)
      | Some ci \<Rightarrow> (TD_SUCCESS, put_info vi_pipe (ci\<lparr>i2c_dev := bus\<rparr>) d))"

definition sc4336p_set_init :: "int \<Rightarrow> ot_isp_init_attr option \<Rightarrow> drv \<Rightarrow> ret \<times> drv" where
  "sc4336p_set_init vi_pipe attr d =
     (case cmos_get_info vi_pipe d of
        None \<Rightarrow> (OT_ERR_ISP_ILLEGAL_PARAM, d)
      | Some ci \<Rightarrow> (case attr of
          None \<Rightarrow> (OT_ERR_ISP_NULL_PTR, d)
        | Some a \<Rightarrow> (TD_SUCCESS, put_info vi_pipe (cis_init_attr ci a) d)))"

definition sc4336p_set_fast_ae :: "int \<Rightarrow> bool option \<Rightarrow> drv \<Rightarrow> ret \<times> drv" where
  "sc4336p_set_fast_ae vi_pipe attr d =
     (case cmos_get_info vi_pipe d of
        None \<Rightarrow> (OT_ERR_ISP_ILLEGAL_PARAM, d)
      | Some ci \<Rightarrow> (case attr of
          None \<Rightarrow> (OT_ERR_ISP_NULL_PTR, d)
        | Some en \<Rightarrow> (TD_SUCCESS, put_info vi_pipe (ci\<lparr>fast_ae_en := en\<rparr>) d)))"

definition g_sns_sc4336p_obj :: "sdk \<Rightarrow> drv ot_isp_sns_obj" where
  "g_sns_sc4336p_obj k = \<lparr>
     pfn_register_callback = sc4336p_register_callback k,
     pfn_un_register_callback = sc4336p_unregister_callback k,
     pfn_standby = sc4336p_standby k,
     pfn_restart = sc4336p_restart k,
     pfn_mirror_flip = None,
     pfn_set_blc_clamp = None,
     pfn_write_reg = sc4336p_write_register k,
     pfn_read_reg = sc4336p_read_register,
     pfn_set_bus_info = sc4336p_set_bus_info,
     pfn_set_init = sc4336p_set_init,
     pfn_set_fast_ae = Some sc4336p_set_fast_ae\<rparr>"

section \<open>The invariant of a running driver\<close>

text \<open>
  Between registration and removal, once the ISP has called the global initialisation: the image
  mode indexes the mode table, the sensor is in linear mode, and the standard and the current
  frame length lie between the lines of the mode and the longest frame it supports.
\<close>

definition sc4336p_st_ok :: "ot_isp_sns_state \<Rightarrow> bool" where
  "sc4336p_st_ok st \<longleftrightarrow> img_mode st \<in> {0, 1} \<and> wdr_mode st = OT_WDR_MODE_NONE \<and>
     (let m = sc4336p_mode_tbl ! unat (img_mode st)
      in ver_lines m \<le> fl_std st \<and> fl_std st \<le> max_ver_lines m \<and>
         ver_lines m \<le> fl st 0 \<and> fl st 0 \<le> max_ver_lines m)"

definition sc4336p_ok :: "int \<Rightarrow> drv \<Rightarrow> bool" where
  "sc4336p_ok p d \<longleftrightarrow> (\<exists>ci st. cmos_get_info p d = Some ci \<and> mode_tbl ci = sc4336p_mode_tbl \<and>
     sns_state ci = Some st \<and> sc4336p_st_ok st)"

lemma sc4336p_okE:
  assumes "sc4336p_ok p d"
  obtains ci st where "cmos_get_info p d = Some ci" "mode_tbl ci = sc4336p_mode_tbl"
    "sns_state ci = Some st" "sc4336p_st_ok st"
  using assms unfolding sc4336p_ok_def by blast

lemma sc4336p_ok_cong: "g_info e = g_info d \<Longrightarrow> sc4336p_ok p d \<Longrightarrow> sc4336p_ok p e"
  by (simp add: sc4336p_ok_def get_info_cong [of e d])

lemma sc4336p_ok_put_info:
  "cmos_get_info p d \<noteq> None \<Longrightarrow> mode_tbl ci = sc4336p_mode_tbl \<Longrightarrow> sns_state ci = Some st \<Longrightarrow>
   sc4336p_st_ok st \<Longrightarrow> sc4336p_ok p (put_info p ci d)"
  by (simp add: sc4336p_ok_def)

lemma sc4336p_ok_put_state:
  "sc4336p_ok p d \<Longrightarrow> sc4336p_st_ok st \<Longrightarrow> sc4336p_ok p (put_state p st d)"
  by (auto simp: sc4336p_ok_def)

lemma sc4336p_st_ok_set_data [simp]: "sc4336p_st_ok (set_data j v st) = sc4336p_st_ok st"
  by (simp add: sc4336p_st_ok_def)

lemma sc4336p_ok_writes [simp]: "sc4336p_ok p (drv_writes k i ws d) = sc4336p_ok p d"
  by (simp add: sc4336p_ok_def get_info_cong [of "drv_writes k i ws d" d])

lemma sc4336p_ok_write [simp]: "sc4336p_ok p (snd (drv_write k i a v d)) = sc4336p_ok p d"
  by (simp add: sc4336p_ok_def get_info_cong [of "snd (drv_write k i a v d)" d])

lemmas sc4336p_tbl = sc4336p_mode_tbl_def cur_mode_def

lemma sc4336p_modes:
  "sc4336p_st_ok st \<Longrightarrow> (img_mode st = 0 \<or> img_mode st = 1) \<and> wdr_mode st = OT_WDR_MODE_NONE"
  by (auto simp: sc4336p_st_ok_def)

text \<open>The frame length that a supported rate asks for, in either mode.\<close>

definition sc4336p_vmax :: "u32 \<Rightarrow> f32 \<Rightarrow> u32" where
  "sc4336p_vmax lns fps = f32_to_u32 (f32_div (f32_mul (u32_to_f32 lns) 30) fps)"

lemma sc4336p_vmax_range:
  assumes "5 / 2 \<le> fps" "fps \<le> 30" "lns = 1125 \<or> lns = 1500"
  shows "lns \<le> sc4336p_vmax lns fps \<and> sc4336p_vmax lns fps \<le> 12 * lns"
  using assms(3)
proof
  assume l: "lns = 1125"
  have "u32_to_f32 1125 = 1125" by (simp add: u32_to_f32_def)
  then show ?thesis
    using frame_length_bounds [of fps 30 1125 13500] assms(1,2) l
    by (simp add: sc4336p_vmax_def word_le_def)
next
  assume l: "lns = 1500"
  have "u32_to_f32 1500 = 1500" by (simp add: u32_to_f32_def)
  then show ?thesis
    using frame_length_bounds [of fps 30 1500 18000] assms(1,2) l
    by (simp add: sc4336p_vmax_def word_le_def)
qed

lemma sc4336p_rows:
  assumes "mode_tbl ci = sc4336p_mode_tbl" "sc4336p_st_ok st"
  shows "(ver_lines (cur_mode ci st) = 1125 \<or> ver_lines (cur_mode ci st) = 1500) \<and>
    max_ver_lines (cur_mode ci st) = 12 * ver_lines (cur_mode ci st) \<and>
    max_fps (cur_mode ci st) = 30 \<and> min_fps (cur_mode ci st) = 5 / 2"
  using assms sc4336p_modes [OF assms(2)] by (auto simp: sc4336p_tbl)

lemma sc4336p_st_okI:
  assumes "mode_tbl ci = sc4336p_mode_tbl" "img_mode st \<in> {0, 1}" "wdr_mode st = OT_WDR_MODE_NONE"
    and "ver_lines (cur_mode ci st) \<le> fl_std st" "fl_std st \<le> max_ver_lines (cur_mode ci st)"
    and "ver_lines (cur_mode ci st) \<le> fl st 0" "fl st 0 \<le> max_ver_lines (cur_mode ci st)"
  shows "sc4336p_st_ok st"
  using assms by (simp add: sc4336p_st_ok_def cur_mode_def)

lemma sc4336p_st_okD:
  assumes "mode_tbl ci = sc4336p_mode_tbl" "sc4336p_st_ok st"
  shows "ver_lines (cur_mode ci st) \<le> fl_std st \<and> fl_std st \<le> max_ver_lines (cur_mode ci st) \<and>
    ver_lines (cur_mode ci st) \<le> fl st 0 \<and> fl st 0 \<le> max_ver_lines (cur_mode ci st)"
  using assms by (simp add: sc4336p_st_ok_def cur_mode_def Let_def)

text \<open>The new sensor state of a supported rate change.\<close>

definition sc4336p_fps_state :: "u32 \<Rightarrow> ot_isp_sns_state \<Rightarrow> ot_isp_sns_state" where
  "sc4336p_fps_state v st =
     (set_data 7 (high_8bits v) (set_data 6 (low_8bits v) st))\<lparr>fl_std := v, fl := (fl st)(0 := v)\<rparr>"

lemma sc4336p_fps_set_eq:
  assumes k: "div_guards k" and ci: "cmos_get_info p d = Some ci" "mode_tbl ci = sc4336p_mode_tbl"
    and st: "sns_state ci = Some st" "sc4336p_st_ok st" and fps: "5 / 2 \<le> fps" "fps \<le> 30"
  defines "v \<equiv> sc4336p_vmax (ver_lines (cur_mode ci st)) fps"
  shows "\<exists>a' l. sc4336p_fps_set k p fps (Some a) d =
      (Some a', put_info p (ci\<lparr>lines_per500ms := l, sns_state := Some (sc4336p_fps_state v st)\<rparr>) d) \<and>
      dft_fps a' = fps \<and> dft_full_lines_std a' = v \<and> dft_full_lines a' = v \<and>
      dft_max_int_time a' = v - 10"
proof -
  note rows = sc4336p_rows [OF ci(2) st(2)]
  have v: "\<not> max_ver_lines (cur_mode ci st) < v"
    using sc4336p_vmax_range [OF fps] rows unfolding v_def by (metis not_less)
  have g: "div_0_to_1_float k fps = fps" using k fps by (simp add: div_guards_def)
  show ?thesis
    using ci st rows fps v g sc4336p_modes [OF st(2)]
    by (auto simp: sc4336p_fps_set_def Let_def sc4336p_config_vmax_def sc4336p_fps_state_def
        v_def sc4336p_vmax_def)
qed

lemma sc4336p_fps_state_ok:
  assumes "mode_tbl ci = sc4336p_mode_tbl" "sc4336p_st_ok st" "5 / 2 \<le> fps" "fps \<le> 30"
  shows "sc4336p_st_ok (sc4336p_fps_state (sc4336p_vmax (ver_lines (cur_mode ci st)) fps) st)"
proof (rule sc4336p_st_okI [OF assms(1)])
  let ?st = "sc4336p_fps_state (sc4336p_vmax (ver_lines (cur_mode ci st)) fps) st"
  have "cur_mode ci ?st = cur_mode ci st" by (simp add: sc4336p_fps_state_def cur_mode_def)
  then show "ver_lines (cur_mode ci ?st) \<le> fl_std ?st" "fl_std ?st \<le> max_ver_lines (cur_mode ci ?st)"
    "ver_lines (cur_mode ci ?st) \<le> fl ?st 0" "fl ?st 0 \<le> max_ver_lines (cur_mode ci ?st)"
    using sc4336p_vmax_range [OF assms(3,4)] sc4336p_rows [OF assms(1,2)]
    by (auto simp: sc4336p_fps_state_def)
qed (use sc4336p_modes [OF assms(2)] in \<open>auto simp: sc4336p_fps_state_def\<close>)

lemma sc4336p_fps_set_refused:
  assumes "cmos_get_info p d = Some ci" "mode_tbl ci = sc4336p_mode_tbl" "sns_state ci = Some st"
    "sc4336p_st_ok st" "fps < 5 / 2 \<or> 30 < fps"
  shows "sc4336p_fps_set k p fps ae d = (ae, d)"
  using assms sc4336p_rows [OF assms(2,4)]
  by (auto simp: sc4336p_fps_set_def Let_def split: option.splits)

text \<open>
  A frame rate change is carried out exactly.  For a rate between 2.5 and 30 frames per second
  the driver computes the frame length in single precision, which lies between the lines of the
  mode and twelve times as many; its two register bytes reassemble to that length, which is also
  the new standard and current frame length, and AE is told the rate, the length and a maximal
  exposure of ten lines less.  Any other rate changes nothing.
\<close>

theorem sc4336p_fps_set_correct:
  assumes "div_guards k" "cmos_get_info p d = Some ci" "mode_tbl ci = sc4336p_mode_tbl"
    "sns_state ci = Some st" "sc4336p_st_ok st"
  shows "if 5 / 2 \<le> fps \<and> fps \<le> 30
    then \<exists>a' d' ci' st'. sc4336p_fps_set k p fps (Some a) d = (Some a', d') \<and>
      cmos_get_info p d' = Some ci' \<and> sns_state ci' = Some st' \<and>
      (let v = sc4336p_vmax (ver_lines (cur_mode ci st)) fps; r = i2c_data (regs_info st' 0)
       in ver_lines (cur_mode ci st) \<le> v \<and> v \<le> 12 * ver_lines (cur_mode ci st) \<and>
          vmax_value (d_data (r 7)) (d_data (r 6)) = unat v \<and> fl_std st' = v \<and> fl st' 0 = v \<and>
          dft_fps a' = fps \<and> dft_full_lines a' = v \<and> dft_max_int_time a' = v - 10)
    else sc4336p_fps_set k p fps (Some a) d = (Some a, d)"
proof (cases "5 / 2 \<le> fps \<and> fps \<le> 30")
  case True
  let ?v = "sc4336p_vmax (ver_lines (cur_mode ci st)) fps"
  have v: "ver_lines (cur_mode ci st) \<le> ?v" "?v \<le> 12 * ver_lines (cur_mode ci st)"
    using sc4336p_vmax_range sc4336p_rows [OF assms(3,5)] True by blast+
  then have "unat ?v \<le> 18000"
    using sc4336p_rows [OF assms(3,5)] by (auto simp: word_le_nat_alt)
  then have "vmax_value (high_8bits ?v) (low_8bits ?v) = unat ?v" by (simp add: vmax_fields)
  then show ?thesis
    using v True assms(2) sc4336p_fps_set_eq [OF assms, of fps a]
    by (auto simp: Let_def sc4336p_fps_state_def)
next
  case False
  then show ?thesis using sc4336p_fps_set_refused [OF assms(2-5)] by (auto simp: not_le)
qed

section \<open>A driver in operation\<close>

text \<open>One pipe, registered and initialised on a board where every call succeeds.\<close>

definition sc4336p_demo :: drv where
  "sc4336p_demo = sc4336p_isp_global_init 0
     (snd (sc4336p_register_callback (demo_sdk None) 0 True True (sc4336p_drv0 1)))"

definition sc4336p_demo_state :: ot_isp_sns_state where
  "sc4336p_demo_state = (zero_sns_state (demo_sdk None))\<lparr>img_mode := 1, fl_std := 1500,
     fl := (\<lambda>_. 0)(0 := 1500, 1 := 1500)\<rparr>"

definition sc4336p_demo_cis :: cis_info where
  "sc4336p_demo_cis = sc4336p_info0\<lparr>sns_state := Some sc4336p_demo_state\<rparr>"

lemma sc4336p_demo_info: "cmos_get_info 0 sc4336p_demo = Some sc4336p_demo_cis"
proof -
  have i: "cmos_get_info 0 (sc4336p_drv0 1) = Some sc4336p_info0"
    by (simp add: sc4336p_drv0_def cmos_get_info_def)
  moreover obtain tr' where "cis_register_callback (demo_sdk None) (sc4336p_info0\<lparr>pipe := 0\<rparr>) [] =
      (TD_SUCCESS, sc4336p_info0\<lparr>pipe := 0, sns_state := Some (zero_sns_state (demo_sdk None))\<rparr>, tr')"
    using demo_register [of "sc4336p_info0\<lparr>pipe := 0\<rparr>" "[]"] by (auto simp: sc4336p_info0_def)
  ultimately show ?thesis
    by (simp add: sc4336p_demo_def sc4336p_register_callback_def sc4336p_isp_global_init_def
        sc4336p_drv0_def cmos_get_info_def put_info_def put_state_def
        sc4336p_demo_cis_def sc4336p_demo_state_def sc4336p_info0_def zero_sns_state_def fun_eq_iff)
qed

lemma sc4336p_demo_parts:
  "mode_tbl sc4336p_demo_cis = sc4336p_mode_tbl"
  "sns_state sc4336p_demo_cis = Some sc4336p_demo_state"
  "sc4336p_st_ok sc4336p_demo_state"
  "ver_lines (cur_mode sc4336p_demo_cis sc4336p_demo_state) = 1500"
  by (simp_all add: sc4336p_demo_cis_def sc4336p_info0_def sc4336p_demo_state_def sc4336p_st_ok_def
      zero_sns_state_def sc4336p_tbl)

theorem sc4336p_fps_set_correct_witness:
  "\<exists>a' d' ci' st'. sc4336p_fps_set (demo_sdk None) 0 25 (Some demo_ae) sc4336p_demo = (Some a', d') \<and>
     cmos_get_info 0 d' = Some ci' \<and> sns_state ci' = Some st' \<and> fl_std st' = 1800 \<and>
     dft_max_int_time a' = 1790"
proof -
  have "sc4336p_vmax 1500 25 = 1800"
    by (simp add: sc4336p_vmax_def u32_to_f32_def f32_mul_def f32_div_def f32_to_u32_def)
  then show ?thesis
    using sc4336p_fps_set_correct [OF demo_div_guards [of None] sc4336p_demo_info
        sc4336p_demo_parts(1,2,3), of 25 demo_ae] sc4336p_demo_parts(4)
    by (auto simp: Let_def)
qed

section \<open>Every operation keeps the invariant\<close>

lemma sc4336p_ok_calls [simp]: "sc4336p_ok p (d\<lparr>calls := tr\<rparr>) = sc4336p_ok p d"
  by (simp add: sc4336p_ok_def)

lemma sc4336p_fps_set_ok:
  assumes "div_guards k" "sc4336p_ok p d"
  shows "sc4336p_ok p (snd (sc4336p_fps_set k p fps ae d))"
proof -
  obtain ci st where c: "cmos_get_info p d = Some ci" "mode_tbl ci = sc4336p_mode_tbl"
      "sns_state ci = Some st" "sc4336p_st_ok st"
    using assms(2) by (rule sc4336p_okE)
  consider "ae = None" | "fps < 5 / 2 \<or> 30 < fps" | a where "ae = Some a" "5 / 2 \<le> fps" "fps \<le> 30"
    by (cases ae) (auto simp: not_less [symmetric])
  then show ?thesis
  proof cases
    case 1
    then show ?thesis using assms by (simp add: sc4336p_fps_set_def split: option.splits)
  next
    case 2
    then show ?thesis using sc4336p_fps_set_refused [OF c] assms by simp
  next
    case 3
    then show ?thesis
      using sc4336p_fps_set_eq [OF assms(1) c 3(2,3), of a] sc4336p_fps_state_ok [OF c(2,4) 3(2,3)] c
      by (auto intro!: sc4336p_ok_put_info)
  qed
qed

lemma sc4336p_slow_framerate_set_eq:
  fixes full_lines
  assumes "cmos_get_info p d = Some ci" "sns_state ci = Some st" "wdr_mode st = OT_WDR_MODE_NONE"
  defines "v \<equiv> clip3 (full_lines + 10) (ver_lines (cur_mode ci st)) (max_ver_lines (cur_mode ci st))"
  shows "sc4336p_slow_framerate_set p full_lines (Some a) d =
    (Some (a\<lparr>dft_max_int_time := v - 10, dft_full_lines := full_lines\<rparr>),
     put_info p (ci\<lparr>sns_state := Some (set_data 7 (high_8bits v) (set_data 6 (low_8bits v)
       (st\<lparr>fl := (fl st)(0 := v)\<rparr>)))\<rparr>) d)"
  using assms by (simp add: sc4336p_slow_framerate_set_def Let_def v_def)

lemma sc4336p_slow_framerate_set_ok:
  assumes "sc4336p_ok p d"
  shows "sc4336p_ok p (snd (sc4336p_slow_framerate_set p full_lines ae d))"
proof (cases ae)
  case None
  then show ?thesis using assms by (simp add: sc4336p_slow_framerate_set_def split: option.splits)
next
  case (Some a)
  obtain ci st where c: "cmos_get_info p d = Some ci" "mode_tbl ci = sc4336p_mode_tbl"
      "sns_state ci = Some st" "sc4336p_st_ok st"
    using assms by (rule sc4336p_okE)
  have le: "ver_lines (cur_mode ci st) \<le> max_ver_lines (cur_mode ci st)"
    using sc4336p_rows [OF c(2,4)] by auto
  let ?v = "clip3 (full_lines + 10) (ver_lines (cur_mode ci st)) (max_ver_lines (cur_mode ci st))"
  have "sc4336p_st_ok (st\<lparr>fl := (fl st)(0 := ?v)\<rparr>)"
    using clip3_bounds [OF le] sc4336p_st_okD [OF c(2,4)] sc4336p_modes [OF c(4)]
    by (intro sc4336p_st_okI [OF c(2)]) (auto simp: cur_mode_def)
  then show ?thesis
    using c Some sc4336p_modes [OF c(4)]
    by (auto simp: sc4336p_slow_framerate_set_eq intro!: sc4336p_ok_put_info)
qed

lemma sc4336p_inttime_update_ok:
  "sc4336p_ok p d \<Longrightarrow> sc4336p_ok p (sc4336p_inttime_update k p t d)"
  by (auto simp: sc4336p_inttime_update_def sc4336p_inttime_update_linear_def sc4336p_ok_def)

lemma sc4336p_gains_update_ok: "sc4336p_ok p d \<Longrightarrow> sc4336p_ok p (sc4336p_gains_update k p a g d)"
  by (auto simp: sc4336p_gains_update_def Let_def sc4336p_ok_def)

lemma sc4336p_attr_ok:
  assumes "sc4336p_ok p d"
  shows "sc4336p_ok p (sc4336p_ae_fswdr_attr_set p m d)"
    and "sc4336p_ok p (sc4336p_fast_ae_attr_set p fa d)"
    and "sc4336p_ok p (snd (sc4336p_set_bus_info p bus d))"
    and "sc4336p_ok p (snd (sc4336p_set_init p ia d))"
    and "sc4336p_ok p (snd (sc4336p_set_fast_ae p fe d))"
  using assms
  by (auto simp: sc4336p_ok_def sc4336p_ae_fswdr_attr_set_def sc4336p_fast_ae_attr_set_def
      sc4336p_set_bus_info_def sc4336p_set_init_def sc4336p_set_fast_ae_def cis_init_attr_def
      split: option.splits)

lemma sc4336p_st_ok_flags:
  "sc4336p_st_ok (st\<lparr>sync_init := b\<rparr>) = sc4336p_st_ok st"
  "sc4336p_st_ok (st\<lparr>init := b\<rparr>) = sc4336p_st_ok st"
  "sc4336p_st_ok (st\<lparr>regs_info := r\<rparr>) = sc4336p_st_ok st"
  "sc4336p_st_ok (st\<lparr>wdr_int_time := t\<rparr>) = sc4336p_st_ok st"
  by (simp_all add: sc4336p_st_ok_def)

lemma sc4336p_quick_start_ok:
  "sc4336p_ok p d \<Longrightarrow> sc4336p_ok p (sc4336p_ae_quick_start_status_set p q d)"
  by (auto simp: sc4336p_ae_quick_start_status_set_def sc4336p_st_ok_flags elim!: sc4336p_okE
      intro!: sc4336p_ok_put_info)

lemma sc4336p_set_wdr_mode_ok:
  "sc4336p_ok p d \<Longrightarrow> sc4336p_ok p (snd (sc4336p_isp_set_wdr_mode k p m d))"
  by (auto simp: sc4336p_isp_set_wdr_mode_def Let_def sc4336p_ok_def sc4336p_st_ok_def
      split: ot_wdr_mode.splits)

lemma sc4336p_set_image_mode_ok:
  assumes "sc4336p_ok p d"
  shows "sc4336p_ok p (snd (sc4336p_isp_set_image_mode p im d))"
proof -
  obtain ci st where c: "cmos_get_info p d = Some ci" "mode_tbl ci = sc4336p_mode_tbl"
      "sns_state ci = Some st" "sc4336p_st_ok st"
    using assms by (rule sc4336p_okE)
  have st': "sc4336p_st_ok (st'\<lparr>sync_init := False, img_mode := of_nat i,
        fl := (fl st')(0 := fl_std st', 1 := fl_std st')\<rparr>)"
      "of_nat i = img_mode st \<Longrightarrow> sc4336p_st_ok st'"
    if "List.find P [0..<2] = Some i" "st' = sc4336p_isp_config_image_mode_param (of_nat i) st" for P i st'
  proof -
    have "i = 0 \<or> i = 1" using find_upt_Some [OF that(1)] by auto
    then show "sc4336p_st_ok (st'\<lparr>sync_init := False, img_mode := of_nat i,
        fl := (fl st')(0 := fl_std st', 1 := fl_std st')\<rparr>)"
      "of_nat i = img_mode st \<Longrightarrow> sc4336p_st_ok st'"
      using c(4) that(2)
      by (auto simp: sc4336p_isp_config_image_mode_param_def sc4336p_st_ok_def sc4336p_mode_tbl_def)
  qed
  have "img_mode (sc4336p_isp_config_image_mode_param m st) = img_mode st" for m
    by (simp add: sc4336p_isp_config_image_mode_param_def)
  then show ?thesis
    using c assms st'
    by (auto simp: sc4336p_isp_set_image_mode_def Let_def split: option.splits
        intro!: sc4336p_ok_put_state)
qed

lemma sc4336p_get_regs_ok:
  "sc4336p_ok p d \<Longrightarrow> sc4336p_ok p (snd (snd (sc4336p_isp_get_sns_regs_info p r d)))"
  by (auto simp: sc4336p_isp_get_sns_regs_info_def sync_regs_def Let_def sc4336p_st_ok_def
      sc4336p_sns_reg_info_init_def sc4336p_sns_reg_info_update_def
      sc4336p_sns_config_logic_update_def mark_changed_def upd_regs0_def sc4336p_ok_def
      split: option.splits)

lemma sc4336p_get_standby_ok:
  "sc4336p_ok p d \<Longrightarrow> sc4336p_ok p (snd (snd (sc4336p_isp_get_standby_cfg p r d)))"
  by (auto simp: sc4336p_isp_get_standby_cfg_def sc4336p_ok_def cmos_get_info_def
      split: option.splits prod.splits)

lemma sc4336p_reg_init_eq:
  "sc4336p_reg_init k ci st cfg d = start_sequence k (i2c ci) (cfg_writes cfg) (pending_writes st) d"
  by (simp add: sc4336p_reg_init_def sc4336p_default_reg_init_def start_sequence_def
      split: prod.split)

lemma sc4336p_reg_init_frame [simp]: "g_info (snd (sc4336p_reg_init k ci st cfg d)) = g_info d"
  by (simp add: sc4336p_reg_init_eq)

lemma sc4336p_linear_init_frame [simp]:
  "g_info (snd (sc4336p_linear_4m30_10bit_init k ci d)) = g_info d"
  by (simp add: sc4336p_linear_4m30_10bit_init_def split: option.splits)

lemma sc4336p_init_ok:
  assumes "sc4336p_ok p d"
  shows "sc4336p_ok p (sc4336p_isp_init k p d)"
proof -
  obtain ci st where c: "cmos_get_info p d = Some ci" "mode_tbl ci = sc4336p_mode_tbl"
      "sns_state ci = Some st" "sc4336p_st_ok st"
    using assms by (rule sc4336p_okE)
  let ?ci = "ci\<lparr>i2c := (i2c ci)\<lparr>i2c_addr := 0x60, addr_byte_num := 2, data_byte_num := 1\<rparr>\<rparr>"
  obtain r ci' tr' where i: "cis_i2c_init k ?ci (calls d) = (r, ci', tr')" by (metis prod_cases3)
  have ok: "sc4336p_ok p (put_info p ci' (d\<lparr>calls := tr'\<rparr>))"
    using i2c_init_frame [OF i] c by (auto intro!: sc4336p_ok_put_info)
  have fin: "sc4336p_ok p (put_state p (st\<lparr>init := True\<rparr>) e)"
    if "g_info e = g_info (put_info p ci' (d\<lparr>calls := tr'\<rparr>))" for e
    using sc4336p_ok_cong [OF that ok] c(4)
    by (intro sc4336p_ok_put_state) (simp_all add: sc4336p_st_ok_flags)
  show ?thesis
    using c i ok fin
    by (auto simp: sc4336p_isp_init_def Let_def sc4336p_isp_get_quick_start_flag_def put_info_def)
qed

lemma sc4336p_exit_ok: "sc4336p_ok p d \<Longrightarrow> sc4336p_ok p (sc4336p_isp_exit k p d)"
  by (auto simp: sc4336p_isp_exit_def sc4336p_ok_def dest!: i2c_exit_frame split: prod.splits)

lemma sc4336p_global_init_ok:
  assumes "cmos_get_info p d = Some ci" "mode_tbl ci = sc4336p_mode_tbl" "sns_state ci = Some st"
  shows "sc4336p_ok p (sc4336p_isp_global_init p d)"
  using assms
  by (simp add: sc4336p_isp_global_init_def sc4336p_ok_def sc4336p_st_ok_def sc4336p_mode_tbl_def)

lemma sc4336p_pixel_detect_ok:
  assumes "sc4336p_ok p d"
  shows "sc4336p_ok p (sc4336p_isp_set_pixel_detect k p en d)"
proof -
  obtain ci st where c: "cmos_get_info p d = Some ci" "mode_tbl ci = sc4336p_mode_tbl"
      "sns_state ci = Some st" "sc4336p_st_ok st"
    using assms by (rule sc4336p_okE)
  then show ?thesis
    using assms sc4336p_st_okD [OF c(2,4)] sc4336p_modes [OF c(4)]
    by (auto simp: sc4336p_isp_set_pixel_detect_def Let_def not_less sc4336p_st_ok_flags
        intro!: sc4336p_ok_put_state)
qed

lemma sc4336p_bus_ok:
  assumes "sc4336p_ok p d"
  shows "sc4336p_standby k p d = Some e \<Longrightarrow> sc4336p_ok p e"
    and "sc4336p_ok p (sc4336p_restart k p d)"
    and "sc4336p_ok p (snd (sc4336p_write_register k p addr dat d))"
  using assms
  by (auto simp: sc4336p_standby_def sc4336p_restart_def sc4336p_write_register_def
      split: option.splits if_splits)

text \<open>One call of the ISP, of AE or of the application into the registered driver of a pipe.\<close>

inductive sc4336p_step :: "sdk \<Rightarrow> int \<Rightarrow> drv \<Rightarrow> drv \<Rightarrow> bool" for k p where
  fps: "sc4336p_step k p d (snd (sc4336p_fps_set k p fps ae d))"
| slow: "sc4336p_step k p d (snd (sc4336p_slow_framerate_set p full_lines ae d))"
| inttime: "sc4336p_step k p d (sc4336p_inttime_update k p int_time d)"
| gains: "sc4336p_step k p d (sc4336p_gains_update k p again dgain d)"
| fswdr: "sc4336p_step k p d (sc4336p_ae_fswdr_attr_set p m d)"
| quick: "sc4336p_step k p d (sc4336p_ae_quick_start_status_set p en d)"
| fast_attr: "sc4336p_step k p d (sc4336p_fast_ae_attr_set p fa d)"
| wdr: "sc4336p_step k p d (snd (sc4336p_isp_set_wdr_mode k p mode d))"
| image: "sc4336p_step k p d (snd (sc4336p_isp_set_image_mode p im d))"
| regs: "sc4336p_step k p d (snd (snd (sc4336p_isp_get_sns_regs_info p r d)))"
| standby_cfg: "sc4336p_step k p d (snd (snd (sc4336p_isp_get_standby_cfg p r d)))"
| start: "sc4336p_step k p d (sc4336p_isp_init k p d)"
| stop: "sc4336p_step k p d (sc4336p_isp_exit k p d)"
| reset: "sc4336p_step k p d (sc4336p_isp_global_init p d)"
| pixel: "sc4336p_step k p d (sc4336p_isp_set_pixel_detect k p en d)"
| standby: "sc4336p_standby k p d = Some e \<Longrightarrow> sc4336p_step k p d e"
| restart: "sc4336p_step k p d (sc4336p_restart k p d)"
| bus_write: "sc4336p_step k p d (snd (sc4336p_write_register k p addr dat d))"
| bus: "sc4336p_step k p d (snd (sc4336p_set_bus_info p dev d))"
| set_init: "sc4336p_step k p d (snd (sc4336p_set_init p ia d))"
| fast: "sc4336p_step k p d (snd (sc4336p_set_fast_ae p fe d))"

inductive_cases sc4336p_stepE: "sc4336p_step k p d e"

lemmas sc4336p_op_oks =
  sc4336p_slow_framerate_set_ok sc4336p_inttime_update_ok sc4336p_gains_update_ok sc4336p_attr_ok
  sc4336p_quick_start_ok sc4336p_set_wdr_mode_ok sc4336p_set_image_mode_ok sc4336p_get_regs_ok
  sc4336p_get_standby_ok sc4336p_init_ok sc4336p_exit_ok sc4336p_pixel_detect_ok sc4336p_bus_ok(2,3)

lemma sc4336p_step_ok:
  assumes "div_guards k" "sc4336p_step k p d e" "sc4336p_ok p d"
  shows "sc4336p_ok p e"
  using assms(2)
proof (cases rule: sc4336p_step.cases)
  case reset
  then show ?thesis using sc4336p_global_init_ok assms(3) by (auto elim!: sc4336p_okE)
next
  case standby
  then show ?thesis using sc4336p_bus_ok(1) assms(3) by blast
qed (simp_all add: assms sc4336p_fps_set_ok sc4336p_op_oks)

text \<open>
  C5: the driver stays in its operating range.  After the global initialisation of a registered
  pipe, whatever sequence of calls AE, the ISP and the application make on it, with whatever
  arguments and whatever the bus answers, the image mode selects a row of the mode table, the
  sensor stays in linear mode, and the standard and the current frame length stay between the
  lines of that mode and its longest frame.
\<close>

theorem sc4336p_operating_range:
  assumes "div_guards k"
    and "cmos_get_info p d = Some ci" "mode_tbl ci = sc4336p_mode_tbl" "sns_state ci = Some st"
    and "(sc4336p_step k p)\<^sup>*\<^sup>* (sc4336p_isp_global_init p d) e"
  shows "sc4336p_ok p e"
  using assms(5)
proof (induction rule: rtranclp_induct)
  case base
  show ?case using assms(2-4) by (rule sc4336p_global_init_ok)
next
  case (step x y)
  then show ?case using sc4336p_step_ok [OF assms(1)] by blast
qed

theorem sc4336p_operating_range_witness:
  "(sc4336p_step (demo_sdk None) 0)\<^sup>*\<^sup>* (sc4336p_isp_global_init 0 sc4336p_demo)
     (snd (sc4336p_fps_set (demo_sdk None) 0 10 (Some demo_ae) (sc4336p_isp_global_init 0 sc4336p_demo))) \<and>
   sc4336p_ok 0
     (snd (sc4336p_fps_set (demo_sdk None) 0 10 (Some demo_ae) (sc4336p_isp_global_init 0 sc4336p_demo)))"
proof -
  have r: "(sc4336p_step (demo_sdk None) 0)\<^sup>*\<^sup>* (sc4336p_isp_global_init 0 sc4336p_demo)
     (snd (sc4336p_fps_set (demo_sdk None) 0 10 (Some demo_ae) (sc4336p_isp_global_init 0 sc4336p_demo)))"
    by (rule r_into_rtranclp) (rule fps)
  show ?thesis
    using r sc4336p_operating_range [OF demo_div_guards sc4336p_demo_info sc4336p_demo_parts(1,2) r]
    by simp
qed

section \<open>The sensor follows the driver\<close>

definition sc4336p_layout :: "ot_wdr_mode \<Rightarrow> u32 list" where
  "sc4336p_layout w = [0x3E02, 0x3E01, 0x3E00, 0x3E09, 0x3E07, 0x3E06, 0x320F, 0x320E]"

interpretation sc4336p_sync: register_sync sc4336p_sns_reg_info_init sc4336p_sns_reg_info_update
  sc4336p_layout
proof unfold_locales
  fix w
  show "distinct (sc4336p_layout w)" by (simp add: sc4336p_layout_def)
next
  fix ci st
  show "reg_addrs (regs_info (sc4336p_sns_reg_info_init ci st) 0) = sc4336p_layout (wdr_mode st)"
    by (simp add: sc4336p_sns_reg_info_init_def sc4336p_layout_def reg_addrs_def Let_def slot_defs
        upt_rec)
next
  fix ci st i
  show "d_data (i2c_data (regs_info (sc4336p_sns_reg_info_init ci st) 0) i) =
      d_data (i2c_data (regs_info st 0) i)"
    by (simp add: sc4336p_sns_reg_info_init_def Let_def slot_defs)
next
  fix i ci st
  assume "i < unat (reg_num (regs_info (sc4336p_sns_reg_info_init ci st) 0))"
  then show "d_update (i2c_data (regs_info (sc4336p_sns_reg_info_init ci st) 0) i)"
    by (simp add: sc4336p_sns_reg_info_init_def Let_def slot_defs)
qed (simp_all add: sc4336p_sns_reg_info_init_def sc4336p_sns_reg_info_update_def
      sc4336p_sns_config_logic_update_def reg_addrs_def mark_changed_i2c upd_regs0_def)

text \<open>
  The frame loop of driver and sensor: AE calls that change the register set, mode changes, and
  the fetch by the ISP, which writes the marked registers into the sensor's register file.
\<close>

inductive sc4336p_loop :: "sdk \<Rightarrow> int \<Rightarrow> drv \<times> (u32 \<Rightarrow> u32) \<Rightarrow> drv \<times> (u32 \<Rightarrow> u32) \<Rightarrow> bool"
  for k p where
  rate: "sc4336p_loop k p (d, S) (snd (sc4336p_fps_set k p fps ae d), S)"
| slow_rate: "sc4336p_loop k p (d, S) (snd (sc4336p_slow_framerate_set p full_lines ae d), S)"
| exposure: "cmos_get_info p d = Some ci \<Longrightarrow> \<not> quick_bus ci \<Longrightarrow>
    sc4336p_loop k p (d, S) (sc4336p_inttime_update k p int_time d, S)"
| gain: "cmos_get_info p d = Some ci \<Longrightarrow> \<not> quick_bus ci \<Longrightarrow>
    sc4336p_loop k p (d, S) (sc4336p_gains_update k p again dgain d, S)"
| mode: "sc4336p_loop k p (d, S) (snd (sc4336p_isp_set_image_mode p im d), S)"
| linear: "sc4336p_loop k p (d, S) (snd (sc4336p_isp_set_wdr_mode k p m d), S)"
| quick_start: "sc4336p_loop k p (d, S) (sc4336p_ae_quick_start_status_set p en d, S)"
| fetch: "sc4336p_isp_get_sns_regs_info p (Some r) d = (ret, Some r', d') \<Longrightarrow>
    sc4336p_loop k p (d, S) (d', apply_writes (isp_writes r') S)"

lemma sc4336p_fetch:
  assumes "sc4336p_sync.synced p (d, S)" "sc4336p_isp_get_sns_regs_info p (Some r) d = (ret, Some r', d')"
  shows "ret = TD_SUCCESS \<and> in_sync r' (apply_writes (isp_writes r') S) \<and>
    reg_addrs r' = [0x3E02, 0x3E01, 0x3E00, 0x3E09, 0x3E07, 0x3E06, 0x320F, 0x320E] \<and>
    sc4336p_sync.synced p (d', apply_writes (isp_writes r') S) \<and>
    (\<exists>ci st. cmos_get_info p d' = Some ci \<and> sns_state ci = Some st \<and> regs_info st 0 = r')"
proof -
  obtain ci st where c: "cmos_get_info p d = Some ci" "sns_state ci = Some st"
    using assms(1) by (auto simp: sc4336p_sync.synced_def)
  let ?st = "sync_regs sc4336p_sns_reg_info_init sc4336p_sns_reg_info_update ci (config r) st"
  have "ret = TD_SUCCESS" "r' = regs_info ?st 0" "d' = put_state p ?st d"
    using assms(2) c by (auto simp: sc4336p_isp_get_sns_regs_info_def Let_def)
  then show ?thesis
    using sc4336p_sync.fetch_synced [OF assms(1) c refl] c by (auto simp: sc4336p_layout_def)
qed

lemma sc4336p_rate_synced:
  "sc4336p_sync.synced p (d, S) \<Longrightarrow> sc4336p_sync.synced p (snd (sc4336p_fps_set k p fps ae d), S)"
  by (auto simp: sc4336p_fps_set_def Let_def sc4336p_config_vmax_def sc4336p_sync.set_data_laid_out
      split: option.splits if_splits simp: sc4336p_sync.synced_def)

lemma sc4336p_slow_synced:
  "sc4336p_sync.synced p (d, S) \<Longrightarrow> sc4336p_sync.synced p (snd (sc4336p_slow_framerate_set p fls ae d), S)"
  by (auto simp: sc4336p_slow_framerate_set_def Let_def sc4336p_sync.set_data_laid_out
      split: option.splits simp: sc4336p_sync.synced_def)

lemma sc4336p_exposure_synced:
  "cmos_get_info p d = Some ci \<Longrightarrow> \<not> quick_bus ci \<Longrightarrow> sc4336p_sync.synced p (d, S) \<Longrightarrow>
   sc4336p_sync.synced p (sc4336p_inttime_update k p t d, S)"
  by (auto simp: sc4336p_inttime_update_def sc4336p_inttime_update_linear_def
      sc4336p_sync.set_data_laid_out split: option.splits simp: sc4336p_sync.synced_def)

lemma sc4336p_gain_synced:
  "cmos_get_info p d = Some ci \<Longrightarrow> \<not> quick_bus ci \<Longrightarrow> sc4336p_sync.synced p (d, S) \<Longrightarrow>
   sc4336p_sync.synced p (sc4336p_gains_update k p a g d, S)"
  by (auto simp: sc4336p_gains_update_def Let_def sc4336p_sync.set_data_laid_out
      split: option.splits simp: sc4336p_sync.synced_def)

lemma sc4336p_mode_synced:
  "sc4336p_sync.synced p (d, S) \<Longrightarrow> sc4336p_sync.synced p (snd (sc4336p_isp_set_image_mode p im d), S)"
  by (auto simp: sc4336p_isp_set_image_mode_def Let_def sc4336p_isp_config_image_mode_param_def
      sc4336p_sync.laid_out_off split: option.splits intro!: sc4336p_sync.synced_put_state)

lemma sc4336p_linear_synced:
  "sc4336p_sync.synced p (d, S) \<Longrightarrow> sc4336p_sync.synced p (snd (sc4336p_isp_set_wdr_mode k p m d), S)"
  by (auto simp: sc4336p_isp_set_wdr_mode_def Let_def sc4336p_sync.laid_out_off
      split: option.splits ot_wdr_mode.splits intro!: sc4336p_sync.synced_put_state)

lemma sc4336p_quick_synced:
  "sc4336p_sync.synced p (d, S) \<Longrightarrow> sc4336p_sync.synced p (sc4336p_ae_quick_start_status_set p en d, S)"
  by (auto simp: sc4336p_ae_quick_start_status_set_def split: option.splits simp: sc4336p_sync.synced_def)

lemma sc4336p_loop_synced:
  assumes "sc4336p_loop k p x y" "sc4336p_sync.synced p x"
  shows "sc4336p_sync.synced p y"
  using assms
proof (cases rule: sc4336p_loop.cases)
  case (fetch r d ret r' d' S)
  then show ?thesis using sc4336p_fetch [of p d S r ret r' d'] assms(2) by simp
qed (use assms(2) in \<open>simp_all add: sc4336p_rate_synced sc4336p_slow_synced sc4336p_exposure_synced
      sc4336p_gain_synced sc4336p_mode_synced sc4336p_linear_synced sc4336p_quick_synced\<close>)


lemma sc4336p_fetch_some:
  "cmos_get_info p d = Some ci \<Longrightarrow> sns_state ci = Some st \<Longrightarrow>
   \<exists>r' d'. sc4336p_isp_get_sns_regs_info p (Some r) d = (TD_SUCCESS, Some r', d')"
  by (simp add: sc4336p_isp_get_sns_regs_info_def Let_def)


section \<open>Start-up\<close>

text \<open>
  The start-up sequence.  On an open bus the driver sends exactly the reset, the register table
  of the image mode, the pending register set and, last, the command that starts streaming.  When
  it reports an error, what it has sent is a proper prefix of that sequence or the sequence
  itself, and the last write sent was refused; so streaming is never started after a failed
  table write.
\<close>

theorem sc4336p_startup_sequence:
  assumes "0 \<le> fd (i2c ci)" "sc4336p_reg_init k ci st cfg d = (r, e)"
  shows "if r = TD_SUCCESS
    then sent (calls e) = sent (calls d) @ map (buf_of (i2c ci)) (start_writes (cfg_writes cfg) (pending_writes st))
    else last_refused (calls e) \<and> (\<exists>n \<le> length (start_writes (cfg_writes cfg) (pending_writes st)).
      sent (calls e) = sent (calls d) @ map (buf_of (i2c ci)) (take n (start_writes (cfg_writes cfg) (pending_writes st))) \<and>
      (n \<le> length cfg + 1 \<or> n = length (start_writes (cfg_writes cfg) (pending_writes st))))"
  using start_sequence_sent [OF assms(1), of k "cfg_writes cfg" "pending_writes st" d r e] assms(2)
  by (auto simp: sc4336p_reg_init_eq)

definition sc4336p_open_cis :: cis_info where
  "sc4336p_open_cis = sc4336p_demo_cis\<lparr>i2c := \<lparr>fd = 3, i2c_addr = 0x60, addr_byte_num = 2, data_byte_num = 1\<rparr>\<rparr>"

theorem sc4336p_startup_sequence_witness:
  "\<exists>e. sc4336p_reg_init (demo_sdk None) sc4336p_open_cis sc4336p_demo_state sc4336p_standby_cfg
      (sc4336p_drv0 1) = (TD_SUCCESS, e) \<and>
    sent (calls e) = [[0x01, 0x03, 0x01], [0x01, 0x00, 0x00], [0x01, 0x00, 0x01]]"
proof -
  have fd: "0 \<le> fd (i2c sc4336p_open_cis)" by (simp add: sc4336p_open_cis_def)
  obtain r e where e: "sc4336p_reg_init (demo_sdk None) sc4336p_open_cis sc4336p_demo_state
      sc4336p_standby_cfg (sc4336p_drv0 1) = (r, e)" by fastforce
  then have r: "r = TD_SUCCESS"
    by (simp add: sc4336p_reg_init_def sc4336p_standby_cfg_def drv_write_def cis_write_reg_def
        sc4336p_open_cis_def demo_sdk_def sc4336p_default_reg_init_def sc4336p_demo_state_def
        pending_writes_def cfg_writes_def
        zero_sns_state_def zero_regs_info_def)
  have "map (buf_of (i2c sc4336p_open_cis)) (start_writes (cfg_writes sc4336p_standby_cfg) (pending_writes sc4336p_demo_state)) =
      [[0x01, 0x03, 0x01], [0x01, 0x00, 0x00], [0x01, 0x00, 0x01]]"
    by (simp add: start_writes_def cfg_writes_def pending_writes_def sc4336p_standby_cfg_def buf_of_def cis_write_buf_def
        high_byte_def low_byte_def sc4336p_open_cis_def sc4336p_demo_state_def zero_sns_state_def
        zero_regs_info_def drop_bit_eq_div)
  then show ?thesis
    using sc4336p_startup_sequence [OF fd e] e r by (simp add: sc4336p_drv0_def)
qed

section \<open>Exposure\<close>

text \<open>
  An exposure time reaches the sensor.  In linear mode the driver cuts the time into a high
  nibble, a middle byte and a low nibble.  During quick start with an open bus these are written
  to the sensor at once, in the order low, middle, high; otherwise they are put into the register
  set for the next frame.  In both cases the three values reassemble to the exposure time modulo
  \<open>2^16\<close>, and no other register of the set changes.
\<close>

theorem sc4336p_exposure_encoded:
  assumes "cmos_get_info p d = Some ci" "sns_state ci = Some st" "wdr_mode st = OT_WDR_MODE_NONE"
  shows "expo_value (higher_4bits t) (higher_8bits t) (lower_4bits t) = unat t mod 65536 \<and>
    (if quick_bus ci
     then g_info (sc4336p_inttime_update k p t d) = g_info d \<and>
       sent (calls (sc4336p_inttime_update k p t d)) = sent (calls d) @
         map (buf_of (i2c ci)) [(0x3E02, lower_4bits t), (0x3E01, higher_8bits t), (0x3E00, higher_4bits t)]
     else calls (sc4336p_inttime_update k p t d) = calls d \<and>
       (\<exists>ci' st'. cmos_get_info p (sc4336p_inttime_update k p t d) = Some ci' \<and>
          sns_state ci' = Some st' \<and>
          expo_value (d_data (i2c_data (regs_info st' 0) 2)) (d_data (i2c_data (regs_info st' 0) 1))
            (d_data (i2c_data (regs_info st' 0) 0)) = unat t mod 65536 \<and>
          (\<forall>j. 3 \<le> j \<longrightarrow> i2c_data (regs_info st' 0) j = i2c_data (regs_info st 0) j)))"
  using assms
  by (auto simp: sc4336p_inttime_update_def sc4336p_inttime_update_linear_def expo_fields
      drv_writes_sent quick_bus_def set_data_def upd_regs0_def upd_i2c_data_def
      simp del: drv_writes.simps)

theorem sc4336p_exposure_encoded_witness:
  "\<exists>ci' st'. cmos_get_info 0 (sc4336p_inttime_update (demo_sdk None) 0 1490 sc4336p_demo) = Some ci' \<and>
     sns_state ci' = Some st' \<and>
     expo_value (d_data (i2c_data (regs_info st' 0) 2)) (d_data (i2c_data (regs_info st' 0) 1))
       (d_data (i2c_data (regs_info st' 0) 0)) = 1490"
proof -
  have "\<not> quick_bus sc4336p_demo_cis" "wdr_mode sc4336p_demo_state = OT_WDR_MODE_NONE"
    by (simp_all add: quick_bus_def sc4336p_demo_cis_def sc4336p_info0_def sc4336p_demo_state_def
        zero_sns_state_def)
  then show ?thesis
    using sc4336p_exposure_encoded [OF sc4336p_demo_info sc4336p_demo_parts(2), of 1490 "demo_sdk None"]
    by auto
qed

section \<open>Image modes\<close>

definition sc4336p_row_for :: "ot_isp_cmos_sns_image_mode \<Rightarrow> ot_wdr_mode \<Rightarrow> (u8 \<times> u32) option" where
  "sc4336p_row_for x w =
     (if 30 < im_fps x \<or> w \<noteq> OT_WDR_MODE_NONE then None
      else if im_width x \<le> 1920 \<and> im_height x \<le> 1080 then Some (0, 1125)
      else if im_width x \<le> 2560 \<and> im_height x \<le> 1440 then Some (1, 1500)
      else None)"

text \<open>
  The choice of the image mode.  The first row of the mode table that fits the requested rate,
  size and WDR mode is taken: 1920 by 1080 before 2560 by 1440.  If none fits, the call fails and
  changes nothing.  If the sensor runs in the chosen mode already, the call says that no switch
  is needed and changes nothing but the standard frame length, which falls back to that of the
  mode; otherwise the mode, the standard and both current frame lengths become those of the row,
  and the register set is marked as not sent.
\<close>

theorem sc4336p_image_mode_choice:
  assumes "cmos_get_info p d = Some ci" "mode_tbl ci = sc4336p_mode_tbl" "sns_state ci = Some st"
  shows "sc4336p_isp_set_image_mode p (Some x) d =
    (case sc4336p_row_for x (wdr_mode st) of
       None \<Rightarrow> (TD_FAILURE, d)
     | Some (m, n) \<Rightarrow>
         if init st \<and> m = img_mode st
         then (OT_ISP_DO_NOT_NEED_SWITCH_IMAGEMODE, put_state p (st\<lparr>fl_std := n\<rparr>) d)
         else (TD_SUCCESS, put_state p (st\<lparr>fl_std := n, sync_init := False, img_mode := m,
                 fl := (fl st)(0 := n, 1 := n)\<rparr>) d))"
proof -
  have "List.find (\<lambda>i. mode_fits x (wdr_mode st) (mode_tbl ci ! i)) [0..<2] =
      map_option (\<lambda>(m, n). unat m) (sc4336p_row_for x (wdr_mode st))"
    using assms(2) by (auto simp: upt_rec mode_fits_def sc4336p_mode_tbl_def sc4336p_row_for_def)
  then show ?thesis
    using assms(1,3)
    by (auto simp: sc4336p_isp_set_image_mode_def Let_def sc4336p_isp_config_image_mode_param_def
        sc4336p_row_for_def)
qed

theorem sc4336p_image_mode_choice_witness:
  "sc4336p_isp_set_image_mode 0 (Some \<lparr>im_width = 1280, im_height = 720, im_fps = 30\<rparr>) sc4336p_demo =
     (TD_SUCCESS, put_state 0 (sc4336p_demo_state\<lparr>fl_std := 1125, sync_init := False, img_mode := 0,
        fl := (fl sc4336p_demo_state)(0 := 1125, 1 := 1125)\<rparr>) sc4336p_demo)"
proof -
  have "wdr_mode sc4336p_demo_state = OT_WDR_MODE_NONE" "\<not> init sc4336p_demo_state"
    by (simp_all add: sc4336p_demo_state_def zero_sns_state_def)
  then show ?thesis
    using sc4336p_image_mode_choice [OF sc4336p_demo_info sc4336p_demo_parts(1,2),
        of "\<lparr>im_width = 1280, im_height = 720, im_fps = 30\<rparr>"] by (simp add: sc4336p_row_for_def)
qed

section \<open>Gain\<close>

text \<open>
  The digital gain table.  For any request the driver reports a gain of its table together with
  the register code stored beside it: the greatest entry not above the request, and the smallest
  entry for requests below the table.  The reported gain grows with the request, lies between 1
  and 15.75 (in 1/1024), and asking for a reported gain returns it unchanged.
\<close>

theorem sc4336p_dgain_correct:
  "\<exists>l c. sc4336p_dgain_calc_table p (Some v) (Some db) = (Some l, Some c) \<and>
     (l, c) \<in> set (zip sc4336p_dgain_index sc4336p_dgain_table) \<and>
     1024 \<le> l \<and> l \<le> 16128 \<and> (1024 \<le> v \<longrightarrow> l \<le> v) \<and>
     (\<forall>e \<in> set sc4336p_dgain_index. e \<le> v \<longrightarrow> e \<le> l) \<and>
     sc4336p_dgain_calc_table p (Some l) (Some c) = (Some l, Some c)"
proof -
  obtain l c where g: "gain_calc sc4336p_dgain_index sc4336p_dgain_table (v, db) = (l, c)" by fastforce
  have "sc4336p_dgain_index ! 0 = 1024" "sc4336p_dgain_index ! (length sc4336p_dgain_index - 1) = 16128"
    by (simp_all add: sc4336p_dgain_index_def)
  then show ?thesis
    using g sc4336p_dgain.calc_pair [of v db] sc4336p_dgain.calc_bounds [of v db]
      sc4336p_dgain.calc_not_above [of v db] sc4336p_dgain.calc_greatest [of _ v db]
      sc4336p_dgain.calc_idem [of v db]
    by (simp add: sc4336p_dgain_calc_table_def)
qed

theorem sc4336p_dgain_correct_witness:
  "sc4336p_dgain_calc_table 0 (Some 1100) (Some 0) = (Some 1088, Some 0x88) \<and>
   sc4336p_dgain_calc_table 0 (Some 1088) (Some 0x88) = (Some 1088, Some 0x88)"
proof -
  have "sc4336p_dgain_calc_table 0 (Some 1100) (Some 0) = (Some 1088, Some 0x88)"
    by (simp add: sc4336p_dgain_calc_table_def gain_calc_def first_above_def upt_rec
        sc4336p_dgain_index_def sc4336p_dgain_table_def)
  then show ?thesis using sc4336p_dgain_correct [of 0 1100 0] by auto
qed

section \<open>Stand-by\<close>

text \<open>
  The pipe number given to \<^verbatim>\<open>cmos_standby\<close> is used before it is checked.  For a pipe outside the
  array the function reads outside \<^verbatim>\<open>g_standby_cfg_init\<close>, where \<^verbatim>\<open>cmos_restart\<close> returns without any
  effect; for a pipe inside the array it has an effect only when no stand-by configuration was
  fetched, and then it sends the one write that stops streaming.
\<close>

theorem sc4336p_standby_pipe:
  assumes "length (g_standby_cfg_init d) = length (g_info d)"
  shows "(sc4336p_standby k p d = None \<longleftrightarrow> cmos_get_info p d = None) \<and>
    (cmos_get_info p d = None \<longrightarrow> sc4336p_restart k p d = d) \<and>
    (\<forall>ci. cmos_get_info p d = Some ci \<longrightarrow> sc4336p_standby k p d =
      Some (if g_standby_cfg_init d ! nat p then d else snd (drv_write k (i2c ci) 0x0100 0x00 d)))"
  using assms by (auto simp: sc4336p_standby_def sc4336p_restart_def cmos_get_info_def)

theorem sc4336p_standby_pipe_witness:
  "sc4336p_standby (demo_sdk None) (-1) (sc4336p_drv0 4) = None \<and>
   sc4336p_restart (demo_sdk None) (-1) (sc4336p_drv0 4) = sc4336p_drv0 4"
  using sc4336p_standby_pipe [of "sc4336p_drv0 4" "demo_sdk None" "-1"]
  by (simp add: sc4336p_drv0_def cmos_get_info_def)

end
