(* ===== verification/Sc431hai_Tables.thy ===== *)
theory Sc431hai_Tables
  imports Gain_Table
begin

text \<open>
  The constant tables of the SC431HAI driver: the gain tables of \<^verbatim>\<open>smart_sc431hai/sc431hai_cmos.c\<close>,
  its linear and its WDR video mode, and the register sequences of \<^verbatim>\<open>sc431hai_cfg.h\<close>.
\<close>

section \<open>Gain tables\<close>

definition sc431hai_again_index :: "u32 list" where
  "sc431hai_again_index = [
    1024, 1040, 1056, 1072, 1088, 1104, 1120, 1136, 1152, 1168, 1184, 1200, 1216, 1232, 1248,
    1264, 1280, 1296, 1312, 1328, 1344, 1360, 1376, 1392, 1408, 1424, 1440, 1456, 1472, 1488,
    1504, 1520, 1536, 1552, 1568, 1584, 1600, 1616, 1632, 1648, 1664, 1680, 1696, 1712, 1728,
    1744, 1760, 1776, 1792, 1808, 1824, 1840, 1856, 1872, 1888, 1904, 1920, 1936, 1952, 1968,
    1984, 2000, 2016, 2032, 2048, 2080, 2112, 2144, 2176, 2208, 2240, 2272, 2304, 2336, 2368,
    2400, 2432, 2464, 2496, 2528, 2560, 2592, 2624, 2656, 2688, 2720, 2752, 2784, 2816, 2848,
    2880, 2912, 2944, 2976, 3008, 3040, 3072, 3104, 3136, 3168, 3200, 3232, 3264, 3296, 3328,
    3360, 3392, 3424, 3456, 3488, 3520, 3552, 3584, 3616, 3648, 3680, 3712, 3744, 3776, 3808,
    3840, 3872, 3904, 3936, 3968, 4000, 4032, 4064, 4096, 4160, 4224, 4288, 4352, 4416, 4480,
    4544, 4608, 4672, 4736, 4800, 4864, 4928, 4992, 5056, 5120, 5184, 5248, 5312, 5376, 5440,
    5504, 5568, 5632, 5696, 5760, 5824, 5888, 5952, 6016, 6080, 6144, 6208, 6272, 6336, 6400,
    6464, 6528, 6592, 6656, 6720, 6784, 6848, 6912, 6976, 7040, 7104, 7168, 7232, 7296, 7360,
    7424, 7488, 7552, 7616, 7680, 7744, 7808, 7872, 7936, 8000, 8064, 8128, 8192, 8320, 8448,
    8576, 8704, 8832, 8960, 9088, 9216, 9344, 9472, 9600, 9728, 9856, 9984, 10112, 10240, 10368,
    10496, 10624, 10752, 10880, 11008, 11136, 11264, 11392, 11520, 11648, 11776, 11904, 12032,
    12160, 12288, 12416, 12544, 12672, 12800, 12928, 13056, 13184, 13312, 13440, 13568, 13696,
    13824, 13952, 14080, 14208, 14336, 14464, 14592, 14720, 14848, 14976, 15104, 15232, 15360,
    15488, 15616, 15744, 15872, 16000, 16128, 16256, 16384, 16640, 16896, 17152, 17408, 17664,
    17920, 18176, 18432, 18688, 18944, 19200, 19456, 19712, 19968, 20224, 20480, 20736, 20992,
    21248, 21504, 21760, 22016, 22272, 22528, 22784, 23040, 23296, 23552, 23808, 24064, 24320,
    24576, 24832, 25088, 25344, 25600, 25856, 26112, 26368, 26624, 26880, 27136, 27392, 27648,
    27904, 28160, 28416, 28672, 28928, 29184, 29440, 29696, 29952, 30208, 30464, 30720, 30976,
    31232, 31488, 31744, 32000, 32256, 32512]"

definition sc431hai_dgain_index :: "u32 list" where
  "sc431hai_dgain_index = [
    1024, 1040, 1056, 1072, 1088, 1104, 1120, 1136, 1152, 1168, 1184, 1200, 1216, 1232, 1248,
    1264, 1280, 1296, 1312, 1328, 1344, 1360, 1376, 1392, 1408, 1424, 1440, 1456, 1472, 1488,
    1504, 1520, 1536, 1552, 1568, 1584, 1600, 1616, 1632, 1648, 1664, 1680, 1696, 1712, 1728,
    1744, 1760, 1776, 1792, 1808, 1824, 1840, 1856, 1872, 1888, 1904, 1920, 1936, 1952, 1968,
    1984, 2000, 2016, 2032, 2048, 2080, 2112, 2144, 2176, 2208, 2240, 2272, 2304, 2336, 2368,
    2400, 2432, 2464, 2496, 2528, 2560, 2592, 2624, 2656, 2688, 2720, 2752, 2784, 2816, 2848,
    2880, 2912, 2944, 2976, 3008, 3040, 3072, 3104, 3136, 3168, 3200, 3232, 3264, 3296, 3328,
    3360, 3392, 3424, 3456, 3488, 3520, 3552, 3584, 3616, 3648, 3680, 3712, 3744, 3776, 3808,
    3840, 3872, 3904, 3936, 3968, 4000, 4032, 4064, 4096, 4160, 4224, 4288, 4352, 4416, 4480,
    4544, 4608, 4672, 4736, 4800, 4864, 4928, 4992, 5056, 5120, 5184, 5248, 5312, 5376, 5440,
    5504, 5568, 5632, 5696, 5760, 5824, 5888, 5952, 6016, 6080, 6144, 6208, 6272, 6336, 6400,
    6464, 6528, 6592, 6656, 6720, 6784, 6848, 6912, 6976, 7040, 7104, 7168, 7232, 7296, 7360,
    7424, 7488, 7552, 7616, 7680, 7744, 7808, 7872, 7936, 8000, 8064, 8128, 8192, 8320, 8448,
    8576, 8704, 8832, 8960, 9088, 9216, 9344, 9472, 9600, 9728, 9856, 9984, 10112, 10240, 10368,
    10496, 10624, 10752, 10880, 11008, 11136, 11264, 11392, 11520, 11648, 11776, 11904, 12032,
    12160, 12288, 12416, 12544, 12672, 12800, 12928, 13056, 13184, 13312, 13440, 13568, 13696,
    13824, 13952, 14080, 14208, 14336, 14464, 14592, 14720, 14848, 14976, 15104, 15232, 15360,
    15488, 15616, 15744, 15872, 16000, 16128, 16256]"

definition sc431hai_again_table :: "u32 list" where
  "sc431hai_again_table = [
    0x0040, 0x0041, 0x0042, 0x0043, 0x0044, 0x0045, 0x0046, 0x0047, 0x0048, 0x0049, 0x004A,
    0x004B, 0x004C, 0x004D, 0x004E, 0x004F, 0x0050, 0x0051, 0x0052, 0x0053, 0x0054, 0x0055,
    0x0056, 0x0057, 0x0058, 0x0059, 0x005A, 0x005B, 0x005C, 0x005D, 0x005E, 0x005F, 0x0060,
    0x0061, 0x0062, 0x0063, 0x0064, 0x0065, 0x0066, 0x0067, 0x0068, 0x0069, 0x006A, 0x006B,
    0x006C, 0x006D, 0x006E, 0x006F, 0x0070, 0x0071, 0x0072, 0x0073, 0x0074, 0x0075, 0x0076,
    0x0077, 0x0078, 0x0079, 0x007A, 0x007B, 0x007C, 0x007D, 0x007E, 0x007F, 0x0140, 0x0141,
    0x0142, 0x0143, 0x0144, 0x0145, 0x0146, 0x0147, 0x0148, 0x0149, 0x014A, 0x014B, 0x014C,
    0x014D, 0x014E, 0x014F, 0x0150, 0x0151, 0x0152, 0x0153, 0x0154, 0x0155, 0x0156, 0x0157,
    0x0158, 0x0159, 0x015A, 0x015B, 0x015C, 0x015D, 0x015E, 0x015F, 0x0160, 0x0161, 0x0162,
    0x0163, 0x0164, 0x0165, 0x0166, 0x0167, 0x0168, 0x0169, 0x016A, 0x016B, 0x016C, 0x016D,
    0x016E, 0x016F, 0x0170, 0x0171, 0x0172, 0x0173, 0x0174, 0x0175, 0x0176, 0x0177, 0x0178,
    0x0179, 0x017A, 0x017B, 0x017C, 0x017D, 0x017E, 0x017F, 0x0340, 0x0341, 0x0342, 0x0343,
    0x0344, 0x0345, 0x0346, 0x0347, 0x0348, 0x0349, 0x034A, 0x034B, 0x034C, 0x034D, 0x034E,
    0x034F, 0x0350, 0x0351, 0x0352, 0x0353, 0x0354, 0x0355, 0x0356, 0x0357, 0x0358, 0x0359,
    0x035A, 0x035B, 0x035C, 0x035D, 0x035E, 0x035F, 0x0360, 0x0361, 0x0362, 0x0363, 0x0364,
    0x0365, 0x0366, 0x0367, 0x0368, 0x0369, 0x036A, 0x036B, 0x036C, 0x036D, 0x036E, 0x036F,
    0x0370, 0x0371, 0x0372, 0x0373, 0x0374, 0x0375, 0x0376, 0x0377, 0x0378, 0x0379, 0x037A,
    0x037B, 0x037C, 0x037D, 0x037E, 0x037F, 0x0740, 0x0741, 0x0742, 0x0743, 0x0744, 0x0745,
    0x0746, 0x0747, 0x0748, 0x0749, 0x074A, 0x074B, 0x074C, 0x074D, 0x074E, 0x074F, 0x0750,
    0x0751, 0x0752, 0x0753, 0x0754, 0x0755, 0x0756, 0x0757, 0x0758, 0x0759, 0x075A, 0x075B,
    0x075C, 0x075D, 0x075E, 0x075F, 0x0760, 0x0761, 0x0762, 0x0763, 0x0764, 0x0765, 0x0766,
    0x0767, 0x0768, 0x0769, 0x076A, 0x076B, 0x076C, 0x076D, 0x076E, 0x076F, 0x0770, 0x0771,
    0x0772, 0x0773, 0x0774, 0x0775, 0x0776, 0x0777, 0x0778, 0x0779, 0x077A, 0x077B, 0x077C,
    0x077D, 0x077E, 0x077F, 0x0F40, 0x0F41, 0x0F42, 0x0F43, 0x0F44, 0x0F45, 0x0F46, 0x0F47,
    0x0F48, 0x0F49, 0x0F4A, 0x0F4B, 0x0F4C, 0x0F4D, 0x0F4E, 0x0F4F, 0x0F50, 0x0F51, 0x0F52,
    0x0F53, 0x0F54, 0x0F55, 0x0F56, 0x0F57, 0x0F58, 0x0F59, 0x0F5A, 0x0F5B, 0x0F5C, 0x0F5D,
    0x0F5E, 0x0F5F, 0x0F60, 0x0F61, 0x0F62, 0x0F63, 0x0F64, 0x0F65, 0x0F66, 0x0F67, 0x0F68,
    0x0F69, 0x0F6A, 0x0F6B, 0x0F6C, 0x0F6D, 0x0F6E, 0x0F6F, 0x0F70, 0x0F71, 0x0F72, 0x0F73,
    0x0F74, 0x0F75, 0x0F76, 0x0F77, 0x0F78, 0x0F79, 0x0F7A, 0x0F7B, 0x0F7C, 0x0F7D, 0x0F7E, 0x0F7F]"

definition sc431hai_dgain_table :: "u32 list" where
  "sc431hai_dgain_table = [
    0x0080, 0x0082, 0x0084, 0x0086, 0x0088, 0x008A, 0x008C, 0x008E, 0x0090, 0x0092, 0x0094,
    0x0096, 0x0098, 0x009A, 0x009C, 0x009E, 0x00A0, 0x00A2, 0x00A4, 0x00A6, 0x00A8, 0x00AA,
    0x00AC, 0x00AE, 0x00B0, 0x00B2, 0x00B4, 0x00B6, 0x00B8, 0x00BA, 0x00BC, 0x00BE, 0x00C0,
    0x00C2, 0x00C4, 0x00C6, 0x00C8, 0x00CA, 0x00CC, 0x00CE, 0x00D0, 0x00D2, 0x00D4, 0x00D6,
    0x00D8, 0x00DA, 0x00DC, 0x00DE, 0x00E0, 0x00E2, 0x00E4, 0x00E6, 0x00E8, 0x00EA, 0x00EC,
    0x00EE, 0x00F0, 0x00F2, 0x00F4, 0x00F6, 0x00F8, 0x00FA, 0x00FC, 0x00FE, 0x0180, 0x0182,
    0x0184, 0x0186, 0x0188, 0x018A, 0x018C, 0x018E, 0x0190, 0x0192, 0x0194, 0x0196, 0x0198,
    0x019A, 0x019C, 0x019E, 0x01A0, 0x01A2, 0x01A4, 0x01A6, 0x01A8, 0x01AA, 0x01AC, 0x01AE,
    0x01B0, 0x01B2, 0x01B4, 0x01B6, 0x01B8, 0x01BA, 0x01BC, 0x01BE, 0x01C0, 0x01C2, 0x01C4,
    0x01C6, 0x01C8, 0x01CA, 0x01CC, 0x01CE, 0x01D0, 0x01D2, 0x01D4, 0x01D6, 0x01D8, 0x01DA,
    0x01DC, 0x01DE, 0x01E0, 0x01E2, 0x01E4, 0x01E6, 0x01E8, 0x01EA, 0x01EC, 0x01EE, 0x01F0,
    0x01F2, 0x01F4, 0x01F6, 0x01F8, 0x01FA, 0x01FC, 0x01FE, 0x0380, 0x0382, 0x0384, 0x0386,
    0x0388, 0x038A, 0x038C, 0x038E, 0x0390, 0x0392, 0x0394, 0x0396, 0x0398, 0x039A, 0x039C,
    0x039E, 0x03A0, 0x03A2, 0x03A4, 0x03A6, 0x03A8, 0x03AA, 0x03AC, 0x03AE, 0x03B0, 0x03B2,
    0x03B4, 0x03B6, 0x03B8, 0x03BA, 0x03BC, 0x03BE, 0x03C0, 0x03C2, 0x03C4, 0x03C6, 0x03C8,
    0x03CA, 0x03CC, 0x03CE, 0x03D0, 0x03D2, 0x03D4, 0x03D6, 0x03D8, 0x03DA, 0x03DC, 0x03DE,
    0x03E0, 0x03E2, 0x03E4, 0x03E6, 0x03E8, 0x03EA, 0x03EC, 0x03EE, 0x03F0, 0x03F2, 0x03F4,
    0x03F6, 0x03F8, 0x03FA, 0x03FC, 0x03FE, 0x0780, 0x0782, 0x0784, 0x0786, 0x0788, 0x078A,
    0x078C, 0x078E, 0x0790, 0x0792, 0x0794, 0x0796, 0x0798, 0x079A, 0x079C, 0x079E, 0x07A0,
    0x07A2, 0x07A4, 0x07A6, 0x07A8, 0x07AA, 0x07AC, 0x07AE, 0x07B0, 0x07B2, 0x07B4, 0x07B6,
    0x07B8, 0x07BA, 0x07BC, 0x07BE, 0x07C0, 0x07C2, 0x07C4, 0x07C6, 0x07C8, 0x07CA, 0x07CC,
    0x07CE, 0x07D0, 0x07D2, 0x07D4, 0x07D6, 0x07D8, 0x07DA, 0x07DC, 0x07DE, 0x07E0, 0x07E2,
    0x07E4, 0x07E6, 0x07E8, 0x07EA, 0x07EC, 0x07EE, 0x07F0, 0x07F2, 0x07F4, 0x07F6, 0x07F8,
    0x07FA, 0x07FC, 0x07FE]"

interpretation sc431hai_again: gain_table sc431hai_again_index sc431hai_again_table
  by unfold_locales (simp_all add: sc431hai_again_index_def sc431hai_again_table_def)

interpretation sc431hai_dgain: gain_table sc431hai_dgain_index sc431hai_dgain_table
  by unfold_locales (simp_all add: sc431hai_dgain_index_def sc431hai_dgain_table_def)

section \<open>Video modes\<close>

text \<open>Mode 0 is linear, mode 1 is 2-to-1 line WDR over a virtual channel.\<close>

definition sc431hai_mode_tbl :: "cis_video_mode_tbl list" where
  "sc431hai_mode_tbl = [
     \<lparr>ver_lines = 1500, max_ver_lines = 0x4650, max_fps = 30, min_fps = 5 / 2, width = 2560,
      height = 1440, sns_mode = 0, tbl_wdr_mode = OT_WDR_MODE_NONE,
      mode_name = ''SC431HAI_4M_30FPS_10BIT_LINEAR_MODE''\<rparr>,
     \<lparr>ver_lines = 3000, max_ver_lines = 0x2328, max_fps = 30, min_fps = 10, width = 2560,
      height = 1440, sns_mode = 0, tbl_wdr_mode = OT_WDR_MODE_2To1_LINE,
      mode_name = ''SC431HAI_4M_30FPS_10BIT_2TO1_VC_MODE''\<rparr>]"

section \<open>Register sequences\<close>

definition sc431hai_linear_4m30_10bit :: "cis_reg_cfg list" where
  "sc431hai_linear_4m30_10bit = [
    (0x0100, 0x00), (0x36e9, 0x80), (0x37f9, 0x80), (0x301f, 0x01), (0x3058, 0x21),
    (0x3059, 0x53), (0x305a, 0x40), (0x3250, 0x00), (0x3301, 0x0c), (0x3304, 0x50),
    (0x3305, 0x00), (0x3306, 0x50), (0x3307, 0x04), (0x3308, 0x0a), (0x3309, 0x60),
    (0x330b, 0xc8), (0x330d, 0x08), (0x330e, 0x38), (0x331e, 0x41), (0x331f, 0x51),
    (0x3333, 0x10), (0x3334, 0x40), (0x3364, 0x5e), (0x338e, 0xe2), (0x338f, 0x80),
    (0x3390, 0x08), (0x3391, 0x18), (0x3392, 0xb8), (0x3393, 0x12), (0x3394, 0x14),
    (0x3395, 0x10), (0x3396, 0x88), (0x3397, 0x98), (0x3398, 0xb8), (0x3399, 0x10),
    (0x339a, 0x16), (0x339b, 0x1c), (0x339c, 0x40), (0x33ac, 0x0a), (0x33ad, 0x10),
    (0x33ae, 0x4f), (0x33af, 0x5e), (0x33b2, 0x50), (0x33b3, 0x10), (0x33f8, 0x00),
    (0x33f9, 0x50), (0x33fa, 0x00), (0x33fb, 0x50), (0x33fc, 0x48), (0x33fd, 0x78),
    (0x349f, 0x03), (0x34a6, 0x40), (0x34a7, 0x58), (0x34a8, 0x10), (0x34a9, 0x10),
    (0x34f8, 0x78), (0x34f9, 0x10), (0x3633, 0x44), (0x363b, 0x8f), (0x363c, 0x02),
    (0x3641, 0x08), (0x3654, 0x20), (0x3674, 0xc2), (0x3675, 0xb4), (0x3676, 0x88),
    (0x367c, 0x88), (0x367d, 0xb8), (0x3690, 0x34), (0x3691, 0x44), (0x3692, 0x54),
    (0x3693, 0x88), (0x3694, 0x98), (0x3696, 0x80), (0x3697, 0x83), (0x3698, 0x81),
    (0x3699, 0x81), (0x369a, 0x84), (0x369b, 0x82), (0x36a2, 0x80), (0x36a3, 0x88),
    (0x36a4, 0xf8), (0x36a5, 0xb8), (0x36a6, 0x98), (0x36d0, 0x15), (0x36ed, 0x18),
    (0x370f, 0x01), (0x3722, 0x03), (0x3724, 0x92), (0x3727, 0x14), (0x37b0, 0x17),
    (0x37b1, 0x9b), (0x37b2, 0x9b), (0x37b3, 0x88), (0x37b4, 0xb8), (0x37fa, 0x23),
    (0x37fb, 0x54), (0x37fc, 0x21), (0x391f, 0x41), (0x3926, 0xe0), (0x3933, 0x80),
    (0x3934, 0xF8), (0x3935, 0x00), (0x3936, 0x45), (0x3937, 0x66), (0x3938, 0x66),
    (0x3939, 0x00), (0x393a, 0x03), (0x393b, 0x00), (0x393c, 0x00), (0x393d, 0x02),
    (0x393e, 0x80), (0x3e00, 0x00), (0x3e01, 0xba), (0x3e02, 0xd0), (0x3e16, 0x00),
    (0x3e17, 0xc5), (0x3e18, 0x00), (0x3e19, 0xc5), (0x4509, 0x20), (0x450d, 0x0b),
    (0x5780, 0x76), (0x5784, 0x0a), (0x5785, 0x04), (0x5787, 0x0a), (0x5788, 0x0a),
    (0x5789, 0x08), (0x578a, 0x0a), (0x578b, 0x0a), (0x578c, 0x08), (0x578d, 0x40),
    (0x5790, 0x08), (0x5791, 0x04), (0x5792, 0x04), (0x5793, 0x08), (0x5794, 0x04),
    (0x5795, 0x04), (0x57ac, 0x00), (0x57ad, 0x00), (0x36e9, 0x44), (0x37f9, 0x44),
    (0x3211, 0x3), (0x3213, 0x3), (0x5000, 0x0), (0x5002, 0x0), (0x33b0, 0x0)]"

definition sc431hai_wdr_2t1_4m30_10bit :: "cis_reg_cfg list" where
  "sc431hai_wdr_2t1_4m30_10bit = [
    (0x0100, 0x00), (0x36e9, 0x80), (0x37f9, 0x80), (0x301f, 0x06), (0x3058, 0x10),
    (0x3059, 0x32), (0x305a, 0x54), (0x320e, 0x0b), (0x320f, 0xb8), (0x3250, 0xff),
    (0x3281, 0x01), (0x3301, 0x12), (0x3304, 0x50), (0x3305, 0x00), (0x3306, 0x68),
    (0x3307, 0x04), (0x3308, 0x0a), (0x3309, 0x88), (0x330b, 0xd8), (0x330d, 0x08),
    (0x330e, 0x28), (0x331e, 0x41), (0x331f, 0x79), (0x3333, 0x10), (0x3334, 0x40),
    (0x3364, 0x5e), (0x338e, 0xe2), (0x338f, 0x80), (0x3390, 0x08), (0x3391, 0x18),
    (0x3392, 0xb8), (0x3393, 0x12), (0x3394, 0x14), (0x3395, 0x10), (0x3396, 0x88),
    (0x3397, 0x98), (0x3398, 0xb8), (0x3399, 0x0e), (0x339a, 0x18), (0x339b, 0x20),
    (0x339c, 0x24), (0x33ac, 0x0a), (0x33ad, 0x10), (0x33ae, 0x4c), (0x33af, 0x84),
    (0x33b2, 0x50), (0x33b3, 0x10), (0x33f8, 0x00), (0x33f9, 0x68), (0x33fa, 0x00),
    (0x33fb, 0x68), (0x33fc, 0x48), (0x33fd, 0x78), (0x349f, 0x03), (0x34a6, 0x40),
    (0x34a7, 0x58), (0x34a8, 0x10), (0x34a9, 0x10), (0x34f8, 0x78), (0x34f9, 0x10),
    (0x3633, 0x44), (0x363b, 0x8f), (0x363c, 0x02), (0x3641, 0x08), (0x3654, 0x20),
    (0x3674, 0xc2), (0x3675, 0xb4), (0x3676, 0x88), (0x367c, 0x88), (0x367d, 0xb8),
    (0x3690, 0x34), (0x3691, 0x45), (0x3692, 0x55), (0x3693, 0x88), (0x3694, 0xb8),
    (0x3696, 0x80), (0x3697, 0x83), (0x3698, 0x81), (0x3699, 0x81), (0x369a, 0x84),
    (0x369b, 0x82), (0x36a2, 0x80), (0x36a3, 0x88), (0x36a4, 0xf8), (0x36a5, 0xb8),
    (0x36a6, 0x98), (0x36d0, 0x15), (0x36ea, 0x23), (0x36eb, 0x0c), (0x36ec, 0x55),
    (0x36ed, 0x18), (0x370f, 0x01), (0x3722, 0x03), (0x3724, 0x92), (0x3727, 0x14),
    (0x37b0, 0x17), (0x37b1, 0x9b), (0x37b2, 0x9b), (0x37b3, 0x88), (0x37b4, 0xb8),
    (0x37fa, 0x23), (0x37fb, 0x44), (0x37fc, 0x20), (0x37fd, 0x1c), (0x391f, 0x41),
    (0x3926, 0xe0), (0x3933, 0x80), (0x3934, 0xf8), (0x3935, 0x00), (0x3936, 0x2d),
    (0x3937, 0x64), (0x3938, 0x62), (0x393d, 0x02), (0x393e, 0x00), (0x3e00, 0x01),
    (0x3e01, 0x5c), (0x3e02, 0x00), (0x3e04, 0x15), (0x3e05, 0xc0), (0x3e16, 0x00),
    (0x3e17, 0xc5), (0x3e18, 0x00), (0x3e19, 0xc5), (0x3e23, 0x00), (0x3e24, 0xb8),
    (0x4509, 0x20), (0x450d, 0x0b), (0x4816, 0x71), (0x5780, 0x76), (0x5784, 0x0a),
    (0x5785, 0x04), (0x5787, 0x0a), (0x5788, 0x0a), (0x5789, 0x08), (0x578a, 0x0a),
    (0x578b, 0x0a), (0x578c, 0x08), (0x578d, 0x40), (0x5790, 0x08), (0x5791, 0x04),
    (0x5792, 0x04), (0x5793, 0x08), (0x5794, 0x04), (0x5795, 0x04), (0x57ac, 0x00),
    (0x57ad, 0x00), (0x3223, 0xd0), (0x3103, 0x2a), (0x3812, 0x00), (0x309b, 0xf3),
    (0x3085, 0x33), (0x3223, 0xc0), (0x3085, 0x30), (0x309b, 0xf0), (0x3812, 0x30),
    (0x3103, 0x28), (0x36e9, 0x44), (0x37f9, 0x44), (0x3211, 0x3), (0x3213, 0x3)]"

end
