(* ===== verification/Sc431hai.thy ===== *)
theory Sc431hai
  imports Sensor_Driver Sc431hai_Tables "HOL-Library.Signed_Division"
begin

text \<open>
  The SC431HAI driver, \<^verbatim>\<open>smart_sc431hai/sc431hai_cmos.c\<close> and \<^verbatim>\<open>sc431hai_sensor_ctrl.c\<close>: all its
  operations in the order of the source.  Unlike the SC4336P this sensor also has a WDR mode with
  a long and a short exposure per frame (2-to-1 line WDR), frame lengths are counted in half
  lines (\<^verbatim>\<open>fl_std\<close> is twice the frame length register), and the analog gain table is used a second
  time with a dual conversion gain (DCG) of 1.54.  Image mode 0 is linear, image mode 1 is WDR.
\<close>

unbundle bit_operations_syntax

section \<open>State\<close>

text \<open>
  The three function-local static arrays of \<^verbatim>\<open>cmos_inttime_update_2to1_line\<close> are part of the
  driver state: AE reports the short and the long exposure of a frame in two calls, and the first
  one is remembered until the second arrives.
\<close>

record sc431hai_drv = drv +
  is_first :: "bool list"
  short_int_time :: "u32 list"
  long_int_time :: "u32 list"

definition sc431hai_info0 :: cis_info where
  "sc431hai_info0 = \<lparr>pipe = 0, sns_id = 431, fswdr_mode = OT_ISP_FSWDR_NORMAL_MODE, ae_stat_pos = 0,
     max_time_get_cnt = 0, init_exposure = 0, init_int_time = 0, init_again = 0, init_dgain = 0,
     init_isp_dgain = 0, lines_per500ms = 0, init_wb_r_gain = 0, init_wb_g_gain = 0,
     init_wb_b_gain = 0, sample_r_gain = 0, sample_b_gain = 0, quick_start_en = False,
     fast_ae_en = False, ae_route_ex_valid = False, init_ae_route = zero_route,
     init_ae_route_ex = zero_route, init_ae_route_sf = zero_route,
     init_ae_route_sf_ex = zero_route, max_short_exp = 0xB8, i2c_dev = -1, sns_state = None,
     blc_clamp_info = True, mode_tbl = sc431hai_mode_tbl,
     i2c = \<lparr>fd = -1, i2c_addr = 0, addr_byte_num = 0, data_byte_num = 0\<rparr>\<rparr>"

definition sc431hai_drv0 :: "nat \<Rightarrow> sc431hai_drv" where
  "sc431hai_drv0 n = \<lparr>g_info = replicate n sc431hai_info0, g_standby_cfg_init = [], calls = [],
     is_first = replicate n True, short_int_time = replicate n 0, long_int_time = replicate n 0\<rparr>"

section \<open>AE defaults\<close>

definition sc431hai_get_ae_comm_default ::
  "cis_info \<Rightarrow> ot_isp_sns_state \<Rightarrow> ot_isp_ae_sensor_default \<Rightarrow> ot_isp_ae_sensor_default" where
  "sc431hai_get_ae_comm_default ci st ae =
     (let mx = max_fps (cur_mode ci st);
          full = (if img_mode st = 1 then push_bit 1 3000 else push_bit 1 1500);
          ae = (if img_mode st = 0
                then ae\<lparr>dft_int_time_accu := \<lparr>accu_type = OT_ISP_AE_ACCURACY_LINEAR, accuracy = 1,
                                              accu_offset = 0\<rparr>,
                        dft_full_lines_max := push_bit 1 0x4650\<rparr>
                else if img_mode st = 1
                then ae\<lparr>dft_int_time_accu := \<lparr>accu_type = OT_ISP_AE_ACCURACY_LINEAR, accuracy = 4,
                                              accu_offset = 0\<rparr>,
                        dft_full_lines_max := push_bit 1 0x2328\<rparr>
                else ae)
      in ae\<lparr>
        dft_full_lines_std := fl_std st,
        dft_flicker_freq := 50 * 256,
        dft_hmax_times :=
          f32_to_u32 (f32_div (f32_rnd 1000000000) (f32_mul (u32_to_f32 full) mx)),
        dft_again_accu := (dft_again_accu ae)\<lparr>accu_type := OT_ISP_AE_ACCURACY_TABLE, accuracy := 1\<rparr>,
        dft_dgain_accu := (dft_dgain_accu ae)\<lparr>accu_type := OT_ISP_AE_ACCURACY_TABLE, accuracy := 1\<rparr>,
        dft_isp_dgain_shift := 8,
        dft_min_isp_dgain_target := push_bit 8 1,
        dft_max_isp_dgain_target := push_bit 8 32,
        dft_lines_per500ms :=
          (if lines_per500ms ci = 0 then f32_to_u32 (f32_div (f32_mul (u32_to_f32 full) mx) 2)
           else lines_per500ms ci),
        dft_piris_attr := ''g_piris'',
        dft_max_iris_fno := OT_ISP_IRIS_F_NO_1_4,
        dft_min_iris_fno := OT_ISP_IRIS_F_NO_5_6,
        dft_ae_route_ex_valid := False,
        dft_ae_route_attr := (dft_ae_route_attr ae)\<lparr>total_num := 0\<rparr>,
        dft_ae_route_attr_ex := (dft_ae_route_attr_ex ae)\<lparr>total_num := 0\<rparr>,
        dft_quick_start_enable := quick_start_en ci,
        dft_black_frame_num := 0\<rparr>)"

definition sc431hai_get_ae_linear_default ::
  "cis_info \<Rightarrow> ot_isp_sns_state \<Rightarrow> ot_isp_ae_sensor_default \<Rightarrow> ot_isp_ae_sensor_default" where
  "sc431hai_get_ae_linear_default ci st ae = ae\<lparr>
     dft_max_again := 50069, dft_min_again := 1024,
     dft_max_again_target := 50069, dft_min_again_target := 1024,
     dft_max_dgain := 16256, dft_min_dgain := 1024,
     dft_max_dgain_target := 16256, dft_min_dgain_target := 1024,
     dft_ae_compensation := 0x40,
     dft_ae_exp_mode := OT_ISP_AE_EXP_HIGHLIGHT_PRIOR,
     dft_init_exposure := (if init_exposure ci \<noteq> 0 then init_exposure ci else 148859),
     dft_init_int_time := init_int_time ci,
     dft_init_again := init_again ci,
     dft_init_dgain := init_dgain ci,
     dft_init_isp_dgain := init_isp_dgain ci,
     dft_max_int_time := fl_std st - 11,
     dft_min_int_time := 8,
     dft_max_int_time_target := 65535,
     dft_min_int_time_target := 8,
     dft_ae_route_ex_valid := ae_route_ex_valid ci,
     dft_ae_route_attr := init_ae_route ci,
     dft_ae_route_attr_ex := init_ae_route_ex ci\<rparr>"

definition sc431hai_get_ae_2to1_line_wdr_default ::
  "cis_info \<Rightarrow> ot_isp_sns_state \<Rightarrow> ot_isp_ae_sensor_default \<Rightarrow> ot_isp_ae_sensor_default" where
  "sc431hai_get_ae_2to1_line_wdr_default ci st ae =
     (let ae = ae\<lparr>
            dft_max_int_time := fl_std st - 21 - 19,
            dft_min_int_time := 8,
            dft_int_time_accu := (dft_int_time_accu ae)\<lparr>accu_offset := 0\<rparr>,
            dft_max_int_time_target := 65535,
            dft_min_int_time_target := 8,
            dft_max_again := 50069, dft_min_again := 1024,
            dft_max_again_target := 50069, dft_min_again_target := 1024,
            dft_max_dgain := 16256, dft_min_dgain := 1024,
            dft_max_dgain_target := 16256, dft_min_dgain_target := 1024,
            dft_max_isp_dgain_target := push_bit (unat (dft_isp_dgain_shift ae)) 4,
            dft_diff_gain_support := True,
            dft_init_exposure := (if init_exposure ci \<noteq> 0 then init_exposure ci else 66462)\<rparr>;
          ae = (if fswdr_mode ci = OT_ISP_FSWDR_LONG_FRAME_MODE
                then ae\<lparr>dft_ae_compensation := 56, dft_ae_exp_mode := OT_ISP_AE_EXP_HIGHLIGHT_PRIOR\<rparr>
                else ae\<lparr>dft_ae_compensation := 32, dft_ae_exp_mode := OT_ISP_AE_EXP_LOWLIGHT_PRIOR,
                        dft_man_ratio_enable := True,
                        dft_arr_ratio := (dft_arr_ratio ae)(0 := 0x400, 1 := 0x40, 2 := 0x40)\<rparr>)
      in ae\<lparr>dft_lf_min_exposure := 40000,
            dft_ae_route_ex_valid := ae_route_ex_valid ci,
            dft_ae_route_attr := init_ae_route ci,
            dft_ae_route_attr_ex := init_ae_route_ex ci,
            dft_ae_route_sf_attr := init_ae_route_sf ci,
            dft_ae_route_sf_attr_ex := init_ae_route_sf_ex ci\<rparr>)"

definition sc431hai_get_ae_default ::
  "int \<Rightarrow> ot_isp_ae_sensor_default option \<Rightarrow> sc431hai_drv \<Rightarrow> ret \<times> ot_isp_ae_sensor_default option" where
  "sc431hai_get_ae_default vi_pipe ae d =
     (case cmos_get_info vi_pipe d of
        None \<Rightarrow> (OT_ERR_ISP_ILLEGAL_PARAM, ae)
      | Some ci \<Rightarrow> (case ae of
          None \<Rightarrow> (OT_ERR_ISP_NULL_PTR, ae)
        | Some a \<Rightarrow> (case sns_state ci of
            None \<Rightarrow> (OT_ERR_ISP_NULL_PTR, ae)
          | Some st \<Rightarrow>
              (let a = sc431hai_get_ae_comm_default ci st (a\<lparr>dft_ae_route_attr := zero_route\<rparr>)
               in (TD_SUCCESS, Some
                    (case wdr_mode st of
                       OT_WDR_MODE_2To1_LINE \<Rightarrow> sc431hai_get_ae_2to1_line_wdr_default ci st a
                     | _ \<Rightarrow> sc431hai_get_ae_linear_default ci st a))))))"

section \<open>Frame rate\<close>

text \<open>Register slots of both modes: exposure 0 to 2 (low, middle, high), analog gain 3 and 4, digital
  gain 5 and 6, frame length 7 and 8 (each low, high).  The WDR mode adds the short exposure 9 and 10,
  its analog gain 11 and 12, its digital gain 13 and 14, and the longest short exposure 15 and 16.\<close>

definition sc431hai_config_vmax :: "u32 \<Rightarrow> ot_isp_sns_state \<Rightarrow> ot_isp_sns_state" where
  "sc431hai_config_vmax vmax st =
     (if wdr_mode st = OT_WDR_MODE_NONE
      then set_data 8 (high_8bits vmax) (set_data 7 (low_8bits vmax) st)
      else set_data 8 (high_8bits vmax) (set_data 7 (low_8bits vmax) st))"

definition sc431hai_fps_set :: "sdk \<Rightarrow> int \<Rightarrow> f32 \<Rightarrow> ot_isp_ae_sensor_default option \<Rightarrow> sc431hai_drv \<Rightarrow>
    ot_isp_ae_sensor_default option \<times> sc431hai_drv" where
  "sc431hai_fps_set k vi_pipe fps ae d =
     (case cmos_get_info vi_pipe d of
        None \<Rightarrow> (ae, d)
      | Some ci \<Rightarrow> (case ae of
          None \<Rightarrow> (ae, d)
        | Some a \<Rightarrow> (case sns_state ci of
            None \<Rightarrow> (ae, d)
          | Some st \<Rightarrow>
              (let lns = ver_lines (cur_mode ci st); lines_max = max_ver_lines (cur_mode ci st);
                   mx = max_fps (cur_mode ci st); mn = min_fps (cur_mode ci st)
               in if mx < fps \<or> fps < mn then (ae, d)
               else
                 let vmax = f32_to_u32 (f32_div (f32_mul (u32_to_f32 lns) mx) (div_0_to_1_float k fps));
                     vmax = push_bit 1 (drop_bit 1 (vmax + 1));
                     vmax = (if lines_max < vmax then lines_max else vmax);
                     st = (sc431hai_config_vmax vmax st)\<lparr>fl_std := push_bit 1 vmax\<rparr>;
                     l500 = f32_to_u32 (f32_div (f32_mul (u32_to_f32 (lns * 2)) mx) 2);
                     a = a\<lparr>dft_lines_per500ms := l500, dft_fps := fps, dft_full_lines_std := fl_std st\<rparr>;
                     a = (if wdr_mode st = OT_WDR_MODE_NONE
                          then a\<lparr>dft_max_int_time := fl_std st - 11\<rparr>
                          else a\<lparr>dft_max_int_time := fl_std st - 21 - 19\<rparr>);
                     st = st\<lparr>fl := (fl st)(0 := fl_std st)\<rparr>;
                     a = a\<lparr>dft_full_lines := fl st 0,
                           dft_hmax_times := f32_to_u32 (f32_div (f32_rnd 1000000000)
                             (f32_mul (u32_to_f32 (fl_std st)) (div_0_to_1_float k fps)))\<rparr>
                 in (Some a,
                     put_info vi_pipe (ci\<lparr>lines_per500ms := l500, sns_state := Some st\<rparr>) d)))))"

definition sc431hai_slow_framerate_set :: "int \<Rightarrow> u32 \<Rightarrow> ot_isp_ae_sensor_default option \<Rightarrow>
    sc431hai_drv \<Rightarrow> ot_isp_ae_sensor_default option \<times> sc431hai_drv" where
  "sc431hai_slow_framerate_set vi_pipe full_lines ae d =
     (case cmos_get_info vi_pipe d of
        None \<Rightarrow> (ae, d)
      | Some ci \<Rightarrow> (case ae of
          None \<Rightarrow> (ae, d)
        | Some a \<Rightarrow> (case sns_state ci of
            None \<Rightarrow> (ae, d)
          | Some st \<Rightarrow>
              (let lines_max = max_ver_lines (cur_mode ci st);
                   vmax = drop_bit 1 (full_lines + 11);
                   vmax = push_bit 1 (drop_bit 1 (vmax + 1));
                   vmax = clip3 vmax 1500 lines_max;
                   st = st\<lparr>fl := (fl st)(0 := push_bit 1 vmax)\<rparr>;
                   st = set_data 8 (high_8bits vmax) (set_data 7 (low_8bits vmax) st);
                   a = (if wdr_mode st = OT_WDR_MODE_NONE
                        then a\<lparr>dft_max_int_time := fl st 0 - 11\<rparr>
                        else a\<lparr>dft_max_int_time := fl st 0 - 21 - 19\<rparr>);
                   a = a\<lparr>dft_full_lines := full_lines\<rparr>
               in (Some a, put_info vi_pipe (ci\<lparr>sns_state := Some st\<rparr>) d)))))"

section \<open>Exposure\<close>

definition sc431hai_inttime_update_linear :: "u32 \<Rightarrow> ot_isp_sns_state \<Rightarrow> ot_isp_sns_state" where
  "sc431hai_inttime_update_linear int_time st =
     set_data 2 (higher_4bits int_time) (set_data 1 (higher_8bits int_time)
       (set_data 0 (lower_4bits int_time) st))"

text \<open>
  The new limit of the short exposure, in full lines.  It follows the short exposure \<open>s\<close> of this
  frame and is at least \<^verbatim>\<open>SC431HAI_SEXP_MAX_DEFAULT\<close>, but it may shrink from its old value \<open>old\<close> only
  as far as the read-out of the running frame of \<open>full\<close> half lines allows.  \<^verbatim>\<open>(td_s32)\<close> conversions
  are \<open>sint\<close>; signed arithmetic that would overflow is undefined in C and exact here.
\<close>

definition sc431hai_max_short_exp :: "u32 \<Rightarrow> u32 \<Rightarrow> u32 \<Rightarrow> u32" where
  "sc431hai_max_short_exp s old full =
     (let m = max (drop_bit 1 (s + 19)) 0xB8;
          next_m = (0x5A7 + 20) * 2 + sint old - sint full sdiv 2 + 2;
          m = (if m < old then word_of_int (max (sint m) next_m) else m)
      in push_bit 1 (drop_bit 1 m))"

definition sc431hai_inttime_update_2to1_line ::
  "int \<Rightarrow> cis_info \<Rightarrow> ot_isp_sns_state \<Rightarrow> u32 \<Rightarrow> sc431hai_drv \<Rightarrow> sc431hai_drv" where
  "sc431hai_inttime_update_2to1_line vi_pipe ci st int_time d =
     (let i = nat vi_pipe
      in if is_first d ! i
         then put_state vi_pipe (st\<lparr>wdr_int_time := (wdr_int_time st)(0 := int_time)\<rparr>)
                (d\<lparr>short_int_time := (short_int_time d)[i := int_time], is_first := (is_first d)[i := False]\<rparr>)
         else
           let st = st\<lparr>wdr_int_time := (wdr_int_time st)(1 := int_time)\<rparr>;
               short = short_int_time d ! i;
               m = sc431hai_max_short_exp short (max_short_exp ci) (fl st 0);
               long_int_time_max = fl st 0 - 2 * m - 21;
               long = min int_time long_int_time_max;
               st = set_data 16 (high_8bits m) st;
               st = set_data 15 (low_8bits (m AND 0xfe)) st;
               st = set_data 0 (lower_4bits long) st;
               st = set_data 1 (higher_8bits long) st;
               st = set_data 2 (higher_4bits long) st;
               st = set_data 9 (lower_4bits short) st;
               st = set_data 10 (higher_8bits short) st
           in put_info vi_pipe (ci\<lparr>max_short_exp := m, sns_state := Some st\<rparr>)
                (d\<lparr>long_int_time := (long_int_time d)[i := long], is_first := (is_first d)[i := True]\<rparr>))"

definition sc431hai_inttime_update :: "int \<Rightarrow> u32 \<Rightarrow> sc431hai_drv \<Rightarrow> sc431hai_drv" where
  "sc431hai_inttime_update vi_pipe int_time d =
     (case cmos_get_info vi_pipe d of
        None \<Rightarrow> d
      | Some ci \<Rightarrow> (case sns_state ci of
          None \<Rightarrow> d
        | Some st \<Rightarrow>
            if wdr_mode st = OT_WDR_MODE_2To1_LINE
            then sc431hai_inttime_update_2to1_line vi_pipe ci st int_time d
            else put_state vi_pipe (sc431hai_inttime_update_linear int_time st) d))"

section \<open>Gain\<close>

text \<open>\<^verbatim>\<open>SC431HAI_DCG_RATIO\<close>, the single precision number nearest to 1.54.\<close>

definition sc431hai_dcg_ratio :: f32 where
  "sc431hai_dcg_ratio = f32_rnd (154 / 100)"

definition sc431hai_with_dcg :: "u32 \<Rightarrow> u32" where
  "sc431hai_with_dcg x = f32_to_u32 (f32_mul (u32_to_f32 x) sc431hai_dcg_ratio)"

text \<open>The analog gain search on values: above the ratio the table is searched with the request
  divided by the ratio, and the entry found is used with the conversion gain switched on.\<close>

definition sc431hai_again_calc :: "u32 \<times> u32 \<Rightarrow> u32 \<times> u32" where
  "sc431hai_again_calc g =
     (case g of (lin, db) \<Rightarrow>
        if sc431hai_with_dcg (sc431hai_again_index ! 319) \<le> lin
        then (sc431hai_with_dcg (sc431hai_again_index ! 319),
              if 1 < sc431hai_dcg_ratio then sc431hai_again_table ! 319 OR 0x8000
              else sc431hai_again_table ! 319)
        else if f32_mul 1024 sc431hai_dcg_ratio < u32_to_f32 lin
        then (case first_above (f32_to_u32 (f32_div (u32_to_f32 lin) sc431hai_dcg_ratio))
                     sc431hai_again_index of
                Some i \<Rightarrow> (sc431hai_with_dcg (sc431hai_again_index ! (i - 1)),
                           sc431hai_again_table ! (i - 1) OR 0x8000)
              | None \<Rightarrow> (lin, db))
        else (case first_above lin sc431hai_again_index of
                Some i \<Rightarrow> (sc431hai_again_index ! (i - 1), sc431hai_again_table ! (i - 1))
              | None \<Rightarrow> (lin, db)))"

definition sc431hai_again_calc_table ::
  "int \<Rightarrow> u32 option \<Rightarrow> u32 option \<Rightarrow> u32 option \<times> u32 option" where
  "sc431hai_again_calc_table vi_pipe again_lin again_db =
     (case (again_lin, again_db) of
        (Some l, Some b) \<Rightarrow> map_prod Some Some (sc431hai_again_calc (l, b))
      | _ \<Rightarrow> (again_lin, again_db))"

definition sc431hai_dgain_calc_table ::
  "int \<Rightarrow> u32 option \<Rightarrow> u32 option \<Rightarrow> u32 option \<times> u32 option" where
  "sc431hai_dgain_calc_table vi_pipe dgain_lin dgain_db =
     (case (dgain_lin, dgain_db) of
        (Some l, Some b) \<Rightarrow>
          map_prod Some Some (gain_calc sc431hai_dgain_index sc431hai_dgain_table (l, b))
      | _ \<Rightarrow> (dgain_lin, dgain_db))"

definition sc431hai_gains_update :: "int \<Rightarrow> u32 \<Rightarrow> u32 \<Rightarrow> sc431hai_drv \<Rightarrow> sc431hai_drv" where
  "sc431hai_gains_update vi_pipe again dgain d =
     (case cmos_get_state vi_pipe d of
        None \<Rightarrow> d
      | Some st \<Rightarrow>
          (let reg_0x3e06 = high_8bits dgain; reg_0x3e07 = low_8bits dgain;
               reg_0x3e08 = high_8bits again; reg_0x3e09 = low_8bits again;
               st = set_data 6 reg_0x3e06 st;
               st = set_data 5 reg_0x3e07 st;
               st = set_data 4 reg_0x3e08 st;
               st = set_data 3 (drop_bit 1 reg_0x3e09) st;
               st = (if wdr_mode st = OT_WDR_MODE_2To1_LINE
                     then set_data 11 (drop_bit 1 reg_0x3e09) (set_data 12 reg_0x3e08
                            (set_data 13 reg_0x3e07 (set_data 14 reg_0x3e06 st)))
                     else st)
           in put_state vi_pipe st d))"

definition sc431hai_get_inttime_max_2to1_line ::
  "sdk \<Rightarrow> int \<Rightarrow> (nat \<Rightarrow> u32) \<Rightarrow> ot_isp_ae_int_time_range \<Rightarrow> u32 \<Rightarrow> sc431hai_drv \<Rightarrow>
   ot_isp_ae_int_time_range \<times> u32" where
  "sc431hai_get_inttime_max_2to1_line k vi_pipe ratio int_time lf_max d =
     (case cmos_get_info vi_pipe d of
        None \<Rightarrow> (int_time, lf_max)
      | Some ci \<Rightarrow> (case sns_state ci of
          None \<Rightarrow> (int_time, lf_max)
        | Some st \<Rightarrow>
            if cis_wdr_range_check ratio \<noteq> TD_SUCCESS then (int_time, lf_max)
            else if fswdr_mode ci = OT_ISP_FSWDR_LONG_FRAME_MODE
            then
              (let short_max0 = fl st 1 - 19 - wdr_int_time st 0;
                   short_max = fl st 0 - 19;
                   short_max = (if short_max0 < short_max then short_max0 else short_max)
               in (int_time\<lparr>int_time_max := (int_time_max int_time)(0 := 8, 1 := short_max),
                            int_time_min := (int_time_min int_time)(0 := 8, 1 := 8)\<rparr>, lf_max))
            else
              (let short_max0 = ((fl st 1 - 19 - 21 - wdr_int_time st 0) * 0x40) div div_0_to_1 k (ratio 0);
                   short_max = ((fl st 0 - 19 - 21) * 0x40) div (ratio 0 + 0x40);
                   short_max = (if short_max0 < short_max then short_max0 else short_max);
                   short_max = (if short_max = 0 then 1 else short_max);
                   lf_max = fl st 0 * 2 - 19
               in if 8 \<le> short_max
                  then (int_time\<lparr>int_time_max := (int_time_max int_time)
                                   (0 := short_max, 1 := drop_bit 6 (short_max * ratio 0)),
                                 int_time_min := (int_time_min int_time)
                                   (0 := 8, 1 := drop_bit 6 (8 * ratio 0))\<rparr>, lf_max)
                  else (int_time\<lparr>int_time_max := (int_time_max int_time)
                                   (0 := 8, 1 := drop_bit 6 (8 * 0xFFF)),
                                 int_time_min := (int_time_min int_time)
                                   (0 := 8, 1 := drop_bit 6 (8 * 0xFFF))\<rparr>, lf_max))))"

definition sc431hai_get_inttime_max ::
  "sdk \<Rightarrow> int \<Rightarrow> u16 \<Rightarrow> (nat \<Rightarrow> u32) option \<Rightarrow> ot_isp_ae_int_time_range option \<Rightarrow> u32 option \<Rightarrow>
   sc431hai_drv \<Rightarrow> ot_isp_ae_int_time_range option \<times> u32 option" where
  "sc431hai_get_inttime_max k vi_pipe man_ratio_enable ratio int_time lf_max_int_time d =
     (case (cmos_get_state vi_pipe d, ratio, int_time, lf_max_int_time) of
        (Some st, Some q, Some t, Some lf) \<Rightarrow>
          (case wdr_mode st of
             OT_WDR_MODE_2To1_LINE \<Rightarrow>
               map_prod Some Some (sc431hai_get_inttime_max_2to1_line k vi_pipe q t lf d)
           | _ \<Rightarrow> (int_time, lf_max_int_time))
      | _ \<Rightarrow> (int_time, lf_max_int_time))"

definition sc431hai_ae_fswdr_attr_set :: "int \<Rightarrow> ot_isp_fswdr_mode option \<Rightarrow> sc431hai_drv \<Rightarrow> sc431hai_drv" where
  "sc431hai_ae_fswdr_attr_set vi_pipe attr d =
     (case cmos_get_info vi_pipe d of
        None \<Rightarrow> d
      | Some ci \<Rightarrow> (case attr of
          None \<Rightarrow> d
        | Some m \<Rightarrow> put_info vi_pipe (ci\<lparr>fswdr_mode := m, max_time_get_cnt := 0\<rparr>) d))"

definition sc431hai_init_ae_exp_function :: "sdk \<Rightarrow> sc431hai_drv ot_isp_ae_sensor_exp_func" where
  "sc431hai_init_ae_exp_function k = \<lparr>
     pfn_cmos_get_ae_default = sc431hai_get_ae_default,
     pfn_cmos_fps_set = sc431hai_fps_set k,
     pfn_cmos_slow_framerate_set = sc431hai_slow_framerate_set,
     pfn_cmos_inttime_update = sc431hai_inttime_update,
     pfn_cmos_gains_update = sc431hai_gains_update,
     pfn_cmos_again_calc_table = sc431hai_again_calc_table,
     pfn_cmos_dgain_calc_table = Some sc431hai_dgain_calc_table,
     pfn_cmos_get_inttime_max = sc431hai_get_inttime_max k,
     pfn_cmos_ae_fswdr_attr_set = sc431hai_ae_fswdr_attr_set,
     pfn_cmos_ae_quick_start_status_set = None,
     pfn_cmos_ae_fast_ae_attr_get = None,
     pfn_cmos_ae_fast_ae_attr_set = None\<rparr>"

section \<open>AWB and ISP defaults\<close>

definition sc431hai_awb_get_default ::
  "int \<Rightarrow> ot_isp_awb_sensor_default option \<Rightarrow> sc431hai_drv \<Rightarrow> ret \<times> ot_isp_awb_sensor_default option" where
  "sc431hai_awb_get_default vi_pipe awb d =
     (case cmos_get_info vi_pipe d of
        None \<Rightarrow> (OT_ERR_ISP_ILLEGAL_PARAM, awb)
      | Some ci \<Rightarrow> (case awb of
          None \<Rightarrow> (OT_ERR_ISP_NULL_PTR, awb)
        | Some _ \<Rightarrow> (case sns_state ci of
            None \<Rightarrow> (OT_ERR_ISP_NULL_PTR, awb)
          | Some st \<Rightarrow>
              (let x = zero_awb_default\<lparr>
                     wb_ref_temp := 4950,
                     gain_offset := (\<lambda>_. 0)(0 := 478, 1 := 256, 2 := 256, 3 := 497),
                     wb_para := (\<lambda>_. 0)(0 := -102, 1 := 358, 2 := 0, 3 := 183957, 4 := 128, 5 := -135938),
                     golden_rgain := 0, golden_bgain := 0\<rparr>;
                   x = (case wdr_mode st of
                          OT_WDR_MODE_2To1_FRAME \<Rightarrow> x\<lparr>awb_ccm := ''g_awb_ccm_wdr'',
                            awb_agc_tbl := ''g_awb_agc_table_wdr'', awb_sector := ''g_color_sector_wdr''\<rparr>
                        | OT_WDR_MODE_2To1_LINE \<Rightarrow> x\<lparr>awb_ccm := ''g_awb_ccm_wdr'',
                            awb_agc_tbl := ''g_awb_agc_table_wdr'', awb_sector := ''g_color_sector_wdr''\<rparr>
                        | _ \<Rightarrow> x\<lparr>awb_ccm := ''g_awb_ccm'',
                            awb_agc_tbl := ''g_awb_agc_table'', awb_sector := ''g_color_sector''\<rparr>)
               in (TD_SUCCESS, Some (x\<lparr>
                     awb_init_rgain := init_wb_r_gain ci, awb_init_ggain := init_wb_g_gain ci,
                     awb_init_bgain := init_wb_b_gain ci,
                     awb_sample_rgain := sample_r_gain ci, awb_sample_bgain := sample_b_gain ci\<rparr>))))))"

definition sc431hai_init_awb_exp_function :: "sc431hai_drv ot_isp_awb_sensor_exp_func" where
  "sc431hai_init_awb_exp_function = \<lparr>pfn_cmos_get_awb_default = sc431hai_awb_get_default\<rparr>"

definition sc431hai_isp_get_dng_default ::
  "ot_isp_sns_state \<Rightarrow> ot_isp_cmos_default \<Rightarrow> ot_isp_cmos_default" where
  "sc431hai_isp_get_dng_default st x =
     (let raw = dng_raw x;
          raw = (if img_mode st = 0 then raw\<lparr>bits_per_sample := 10, white_level := 1023\<rparr>
                 else if img_mode st = 1 then raw\<lparr>bits_per_sample := 10, white_level := 1023\<rparr>
                 else raw\<lparr>bits_per_sample := 10, white_level := 1023\<rparr>);
          raw = raw\<lparr>scale_hor := (1, 1), scale_ver := (1, 1), cfa_repeat_pattern_dim := (2, 2),
                    black_level_repeat_dim := (2, 2), cfa_layout_rectangular := True,
                    cfa_plane_color := (cfa_plane_color raw)(0 := 0, 1 := 1, 2 := 2),
                    cfa_pattern := (cfa_pattern raw)(0 := 0, 1 := 1, 2 := 1, 3 := 2)\<rparr>
      in x\<lparr>dng_color := \<lparr>
             wb_gain1 = [286, 256, 608], wb_gain2 = [415, 256, 429],
             ccm1 = (2810, [0x01AC, 0x8093, 0x8019, 0x8070, 0x01EA, 0x807A, 0x802A, 0x80F3, 0x021D]),
             ccm2 = (4940, [0x01D7, 0x8084, 0x8053, 0x8053, 0x01D9, 0x8086, 0x8010, 0x80B3, 0x01C3])\<rparr>,
           dng_raw := raw, valid_dng_raw_format := True\<rparr>)"

definition sc431hai_isp_get_linear_default :: "isp_build \<Rightarrow> ot_isp_cmos_default \<Rightarrow> ot_isp_cmos_default" where
  "sc431hai_isp_get_linear_default b x =
     (let x = set_block Demosaic True ''g_cmos_demosaic'' x;
          x = set_block Sharpen True ''g_cmos_yuv_sharpen'' x;
          x = set_block Drc True ''g_cmos_drc'' x;
          x = set_block Bayer_nr True ''g_cmos_bayer_nr'' x;
          x = set_block Anti_false_color True ''g_cmos_anti_false_color'' x;
          x = set_block Cac True ''g_cmos_cac'' x;
          x = set_block Ldci True ''g_cmos_ldci'' x;
          x = set_block Gamma True ''g_cmos_gamma'' x;
          x = set_block Clut True ''g_cmos_clut'' x;
          x = (if cr_support b then set_block Ge True ''g_cmos_ge'' x else x);
          x = set_block Dehaze True ''g_cmos_dehaze'' x;
          x = set_block Ca True ''g_cmos_ca'' x
      in x\<lparr>noise_calibration := ''g_cmos_noise_calibration''\<rparr>)"

definition sc431hai_isp_get_wdr_default :: "isp_build \<Rightarrow> ot_isp_cmos_default \<Rightarrow> ot_isp_cmos_default" where
  "sc431hai_isp_get_wdr_default b x =
     (let x = set_block Dpc True ''g_cmos_dpc_wdr'' x;
          x = set_block Demosaic True ''g_cmos_demosaic_wdr'' x;
          x = set_block Sharpen True ''g_cmos_yuv_sharpen_wdr'' x;
          x = set_block Drc True ''g_cmos_drc_wdr'' x;
          x = set_block Gamma True ''g_cmos_gamma_wdr'' x;
          x = set_block Clut True ''g_cmos_clut_wdr'' x;
          x = (if pregamma_support b then set_block Pregamma True ''g_cmos_pregamma'' x else x);
          x = set_block Bayer_nr True ''g_cmos_bayer_nr_wdr'' x;
          x = (if cr_support b then set_block Ge True ''g_cmos_ge_wdr'' x else x);
          x = set_block Anti_false_color True ''g_cmos_anti_false_color_wdr'' x;
          x = set_block Cac True ''g_cmos_cac_wdr'' x;
          x = set_block Ldci True ''g_cmos_ldci_wdr'' x;
          x = set_block Dehaze True ''g_cmos_dehaze_wdr'' x
      in x\<lparr>noise_calibration := ''g_cmos_noise_calibration''\<rparr>)"

definition sc431hai_isp_get_default ::
  "isp_build \<Rightarrow> int \<Rightarrow> ot_isp_cmos_default option \<Rightarrow> sc431hai_drv \<Rightarrow> ret \<times> ot_isp_cmos_default option" where
  "sc431hai_isp_get_default b vi_pipe isp_def d =
     (case cmos_get_info vi_pipe d of
        None \<Rightarrow> (OT_ERR_ISP_ILLEGAL_PARAM, isp_def)
      | Some ci \<Rightarrow> (case isp_def of
          None \<Rightarrow> (OT_ERR_ISP_NULL_PTR, isp_def)
        | Some _ \<Rightarrow> (case sns_state ci of
            None \<Rightarrow> (OT_ERR_ISP_NULL_PTR, isp_def)
          | Some st \<Rightarrow>
              (let x = zero_cmos_default;
                   x = (if ca_support b then set_block Ca True ''g_cmos_ca'' x else x);
                   x = set_block Dpc True ''g_cmos_dpc'' x;
                   x = set_block Wdr True ''g_cmos_wdr'' x;
                   x = set_block Lsc False ''g_cmos_lsc'' x;
                   x = set_block Acs False ''g_cmos_acs'' x;
                   x = (if pregamma_support b then set_block Pregamma False ''g_cmos_pregamma'' x else x);
                   x = (case wdr_mode st of
                          OT_WDR_MODE_2To1_LINE \<Rightarrow> sc431hai_isp_get_wdr_default b x
                        | _ \<Rightarrow> sc431hai_isp_get_linear_default b x);
                   x = x\<lparr>exp_ratio := (exp_ratio x)(0 := 0x40)\<rparr>;
                   x = (if wdr_mode st = OT_WDR_MODE_2To1_LINE
                        then x\<lparr>exp_ratio := (exp_ratio x)(0 := 0x400)\<rparr> else x);
                   x = x\<lparr>def_sns_id := 431, def_sns_mode := img_mode st\<rparr>
               in (TD_SUCCESS, Some (sc431hai_isp_get_dng_default st x))))))"

definition sc431hai_isp_get_black_level ::
  "isp_build \<Rightarrow> int \<Rightarrow> ot_isp_cmos_black_level option \<Rightarrow> sc431hai_drv \<Rightarrow>
   ret \<times> ot_isp_cmos_black_level option" where
  "sc431hai_isp_get_black_level b vi_pipe bl d =
     (case cmos_get_info vi_pipe d of
        None \<Rightarrow> (OT_ERR_ISP_ILLEGAL_PARAM, bl)
      | Some ci \<Rightarrow> (case bl of
          None \<Rightarrow> (OT_ERR_ISP_NULL_PTR, bl)
        | Some x \<Rightarrow> (case sns_state ci of
            None \<Rightarrow> (OT_ERR_ISP_NULL_PTR, bl)
          | Some st \<Rightarrow>
              (TD_SUCCESS, Some (x\<lparr>blc_base := ''g_cmos_blc'', blc_update := False,
                 blc_level :=
                   (if wdr_mode st = OT_WDR_MODE_NONE
                    then for_upto (bayer_chn_num b) (\<lambda>i f. f(0 := (f 0)(i := Some 0x410))) (\<lambda>_ _. None)
                    else for_upto (wdr_max_frame_num b)
                           (\<lambda>i f. f(i := (f i)(0 := Some 0x410, 1 := Some 0x410, 2 := Some 0x410, 3 := Some 0x410)))
                           (\<lambda>_ _. None))\<rparr>)))))"

definition sc431hai_isp_get_blc_clamp_info ::
  "int \<Rightarrow> bool option \<Rightarrow> sc431hai_drv \<Rightarrow> ret \<times> bool option" where
  "sc431hai_isp_get_blc_clamp_info vi_pipe en d =
     (case cmos_get_info vi_pipe d of
        None \<Rightarrow> (OT_ERR_ISP_ILLEGAL_PARAM, en)
      | Some ci \<Rightarrow> (case en of
          None \<Rightarrow> (OT_ERR_ISP_NULL_PTR, en)
        | Some _ \<Rightarrow> (TD_SUCCESS, Some (blc_clamp_info ci))))"

section \<open>Modes\<close>

definition sc431hai_isp_set_wdr_mode :: "sdk \<Rightarrow> int \<Rightarrow> u8 \<Rightarrow> sc431hai_drv \<Rightarrow> ret \<times> sc431hai_drv" where
  "sc431hai_isp_set_wdr_mode k vi_pipe mode d =
     (case cmos_get_info vi_pipe d of
        None \<Rightarrow> (OT_ERR_ISP_ILLEGAL_PARAM, d)
      | Some ci \<Rightarrow> (case sns_state ci of
          None \<Rightarrow> (OT_ERR_ISP_NULL_PTR, d)
        | Some st \<Rightarrow>
            (let st = st\<lparr>sync_init := False\<rparr>
             in case wdr_mode_of k (mode AND 0x3F) of
                  OT_WDR_MODE_NONE \<Rightarrow>
                    (TD_SUCCESS, put_state vi_pipe
                       (st\<lparr>wdr_mode := OT_WDR_MODE_NONE, wdr_int_time := (\<lambda>_. 0)\<rparr>) d)
                | OT_WDR_MODE_2To1_LINE \<Rightarrow>
                    (TD_SUCCESS, put_state vi_pipe
                       (st\<lparr>wdr_mode := OT_WDR_MODE_2To1_LINE, wdr_int_time := (\<lambda>_. 0)\<rparr>) d)
                | _ \<Rightarrow> (TD_FAILURE, put_state vi_pipe st d))))"

section \<open>The register set\<close>

definition sc431hai_comm_sns_reg_info_init :: "cis_info \<Rightarrow> ot_isp_sns_state \<Rightarrow> ot_isp_sns_state" where
  "sc431hai_comm_sns_reg_info_init ci st = upd_regs0 (\<lambda>r.
     let r = r\<lparr>sns_i2c := True, com_bus_i2c_dev := i2c_dev ci, cfg2_valid_delay_max := 2, reg_num := 9\<rparr>;
         r = (if wdr_mode st = OT_WDR_MODE_2To1_LINE
              then r\<lparr>reg_num := 17, cfg2_valid_delay_max := 2\<rparr> else r);
         r = mark_all 0x60 2 1 r;
         r = set_slot 0 0 0x3E02 r;
         r = set_slot 1 0 0x3E01 r;
         r = set_slot 2 0 0x3E00 r;
         r = set_slot 3 0 0x3E09 r;
         r = set_slot 4 0 0x3E08 r;
         r = set_slot 6 0 0x3E06 r;
         r = set_slot 5 0 0x3E07 r;
         r = set_slot 7 1 0x320F r;
         r = set_slot 8 1 0x320E r
     in r) st"

definition sc431hai_2to1_line_wdr_sns_reg_info_init :: "ot_isp_sns_state \<Rightarrow> ot_isp_sns_state" where
  "sc431hai_2to1_line_wdr_sns_reg_info_init = upd_regs0 (\<lambda>r.
     let r = set_slot 9 0 0x3E05 r;
         r = set_slot 10 0 0x3E04 r;
         r = set_slot 11 0 0x3E13 r;
         r = set_slot 12 0 0x3E12 r;
         r = set_slot 13 0 0x3E11 r;
         r = set_slot 14 0 0x3E10 r;
         r = set_slot 15 1 0x3E24 r;
         r = set_slot 16 1 0x3E23 r
     in r)"

text \<open>The two initialisations as \<^verbatim>\<open>cmos_isp_get_sns_regs_info\<close> combines them.\<close>

definition sc431hai_sns_reg_info_init :: "cis_info \<Rightarrow> ot_isp_sns_state \<Rightarrow> ot_isp_sns_state" where
  "sc431hai_sns_reg_info_init ci st =
     (let st = sc431hai_comm_sns_reg_info_init ci st
      in if wdr_mode st = OT_WDR_MODE_2To1_LINE
         then sc431hai_2to1_line_wdr_sns_reg_info_init st else st)"

definition sc431hai_sns_reg_info_update :: "ot_isp_sns_state \<Rightarrow> ot_isp_sns_state" where
  "sc431hai_sns_reg_info_update st =
     (let st = mark_changed st
      in if wdr_mode st = OT_WDR_MODE_2To1_LINE
         then if fl st 1 < fl st 0
           then upd_regs0 (\<lambda>r. set_delay 16 0 (set_delay 15 0 (set_delay 8 0 (set_delay 7 0 r)))) st
           else if fl st 0 < fl st 1
           then upd_regs0 (\<lambda>r. set_delay 16 1 (set_delay 15 1 (set_delay 8 1 (set_delay 7 1 r)))) st
           else st
         else st)"

definition sc431hai_isp_get_sns_regs_info ::
  "int \<Rightarrow> ot_isp_sns_regs_info option \<Rightarrow> sc431hai_drv \<Rightarrow> ret \<times> ot_isp_sns_regs_info option \<times> sc431hai_drv" where
  "sc431hai_isp_get_sns_regs_info vi_pipe regs d =
     (case cmos_get_info vi_pipe d of
        None \<Rightarrow> (OT_ERR_ISP_ILLEGAL_PARAM, regs, d)
      | Some ci \<Rightarrow> (case regs of
          None \<Rightarrow> (OT_ERR_ISP_NULL_PTR, regs, d)
        | Some r \<Rightarrow> (case sns_state ci of
            None \<Rightarrow> (OT_ERR_ISP_NULL_PTR, regs, d)
          | Some st \<Rightarrow>
              (let st = sync_regs sc431hai_sns_reg_info_init sc431hai_sns_reg_info_update ci (config r) st
               in (TD_SUCCESS, Some (regs_info st 0), put_state vi_pipe st d)))))"

section \<open>Image mode, start and stop\<close>

definition sc431hai_isp_config_image_mode_param :: "u8 \<Rightarrow> ot_isp_sns_state \<Rightarrow> ot_isp_sns_state" where
  "sc431hai_isp_config_image_mode_param m st =
     (if m = 0 then st\<lparr>fl_std := 1500 * 2\<rparr>
      else if m = 1 then st\<lparr>fl_std := 3000 * 2\<rparr>
      else st\<lparr>fl_std := 1500 * 2\<rparr>)"

definition sc431hai_isp_set_image_mode ::
  "int \<Rightarrow> ot_isp_cmos_sns_image_mode option \<Rightarrow> sc431hai_drv \<Rightarrow> ret \<times> sc431hai_drv" where
  "sc431hai_isp_set_image_mode vi_pipe im d =
     (case cmos_get_info vi_pipe d of
        None \<Rightarrow> (OT_ERR_ISP_ILLEGAL_PARAM, d)
      | Some ci \<Rightarrow> (case im of
          None \<Rightarrow> (OT_ERR_ISP_NULL_PTR, d)
        | Some x \<Rightarrow> (case sns_state ci of
            None \<Rightarrow> (OT_ERR_ISP_NULL_PTR, d)
          | Some st \<Rightarrow>
              (case List.find (\<lambda>i. mode_fits x (wdr_mode st) (mode_tbl ci ! i)) [0..<2] of
                 None \<Rightarrow> (TD_FAILURE, d)
               | Some i \<Rightarrow>
                   (let image_mode = of_nat i;
                        st = sc431hai_isp_config_image_mode_param image_mode st
                    in if init st \<and> image_mode = img_mode st
                       then (OT_ISP_DO_NOT_NEED_SWITCH_IMAGEMODE, put_state vi_pipe st d)
                       else (TD_SUCCESS, put_state vi_pipe
                              (st\<lparr>sync_init := False, img_mode := image_mode,
                                  fl := (fl st)(0 := fl_std st, 1 := fl_std st)\<rparr>) d))))))"

text \<open>The start-up sequences, from \<^verbatim>\<open>sc431hai_sensor_ctrl.c\<close>.\<close>

definition sc431hai_default_reg_init ::
  "sdk \<Rightarrow> cis_info \<Rightarrow> ot_isp_sns_state \<Rightarrow> sc431hai_drv \<Rightarrow> sc431hai_drv" where
  "sc431hai_default_reg_init k ci st d = drv_writes k (i2c ci) (pending_writes st) d"

definition sc431hai_reg_init ::
  "sdk \<Rightarrow> cis_info \<Rightarrow> ot_isp_sns_state \<Rightarrow> cis_reg_cfg list \<Rightarrow> sc431hai_drv \<Rightarrow> ret \<times> sc431hai_drv" where
  "sc431hai_reg_init k ci st cfg d =
     (case drv_write k (i2c ci) 0x0103 0x01 d of (r, d) \<Rightarrow>
        if r \<noteq> TD_SUCCESS then (r, d)
        else case drv_writes_checked k (i2c ci) (cfg_writes cfg) (drv_delay_ms k 1 d) of
          (r, d) \<Rightarrow>
            if r \<noteq> TD_SUCCESS then (r, d)
            else drv_write k (i2c ci) 0x0100 0x01 (sc431hai_default_reg_init k ci st d))"

definition sc431hai_linear_4m30_10bit_init ::
  "sdk \<Rightarrow> cis_info \<Rightarrow> ot_isp_sns_state \<Rightarrow> sc431hai_drv \<Rightarrow> ret \<times> sc431hai_drv" where
  "sc431hai_linear_4m30_10bit_init k ci st d = sc431hai_reg_init k ci st sc431hai_linear_4m30_10bit d"

definition sc431hai_vc_wdr_2t1_4m30_10bit_init ::
  "sdk \<Rightarrow> cis_info \<Rightarrow> ot_isp_sns_state \<Rightarrow> sc431hai_drv \<Rightarrow> ret \<times> sc431hai_drv" where
  "sc431hai_vc_wdr_2t1_4m30_10bit_init k ci st d = sc431hai_reg_init k ci st sc431hai_wdr_2t1_4m30_10bit d"

definition sc431hai_isp_init :: "sdk \<Rightarrow> int \<Rightarrow> sc431hai_drv \<Rightarrow> sc431hai_drv" where
  "sc431hai_isp_init k vi_pipe d =
     (case cmos_get_info vi_pipe d of
        None \<Rightarrow> d
      | Some ci \<Rightarrow> (case sns_state ci of
          None \<Rightarrow> d
        | Some st \<Rightarrow>
            (let ci = ci\<lparr>i2c := (i2c ci)\<lparr>i2c_addr := 0x60, addr_byte_num := 2, data_byte_num := 1\<rparr>\<rparr>
             in case cis_i2c_init k ci (calls d) of (r, ci, tr) \<Rightarrow>
               (let d = put_info vi_pipe ci (d\<lparr>calls := tr\<rparr>)
                in if r \<noteq> TD_SUCCESS then d
                   else put_state vi_pipe (st\<lparr>init := True\<rparr>)
                     (if wdr_mode st = OT_WDR_MODE_2To1_LINE
                      then (if img_mode st = 1
                            then snd (sc431hai_vc_wdr_2t1_4m30_10bit_init k ci st d) else d)
                      else snd (sc431hai_linear_4m30_10bit_init k ci st d))))))"

definition sc431hai_isp_exit :: "sdk \<Rightarrow> int \<Rightarrow> sc431hai_drv \<Rightarrow> sc431hai_drv" where
  "sc431hai_isp_exit k vi_pipe d =
     (case cmos_get_info vi_pipe d of
        None \<Rightarrow> d
      | Some ci \<Rightarrow> (case cis_i2c_exit k ci (calls d) of (r, ci, tr) \<Rightarrow>
          put_info vi_pipe ci (d\<lparr>calls := tr\<rparr>)))"

definition sc431hai_isp_global_init :: "int \<Rightarrow> sc431hai_drv \<Rightarrow> sc431hai_drv" where
  "sc431hai_isp_global_init vi_pipe d =
     (case cmos_get_info vi_pipe d of
        None \<Rightarrow> d
      | Some ci \<Rightarrow> (case sns_state ci of
          None \<Rightarrow> d
        | Some st \<Rightarrow> put_state vi_pipe (st\<lparr>init := False, sync_init := False, img_mode := 0,
            wdr_mode := OT_WDR_MODE_NONE, fl_std := push_bit 1 1500,
            fl := (fl st)(0 := push_bit 1 1500, 1 := push_bit 1 1500),
            regs_info := (regs_info st)(0 := zero_regs_info, 1 := zero_regs_info)\<rparr>) d))"

definition sc431hai_isp_set_pixel_detect :: "sdk \<Rightarrow> int \<Rightarrow> bool \<Rightarrow> sc431hai_drv \<Rightarrow> sc431hai_drv" where
  "sc431hai_isp_set_pixel_detect k vi_pipe enable d =
     (case cmos_get_info vi_pipe d of
        None \<Rightarrow> d
      | Some ci \<Rightarrow> (case sns_state ci of
          None \<Rightarrow> d
        | Some st \<Rightarrow>
            if wdr_mode st = OT_WDR_MODE_2To1_LINE then d
            else if img_mode st \<noteq> 0 then d
            else
              (let full_lines_5fps = (1500 * 30) div 5
               in if enable
                  then drv_writes k (i2c ci)
                    [(0x3E09, 0x40), (0x3E08, 0x03), (0x3E06, 0x00), (0x3E07, 0x80),
                     (0x320F, low_8bits full_lines_5fps), (0x320E, high_8bits full_lines_5fps),
                     (0x3E02, lower_4bits (full_lines_5fps - 10)),
                     (0x3E01, higher_8bits (full_lines_5fps - 10)),
                     (0x3E00, higher_4bits (full_lines_5fps - 10))] d
                  else
                    (let v = (if 0x4650 < fl_std st then 0x4650 else fl_std st)
                     in put_state vi_pipe (st\<lparr>fl_std := v, sync_init := False\<rparr>)
                          (drv_writes k (i2c ci) [(0x320F, low_8bits v), (0x320E, high_8bits v)] d)))))"

definition sc431hai_init_sensor_exp_function :: "sdk \<Rightarrow> isp_build \<Rightarrow> sc431hai_drv ot_isp_sns_exp_func" where
  "sc431hai_init_sensor_exp_function k b = \<lparr>
     pfn_cmos_sns_init = sc431hai_isp_init k,
     pfn_cmos_sns_exit = sc431hai_isp_exit k,
     pfn_cmos_sns_global_init = sc431hai_isp_global_init,
     pfn_cmos_set_image_mode = sc431hai_isp_set_image_mode,
     pfn_cmos_set_wdr_mode = sc431hai_isp_set_wdr_mode k,
     pfn_cmos_get_isp_default = sc431hai_isp_get_default b,
     pfn_cmos_get_isp_black_level = sc431hai_isp_get_black_level b,
     pfn_cmos_get_blc_clamp_info = sc431hai_isp_get_blc_clamp_info,
     pfn_cmos_set_pixel_detect = sc431hai_isp_set_pixel_detect k,
     pfn_cmos_get_sns_reg_info = sc431hai_isp_get_sns_regs_info,
     pfn_cmos_get_standby_cfg = None\<rparr>"

section \<open>The sensor object\<close>

text \<open>The flags say whether the library pointers \<^verbatim>\<open>ae_lib\<close> and \<^verbatim>\<open>awb_lib\<close> are given.\<close>

definition sc431hai_register_callback ::
  "sdk \<Rightarrow> int \<Rightarrow> bool \<Rightarrow> bool \<Rightarrow> sc431hai_drv \<Rightarrow> ret \<times> sc431hai_drv" where
  "sc431hai_register_callback k vi_pipe ae_lib awb_lib d =
     (case cmos_get_info vi_pipe d of
        None \<Rightarrow> (OT_ERR_ISP_ILLEGAL_PARAM, d)
      | Some ci \<Rightarrow>
          if \<not> ae_lib \<or> \<not> awb_lib then (OT_ERR_ISP_NULL_PTR, d)
          else case cis_register_callback k (ci\<lparr>pipe := vi_pipe\<rparr>) (calls d) of (r, ci, tr) \<Rightarrow>
            (r, put_info vi_pipe ci (d\<lparr>calls := tr\<rparr>)))"

definition sc431hai_unregister_callback ::
  "sdk \<Rightarrow> int \<Rightarrow> bool \<Rightarrow> bool \<Rightarrow> sc431hai_drv \<Rightarrow> ret \<times> sc431hai_drv" where
  "sc431hai_unregister_callback k vi_pipe ae_lib awb_lib d =
     (case cmos_get_info vi_pipe d of
        None \<Rightarrow> (OT_ERR_ISP_ILLEGAL_PARAM, d)
      | Some ci \<Rightarrow>
          if \<not> ae_lib \<or> \<not> awb_lib then (OT_ERR_ISP_NULL_PTR, d)
          else case cis_unregister_callback k ci (calls d) of (r, ci, tr) \<Rightarrow>
            (r, put_info vi_pipe ci (d\<lparr>calls := tr\<rparr>)))"

definition sc431hai_standby :: "int \<Rightarrow> sc431hai_drv \<Rightarrow> sc431hai_drv option" where
  "sc431hai_standby vi_pipe d = Some d"

definition sc431hai_restart :: "int \<Rightarrow> sc431hai_drv \<Rightarrow> sc431hai_drv" where
  "sc431hai_restart vi_pipe d = d"

definition sc431hai_write_register ::
  "sdk \<Rightarrow> int \<Rightarrow> u32 \<Rightarrow> u32 \<Rightarrow> sc431hai_drv \<Rightarrow> ret \<times> sc431hai_drv" where
  "sc431hai_write_register k vi_pipe addr dat d =
     (case cmos_get_info vi_pipe d of
        None \<Rightarrow> (OT_ERR_ISP_ILLEGAL_PARAM, d)
      | Some ci \<Rightarrow> drv_write k (i2c ci) addr dat d)"

definition sc431hai_read_register :: "int \<Rightarrow> u32 \<Rightarrow> ret" where
  "sc431hai_read_register vi_pipe addr = TD_SUCCESS"

definition sc431hai_set_bus_info :: "int \<Rightarrow> int \<Rightarrow> sc431hai_drv \<Rightarrow> ret \<times> sc431hai_drv" where
  "sc431hai_set_bus_info vi_pipe bus d =
     (case cmos_get_info vi_pipe d of
        None \<Rightarrow> (OT_ERR_ISP_ILLEGAL_PARAM, d)
      | Some ci \<Rightarrow> (TD_SUCCESS, put_info vi_pipe (ci\<lparr>i2c_dev := bus\<rparr>) d))"

definition sc431hai_set_init ::
  "int \<Rightarrow> ot_isp_init_attr option \<Rightarrow> sc431hai_drv \<Rightarrow> ret \<times> sc431hai_drv" where
  "sc431hai_set_init vi_pipe attr d =
     (case cmos_get_info vi_pipe d of
        None \<Rightarrow> (OT_ERR_ISP_ILLEGAL_PARAM, d)
      | Some ci \<Rightarrow> (case attr of
          None \<Rightarrow> (OT_ERR_ISP_NULL_PTR, d)
        | Some a \<Rightarrow> (TD_SUCCESS, put_info vi_pipe (cis_init_attr ci a) d)))"

definition g_sns_sc431hai_obj :: "sdk \<Rightarrow> sc431hai_drv ot_isp_sns_obj" where
  "g_sns_sc431hai_obj k = \<lparr>
     pfn_register_callback = sc431hai_register_callback k,
     pfn_un_register_callback = sc431hai_unregister_callback k,
     pfn_standby = sc431hai_standby,
     pfn_restart = sc431hai_restart,
     pfn_mirror_flip = None,
     pfn_set_blc_clamp = None,
     pfn_write_reg = sc431hai_write_register k,
     pfn_read_reg = sc431hai_read_register,
     pfn_set_bus_info = sc431hai_set_bus_info,
     pfn_set_init = sc431hai_set_init,
     pfn_set_fast_ae = None\<rparr>"

end
