(* ===== verification/Sc431hai_Gain.thy ===== *)
theory Sc431hai_Gain
  imports Sc431hai
begin

text \<open>
  The analog gain of the SC431HAI: the search that \<^verbatim>\<open>cmos_again_calc_table\<close> carries out in single
  precision with the dual conversion gain is the plain table search on a scaled request, stays
  below the request and is monotone.
\<close>

unbundle bit_operations_syntax

section \<open>Analog gain\<close>

lemma sc431hai_dcg_ratio_eq: "sc431hai_dcg_ratio = 1614807 / 1048576"
  unfolding sc431hai_dcg_ratio_def by (subst f32_rnd_eval [of _ 23 12918456]) simp_all

lemma sc431hai_with_dcg_mono:
  assumes "x \<le> y" "y \<le> 32512"
  shows "sc431hai_with_dcg x \<le> sc431hai_with_dcg y"
proof -
  have u: "uint x \<le> uint y" "uint y \<le> 32512" using assms by (auto simp: word_le_def)
  let ?r = "1614807 / 1048576 :: rat"
  let ?m = "\<lambda>z. f32_mul (u32_to_f32 z) sc431hai_dcg_ratio"
  have m: "?m z = f32_rnd (of_int (uint z) * ?r)" if "uint z \<le> 32512" for z
    using that by (simp add: f32_mul_def u32_to_f32_exact sc431hai_dcg_ratio_eq)
  have i: "(0::rat) \<le> of_int (uint x)" "(of_int (uint x) :: rat) \<le> of_int (uint y)"
      "(of_int (uint y) :: rat) \<le> of_int 32512"
    using u by (simp_all only: of_int_le_iff of_int_0_le_iff uint_nonnegative)
  have "0 \<le> of_int (uint x) * ?r" "of_int (uint x) * ?r \<le> of_int (uint y) * ?r"
      "of_int (uint y) * ?r \<le> of_int 50069"
    using i by linarith+
  then have "0 \<le> ?m x" "?m x \<le> ?m y" "?m y \<le> of_int 50069"
    using u m [of x] m [of y] f32_rnd_mono f32_rnd_nonneg f32.rnd_le_int [of 50069] by auto
  moreover define a b where "a = \<lfloor>?m x\<rfloor>" "b = \<lfloor>?m y\<rfloor>"
  ultimately have "0 \<le> a" "a \<le> b" "b \<le> 50069"
    using floor_mono [of "?m y" "of_int 50069"] by (auto intro: floor_mono)
  then show ?thesis
    by (simp add: sc431hai_with_dcg_def f32_to_u32_def word_le_def uint_word_of_int
        a_b_def [symmetric])
qed

lemma sc431hai_with_dcg_ends: "sc431hai_with_dcg 1024 = 1576" "sc431hai_with_dcg 32512 = 50068"
proof -
  have "f32_rnd (1614807 / 1024) = 12918456 / 8192"
    by (subst f32_rnd_eval [of _ 13 12918456]) simp_all
  then show "sc431hai_with_dcg 1024 = 1576"
    using f32_to_u32_eval [of 1576]
    by (simp add: sc431hai_with_dcg_def f32_mul_def u32_to_f32_def sc431hai_dcg_ratio_eq)
  have "f32_rnd (205080489 / 4096) = 12817531 / 256"
    by (subst f32_rnd_eval [of _ 8 12817531]) simp_all
  then show "sc431hai_with_dcg 32512 = 50068"
    using f32_to_u32_eval [of 50068]
    by (simp add: sc431hai_with_dcg_def f32_mul_def u32_to_f32_def sc431hai_dcg_ratio_eq)
qed

text \<open>The gain as a function of the request: the plain table up to 1.54, the table under the
  conversion gain above.\<close>

definition sc431hai_dcg_request :: "u32 \<Rightarrow> u32" where
  "sc431hai_dcg_request v = (if 50068 \<le> v then 32512
     else f32_to_u32 (f32_div (u32_to_f32 v) sc431hai_dcg_ratio))"

lemma sc431hai_again_ends:
  "sc431hai_again_index ! 0 = 1024" "sc431hai_again_index ! 319 = 32512" "length sc431hai_again_index = 320"
  by (simp_all add: sc431hai_again_index_def)

lemma sc431hai_dcg_split: "f32_mul 1024 sc431hai_dcg_ratio < u32_to_f32 v \<longleftrightarrow> 1577 \<le> v"
proof -
  have m: "f32_mul 1024 sc431hai_dcg_ratio = 12918456 / 8192"
    unfolding f32_mul_def sc431hai_dcg_ratio_eq by (subst f32_rnd_eval [of _ 13 12918456]) simp_all
  show ?thesis
  proof (cases "uint v \<le> 1576")
    case True
    then show ?thesis unfolding m using u32_to_f32_bounds(1) [of v 1576] by (simp add: word_le_def)
  next
    case False
    then show ?thesis unfolding m using u32_to_f32_bounds(2) [of 1577 v] by (simp add: word_le_def)
  qed
qed

lemma sc431hai_dcg_request_uint:
  assumes "v < 50068"
  shows "uint (sc431hai_dcg_request v) = \<lfloor>f32_rnd (of_int (uint v) * (1048576 / 1614807))\<rfloor>"
proof -
  let ?q = "of_int (uint v) * (1048576 / 1614807) :: rat"
  have v: "uint v \<le> 50067" "\<not> 50068 \<le> v" using assms by (auto simp: word_less_def not_le)
  have "(of_int 0 :: rat) \<le> of_int (uint v)" "(of_int (uint v) :: rat) \<le> of_int 50067"
    using v by (simp_all only: of_int_le_iff uint_nonnegative)
  then have "0 \<le> ?q" "?q \<le> of_int 32512" by linarith+
  then have "0 \<le> f32_rnd ?q" "f32_rnd ?q \<le> of_int 32512"
    using f32_rnd_nonneg f32.rnd_le_int [of 32512] by simp_all
  then have "0 \<le> \<lfloor>f32_rnd ?q\<rfloor>" "\<lfloor>f32_rnd ?q\<rfloor> < 2 ^ 32" by (auto simp: floor_less_iff)
  moreover have "sc431hai_dcg_request v = f32_to_u32 (f32_rnd ?q)"
    using v by (simp add: sc431hai_dcg_request_def f32_div_def u32_to_f32_exact sc431hai_dcg_ratio_eq)
  ultimately show ?thesis
    by (simp only: f32_to_u32_def uint_word_of_int mod_pos_pos_trivial len_num1 len_bit0) simp
qed

lemma sc431hai_dcg_request_range:
  assumes "1577 \<le> v" "v < 50068"
  shows "1024 \<le> uint (sc431hai_dcg_request v) \<and> uint (sc431hai_dcg_request v) \<le> 32511"
proof -
  let ?q = "of_int (uint v) * (1048576 / 1614807) :: rat"
  have "(of_int 1577 :: rat) \<le> of_int (uint v)" "(of_int (uint v) :: rat) \<le> of_int 50067"
    using assms by (simp_all only: of_int_le_iff) (simp_all add: word_le_def word_less_def)
  then have "of_int 1024 \<le> ?q" "?q \<le> of_int 130045 / 4" by linarith+
  then have "of_int 1024 \<le> f32_rnd ?q" "f32_rnd ?q \<le> of_int 130045 / 4"
    using f32.rnd_ge_int [of 1024 ?q] f32_rnd_le_quarter [of 130045 ?q] by simp_all
  then have "1024 \<le> \<lfloor>f32_rnd ?q\<rfloor>" "\<lfloor>f32_rnd ?q\<rfloor> < 32512"
    by (simp_all add: le_floor_iff floor_less_iff)
  then show ?thesis unfolding sc431hai_dcg_request_uint [OF assms(2)] by linarith
qed

lemma sc431hai_dcg_request_mono:
  assumes "1577 \<le> v" "v \<le> w"
  shows "sc431hai_dcg_request v \<le> sc431hai_dcg_request w"
proof (cases "w < 50068")
  case True
  then have v: "v < 50068" using assms by auto
  have "(of_int (uint v) :: rat) \<le> of_int (uint w)"
    using assms(2) by (simp only: of_int_le_iff word_le_def)
  then have "\<lfloor>f32_rnd (of_int (uint v) * (1048576 / 1614807))\<rfloor>
      \<le> \<lfloor>f32_rnd (of_int (uint w) * (1048576 / 1614807))\<rfloor>"
    by (intro floor_mono f32_rnd_mono) linarith
  then show ?thesis
    unfolding word_le_def sc431hai_dcg_request_uint [OF v] sc431hai_dcg_request_uint [OF True] .
next
  case False
  then have "sc431hai_dcg_request w = 32512" by (simp add: sc431hai_dcg_request_def not_less)
  then show ?thesis
    using sc431hai_dcg_request_range [OF assms(1)]
    by (cases "v < 50068") (auto simp: sc431hai_dcg_request_def word_le_def not_less)
qed

text \<open>The entry found, taken back to the scale of the request, does not exceed the request.\<close>

lemma sc431hai_with_dcg_request:
  assumes "1577 \<le> v" "x \<le> sc431hai_dcg_request v" "x \<le> 32512"
  shows "sc431hai_with_dcg x \<le> v"
proof (cases "v < 50068")
  case False
  then show ?thesis
    using sc431hai_with_dcg_mono [of x 32512] assms(3) sc431hai_with_dcg_ends(2) by simp
next
  case True
  let ?r = "1614807 / 1048576 :: rat" and ?x = "of_int (uint x) :: rat" and ?v = "of_int (uint v) :: rat"
  have u: "uint x \<le> 32512" "uint v < 50068" using assms(3) True by (auto simp: word_le_def word_less_def)
  have "uint x \<le> \<lfloor>f32_rnd (?v * (1048576 / 1614807))\<rfloor>"
    using assms(2) unfolding word_le_def sc431hai_dcg_request_uint [OF True] .
  then have xq: "?x \<le> f32_rnd (?v * (1048576 / 1614807))" by (simp only: le_floor_iff)
  have "?x * ?r \<le> of_int (4 * uint v + 2) / 4"
  proof (rule ccontr)
    assume "\<not> ?x * ?r \<le> of_int (4 * uint v + 2) / 4"
    then have "?v * (1048576 / 1614807) \<le> of_int (4 * uint x - 1) / 4" by simp
    moreover have "\<bar>4 * uint x - 1\<bar> \<le> 2 ^ 24"
    proof -
      have "- 16777216 \<le> 4 * uint x - 1" "4 * uint x - 1 \<le> 16777216"
        using u(1) uint_nonnegative [of x] by linarith+
      then show ?thesis by (simp only: abs_le_iff) simp
    qed
    ultimately have "f32_rnd (?v * (1048576 / 1614807)) \<le> of_int (4 * uint x - 1) / 4"
      by (intro f32_rnd_le_quarter)
    then show False using xq by simp
  qed
  then have "f32_rnd (?x * ?r) \<le> of_int (4 * uint v + 2) / 4"
    using u uint_nonnegative [of v] by (intro f32_rnd_le_quarter) auto
  then have "f32_rnd (?x * ?r) < of_int (uint v + 1)" by simp
  then have "\<lfloor>f32_rnd (?x * ?r)\<rfloor> < uint v + 1" by (simp only: floor_less_iff)
  moreover have "f32_mul (u32_to_f32 x) sc431hai_dcg_ratio = f32_rnd (?x * ?r)"
    using u by (simp add: f32_mul_def u32_to_f32_exact sc431hai_dcg_ratio_eq)
  moreover have "0 \<le> \<lfloor>f32_rnd (?x * ?r)\<rfloor>"
    unfolding zero_le_floor
    by (rule f32_rnd_nonneg) (use uint_nonnegative [of x] in \<open>simp only: zero_le_mult_iff of_int_0_le_iff\<close>, simp)
  ultimately show ?thesis
    using zmod_le_nonneg_dividend [of "\<lfloor>f32_rnd (?x * ?r)\<rfloor>" "2 ^ 32"]
    unfolding sc431hai_with_dcg_def f32_to_u32_def word_le_def uint_word_of_int by simp
qed

text \<open>The driver's search is the table search, on the request itself or scaled by the ratio.\<close>

lemma sc431hai_again_calc_eq:
  "sc431hai_again_calc (v, db) =
     (if v \<le> 1576 then gain_calc sc431hai_again_index sc431hai_again_table (v, db)
      else map_prod sc431hai_with_dcg (\<lambda>c. c OR 0x8000)
             (gain_calc sc431hai_again_index sc431hai_again_table (sc431hai_dcg_request v, db)))"
proof -
  let ?t = "f32_to_u32 (f32_div (u32_to_f32 v) sc431hai_dcg_ratio)"
  have some: "first_above x sc431hai_again_index \<noteq> None" if "x < 32512" for x
    using that sc431hai_again_ends
    by (auto simp: first_above_def find_upt_None intro!: exI [of _ 319])
  have split: "(1577 \<le> v) = (\<not> v \<le> 1576)" by (auto simp: word_le_def)
  consider (plain) "v \<le> 1576" | (dcg) "\<not> v \<le> 1576" "\<not> 50068 \<le> v" | (hi) "50068 \<le> v" "\<not> v \<le> 1576"
    by (auto simp: word_le_def)
  then show ?thesis
  proof cases
    case plain
    then have "\<not> 50068 \<le> v" "v < 32512" by (auto simp: word_le_def word_less_def)
    then show ?thesis
      using plain some [of v] sc431hai_again_ends
      by (auto simp: sc431hai_again_calc_def gain_calc_def sc431hai_with_dcg_ends sc431hai_dcg_split split
          split: option.splits)
  next
    case dcg
    then have e: "sc431hai_dcg_request v = ?t" by (simp add: sc431hai_dcg_request_def)
    have "?t < 32512"
      using sc431hai_dcg_request_range [of v] dcg unfolding e [symmetric]
      by (auto simp: word_less_def split not_le)
    then show ?thesis
      using dcg e some [of ?t] sc431hai_again_ends
      by (auto simp: sc431hai_again_calc_def gain_calc_def sc431hai_with_dcg_ends sc431hai_dcg_split split
          split: option.splits)
  next
    case hi
    then have "sc431hai_dcg_request v = 32512" by (simp add: sc431hai_dcg_request_def)
    moreover have "1 < sc431hai_dcg_ratio" by (simp add: sc431hai_dcg_ratio_eq)
    ultimately show ?thesis
      using hi sc431hai_again_ends
      by (simp add: sc431hai_again_calc_def gain_calc_def sc431hai_with_dcg_ends)
  qed
qed

lemma sc431hai_again_found:
  "1024 \<le> fst (gain_calc sc431hai_again_index sc431hai_again_table x)"
  "fst (gain_calc sc431hai_again_index sc431hai_again_table x) \<le> 32512"
  "1024 \<le> v \<Longrightarrow> fst (gain_calc sc431hai_again_index sc431hai_again_table (v, b)) \<le> v"
  using sc431hai_again.calc_bounds [of "fst x" "snd x"] sc431hai_again.calc_not_above [of v b]
    sc431hai_again_ends by simp_all

lemma sc431hai_dcg_request_ge:
  assumes "1577 \<le> w"
  shows "1024 \<le> sc431hai_dcg_request w"
  using sc431hai_dcg_request_range [OF assms]
  by (cases "w < 50068") (auto simp: word_le_def sc431hai_dcg_request_def not_less)

lemma sc431hai_dcg_found:
  "1576 \<le> sc431hai_with_dcg (fst (gain_calc sc431hai_again_index sc431hai_again_table x))"
  "sc431hai_with_dcg (fst (gain_calc sc431hai_again_index sc431hai_again_table x)) \<le> 50068"
  using sc431hai_with_dcg_mono [OF sc431hai_again_found(1,2) [of x]]
    sc431hai_with_dcg_mono [OF sc431hai_again_found(2) [of x]] sc431hai_with_dcg_ends by simp_all

lemma above_1576: "\<not> w \<le> 1576 \<Longrightarrow> 1577 \<le> w" for w :: u32
  by (simp add: word_le_def)

lemma sc431hai_again_calc_le: "1024 \<le> v \<Longrightarrow> fst (sc431hai_again_calc (v, b)) \<le> v"
proof (cases "v \<le> 1576")
  case False
  note v = above_1576 [OF False]
  show ?thesis
    using False sc431hai_with_dcg_request [OF v sc431hai_again_found(3) [OF sc431hai_dcg_request_ge [OF v]]
        sc431hai_again_found(2)]
    by (simp add: sc431hai_again_calc_eq)
qed (simp add: sc431hai_again_calc_eq sc431hai_again_found)

lemma sc431hai_again_calc_mono:
  assumes "1024 \<le> v" "v \<le> w"
  shows "fst (sc431hai_again_calc (v, a)) \<le> fst (sc431hai_again_calc (w, b))"
proof -
  consider (low) "w \<le> 1576" "v \<le> 1576" | (mixed) "v \<le> 1576" "\<not> w \<le> 1576"
    | (high) "\<not> v \<le> 1576" "\<not> w \<le> 1576"
    using assms(2) by (meson order_trans)
  then show ?thesis
  proof cases
    case low
    then show ?thesis using sc431hai_again.calc_mono [OF assms(2)] by (simp add: sc431hai_again_calc_eq)
  next
    case mixed
    have "fst (sc431hai_again_calc (v, a)) \<le> 1576"
      using sc431hai_again_calc_le [OF assms(1)] mixed(1) by (rule order_trans)
    also have "1576 \<le> fst (sc431hai_again_calc (w, b))"
      using mixed(2) sc431hai_dcg_found(1) by (simp add: sc431hai_again_calc_eq)
    finally show ?thesis .
  next
    case high
    have "sc431hai_dcg_request v \<le> sc431hai_dcg_request w"
      using above_1576 [OF high(1)] assms(2) by (rule sc431hai_dcg_request_mono)
    then show ?thesis
      using high sc431hai_with_dcg_mono [OF sc431hai_again.calc_mono sc431hai_again_found(2)]
      by (simp add: sc431hai_again_calc_eq)
  qed
qed

lemma sc431hai_again_calc_table_eq:
  "sc431hai_again_calc_table p (Some v) (Some db) =
     (Some (fst (sc431hai_again_calc (v, db))), Some (snd (sc431hai_again_calc (v, db))))"
  by (simp add: sc431hai_again_calc_table_def map_prod_def split: prod.split)



text \<open>
  The reported analog gain is not stable under the conversion gain.  A request of 1602 is answered
  with 1601, the entry 1040 under the ratio 1.54; a request of 1601 is answered with 1576, because
  both conversions cut off the fraction and 1601 divided by the ratio falls below 1040.
\<close>

theorem sc431hai_again_unstable:
  "sc431hai_again_calc_table p (Some 1602) (Some db) = (Some 1601, Some 0x8041) \<and>
   sc431hai_again_calc_table p (Some 1601) (Some db) = (Some 1576, Some 0x8040)"
proof -
  have "f32_rnd (186646528 / 179423) = 8521808 / 8192" "f32_rnd (1678770176 / 1614807) = 8516489 / 8192"
    by (subst f32_rnd_eval [of _ 13 8521808], simp_all) (subst f32_rnd_eval [of _ 13 8516489], simp_all)
  then have "sc431hai_dcg_request 1602 = 1040" "sc431hai_dcg_request 1601 = 1039"
    using f32_to_u32_eval [of 1040] f32_to_u32_eval [of 1039]
    by (simp_all add: sc431hai_dcg_request_def f32_div_def u32_to_f32_def sc431hai_dcg_ratio_eq)
  moreover have "gain_calc sc431hai_again_index sc431hai_again_table (1040, db) = (1040, 0x41)"
    "gain_calc sc431hai_again_index sc431hai_again_table (1039, db) = (1024, 0x40)"
    by (simp_all add: gain_calc_def first_above_def upt_rec sc431hai_again_index_def sc431hai_again_table_def)
  moreover have "f32_rnd (104962455 / 65536) = 13120307 / 8192"
    by (subst f32_rnd_eval [of _ 13 13120307]) simp_all
  then have "sc431hai_with_dcg 1040 = 1601"
    using f32_to_u32_eval [of 1601]
    by (simp add: sc431hai_with_dcg_def f32_mul_def u32_to_f32_def sc431hai_dcg_ratio_eq)
  ultimately show ?thesis
    by (simp add: sc431hai_again_calc_table_eq sc431hai_again_calc_eq sc431hai_with_dcg_ends)
qed

end
