(* ===== verification/Sc431hai_Control.thy ===== *)
theory Sc431hai_Control
  imports Sc431hai
begin

text \<open>
  Frame rates, the operating range and the register protocol of the SC431HAI: frame lengths are
  even numbers of lines, every operation keeps the driver in its operating range, and the
  registers of the sensor follow those of the driver in both modes.
\<close>

unbundle bit_operations_syntax

section \<open>Even frame lengths\<close>

lemma unat_even_floor: "unat (push_bit 1 (drop_bit 1 x)) = 2 * (unat x div 2)" for x :: u32
proof -
  have "unat x div 2 < 2147483648" using unat_le_max [of x] by linarith
  then show ?thesis unfolding unat_push_bit unat_drop_bit by simp
qed

lemma unat_even_up:
  "unat x < 2 ^ 32 - 1 \<Longrightarrow> unat (push_bit 1 (drop_bit 1 (x + 1))) = 2 * ((unat x + 1) div 2)" for x :: u32
  unfolding unat_even_floor by (simp add: unat_word_ariths)

lemma unat_double: "unat x < 2 ^ 31 \<Longrightarrow> unat (push_bit 1 x) = 2 * unat x" for x :: u32
  unfolding unat_push_bit by simp

text \<open>The frame length register for a rate: the quotient in single precision, rounded up to even.\<close>

definition sc431hai_vmax :: "u32 \<Rightarrow> f32 \<Rightarrow> u32" where
  "sc431hai_vmax lns fps =
     push_bit 1 (drop_bit 1 (f32_to_u32 (f32_div (f32_mul (u32_to_f32 lns) 30) fps) + 1))"

definition sc431hai_min_fps :: "u32 \<Rightarrow> f32" where
  "sc431hai_min_fps lns = (if lns = 1500 then 5 / 2 else 10)"

definition sc431hai_max_lines :: "u32 \<Rightarrow> u32" where
  "sc431hai_max_lines lns = (if lns = 1500 then 18000 else 9000)"

lemma sc431hai_vmax_range:
  assumes "lns = 1500 \<or> lns = 3000" "sc431hai_min_fps lns \<le> fps" "fps \<le> 30"
  shows "unat lns \<le> unat (sc431hai_vmax lns fps) \<and> even (unat (sc431hai_vmax lns fps)) \<and>
    unat (sc431hai_vmax lns fps) \<le> unat (sc431hai_max_lines lns)"
proof -
  let ?raw = "f32_to_u32 (f32_div (f32_mul (u32_to_f32 lns) 30) fps)"
  have l: "u32_to_f32 1500 = 1500" "u32_to_f32 3000 = 3000" by (simp_all add: u32_to_f32_def)
  have "uint lns \<le> uint ?raw \<and> uint ?raw \<le> uint (sc431hai_max_lines lns)"
    using assms(1)
  proof
    assume "lns = 1500"
    then show ?thesis
      using frame_length_bounds [of fps 30 1500 18000] assms(2,3) l
      by (simp add: sc431hai_min_fps_def sc431hai_max_lines_def)
  next
    assume "lns = 3000"
    then show ?thesis
      using frame_length_bounds [of fps 30 3000 9000] assms(2,3) l
      by (simp add: sc431hai_min_fps_def sc431hai_max_lines_def)
  qed
  then have "unat lns \<le> unat ?raw" "unat ?raw \<le> unat (sc431hai_max_lines lns)"
    by (simp_all add: word_le_nat_alt [symmetric] word_le_def)
  moreover from this have "unat ?raw < 2 ^ 32 - 1"
    by (auto simp: sc431hai_max_lines_def split: if_splits)
  ultimately show ?thesis
    unfolding sc431hai_vmax_def unat_even_up [OF \<open>unat ?raw < 2 ^ 32 - 1\<close>] using assms(1)
    by (auto simp: sc431hai_max_lines_def)
qed

section \<open>The invariant of a running driver\<close>

text \<open>
  After the global initialisation: the image mode indexes the mode table, the WDR mode is one of
  the two the sensor has, and the standard and the current frame length are multiples of four
  half lines between 3000 and 36000.  The static arrays have one cell per pipe.
\<close>

definition sc431hai_fl_ok :: "u32 \<Rightarrow> bool" where
  "sc431hai_fl_ok n \<longleftrightarrow> 4 dvd unat n \<and> 3000 \<le> unat n \<and> unat n \<le> 36000"

definition sc431hai_st_ok :: "ot_isp_sns_state \<Rightarrow> bool" where
  "sc431hai_st_ok st \<longleftrightarrow> img_mode st \<in> {0, 1} \<and>
     wdr_mode st \<in> {OT_WDR_MODE_NONE, OT_WDR_MODE_2To1_LINE} \<and>
     sc431hai_fl_ok (fl_std st) \<and> sc431hai_fl_ok (fl st 0)"

definition sc431hai_arrays :: "sc431hai_drv \<Rightarrow> bool" where
  "sc431hai_arrays d \<longleftrightarrow> length (is_first d) = length (g_info d) \<and>
     length (short_int_time d) = length (g_info d) \<and> length (long_int_time d) = length (g_info d)"

definition sc431hai_ok :: "int \<Rightarrow> sc431hai_drv \<Rightarrow> bool" where
  "sc431hai_ok p d \<longleftrightarrow> sc431hai_arrays d \<and> (\<exists>ci st. cmos_get_info p d = Some ci \<and>
     mode_tbl ci = sc431hai_mode_tbl \<and> sns_state ci = Some st \<and> sc431hai_st_ok st)"

lemma sc431hai_okE:
  assumes "sc431hai_ok p d"
  obtains ci st where "sc431hai_arrays d" "cmos_get_info p d = Some ci"
    "mode_tbl ci = sc431hai_mode_tbl" "sns_state ci = Some st" "sc431hai_st_ok st"
  using assms unfolding sc431hai_ok_def by blast

lemma sc431hai_fl_ok_double:
  "even (unat v) \<Longrightarrow> 1500 \<le> unat v \<Longrightarrow> unat v \<le> 18000 \<Longrightarrow> sc431hai_fl_ok (push_bit 1 v)"
  unfolding sc431hai_fl_ok_def using unat_double [of v] by auto

lemma sc431hai_fl_ok_consts [simp]:
  "sc431hai_fl_ok 3000" "sc431hai_fl_ok 6000" "sc431hai_fl_ok 18000"
  by (simp_all add: sc431hai_fl_ok_def)

lemma sc431hai_rows:
  assumes "mode_tbl ci = sc431hai_mode_tbl" "sc431hai_st_ok st"
  shows "(ver_lines (cur_mode ci st) = 1500 \<or> ver_lines (cur_mode ci st) = 3000) \<and>
    max_ver_lines (cur_mode ci st) = sc431hai_max_lines (ver_lines (cur_mode ci st)) \<and>
    max_fps (cur_mode ci st) = 30 \<and> min_fps (cur_mode ci st) = sc431hai_min_fps (ver_lines (cur_mode ci st))"
  using assms by (auto simp: sc431hai_st_ok_def cur_mode_def sc431hai_mode_tbl_def sc431hai_max_lines_def
      sc431hai_min_fps_def)

lemma sc431hai_st_ok_set_data [simp]: "sc431hai_st_ok (set_data j v st) = sc431hai_st_ok st"
  by (simp add: sc431hai_st_ok_def)

lemma sc431hai_st_ok_flags [simp]:
  "sc431hai_st_ok (st\<lparr>sync_init := b\<rparr>) = sc431hai_st_ok st"
  "sc431hai_st_ok (st\<lparr>init := b\<rparr>) = sc431hai_st_ok st"
  "sc431hai_st_ok (st\<lparr>regs_info := r\<rparr>) = sc431hai_st_ok st"
  "sc431hai_st_ok (st\<lparr>wdr_int_time := t\<rparr>) = sc431hai_st_ok st"
  by (simp_all add: sc431hai_st_ok_def)

lemma sc431hai_arrays_frame [simp]:
  "sc431hai_arrays (put_info p ci d) = sc431hai_arrays d"
  "sc431hai_arrays (put_state p st d) = sc431hai_arrays d"
  "sc431hai_arrays (d\<lparr>calls := tr\<rparr>) = sc431hai_arrays d"
  by (auto simp: sc431hai_arrays_def put_info_def put_state_def split: option.splits)

lemma sc431hai_arrays_bus [simp]:
  "sc431hai_arrays (snd (drv_write k i a v d)) = sc431hai_arrays d"
  "sc431hai_arrays (drv_writes k i ws d) = sc431hai_arrays d"
  "sc431hai_arrays (snd (start_sequence k i cfg ws d)) = sc431hai_arrays d"
  using drv_write_calls [of k i a v d] drv_writes_calls [of k i ws d]
    start_sequence_calls [of k i cfg ws d] by (auto simp: sc431hai_arrays_def)

lemma sc431hai_ok_writes [simp]:
  "sc431hai_ok p (drv_writes k i ws d) = sc431hai_ok p d"
  "sc431hai_ok p (snd (drv_write k i a v d)) = sc431hai_ok p d"
  by (simp_all add: sc431hai_ok_def)

lemma sc431hai_ok_put_state: "sc431hai_ok p d \<Longrightarrow> sc431hai_st_ok st \<Longrightarrow> sc431hai_ok p (put_state p st d)"
  by (auto simp: sc431hai_ok_def)

lemma sc431hai_fps_set_cases:
  fixes fps
  assumes k: "div_guards k" and ci: "cmos_get_info p d = Some ci" "mode_tbl ci = sc431hai_mode_tbl"
    and st: "sns_state ci = Some st" "sc431hai_st_ok st"
  defines "lns \<equiv> ver_lines (cur_mode ci st)"
  defines "v \<equiv> sc431hai_vmax lns fps"
  shows "if sc431hai_min_fps lns \<le> fps \<and> fps \<le> 30
    then \<exists>a' l. sc431hai_fps_set k p fps (Some a) d =
      (Some a', put_info p (ci\<lparr>lines_per500ms := l, sns_state := Some
         ((set_data 8 (high_8bits v) (set_data 7 (low_8bits v) st))
            \<lparr>fl_std := push_bit 1 v, fl := (fl st)(0 := push_bit 1 v)\<rparr>)\<rparr>) d) \<and>
      dft_fps a' = fps \<and> dft_full_lines a' = push_bit 1 v \<and>
      dft_max_int_time a' =
        (if wdr_mode st = OT_WDR_MODE_NONE then push_bit 1 v - 11 else push_bit 1 v - 21 - 19)
    else sc431hai_fps_set k p fps (Some a) d = (Some a, d)"
proof -
  note rows = sc431hai_rows [OF ci(2) st(2)]
  show ?thesis
  proof (cases "sc431hai_min_fps lns \<le> fps \<and> fps \<le> 30")
    case True
    have "1 \<le> sc431hai_min_fps lns" by (simp add: sc431hai_min_fps_def)
    then have g: "div_0_to_1_float k fps = fps" using k True by (auto simp: div_guards_def)
    have "unat v \<le> unat (sc431hai_max_lines lns)"
      using sc431hai_vmax_range [of lns fps] rows True unfolding v_def lns_def by blast
    then have c: "\<not> sc431hai_max_lines lns < v" by (simp add: word_less_nat_alt)
    show ?thesis
      using ci st rows [THEN conjunct2] True g c
      by (auto simp: sc431hai_fps_set_def Let_def sc431hai_config_vmax_def lns_def [symmetric]
          v_def sc431hai_vmax_def)
  next
    case False
    then have "30 < fps \<or> fps < sc431hai_min_fps lns" by auto
    then show ?thesis
      using ci st rows False by (auto simp: sc431hai_fps_set_def Let_def lns_def)
  qed
qed

lemma sc431hai_vmax_ok:
  assumes "mode_tbl ci = sc431hai_mode_tbl" "sc431hai_st_ok st"
    "sc431hai_min_fps (ver_lines (cur_mode ci st)) \<le> fps" "fps \<le> 30"
  shows "sc431hai_fl_ok (push_bit 1 (sc431hai_vmax (ver_lines (cur_mode ci st)) fps))"
proof (rule sc431hai_fl_ok_double)
  let ?l = "ver_lines (cur_mode ci st)"
  have l: "?l = 1500 \<or> ?l = 3000" using sc431hai_rows [OF assms(1,2)] by blast
  note r = sc431hai_vmax_range [OF l assms(3,4)]
  show "even (unat (sc431hai_vmax ?l fps))" using r by blast
  show "1500 \<le> unat (sc431hai_vmax ?l fps)" "unat (sc431hai_vmax ?l fps) \<le> 18000"
    using l r by (auto simp: sc431hai_max_lines_def)
qed

lemma sc431hai_fps_set_ok:
  assumes "div_guards k" "sc431hai_ok p d"
  shows "sc431hai_ok p (snd (sc431hai_fps_set k p fps ae d))"
proof -
  obtain ci st where c: "sc431hai_arrays d" "cmos_get_info p d = Some ci"
    "mode_tbl ci = sc431hai_mode_tbl" "sns_state ci = Some st" "sc431hai_st_ok st"
    using assms(2) by (rule sc431hai_okE)
  show ?thesis
  proof (cases ae)
    case None
    then show ?thesis using assms by (simp add: sc431hai_fps_set_def split: option.splits)
  next
    case (Some a)
    note f = sc431hai_fps_set_cases [OF assms(1) c(2-5), of fps a]
    show ?thesis
    proof (cases "sc431hai_min_fps (ver_lines (cur_mode ci st)) \<le> fps \<and> fps \<le> 30")
      case True
      then have "sc431hai_fl_ok (push_bit 1 (sc431hai_vmax (ver_lines (cur_mode ci st)) fps))"
        using sc431hai_vmax_ok [OF c(3,5)] by blast
      then show ?thesis
        using f True Some c by (auto simp: sc431hai_ok_def sc431hai_st_ok_def)
    next
      case False
      then show ?thesis using f Some assms(2) by auto
    qed
  qed
qed

lemma sc431hai_slow_framerate_set_ok:
  assumes "sc431hai_ok p d"
  shows "sc431hai_ok p (snd (sc431hai_slow_framerate_set p full_lines ae d))"
proof (cases ae)
  case None
  then show ?thesis using assms by (simp add: sc431hai_slow_framerate_set_def split: option.splits)
next
  case (Some a)
  obtain ci st where c: "sc431hai_arrays d" "cmos_get_info p d = Some ci"
    "mode_tbl ci = sc431hai_mode_tbl" "sns_state ci = Some st" "sc431hai_st_ok st"
    using assms by (rule sc431hai_okE)
  let ?x = "push_bit 1 (drop_bit 1 (drop_bit 1 (full_lines + 11) + 1))"
  let ?v = "clip3 ?x 1500 (max_ver_lines (cur_mode ci st))"
  have "even (unat ?x)" unfolding unat_even_floor by simp
  moreover have "max_ver_lines (cur_mode ci st) = 18000 \<or> max_ver_lines (cur_mode ci st) = 9000"
    using sc431hai_rows [OF c(3,5)] by (auto simp: sc431hai_max_lines_def)
  ultimately have "even (unat ?v) \<and> 1500 \<le> unat ?v \<and> unat ?v \<le> 18000"
    unfolding clip3_def by (auto simp: word_less_nat_alt simp del: One_nat_def)
  then have "sc431hai_fl_ok (push_bit 1 ?v)" by (intro sc431hai_fl_ok_double) auto
  then show ?thesis
    using c Some
    by (auto simp: sc431hai_slow_framerate_set_def Let_def sc431hai_ok_def sc431hai_st_ok_def)
qed

lemma get_info_statics [simp]:
  "cmos_get_info p (d\<lparr>short_int_time := a, is_first := b\<rparr>) = cmos_get_info p d"
  "cmos_get_info p (d\<lparr>long_int_time := a, is_first := b\<rparr>) = cmos_get_info p d"
  by (simp_all add: cmos_get_info_def)

lemma sc431hai_arrays_statics [simp]:
  "sc431hai_arrays (d\<lparr>short_int_time := (short_int_time d)[i := v], is_first := (is_first d)[i := b]\<rparr>) =
     sc431hai_arrays d"
  "sc431hai_arrays (d\<lparr>long_int_time := (long_int_time d)[i := v], is_first := (is_first d)[i := b]\<rparr>) =
     sc431hai_arrays d"
  by (simp_all add: sc431hai_arrays_def)

lemma sc431hai_inttime_update_ok: "sc431hai_ok p d \<Longrightarrow> sc431hai_ok p (sc431hai_inttime_update p t d)"
  by (auto simp: sc431hai_inttime_update_def sc431hai_inttime_update_linear_def Let_def
      sc431hai_inttime_update_2to1_line_def sc431hai_ok_def)

lemma sc431hai_gains_update_ok: "sc431hai_ok p d \<Longrightarrow> sc431hai_ok p (sc431hai_gains_update p a g d)"
  by (auto simp: sc431hai_gains_update_def Let_def sc431hai_ok_def cmos_get_state_def)

lemma sc431hai_attr_ok:
  assumes "sc431hai_ok p d"
  shows "sc431hai_ok p (sc431hai_ae_fswdr_attr_set p m d)"
    and "sc431hai_ok p (snd (sc431hai_set_bus_info p bus d))"
    and "sc431hai_ok p (snd (sc431hai_set_init p ia d))"
    and "sc431hai_ok p (sc431hai_restart p d)"
    and "sc431hai_ok p (snd (sc431hai_write_register k p addr dat d))"
    and "sc431hai_standby p d = Some e \<Longrightarrow> sc431hai_ok p e"
  using assms
  by (auto simp: sc431hai_ok_def sc431hai_ae_fswdr_attr_set_def sc431hai_set_bus_info_def
      sc431hai_set_init_def cis_init_attr_def sc431hai_restart_def sc431hai_standby_def
      sc431hai_write_register_def split: option.splits)

lemma sc431hai_set_wdr_mode_ok:
  "sc431hai_ok p d \<Longrightarrow> sc431hai_ok p (snd (sc431hai_isp_set_wdr_mode k p m d))"
  by (auto simp: sc431hai_isp_set_wdr_mode_def Let_def sc431hai_ok_def sc431hai_st_ok_def
      split: ot_wdr_mode.splits)

lemma sc431hai_set_image_mode_ok:
  assumes "sc431hai_ok p d"
  shows "sc431hai_ok p (snd (sc431hai_isp_set_image_mode p im d))"
proof -
  obtain ci st where c: "sc431hai_arrays d" "cmos_get_info p d = Some ci"
    "mode_tbl ci = sc431hai_mode_tbl" "sns_state ci = Some st" "sc431hai_st_ok st"
    using assms by (rule sc431hai_okE)
  have two: "i = 0 \<or> i = 1" if "List.find P [0..<2] = Some i" for P i
    using find_upt_Some [OF that] by auto
  show ?thesis
    using c assms
    by (auto simp: sc431hai_isp_set_image_mode_def Let_def sc431hai_isp_config_image_mode_param_def
        sc431hai_st_ok_def split: option.splits intro!: sc431hai_ok_put_state dest!: two)
qed

lemma sc431hai_reg_info_fields [simp]:
  "fl (sc431hai_sns_reg_info_init ci st) = fl st" "fl_std (sc431hai_sns_reg_info_init ci st) = fl_std st"
  "img_mode (sc431hai_sns_reg_info_init ci st) = img_mode st"
  "wdr_mode (sc431hai_sns_reg_info_init ci st) = wdr_mode st"
  "fl (sc431hai_sns_reg_info_update st) = fl st" "fl_std (sc431hai_sns_reg_info_update st) = fl_std st"
  "img_mode (sc431hai_sns_reg_info_update st) = img_mode st"
  "wdr_mode (sc431hai_sns_reg_info_update st) = wdr_mode st"
  "sync_init (sc431hai_sns_reg_info_update st) = sync_init st"
  by (simp_all add: sc431hai_sns_reg_info_init_def sc431hai_comm_sns_reg_info_init_def Let_def
      sc431hai_2to1_line_wdr_sns_reg_info_init_def sc431hai_sns_reg_info_update_def upd_regs0_def
      mark_changed_def)

lemma sc431hai_get_regs_ok:
  "sc431hai_ok p d \<Longrightarrow> sc431hai_ok p (snd (snd (sc431hai_isp_get_sns_regs_info p r d)))"
  by (auto simp: sc431hai_isp_get_sns_regs_info_def sync_regs_def Let_def sc431hai_st_ok_def
      sc431hai_ok_def split: option.splits)

lemma sc431hai_reg_init_eq:
  "sc431hai_reg_init k ci st cfg d = start_sequence k (i2c ci) (cfg_writes cfg) (pending_writes st) d"
  by (simp add: sc431hai_reg_init_def sc431hai_default_reg_init_def start_sequence_def
      split: prod.split)

lemma sc431hai_init_ok:
  assumes "sc431hai_ok p d"
  shows "sc431hai_ok p (sc431hai_isp_init k p d)"
proof -
  obtain ci st where c: "sc431hai_arrays d" "cmos_get_info p d = Some ci"
    "mode_tbl ci = sc431hai_mode_tbl" "sns_state ci = Some st" "sc431hai_st_ok st"
    using assms by (rule sc431hai_okE)
  let ?ci = "ci\<lparr>i2c := (i2c ci)\<lparr>i2c_addr := 0x60, addr_byte_num := 2, data_byte_num := 1\<rparr>\<rparr>"
  obtain r ci' tr' where i: "cis_i2c_init k ?ci (calls d) = (r, ci', tr')" by (metis prod_cases3)
  let ?d = "put_info p ci' (d\<lparr>calls := tr'\<rparr>)"
  have ok: "sc431hai_ok p ?d"
    using i2c_init_frame [OF i] c by (auto simp: sc431hai_ok_def)
  have fin: "sc431hai_ok p (put_state p (st\<lparr>init := True\<rparr>) e)"
    if "g_info e = g_info ?d" "sc431hai_arrays e = sc431hai_arrays ?d" for e
    using ok that get_info_cong [OF that(1)] c(5)
    by (intro sc431hai_ok_put_state) (auto simp: sc431hai_ok_def)
  show ?thesis
    using c i ok fin
    by (auto simp: sc431hai_isp_init_def Let_def sc431hai_linear_4m30_10bit_init_def
        sc431hai_vc_wdr_2t1_4m30_10bit_init_def sc431hai_reg_init_eq)
qed

lemma sc431hai_exit_ok: "sc431hai_ok p d \<Longrightarrow> sc431hai_ok p (sc431hai_isp_exit k p d)"
  by (auto simp: sc431hai_isp_exit_def sc431hai_ok_def dest!: i2c_exit_frame split: prod.splits)

lemma sc431hai_global_init_ok:
  assumes "sc431hai_arrays d" "cmos_get_info p d = Some ci" "mode_tbl ci = sc431hai_mode_tbl"
    "sns_state ci = Some st"
  shows "sc431hai_ok p (sc431hai_isp_global_init p d)"
  using assms by (simp add: sc431hai_isp_global_init_def sc431hai_ok_def sc431hai_st_ok_def)

lemma sc431hai_pixel_detect_ok:
  assumes "sc431hai_ok p d"
  shows "sc431hai_ok p (sc431hai_isp_set_pixel_detect k p en d)"
proof -
  obtain ci st where c: "sc431hai_arrays d" "cmos_get_info p d = Some ci"
    "mode_tbl ci = sc431hai_mode_tbl" "sns_state ci = Some st" "sc431hai_st_ok st"
    using assms by (rule sc431hai_okE)
  have "sc431hai_st_ok (st\<lparr>fl_std := v, sync_init := False\<rparr>)"
    if "v = (if 0x4650 < fl_std st then 0x4650 else fl_std st)" for v
    using c(5) that by (auto simp: sc431hai_st_ok_def)
  then show ?thesis
    using assms c
    by (auto simp: sc431hai_isp_set_pixel_detect_def Let_def intro!: sc431hai_ok_put_state)
qed

text \<open>One call of the ISP, of AE or of the application into the registered driver of a pipe.\<close>

inductive sc431hai_step :: "sdk \<Rightarrow> int \<Rightarrow> sc431hai_drv \<Rightarrow> sc431hai_drv \<Rightarrow> bool" for k p where
  fps: "sc431hai_step k p d (snd (sc431hai_fps_set k p fps ae d))"
| slow: "sc431hai_step k p d (snd (sc431hai_slow_framerate_set p full_lines ae d))"
| inttime: "sc431hai_step k p d (sc431hai_inttime_update p int_time d)"
| gains: "sc431hai_step k p d (sc431hai_gains_update p again dgain d)"
| fswdr: "sc431hai_step k p d (sc431hai_ae_fswdr_attr_set p m d)"
| wdr: "sc431hai_step k p d (snd (sc431hai_isp_set_wdr_mode k p mode d))"
| image: "sc431hai_step k p d (snd (sc431hai_isp_set_image_mode p im d))"
| regs: "sc431hai_step k p d (snd (snd (sc431hai_isp_get_sns_regs_info p r d)))"
| start: "sc431hai_step k p d (sc431hai_isp_init k p d)"
| stop: "sc431hai_step k p d (sc431hai_isp_exit k p d)"
| reset: "sc431hai_step k p d (sc431hai_isp_global_init p d)"
| pixel: "sc431hai_step k p d (sc431hai_isp_set_pixel_detect k p en d)"
| standby: "sc431hai_standby p d = Some e \<Longrightarrow> sc431hai_step k p d e"
| restart: "sc431hai_step k p d (sc431hai_restart p d)"
| bus_write: "sc431hai_step k p d (snd (sc431hai_write_register k p addr dat d))"
| bus: "sc431hai_step k p d (snd (sc431hai_set_bus_info p dev d))"
| set_init: "sc431hai_step k p d (snd (sc431hai_set_init p ia d))"

lemmas sc431hai_op_oks =
  sc431hai_slow_framerate_set_ok sc431hai_inttime_update_ok sc431hai_gains_update_ok
  sc431hai_attr_ok(1-5) sc431hai_set_wdr_mode_ok sc431hai_set_image_mode_ok sc431hai_get_regs_ok
  sc431hai_init_ok sc431hai_exit_ok sc431hai_pixel_detect_ok

lemma sc431hai_step_ok:
  assumes "div_guards k" "sc431hai_step k p d e" "sc431hai_ok p d"
  shows "sc431hai_ok p e"
  using assms(2)
proof (cases rule: sc431hai_step.cases)
  case reset
  then show ?thesis using sc431hai_global_init_ok assms(3) by (auto elim!: sc431hai_okE)
next
  case standby
  then show ?thesis using sc431hai_attr_ok(6) assms(3) by blast
qed (simp_all add: assms sc431hai_fps_set_ok sc431hai_op_oks)

section \<open>A driver in operation\<close>

text \<open>One pipe, registered and initialised on a board where every call succeeds.\<close>

definition sc431hai_demo :: sc431hai_drv where
  "sc431hai_demo = sc431hai_isp_global_init 0
     (snd (sc431hai_register_callback (demo_sdk None) 0 True True (sc431hai_drv0 1)))"

definition sc431hai_demo_state :: ot_isp_sns_state where
  "sc431hai_demo_state = (zero_sns_state (demo_sdk None))\<lparr>fl_std := 3000,
     fl := (\<lambda>_. 0)(0 := 3000, 1 := 3000)\<rparr>"

definition sc431hai_demo_cis :: cis_info where
  "sc431hai_demo_cis = sc431hai_info0\<lparr>sns_state := Some sc431hai_demo_state\<rparr>"

lemma sc431hai_demo_info: "cmos_get_info 0 sc431hai_demo = Some sc431hai_demo_cis"
  and sc431hai_demo_arrays: "sc431hai_arrays sc431hai_demo"
proof -
  have i: "cmos_get_info 0 (sc431hai_drv0 1) = Some sc431hai_info0"
    by (simp add: sc431hai_drv0_def cmos_get_info_def)
  moreover obtain tr' where "cis_register_callback (demo_sdk None) (sc431hai_info0\<lparr>pipe := 0\<rparr>) [] =
      (TD_SUCCESS, sc431hai_info0\<lparr>pipe := 0, sns_state := Some (zero_sns_state (demo_sdk None))\<rparr>, tr')"
    using demo_register [of "sc431hai_info0\<lparr>pipe := 0\<rparr>" "[]"] by (auto simp: sc431hai_info0_def)
  ultimately show "cmos_get_info 0 sc431hai_demo = Some sc431hai_demo_cis" "sc431hai_arrays sc431hai_demo"
    by (simp_all add: sc431hai_demo_def sc431hai_register_callback_def sc431hai_isp_global_init_def
        sc431hai_drv0_def cmos_get_info_def put_info_def put_state_def sc431hai_arrays_def
        sc431hai_demo_cis_def sc431hai_demo_state_def sc431hai_info0_def zero_sns_state_def fun_eq_iff)
qed

lemma sc431hai_demo_parts:
  "mode_tbl sc431hai_demo_cis = sc431hai_mode_tbl"
  "sns_state sc431hai_demo_cis = Some sc431hai_demo_state"
  "sc431hai_st_ok sc431hai_demo_state"
  "ver_lines (cur_mode sc431hai_demo_cis sc431hai_demo_state) = 1500"
  "wdr_mode sc431hai_demo_state = OT_WDR_MODE_NONE"
  "\<not> sync_init sc431hai_demo_state"
  by (simp_all add: sc431hai_demo_cis_def sc431hai_info0_def sc431hai_demo_state_def sc431hai_st_ok_def
      zero_sns_state_def cur_mode_def sc431hai_mode_tbl_def)



section \<open>Frame rate\<close>

text \<open>
  A frame rate change in half lines.  For a rate between the minimum of the mode (2.5 or 10) and 30
  frames per second, the frame length register gets an even number of lines between the lines of
  the mode and its longest frame, its two bytes reassemble to that number, the standard and the
  current frame length are twice that number, and AE is told the rate and a maximal exposure of
  11 half lines less, or 40 in WDR mode.  Any other rate changes nothing.
\<close>

theorem sc431hai_fps_set_bounds:
  assumes "div_guards k" "cmos_get_info p d = Some ci" "mode_tbl ci = sc431hai_mode_tbl"
    "sns_state ci = Some st" "sc431hai_st_ok st"
  shows "if sc431hai_min_fps (ver_lines (cur_mode ci st)) \<le> fps \<and> fps \<le> 30
    then \<exists>a' d' ci' st' v. sc431hai_fps_set k p fps (Some a) d = (Some a', d') \<and>
      cmos_get_info p d' = Some ci' \<and> sns_state ci' = Some st' \<and> even v \<and>
      unat (ver_lines (cur_mode ci st)) \<le> v \<and> v \<le> unat (max_ver_lines (cur_mode ci st)) \<and>
      vmax_value (d_data (i2c_data (regs_info st' 0) 8)) (d_data (i2c_data (regs_info st' 0) 7)) = v \<and>
      unat (fl_std st') = 2 * v \<and> unat (fl st' 0) = 2 * v \<and> dft_fps a' = fps \<and>
      unat (dft_max_int_time a') = 2 * v - (if wdr_mode st = OT_WDR_MODE_NONE then 11 else 40)
    else sc431hai_fps_set k p fps (Some a) d = (Some a, d)"
proof (cases "sc431hai_min_fps (ver_lines (cur_mode ci st)) \<le> fps \<and> fps \<le> 30")
  case True
  let ?l = "ver_lines (cur_mode ci st)" and ?v = "sc431hai_vmax (ver_lines (cur_mode ci st)) fps"
  have l: "?l = 1500 \<or> ?l = 3000" "max_ver_lines (cur_mode ci st) = sc431hai_max_lines ?l"
    using sc431hai_rows [OF assms(3,5)] by blast+
  have r: "unat ?l \<le> unat ?v" "even (unat ?v)" "unat ?v \<le> unat (sc431hai_max_lines ?l)"
    using sc431hai_vmax_range [OF l(1)] True by blast+
  then have b: "1500 \<le> unat ?v" "unat ?v \<le> 18000" using l by (auto simp: sc431hai_max_lines_def)
  then have d: "unat (push_bit 1 ?v) = 2 * unat ?v" by (intro unat_double) simp
  have v: "vmax_value (high_8bits ?v) (low_8bits ?v) = unat ?v" using b by (simp add: vmax_fields)
  have m: "unat (push_bit 1 ?v - 11) = 2 * unat ?v - 11" "unat (push_bit 1 ?v - 21 - 19) = 2 * unat ?v - 40"
    using b d by (simp_all add: unat_sub word_le_nat_alt)
  show ?thesis
    using sc431hai_fps_set_cases [OF assms, of fps a] True assms(2) r l d v m
    by auto
next
  case False
  then show ?thesis using sc431hai_fps_set_cases [OF assms, of fps a] by auto
qed

theorem sc431hai_fps_set_bounds_witness:
  "\<exists>a' d' ci' st' v. sc431hai_fps_set (demo_sdk None) 0 25 (Some demo_ae) sc431hai_demo = (Some a', d') \<and>
     cmos_get_info 0 d' = Some ci' \<and> sns_state ci' = Some st' \<and> 1500 \<le> v \<and> even v \<and>
     unat (fl_std st') = 2 * v \<and> unat (dft_max_int_time a') = 2 * v - 11"
  using sc431hai_fps_set_bounds [OF demo_div_guards [of None] sc431hai_demo_info
      sc431hai_demo_parts(1,2,3), of 25 demo_ae] sc431hai_demo_parts(4,5)
  by (auto simp: sc431hai_min_fps_def)

section \<open>The sensor follows the driver\<close>

definition sc431hai_layout :: "ot_wdr_mode \<Rightarrow> u32 list" where
  "sc431hai_layout w = [0x3E02, 0x3E01, 0x3E00, 0x3E09, 0x3E08, 0x3E07, 0x3E06, 0x320F, 0x320E] @
     (if w = OT_WDR_MODE_2To1_LINE
      then [0x3E05, 0x3E04, 0x3E13, 0x3E12, 0x3E11, 0x3E10, 0x3E24, 0x3E23] else [])"

lemmas sc431hai_reg_init_defs = sc431hai_sns_reg_info_init_def sc431hai_comm_sns_reg_info_init_def
  sc431hai_2to1_line_wdr_sns_reg_info_init_def

lemma sc431hai_set_delay_i2c:
  "d_data (i2c_data (set_delay j w r) i) = d_data (i2c_data r i)"
  "d_update (i2c_data (set_delay j w r) i) = d_update (i2c_data r i)"
  "d_reg_addr (i2c_data (set_delay j w r) i) = d_reg_addr (i2c_data r i)"
  by (simp_all add: set_delay_def upd_i2c_data_def)

lemma sc431hai_update_i2c:
  "reg_num (regs_info (sc431hai_sns_reg_info_update st) 0) = reg_num (regs_info st 0)"
  "d_data (i2c_data (regs_info (sc431hai_sns_reg_info_update st) 0) i) = d_data (i2c_data (regs_info st 0) i)"
  "d_reg_addr (i2c_data (regs_info (sc431hai_sns_reg_info_update st) 0) i) =
     d_reg_addr (i2c_data (regs_info st 0) i)"
  "d_update (i2c_data (regs_info (sc431hai_sns_reg_info_update st) 0) i) =
     (if i < unat (reg_num (regs_info st 0))
      then d_data (i2c_data (regs_info st 0) i) \<noteq> d_data (i2c_data (regs_info st 1) i)
      else d_update (i2c_data (regs_info st 0) i))"
  by (simp_all add: sc431hai_sns_reg_info_update_def Let_def upd_regs0_def sc431hai_set_delay_i2c
      mark_changed_i2c)

interpretation sc431hai_sync: register_sync sc431hai_sns_reg_info_init sc431hai_sns_reg_info_update
  sc431hai_layout
proof unfold_locales
  fix w
  show "distinct (sc431hai_layout w)" by (simp add: sc431hai_layout_def)
next
  fix ci st
  show "reg_addrs (regs_info (sc431hai_sns_reg_info_init ci st) 0) = sc431hai_layout (wdr_mode st)"
    by (simp add: sc431hai_reg_init_defs sc431hai_layout_def reg_addrs_def Let_def slot_defs upt_rec)
next
  fix ci st i
  show "d_data (i2c_data (regs_info (sc431hai_sns_reg_info_init ci st) 0) i) =
      d_data (i2c_data (regs_info st 0) i)"
    by (simp add: sc431hai_reg_init_defs Let_def slot_defs)
next
  fix i ci st
  assume "i < unat (reg_num (regs_info (sc431hai_sns_reg_info_init ci st) 0))"
  then show "d_update (i2c_data (regs_info (sc431hai_sns_reg_info_init ci st) 0) i)"
    by (simp add: sc431hai_reg_init_defs Let_def slot_defs split: if_splits)
qed (simp_all add: reg_addrs_def sc431hai_update_i2c)

text \<open>
  The frame loop of driver and sensor: AE calls that change the register set, mode changes, and
  the fetch by the ISP, which writes the marked registers into the sensor's register file.
\<close>

inductive sc431hai_loop :: "sdk \<Rightarrow> int \<Rightarrow> sc431hai_drv \<times> (u32 \<Rightarrow> u32) \<Rightarrow> sc431hai_drv \<times> (u32 \<Rightarrow> u32) \<Rightarrow> bool"
  for k p where
  rate: "sc431hai_loop k p (d, S) (snd (sc431hai_fps_set k p fps ae d), S)"
| slow_rate: "sc431hai_loop k p (d, S) (snd (sc431hai_slow_framerate_set p full_lines ae d), S)"
| exposure: "sc431hai_loop k p (d, S) (sc431hai_inttime_update p int_time d, S)"
| gain: "sc431hai_loop k p (d, S) (sc431hai_gains_update p again dgain d, S)"
| long_frame: "sc431hai_loop k p (d, S) (sc431hai_ae_fswdr_attr_set p m d, S)"
| mode: "sc431hai_loop k p (d, S) (snd (sc431hai_isp_set_image_mode p im d), S)"
| wdr_switch: "sc431hai_loop k p (d, S) (snd (sc431hai_isp_set_wdr_mode k p w d), S)"
| fetch: "sc431hai_isp_get_sns_regs_info p (Some r) d = (ret, Some r', d') \<Longrightarrow>
    sc431hai_loop k p (d, S) (d', apply_writes (isp_writes r') S)"

lemma sc431hai_fetch:
  assumes "sc431hai_sync.synced p (d, S)" "cmos_get_info p d = Some ci" "sns_state ci = Some st"
    "sc431hai_isp_get_sns_regs_info p (Some r) d = (ret, Some r', d')"
  shows "ret = TD_SUCCESS \<and> in_sync r' (apply_writes (isp_writes r') S) \<and>
    reg_addrs r' = sc431hai_layout (wdr_mode st) \<and>
    sc431hai_sync.synced p (d', apply_writes (isp_writes r') S)"
proof -
  let ?st = "sync_regs sc431hai_sns_reg_info_init sc431hai_sns_reg_info_update ci (config r) st"
  have "ret = TD_SUCCESS" "r' = regs_info ?st 0" "d' = put_state p ?st d"
    using assms by (auto simp: sc431hai_isp_get_sns_regs_info_def Let_def)
  then show ?thesis using sc431hai_sync.fetch_synced [OF assms(1-3) refl] by auto
qed

lemma sc431hai_rate_synced:
  "sc431hai_sync.synced p (d, S) \<Longrightarrow> sc431hai_sync.synced p (snd (sc431hai_fps_set k p fps ae d), S)"
  by (auto simp: sc431hai_fps_set_def Let_def sc431hai_config_vmax_def sc431hai_sync.set_data_laid_out
      split: option.splits if_splits simp: sc431hai_sync.synced_def)

lemma sc431hai_slow_synced:
  "sc431hai_sync.synced p (d, S) \<Longrightarrow> sc431hai_sync.synced p (snd (sc431hai_slow_framerate_set p n ae d), S)"
  by (auto simp: sc431hai_slow_framerate_set_def Let_def sc431hai_sync.set_data_laid_out
      split: option.splits simp: sc431hai_sync.synced_def)

lemma sc431hai_exposure_synced:
  "sc431hai_sync.synced p (d, S) \<Longrightarrow> sc431hai_sync.synced p (sc431hai_inttime_update p t d, S)"
  by (auto simp: sc431hai_inttime_update_def sc431hai_inttime_update_linear_def Let_def
      sc431hai_inttime_update_2to1_line_def sc431hai_sync.set_data_laid_out
      split: option.splits simp: sc431hai_sync.synced_def)

lemma sc431hai_gain_synced:
  "sc431hai_sync.synced p (d, S) \<Longrightarrow> sc431hai_sync.synced p (sc431hai_gains_update p a g d, S)"
  by (auto simp: sc431hai_gains_update_def Let_def sc431hai_sync.set_data_laid_out cmos_get_state_def
      split: option.splits simp: sc431hai_sync.synced_def)

lemma sc431hai_attr_synced:
  "sc431hai_sync.synced p (d, S) \<Longrightarrow> sc431hai_sync.synced p (sc431hai_ae_fswdr_attr_set p m d, S)"
  by (auto simp: sc431hai_ae_fswdr_attr_set_def split: option.splits simp: sc431hai_sync.synced_def)

lemma sc431hai_mode_synced:
  "sc431hai_sync.synced p (d, S) \<Longrightarrow> sc431hai_sync.synced p (snd (sc431hai_isp_set_image_mode p im d), S)"
  by (auto simp: sc431hai_isp_set_image_mode_def Let_def sc431hai_isp_config_image_mode_param_def
      sc431hai_sync.laid_out_off split: option.splits intro!: sc431hai_sync.synced_put_state)

lemma sc431hai_wdr_synced:
  "sc431hai_sync.synced p (d, S) \<Longrightarrow> sc431hai_sync.synced p (snd (sc431hai_isp_set_wdr_mode k p w d), S)"
  by (auto simp: sc431hai_isp_set_wdr_mode_def Let_def sc431hai_sync.laid_out_off
      split: option.splits ot_wdr_mode.splits intro!: sc431hai_sync.synced_put_state)

lemma sc431hai_loop_synced:
  assumes "sc431hai_loop k p x y" "sc431hai_sync.synced p x"
  shows "sc431hai_sync.synced p y"
  using assms
proof (cases rule: sc431hai_loop.cases)
  case (fetch r d ret r' d' S)
  then obtain ci st where "cmos_get_info p d = Some ci" "sns_state ci = Some st"
    using assms(2) by (auto simp: sc431hai_sync.synced_def)
  then show ?thesis using sc431hai_fetch [of p d S ci st r ret r' d'] fetch assms(2) by simp
qed (use assms(2) in \<open>simp_all add: sc431hai_rate_synced sc431hai_slow_synced sc431hai_exposure_synced
      sc431hai_gain_synced sc431hai_attr_synced sc431hai_mode_synced sc431hai_wdr_synced\<close>)

text \<open>
  C10: the sensor follows the driver, in the linear and in the WDR mode.  Start with a registered
  driver whose register set has not been sent yet, and an arbitrary register file of the sensor.
  Let AE change rate, exposures and gains, let the ISP switch image and WDR mode and fetch the
  register set, in any order and any number of times.  Whenever the ISP fetches the set next and
  writes the registers marked in it, the set consists of the nine registers of the linear mode,
  or in WDR mode of these and the eight of the short exposure, each once, and every register of
  the set holds in the sensor exactly the value the driver has for it.
\<close>

theorem sc431hai_sensor_follows:
  assumes "cmos_get_info p d0 = Some ci0" "sns_state ci0 = Some st0" "\<not> sync_init st0"
    and "(sc431hai_loop k p)\<^sup>*\<^sup>* (d0, S0) (d, S)"
    and "cmos_get_info p d = Some ci" "sns_state ci = Some st"
    and "sc431hai_isp_get_sns_regs_info p (Some r) d = (ret, Some r', d')"
  shows "ret = TD_SUCCESS \<and> in_sync r' (apply_writes (isp_writes r') S) \<and>
    reg_addrs r' = [0x3E02, 0x3E01, 0x3E00, 0x3E09, 0x3E08, 0x3E07, 0x3E06, 0x320F, 0x320E] @
      (if wdr_mode st = OT_WDR_MODE_2To1_LINE
       then [0x3E05, 0x3E04, 0x3E13, 0x3E12, 0x3E11, 0x3E10, 0x3E24, 0x3E23] else [])"
proof -
  have "sc431hai_sync.synced p (d0, S0)" using assms(1-3) by (rule sc431hai_sync.synced_off)
  with assms(4) have "sc431hai_sync.synced p (d, S)"
    by (induction rule: rtranclp_induct) (auto intro: sc431hai_loop_synced)
  from sc431hai_fetch [OF this assms(5-7)] show ?thesis by (simp add: sc431hai_layout_def)
qed

theorem sc431hai_sensor_follows_witness:
  "\<exists>r' d'. sc431hai_isp_get_sns_regs_info 0 (Some zero_regs_info)
      (sc431hai_gains_update 0 0x8041 0x80 sc431hai_demo) = (TD_SUCCESS, Some r', d') \<and>
    in_sync r' (apply_writes (isp_writes r') (\<lambda>_. 0xff)) \<and> length (reg_addrs r') = 9"
proof -
  let ?d = "sc431hai_gains_update 0 0x8041 0x80 sc431hai_demo"
  obtain ci st where c: "cmos_get_info 0 ?d = Some ci" "sns_state ci = Some st"
      "wdr_mode st = OT_WDR_MODE_NONE"
    using sc431hai_demo_info sc431hai_demo_parts
    by (auto simp: sc431hai_gains_update_def cmos_get_state_def Let_def)
  then obtain r' d' where f: "sc431hai_isp_get_sns_regs_info 0 (Some zero_regs_info) ?d = (TD_SUCCESS, Some r', d')"
    by (simp add: sc431hai_isp_get_sns_regs_info_def Let_def)
  have "(sc431hai_loop (demo_sdk None) 0)\<^sup>*\<^sup>* (sc431hai_demo, \<lambda>_. 0xff) (?d, \<lambda>_. 0xff)"
    by (rule r_into_rtranclp) (rule sc431hai_loop.gain)
  from sc431hai_sensor_follows [OF sc431hai_demo_info sc431hai_demo_parts(2,6) this c(1,2) f] f c(3)
  show ?thesis by auto
qed
end
