(* ===== verification/Sc431hai_Wdr.thy ===== *)
theory Sc431hai_Wdr
  imports Sc431hai_Control
begin

text \<open>
  The WDR mode of the SC431HAI: the two calls by which AE sets the short and the long exposure of a
  frame, the limit of the short exposure that the driver carries from frame to frame, and the
  exposure limits it reports to AE.
\<close>

unbundle bit_operations_syntax

section \<open>The limit of the short exposure\<close>

lemma sint_small: "unat x < 2147483648 \<Longrightarrow> sint x = int (unat x)" for x :: u32
proof -
  assume "unat x < 2147483648"
  then have u: "int (unat x) < 2147483648" by linarith
  have "signed_take_bit 31 n = n" if "0 \<le> n" "n < 2147483648" for n :: int
    using that by (intro signed_take_bit_int_eq_self) simp_all
  then have "signed_take_bit 31 (uint x) = int (unat x)"
    using u unfolding uint_nat by simp
  moreover have "sint x = signed_take_bit 31 (uint x)" by (simp add: sint_uint)
  ultimately show ?thesis by (simp only:)
qed

lemma unat_word_of_int_nat: "0 \<le> n \<Longrightarrow> n < 4294967296 \<Longrightarrow> unat (word_of_int n :: u32) = nat n"
  by (simp add: unat_eq_nat_uint uint_word_of_int)

lemma unat_max: "unat (max a b) = max (unat a) (unat b)" for a b :: u32
  by (auto simp: max_def word_le_nat_alt)

lemma unat_min: "unat (min a b) = min (unat a) (unat b)" for a b :: u32
  by (auto simp: min_def word_le_nat_alt)

lemma shrink_bounds:
  fixes m old :: u32
  assumes "n \<le> int (unat old)" "unat old \<le> 65535" "unat m \<le> 65535"
  defines "w \<equiv> if m < old then word_of_int (max (sint m) n) else m"
  shows "unat m \<le> unat w \<and> unat w \<le> max (unat old) (unat m)"
proof (cases "m < old")
  case True
  then have lt: "unat m < unat old" by (simp add: word_less_nat_alt)
  have si: "sint m = int (unat m)" using assms(3) by (intro sint_small) simp
  define i where "i = max (sint m) n"
  have i: "int (unat m) \<le> i" "i \<le> int (unat old)"
    using si assms(1) lt unfolding i_def by linarith+
  then have "unat w = nat i"
    using True assms(2) unfolding w_def i_def [symmetric]
    by (simp only: if_True) (rule unat_word_of_int_nat; linarith)
  then show ?thesis using i by linarith
qed (simp add: w_def)

lemma sc431hai_max_short_exp_bounds:
  assumes "5872 \<le> unat full" "unat full \<le> 36000" "unat s \<le> 65535" "unat old \<le> 65535"
  shows "even (unat (sc431hai_max_short_exp s old full)) \<and> 184 \<le> unat (sc431hai_max_short_exp s old full) \<and>
    unat s + 16 \<le> 2 * unat (sc431hai_max_short_exp s old full) \<and>
    unat (sc431hai_max_short_exp s old full) \<le> max (unat old) (max ((unat s + 19) div 2) 184)"
proof -
  define m where "m = max (drop_bit 1 (s + 19)) 0xB8"
  define n where "n = (0x5A7 + 20) * 2 + sint old - sint full sdiv 2 + 2"
  define w where "w = (if m < old then word_of_int (max (sint m) n) else m)"
  have m: "unat m = max ((unat s + 19) div 2) 184"
    using assms(3) unfolding m_def unat_max unat_drop_bit by (simp add: unat_word_ariths)
  have "sint full = int (unat full)" "sint old = int (unat old)"
    by (rule sint_small, use assms in linarith)+
  moreover have "int (unat full) sdiv 2 = int (unat full) div 2"
    using assms(1) by (simp add: signed_divide_int_def sgn_if)
  moreover have "2936 \<le> int (unat full) div 2" using assms(1) by linarith
  ultimately have "2936 \<le> sint full sdiv 2" "sint old = int (unat old)" by simp_all
  then have n: "n \<le> int (unat old)" unfolding n_def by simp
  have w: "unat m \<le> unat w" "unat w \<le> max (unat old) (unat m)"
    using shrink_bounds [OF n assms(4), of m] m assms(3) unfolding w_def by auto
  have "sc431hai_max_short_exp s old full = push_bit 1 (drop_bit 1 w)"
    unfolding sc431hai_max_short_exp_def Let_def m_def n_def w_def ..
  then have e: "unat (sc431hai_max_short_exp s old full) = 2 * (unat w div 2)"
    by (simp only: unat_even_floor)
  have ge: "184 \<le> unat w" "unat s + 18 \<le> 2 * unat w" using w(1) unfolding m by linarith+
  have le: "unat w \<le> max (unat old) (max ((unat s + 19) div 2) 184)" using w(2) unfolding m by linarith
  have h: "2 * (unat w div 2) \<le> unat w" "unat w \<le> 2 * (unat w div 2) + 1" "92 \<le> unat w div 2"
    using div_le_mono [OF ge(1), of 2] by simp_all
  show ?thesis
    unfolding e using order_trans [OF h(1) le] h(2,3) ge(2) by simp
qed

section \<open>The two exposures of a frame\<close>

text \<open>What the sensor makes of the two bytes of the short exposure.\<close>

definition short_expo_value :: "u32 \<Rightarrow> u32 \<Rightarrow> nat" where
  "short_expo_value m l = 16 * unat m + unat l div 16"

lemma short_expo_fields: "short_expo_value (higher_8bits x) (lower_4bits x) = unat x mod 4096"
  unfolding short_expo_value_def unat_macros using mod_mult2_eq [of "unat x" 16 256] by simp

lemma even_low_byte: "even (unat m) \<Longrightarrow> low_8bits (m AND 0xfe) = low_8bits m" for m :: u32
proof -
  assume e: "even (unat m)"
  then have "\<not> bit (unat m) 0" by (simp add: bit_0)
  then have z: "\<not> bit m 0" by (simp only: bit_unsigned_iff) simp
  have "bit (low_8bits (m AND 0xfe)) n = bit (low_8bits m) n" for n
  proof (cases n)
    case 0
    then show ?thesis using z by (simp only: low_8bits_def bit_and_iff) simp
  next
    case (Suc j)
    have fe: "(0xfe :: u32) = push_bit 1 (mask 7)" by (simp add: mask_eq_exp_minus_1)
    show ?thesis unfolding low_8bits_def u32_masks fe bit_and_iff bit_push_bit_iff bit_mask_iff
      using Suc by auto
  qed
  then show ?thesis by (auto intro: bit_eqI)
qed

lemma is_first_put [simp]:
  "is_first (put_info p ci d) = is_first d" "is_first (put_state p st d) = is_first d"
  "short_int_time (put_state p st d) = short_int_time d"
  by (simp_all add: put_state_def put_info_def split: option.splits)

text \<open>The first call of a frame only remembers the short exposure.\<close>

lemma sc431hai_first_call:
  assumes "cmos_get_info p d = Some ci" "sns_state ci = Some st" "wdr_mode st = OT_WDR_MODE_2To1_LINE"
    and "sc431hai_arrays d" "is_first d ! nat p" "e = sc431hai_inttime_update p s d"
  shows "cmos_get_info p e = Some (ci\<lparr>sns_state := Some (st\<lparr>wdr_int_time := (wdr_int_time st)(0 := s)\<rparr>)\<rparr>) \<and>
    short_int_time e ! nat p = s \<and> \<not> is_first e ! nat p \<and> sc431hai_arrays e"
proof -
  have "nat p < length (is_first d)" "nat p < length (short_int_time d)"
    using assms(1,4) by (auto simp: get_info_Some sc431hai_arrays_def)
  then show ?thesis
    using assms by (simp add: sc431hai_inttime_update_def sc431hai_inttime_update_2to1_line_def Let_def)
qed

text \<open>The second call fixes the limit of the short exposure and writes both exposures.\<close>

definition sc431hai_wdr_regs :: "u32 \<Rightarrow> u32 \<Rightarrow> u32 \<Rightarrow> ot_isp_sns_state \<Rightarrow> bool" where
  "sc431hai_wdr_regs m long s st \<longleftrightarrow>
     (let r = (\<lambda>j. d_data (i2c_data (regs_info st 0) j))
      in r 0 = lower_4bits long \<and> r 1 = higher_8bits long \<and> r 2 = higher_4bits long \<and>
         r 9 = lower_4bits s \<and> r 10 = higher_8bits s \<and>
         r 15 = low_8bits (m AND 0xfe) \<and> r 16 = high_8bits m)"

lemma sc431hai_second_call:
  fixes l s :: u32
  assumes "cmos_get_info p d = Some ci" "sns_state ci = Some st" "wdr_mode st = OT_WDR_MODE_2To1_LINE"
    and "sc431hai_arrays d" "\<not> is_first d ! nat p" "short_int_time d ! nat p = s"
    and "e = sc431hai_inttime_update p l d"
  defines "m \<equiv> sc431hai_max_short_exp s (max_short_exp ci) (fl st 0)"
  shows "\<exists>ci' st'. cmos_get_info p e = Some ci' \<and> sns_state ci' = Some st' \<and> max_short_exp ci' = m \<and>
    is_first e ! nat p \<and> fl st' = fl st \<and> sc431hai_wdr_regs m (min l (fl st 0 - 2 * m - 21)) s st'"
proof -
  have "nat p < length (is_first d)"
    using assms(1,4) by (auto simp: get_info_Some sc431hai_arrays_def)
  then show ?thesis
    using assms by (simp add: sc431hai_inttime_update_def sc431hai_inttime_update_2to1_line_def Let_def
        sc431hai_wdr_regs_def)
qed

lemma sc431hai_two_calls:
  fixes l s :: u32
  assumes "cmos_get_info p d = Some ci" "sns_state ci = Some st" "wdr_mode st = OT_WDR_MODE_2To1_LINE"
    and "sc431hai_arrays d" "is_first d ! nat p"
  defines "m \<equiv> sc431hai_max_short_exp s (max_short_exp ci) (fl st 0)"
    and "e \<equiv> sc431hai_inttime_update p l (sc431hai_inttime_update p s d)"
  shows "\<exists>ci' st'. cmos_get_info p e = Some ci' \<and> sns_state ci' = Some st' \<and> max_short_exp ci' = m \<and>
    is_first e ! nat p \<and> fl st' = fl st \<and> sc431hai_wdr_regs m (min l (fl st 0 - 2 * m - 21)) s st'"
  using sc431hai_second_call [of p "sc431hai_inttime_update p s d"
      "ci\<lparr>sns_state := Some (st\<lparr>wdr_int_time := (wdr_int_time st)(0 := s)\<rparr>)\<rparr>"
      "st\<lparr>wdr_int_time := (wdr_int_time st)(0 := s)\<rparr>" s e l]
    sc431hai_first_call [OF assms(1-5) refl, of s] assms(3)
  by (simp add: m_def e_def)


text \<open>A pipe in WDR mode with frames of \<open>n\<close> half lines.\<close>

definition sc431hai_wdr_state :: "u32 \<Rightarrow> ot_isp_sns_state" where
  "sc431hai_wdr_state n = sc431hai_demo_state\<lparr>img_mode := 1, wdr_mode := OT_WDR_MODE_2To1_LINE,
     fl_std := n, fl := (\<lambda>_. n)\<rparr>"

definition sc431hai_wdr_demo :: "u32 \<Rightarrow> sc431hai_drv" where
  "sc431hai_wdr_demo n = put_state 0 (sc431hai_wdr_state n) sc431hai_demo"

lemma sc431hai_wdr_demo_info:
  "cmos_get_info 0 (sc431hai_wdr_demo n) = Some (sc431hai_info0\<lparr>sns_state := Some (sc431hai_wdr_state n)\<rparr>)"
  "sc431hai_arrays (sc431hai_wdr_demo n)" "is_first (sc431hai_wdr_demo n) ! 0"
  "wdr_mode (sc431hai_wdr_state n) = OT_WDR_MODE_2To1_LINE" "fl (sc431hai_wdr_state n) i = n"
  "wdr_int_time (sc431hai_wdr_state n) 0 = 0"
proof -
  have "is_first (sc431hai_drv0 1) ! 0" by (simp add: sc431hai_drv0_def)
  then show "is_first (sc431hai_wdr_demo n) ! 0"
    by (simp add: sc431hai_wdr_demo_def sc431hai_demo_def sc431hai_isp_global_init_def
        sc431hai_register_callback_def sc431hai_drv0_def split: option.splits prod.splits)
qed (simp_all add: sc431hai_wdr_demo_def sc431hai_demo_info sc431hai_demo_cis_def sc431hai_demo_arrays
      sc431hai_wdr_state_def sc431hai_demo_state_def zero_sns_state_def)


section \<open>The limits reported to AE\<close>

lemma sc431hai_inttime_max_eq:
  assumes "cmos_get_info p d = Some ci" "sns_state ci = Some st" "wdr_mode st = OT_WDR_MODE_2To1_LINE"
  shows "sc431hai_get_inttime_max k p en (Some q) (Some t) (Some lf) d =
    map_prod Some Some (sc431hai_get_inttime_max_2to1_line k p q t lf d)"
  using assms by (simp add: sc431hai_get_inttime_max_def cmos_get_state_def)

lemma ratio_split:
  fixes f s r :: nat
  assumes "s \<le> (f * 64) div (r + 64)"
  shows "s + s * r div 64 \<le> f"
proof -
  have "s * (r + 64) \<le> (f * 64) div (r + 64) * (r + 64)" using assms by (rule mult_right_mono) simp
  also have "\<dots> \<le> f * 64" by simp
  finally have "s * r \<le> (f - s) * 64" "s \<le> f" by (auto simp: algebra_simps diff_mult_distrib)
  then have "s * r div 64 \<le> f - s" using div_le_mono [of "s * r" "(f - s) * 64" 64] by simp
  then show ?thesis using \<open>s \<le> f\<close> by simp
qed

text \<open>
  The exposure limits of the WDR mode.  For an exposure ratio between 1 and 32 (in 1/64) and
  a frame of 3000 to 36000 half lines, outside the long frame mode, the short exposure is limited
  to at least 8 half lines, each lower limit is not above its upper limit, and the two upper
  limits together leave 40 half lines of the frame free, unless the frame is too short for the
  ratio, when the limits are the fixed pair 8 and 511.
\<close>

theorem sc431hai_inttime_max_bounds:
  assumes "cmos_get_info p d = Some ci" "sns_state ci = Some st" "wdr_mode st = OT_WDR_MODE_2To1_LINE"
    and "fswdr_mode ci \<noteq> OT_ISP_FSWDR_LONG_FRAME_MODE" "64 \<le> q 0" "q 0 \<le> 2047"
    and "3000 \<le> unat (fl st 0)" "unat (fl st 0) \<le> 36000"
  shows "\<exists>t' lf'. sc431hai_get_inttime_max k p en (Some q) (Some t) (Some lf) d = (Some t', Some lf') \<and>
    8 \<le> int_time_min t' 0 \<and> int_time_min t' 0 \<le> int_time_max t' 0 \<and> int_time_min t' 1 \<le> int_time_max t' 1 \<and>
    (unat (int_time_max t' 0) + unat (int_time_max t' 1) + 40 \<le> unat (fl st 0) \<or>
     int_time_max t' 0 = 8 \<and> int_time_max t' 1 = 511)"
proof -
  define sm0 where "sm0 = ((fl st 1 - 19 - 21 - wdr_int_time st 0) * 0x40) div div_0_to_1 k (q 0)"
  define sm1 where "sm1 = ((fl st 0 - 19 - 21) * 0x40) div (q 0 + 0x40)"
  define sm where "sm = (if (if sm0 < sm1 then sm0 else sm1) = 0 then 1 else if sm0 < sm1 then sm0 else sm1)"
  have q: "64 \<le> unat (q 0)" "unat (q 0) \<le> 2047" using assms(5,6) by (simp_all add: word_le_nat_alt)
  define g where "g = fl st 0 - 19 - 21"
  have "unat g = unat (fl st 0) - 40"
    using assms(7) by (simp add: g_def unat_sub word_le_nat_alt)
  then have f: "unat (g * 0x40) = (unat (fl st 0) - 40) * 64"
    using assms(8) by (simp add: unat_word_ariths)
  have "unat (q 0 + 0x40) = unat (q 0) + 64" using q by (simp add: unat_word_ariths)
  then have s1: "unat sm1 = (unat (fl st 0) - 40) * 64 div (unat (q 0) + 64)"
    unfolding sm1_def g_def [symmetric] unat_div f by simp
  have e: "cis_wdr_range_check q = TD_SUCCESS"
    using assms(5,6) by (simp add: cis_wdr_range_check_def not_less)
  let ?t = "\<lambda>a b c. t\<lparr>int_time_max := (int_time_max t)(0 := a, 1 := b),
      int_time_min := (int_time_min t)(0 := 8, 1 := c)\<rparr>"
  have r: "sc431hai_get_inttime_max k p en (Some q) (Some t) (Some lf) d =
      (Some (if 8 \<le> sm then ?t sm (drop_bit 6 (sm * q 0)) (drop_bit 6 (8 * q 0)) else ?t 8 511 511),
       Some (fl st 0 * 2 - 19))"
    unfolding sc431hai_inttime_max_eq [OF assms(1-3)] sc431hai_get_inttime_max_2to1_line_def
    using assms(1-4) e
    by (simp add: Let_def sm_def sm0_def sm1_def drop_bit_eq_div)
  show ?thesis
  proof (cases "8 \<le> sm")
    case False
    then show ?thesis unfolding r by simp
  next
    case True
    then have "sm \<le> sm1" "8 \<le> unat sm" by (auto simp: sm_def word_le_nat_alt word_less_nat_alt split: if_splits)
    then have le: "unat sm \<le> (unat (fl st 0) - 40) * 64 div (unat (q 0) + 64)"
      by (simp add: word_le_nat_alt s1)
    have "(unat (fl st 0) - 40) * 64 div (unat (q 0) + 64) \<le> (unat (fl st 0) - 40) * 64 div 128"
      using q by (intro div_le_mono2) simp_all
    also have "\<dots> \<le> 36000 * 64 div 128" using assms(8) by (intro div_le_mono) simp
    finally have "unat sm \<le> 18000" using le by simp
    then have "unat sm * unat (q 0) \<le> 18000 * 2047" using q(2) by (intro mult_le_mono) auto
    then have m: "unat (drop_bit 6 (sm * q 0)) = unat sm * unat (q 0) div 64"
        "unat (drop_bit 6 (8 * q 0)) = 8 * unat (q 0) div 64"
      using q by (simp_all add: unat_drop_bit unat_word_ariths)
    have "8 * unat (q 0) div 64 \<le> unat sm * unat (q 0) div 64"
      using \<open>8 \<le> unat sm\<close> by (intro div_le_mono mult_le_mono1)
    moreover have "unat sm + unat sm * unat (q 0) div 64 + 40 \<le> unat (fl st 0)"
      using ratio_split [OF le] assms(7) by linarith
    ultimately show ?thesis unfolding r using True m by (simp add: word_le_nat_alt)
  qed
qed

definition demo_range :: ot_isp_ae_int_time_range where
  "demo_range = \<lparr>int_time_max = (\<lambda>_. 0), int_time_min = (\<lambda>_. 0)\<rparr>"

theorem sc431hai_inttime_max_bounds_witness:
  "\<exists>t' lf'. sc431hai_get_inttime_max (demo_sdk None) 0 0 (Some (\<lambda>_. 1024)) (Some demo_range) (Some 0)
      (sc431hai_wdr_demo 6000) = (Some t', Some lf') \<and> 8 \<le> int_time_max t' 0 \<and>
    (unat (int_time_max t' 0) + unat (int_time_max t' 1) + 40 \<le> 6000 \<or>
     int_time_max t' 0 = 8 \<and> int_time_max t' 1 = 511)"
  using sc431hai_inttime_max_bounds [OF sc431hai_wdr_demo_info(1) [of 6000] _ sc431hai_wdr_demo_info(4) [of 6000],
      where q = "\<lambda>_. 1024" and k = "demo_sdk None" and en = 0
        and t = demo_range and lf = 0]
    sc431hai_wdr_demo_info(5) [of 6000 0]
  by (auto simp: sc431hai_info0_def intro: order_trans)

text \<open>
  A permitted short exposure does not fit its registers.  In frames of 18000 half lines (10 frames
  per second) and with a ratio of 1, the driver tells AE that the short exposure may be as long
  as 8980 half lines; but there is no register for bits 12 and above of the short exposure, and
  when AE then asks for 8980 half lines the sensor gets 788.
\<close>

theorem sc431hai_short_exposure_truncated:
  assumes "div_guards k"
  shows "\<exists>t' lf' ci' st'. sc431hai_get_inttime_max k 0 0 (Some (\<lambda>_. 64)) (Some t) (Some lf)
      (sc431hai_wdr_demo 18000) = (Some t', Some lf') \<and> int_time_max t' 0 = 8980 \<and>
    cmos_get_info 0 (sc431hai_inttime_update 0 l (sc431hai_inttime_update 0 8980 (sc431hai_wdr_demo 18000)))
      = Some ci' \<and> sns_state ci' = Some st' \<and>
    short_expo_value (d_data (i2c_data (regs_info st' 0) 10)) (d_data (i2c_data (regs_info st' 0) 9)) = 788"
proof -
  have "div_0_to_1 k 64 = 64" using assms by (simp add: div_guards_def)
  then have "\<exists>t' lf'. sc431hai_get_inttime_max k 0 0 (Some (\<lambda>_. 64)) (Some t) (Some lf)
      (sc431hai_wdr_demo 18000) = (Some t', Some lf') \<and> int_time_max t' 0 = 8980"
    using sc431hai_wdr_demo_info [of 18000]
    by (simp add: sc431hai_inttime_max_eq [OF sc431hai_wdr_demo_info(1) [of 18000] _ sc431hai_wdr_demo_info(4) [of 18000]]
        sc431hai_get_inttime_max_2to1_line_def cis_wdr_range_check_def sc431hai_info0_def Let_def)
  moreover obtain ci' st' where
    "cmos_get_info 0 (sc431hai_inttime_update 0 l (sc431hai_inttime_update 0 8980 (sc431hai_wdr_demo 18000)))
      = Some ci'" "sns_state ci' = Some st'"
    "sc431hai_wdr_regs (sc431hai_max_short_exp 8980 0xB8 18000)
       (min l (18000 - 2 * sc431hai_max_short_exp 8980 0xB8 18000 - 21)) 8980 st'"
    using sc431hai_two_calls [OF sc431hai_wdr_demo_info(1) [of 18000] _ sc431hai_wdr_demo_info(4) [of 18000]
        sc431hai_wdr_demo_info(2), where s = 8980 and l = l] sc431hai_wdr_demo_info(3,5) [of 18000]
    by (auto simp: sc431hai_info0_def)
  ultimately show ?thesis
    by (auto simp: sc431hai_wdr_regs_def Let_def short_expo_fields)
qed

theorem sc431hai_short_exposure_truncated_witness:
  "\<exists>t' lf'. sc431hai_get_inttime_max (demo_sdk None) 0 0 (Some (\<lambda>_. 64)) (Some demo_range) (Some 0)
      (sc431hai_wdr_demo 18000) = (Some t', Some lf') \<and> int_time_max t' 0 = 8980"
  using sc431hai_short_exposure_truncated [OF demo_div_guards, of None demo_range 0] by blast
end
