(* ===== verification/Record_Path.thy ===== *)
theory Record_Path
  imports Prelude
begin

text \<open>
  Text of the recorder: decimal numbers as \<^verbatim>\<open>printf\<close> and \<^verbatim>\<open>std::to_string\<close> write them and
  \<^verbatim>\<open>atoi\<close> reads them, the path helpers (src/include/record/path\_util.h and the anonymous
  namespace of src/src/record/segment\_recorder.cpp), and the URL helpers of the uploader
  (src/src/record/http\_segment\_uploader.cpp).  The lemmas show that file names and
  parents are read back from joined paths, and that a URL is parsed into the parts it was made of.
\<close>

section \<open>Decimal numbers\<close>

definition digit_char :: "nat \<Rightarrow> char" where
  "digit_char d = ''0123456789'' ! d"

fun dec_nat :: "nat \<Rightarrow> string" where
  "dec_nat n = (if n < 10 then [digit_char n] else dec_nat (n div 10) @ [digit_char (n mod 10)])"

declare dec_nat.simps [simp del]

text \<open>\<^verbatim>\<open>%d\<close>, and \<^verbatim>\<open>%0kd\<close> with the zeros between sign and digits.\<close>

definition dec_int :: "int \<Rightarrow> string" where
  "dec_int z = (if z < 0 then ''-'' @ dec_nat (nat (- z)) else dec_nat (nat z))"

definition zero_pad :: "nat \<Rightarrow> string \<Rightarrow> string" where
  "zero_pad k s = replicate (k - length s) (CHR ''0'') @ s"

definition dec_pad :: "nat \<Rightarrow> int \<Rightarrow> string" where
  "dec_pad k z =
     (if z < 0 then ''-'' @ zero_pad (k - 1) (dec_nat (nat (- z))) else zero_pad k (dec_nat (nat z)))"

definition is_digit :: "char \<Rightarrow> bool" where
  "is_digit c \<longleftrightarrow> 48 \<le> (of_char c :: nat) \<and> (of_char c :: nat) \<le> 57"

definition is_space :: "char \<Rightarrow> bool" where
  "is_space c \<longleftrightarrow> c = CHR '' '' \<or> (9 \<le> (of_char c :: nat) \<and> (of_char c :: nat) \<le> 13)"

fun read_digits :: "nat \<Rightarrow> string \<Rightarrow> nat" where
  "read_digits acc [] = acc"
| "read_digits acc (c # cs) = (if is_digit c then read_digits (10 * acc + (of_char c - 48)) cs else acc)"

definition atoi :: "string \<Rightarrow> int" where
  "atoi s =
     (case dropWhile is_space s of
        [] \<Rightarrow> 0
      | c # cs \<Rightarrow>
          if c = CHR ''-'' then - int (read_digits 0 cs)
          else if c = CHR ''+'' then int (read_digits 0 cs)
          else int (read_digits 0 (c # cs)))"

lemma less_ten: "d < (10 :: nat) \<Longrightarrow> d \<in> {0, 1, 2, 3, 4, 5, 6, 7, 8, 9}"
  by auto

lemma of_digit_char: "d < 10 \<Longrightarrow> of_char (digit_char d) = 48 + (d :: nat)"
  using less_ten [of d] by (auto simp: digit_char_def)

lemma is_digit_digit_char [simp]: "d < 10 \<Longrightarrow> is_digit (digit_char d)"
  by (simp add: is_digit_def of_digit_char)

lemma dec_nat_digits: "c \<in> set (dec_nat n) \<Longrightarrow> is_digit c"
proof (induction n rule: dec_nat.induct)
  case (1 n)
  show ?case
  proof (cases "n < 10")
    case True
    with 1(2) show ?thesis by (simp add: dec_nat.simps [of n])
  next
    case False
    with 1(2) have "c \<in> set (dec_nat (n div 10)) \<or> c = digit_char (n mod 10)"
      by (auto simp: dec_nat.simps [of n])
    with 1(1) False show ?thesis by auto
  qed
qed

lemma dec_nat_nonempty [simp]: "dec_nat n \<noteq> []"
  by (simp add: dec_nat.simps [of n])

lemma read_digits_append:
  "\<forall>c \<in> set xs. is_digit c \<Longrightarrow> read_digits acc (xs @ ys) = read_digits (read_digits acc xs) ys"
  by (induction xs arbitrary: acc) auto

lemma read_digits_dec_nat: "read_digits 0 (dec_nat n) = n"
proof (induction n rule: dec_nat.induct)
  case (1 n)
  show ?case
  proof (cases "n < 10")
    case True
    then show ?thesis by (simp add: dec_nat.simps [of n] of_digit_char)
  next
    case False
    then have "read_digits 0 (dec_nat n)
        = read_digits (read_digits 0 (dec_nat (n div 10))) [digit_char (n mod 10)]"
      by (subst dec_nat.simps) (simp add: read_digits_append dec_nat_digits del: read_digits.simps)
    also have "\<dots> = 10 * (n div 10) + n mod 10"
      using 1 False by (simp add: of_digit_char)
    finally show ?thesis by simp
  qed
qed

lemma is_digit_not [simp]:
  "\<not> is_digit (CHR ''_'')" "\<not> is_digit (CHR ''/'')" "\<not> is_digit (CHR ''-'')"
  "\<not> is_digit (CHR '':'')" "\<not> is_digit (CHR ''+'')" "\<not> is_digit (CHR '']'')"
  by (simp_all add: is_digit_def)

lemma atoi_dec_nat: "atoi (dec_nat n) = int n"
proof -
  obtain c cs where d: "dec_nat n = c # cs"
    by (cases "dec_nat n") auto
  then have c: "is_digit c" using dec_nat_digits [of c n] by simp
  then have "\<not> is_space c" "c \<noteq> CHR ''-''" "c \<noteq> CHR ''+''"
    by (auto simp: is_digit_def is_space_def)
  then have "atoi (dec_nat n) = int (read_digits 0 (dec_nat n))"
    by (simp add: atoi_def d)
  then show ?thesis by (simp add: read_digits_dec_nat)
qed

text \<open>The characters of formatted numbers.\<close>

lemma zero_pad_digits: "c \<in> set (zero_pad k (dec_nat n)) \<Longrightarrow> is_digit c"
  by (auto simp: zero_pad_def is_digit_def [of "CHR ''0''"] dest: dec_nat_digits split: if_splits)

lemma dec_pad_chars: "c \<in> set (dec_pad k z) \<Longrightarrow> is_digit c \<or> c = CHR ''-''"
  by (auto simp: dec_pad_def dest: zero_pad_digits split: if_splits)

lemma dec_pad_nonempty [simp]: "dec_pad k z \<noteq> []"
  by (simp add: dec_pad_def zero_pad_def)

lemma dec_pad_no [simp]: "CHR ''_'' \<notin> set (dec_pad k z)" "CHR ''/'' \<notin> set (dec_pad k z)"
  using dec_pad_chars [of "CHR ''_''" k z] dec_pad_chars [of "CHR ''/''" k z] by auto

section \<open>Paths\<close>

definition stream_tag :: "int \<Rightarrow> string" where
  "stream_tag sid = (if sid = 1 then ''sub'' else ''main'')"

definition join_path :: "string \<Rightarrow> string \<Rightarrow> string" where
  "join_path dir name =
     (if dir = [] then name
      else if last dir = CHR ''/'' then dir @ name
      else dir @ ''/'' @ name)"

text \<open>\<open>find_last_of('/')\<close> splits a path into what follows the last slash and what precedes it.\<close>

definition filename_of :: "string \<Rightarrow> string" where
  "filename_of path =
     (if CHR ''/'' \<notin> set path then path else rev (takeWhile (\<lambda>c. c \<noteq> CHR ''/'') (rev path)))"

definition parent_of :: "string \<Rightarrow> string" where
  "parent_of path =
     (if CHR ''/'' \<notin> set path then [] else rev (tl (dropWhile (\<lambda>c. c \<noteq> CHR ''/'') (rev path))))"

text \<open>A name: not empty and without a slash.\<close>

definition plain_name :: "string \<Rightarrow> bool" where
  "plain_name s \<longleftrightarrow> s \<noteq> [] \<and> CHR ''/'' \<notin> set s"

lemma filename_of_slash: "CHR ''/'' \<notin> set n \<Longrightarrow> filename_of (d @ CHR ''/'' # n) = n"
  by (simp add: filename_of_def takeWhile_append)

lemma parent_of_slash: "CHR ''/'' \<notin> set n \<Longrightarrow> parent_of (d @ CHR ''/'' # n) = d"
  by (simp add: parent_of_def dropWhile_append)

lemma join_path_cases:
  obtains "join_path d n = n" "d = []"
  | d' where "join_path d n = d' @ CHR ''/'' # n" "d = d' \<or> d = d' @ ''/''"
proof (cases "d = []")
  case True
  then show ?thesis using that(1) by (simp add: join_path_def)
next
  case False
  show ?thesis
  proof (cases "last d = CHR ''/''")
    case True
    then have "d = butlast d @ ''/''" using append_butlast_last_id [OF False] by simp
    then show ?thesis using that(2) [of "butlast d"] False True
      by (metis append.assoc append_Cons append_Nil join_path_def)
  next
    case l: False
    then show ?thesis using that(2) [of d] False by (simp add: join_path_def)
  qed
qed

lemma filename_of_join [simp]: "CHR ''/'' \<notin> set n \<Longrightarrow> filename_of (join_path d n) = n"
  by (rule join_path_cases [of d n]) (simp_all add: filename_of_slash, simp add: filename_of_def)

text \<open>A segment path names its day: the directory above the file.\<close>

lemma day_of_join:
  assumes "plain_name day" and "CHR ''/'' \<notin> set n"
  shows "filename_of (parent_of (join_path (join_path d day) n)) = day"
proof -
  have "last day \<noteq> CHR ''/''"
    using assms(1) last_in_set by (metis plain_name_def)
  then have "join_path d day \<noteq> []" "last (join_path d day) \<noteq> CHR ''/''"
    using assms(1) by (auto simp: join_path_def plain_name_def)
  then have "join_path (join_path d day) n = join_path d day @ CHR ''/'' # n"
    by (simp add: join_path_def [of "join_path d day"])
  then show ?thesis
    using assms by (simp add: parent_of_slash plain_name_def)
qed

lemma join_path_nonempty [simp]: "n \<noteq> [] \<Longrightarrow> join_path d n \<noteq> []"
  by (simp add: join_path_def)

text \<open>\<open>key.rfind(prefix, 0) == 0\<close> is the prefix test.\<close>

definition starts_with :: "string \<Rightarrow> string \<Rightarrow> bool" where
  "starts_with p s \<longleftrightarrow> take (length p) s = p"

definition relative_key :: "string \<Rightarrow> string \<Rightarrow> string" where
  "relative_key directory absolute_path =
     (if starts_with directory absolute_path
      then let key = drop (length directory) absolute_path
           in if key \<noteq> [] \<and> hd key = CHR ''/'' then tl key else key
      else absolute_path)"

lemma relative_key_join:
  "plain_name (take 1 n) \<Longrightarrow> relative_key d (join_path d n) = n"
  by (cases n) (auto simp: relative_key_def starts_with_def join_path_def plain_name_def)

definition has_suffix :: "string \<Rightarrow> string \<Rightarrow> bool" where
  "has_suffix suf s \<longleftrightarrow> drop (length s - length suf) s = suf"

definition is_media_name :: "string \<Rightarrow> bool" where
  "is_media_name name \<longleftrightarrow> length name > 4 \<and> has_suffix ''.m4s'' name"

lemma is_media_name_append: "s \<noteq> [] \<Longrightarrow> is_media_name (s @ ''.m4s'')"
  by (cases s) (auto simp: is_media_name_def has_suffix_def)

section \<open>URLs\<close>

record parsed_url =
  pu_host :: string
  pu_port :: int
  pu_path :: string

text \<open>
  The last colon of the host part separates the port, unless the part holds a bracket (a literal
  IPv6 address).
\<close>

definition parse_http_url :: "string \<Rightarrow> parsed_url option" where
  "parse_http_url url =
     (if \<not> starts_with ''http://'' url then None
      else
        let rest = drop 7 url;
            hostport = takeWhile (\<lambda>c. c \<noteq> CHR ''/'') rest;
            tail = dropWhile (\<lambda>c. c \<noteq> CHR ''/'') rest;
            path = (if tail = [] then ''/'' else tail);
            (host, port) =
              (if CHR '':'' \<in> set hostport \<and> CHR '']'' \<notin> set hostport
               then (rev (tl (dropWhile (\<lambda>c. c \<noteq> CHR '':'') (rev hostport))),
                     atoi (rev (takeWhile (\<lambda>c. c \<noteq> CHR '':'') (rev hostport))))
               else (hostport, 80))
        in if host \<noteq> [] \<and> 0 < port \<and> port \<le> 65535
           then Some \<lparr>pu_host = host, pu_port = port, pu_path = path\<rparr> else None)"

definition join_url_path :: "string \<Rightarrow> string \<Rightarrow> string" where
  "join_url_path base key =
     (if key = [] then if base = [] then ''/'' else base
      else if base = [] \<or> base = ''/'' then if hd key = CHR ''/'' then key else ''/'' @ key
      else if last base = CHR ''/'' \<and> hd key = CHR ''/'' then base @ tl key
      else if last base \<noteq> CHR ''/'' \<and> hd key \<noteq> CHR ''/'' then base @ ''/'' @ key
      else base @ key)"

definition content_type_for :: "string \<Rightarrow> string" where
  "content_type_for path =
     (if length path \<ge> 5 \<and> has_suffix ''.m3u8'' path then ''application/vnd.apple.mpegurl''
      else if length path \<ge> 4 \<and> has_suffix ''.m4s'' path then ''video/iso.segment''
      else ''video/mp4'')"

text \<open>A URL is read back into the host, port and path it was made of.\<close>

lemma parse_http_url_parts:
  assumes "h \<noteq> []" "CHR ''/'' \<notin> set h" "CHR '']'' \<notin> set h" "0 < n" "n \<le> 65535"
    and "p = [] \<or> hd p = CHR ''/''"
  shows "parse_http_url (''http://'' @ h @ '':'' @ dec_nat n @ p) =
           Some \<lparr>pu_host = h, pu_port = int n, pu_path = (if p = [] then ''/'' else p)\<rparr>"
proof -
  let ?d = "dec_nat n"
  have d: "CHR ''/'' \<notin> set ?d" "CHR '']'' \<notin> set ?d" "CHR '':'' \<notin> set ?d"
    using dec_nat_digits [of _ n] is_digit_not by blast+
  let ?ns = "\<lambda>c. c \<noteq> CHR ''/''" and ?nc = "\<lambda>c. c \<noteq> CHR '':''"
  have hp: "takeWhile ?ns (h @ '':'' @ ?d @ p) = h @ '':'' @ ?d"
    "dropWhile ?ns (h @ '':'' @ ?d @ p) = p"
    using assms(2,6) d(1) by (cases p; auto simp: takeWhile_append dropWhile_append)+
  have port: "rev (takeWhile ?nc (rev (h @ '':'' @ ?d))) = ?d"
    "rev (tl (dropWhile ?nc (rev (h @ '':'' @ ?d)))) = h"
    using d(3) by (auto simp: takeWhile_append dropWhile_append)
  have "parse_http_url (''http://'' @ h @ '':'' @ ?d @ p) =
    (let (host, port) =
       (rev (tl (dropWhile ?nc (rev (h @ '':'' @ ?d)))), atoi (rev (takeWhile ?nc (rev (h @ '':'' @ ?d)))))
     in if host \<noteq> [] \<and> 0 < port \<and> port \<le> 65535
        then Some \<lparr>pu_host = host, pu_port = port, pu_path = (if p = [] then ''/'' else p)\<rparr> else None)"
    using assms(3) d(2) hp by (simp add: parse_http_url_def starts_with_def)
  then show ?thesis
    using assms(1,4,5) unfolding port by (simp add: atoi_dec_nat)
qed

end
