(* ===== verification/File_System.thy ===== *)
theory File_System
  imports Record_Path "HOL-Library.AList"
begin

text \<open>
  The part of the POSIX file interface that the recorder uses, on an explicit store: a path names
  the components between its slashes, a directory holds the nodes one component below it, and a
  regular file is the string of its bytes.  The kernel may refuse to create or remove any
  node (\<open>fs_refused\<close>: permissions, a read-only or full medium), so that each error branch of the code
  can be taken.  \<^verbatim>\<open>mkdir_p\<close> is the helper of src/include/record/path\_util.h.
\<close>

section \<open>Store\<close>

datatype node = Directory | Regular string

type_synonym path_key = "bool \<times> string list"

fun split_slash :: "string \<Rightarrow> string list" where
  "split_slash [] = [[]]"
| "split_slash (c # cs) =
     (if c = CHR ''/'' then [] # split_slash cs
      else (case split_slash cs of [] \<Rightarrow> [[c]] | x # xs \<Rightarrow> (c # x) # xs))"

text \<open>An absolute or relative path without its empty components.\<close>

definition path_key :: "string \<Rightarrow> path_key" where
  "path_key p = (take 1 p = ''/'', filter (\<lambda>c. c \<noteq> []) (split_slash p))"

record file_system =
  fs_nodes :: "(path_key \<times> node) list"
  fs_refused :: "path_key list"

definition empty_disk :: file_system where
  "empty_disk = \<lparr>fs_nodes = [], fs_refused = []\<rparr>"

text \<open>The root and the working directory are always there.\<close>

definition fs_node :: "path_key \<Rightarrow> file_system \<Rightarrow> node option" where
  "fs_node k fs = (if snd k = [] then Some Directory else map_of (fs_nodes fs) k)"

definition fs_parent :: "path_key \<Rightarrow> path_key" where
  "fs_parent k = (fst k, butlast (snd k))"

definition fs_put :: "path_key \<Rightarrow> node \<Rightarrow> file_system \<Rightarrow> file_system" where
  "fs_put k n fs = fs\<lparr>fs_nodes := AList.update k n (fs_nodes fs)\<rparr>"

definition fs_remove :: "path_key \<Rightarrow> file_system \<Rightarrow> file_system" where
  "fs_remove k fs = fs\<lparr>fs_nodes := AList.delete k (fs_nodes fs)\<rparr>"

definition fs_children :: "path_key \<Rightarrow> file_system \<Rightarrow> string list" where
  "fs_children k fs =
     map (\<lambda>e. last (snd (fst e)))
       (filter (\<lambda>e. snd (fst e) \<noteq> [] \<and> fs_parent (fst e) = k) (fs_nodes fs))"

definition fs_can_create :: "path_key \<Rightarrow> file_system \<Rightarrow> bool" where
  "fs_can_create k fs \<longleftrightarrow> k \<notin> set (fs_refused fs) \<and> fs_node (fs_parent k) fs = Some Directory"

section \<open>Calls\<close>

definition fs_stat :: "string \<Rightarrow> file_system \<Rightarrow> node option" where
  "fs_stat p fs = (if p = [] then None else fs_node (path_key p) fs)"

datatype mkdir_result = Mkdir_Ok | Mkdir_Exists | Mkdir_Failed

definition fs_mkdir :: "string \<Rightarrow> file_system \<Rightarrow> mkdir_result \<times> file_system" where
  "fs_mkdir p fs =
     (if p = [] then (Mkdir_Failed, fs)
      else if fs_node (path_key p) fs \<noteq> None then (Mkdir_Exists, fs)
      else if fs_can_create (path_key p) fs then (Mkdir_Ok, fs_put (path_key p) Directory fs)
      else (Mkdir_Failed, fs))"

definition fs_unlink :: "string \<Rightarrow> file_system \<Rightarrow> bool \<times> file_system" where
  "fs_unlink p fs =
     (case fs_stat p fs of
        Some (Regular _) \<Rightarrow>
          if path_key p \<in> set (fs_refused fs) then (False, fs) else (True, fs_remove (path_key p) fs)
      | _ \<Rightarrow> (False, fs))"

definition fs_rmdir :: "string \<Rightarrow> file_system \<Rightarrow> bool \<times> file_system" where
  "fs_rmdir p fs =
     (if fs_stat p fs = Some Directory \<and> snd (path_key p) \<noteq> [] \<and>
         path_key p \<notin> set (fs_refused fs) \<and> fs_children (path_key p) fs = []
      then (True, fs_remove (path_key p) fs) else (False, fs))"

text \<open>\<^verbatim>\<open>opendir\<close> and the \<^verbatim>\<open>readdir\<close> loop: the names in the order of the store.\<close>

definition fs_list :: "string \<Rightarrow> file_system \<Rightarrow> string list option" where
  "fs_list p fs =
     (if fs_stat p fs = Some Directory then Some ([''.'', ''..''] @ fs_children (path_key p) fs)
      else None)"

text \<open>\<^verbatim>\<open>fopen\<close> for writing: the file is there afterwards, and empty.\<close>

definition fs_create :: "string \<Rightarrow> file_system \<Rightarrow> bool \<times> file_system" where
  "fs_create p fs =
     (if p = [] \<or> \<not> fs_can_create (path_key p) fs \<or> fs_node (path_key p) fs = Some Directory
      then (False, fs) else (True, fs_put (path_key p) (Regular []) fs))"

definition fs_content :: "string \<Rightarrow> file_system \<Rightarrow> string" where
  "fs_content p fs = (case fs_stat p fs of Some (Regular s) \<Rightarrow> s | _ \<Rightarrow> [])"

definition fs_fill :: "string \<Rightarrow> string \<Rightarrow> file_system \<Rightarrow> file_system" where
  "fs_fill p s fs = fs_put (path_key p) (Regular s) fs"

definition file_exists :: "string \<Rightarrow> file_system \<Rightarrow> bool" where
  "file_exists p fs \<longleftrightarrow> fs_stat p fs \<noteq> None"

section \<open>Laws\<close>

lemma fs_node_put: "snd k \<noteq> [] \<Longrightarrow> fs_node j (fs_put k n fs) = (if j = k then Some n else fs_node j fs)"
  by (auto simp: fs_node_def fs_put_def update_conv')

lemma fs_node_remove:
  "snd k \<noteq> [] \<Longrightarrow> fs_node j (fs_remove k fs) = (if j = k then None else fs_node j fs)"
  by (auto simp: fs_node_def fs_remove_def delete_conv')

lemma fs_stat_children: "fs_list p fs = Some ns \<Longrightarrow> fs_stat p fs = Some Directory"
  by (simp add: fs_list_def split: if_splits)

lemma split_slash_nonempty [simp]: "split_slash s \<noteq> []"
  by (induction s) (auto split: list.split)

lemma split_slash_no_slash: "c \<in> set (split_slash s) \<Longrightarrow> CHR ''/'' \<notin> set c"
  by (induction s arbitrary: c) (auto split: if_splits list.splits)

lemma path_key_created: "fst (fs_create p fs) \<Longrightarrow> snd (path_key p) \<noteq> []"
  by (auto simp: fs_create_def fs_node_def split: if_splits)

lemma fs_create_fill:
  assumes "fst (fs_create p fs)"
  shows "fs_content p (fs_fill p s (snd (fs_create p fs))) = s"
  using assms path_key_created [OF assms]
  by (auto simp: fs_content_def fs_stat_def fs_fill_def fs_node_put fs_create_def split: if_splits)

section \<open>Creating a directory and its parents\<close>

fun mkdir_p_loop :: "string \<Rightarrow> string \<Rightarrow> file_system \<Rightarrow> bool \<times> file_system" where
  "mkdir_p_loop [] current fs = (True, fs)"
| "mkdir_p_loop (ch # rest) current fs =
     (let cur = current @ [ch] in
      if ch \<noteq> CHR ''/'' \<and> rest \<noteq> [] then mkdir_p_loop rest cur fs
      else if cur = [] \<or> cur = ''/'' then mkdir_p_loop rest cur fs
      else
        let cur1 = (if length cur > 1 \<and> last cur = CHR ''/'' then butlast cur else cur);
            (r, fs1) = fs_mkdir cur1 fs
        in if r = Mkdir_Failed then (False, fs1)
           else mkdir_p_loop rest
                  (if rest \<noteq> [] \<and> last cur1 \<noteq> CHR ''/'' then cur1 @ ''/'' else cur1) fs1)"

definition mkdir_p :: "string \<Rightarrow> file_system \<Rightarrow> bool \<times> file_system" where
  "mkdir_p path fs = (if path = [] then (False, fs) else mkdir_p_loop path [] fs)"

text \<open>A directory that exists, below existing directories, is accepted without a change.\<close>

lemma fs_mkdir_keeps:
  "fs_node k fs = Some n \<Longrightarrow> fs_node k (snd (fs_mkdir p fs)) = Some n"
  by (auto simp: fs_mkdir_def fs_node_put fs_node_def [of "path_key p"])

lemma mkdir_p_loop_keeps:
  "fs_node k fs = Some n \<Longrightarrow> fs_node k (snd (mkdir_p_loop rest cur fs)) = Some n"
  by (induction rest arbitrary: cur fs) (simp_all add: Let_def case_prod_beta fs_mkdir_keeps)

lemma mkdir_p_keeps: "fs_node k fs = Some n \<Longrightarrow> fs_node k (snd (mkdir_p path fs)) = Some n"
  by (simp add: mkdir_p_def mkdir_p_loop_keeps)

end
