(* ===== verification/Float64.thy ===== *)
theory Float64
  imports Float32
begin

text \<open>
  Double precision arithmetic as the recorder uses it for segment durations, in the style of the
  single precision model: a finite \<^verbatim>\<open>double\<close> is the rational number it denotes, and each operation
  rounds the exact result to 53 significant bits, to nearest with ties to even.  Durations are
  milliseconds divided by a thousand and sums of them, far inside the exponent range.
\<close>

type_synonym f64 = rat

definition f64_ulp_exp :: "rat \<Rightarrow> int" where
  "f64_ulp_exp q =
     (if 1 \<le> q then int (ilog2 (nat \<lfloor>q\<rfloor>))
      else - (int (ilog2 (nat (\<lceil>1 / q\<rceil> - 1))) + 1)) - 52"

definition f64_rnd :: "rat \<Rightarrow> f64" where
  "f64_rnd q =
     (if q = 0 then 0
      else if 0 < q then of_int (round_even (q / 2 powi f64_ulp_exp q)) * 2 powi f64_ulp_exp q
      else - (of_int (round_even (- q / 2 powi f64_ulp_exp (- q))) * 2 powi f64_ulp_exp (- q)))"

definition f64_add :: "f64 \<Rightarrow> f64 \<Rightarrow> f64" where
  "f64_add x y = f64_rnd (x + y)"

definition f64_div :: "f64 \<Rightarrow> f64 \<Rightarrow> f64" where
  "f64_div x y = f64_rnd (x / y)"

definition f64_of_int :: "int \<Rightarrow> f64" where
  "f64_of_int n = f64_rnd (of_int n)"

lemma f64_ulp_exp_f32: "f64_ulp_exp q = f32_ulp_exp q - 29"
  by (simp add: f64_ulp_exp_def f32_ulp_exp_def)

text \<open>The significand has 53 bits: 29 more than the one of the single format.\<close>

lemma f64_significand:
  assumes "0 < q"
  shows "q / 2 powi f64_ulp_exp q = q / 2 powi f32_ulp_exp q * 2 ^ 29"
proof -
  have "(2 :: rat) powi f64_ulp_exp q = 2 powi f32_ulp_exp q / 2 ^ 29"
    unfolding f64_ulp_exp_f32 by (simp add: power_int_diff)
  then show ?thesis by (simp only: divide_divide_eq_right times_divide_eq_left)
qed

lemma f64_ulp_bounds:
  assumes "0 < q"
  shows "2 ^ 52 \<le> q / 2 powi f64_ulp_exp q \<and> q / 2 powi f64_ulp_exp q < 2 ^ 53"
proof -
  have "(2 :: rat) ^ 52 = 2 ^ 23 * 2 ^ 29" "(2 :: rat) ^ 53 = 2 ^ 24 * 2 ^ 29" by simp_all
  then show ?thesis
    using ulp_bounds [OF assms] unfolding f64_significand [OF assms]
    by (metis mult_le_cancel_right_pos mult_less_cancel_right_pos zero_less_numeral zero_less_power)
qed

lemma f64_rnd_0 [simp]: "f64_rnd 0 = 0"
  by (simp add: f64_rnd_def)

lemma f64_rnd_pos: "0 < q \<Longrightarrow> 0 < f64_rnd q"
proof -
  assume q: "0 < q"
  have "(2 :: int) ^ 52 \<le> \<lfloor>q / 2 powi f64_ulp_exp q\<rfloor>"
    using f64_ulp_bounds [OF q] by (simp add: le_floor_iff)
  moreover have "\<lfloor>q / 2 powi f64_ulp_exp q\<rfloor> \<le> round_even (q / 2 powi f64_ulp_exp q)"
    using round_even_near by blast
  ultimately have "2 ^ 52 \<le> round_even (q / 2 powi f64_ulp_exp q)" by (rule order_trans)
  then have "0 < round_even (q / 2 powi f64_ulp_exp q)" by (rule less_le_trans [rotated]) simp
  with q show ?thesis by (simp add: f64_rnd_def)
qed

lemma f64_rnd_nonneg: "0 \<le> q \<Longrightarrow> 0 \<le> f64_rnd q"
  using f64_rnd_pos [of q] by (cases "q = 0") auto

text \<open>Integers of up to 53 bits are exact.\<close>

lemma f64_of_pos:
  assumes "0 < n" and "n < 2 ^ 53"
  shows "f64_of_int n = of_int n"
proof -
  let ?q = "of_int n :: rat"
  have q: "0 < ?q" using assms by simp
  have "f64_ulp_exp ?q \<le> 0"
  proof (rule ccontr)
    assume "\<not> f64_ulp_exp ?q \<le> 0"
    then have "(2 :: rat) powi 1 \<le> 2 powi f64_ulp_exp ?q"
      by (intro power_int_increasing) auto
    moreover have "2 ^ 52 * (2 :: rat) powi f64_ulp_exp ?q \<le> ?q"
      using f64_ulp_bounds [OF q] by (simp add: pos_le_divide_eq)
    ultimately have "(2 :: rat) ^ 53 \<le> ?q" by simp
    then show False using assms(2)
      by (metis linorder_not_le of_int_le_iff of_int_numeral of_int_power)
  qed
  then obtain k where k: "f64_ulp_exp ?q = - int k"
    by (metis nonpos_int_cases)
  have e: "?q / 2 powi f64_ulp_exp ?q = of_int (n * 2 ^ k)"
    unfolding k by (simp add: power_int_minus field_simps)
  have "f64_of_int n = of_int (n * 2 ^ k) * 2 powi f64_ulp_exp ?q"
    using q by (simp add: f64_of_int_def f64_rnd_def e del: of_int_mult of_int_power)
  then show ?thesis unfolding k by (simp add: power_int_minus)
qed

lemma f64_of_nonneg: "0 \<le> n \<Longrightarrow> n < 2 ^ 53 \<Longrightarrow> f64_of_int n = of_int n"
  using f64_of_pos [of n] by (cases "n = 0") (auto simp: f64_of_int_def)

end
