(* ===== verification/Hls_Playlist.thy ===== *)
theory Hls_Playlist
  imports File_System Float64
begin

text \<open>
  The HLS playlist of a recording day (src/include/record/hls\_playlist.h,
  src/src/record/hls\_playlist.cpp): the entries kept in memory and the text written to
  \<^verbatim>\<open>index.m3u8\<close> after each change.  The lemmas show what a player reads out of that text, that the
  announced target duration covers every entry, and that a segment keeps its sequence number while
  the window slides.
\<close>

section \<open>State and operations\<close>

record hls_playlist =
  pl_path :: string
  pl_target_duration_sec :: int
  pl_media_sequence :: int
  pl_entries :: "(string \<times> f64) list"
  pl_ended :: bool

definition new_hls_playlist :: hls_playlist where
  "new_hls_playlist =
     \<lparr>pl_path = [], pl_target_duration_sec = 300, pl_media_sequence = 0, pl_entries = [],
      pl_ended = False\<rparr>"

definition pl_active :: "hls_playlist \<Rightarrow> bool" where
  "pl_active p \<longleftrightarrow> pl_path p \<noteq> []"

definition front_name :: "hls_playlist \<Rightarrow> string" where
  "front_name p = (if pl_entries p = [] then [] else fst (hd (pl_entries p)))"

text \<open>\<^verbatim>\<open>%.3f\<close> of a non-negative double: thousandths, to nearest with ties to even.\<close>

definition fixed3 :: "f64 \<Rightarrow> string" where
  "fixed3 q =
     (let n = nat (round_even (q * 1000))
      in dec_nat (n div 1000) @ ''.'' @ zero_pad 3 (dec_nat (n mod 1000)))"

definition newline :: string where
  "newline = [CHR 0x0A]"

definition header_lines :: "hls_playlist \<Rightarrow> string list" where
  "header_lines p =
     [''#EXTM3U'', ''#EXT-X-VERSION:7'',
      ''#EXT-X-TARGETDURATION:'' @ dec_int (pl_target_duration_sec p),
      ''#EXT-X-MEDIA-SEQUENCE:'' @ dec_int (pl_media_sequence p),
      ''#EXT-X-INDEPENDENT-SEGMENTS'',
      ''#EXT-X-MAP:URI='' @ [CHR 0x22] @ ''init.mp4'' @ [CHR 0x22]]"

definition entry_lines :: "string \<times> f64 \<Rightarrow> string list" where
  "entry_lines e = [''#EXTINF:'' @ fixed3 (snd e) @ '','', fst e]"

definition playlist_lines :: "hls_playlist \<Rightarrow> string list" where
  "playlist_lines p =
     header_lines p @ concat (map entry_lines (pl_entries p)) @
     (if pl_ended p then [''#EXT-X-ENDLIST''] else [])"

definition playlist_text :: "hls_playlist \<Rightarrow> string" where
  "playlist_text p = concat (map (\<lambda>l. l @ newline) (playlist_lines p))"

definition rewrite :: "hls_playlist \<Rightarrow> file_system \<Rightarrow> bool \<times> file_system" where
  "rewrite p fs =
     (if pl_path p = [] then (False, fs)
      else let (ok, fs1) = fs_create (pl_path p) fs
           in if \<not> ok then (False, fs1) else (True, fs_fill (pl_path p) (playlist_text p) fs1))"

definition pl_begin ::
  "string \<Rightarrow> int \<Rightarrow> file_system \<Rightarrow> bool \<times> hls_playlist \<times> file_system" where
  "pl_begin path target fs =
     (let p = \<lparr>pl_path = path, pl_target_duration_sec = (if target > 0 then target else 300),
               pl_media_sequence = 0, pl_entries = [], pl_ended = False\<rparr>;
          (ok, fs1) = rewrite p fs
      in (ok, p, fs1))"

text \<open>The shortest duration an entry is given: the double literal \<^verbatim>\<open>0.001\<close>.\<close>

definition min_duration :: f64 where
  "min_duration = f64_rnd (1 / 1000)"

definition entry_duration :: "f64 \<Rightarrow> f64" where
  "entry_duration d = (if d > min_duration then d else min_duration)"

definition pl_append ::
  "string \<Rightarrow> f64 \<Rightarrow> hls_playlist \<times> file_system \<Rightarrow> hls_playlist \<times> file_system" where
  "pl_append name d = (\<lambda>(p, fs).
     if pl_path p = [] \<or> name = [] then (p, fs)
     else
       let duration = entry_duration d;
           rounded = \<lceil>duration\<rceil>;
           p1 = p\<lparr>pl_target_duration_sec :=
                    (if rounded > pl_target_duration_sec p then rounded else pl_target_duration_sec p),
                  pl_entries := pl_entries p @ [(name, duration)], pl_ended := False\<rparr>
       in (p1, snd (rewrite p1 fs)))"

definition drop_front_if ::
  "string \<Rightarrow> hls_playlist \<times> file_system \<Rightarrow> bool \<times> hls_playlist \<times> file_system" where
  "drop_front_if name = (\<lambda>(p, fs).
     if pl_entries p = [] \<or> fst (hd (pl_entries p)) \<noteq> name then (False, p, fs)
     else
       let p1 = p\<lparr>pl_entries := tl (pl_entries p), pl_media_sequence := pl_media_sequence p + 1\<rparr>
       in (True, p1, snd (rewrite p1 fs)))"

definition pl_finish :: "hls_playlist \<times> file_system \<Rightarrow> hls_playlist \<times> file_system" where
  "pl_finish = (\<lambda>(p, fs).
     if pl_path p = [] \<or> pl_ended p then (p, fs)
     else let p1 = p\<lparr>pl_ended := True\<rparr> in (p1, snd (rewrite p1 fs)))"

section \<open>What the operations leave alone\<close>

lemma pl_append_entries:
  "pl_entries (fst (pl_append name d (p, fs))) =
     (if pl_path p = [] \<or> name = [] then pl_entries p
      else pl_entries p @ [(name, entry_duration d)])"
  "pl_path (fst (pl_append name d (p, fs))) = pl_path p"
  by (simp_all add: pl_append_def Let_def)

lemma drop_front_if_entries:
  "pl_entries (fst (snd (drop_front_if name (p, fs)))) =
     (if pl_entries p \<noteq> [] \<and> fst (hd (pl_entries p)) = name then tl (pl_entries p)
      else pl_entries p)"
  "pl_path (fst (snd (drop_front_if name (p, fs)))) = pl_path p"
  by (simp_all add: drop_front_if_def Let_def)

lemma pl_finish_entries [simp]:
  "pl_entries (fst (pl_finish (p, fs))) = pl_entries p"
  "pl_path (fst (pl_finish (p, fs))) = pl_path p"
  by (simp_all add: pl_finish_def Let_def)

lemma pl_begin_fields [simp]:
  "pl_entries (fst (snd (pl_begin path target fs))) = []"
  "pl_path (fst (snd (pl_begin path target fs))) = path"
  by (simp_all add: pl_begin_def Let_def case_prod_beta)

section \<open>What a player reads\<close>

text \<open>
  A player takes the text apart at the newlines; a line that does not start with a hash is the
  name of a segment, and the entry before it gives its duration.
\<close>

fun text_lines :: "string \<Rightarrow> string list" where
  "text_lines [] = []"
| "text_lines (c # cs) =
     (if c = CHR 0x0A then [] # text_lines cs
      else (case text_lines cs of [] \<Rightarrow> [[c]] | l # ls \<Rightarrow> (c # l) # ls))"

definition segment_uris :: "string \<Rightarrow> string list" where
  "segment_uris txt = filter (\<lambda>l. l \<noteq> [] \<and> hd l \<noteq> CHR ''#'') (text_lines txt)"

definition uri_name :: "string \<Rightarrow> bool" where
  "uri_name s \<longleftrightarrow> s \<noteq> [] \<and> hd s \<noteq> CHR ''#'' \<and> CHR 0x0A \<notin> set s"

lemma text_lines_line: "CHR 0x0A \<notin> set l \<Longrightarrow> text_lines (l @ CHR 0x0A # s) = l # text_lines s"
  by (induction l) auto

lemma text_lines_concat:
  "\<forall>l \<in> set ls. CHR 0x0A \<notin> set l \<Longrightarrow> text_lines (concat (map (\<lambda>l. l @ newline) ls)) = ls"
  by (induction ls) (auto simp: newline_def text_lines_line)

lemma not_newline: "is_digit c \<Longrightarrow> c \<noteq> CHR 0x0A"
  by (auto simp: is_digit_def)

lemma dec_no_newline [simp]:
  "CHR 0x0A \<notin> set (dec_nat n)" "CHR 0x0A \<notin> set (zero_pad k (dec_nat n))"
  using dec_nat_digits zero_pad_digits not_newline by blast+

lemma dec_int_no_newline [simp]: "CHR 0x0A \<notin> set (dec_int z)"
  by (simp add: dec_int_def)

lemma fixed3_no_newline [simp]: "CHR 0x0A \<notin> set (fixed3 q)"
  by (simp add: fixed3_def Let_def)

lemma playlist_lines_no_newline:
  "\<forall>e \<in> set (pl_entries p). uri_name (fst e) \<Longrightarrow>
   \<forall>l \<in> set (playlist_lines p). CHR 0x0A \<notin> set l"
  by (auto simp: playlist_lines_def header_lines_def entry_lines_def uri_name_def)

lemma filter_entry_lines:
  "\<forall>e \<in> set es. uri_name (fst e) \<Longrightarrow>
   filter (\<lambda>l. l \<noteq> [] \<and> hd l \<noteq> CHR ''#'') (concat (map entry_lines es)) = map fst es"
  by (induction es) (auto simp: entry_lines_def uri_name_def)

lemma playlist_text_uris:
  assumes "\<forall>e \<in> set (pl_entries p). uri_name (fst e)"
  shows "segment_uris (playlist_text p) = map fst (pl_entries p)"
  unfolding segment_uris_def playlist_text_def
    text_lines_concat [OF playlist_lines_no_newline [OF assms]]
  by (simp add: playlist_lines_def header_lines_def filter_entry_lines [OF assms])

lemma rewrite_text:
  "fst (rewrite p fs) \<Longrightarrow> fs_content (pl_path p) (snd (rewrite p fs)) = playlist_text p"
  by (auto simp: rewrite_def case_prod_beta fs_create_fill split: if_splits)

section \<open>The announced target duration\<close>

definition target_covers :: "hls_playlist \<Rightarrow> bool" where
  "target_covers p \<longleftrightarrow>
     0 < pl_target_duration_sec p \<and>
     list_all (\<lambda>e. 0 < snd e \<and> \<lceil>snd e\<rceil> \<le> pl_target_duration_sec p) (pl_entries p)"

lemma min_duration_pos: "0 < min_duration"
  by (simp add: min_duration_def f64_rnd_pos)

lemma entry_duration_pos: "0 < entry_duration d"
  using min_duration_pos by (simp add: entry_duration_def)

lemma target_covers_begin [inv_intros]: "target_covers (fst (snd (pl_begin path target fs)))"
  by (simp add: pl_begin_def target_covers_def Let_def case_prod_beta)

lemma target_covers_append [inv_intros]:
  assumes "target_covers p"
  shows "target_covers (fst (pl_append name d (p, fs)))"
proof (cases "pl_path p = [] \<or> name = []")
  case True
  then show ?thesis using assms by (auto simp: pl_append_def)
next
  case False
  let ?t = "pl_target_duration_sec p" and ?p = "fst (pl_append name d (p, fs))"
  have t: "pl_target_duration_sec ?p = max ?t \<lceil>entry_duration d\<rceil>"
    using False by (simp add: pl_append_def Let_def max_def)
  have "list_all (\<lambda>e. 0 < snd e \<and> \<lceil>snd e\<rceil> \<le> max ?t \<lceil>entry_duration d\<rceil>) (pl_entries p)"
    using assms unfolding target_covers_def list_all_iff by (meson max.coboundedI1)
  with False assms entry_duration_pos [of d] show ?thesis
    unfolding target_covers_def t
    by (simp add: pl_append_entries target_covers_def less_max_iff_disj del: ceiling_le_iff)
qed

lemma target_covers_drop [inv_intros]:
  "target_covers p \<Longrightarrow> target_covers (fst (snd (drop_front_if name (p, fs))))"
  by (cases "pl_entries p") (auto simp: drop_front_if_def target_covers_def Let_def)

lemma target_covers_finish [inv_intros]:
  "target_covers p \<Longrightarrow> target_covers (fst (pl_finish (p, fs)))"
  by (simp add: pl_finish_def target_covers_def Let_def)

section \<open>Sequence numbers\<close>

text \<open>The calls between two \<open>begin\<close>s, as the recorder makes them.\<close>

datatype playlist_call = Append string f64 | Drop_Front string | Finish

fun playlist_step :: "playlist_call \<Rightarrow> hls_playlist \<times> file_system \<Rightarrow> hls_playlist \<times> file_system" where
  "playlist_step (Append name d) s = pl_append name d s"
| "playlist_step (Drop_Front name) s = snd (drop_front_if name s)"
| "playlist_step Finish s = pl_finish s"

fun appended :: "playlist_call list \<Rightarrow> string list" where
  "appended [] = []"
| "appended (Append name d # cs) = (if name = [] then [] else [name]) @ appended cs"
| "appended (_ # cs) = appended cs"

text \<open>
  The window: the entries are what was appended from position \<open>k\<close> on, and \<open>k\<close> is the announced
  sequence number, so the number of a segment is its position among all segments ever appended.
\<close>

definition window :: "string list \<Rightarrow> hls_playlist \<Rightarrow> bool" where
  "window names p \<longleftrightarrow>
     0 \<le> pl_media_sequence p \<and> nat (pl_media_sequence p) \<le> length names \<and>
     map fst (pl_entries p) = drop (nat (pl_media_sequence p)) names"

lemma window_append:
  "window names p \<Longrightarrow> pl_path p \<noteq> [] \<Longrightarrow>
   window (names @ (if name = [] then [] else [name])) (fst (pl_append name d (p, fs)))"
  by (auto simp: window_def pl_append_def Let_def)

lemma window_drop:
  assumes "window names p"
  shows "window names (fst (snd (drop_front_if name (p, fs))))"
proof (cases "pl_entries p \<noteq> [] \<and> fst (hd (pl_entries p)) = name")
  case True
  let ?k = "nat (pl_media_sequence p)"
  have "drop ?k names \<noteq> []" "map fst (tl (pl_entries p)) = tl (drop ?k names)"
    using True assms by (auto simp: window_def map_tl)
  moreover have "nat (pl_media_sequence p + 1) = Suc ?k"
    using assms by (auto simp: window_def)
  ultimately show ?thesis
    using True assms by (auto simp: window_def drop_front_if_def Let_def drop_Suc tl_drop)
next
  case False
  then show ?thesis using assms by (auto simp: drop_front_if_def)
qed

lemma window_finish: "window names p \<Longrightarrow> window names (fst (pl_finish (p, fs)))"
  by (simp add: window_def pl_finish_def Let_def)

definition playlist_ok :: "string list \<Rightarrow> hls_playlist \<Rightarrow> bool" where
  "playlist_ok names p \<longleftrightarrow> pl_path p \<noteq> [] \<and> target_covers p \<and> window names p"

lemma playlist_step_ok:
  "playlist_ok names p \<Longrightarrow> playlist_ok (names @ appended [c]) (fst (playlist_step c (p, fs)))"
  by (cases c)
    (auto simp: playlist_ok_def pl_append_entries drop_front_if_entries window_append
      window_drop window_finish intro: inv_intros)

lemma playlist_run_ok:
  "playlist_ok names p \<Longrightarrow>
   playlist_ok (names @ appended cs) (fst (fold playlist_step cs (p, fs)))"
proof (induction cs arbitrary: names p fs)
  case (Cons c cs)
  obtain q gs where e: "playlist_step c (p, fs) = (q, gs)" by (cases "playlist_step c (p, fs)")
  have "playlist_ok (names @ appended [c]) q"
    using playlist_step_ok [OF Cons.prems, of c fs] e by simp
  from Cons.IH [OF this, of gs] e show ?case by (cases c) simp_all
qed simp

text \<open>
  C21: After \<open>begin\<close> and any sequence of appends, removals at the front and finishes, the playlist is a
  window on all segments appended so far: it announces as media sequence the number of segments
  before the window, lists the segments from there on, and its target duration is positive
  and at least the duration of each entry, rounded up.
\<close>

theorem playlist_sliding_window:
  assumes "path \<noteq> []" and "p = fst (fold playlist_step cs (snd (pl_begin path target fs)))"
  shows "0 < pl_target_duration_sec p \<and>
    (\<forall>e \<in> set (pl_entries p). 0 < snd e \<and> \<lceil>snd e\<rceil> \<le> pl_target_duration_sec p) \<and>
    0 \<le> pl_media_sequence p \<and>
    map fst (pl_entries p) = drop (nat (pl_media_sequence p)) (appended cs) \<and>
    pl_media_sequence p + int (length (pl_entries p)) = int (length (appended cs))"
proof -
  obtain q gs where b: "snd (pl_begin path target fs) = (q, gs)"
    by (cases "snd (pl_begin path target fs)")
  have "playlist_ok [] q"
    using assms(1) target_covers_begin [of path target fs] b
    by (auto simp: playlist_ok_def window_def pl_begin_def Let_def case_prod_beta)
  from playlist_run_ok [OF this, of cs gs] have ok: "playlist_ok (appended cs) p"
    using assms(2) b by simp
  then have "length (pl_entries p) = length (appended cs) - nat (pl_media_sequence p)"
    unfolding playlist_ok_def window_def by (metis length_drop length_map)
  with ok show ?thesis
    by (simp add: playlist_ok_def target_covers_def window_def list_all_iff)
qed

theorem playlist_sliding_window_witness:
  "\<exists>p. p = fst (fold playlist_step [Append ''a.m4s'' 2, Append ''b.m4s'' 7, Drop_Front ''a.m4s'', Finish]
          (snd (pl_begin ''index.m3u8'' 5 empty_disk))) \<and>
     0 < pl_target_duration_sec p \<and> 0 \<le> pl_media_sequence p \<and>
     map fst (pl_entries p) = drop (nat (pl_media_sequence p)) [''a.m4s'', ''b.m4s''] \<and>
     pl_media_sequence p + int (length (pl_entries p)) = 2"
  using playlist_sliding_window
    [of "''index.m3u8''" _
      "[Append ''a.m4s'' 2, Append ''b.m4s'' 7, Drop_Front ''a.m4s'', Finish]" 5 empty_disk]
  by simp

end
