(* ===== verification/Fmp4_Muxer.thy ===== *)
theory Fmp4_Muxer
  imports Media_Frame File_System
begin

text \<open>
  The segment muxer of the recorder (src/include/record/i\_cmaf\_muxer.h,
  src/include/record/fmp4\_segment\_muxer.h, src/src/record/fmp4\_segment\_muxer.cpp).  The media
  library it drives is not part of the repository: its functions are the fields of the parameter
  \<open>media_kit\<close>, on an opaque type of handles, and a call that writes is a function of the contents and
  position of the open file.  The lemmas give the states a call can leave the muxer in: no session, a
  session without a segment, or a session with an open file.
\<close>

section \<open>The media library\<close>

type_synonym file_state = "string \<times> nat"

record 'x media_kit =
  mk_MOV_OBJECT_H264 :: u8
  mk_MOV_OBJECT_H265 :: u8
  mk_MOV_OBJECT_AAC :: u8
  mk_MOV_OBJECT_G711u :: u8
  mk_MOV_OBJECT_G711a :: u8
  mk_avc_from_nalu :: "u8 list \<Rightarrow> int \<times> 'x"
  mk_avc_nb_sps :: "'x \<Rightarrow> nat"
  mk_avc_nb_pps :: "'x \<Rightarrow> nat"
  mk_avc_save :: "'x \<Rightarrow> nat \<Rightarrow> int \<times> u8 list"
  mk_avc_load :: "u8 list \<Rightarrow> int \<times> 'x"
  mk_hevc_from_nalu :: "u8 list \<Rightarrow> int \<times> 'x"
  mk_hevc_num_arrays :: "'x \<Rightarrow> nat"
  mk_hevc_save :: "'x \<Rightarrow> nat \<Rightarrow> int \<times> u8 list"
  mk_hevc_load :: "u8 list \<Rightarrow> int \<times> 'x"
  mk_aac_adts_load :: "u8 list \<Rightarrow> int \<times> 'x"
  mk_aac_config_save :: "'x \<Rightarrow> nat \<Rightarrow> int \<times> u8 list"
  mk_h264_annexbtomp4 :: "'x \<Rightarrow> u8 list \<Rightarrow> nat \<Rightarrow> int \<times> u8 list \<times> 'x"
  mk_h265_annexbtomp4 :: "'x \<Rightarrow> u8 list \<Rightarrow> nat \<Rightarrow> int \<times> u8 list \<times> 'x"
  mk_writer_create :: "'x option"
  mk_writer_add_video :: "'x \<Rightarrow> u8 \<Rightarrow> int \<Rightarrow> int \<Rightarrow> u8 list \<Rightarrow> int \<times> 'x"
  mk_writer_add_audio :: "'x \<Rightarrow> u8 \<Rightarrow> int \<Rightarrow> int \<Rightarrow> int \<Rightarrow> u8 list \<Rightarrow> int \<times> 'x"
  mk_writer_init_segment :: "'x \<Rightarrow> file_state \<Rightarrow> int \<times> 'x \<times> file_state"
  mk_writer_write :: "int \<Rightarrow> u8 list \<Rightarrow> int \<Rightarrow> int \<Rightarrow> bool \<Rightarrow> 'x \<Rightarrow> file_state \<Rightarrow> int \<times> 'x \<times> file_state"
  mk_writer_save_segment :: "'x \<Rightarrow> file_state \<Rightarrow> int \<times> 'x \<times> file_state"

section \<open>State\<close>

text \<open>
  \<^verbatim>\<open>Context\<close>: the open file by path and position, the writer, and the parameter sets that the
  conversion of the samples needs (\<open>None\<close> is the zero-initialised structure).
\<close>

record 'x mux_context =
  mc_file :: "(string \<times> nat) option"
  mc_writer :: "'x option"
  mc_video_track :: int
  mc_audio_track :: int
  mc_video_codec :: codec
  mc_audio_codec :: codec
  mc_avc :: "'x option"
  mc_hevc :: "'x option"

type_synonym 'x muxer = "'x mux_context option"

definition new_context :: "'x mux_context" where
  "new_context =
     \<lparr>mc_file = None, mc_writer = None, mc_video_track = - 1, mc_audio_track = - 1,
      mc_video_codec = Codec_Unknown, mc_audio_codec = Codec_Unknown, mc_avc = None, mc_hevc = None\<rparr>"

definition video_object :: "'x media_kit \<Rightarrow> codec \<Rightarrow> u8" where
  "video_object k c = (if c = H265 then mk_MOV_OBJECT_H265 k else mk_MOV_OBJECT_H264 k)"

definition audio_object :: "'x media_kit \<Rightarrow> codec \<Rightarrow> u8" where
  "audio_object k c =
     (case c of G711U \<Rightarrow> mk_MOV_OBJECT_G711u k | G711A \<Rightarrow> mk_MOV_OBJECT_G711a k
      | AAC \<Rightarrow> mk_MOV_OBJECT_AAC k | _ \<Rightarrow> 0)"

section \<open>Operations\<close>

text \<open>A library call on the open file.\<close>

definition on_file ::
  "('x \<Rightarrow> file_state \<Rightarrow> int \<times> 'x \<times> file_state) \<Rightarrow> 'x mux_context \<Rightarrow> file_system \<Rightarrow>
     int \<times> 'x mux_context \<times> file_system" where
  "on_file call c fs =
     (case (mc_file c, mc_writer c) of
        (Some (path, pos), Some w) \<Rightarrow>
          let (r, w1, s, pos1) = call w (fs_content path fs, pos)
          in (r, c\<lparr>mc_writer := Some w1, mc_file := Some (path, pos1)\<rparr>, fs_fill path s fs)
      | _ \<Rightarrow> (- 1, c, fs))"

definition segment_open :: "'x muxer \<Rightarrow> bool" where
  "segment_open m = (case m of None \<Rightarrow> False | Some c \<Rightarrow> mc_writer c \<noteq> None \<and> mc_file c \<noteq> None)"

definition detach_file :: "'x muxer \<Rightarrow> 'x muxer" where
  "detach_file m = map_option (\<lambda>c. c\<lparr>mc_file := None\<rparr>) m"

definition attach_file :: "string \<Rightarrow> 'x muxer \<times> file_system \<Rightarrow> bool \<times> 'x muxer \<times> file_system" where
  "attach_file path = (\<lambda>(m, fs).
     case detach_file m of
       None \<Rightarrow> (False, None, fs)
     | Some c \<Rightarrow>
         let (ok, fs1) = fs_create path fs
         in (ok, Some (c\<lparr>mc_file := (if ok then Some (path, 0) else None)\<rparr>), fs1))"

definition close_segment :: "'x media_kit \<Rightarrow> 'x muxer \<times> file_system \<Rightarrow> 'x muxer \<times> file_system" where
  "close_segment k = (\<lambda>(m, fs).
     case m of
       None \<Rightarrow> (None, fs)
     | Some c \<Rightarrow>
         if mc_writer c = None \<or> mc_file c = None then (Some c, fs)
         else let (r, c1, fs1) = on_file (mk_writer_save_segment k) c fs
              in (detach_file (Some c1), fs1))"

definition end_session :: "'x media_kit \<Rightarrow> 'x muxer \<times> file_system \<Rightarrow> 'x muxer \<times> file_system" where
  "end_session k s = (None, snd (close_segment k s))"

text \<open>The decoder configuration of the video, for the conversion of the samples.\<close>

definition load_parameter_sets ::
  "'x media_kit \<Rightarrow> video_format \<Rightarrow> 'x mux_context \<Rightarrow> bool \<times> 'x mux_context" where
  "load_parameter_sets k video c =
     (if vf_codec video = H264
      then let (n, avc) = mk_avc_load k (vf_extradata video) in (n > 0, c\<lparr>mc_avc := Some avc\<rparr>)
      else let (n, hevc) = mk_hevc_load k (vf_extradata video) in (n > 0, c\<lparr>mc_hevc := Some hevc\<rparr>))"

definition add_tracks ::
  "'x media_kit \<Rightarrow> video_format \<Rightarrow> audio_format option \<Rightarrow> 'x \<Rightarrow> 'x mux_context \<Rightarrow> 'x mux_context option"
  where
  "add_tracks k video audio w c =
     (let (vt, w1) = mk_writer_add_video k w (video_object k (vf_codec video)) (vf_width video)
                       (vf_height video) (vf_extradata video) in
      if vt < 0 then None
      else
        let c1 = c\<lparr>mc_writer := Some w1, mc_video_track := vt, mc_video_codec := vf_codec video\<rparr> in
        case audio of
          None \<Rightarrow> Some c1
        | Some a \<Rightarrow>
            if af_sample_rate a \<le> 0 \<or> af_channels a \<le> 0 \<or> audio_object k (af_codec a) = 0 then None
            else if af_codec a = AAC \<and> af_extradata a = [] then None
            else
              let (at, w2) = mk_writer_add_audio k w1 (audio_object k (af_codec a)) (af_channels a)
                               (if af_bits_per_sample a > 0 then af_bits_per_sample a else 16)
                               (af_sample_rate a) (af_extradata a)
              in if at < 0 then None
                 else Some (c1\<lparr>mc_writer := Some w2, mc_audio_track := at,
                               mc_audio_codec := af_codec a\<rparr>))"

definition start_session ::
  "'x media_kit \<Rightarrow> video_format \<Rightarrow> audio_format option \<Rightarrow> string \<Rightarrow> 'x muxer \<times> file_system \<Rightarrow>
     bool \<times> 'x muxer \<times> file_system" where
  "start_session k video audio init_path s =
     (let fs = snd (end_session k s) in
      if init_path = [] \<or> vf_width video \<le> 0 \<or> vf_height video \<le> 0 \<or> vf_extradata video = [] \<or>
         (vf_codec video \<noteq> H264 \<and> vf_codec video \<noteq> H265)
      then (False, None, fs)
      else
        case mk_writer_create k of
          None \<Rightarrow> (False, None, fs)
        | Some w \<Rightarrow>
            let (ok, c) = load_parameter_sets k video (new_context\<lparr>mc_writer := Some w\<rparr>) in
            if \<not> ok then (False, None, fs)
            else
              case add_tracks k video audio w c of
                None \<Rightarrow> (False, None, fs)
              | Some c1 \<Rightarrow>
                  let (opened, m2, fs2) = attach_file init_path (Some c1, fs) in
                  if \<not> opened then (False, end_session k (m2, fs2))
                  else
                    let (r, c3, fs3) = on_file (mk_writer_init_segment k) (the m2) fs2
                    in if r \<noteq> 0 then (False, end_session k (Some c3, fs3))
                       else (True, detach_file (Some c3), fs3))"

definition open_segment ::
  "'x media_kit \<Rightarrow> string \<Rightarrow> 'x muxer \<times> file_system \<Rightarrow> bool \<times> 'x muxer \<times> file_system" where
  "open_segment k media_path = (\<lambda>(m, fs).
     case m of
       None \<Rightarrow> (False, None, fs)
     | Some c \<Rightarrow>
         if mc_writer c = None \<or> media_path = [] then (False, Some c, fs)
         else attach_file media_path (if mc_file c \<noteq> None then close_segment k (Some c, fs) else (Some c, fs)))"

text \<open>The payload of an audio frame: an ADTS header that leaves data behind it is cut off.\<close>

definition audio_payload :: "'x media_kit \<Rightarrow> codec \<Rightarrow> u8 list \<Rightarrow> u8 list" where
  "audio_payload k c data =
     (if c = AAC \<and> length data \<ge> 7
      then let header = fst (mk_aac_adts_load k data)
           in if header \<ge> 7 \<and> nat header < length data then drop (nat header) data else data
      else data)"

text \<open>The sample of a video frame, with the parameter sets the conversion has seen.\<close>

definition to_mp4_sample ::
  "'x media_kit \<Rightarrow> media_frame \<Rightarrow> 'x mux_context \<Rightarrow> int \<times> u8 list \<times> 'x mux_context" where
  "to_mp4_sample k f c =
     (let cap = frame_size f + length (mf_nalus f) * 4 + 64 in
      if mc_video_codec c = H264
      then let (n, b, p) = mk_h264_annexbtomp4 k (the (mc_avc c)) (mf_payload f) cap
           in (n, b, c\<lparr>mc_avc := Some p\<rparr>)
      else let (n, b, p) = mk_h265_annexbtomp4 k (the (mc_hevc c)) (mf_payload f) cap
           in (n, b, c\<lparr>mc_hevc := Some p\<rparr>))"

definition write_frame ::
  "'x media_kit \<Rightarrow> media_frame option \<Rightarrow> 'x muxer \<times> file_system \<Rightarrow> bool \<times> 'x muxer \<times> file_system" where
  "write_frame k frame = (\<lambda>(m, fs).
     case (frame, m) of
       (Some f, Some c) \<Rightarrow>
         if mc_writer c = None \<or> mc_file c = None \<or> frame_size f = 0 \<or> mf_codec_config f \<or>
            mf_pts_ms f < 0 \<or> mf_dts_ms f < 0
         then (False, m, fs)
         else
           let video = (mf_type f = Video);
               trk = (if video then mc_video_track c else mc_audio_track c);
               cdc = (if video then mc_video_codec c else mc_audio_codec c)
           in if trk < 0 \<or> mf_codec f \<noteq> cdc then (False, m, fs)
              else if \<not> video
              then let (r, c1, fs1) =
                         on_file (mk_writer_write k trk (audio_payload k cdc (mf_payload f))
                                    (mf_pts_ms f) (mf_dts_ms f) (keyframe f)) c fs
                   in (r = 0, Some c1, fs1)
              else
                let (bytes, buf, c1) = to_mp4_sample k f c
                in if bytes \<le> 0 then (False, Some c1, fs)
                   else let (r, c2, fs2) =
                              on_file (mk_writer_write k trk (take (nat bytes) buf)
                                         (mf_pts_ms f) (mf_dts_ms f) (keyframe f)) c1 fs
                        in (r = 0, Some c2, fs2)
     | _ \<Rightarrow> (False, m, fs))"

section \<open>The states of a muxer\<close>

definition has_writer :: "'x muxer \<Rightarrow> bool" where
  "has_writer m \<longleftrightarrow> m \<noteq> None \<and> mc_writer (the m) \<noteq> None"

definition open_path :: "'x muxer \<Rightarrow> string option" where
  "open_path m = (case m of None \<Rightarrow> None | Some c \<Rightarrow> map_option fst (mc_file c))"

text \<open>A muxer between two calls: a session always has its writer.\<close>

definition mux_ok :: "'x muxer \<Rightarrow> bool" where
  "mux_ok m \<longleftrightarrow> m = None \<or> has_writer m"

lemma segment_open_alt: "segment_open m \<longleftrightarrow> has_writer m \<and> open_path m \<noteq> None"
  by (auto simp: segment_open_def has_writer_def open_path_def split: option.split)

lemma segment_open_iff: "mux_ok m \<Longrightarrow> segment_open m \<longleftrightarrow> open_path m \<noteq> None"
  by (auto simp: mux_ok_def has_writer_def segment_open_def open_path_def split: option.split)

lemma segment_open_writer: "segment_open m \<Longrightarrow> has_writer m"
  by (auto simp: has_writer_def segment_open_def split: option.splits)

lemma on_file_state:
  "map_option fst (mc_file (fst (snd (on_file call c fs)))) = map_option fst (mc_file c)"
  "mc_writer (fst (snd (on_file call c fs))) = None \<longleftrightarrow> mc_writer c = None"
  by (auto simp: on_file_def Let_def case_prod_beta split: option.splits prod.splits)

lemma close_segment_state [simp]:
  "\<not> segment_open (fst (close_segment k (m, fs)))"
  "has_writer (fst (close_segment k (m, fs))) = has_writer m"
  "mux_ok m \<Longrightarrow> mux_ok (fst (close_segment k (m, fs)))"
  "mux_ok m \<Longrightarrow> open_path (fst (close_segment k (m, fs))) = None"
  using on_file_state(2) [of "mk_writer_save_segment k" "the m" fs]
  by (auto simp: close_segment_def segment_open_def has_writer_def mux_ok_def open_path_def detach_file_def
      case_prod_beta split: option.splits)

lemma end_session_state [simp]: "fst (end_session k s) = None"
  by (simp add: end_session_def)

lemma attach_file_state:
  assumes "attach_file path (m, fs) = (ok, m', fs')" and "has_writer m"
  shows "has_writer m' \<and> open_path m' = (if ok then Some path else None)"
  using assms
  by (auto simp: attach_file_def detach_file_def has_writer_def open_path_def Let_def case_prod_beta
      split: option.splits)

lemma add_tracks_writer: "add_tracks k video audio w c = Some c' \<Longrightarrow> mc_writer c' \<noteq> None"
  by (auto simp: add_tracks_def Let_def case_prod_beta split: if_splits option.splits)

text \<open>Opening a session succeeds with a writer and no segment, or leaves no session behind.\<close>

lemma start_session_state:
  assumes "start_session k video audio path s = (ok, m', fs')"
  shows "if ok then has_writer m' \<and> open_path m' = None else m' = None"
proof (cases ok)
  case False
  then show ?thesis
    using assms
    by (auto simp: start_session_def Let_def case_prod_beta end_session_def
        split: if_splits option.splits)
next
  case True
  then obtain w where w: "mk_writer_create k = Some w"
    using assms by (auto simp: start_session_def Let_def split: if_splits option.splits)
  let ?c = "snd (load_parameter_sets k video (new_context\<lparr>mc_writer := Some w\<rparr>))"
  from True assms w obtain c1 where c1: "add_tracks k video audio w ?c = Some c1"
    by (auto simp: start_session_def Let_def case_prod_beta split: if_splits option.splits)
  let ?a = "attach_file path (Some c1, snd (end_session k s))"
  let ?i = "on_file (mk_writer_init_segment k) (the (fst (snd ?a))) (snd (snd ?a))"
  have m: "fst ?a" "m' = detach_file (Some (fst (snd ?i)))"
    using True assms w c1 by (auto simp: start_session_def Let_def case_prod_beta split: if_splits)
  have "has_writer (fst (snd ?a))"
    using attach_file_state [of path "Some c1" "snd (end_session k s)" "fst ?a" "fst (snd ?a)" "snd (snd ?a)"]
      add_tracks_writer [OF c1] by (simp add: has_writer_def)
  then have "mc_writer (fst (snd ?i)) \<noteq> None"
    unfolding on_file_state(2) by (simp add: has_writer_def)
  with True m(2) show ?thesis
    by (auto simp: has_writer_def open_path_def detach_file_def)
qed

lemma open_segment_state:
  assumes "open_segment k path (m, fs) = (ok, m', fs')" and "mux_ok m"
  shows "mux_ok m'" and "m = None \<longleftrightarrow> m' = None"
    and "ok \<Longrightarrow> has_writer m' \<and> open_path m' = Some path"
    and "\<not> ok \<Longrightarrow> path \<noteq> [] \<Longrightarrow> open_path m' = None"
proof -
  have *: "mux_ok m' \<and> (m = None \<longleftrightarrow> m' = None) \<and>
     (ok \<longrightarrow> has_writer m' \<and> open_path m' = Some path) \<and> (\<not> ok \<longrightarrow> path \<noteq> [] \<longrightarrow> open_path m' = None)"
  proof (cases "m = None \<or> path = []")
    case True
    then show ?thesis
      using assms by (auto simp: open_segment_def open_path_def split: option.splits)
  next
    case False
    then have w: "has_writer m" using assms(2) by (auto simp: mux_ok_def)
    let ?s = "if mc_file (the m) \<noteq> None then close_segment k (m, fs) else (m, fs)"
    have "attach_file path ?s = (ok, m', fs')"
      using assms(1) False w by (auto simp: open_segment_def has_writer_def split: option.splits)
    moreover have "has_writer (fst ?s)" using w by auto
    ultimately have "has_writer m' \<and> open_path m' = (if ok then Some path else None)"
      using attach_file_state [of path "fst ?s" "snd ?s" ok m' fs'] by simp
    with w show ?thesis by (auto simp: mux_ok_def has_writer_def)
  qed
  show "mux_ok m'" "m = None \<longleftrightarrow> m' = None" using * by auto
  show "ok \<Longrightarrow> has_writer m' \<and> open_path m' = Some path" using * by auto
  show "\<not> ok \<Longrightarrow> path \<noteq> [] \<Longrightarrow> open_path m' = None" using * by auto
qed

definition same_state :: "'x mux_context \<Rightarrow> 'x mux_context \<Rightarrow> bool" where
  "same_state c c' \<longleftrightarrow>
     map_option fst (mc_file c') = map_option fst (mc_file c) \<and> (mc_writer c' = None \<longleftrightarrow> mc_writer c = None)"

lemma same_state_simps [simp]:
  "same_state c c" "same_state c (fst (snd (on_file call c fs)))"
  "same_state c (snd (snd (to_mp4_sample k f c)))"
  by (simp_all add: same_state_def on_file_state to_mp4_sample_def Let_def case_prod_beta)

lemma same_state_trans: "same_state c d \<Longrightarrow> same_state d e \<Longrightarrow> same_state c e"
  by (simp add: same_state_def)

lemma write_frame_same: "\<exists>c'. fst (snd (write_frame k f (Some c, fs))) = Some c' \<and> same_state c c'"
proof (cases f)
  case (Some x)
  have "same_state c (fst (snd (on_file call (snd (snd (to_mp4_sample k x c))) fs)))" for call
    using same_state_trans same_state_simps(2,3) by blast
  then show ?thesis
    unfolding Some write_frame_def
    by (simp only: prod.case option.case Let_def case_prod_beta) simp
qed (simp add: write_frame_def)

lemma write_frame_state [simp]:
  "open_path (fst (snd (write_frame k f (m, fs)))) = open_path m"
  "has_writer (fst (snd (write_frame k f (m, fs)))) = has_writer m"
  "mux_ok (fst (snd (write_frame k f (m, fs)))) = mux_ok m"
  "segment_open (fst (snd (write_frame k f (m, fs)))) = segment_open m"
proof -
  have "fst (snd (write_frame k f (m, fs))) = m \<or>
    (\<exists>c c'. m = Some c \<and> fst (snd (write_frame k f (m, fs))) = Some c' \<and> same_state c c')"
    using write_frame_same by (cases m) (fastforce simp: write_frame_def split: option.split)+
  then show "open_path (fst (snd (write_frame k f (m, fs)))) = open_path m"
    "has_writer (fst (snd (write_frame k f (m, fs)))) = has_writer m"
    "mux_ok (fst (snd (write_frame k f (m, fs)))) = mux_ok m"
    by (auto simp: mux_ok_def open_path_def has_writer_def same_state_def)
  then show "segment_open (fst (snd (write_frame k f (m, fs)))) = segment_open m"
    by (simp add: segment_open_alt)
qed

end
