(* ===== verification/Bounded_Queue.thy ===== *)
theory Bounded_Queue
  imports Main
begin

text \<open>
  The contract of the bounded queues between a producer that must not wait and a worker thread: a
  call of the producer adds one item at the end or leaves the queue alone, and adds nothing to
  a full queue.  The recorder's frame queue and the uploader's request queue are instances.
\<close>

locale bounded_queue =
  fixes items :: "'s \<Rightarrow> 'a list" and limit :: nat and put :: "'i \<Rightarrow> 's \<Rightarrow> 's"
  assumes put_items:
    "items (put x s) = items s \<or> (length (items s) < limit \<and> (\<exists>a. items (put x s) = items s @ [a]))"
begin

lemma put_bound: "length (items s) \<le> limit \<Longrightarrow> length (items (put x s)) \<le> limit"
  using put_items [of x s] by auto

lemma puts_bound: "length (items s) \<le> limit \<Longrightarrow> length (items (fold put xs s)) \<le> limit"
  by (induction xs arbitrary: s) (simp_all add: put_bound)

text \<open>What is queued stays queued, in its order, until the worker takes it.\<close>

lemma puts_prefix: "\<exists>ys. items (fold put xs s) = items s @ ys"
proof (induction xs arbitrary: s)
  case (Cons x xs)
  obtain ys where "items (fold put xs (put x s)) = items (put x s) @ ys" using Cons.IH by blast
  then show ?case using put_items [of x s] by auto
qed simp

end

end
