(* ===== verification/Segment_Uploader.thy ===== *)
theory Segment_Uploader
  imports File_System Bounded_Queue
begin

text \<open>
  The background uploader (src/include/record/http\_segment\_uploader.h,
  src/src/record/http\_segment\_uploader.cpp): a bounded queue of files to put and objects to delete,
  and a worker that sends one HTTP request after the other.  The network is a parameter: whether a
  connection opens, how much of the data one \<^verbatim>\<open>send\<close> takes, and what the server answers to the
  bytes it got.  The theorems show that a request reported as successful has reached the server
  whole, and that after \<open>stop\<close> the worker ends after at most one request per queued item.
\<close>

section \<open>One request\<close>

record network =
  net_connect :: "string \<Rightarrow> int \<Rightarrow> bool"
  net_send :: "string \<Rightarrow> nat \<Rightarrow> int"
  net_recv :: "string \<Rightarrow> string"

text \<open>
  \<open>send_all\<close> carries the bytes that the peer has got so far on this connection; one call of
  \<^verbatim>\<open>send\<close> takes at most the data it is given.
\<close>

function send_all :: "network \<Rightarrow> string \<Rightarrow> string \<Rightarrow> bool \<times> string" where
  "send_all net sent data =
     (if data = [] then (True, sent)
      else
        let n = net_send net sent (length data)
        in if n \<le> 0 then (False, sent)
           else send_all net (sent @ take (nat n) data) (drop (nat n) data))"
  by auto
termination
  by (relation "measure (\<lambda>(net, sent, data). length data)") auto

declare send_all.simps [simp del]

text \<open>The status number of \<^verbatim>\<open>sscanf(response, "HTTP/%*s %d")\<close>, on the first 255 bytes.\<close>

definition scan_int :: "string \<Rightarrow> int option" where
  "scan_int s =
     (let t = dropWhile is_space s;
          u = (if t \<noteq> [] \<and> (hd t = CHR ''-'' \<or> hd t = CHR ''+'') then tl t else t)
      in if u \<noteq> [] \<and> is_digit (hd u) then Some (atoi t) else None)"

definition scan_status :: "string \<Rightarrow> int option" where
  "scan_status response =
     (if \<not> starts_with ''HTTP/'' response then None
      else let s = dropWhile is_space (drop 5 response)
           in if s = [] then None else scan_int (dropWhile (\<lambda>c. \<not> is_space c) s))"

definition status_ok :: "network \<Rightarrow> string \<Rightarrow> bool \<Rightarrow> bool" where
  "status_ok net sent accept_not_found =
     (let got = take 255 (net_recv net sent)
      in if got = [] then False
         else case scan_status (takeWhile (\<lambda>c. c \<noteq> CHR 0x00) got) of
                None \<Rightarrow> False
              | Some status \<Rightarrow> (200 \<le> status \<and> status < 300) \<or> (accept_not_found \<and> status = 404))"

definition crlf :: string where
  "crlf = [CHR 0x0D, CHR 0x0A]"

definition put_header :: "parsed_url \<Rightarrow> string \<Rightarrow> nat \<Rightarrow> string" where
  "put_header base object_key bytes =
     ''PUT '' @ join_url_path (pu_path base) object_key @ '' HTTP/1.1'' @ crlf @
     ''Host: '' @ pu_host base @ '':'' @ dec_int (pu_port base) @ crlf @
     ''Content-Type: '' @ content_type_for object_key @ crlf @
     ''Content-Length: '' @ dec_nat bytes @ crlf @
     ''Connection: close'' @ crlf"

definition delete_header :: "parsed_url \<Rightarrow> string \<Rightarrow> string" where
  "delete_header base object_key =
     ''DELETE '' @ join_url_path (pu_path base) object_key @ '' HTTP/1.1'' @ crlf @
     ''Host: '' @ pu_host base @ '':'' @ dec_int (pu_port base) @ crlf @
     ''Content-Length: 0'' @ crlf @
     ''Connection: close'' @ crlf"

definition token_lines :: "string \<Rightarrow> string" where
  "token_lines token = (if token \<noteq> [] then ''X-Record-Token: '' @ token @ crlf else []) @ crlf"

text \<open>The body goes out in pieces of the 8192 byte buffer, until one cannot be sent.\<close>

fun send_chunks :: "network \<Rightarrow> nat \<Rightarrow> string \<Rightarrow> string \<Rightarrow> bool \<times> string" where
  "send_chunks net 0 sent body = (True, sent)"
| "send_chunks net (Suc n) sent body =
     (if body = [] then (True, sent)
      else let (ok, sent1) = send_all net sent (take 8192 body)
           in if ok then send_chunks net n sent1 (drop 8192 body) else (False, sent1))"

text \<open>The answer of the request and the bytes that reached the server.\<close>

definition put_once ::
  "network \<Rightarrow> file_system \<Rightarrow> parsed_url \<Rightarrow> string \<Rightarrow> string \<Rightarrow> string \<Rightarrow> bool \<times> string" where
  "put_once net fs base token local_path object_key =
     (case fs_stat local_path fs of
        Some (Regular body) \<Rightarrow>
          let header = put_header base object_key (length body) in
          if length header \<ge> 1024 then (False, [])
          else
            let request = header @ token_lines token in
            if \<not> net_connect net (pu_host base) (pu_port base) then (False, [])
            else
              let (ok, sent) = send_all net [] request;
                  (ok1, sent1) = (if ok then send_chunks net (length body) sent body else (False, sent))
              in (ok1 \<and> status_ok net sent1 False, sent1)
      | _ \<Rightarrow> (False, []))"

definition delete_once ::
  "network \<Rightarrow> parsed_url \<Rightarrow> string \<Rightarrow> string \<Rightarrow> bool \<times> string" where
  "delete_once net base token object_key =
     (let header = delete_header base object_key in
      if length header \<ge> 1024 then (False, [])
      else
        let request = header @ token_lines token in
        if \<not> net_connect net (pu_host base) (pu_port base) then (False, [])
        else
          let (ok, sent) = send_all net [] request
          in (ok \<and> status_ok net sent True, sent))"

section \<open>The queue\<close>

record upload_item =
  ui_local_path :: string
  ui_object_key :: string
  ui_remove :: bool

record uploader =
  up_http :: bool
  up_base_url :: string
  up_token :: string
  up_queue :: "upload_item list"
  up_stopping :: bool

definition kMaxQueued :: nat where "kMaxQueued = 8"
definition kMaxRetries :: nat where "kMaxRetries = 3"

text \<open>\<open>up_http\<close> tells \<^verbatim>\<open>HttpSegmentUploader\<close> from \<^verbatim>\<open>NullSegmentUploader\<close>, whose methods do nothing.\<close>

definition new_http_uploader :: "string \<Rightarrow> string \<Rightarrow> uploader" where
  "new_http_uploader url token =
     \<lparr>up_http = True, up_base_url = url, up_token = token, up_queue = [], up_stopping = False\<rparr>"

definition new_null_uploader :: uploader where
  "new_null_uploader =
     \<lparr>up_http = False, up_base_url = [], up_token = [], up_queue = [], up_stopping = False\<rparr>"

definition enqueue :: "string \<Rightarrow> string \<Rightarrow> uploader \<Rightarrow> uploader" where
  "enqueue local_path object_key u =
     (if \<not> up_http u then u
      else if local_path = [] \<or> object_key = [] \<or> up_stopping u then u
      else if length (up_queue u) \<ge> kMaxQueued then u
      else u\<lparr>up_queue := up_queue u @
             [\<lparr>ui_local_path = local_path, ui_object_key = object_key, ui_remove = False\<rparr>]\<rparr>)"

definition enqueue_delete :: "string \<Rightarrow> uploader \<Rightarrow> uploader" where
  "enqueue_delete object_key u =
     (if \<not> up_http u then u
      else if object_key = [] \<or> up_stopping u then u
      else if length (up_queue u) \<ge> kMaxQueued then u
      else u\<lparr>up_queue := up_queue u @
             [\<lparr>ui_local_path = [], ui_object_key = object_key, ui_remove = True\<rparr>]\<rparr>)"

definition put_file :: "network \<Rightarrow> file_system \<Rightarrow> upload_item \<Rightarrow> uploader \<Rightarrow> bool" where
  "put_file net fs item u =
     (case parse_http_url (up_base_url u) of
        None \<Rightarrow> False
      | Some url \<Rightarrow> fst (put_once net fs url (up_token u) (ui_local_path item) (ui_object_key item)))"

definition delete_object :: "network \<Rightarrow> upload_item \<Rightarrow> uploader \<Rightarrow> bool" where
  "delete_object net item u =
     (case parse_http_url (up_base_url u) of
        None \<Rightarrow> False
      | Some url \<Rightarrow> fst (delete_once net url (up_token u) (ui_object_key item)))"

section \<open>The worker\<close>

text \<open>
  What the worker meets while it runs: the network and the disk at each request, and whether
  another thread has called \<open>stop\<close> by its \<open>i\<close>-th look at the flag.
\<close>

record worker_env =
  we_net :: "nat \<Rightarrow> network"
  we_disk :: "nat \<Rightarrow> file_system"
  we_stop :: "nat \<Rightarrow> bool"

text \<open>The requests made and the looks at the flag are counted; every request is logged.\<close>

record worker_run =
  wr_requests :: "(upload_item \<times> bool) list"
  wr_looks :: nat

definition look :: "worker_env \<Rightarrow> uploader \<Rightarrow> worker_run \<Rightarrow> bool \<times> worker_run" where
  "look e u w = (up_stopping u \<or> we_stop e (wr_looks w), w\<lparr>wr_looks := Suc (wr_looks w)\<rparr>)"

definition attempt_item ::
  "worker_env \<Rightarrow> uploader \<Rightarrow> upload_item \<Rightarrow> worker_run \<Rightarrow> bool \<times> worker_run" where
  "attempt_item e u item w =
     (let i = length (wr_requests w);
          ok = (if ui_remove item then delete_object (we_net e i) item u
                else put_file (we_net e i) (we_disk e i) item u)
      in (ok, w\<lparr>wr_requests := wr_requests w @ [(item, ok)]\<rparr>))"

text \<open>The loop over the attempts: \<open>n\<close> of them are left.\<close>

primrec attempts ::
  "worker_env \<Rightarrow> uploader \<Rightarrow> upload_item \<Rightarrow> nat \<Rightarrow> worker_run \<Rightarrow> bool \<times> worker_run" where
  "attempts e u item 0 w = (False, w)"
| "attempts e u item (Suc n) w =
     (let (ok, w1) = attempt_item e u item w in
      if ok then (True, w1)
      else let (stop, w2) = look e u w1
           in if stop then (False, w2) else attempts e u item n w2)"

definition process_item :: "worker_env \<Rightarrow> uploader \<Rightarrow> upload_item \<Rightarrow> worker_run \<Rightarrow> bool \<times> worker_run" where
  "process_item e u item w =
     (let (stop, w1) = look e u w in attempts e u item (if stop then 1 else kMaxRetries) w1)"

text \<open>
  The worker thread: an empty queue is left only when \<open>stop\<close> has been called (it waits otherwise,
  which is \<open>None\<close>), so it is never left with work in the queue.
\<close>

partial_function (option) worker_loop ::
  "worker_env \<Rightarrow> uploader \<Rightarrow> worker_run \<Rightarrow> (uploader \<times> worker_run) option" where
  "worker_loop e u w =
     (case up_queue u of
        [] \<Rightarrow> if up_stopping u then Some (u, w) else None
      | item # rest \<Rightarrow>
          worker_loop e (u\<lparr>up_queue := rest\<rparr>) (snd (process_item e (u\<lparr>up_queue := rest\<rparr>) item w)))"

text \<open>\<open>stop\<close>: the flag is set and the worker joined.  The null uploader has neither.\<close>

definition uploader_stop :: "worker_env \<Rightarrow> uploader \<Rightarrow> worker_run \<Rightarrow> (uploader \<times> worker_run) option" where
  "uploader_stop e u w =
     (if \<not> up_http u then Some (u, w) else worker_loop e (u\<lparr>up_stopping := True\<rparr>) w)"

section \<open>Sending is all or nothing\<close>

lemma send_all_sent:
  "\<exists>k \<le> length data. snd (send_all net sent data) = sent @ take k data \<and>
     (fst (send_all net sent data) \<longleftrightarrow> k = length data)"
proof (induction net sent data rule: send_all.induct)
  case (1 net sent data)
  let ?n = "net_send net sent (length data)"
  show ?case
  proof (cases "data = [] \<or> ?n \<le> 0")
    case True
    then show ?thesis by (intro exI [of _ 0]) (auto simp: send_all.simps [of net sent data] Let_def)
  next
    case False
    from 1 [of ?n] False obtain k where k: "k \<le> length (drop (nat ?n) data)"
      "snd (send_all net (sent @ take (nat ?n) data) (drop (nat ?n) data))
         = (sent @ take (nat ?n) data) @ take k (drop (nat ?n) data)"
      "fst (send_all net (sent @ take (nat ?n) data) (drop (nat ?n) data))
         \<longleftrightarrow> k = length (drop (nat ?n) data)"
      by auto
    let ?m = "min (nat ?n) (length data) + k"
    have "take (nat ?n) data @ take k (drop (nat ?n) data) = take ?m data"
      using k(1) by (cases "nat ?n \<le> length data") (auto simp: take_add min_def)
    moreover have "send_all net sent data =
        send_all net (sent @ take (nat ?n) data) (drop (nat ?n) data)"
      using False by (subst send_all.simps) (simp add: Let_def)
    ultimately show ?thesis
      using k by (intro exI [of _ ?m]) (auto simp: min_def)
  qed
qed

lemma send_all_ok: "fst (send_all net sent data) \<Longrightarrow> snd (send_all net sent data) = sent @ data"
  using send_all_sent [of data net sent] by auto

lemma send_chunks_ok:
  "length body \<le> n \<Longrightarrow> fst (send_chunks net n sent body) \<Longrightarrow>
   snd (send_chunks net n sent body) = sent @ body"
proof (induction n arbitrary: sent body)
  case (Suc n)
  show ?case
  proof (cases "body = []")
    case False
    let ?s = "send_all net sent (take 8192 body)"
    have ok: "fst ?s" "fst (send_chunks net n (snd ?s) (drop 8192 body))"
      using Suc.prems(2) False by (auto simp: case_prod_beta split: if_splits)
    have "length (drop 8192 body) \<le> n" using Suc.prems(1) False by (cases body) auto
    from Suc.IH [OF this ok(2)] ok False send_all_ok [OF ok(1)] show ?thesis
      by (simp add: case_prod_beta)
  qed simp
qed simp

text \<open>
  C22: An upload that \<open>put_once\<close> reports as done was sent whole: the server got the request header with
  the length of the file, the token and the blank line, and then the whole file, and
  answered these bytes with a status between 200 and 299.
\<close>

theorem put_once_complete:
  assumes "put_once net fs base token local_path object_key = (True, sent)"
  shows "\<exists>body. fs_stat local_path fs = Some (Regular body) \<and>
    sent = put_header base object_key (length body) @ token_lines token @ body \<and>
    (\<exists>status. scan_status (takeWhile (\<lambda>c. c \<noteq> CHR 0x00) (take 255 (net_recv net sent))) = Some status \<and>
       200 \<le> status \<and> status < 300)"
proof -
  obtain body where body: "fs_stat local_path fs = Some (Regular body)"
    using assms by (auto simp: put_once_def split: option.splits node.splits)
  let ?r = "put_header base object_key (length body) @ token_lines token"
  let ?s = "send_all net [] ?r"
  let ?c = "send_chunks net (length body) (snd ?s) body"
  have ok: "fst ?s" "fst ?c" "status_ok net sent False" "sent = snd ?c"
    using assms by (auto simp: put_once_def body Let_def case_prod_beta split: if_splits)
  then have "sent = ?r @ body"
    using send_all_ok [of net "[]" ?r] send_chunks_ok [of body "length body" net "snd ?s"] by simp
  with ok(3) show ?thesis
    by (auto simp: body status_ok_def Let_def split: if_splits option.splits)
qed

definition demo_network :: network where
  "demo_network =
     \<lparr>net_connect = \<lambda>_ _. True, net_send = \<lambda>_ _. 1,
      net_recv = \<lambda>_. ''HTTP/1.1 201 Created''\<rparr>"

definition demo_disk :: file_system where
  "demo_disk = \<lparr>fs_nodes = [((False, [''a.m4s'']), Regular ''data'')], fs_refused = []\<rparr>"

definition demo_url :: parsed_url where
  "demo_url = \<lparr>pu_host = ''host'', pu_port = 8080, pu_path = ''/record''\<rparr>"

text \<open>A peer that takes at least one byte at a time gets everything.\<close>

lemma send_all_total: "(\<And>s n. 0 < net_send net s n) \<Longrightarrow> fst (send_all net sent data)"
  by (induction net sent data rule: send_all.induct)
    (subst send_all.simps, auto simp: Let_def dest: leD)

lemma send_chunks_total: "(\<And>s n. 0 < net_send net s n) \<Longrightarrow> fst (send_chunks net n sent body)"
  by (induction n arbitrary: sent body) (simp_all add: case_prod_beta send_all_total)

lemma demo_disk_file: "fs_stat ''a.m4s'' demo_disk = Some (Regular ''data'')"
  by (simp add: fs_stat_def path_key_def fs_node_def demo_disk_def)

lemma demo_put_done:
  "put_once demo_network demo_disk demo_url ''tok'' ''a.m4s'' ''day/a.m4s'' = (True, sent) \<longleftrightarrow>
   sent = snd (put_once demo_network demo_disk demo_url ''tok'' ''a.m4s'' ''day/a.m4s'')"
proof -
  have net: "0 < net_send demo_network s n" "net_connect demo_network h p"
    "net_recv demo_network s = ''HTTP/1.1 201 Created''" for s n h p
    by (simp_all add: demo_network_def)
  have "atoi '' 201 Created'' = 201"
    by (simp add: atoi_def is_space_def is_digit_def)
  then have status: "status_ok demo_network s False" for s
    by (simp add: status_ok_def net Let_def scan_status_def scan_int_def starts_with_def is_space_def is_digit_def
        atoi_def)
  have "length (put_header demo_url ''day/a.m4s'' (length ''data'')) < 1024"
    by (simp add: put_header_def demo_url_def crlf_def join_url_path_def content_type_for_def
        has_suffix_def dec_int_def dec_nat.simps)
  then have "fst (put_once demo_network demo_disk demo_url ''tok'' ''a.m4s'' ''day/a.m4s'')"
    unfolding put_once_def demo_disk_file
    by (simp add: Let_def case_prod_beta net status send_all_total send_chunks_total del: list.size)
  then show ?thesis unfolding prod_eq_iff fst_conv snd_conv by blast
qed

theorem put_once_complete_witness:
  "snd (put_once demo_network demo_disk demo_url ''tok'' ''a.m4s'' ''day/a.m4s'') =
     put_header demo_url ''day/a.m4s'' (length ''data'') @ token_lines ''tok'' @ ''data''"
  using put_once_complete [OF demo_put_done [THEN iffD2, OF refl]]
  unfolding demo_disk_file by blast

section \<open>The worker ends\<close>

lemma attempts_bound:
  "\<exists>rs. wr_requests (snd (attempts e u item n w)) = wr_requests w @ map (Pair item) rs \<and>
     length rs \<le> n \<and> (fst (attempts e u item n w) \<longleftrightarrow> True \<in> set rs) \<and> True \<notin> set (butlast rs)"
proof (induction n arbitrary: w)
  case (Suc n)
  let ?a = "attempt_item e u item w"
  let ?l = "look e u (snd ?a)"
  have r: "wr_requests (snd ?a) = wr_requests w @ [(item, fst ?a)]"
    by (simp add: attempt_item_def Let_def)
  have l: "wr_requests (snd ?l) = wr_requests w @ [(item, fst ?a)]"
    by (simp add: look_def r)
  show ?case
  proof (cases "fst ?a \<or> fst ?l")
    case True
    then show ?thesis
      using r l by (intro exI [of _ "[fst ?a]"]) (auto simp: case_prod_beta)
  next
    case False
    obtain rs where rs: "wr_requests (snd (attempts e u item n (snd ?l))) =
        wr_requests (snd ?l) @ map (Pair item) rs" "length rs \<le> n"
      "fst (attempts e u item n (snd ?l)) \<longleftrightarrow> True \<in> set rs" "True \<notin> set (butlast rs)"
      using Suc.IH by blast
    with False l show ?thesis
      by (intro exI [of _ "False # rs"]) (auto simp: case_prod_beta)
  qed
qed simp

lemma process_item_stopping:
  assumes "up_stopping u"
  shows "\<exists>ok. wr_requests (snd (process_item e u item w)) = wr_requests w @ [(item, ok)]"
  using assms by (auto simp: process_item_def look_def attempt_item_def Let_def)

lemma worker_loop_stopping:
  "up_stopping u \<Longrightarrow> \<exists>w' oks. worker_loop e u w = Some (u\<lparr>up_queue := []\<rparr>, w') \<and>
     length oks = length (up_queue u) \<and> wr_requests w' = wr_requests w @ zip (up_queue u) oks"
proof (induction "up_queue u" arbitrary: u w)
  case Nil
  then have "u\<lparr>up_queue := []\<rparr> = u" by (cases u) simp
  moreover have "worker_loop e u w = Some (u, w)"
    using Nil by (subst worker_loop.simps) simp
  ultimately show ?case using Nil(1) by (auto simp flip: Nil(1))
next
  case (Cons item rest)
  let ?u = "u\<lparr>up_queue := rest\<rparr>"
  obtain ok where ok: "wr_requests (snd (process_item e ?u item w)) = wr_requests w @ [(item, ok)]"
    using process_item_stopping [of ?u e item w] Cons.prems by auto
  from Cons.hyps(1) [of ?u "snd (process_item e ?u item w)"] Cons.prems obtain w' oks where
    "worker_loop e ?u (snd (process_item e ?u item w)) = Some (?u\<lparr>up_queue := []\<rparr>, w')"
    "length oks = length rest"
    "wr_requests w' = wr_requests (snd (process_item e ?u item w)) @ zip rest oks"
    by auto
  with ok Cons.hyps(2) [symmetric] show ?case
    by (intro exI [of _ w'] exI [of _ "ok # oks"]) (subst worker_loop.simps, auto)
qed

lemma uploader_stop_total: "\<exists>u' w'. uploader_stop e u w = Some (u', w')"
  using worker_loop_stopping [of "u\<lparr>up_stopping := True\<rparr>" e w]
  by (cases "up_http u") (auto simp: uploader_stop_def)

text \<open>The queue after a sequence of calls: a put for a local path, a delete without one.\<close>

definition upload_call :: "string \<times> string \<Rightarrow> uploader \<Rightarrow> uploader" where
  "upload_call c = (if fst c = [] then enqueue_delete (snd c) else enqueue (fst c) (snd c))"

definition queue_calls :: "(string \<times> string) list \<Rightarrow> uploader \<Rightarrow> uploader" where
  "queue_calls = fold upload_call"

interpretation uq: bounded_queue up_queue kMaxQueued upload_call
  by unfold_locales (auto simp: upload_call_def enqueue_def enqueue_delete_def)

lemma queue_calls_http: "up_http (queue_calls calls u) = up_http u"
proof (induction calls arbitrary: u)
  case (Cons c calls)
  have "up_http (upload_call c u) = up_http u"
    by (simp add: upload_call_def enqueue_def enqueue_delete_def)
  with Cons show ?case by (simp add: queue_calls_def)
qed (simp add: queue_calls_def)


end
