(* ===== verification/Segment_Recorder.thy ===== *)
theory Segment_Recorder
  imports Hls_Playlist Fmp4_Muxer Segment_Uploader Media_Source
begin

text \<open>
  The recorder (src/include/record/segment\_recorder.h, src/src/record/segment\_recorder.cpp,
  src/include/record/record\_config.h) with its rotation policy
  (src/src/record/duration\_segment\_policy.cpp): frames of one stream go through a bounded queue to
  a writer thread, which cuts them into segments at key frames, keeps the playlist of the day and
  removes the oldest segments when the limits are passed.

  The fields that only the writer thread touches are the record \<open>writer_state\<close>; the queue and the flags
  that both threads see are in \<open>recorder\<close>.  The clock, the media library, the tracks of the source and
  the configuration are the record \<open>rec_env\<close>.  \<^verbatim>\<open>std::size_t\<close> is the 32 bit type of the target.
  The field \<open>ws_trace\<close> records the calls to the muxer.
\<close>

section \<open>Configuration and policy\<close>

record record_config =
  rc_enabled :: bool
  rc_stream_id :: int
  rc_audio :: bool
  rc_segment_sec :: int
  rc_retain_sec :: int
  rc_max_bytes_mb :: int
  rc_directory :: string
  rc_upload_url :: string
  rc_upload_token :: string
  rc_max_pending_frames :: nat

record duration_policy =
  dp_segment_ms :: int
  dp_segment_start_pts_ms :: int

definition new_duration_policy :: "int \<Rightarrow> duration_policy" where
  "new_duration_policy segment_sec =
     \<lparr>dp_segment_ms = (if segment_sec > 0 then segment_sec * 1000 else 300000),
      dp_segment_start_pts_ms = - 1\<rparr>"

definition on_segment_started :: "int \<Rightarrow> duration_policy \<Rightarrow> duration_policy" where
  "on_segment_started pts p = p\<lparr>dp_segment_start_pts_ms := pts\<rparr>"

definition should_rotate :: "media_frame option \<Rightarrow> duration_policy \<Rightarrow> bool" where
  "should_rotate kf p =
     (case kf of
        None \<Rightarrow> False
      | Some f \<Rightarrow>
          if dp_segment_start_pts_ms p < 0 then False
          else mf_pts_ms f - dp_segment_start_pts_ms p \<ge> dp_segment_ms p)"

section \<open>State\<close>

record kept_segment =
  ks_path :: string
  ks_filename :: string
  ks_day :: string
  ks_duration_sec :: f64
  ks_bytes :: u32

text \<open>The calls of the muxer that matter for the content of the segment files.\<close>

datatype seg_event = Seg_Open string int | Seg_Frame media_frame bool | Seg_Close

record local_tm =
  tm_year :: int
  tm_mon :: int
  tm_mday :: int
  tm_hour :: int
  tm_min :: int
  tm_sec :: int

record 'x rec_env =
  re_config :: record_config
  re_kit :: "'x media_kit"
  re_clock :: "nat \<Rightarrow> local_tm"
  re_track :: "media_type \<Rightarrow> stream_track option"

record 'x writer_state =
  ws_fs :: file_system
  ws_mux :: "'x muxer"
  ws_policy :: duration_policy
  ws_uploader :: uploader
  ws_playlist :: hls_playlist
  ws_video_format :: video_format
  ws_audio_format :: "audio_format option"
  ws_formats_ready :: bool
  ws_await_keyframe :: bool
  ws_audio_config_ready :: bool
  ws_session_ready :: bool
  ws_pending_keyframe :: "media_frame option"
  ws_current_day :: string
  ws_current_media_path :: string
  ws_segment_start_pts_ms :: int
  ws_segment_last_pts_ms :: int
  ws_kept :: "kept_segment list"
  ws_ticks :: nat
  ws_trace :: "seg_event list"

definition new_writer_state :: "record_config \<Rightarrow> uploader \<Rightarrow> file_system \<Rightarrow> 'x writer_state" where
  "new_writer_state cfg up fs =
     \<lparr>ws_fs = fs, ws_mux = None, ws_policy = new_duration_policy (rc_segment_sec cfg),
      ws_uploader = up, ws_playlist = new_hls_playlist,
      ws_video_format = \<lparr>vf_codec = Codec_Unknown, vf_width = 0, vf_height = 0, vf_frame_rate = 0,
                         vf_extradata = []\<rparr>,
      ws_audio_format = None, ws_formats_ready = False, ws_await_keyframe = True,
      ws_audio_config_ready = True, ws_session_ready = False, ws_pending_keyframe = None,
      ws_current_day = [], ws_current_media_path = [], ws_segment_start_pts_ms = - 1,
      ws_segment_last_pts_ms = - 1, ws_kept = [], ws_ticks = 0, ws_trace = []\<rparr>"

definition on_playlist ::
  "(hls_playlist \<times> file_system \<Rightarrow> hls_playlist \<times> file_system) \<Rightarrow> 'x writer_state \<Rightarrow> 'x writer_state" where
  "on_playlist f ws =
     (let (p, fs) = f (ws_playlist ws, ws_fs ws) in ws\<lparr>ws_playlist := p, ws_fs := fs\<rparr>)"

definition on_mux ::
  "('x muxer \<times> file_system \<Rightarrow> 'x muxer \<times> file_system) \<Rightarrow> 'x writer_state \<Rightarrow> 'x writer_state" where
  "on_mux f ws = (let (m, fs) = f (ws_mux ws, ws_fs ws) in ws\<lparr>ws_mux := m, ws_fs := fs\<rparr>)"

definition mux_write :: "'x rec_env \<Rightarrow> media_frame \<Rightarrow> 'x writer_state \<Rightarrow> bool \<times> 'x writer_state" where
  "mux_write e f ws =
     (let (ok, m, fs) = write_frame (re_kit e) (Some f) (ws_mux ws, ws_fs ws)
      in (ok, ws\<lparr>ws_mux := m, ws_fs := fs, ws_trace := ws_trace ws @ [Seg_Frame f ok]\<rparr>))"

section \<open>Paths and uploads\<close>

definition day_name :: "local_tm \<Rightarrow> string" where
  "day_name t =
     take 31 (dec_pad 4 (tm_year t + 1900) @ ''-'' @ dec_pad 2 (tm_mon t + 1) @ ''-'' @ dec_pad 2 (tm_mday t))"

definition time_name :: "local_tm \<Rightarrow> string" where
  "time_name t =
     take 31 (dec_pad 2 (tm_hour t) @ ''-'' @ dec_pad 2 (tm_min t) @ ''-'' @ dec_pad 2 (tm_sec t))"

text \<open>The day directory and the time stamp of now; the clock is read once.\<close>

definition make_day_paths :: "'x rec_env \<Rightarrow> 'x writer_state \<Rightarrow> (string \<times> string) option \<times> 'x writer_state" where
  "make_day_paths e ws =
     (let t = re_clock e (ws_ticks ws);
          day = day_name t;
          day_dir = join_path (rc_directory (re_config e)) day;
          (ok, fs1) = mkdir_p day_dir (ws_fs ws);
          ws1 = ws\<lparr>ws_fs := fs1, ws_ticks := Suc (ws_ticks ws)\<rparr>
      in if \<not> ok then (None, ws1) else (Some (day_dir, day @ ''_'' @ time_name t), ws1))"

text \<open>The suffixes 2 to 99 are tried in turn; \<open>n\<close> of them are left.\<close>

primrec free_media_path :: "file_system \<Rightarrow> string \<Rightarrow> string \<Rightarrow> nat \<Rightarrow> string \<Rightarrow> string" where
  "free_media_path fs day_dir stamp 0 path = path"
| "free_media_path fs day_dir stamp (Suc n) path =
     (if file_exists path fs
      then free_media_path fs day_dir stamp n
             (join_path day_dir (stamp @ ''-'' @ dec_nat (99 - n) @ ''.m4s''))
      else path)"

definition next_media_path :: "file_system \<Rightarrow> string \<Rightarrow> string \<Rightarrow> string" where
  "next_media_path fs day_dir stamp =
     free_media_path fs day_dir stamp 98 (join_path day_dir (stamp @ ''.m4s''))"

definition upload_relative :: "'x rec_env \<Rightarrow> string \<Rightarrow> 'x writer_state \<Rightarrow> 'x writer_state" where
  "upload_relative e path ws =
     (if rc_upload_url (re_config e) = [] \<or> path = [] then ws
      else let key = relative_key (rc_directory (re_config e)) path
           in if key \<noteq> [] then ws\<lparr>ws_uploader := enqueue path key (ws_uploader ws)\<rparr> else ws)"

definition delete_relative :: "'x rec_env \<Rightarrow> string \<Rightarrow> 'x writer_state \<Rightarrow> 'x writer_state" where
  "delete_relative e path ws =
     (if rc_upload_url (re_config e) = [] \<or> path = [] then ws
      else let key = relative_key (rc_directory (re_config e)) path
           in if key \<noteq> [] then ws\<lparr>ws_uploader := enqueue_delete key (ws_uploader ws)\<rparr> else ws)"

section \<open>Retention\<close>

definition kept_of :: "string \<Rightarrow> f64 \<Rightarrow> file_system \<Rightarrow> kept_segment" where
  "kept_of path d fs =
     \<lparr>ks_path = path, ks_filename = filename_of path, ks_day = filename_of (parent_of path),
      ks_duration_sec = d,
      ks_bytes = (case fs_stat path fs of Some (Regular s) \<Rightarrow> of_nat (length s) | _ \<Rightarrow> 0)\<rparr>"

definition remember_closed_segment :: "string \<Rightarrow> f64 \<Rightarrow> 'x writer_state \<Rightarrow> 'x writer_state" where
  "remember_closed_segment path d ws = ws\<lparr>ws_kept := ws_kept ws @ [kept_of path d (ws_fs ws)]\<rparr>"

text \<open>
  \<^verbatim>\<open>std::sort\<close> on strings orders them by their bytes.
\<close>

fun str_le :: "string \<Rightarrow> string \<Rightarrow> bool" where
  "str_le [] _ = True"
| "str_le (_ # _) [] = False"
| "str_le (a # as) (b # bs) =
     ((of_char a :: nat) < of_char b \<or> (a = b \<and> str_le as bs))"

fun str_insert :: "string \<Rightarrow> string list \<Rightarrow> string list" where
  "str_insert x [] = [x]"
| "str_insert x (y # ys) = (if str_le x y then x # y # ys else y # str_insert x ys)"

definition str_sort :: "string list \<Rightarrow> string list" where
  "str_sort xs = foldr str_insert xs []"

definition day_folders :: "string \<Rightarrow> file_system \<Rightarrow> string list" where
  "day_folders dir fs =
     (case fs_list dir fs of
        None \<Rightarrow> []
      | Some names \<Rightarrow>
          str_sort (filter (\<lambda>n. take 1 n \<noteq> ''.'' \<and> fs_stat (join_path dir n) fs = Some Directory) names))"

definition media_files :: "string \<Rightarrow> file_system \<Rightarrow> string list" where
  "media_files day_path fs =
     (case fs_list day_path fs of None \<Rightarrow> [] | Some names \<Rightarrow> str_sort (filter is_media_name names))"

definition scan_existing_segments :: "'x rec_env \<Rightarrow> 'x writer_state \<Rightarrow> 'x writer_state" where
  "scan_existing_segments e ws =
     (let dir = rc_directory (re_config e); fs = ws_fs ws
      in ws\<lparr>ws_kept :=
           concat (map (\<lambda>day.
             map (\<lambda>n. kept_of (join_path (join_path dir day) n)
                        (f64_of_int (rc_segment_sec (re_config e))) fs)
               (media_files (join_path dir day) fs)) (day_folders dir fs))\<rparr>)"

text \<open>The sums of \<open>over_retain\<close>, in the arithmetic of the code: doubles, and 32 bit unsigned.\<close>

definition kept_duration :: "kept_segment list \<Rightarrow> f64" where
  "kept_duration ks = fold (\<lambda>k d. f64_add d (ks_duration_sec k)) ks 0"

definition kept_bytes :: "kept_segment list \<Rightarrow> u32" where
  "kept_bytes ks = fold (\<lambda>k b. b + ks_bytes k) ks 0"

definition max_bytes_limit :: "record_config \<Rightarrow> u32" where
  "max_bytes_limit cfg =
     (if rc_max_bytes_mb cfg > 0 then word_of_int (rc_max_bytes_mb cfg) * 1024 * 1024 else 0)"

definition over_retain :: "record_config \<Rightarrow> kept_segment list \<Rightarrow> bool" where
  "over_retain cfg kept \<longleftrightarrow>
     \<not> length kept \<le> 1 \<and>
     ((rc_retain_sec cfg > 0 \<and> kept_duration kept > f64_of_int (rc_retain_sec cfg)) \<or>
      (max_bytes_limit cfg > 0 \<and> kept_bytes kept > max_bytes_limit cfg))"

definition append_kept :: "kept_segment list \<Rightarrow> hls_playlist \<times> file_system \<Rightarrow> hls_playlist \<times> file_system"
  where
  "append_kept ks = fold (\<lambda>k. pl_append (ks_filename k) (ks_duration_sec k)) ks"

definition rewrite_day_playlist :: "'x rec_env \<Rightarrow> string \<Rightarrow> bool \<Rightarrow> 'x writer_state \<Rightarrow> 'x writer_state"
  where
  "rewrite_day_playlist e day ended ws =
     (if day = [] \<or> (day = ws_current_day ws \<and> pl_active (ws_playlist ws)) then ws
      else
        let index_path = join_path (join_path (rc_directory (re_config e)) day) ''index.m3u8'';
            (ok, p, fs) = pl_begin index_path (rc_segment_sec (re_config e)) (ws_fs ws)
        in if \<not> ok then ws\<lparr>ws_fs := fs\<rparr>
           else
             let (p1, fs1) = append_kept (filter (\<lambda>k. ks_day k = day) (ws_kept ws)) (p, fs);
                 (p2, fs2) = (if ended then pl_finish (p1, fs1) else (p1, fs1))
             in upload_relative e index_path (ws\<lparr>ws_fs := fs2\<rparr>))"

text \<open>The body of the loop of \<open>prune_retained\<close>.\<close>

definition remove_day_files :: "'x rec_env \<Rightarrow> string \<Rightarrow> 'x writer_state \<Rightarrow> 'x writer_state" where
  "remove_day_files e day_dir ws =
     (let init_path = join_path day_dir ''init.mp4'';
          index_path = join_path day_dir ''index.m3u8'';
          fs1 = snd (fs_unlink init_path (ws_fs ws));
          fs2 = snd (fs_unlink index_path fs1);
          ws1 = delete_relative e index_path (delete_relative e init_path (ws\<lparr>ws_fs := fs2\<rparr>))
      in ws1\<lparr>ws_fs := snd (fs_rmdir day_dir (ws_fs ws1))\<rparr>)"

definition has_media :: "string \<Rightarrow> file_system \<Rightarrow> bool" where
  "has_media day_dir fs = (case fs_list day_dir fs of None \<Rightarrow> False | Some names \<Rightarrow> list_ex is_media_name names)"

definition prune_step :: "'x rec_env \<Rightarrow> 'x writer_state \<Rightarrow> 'x writer_state" where
  "prune_step e ws =
     (case ws_kept ws of
        [] \<Rightarrow> ws
      | old # rest \<Rightarrow>
          let ws1 = on_playlist (\<lambda>s. snd (drop_front_if (ks_filename old) s)) (ws\<lparr>ws_kept := rest\<rparr>);
              ws2 = delete_relative e (ks_path old)
                      (ws1\<lparr>ws_fs := snd (fs_unlink (ks_path old) (ws_fs ws1))\<rparr>);
              day_dir = join_path (rc_directory (re_config e)) (ks_day old)
          in if \<not> has_media day_dir (ws_fs ws2) \<and> ks_day old \<noteq> ws_current_day ws2
             then remove_day_files e day_dir ws2
             else if ks_day old \<noteq> ws_current_day ws2 then rewrite_day_playlist e (ks_day old) True ws2
             else ws2)"

lemma on_playlist_eq:
  "on_playlist f ws = ws\<lparr>ws_playlist := fst (f (ws_playlist ws, ws_fs ws)),
                         ws_fs := snd (f (ws_playlist ws, ws_fs ws))\<rparr>"
  by (simp add: on_playlist_def case_prod_beta)

lemma on_mux_eq:
  "on_mux f ws = ws\<lparr>ws_mux := fst (f (ws_mux ws, ws_fs ws)), ws_fs := snd (f (ws_mux ws, ws_fs ws))\<rparr>"
  by (simp add: on_mux_def case_prod_beta)

text \<open>Disk and uploads aside, the helpers change nothing.\<close>

definition blank :: "'x writer_state \<Rightarrow> 'x writer_state" where
  "blank ws = ws\<lparr>ws_fs := empty_disk, ws_uploader := new_null_uploader\<rparr>"

definition outside :: "'x writer_state \<Rightarrow> 'x writer_state \<Rightarrow> bool" where
  "outside ws ws' \<longleftrightarrow> blank ws' = blank ws"

lemma outside_refl [simp, intro!]: "outside ws ws"
  by (simp add: outside_def)

lemma outside_trans: "outside ws ws' \<Longrightarrow> outside ws' ws'' \<Longrightarrow> outside ws ws''"
  by (simp add: outside_def)

lemma blank_updates [simp]:
  "blank (ws\<lparr>ws_fs := fs\<rparr>) = blank ws" "blank (ws\<lparr>ws_uploader := up\<rparr>) = blank ws"
  by (simp_all add: blank_def)

lemma blank_relative [simp]:
  "blank (upload_relative e path ws) = blank ws" "blank (delete_relative e path ws) = blank ws"
  by (simp_all add: upload_relative_def delete_relative_def Let_def)

lemma outside_fields:
  assumes "outside ws ws'"
  shows "ws_mux ws' = ws_mux ws" "ws_policy ws' = ws_policy ws" "ws_playlist ws' = ws_playlist ws"
    "ws_session_ready ws' = ws_session_ready ws" "ws_current_day ws' = ws_current_day ws"
    "ws_current_media_path ws' = ws_current_media_path ws" "ws_kept ws' = ws_kept ws"
    "ws_trace ws' = ws_trace ws" "ws_await_keyframe ws' = ws_await_keyframe ws"
    "ws_segment_start_pts_ms ws' = ws_segment_start_pts_ms ws" "ws_ticks ws' = ws_ticks ws"
    "ws_pending_keyframe ws' = ws_pending_keyframe ws"
  using arg_cong [OF assms [unfolded outside_def], of ws_mux]
    arg_cong [OF assms [unfolded outside_def], of ws_policy]
    arg_cong [OF assms [unfolded outside_def], of ws_playlist]
    arg_cong [OF assms [unfolded outside_def], of ws_session_ready]
    arg_cong [OF assms [unfolded outside_def], of ws_current_day]
    arg_cong [OF assms [unfolded outside_def], of ws_current_media_path]
    arg_cong [OF assms [unfolded outside_def], of ws_kept]
    arg_cong [OF assms [unfolded outside_def], of ws_trace]
    arg_cong [OF assms [unfolded outside_def], of ws_await_keyframe]
    arg_cong [OF assms [unfolded outside_def], of ws_segment_start_pts_ms]
    arg_cong [OF assms [unfolded outside_def], of ws_ticks]
    arg_cong [OF assms [unfolded outside_def], of ws_pending_keyframe]
  by (simp_all add: blank_def)

lemma rewrite_day_playlist_outside: "outside ws (rewrite_day_playlist e day ended ws)"
  unfolding rewrite_day_playlist_def
  by (simp add: Let_def case_prod_beta outside_def)

lemma remove_day_files_outside: "outside ws (remove_day_files e day_dir ws)"
  by (simp add: remove_day_files_def Let_def outside_def)

lemma if_three: "(if a then x else if b then y else z) = x \<or> (if a then x else if b then y else z) = y \<or>
   (if a then x else if b then y else z) = z"
  by simp

lemma prune_step_outside:
  assumes "ws_kept ws = old # rest"
  shows "outside (ws\<lparr>ws_kept := rest,
                     ws_playlist := fst (snd (drop_front_if (ks_filename old) (ws_playlist ws, ws_fs ws)))\<rparr>)
           (prune_step e ws)"
proof -
  let ?w = "ws\<lparr>ws_kept := rest,
               ws_playlist := fst (snd (drop_front_if (ks_filename old) (ws_playlist ws, ws_fs ws)))\<rparr>"
  let ?w1 = "on_playlist (\<lambda>s. snd (drop_front_if (ks_filename old) s)) (ws\<lparr>ws_kept := rest\<rparr>)"
  let ?w2 = "delete_relative e (ks_path old) (?w1\<lparr>ws_fs := snd (fs_unlink (ks_path old) (ws_fs ?w1))\<rparr>)"
  have w2: "outside ?w ?w2"
    by (simp add: outside_def on_playlist_eq)
  have "prune_step e ws = remove_day_files e (join_path (rc_directory (re_config e)) (ks_day old)) ?w2 \<or>
    prune_step e ws = rewrite_day_playlist e (ks_day old) True ?w2 \<or> prune_step e ws = ?w2"
    unfolding prune_step_def assms list.case Let_def by (rule if_three)
  then consider "prune_step e ws = ?w2"
    | "prune_step e ws = rewrite_day_playlist e (ks_day old) True ?w2"
    | "prune_step e ws = remove_day_files e (join_path (rc_directory (re_config e)) (ks_day old)) ?w2"
    by argo
  then show ?thesis
  proof cases
    case 1
    show ?thesis unfolding 1 by (rule w2)
  next
    case 2
    show ?thesis unfolding 2 by (rule outside_trans [OF w2 rewrite_day_playlist_outside])
  next
    case 3
    show ?thesis unfolding 3 by (rule outside_trans [OF w2 remove_day_files_outside])
  qed
qed

lemma prune_step_kept: "ws_kept (prune_step e ws) = tl (ws_kept ws)"
proof (cases "ws_kept ws")
  case Nil
  then show ?thesis by (simp add: prune_step_def)
next
  case (Cons old rest)
  then show ?thesis using outside_fields(7) [OF prune_step_outside [OF Cons]] by simp
qed

function prune_retained :: "'x rec_env \<Rightarrow> 'x writer_state \<Rightarrow> 'x writer_state" where
  "prune_retained e ws =
     (if over_retain (re_config e) (ws_kept ws) then prune_retained e (prune_step e ws) else ws)"
  by pat_completeness auto
termination
  by (relation "measure (\<lambda>(e, ws). length (ws_kept ws))")
    (auto simp: prune_step_kept over_retain_def)

declare prune_retained.simps [simp del]

section \<open>Segments\<close>

text \<open>The duration of the segment that is being closed.\<close>

definition closing_duration :: "'x rec_env \<Rightarrow> 'x writer_state \<Rightarrow> f64" where
  "closing_duration e ws =
     (let d = (if ws_segment_start_pts_ms ws \<ge> 0 \<and>
                  ws_segment_last_pts_ms ws \<ge> ws_segment_start_pts_ms ws
               then f64_div (f64_of_int (ws_segment_last_pts_ms ws - ws_segment_start_pts_ms ws)) 1000
               else 0)
      in if d < min_duration then f64_of_int (rc_segment_sec (re_config e)) else d)"

text \<open>The branch for a closed file that has a path.\<close>

definition record_closed :: "'x rec_env \<Rightarrow> 'x writer_state \<Rightarrow> 'x writer_state" where
  "record_closed e ws =
     (let d = closing_duration e ws;
          path = ws_current_media_path ws;
          ws1 = on_playlist (pl_append (filename_of path) d) ws;
          ws2 = upload_relative e path (remember_closed_segment path d ws1);
          ws3 = prune_retained e ws2
      in if pl_active (ws_playlist ws3) then upload_relative e (pl_path (ws_playlist ws3)) ws3 else ws3)"

definition close_current_segment :: "'x rec_env \<Rightarrow> bool \<Rightarrow> 'x writer_state \<Rightarrow> 'x writer_state" where
  "close_current_segment e end_playlist ws =
     (let ws1 = (if segment_open (ws_mux ws)
                 then let ws0 = on_mux (close_segment (re_kit e)) ws;
                          ws0' = ws0\<lparr>ws_trace := ws_trace ws0 @ [Seg_Close]\<rparr>
                      in if ws_current_media_path ws0' \<noteq> [] then record_closed e ws0' else ws0'
                 else ws);
          ws2 = ws1\<lparr>ws_current_media_path := [], ws_segment_start_pts_ms := - 1,
                    ws_segment_last_pts_ms := - 1\<rparr>
      in if end_playlist \<and> pl_active (ws_playlist ws2)
         then let ws3 = on_playlist pl_finish ws2
              in upload_relative e (pl_path (ws_playlist ws3)) ws3
         else ws2)"

section \<open>Formats and sessions\<close>

definition vec_resize :: "nat \<Rightarrow> u8 list \<Rightarrow> u8 list" where
  "vec_resize n xs = take n xs @ replicate (n - length xs) 0"

text \<open>The audio half of \<open>capture_formats_from_keyframe\<close>.\<close>

definition capture_audio_format :: "'x rec_env \<Rightarrow> 'x writer_state \<Rightarrow> 'x writer_state" where
  "capture_audio_format e ws =
     (let ws1 = ws\<lparr>ws_audio_format := None, ws_audio_config_ready := True\<rparr>;
          ws2 = (case (if rc_audio (re_config e) then re_track e Audio else None) of
                   None \<Rightarrow> ws1
                 | Some t \<Rightarrow>
                     if st_type t = Audio \<and> af_codec (st_audio t) \<in> {AAC, G711U, G711A}
                     then ws1\<lparr>ws_audio_format := Some (st_audio t),
                              ws_audio_config_ready :=
                                \<not> (af_codec (st_audio t) = AAC \<and> af_extradata (st_audio t) = [])\<rparr>
                     else ws1)
      in ws2\<lparr>ws_formats_ready := True\<rparr>)"

definition set_extradata :: "u8 list \<Rightarrow> 'x writer_state \<Rightarrow> 'x writer_state" where
  "set_extradata xs ws = ws\<lparr>ws_video_format := (ws_video_format ws)\<lparr>vf_extradata := xs\<rparr>\<rparr>"

definition capture_formats_from_keyframe ::
  "'x rec_env \<Rightarrow> media_frame option \<Rightarrow> 'x writer_state \<Rightarrow> bool \<times> 'x writer_state" where
  "capture_formats_from_keyframe e kf ws =
     (case kf of
        None \<Rightarrow> (False, ws)
      | Some f \<Rightarrow>
          if \<not> keyframe f \<or> mf_type f \<noteq> Video then (False, ws)
          else
            case re_track e Video of
              None \<Rightarrow> (False, ws)
            | Some t \<Rightarrow>
                if st_type t \<noteq> Video then (False, ws)
                else
                  let ws1 = ws\<lparr>ws_video_format :=
                        \<lparr>vf_codec = mf_codec f, vf_width = vf_width (st_video t),
                         vf_height = vf_height (st_video t),
                         vf_frame_rate = vf_frame_rate (st_video t), vf_extradata = []\<rparr>\<rparr>
                  in if mf_codec f = H264
                     then let (r, avc) = mk_avc_from_nalu (re_kit e) (mf_payload f)
                          in if r < 0 \<or> mk_avc_nb_sps (re_kit e) avc = 0 \<or> mk_avc_nb_pps (re_kit e) avc = 0
                             then (False, ws1)
                             else let (n, buf) = mk_avc_save (re_kit e) avc 256
                                  in if n \<le> 0 then (False, set_extradata buf ws1)
                                     else (True, capture_audio_format e
                                                   (set_extradata (vec_resize (nat n) buf) ws1))
                     else if mf_codec f = H265
                     then let (r, hevc) = mk_hevc_from_nalu (re_kit e) (mf_payload f)
                          in if r < 0 \<or> mk_hevc_num_arrays (re_kit e) hevc = 0 then (False, ws1)
                             else let (n, buf) = mk_hevc_save (re_kit e) hevc 512
                                  in if n \<le> 0 then (False, set_extradata buf ws1)
                                     else (True, capture_audio_format e
                                                   (set_extradata (vec_resize (nat n) buf) ws1))
                     else (False, ws1))"

text \<open>\<open>muxer_->start_session\<close> with the captured formats.\<close>

definition begin_mux_session :: "'x rec_env \<Rightarrow> string \<Rightarrow> 'x writer_state \<Rightarrow> bool \<times> 'x writer_state" where
  "begin_mux_session e init_path ws =
     (let (ok, m, fs) = start_session (re_kit e) (ws_video_format ws) (ws_audio_format ws) init_path
                          (ws_mux ws, ws_fs ws)
      in (ok, ws\<lparr>ws_mux := m, ws_fs := fs\<rparr>))"

text \<open>The second half of \<open>ensure_session\<close>: init file, playlist, and the kept segments of the day.\<close>

definition start_day_session :: "'x rec_env \<Rightarrow> 'x writer_state \<Rightarrow> bool \<times> 'x writer_state" where
  "start_day_session e ws =
     (case make_day_paths e ws of
        (None, ws2) \<Rightarrow> (False, ws2)
      | (Some (day_dir, _), ws2) \<Rightarrow>
          let init_path = join_path day_dir ''init.mp4'';
              (started, ws3) = begin_mux_session e init_path ws2
          in if \<not> started then (False, ws3)
             else
               let (ok, p, fs) = pl_begin (join_path day_dir ''index.m3u8'')
                                   (rc_segment_sec (re_config e)) (ws_fs ws3);
                   ws4 = ws3\<lparr>ws_playlist := p, ws_fs := fs\<rparr>
               in if \<not> ok then (False, on_mux (end_session (re_kit e)) ws4)
                  else
                    let day = filename_of day_dir;
                        ws5 = on_playlist (append_kept (filter (\<lambda>k. ks_day k = day) (ws_kept ws4)))
                                (ws4\<lparr>ws_current_day := day\<rparr>);
                        ws6 = upload_relative e init_path (ws5\<lparr>ws_session_ready := True\<rparr>)
                    in (True, upload_relative e (pl_path (ws_playlist ws6)) ws6))"

definition ensure_session :: "'x rec_env \<Rightarrow> media_frame \<Rightarrow> 'x writer_state \<Rightarrow> bool \<times> 'x writer_state" where
  "ensure_session e kf ws =
     (if ws_session_ready ws then (True, ws)
      else
        let (captured, ws1) = (if ws_formats_ready ws then (True, ws)
                               else capture_formats_from_keyframe e (Some kf) ws)
        in if \<not> captured then (False, ws1)
           else if \<not> ws_audio_config_ready ws1 then (False, ws1)
           else start_day_session e ws1)"

text \<open>The second check of \<open>open_next_segment\<close>: the session was opened on another day.\<close>

definition switch_day ::
  "'x rec_env \<Rightarrow> string \<Rightarrow> string \<Rightarrow> 'x writer_state \<Rightarrow> bool \<times> 'x writer_state" where
  "switch_day e day day_dir ws =
     (let ws1 = close_current_segment e True ws;
          init_path = join_path day_dir ''init.mp4'';
          (started, ws2) = begin_mux_session e init_path ws1
      in if \<not> started then (False, ws2\<lparr>ws_session_ready := False\<rparr>)
         else
           let (ok, p, fs) = pl_begin (join_path day_dir ''index.m3u8'')
                               (rc_segment_sec (re_config e)) (ws_fs ws2);
               ws3 = on_playlist (append_kept (filter (\<lambda>k. ks_day k = day) (ws_kept ws2)))
                       (ws2\<lparr>ws_playlist := p, ws_fs := fs, ws_current_day := day\<rparr>);
               ws4 = upload_relative e init_path (ws3\<lparr>ws_session_ready := True\<rparr>)
           in (True, upload_relative e (pl_path (ws_playlist ws4)) ws4))"

definition begin_segment ::
  "'x rec_env \<Rightarrow> media_frame \<Rightarrow> string \<Rightarrow> 'x writer_state \<Rightarrow> bool \<times> 'x writer_state" where
  "begin_segment e kf path ws =
     (let (ok, m, fs) = open_segment (re_kit e) path (ws_mux ws, ws_fs ws);
          ws1 = ws\<lparr>ws_mux := m, ws_fs := fs\<rparr>
      in if \<not> ok then (False, ws1)
         else (True, ws1\<lparr>ws_current_media_path := path, ws_segment_start_pts_ms := mf_pts_ms kf,
                         ws_segment_last_pts_ms := mf_pts_ms kf,
                         ws_policy := on_segment_started (mf_pts_ms kf) (ws_policy ws1),
                         ws_trace := ws_trace ws1 @ [Seg_Open path (mf_pts_ms kf)]\<rparr>))"

definition open_next_segment :: "'x rec_env \<Rightarrow> media_frame \<Rightarrow> 'x writer_state \<Rightarrow> bool \<times> 'x writer_state"
  where
  "open_next_segment e kf ws =
     (case make_day_paths e ws of
        (None, ws1) \<Rightarrow> (False, ws1)
      | (Some (day_dir, stamp), ws1) \<Rightarrow>
          let day = filename_of day_dir;
              ws2 = (if ws_session_ready ws1 \<and> day \<noteq> ws_current_day ws1
                     then (on_mux (end_session (re_kit e)) (close_current_segment e True ws1))
                            \<lparr>ws_session_ready := False, ws_current_day := []\<rparr>
                     else ws1);
              (ready, ws3) = ensure_session e kf ws2
          in if \<not> ready then (False, ws3)
             else
               let (switched, ws4) = (if day \<noteq> ws_current_day ws3 then switch_day e day day_dir ws3
                                      else (True, ws3))
               in if \<not> switched then (False, ws4)
                  else begin_segment e kf (next_media_path (ws_fs ws4) day_dir stamp) ws4)"

section \<open>Frames\<close>

definition rotate_to_new_segment ::
  "'x rec_env \<Rightarrow> media_frame \<Rightarrow> 'x writer_state \<Rightarrow> bool \<times> 'x writer_state" where
  "rotate_to_new_segment e kf ws =
     (let ws1 = (close_current_segment e False ws)\<lparr>ws_await_keyframe := False\<rparr>;
          (opened, ws2) = open_next_segment e kf ws1
      in if \<not> opened then (False, ws2\<lparr>ws_await_keyframe := True\<rparr>)
         else let (ok, ws3) = mux_write e kf ws2
              in (ok, if ok then ws3\<lparr>ws_segment_last_pts_ms := mf_pts_ms kf\<rparr> else ws3))"

text \<open>The first AAC frame gives the decoder configuration, and a key frame that waited for it.\<close>

definition take_pending_keyframe :: "'x rec_env \<Rightarrow> 'x writer_state \<Rightarrow> 'x writer_state" where
  "take_pending_keyframe e ws =
     (case ws_pending_keyframe ws of
        None \<Rightarrow> ws
      | Some key \<Rightarrow>
          if segment_open (ws_mux ws) then ws
          else
            let (opened, ws1) = open_next_segment e key (ws\<lparr>ws_pending_keyframe := None\<rparr>)
            in if opened then snd (mux_write e key (ws1\<lparr>ws_await_keyframe := False\<rparr>)) else ws1)"

definition learn_aac_config :: "'x rec_env \<Rightarrow> media_frame \<Rightarrow> 'x writer_state \<Rightarrow> 'x writer_state" where
  "learn_aac_config e f ws =
     (case ws_audio_format ws of
        None \<Rightarrow> ws
      | Some a \<Rightarrow>
          if af_codec a \<noteq> AAC \<or> af_extradata a \<noteq> [] \<or> frame_size f < 7 then ws
          else
            let (h, aac) = mk_aac_adts_load (re_kit e) (mf_payload f)
            in if h < 7 then ws
               else
                 let (n, buf) = mk_aac_config_save (re_kit e) aac 32
                 in if n > 0
                    then take_pending_keyframe e
                           (ws\<lparr>ws_audio_format := Some (a\<lparr>af_extradata := vec_resize (nat n) buf\<rparr>),
                              ws_audio_config_ready := True\<rparr>)
                    else ws\<lparr>ws_audio_format := Some (a\<lparr>af_extradata := []\<rparr>)\<rparr>)"

definition process_audio :: "'x rec_env \<Rightarrow> media_frame \<Rightarrow> 'x writer_state \<Rightarrow> 'x writer_state" where
  "process_audio e f ws =
     (if \<not> rc_audio (re_config e) then ws
      else
        let ws1 = learn_aac_config e f ws
        in case ws_audio_format ws1 of
             None \<Rightarrow> ws1
           | Some a \<Rightarrow>
               if \<not> segment_open (ws_mux ws1) \<or> (af_codec a = AAC \<and> af_extradata a = []) then ws1
               else snd (mux_write e f ws1))"

definition process_first_keyframe :: "'x rec_env \<Rightarrow> media_frame \<Rightarrow> 'x writer_state \<Rightarrow> 'x writer_state" where
  "process_first_keyframe e f ws =
     (let (captured, ws1) = (if ws_formats_ready ws then (True, ws)
                             else capture_formats_from_keyframe e (Some f) ws)
      in if \<not> captured then ws1
         else if \<not> ws_audio_config_ready ws1 then ws1\<lparr>ws_pending_keyframe := Some f\<rparr>
         else
           let (opened, ws2) = open_next_segment e f ws1
           in if \<not> opened then ws2
              else (snd (mux_write e f (ws2\<lparr>ws_pending_keyframe := None, ws_await_keyframe := False\<rparr>)))
                     \<lparr>ws_segment_last_pts_ms := mf_pts_ms f\<rparr>)"

definition process_video :: "'x rec_env \<Rightarrow> media_frame \<Rightarrow> 'x writer_state \<Rightarrow> 'x writer_state" where
  "process_video e f ws =
     (if ws_await_keyframe ws
      then if \<not> keyframe f then ws else process_first_keyframe e f ws
      else if keyframe f \<and> should_rotate (Some f) (ws_policy ws) then snd (rotate_to_new_segment e f ws)
      else if \<not> segment_open (ws_mux ws) then ws\<lparr>ws_await_keyframe := True\<rparr>
      else (snd (mux_write e f ws))\<lparr>ws_segment_last_pts_ms := mf_pts_ms f\<rparr>)"

definition process_frame :: "'x rec_env \<Rightarrow> media_frame option \<Rightarrow> 'x writer_state \<Rightarrow> 'x writer_state" where
  "process_frame e frame ws =
     (case frame of
        None \<Rightarrow> ws
      | Some f \<Rightarrow> if mf_type f = Audio then process_audio e f ws else process_video e f ws)"

section \<open>Threads\<close>

record 'x recorder =
  rec_queue :: "media_frame list"
  rec_stopping :: bool
  rec_drop_logged :: bool
  rec_subscription_id :: u64
  rec_writer_joinable :: bool
  rec_ws :: "'x writer_state"

definition new_recorder :: "record_config \<Rightarrow> uploader \<Rightarrow> file_system \<Rightarrow> 'x recorder" where
  "new_recorder cfg up fs =
     \<lparr>rec_queue = [], rec_stopping = False, rec_drop_logged = False, rec_subscription_id = 0,
      rec_writer_joinable = False, rec_ws = new_writer_state cfg up fs\<rparr>"

definition on_frame :: "record_config \<Rightarrow> media_frame option \<Rightarrow> 'x recorder \<Rightarrow> 'x recorder" where
  "on_frame cfg frame r =
     (case frame of
        None \<Rightarrow> r
      | Some f \<Rightarrow>
          if rec_stopping r then r
          else if \<not> rc_audio cfg \<and> mf_type f = Audio then r
          else if length (rec_queue r) \<ge> rc_max_pending_frames cfg then r\<lparr>rec_drop_logged := True\<rparr>
          else r\<lparr>rec_queue := rec_queue r @ [f]\<rparr>)"

text \<open>What the writer thread does after its loop.\<close>

definition writer_exit :: "'x rec_env \<Rightarrow> 'x writer_state \<Rightarrow> 'x writer_state" where
  "writer_exit e ws =
     (on_mux (end_session (re_kit e)) (close_current_segment e True ws))\<lparr>ws_session_ready := False\<rparr>"

text \<open>The writer thread; waiting for a frame that never comes is \<open>None\<close>.\<close>

partial_function (option) writer_loop :: "'x rec_env \<Rightarrow> 'x recorder \<Rightarrow> 'x recorder option" where
  "writer_loop e r =
     (case rec_queue r of
        [] \<Rightarrow> if rec_stopping r then Some (r\<lparr>rec_ws := writer_exit e (rec_ws r)\<rparr>) else None
      | f # rest \<Rightarrow>
          writer_loop e (r\<lparr>rec_queue := rest, rec_ws := process_frame e (Some f) (rec_ws r)\<rparr>))"

text \<open>\<open>writer_.join()\<close>: the thread runs to its end.\<close>

definition join_writer :: "'x rec_env \<Rightarrow> 'x recorder \<Rightarrow> 'x recorder option" where
  "join_writer e r =
     (if \<not> rec_writer_joinable r then Some r
      else map_option (\<lambda>r'. r'\<lparr>rec_writer_joinable := False\<rparr>) (writer_loop e r))"

definition recorder_start ::
  "'x rec_env \<Rightarrow> 'h \<Rightarrow> 'x recorder \<Rightarrow> 'h media_source \<Rightarrow>
     (bool \<times> 'x recorder \<times> 'h media_source) option" where
  "recorder_start e h r src =
     (if rec_writer_joinable r then Some (False, r, src)
      else
        let ws = rec_ws r; cfg = re_config e;
            (ok, fs) = mkdir_p (rc_directory cfg) (ws_fs ws)
        in if \<not> ok then Some (False, r\<lparr>rec_ws := ws\<lparr>ws_fs := fs\<rparr>\<rparr>, src)
           else
             let ws1 = prune_retained e (scan_existing_segments e (ws\<lparr>ws_fs := fs\<rparr>));
                 r1 = r\<lparr>rec_ws := ws1, rec_stopping := False, rec_writer_joinable := True\<rparr>;
                 (i, src1) = subscribe (rc_stream_id cfg) (Some h) src;
                 r2 = r1\<lparr>rec_subscription_id := i\<rparr>
             in if i = 0
                then map_option (\<lambda>r3. (False, r3, src1)) (join_writer e (r2\<lparr>rec_stopping := True\<rparr>))
                else Some (True, r2, src1))"

definition recorder_stop ::
  "'x rec_env \<Rightarrow> worker_env \<Rightarrow> worker_run \<Rightarrow> 'x recorder \<Rightarrow> 'h media_source \<Rightarrow>
     ('x recorder \<times> worker_run \<times> 'h media_source) option" where
  "recorder_stop e we wr r src =
     (let src1 = (if rec_subscription_id r \<noteq> 0
                  then unsubscribe (rc_stream_id (re_config e)) (rec_subscription_id r) src else src);
          r1 = r\<lparr>rec_subscription_id := 0, rec_stopping := True\<rparr>
      in case join_writer e r1 of
           None \<Rightarrow> None
         | Some r2 \<Rightarrow>
             let ws = writer_exit e (rec_ws r2)
             in case uploader_stop we (ws_uploader ws) wr of
                  None \<Rightarrow> None
                | Some (u, wr1) \<Rightarrow> Some (r2\<lparr>rec_ws := ws\<lparr>ws_uploader := u\<rparr>\<rparr>, wr1, src1))"

text \<open>The frame queue is a bounded queue that drops what does not fit.\<close>

interpretation rq: bounded_queue rec_queue "rc_max_pending_frames cfg" "on_frame cfg" for cfg
  by unfold_locales (auto simp: on_frame_def split: option.split)

section \<open>A small recorder\<close>

text \<open>
  A media library that accepts everything, a disk that is empty, a clock that stands still: the
  concrete instance on which the theorems about runs are tried.
\<close>

definition demo_kit :: "unit media_kit" where
  "demo_kit = \<lparr>mk_MOV_OBJECT_H264 = 0x21, mk_MOV_OBJECT_H265 = 0x23, mk_MOV_OBJECT_AAC = 0x40,
     mk_MOV_OBJECT_G711u = 0xfe, mk_MOV_OBJECT_G711a = 0xfd,
     mk_avc_from_nalu = \<lambda>_. (1, ()), mk_avc_nb_sps = \<lambda>_. 1, mk_avc_nb_pps = \<lambda>_. 1,
     mk_avc_save = \<lambda>_ _. (1, [1]), mk_avc_load = \<lambda>_. (1, ()),
     mk_hevc_from_nalu = \<lambda>_. (- 1, ()), mk_hevc_num_arrays = \<lambda>_. 0, mk_hevc_save = \<lambda>_ _. (0, []),
     mk_hevc_load = \<lambda>_. (0, ()), mk_aac_adts_load = \<lambda>_. (7, ()),
     mk_aac_config_save = \<lambda>_ _. (2, [18, 16]),
     mk_h264_annexbtomp4 = \<lambda>_ d _. (int (length d), d, ()),
     mk_h265_annexbtomp4 = \<lambda>_ d _. (0, d, ()),
     mk_writer_create = Some (), mk_writer_add_video = \<lambda>_ _ _ _ _. (0, ()),
     mk_writer_add_audio = \<lambda>_ _ _ _ _ _. (1, ()),
     mk_writer_init_segment = \<lambda>_ _. (0, (), ''i'', 1),
     mk_writer_write = \<lambda>_ _ _ _ _ _ s. (0, (), s),
     mk_writer_save_segment = \<lambda>_ _. (0, (), ''s'', 1)\<rparr>"

definition demo_config :: record_config where
  "demo_config = \<lparr>rc_enabled = True, rc_stream_id = 0, rc_audio = False, rc_segment_sec = 5,
     rc_retain_sec = 0, rc_max_bytes_mb = 1, rc_directory = ''d'', rc_upload_url = [],
     rc_upload_token = [], rc_max_pending_frames = 4\<rparr>"

definition camera_track :: "media_type \<Rightarrow> stream_track" where
  "camera_track ty = \<lparr>st_stream_id = 0, st_type = ty, st_clock_rate = 90000,
     st_video = \<lparr>vf_codec = H264, vf_width = 640, vf_height = 360, vf_frame_rate = 25, vf_extradata = []\<rparr>,
     st_audio = \<lparr>af_codec = AAC, af_sample_rate = 8000, af_channels = 1, af_bits_per_sample = 16,
                 af_extradata = []\<rparr>\<rparr>"

definition demo_env :: "bool \<Rightarrow> unit rec_env" where
  "demo_env audio = \<lparr>re_config = demo_config\<lparr>rc_audio := audio\<rparr>, re_kit = demo_kit,
     re_clock = \<lambda>_. \<lparr>tm_year = - 1899, tm_mon = 0, tm_mday = 1, tm_hour = 8, tm_min = 3, tm_sec = 0\<rparr>,
     re_track = \<lambda>ty. Some (camera_track ty)\<rparr>"

definition demo_frame :: "media_type \<Rightarrow> frame_kind \<Rightarrow> int \<Rightarrow> media_frame" where
  "demo_frame ty kind t =
     (create_frame ty (if ty = Video then H264 else AAC) 0 8)
       \<lparr>mf_kind := kind, mf_pts_ms := t, mf_dts_ms := t\<rparr>"

definition demo_source :: "nat media_source" where
  "demo_source = set_track (camera_track Video)
     (new_media_source 0 \<lparr>max_gops = 2, max_bytes = 100, max_duration_ms = 1000\<rparr>)"

definition demo_new :: "unit recorder" where
  "demo_new = new_recorder demo_config new_null_uploader empty_disk"

definition demo_started :: "unit recorder" where
  "demo_started =
     (case recorder_start (demo_env False) 0 demo_new demo_source of
        Some (_, r, _) \<Rightarrow> r
      | None \<Rightarrow> demo_new)"

definition demo_recording :: "unit recorder" where
  "demo_recording = demo_started\<lparr>rec_ws :=
     process_frame (demo_env False) (Some (demo_frame Video Key 0)) (rec_ws demo_started)\<rparr>"

end
