(* ===== verification/Recorder_Playlist.thy ===== *)
theory Recorder_Playlist
  imports Segment_Recorder
begin

text \<open>
  Retention and the playlist of the day.  The loop of \<open>prune_retained\<close> ends with the longest tail of
  the kept segments that respects the limits, and in each state the recorder can reach while a
  session is open, the live playlist lists exactly the kept segments of the current day, in order.
\<close>

section \<open>Retention\<close>

lemma prune_retained_kept:
  "\<exists>n. ws_kept (prune_retained e ws) = drop n (ws_kept ws) \<and>
     \<not> over_retain (re_config e) (drop n (ws_kept ws)) \<and>
     (\<forall>m < n. over_retain (re_config e) (drop m (ws_kept ws)))"
proof (induction e ws rule: prune_retained.induct)
  case (1 e ws)
  show ?case
  proof (cases "over_retain (re_config e) (ws_kept ws)")
    case False
    then show ?thesis by (intro exI [of _ 0]) (simp add: prune_retained.simps [of e ws])
  next
    case True
    from 1 [OF True] obtain n where n: "ws_kept (prune_retained e (prune_step e ws)) = drop n (tl (ws_kept ws))"
      "\<not> over_retain (re_config e) (drop n (tl (ws_kept ws)))"
      "\<forall>m < n. over_retain (re_config e) (drop m (tl (ws_kept ws)))"
      unfolding prune_step_kept by blast
    have "over_retain (re_config e) (drop m (ws_kept ws))" if "m < Suc n" for m
      using that n(3) True by (cases m) (auto simp: drop_Suc)
    with True n(1,2) show ?thesis
      by (intro exI [of _ "Suc n"]) (simp add: prune_retained.simps [of e ws] drop_Suc)
  qed
qed

text \<open>
  C17: The pruning loop ends.  It removes segments from the old end one by one, only while the kept
  ones exceed a limit, never the newest one, and when it ends either one segment is left or both
  the duration and the size of the kept segments are within the configured limits.
\<close>

theorem prune_retained_within_limits:
  "\<exists>n. ws_kept (prune_retained e ws) = drop n (ws_kept ws) \<and> n \<le> length (ws_kept ws) - 1 \<and>
     (\<forall>m < n. over_retain (re_config e) (drop m (ws_kept ws))) \<and>
     (length (drop n (ws_kept ws)) \<le> 1 \<or>
      ((rc_retain_sec (re_config e) \<le> 0 \<or>
        kept_duration (drop n (ws_kept ws)) \<le> f64_of_int (rc_retain_sec (re_config e))) \<and>
       (max_bytes_limit (re_config e) = 0 \<or>
        kept_bytes (drop n (ws_kept ws)) \<le> max_bytes_limit (re_config e))))"
proof -
  let ?k = "ws_kept ws" and ?cfg = "re_config e"
  obtain n where n: "ws_kept (prune_retained e ws) = drop n ?k" "\<not> over_retain ?cfg (drop n ?k)"
    "\<forall>m < n. over_retain ?cfg (drop m ?k)"
    using prune_retained_kept by blast
  have "n \<le> length ?k - 1"
  proof (cases n)
    case (Suc m)
    then have "over_retain ?cfg (drop m ?k)" using n(3) by simp
    then show ?thesis using Suc by (auto simp: over_retain_def)
  qed simp
  moreover have "length (drop n ?k) \<le> 1 \<or>
      ((rc_retain_sec ?cfg \<le> 0 \<or> kept_duration (drop n ?k) \<le> f64_of_int (rc_retain_sec ?cfg)) \<and>
       (max_bytes_limit ?cfg = 0 \<or> kept_bytes (drop n ?k) \<le> max_bytes_limit ?cfg))"
    using n(2) unfolding over_retain_def by (auto simp: not_less word_neq_0_conv)
  ultimately show ?thesis using n by blast
qed

definition demo_kept :: "kept_segment list" where
  "demo_kept = map (\<lambda>n. \<lparr>ks_path = n, ks_filename = n, ks_day = ''0001-01-01'', ks_duration_sec = 5,
                          ks_bytes = 600000\<rparr>) [''a'', ''b'', ''c'']"

theorem prune_retained_within_limits_witness:
  "\<exists>n \<le> 2. ws_kept (prune_retained (demo_env False) ((rec_ws demo_new)\<lparr>ws_kept := demo_kept\<rparr>)) =
      drop n demo_kept \<and>
    (length (drop n demo_kept) \<le> 1 \<or> kept_bytes (drop n demo_kept) \<le> 1048576)"
proof -
  have "length demo_kept = 3" "max_bytes_limit (re_config (demo_env False)) = 1048576"
    by (simp_all add: demo_kept_def demo_env_def demo_config_def max_bytes_limit_def)
  with prune_retained_within_limits [of "demo_env False" "(rec_ws demo_new)\<lparr>ws_kept := demo_kept\<rparr>"]
  show ?thesis by auto
qed

lemma max_bytes_limit_mod:
  assumes "0 \<le> rc_max_bytes_mb cfg"
  shows "unat (max_bytes_limit cfg) = nat (rc_max_bytes_mb cfg) mod 4096 * 1048576"
proof (cases "rc_max_bytes_mb cfg = 0")
  case True
  then show ?thesis by (simp add: max_bytes_limit_def)
next
  case False
  define n where "n = nat (rc_max_bytes_mb cfg)"
  have "max_bytes_limit cfg = of_nat (n * 1048576)"
    using assms False by (simp add: max_bytes_limit_def n_def)
  then have "unat (max_bytes_limit cfg) = n * 1048576 mod 2 ^ 32"
    by (simp add: unat_of_nat del: of_nat_mult)
  also have "\<dots> = n mod 4096 * 1048576"
    using mult_mod_right [of 1048576 n 4096] by (simp add: mult.commute)
  finally show ?thesis by (simp add: n_def)
qed

text \<open>
  The size limit in bytes is the configured number of megabytes reduced modulo 4096 megabytes:
  it is exact below 4096, while 4096 and 8192, which the configuration accepts, mean no limit at all.
\<close>

theorem size_limit_modulo_4096:
  assumes "0 \<le> rc_max_bytes_mb cfg" and "rc_max_bytes_mb cfg \<le> 8192"
  shows "unat (max_bytes_limit cfg) = nat (rc_max_bytes_mb cfg) mod 4096 * 1048576"
  using assms(1) by (rule max_bytes_limit_mod)

theorem size_limit_modulo_4096_witness:
  "unat (max_bytes_limit (demo_config\<lparr>rc_max_bytes_mb := 4096\<rparr>)) = 0 \<and>
   unat (max_bytes_limit (demo_config\<lparr>rc_max_bytes_mb := 200\<rparr>)) = 209715200"
  using size_limit_modulo_4096 [of "demo_config\<lparr>rc_max_bytes_mb := 4096\<rparr>"]
    size_limit_modulo_4096 [of "demo_config\<lparr>rc_max_bytes_mb := 200\<rparr>"]
  by simp

section \<open>Names\<close>

definition day_ok :: "string \<Rightarrow> bool" where
  "day_ok day \<longleftrightarrow> plain_name day \<and> CHR ''_'' \<notin> set day"

text \<open>The names the recorder gives its files: the day, an underscore, the time.\<close>

definition file_of_day :: "string \<Rightarrow> string \<Rightarrow> bool" where
  "file_of_day day n \<longleftrightarrow> CHR ''/'' \<notin> set n \<and> starts_with (day @ ''_'') n"

lemma file_of_day_nonempty: "file_of_day day n \<Longrightarrow> n \<noteq> []"
  by (auto simp: file_of_day_def starts_with_def)

text \<open>A file name determines its day.\<close>

lemma file_of_day_unique:
  assumes "file_of_day d n" "file_of_day d' n" "day_ok d" "day_ok d'"
  shows "d = d'"
proof -
  have *: "d = takeWhile (\<lambda>c. c \<noteq> CHR ''_'') n" if "file_of_day d n" "day_ok d" for d
  proof -
    have "n = (d @ ''_'') @ drop (Suc (length d)) n"
      using that(1) append_take_drop_id [of "Suc (length d)" n]
      by (simp add: file_of_day_def starts_with_def)
    moreover have "takeWhile (\<lambda>c. c \<noteq> CHR ''_'') ((d @ ''_'') @ xs) = d" for xs
      using that(2) by (auto simp: day_ok_def takeWhile_append)
    ultimately show ?thesis by metis
  qed
  show ?thesis using * assms by metis
qed

lemma day_name_ok: "day_ok (day_name t)"
proof -
  have "CHR ''_'' \<notin> set (day_name t)" "CHR ''/'' \<notin> set (day_name t)"
    using set_take_subset by (auto simp: day_name_def dest!: subsetD [OF set_take_subset])
  then show ?thesis by (simp add: day_ok_def plain_name_def day_name_def)
qed

lemma time_name_plain: "CHR ''/'' \<notin> set (time_name t)"
  by (auto simp: time_name_def dest!: subsetD [OF set_take_subset])

lemma dec_nat_plain [simp]: "CHR ''/'' \<notin> set (dec_nat n)"
  using dec_nat_digits is_digit_not by blast

lemma free_media_path_name:
  "CHR ''/'' \<notin> set s \<Longrightarrow>
   \<exists>s'. free_media_path fs dir stamp k (join_path dir (stamp @ s)) = join_path dir (stamp @ s') \<and>
     CHR ''/'' \<notin> set s'"
proof (induction k arbitrary: s)
  case (Suc k)
  have "CHR ''/'' \<notin> set (''-'' @ dec_nat (99 - k) @ ''.m4s'')" by simp
  from Suc.IH [OF this] Suc.prems show ?case by auto
qed auto

lemma next_media_path_name:
  assumes "day_ok day" and "stamp = day @ ''_'' @ t" and "CHR ''/'' \<notin> set t"
  shows "\<exists>n. next_media_path fs dir stamp = join_path dir n \<and> file_of_day day n"
proof -
  obtain s where s: "next_media_path fs dir stamp = join_path dir (stamp @ s)" "CHR ''/'' \<notin> set s"
    unfolding next_media_path_def using free_media_path_name [of "''.m4s''" fs dir stamp 98] by auto
  then have "file_of_day day (stamp @ s)"
    using assms by (simp add: file_of_day_def starts_with_def day_ok_def plain_name_def)
  with s(1) show ?thesis by blast
qed

section \<open>The listing of a day\<close>

definition seg_ok :: "kept_segment \<Rightarrow> bool" where
  "seg_ok k \<longleftrightarrow> day_ok (ks_day k) \<and> file_of_day (ks_day k) (ks_filename k)"

definition kept_entry :: "kept_segment \<Rightarrow> string \<times> f64" where
  "kept_entry k = (ks_filename k, entry_duration (ks_duration_sec k))"

definition listing :: "string \<Rightarrow> kept_segment list \<Rightarrow> (string \<times> f64) list" where
  "listing day ks = map kept_entry (filter (\<lambda>k. ks_day k = day) ks)"

lemma append_kept_entries:
  "pl_path p \<noteq> [] \<Longrightarrow> list_all seg_ok ks \<Longrightarrow>
   pl_entries (fst (append_kept ks (p, fs))) = pl_entries p @ map kept_entry ks \<and>
   pl_path (fst (append_kept ks (p, fs))) = pl_path p"
proof (induction ks arbitrary: p fs)
  case Nil
  then show ?case by (simp add: append_kept_def)
next
  case (Cons k ks)
  let ?a = "pl_append (ks_filename k) (ks_duration_sec k) (p, fs)"
  have "ks_filename k \<noteq> []" using Cons.prems(2) file_of_day_nonempty by (auto simp: seg_ok_def)
  then have a: "pl_entries (fst ?a) = pl_entries p @ [kept_entry k]" "pl_path (fst ?a) = pl_path p"
    using Cons.prems(1) by (simp_all add: pl_append_entries kept_entry_def)
  have "append_kept (k # ks) (p, fs) = append_kept ks (fst ?a, snd ?a)"
    by (simp add: append_kept_def)
  with Cons.IH [of "fst ?a" "snd ?a"] Cons.prems a show ?case by simp
qed

text \<open>Dropping the oldest kept segment drops it from the listing of its day, and from no other.\<close>

lemma listing_prune:
  assumes "list_all seg_ok (old # rest)" "day_ok day" "pl_entries p = listing day (old # rest)"
  shows "pl_entries (fst (snd (drop_front_if (ks_filename old) (p, fs)))) = listing day rest"
proof (cases "ks_day old = day")
  case True
  then show ?thesis
    using assms(3) by (simp add: drop_front_if_entries listing_def kept_entry_def)
next
  case False
  then have e: "pl_entries p = listing day rest" using assms(3) by (simp add: listing_def)
  have "fst (hd (listing day rest)) \<noteq> ks_filename old" if ne: "listing day rest \<noteq> []"
  proof
    assume eq: "fst (hd (listing day rest)) = ks_filename old"
    have "hd (listing day rest) \<in> set (listing day rest)" using ne by simp
    then obtain k where k: "k \<in> set rest" "ks_day k = day" "ks_filename k = ks_filename old"
      using eq by (auto simp: listing_def kept_entry_def)
    have "file_of_day day (ks_filename old)" "file_of_day (ks_day old) (ks_filename old)"
      "day_ok (ks_day old)"
      using assms(1) k by (auto simp: list_all_iff seg_ok_def)
    then show False using file_of_day_unique assms(2) False by blast
  qed
  then show ?thesis by (auto simp: drop_front_if_entries e)
qed

section \<open>The invariant\<close>

definition session_ok :: "'x writer_state \<Rightarrow> bool" where
  "session_ok ws \<longleftrightarrow>
     has_writer (ws_mux ws) \<and> pl_active (ws_playlist ws) \<and> day_ok (ws_current_day ws) \<and>
     pl_entries (ws_playlist ws) = listing (ws_current_day ws) (ws_kept ws)"

definition path_ok :: "record_config \<Rightarrow> 'x writer_state \<Rightarrow> bool" where
  "path_ok cfg ws \<longleftrightarrow>
     (\<exists>n. ws_current_media_path ws = join_path (join_path (rc_directory cfg) (ws_current_day ws)) n \<and>
          file_of_day (ws_current_day ws) n)"

definition rec_inv :: "record_config \<Rightarrow> 'x writer_state \<Rightarrow> bool" where
  "rec_inv cfg ws \<longleftrightarrow>
     mux_ok (ws_mux ws) \<and> list_all seg_ok (ws_kept ws) \<and>
     (ws_session_ready ws \<longrightarrow> session_ok ws) \<and>
     (segment_open (ws_mux ws) \<longrightarrow> ws_session_ready ws \<and> path_ok cfg ws)"

lemmas rec_inv_defs = rec_inv_def session_ok_def path_ok_def

lemma rec_inv_updates [simp]:
  "rec_inv cfg (ws\<lparr>ws_fs := fs\<rparr>) = rec_inv cfg ws"
  "rec_inv cfg (ws\<lparr>ws_uploader := up\<rparr>) = rec_inv cfg ws"
  "rec_inv cfg (ws\<lparr>ws_policy := pol\<rparr>) = rec_inv cfg ws"
  "rec_inv cfg (ws\<lparr>ws_video_format := vf\<rparr>) = rec_inv cfg ws"
  "rec_inv cfg (ws\<lparr>ws_audio_format := af\<rparr>) = rec_inv cfg ws"
  "rec_inv cfg (ws\<lparr>ws_formats_ready := b\<rparr>) = rec_inv cfg ws"
  "rec_inv cfg (ws\<lparr>ws_await_keyframe := b\<rparr>) = rec_inv cfg ws"
  "rec_inv cfg (ws\<lparr>ws_audio_config_ready := b\<rparr>) = rec_inv cfg ws"
  "rec_inv cfg (ws\<lparr>ws_pending_keyframe := pk\<rparr>) = rec_inv cfg ws"
  "rec_inv cfg (ws\<lparr>ws_segment_start_pts_ms := t\<rparr>) = rec_inv cfg ws"
  "rec_inv cfg (ws\<lparr>ws_segment_last_pts_ms := t\<rparr>) = rec_inv cfg ws"
  "rec_inv cfg (ws\<lparr>ws_ticks := i\<rparr>) = rec_inv cfg ws"
  "rec_inv cfg (ws\<lparr>ws_trace := tr\<rparr>) = rec_inv cfg ws"
  by (simp_all add: rec_inv_defs)

lemma rec_inv_relative [simp]:
  "rec_inv cfg (upload_relative e path ws) = rec_inv cfg ws"
  "rec_inv cfg (delete_relative e path ws) = rec_inv cfg ws"
  by (simp_all add: upload_relative_def delete_relative_def Let_def)

lemma rec_inv_closed:
  "rec_inv cfg ws \<Longrightarrow> \<not> segment_open (ws_mux ws) \<Longrightarrow> rec_inv cfg (ws\<lparr>ws_current_media_path := p\<rparr>)"
  by (simp add: rec_inv_defs)

section \<open>Closing a segment\<close>

lemma prune_step_inv:
  assumes "rec_inv cfg ws"
  shows "rec_inv cfg (prune_step e ws)"
proof (cases "ws_kept ws")
  case Nil
  then show ?thesis using assms by (simp add: prune_step_def)
next
  case (Cons old rest)
  note f = outside_fields [OF prune_step_outside [OF Cons, of e]]
  have "pl_entries (fst (snd (drop_front_if (ks_filename old) (ws_playlist ws, ws_fs ws)))) =
      listing (ws_current_day ws) rest" if "ws_session_ready ws"
    using that assms listing_prune [of old rest "ws_current_day ws" "ws_playlist ws" "ws_fs ws"] Cons
    by (auto simp: rec_inv_defs)
  moreover have "pl_active (fst (snd (drop_front_if n (p, fs)))) = pl_active p" for n p fs
    by (simp add: pl_active_def drop_front_if_entries)
  ultimately show ?thesis
    using assms Cons by (auto simp: rec_inv_defs f)
qed

lemma prune_retained_inv: "rec_inv cfg ws \<Longrightarrow> rec_inv cfg (prune_retained e ws)"
  by (induction e ws rule: prune_retained.induct)
    (subst prune_retained.simps, simp add: prune_step_inv)

lemma prune_step_frame:
  "ws_mux (prune_step e ws) = ws_mux ws \<and> ws_session_ready (prune_step e ws) = ws_session_ready ws \<and>
   ws_current_day (prune_step e ws) = ws_current_day ws \<and> ws_trace (prune_step e ws) = ws_trace ws \<and>
   ws_policy (prune_step e ws) = ws_policy ws \<and>
   ws_pending_keyframe (prune_step e ws) = ws_pending_keyframe ws \<and>
   ws_await_keyframe (prune_step e ws) = ws_await_keyframe ws"
proof (cases "ws_kept ws")
  case Nil
  then show ?thesis by (simp add: prune_step_def)
next
  case (Cons old rest)
  show ?thesis using outside_fields [OF prune_step_outside [OF Cons, of e]] by simp
qed

lemma prune_retained_frame [frame_simps]:
  "ws_mux (prune_retained e ws) = ws_mux ws \<and>
   ws_session_ready (prune_retained e ws) = ws_session_ready ws \<and>
   ws_current_day (prune_retained e ws) = ws_current_day ws \<and>
   ws_trace (prune_retained e ws) = ws_trace ws \<and> ws_policy (prune_retained e ws) = ws_policy ws \<and>
   ws_pending_keyframe (prune_retained e ws) = ws_pending_keyframe ws \<and>
   ws_await_keyframe (prune_retained e ws) = ws_await_keyframe ws"
  by (induction e ws rule: prune_retained.induct)
    (subst (1 2 3 4 5 6 7) prune_retained.simps, simp add: prune_step_frame)

lemma relative_fields [simp]:
  "ws_mux (upload_relative e path ws) = ws_mux ws"
  "ws_session_ready (upload_relative e path ws) = ws_session_ready ws"
  "ws_current_day (upload_relative e path ws) = ws_current_day ws"
  "ws_playlist (upload_relative e path ws) = ws_playlist ws"
  "ws_kept (upload_relative e path ws) = ws_kept ws"
  "ws_trace (upload_relative e path ws) = ws_trace ws"
  "ws_policy (upload_relative e path ws) = ws_policy ws"
  "ws_fs (upload_relative e path ws) = ws_fs ws"
  "ws_pending_keyframe (upload_relative e path ws) = ws_pending_keyframe ws"
  "ws_await_keyframe (upload_relative e path ws) = ws_await_keyframe ws"
  by (simp_all add: upload_relative_def Let_def)

lemma record_closed_inv:
  assumes "mux_ok (ws_mux ws)" "\<not> segment_open (ws_mux ws)" "list_all seg_ok (ws_kept ws)"
    and "session_ok ws" "path_ok cfg ws"
  shows "rec_inv cfg (record_closed e ws)"
proof -
  obtain n where n: "ws_current_media_path ws = join_path (join_path (rc_directory cfg) (ws_current_day ws)) n"
    "file_of_day (ws_current_day ws) n"
    using assms(5) by (auto simp: path_ok_def)
  have d: "day_ok (ws_current_day ws)" "plain_name (ws_current_day ws)"
    using assms(4) by (auto simp: session_ok_def day_ok_def)
  have names: "filename_of (ws_current_media_path ws) = n" "n \<noteq> []"
    "filename_of (parent_of (ws_current_media_path ws)) = ws_current_day ws"
    using n d(2) file_of_day_nonempty by (auto simp: n(1) file_of_day_def intro!: day_of_join)
  let ?d = "closing_duration e ws"
  let ?ws2 = "remember_closed_segment (ws_current_media_path ws) ?d (on_playlist (pl_append n ?d) ws)"
  have "rec_inv cfg ?ws2"
    using assms names n(2) d
    by (auto simp: rec_inv_defs remember_closed_segment_def on_playlist_eq kept_of_def seg_ok_def
        pl_append_entries pl_active_def listing_def kept_entry_def)
  then show ?thesis
    unfolding record_closed_def Let_def names by (simp add: prune_retained_inv)
qed

lemma on_mux_close:
  "ws_mux (on_mux (close_segment k) ws) = fst (close_segment k (ws_mux ws, ws_fs ws))"
  "ws_kept (on_mux f ws) = ws_kept ws" "ws_session_ready (on_mux f ws) = ws_session_ready ws"
  "ws_playlist (on_mux f ws) = ws_playlist ws" "ws_current_day (on_mux f ws) = ws_current_day ws"
  "ws_current_media_path (on_mux f ws) = ws_current_media_path ws"
  "ws_trace (on_mux f ws) = ws_trace ws" "ws_policy (on_mux f ws) = ws_policy ws"
  "ws_pending_keyframe (on_mux f ws) = ws_pending_keyframe ws"
  "ws_await_keyframe (on_mux f ws) = ws_await_keyframe ws"
  by (simp_all add: on_mux_eq)

lemma close_current_segment_closed:
  "\<not> segment_open (ws_mux (close_current_segment e b ws)) \<and>
   has_writer (ws_mux (close_current_segment e b ws)) = has_writer (ws_mux ws) \<and>
   ws_session_ready (close_current_segment e b ws) = ws_session_ready ws \<and>
   ws_current_day (close_current_segment e b ws) = ws_current_day ws \<and>
   ws_policy (close_current_segment e b ws) = ws_policy ws \<and>
   ws_pending_keyframe (close_current_segment e b ws) = ws_pending_keyframe ws \<and>
   ws_await_keyframe (close_current_segment e b ws) = ws_await_keyframe ws"
  by (simp add: close_current_segment_def record_closed_def remember_closed_segment_def Let_def
      on_playlist_eq on_mux_close frame_simps)

lemma close_current_segment_inv:
  assumes "rec_inv cfg ws"
  shows "rec_inv cfg (close_current_segment e b ws)"
proof -
  have finish: "rec_inv cfg (on_playlist pl_finish v)" if "rec_inv cfg v" for v :: "'a writer_state"
    using that by (auto simp: rec_inv_defs on_playlist_eq pl_active_def)
  let ?v = "(on_mux (close_segment (re_kit e)) ws)\<lparr>ws_trace := ws_trace ws @ [Seg_Close]\<rparr>"
  let ?w = "if segment_open (ws_mux ws) then if ws_current_media_path ws \<noteq> [] then record_closed e ?v else ?v
            else ws"
  have "rec_inv cfg ?w \<and> \<not> segment_open (ws_mux ?w)"
  proof (cases "segment_open (ws_mux ws)")
    case True
    have "session_ok ?v" "path_ok cfg ?v" "mux_ok (ws_mux ?v)" "\<not> segment_open (ws_mux ?v)"
      "list_all seg_ok (ws_kept ?v)"
      using assms True by (auto simp: rec_inv_defs on_mux_close)
    moreover have "ws_current_media_path ws \<noteq> []"
      using assms True file_of_day_nonempty join_path_nonempty
      unfolding rec_inv_def path_ok_def by metis
    ultimately show ?thesis using True record_closed_inv [of ?v cfg e]
      by (simp add: record_closed_def remember_closed_segment_def Let_def on_playlist_eq frame_simps)
  qed (use assms in simp)
  moreover define x where
    "x = ?w\<lparr>ws_current_media_path := [], ws_segment_start_pts_ms := - 1, ws_segment_last_pts_ms := - 1\<rparr>"
  ultimately have x: "rec_inv cfg x" by (simp add: rec_inv_closed)
  have "close_current_segment e b ws =
      (if b \<and> pl_active (ws_playlist x)
       then upload_relative e (pl_path (ws_playlist (on_playlist pl_finish x))) (on_playlist pl_finish x)
       else x)"
    by (auto simp: close_current_segment_def Let_def on_mux_close x_def)
  with x finish [OF x] show ?thesis by simp
qed

end
