(* ===== verification/Recorder_Run.thy ===== *)
theory Recorder_Run
  imports Recorder_Playlist
begin

text \<open>
  The recorder while it runs.  Every operation of the writer thread keeps the two invariants: the
  playlist of an open session lists the kept segments of the day, and the calls of the muxer form
  whole segments that start at key frames.  The step relation of the recorder interleaves its
  owner, the source, the writer, the uploader and other users of the disk; the invariants hold in each
  state it reaches, and \<open>stop\<close> drains the queue.
\<close>

section \<open>Opening sessions and segments\<close>

lemma make_day_paths_cases:
  obtains (fail) fs where "make_day_paths e ws = (None, ws\<lparr>ws_fs := fs, ws_ticks := Suc (ws_ticks ws)\<rparr>)"
  | (ok) day t fs where "make_day_paths e ws =
       (Some (join_path (rc_directory (re_config e)) day, day @ ''_'' @ t),
        ws\<lparr>ws_fs := fs, ws_ticks := Suc (ws_ticks ws)\<rparr>)"
     "day_ok day" "CHR ''/'' \<notin> set t" "filename_of (join_path (rc_directory (re_config e)) day) = day"
proof -
  let ?t = "re_clock e (ws_ticks ws)"
  let ?m = "mkdir_p (join_path (rc_directory (re_config e)) (day_name ?t)) (ws_fs ws)"
  have "CHR ''/'' \<notin> set (day_name ?t)" using day_name_ok [of ?t] by (simp add: day_ok_def plain_name_def)
  with ok [of "day_name ?t" "time_name ?t" "snd ?m"] fail [of "snd ?m"] day_name_ok [of ?t] time_name_plain [of ?t]
  show ?thesis by (cases "fst ?m") (auto simp: make_day_paths_def Let_def case_prod_beta)
qed

lemma capture_frame:
  "ws_mux (snd (capture_formats_from_keyframe e kf ws)) = ws_mux ws \<and>
   ws_trace (snd (capture_formats_from_keyframe e kf ws)) = ws_trace ws \<and>
   ws_policy (snd (capture_formats_from_keyframe e kf ws)) = ws_policy ws \<and>
   ws_session_ready (snd (capture_formats_from_keyframe e kf ws)) = ws_session_ready ws"
  by (simp add: capture_formats_from_keyframe_def capture_audio_format_def set_extradata_def Let_def
      case_prod_beta split: option.split)

lemma capture_inv:
  "rec_inv cfg ws \<Longrightarrow> rec_inv cfg (snd (capture_formats_from_keyframe e kf ws))"
  by (simp add: capture_formats_from_keyframe_def capture_audio_format_def set_extradata_def Let_def
      case_prod_beta split: option.split)

lemma begin_mux_session_cases:
  obtains m fs where "begin_mux_session e path ws = (False, ws\<lparr>ws_mux := m, ws_fs := fs\<rparr>)" "m = None"
  | m fs where "begin_mux_session e path ws = (True, ws\<lparr>ws_mux := m, ws_fs := fs\<rparr>)"
      "has_writer m" "open_path m = None"
proof -
  obtain ok m fs where s: "start_session (re_kit e) (ws_video_format ws) (ws_audio_format ws) path
      (ws_mux ws, ws_fs ws) = (ok, m, fs)"
    by (metis prod_cases3)
  with start_session_state [OF s] that show ?thesis
    by (cases ok) (simp_all add: begin_mux_session_def)
qed

lemma session_started:
  assumes "rec_inv cfg ws" "has_writer (ws_mux ws)" "\<not> segment_open (ws_mux ws)" "day_ok day"
    and "p = fst (snd (pl_begin path target fs))" "path \<noteq> []"
    and "v = (on_playlist (append_kept (filter (\<lambda>k. ks_day k = day) (ws_kept ws)))
               (ws\<lparr>ws_playlist := p, ws_fs := fs', ws_current_day := day\<rparr>))\<lparr>ws_session_ready := True\<rparr>"
  shows "rec_inv cfg v \<and> ws_current_day v = day \<and> ws_session_ready v \<and> \<not> segment_open (ws_mux v) \<and>
    ws_trace v = ws_trace ws \<and> ws_policy v = ws_policy ws"
proof -
  let ?ks = "filter (\<lambda>k. ks_day k = day) (ws_kept ws)"
  have "list_all seg_ok ?ks" using assms(1) by (auto simp: rec_inv_def list_all_iff)
  moreover have "pl_path p = path" "pl_entries p = []" using assms(5) by simp_all
  ultimately have "pl_entries (fst (append_kept ?ks (p, fs'))) = listing day (ws_kept ws)"
    "pl_path (fst (append_kept ?ks (p, fs'))) = path"
    using append_kept_entries [of p ?ks fs'] assms(6) by (simp_all add: listing_def)
  then show ?thesis
    using assms by (auto simp: rec_inv_defs on_playlist_eq pl_active_def)
qed

lemma end_session_inv:
  "rec_inv cfg ws \<Longrightarrow> \<not> ws_session_ready ws' \<Longrightarrow> ws_mux ws' = None \<Longrightarrow> ws_kept ws' = ws_kept ws \<Longrightarrow>
   rec_inv cfg ws'"
  by (simp add: rec_inv_defs mux_ok_def segment_open_def)


lemma closed_of_inv: "rec_inv cfg ws \<Longrightarrow> \<not> ws_session_ready ws \<Longrightarrow> \<not> segment_open (ws_mux ws)"
  by (auto simp: rec_inv_def)

lemma start_day_session_inv:
  assumes "rec_inv cfg ws" "\<not> ws_session_ready ws"
  shows "rec_inv cfg (snd (start_day_session e ws)) \<and>
    (fst (start_day_session e ws) \<longrightarrow> ws_session_ready (snd (start_day_session e ws))) \<and>
    ws_trace (snd (start_day_session e ws)) = ws_trace ws \<and>
    ws_policy (snd (start_day_session e ws)) = ws_policy ws \<and>
    \<not> segment_open (ws_mux (snd (start_day_session e ws)))"
proof (cases rule: make_day_paths_cases [of e ws])
  case (fail fs)
  then show ?thesis using assms closed_of_inv [OF assms] by (simp add: start_day_session_def)
next
  case (ok day t fs)
  let ?dir = "join_path (rc_directory (re_config e)) day"
  let ?w = "ws\<lparr>ws_fs := fs, ws_ticks := Suc (ws_ticks ws)\<rparr>"
  show ?thesis
  proof (cases rule: begin_mux_session_cases [of e "join_path ?dir ''init.mp4''" ?w])
    case (1 m fs2)
    then show ?thesis using assms ok
      by (simp add: start_day_session_def end_session_inv [OF assms(1)] segment_open_def)
  next
    case (2 m fs2)
    let ?x = "?w\<lparr>ws_mux := m, ws_fs := fs2\<rparr>"
    let ?b = "pl_begin (join_path ?dir ''index.m3u8'') (rc_segment_sec (re_config e)) fs2"
    have x: "rec_inv cfg ?x" "\<not> segment_open (ws_mux ?x)"
      using assms 2 by (auto simp: rec_inv_defs mux_ok_def segment_open_alt)
    show ?thesis
    proof (cases "fst ?b")
      case False
      then show ?thesis using assms 2 ok
        by (simp add: start_day_session_def case_prod_beta end_session_inv [OF assms(1)] on_mux_eq segment_open_def)
    next
      case True
      let ?y = "(on_playlist (append_kept (filter (\<lambda>k. ks_day k = day) (ws_kept ?x)))
           (?x\<lparr>ws_playlist := fst (snd ?b), ws_fs := snd (snd ?b), ws_current_day := day\<rparr>))\<lparr>ws_session_ready := True\<rparr>"
      have y: "rec_inv cfg ?y \<and> ws_current_day ?y = day \<and> ws_session_ready ?y \<and>
          \<not> segment_open (ws_mux ?y) \<and> ws_trace ?y = ws_trace ?x \<and> ws_policy ?y = ws_policy ?x"
        by (rule session_started [OF x(1) _ x(2) ok(2) refl _ refl]) (use 2 in auto)
      have "start_day_session e ws = (True, upload_relative e (pl_path (ws_playlist ?y))
          (upload_relative e (join_path ?dir ''init.mp4'') ?y))"
        using ok(1,4) 2 True by (simp add: start_day_session_def case_prod_beta Let_def)
      with y show ?thesis by simp
    qed
  qed
qed

lemma ensure_session_inv:
  assumes "rec_inv cfg ws"
  shows "rec_inv cfg (snd (ensure_session e kf ws)) \<and>
    (fst (ensure_session e kf ws) \<longrightarrow> ws_session_ready (snd (ensure_session e kf ws))) \<and>
    ws_trace (snd (ensure_session e kf ws)) = ws_trace ws \<and>
    ws_policy (snd (ensure_session e kf ws)) = ws_policy ws \<and>
    (segment_open (ws_mux (snd (ensure_session e kf ws))) \<longrightarrow> segment_open (ws_mux ws))"
proof (cases "ws_session_ready ws")
  case True
  then show ?thesis using assms by (simp add: ensure_session_def)
next
  case False
  let ?cap = "if ws_formats_ready ws then (True, ws) else capture_formats_from_keyframe e (Some kf) ws"
  define v where "v = snd ?cap"
  have v: "rec_inv cfg v" "\<not> ws_session_ready v" "ws_trace v = ws_trace ws" "ws_policy v = ws_policy ws"
    using assms capture_inv [OF assms(1), of e "Some kf"] capture_frame [of e "Some kf" ws] False
    by (auto simp: v_def)
  have "ensure_session e kf ws \<in> {(False, v), start_day_session e v}"
    using False by (simp add: ensure_session_def v_def case_prod_beta Let_def)
  with v closed_of_inv [OF v(1,2)] start_day_session_inv [OF v(1,2), of e] show ?thesis by auto
qed

lemma switch_day_inv:
  assumes "rec_inv cfg ws" "day_ok day"
  shows "rec_inv cfg (snd (switch_day e day dir ws)) \<and>
    (fst (switch_day e day dir ws) \<longrightarrow> ws_session_ready (snd (switch_day e day dir ws)) \<and>
       ws_current_day (snd (switch_day e day dir ws)) = day) \<and>
    ws_trace (snd (switch_day e day dir ws)) = ws_trace (close_current_segment e True ws) \<and>
    \<not> segment_open (ws_mux (snd (switch_day e day dir ws)))"
proof -
  let ?c = "close_current_segment e True ws"
  have c: "rec_inv cfg ?c" by (rule close_current_segment_inv [OF assms(1)])
  show ?thesis
  proof (cases rule: begin_mux_session_cases [of e "join_path dir ''init.mp4''" ?c])
    case (1 m fs)
    then show ?thesis
      by (simp add: switch_day_def end_session_inv [OF c] segment_open_def)
  next
    case (2 m fs)
    let ?x = "?c\<lparr>ws_mux := m, ws_fs := fs\<rparr>"
    let ?b = "pl_begin (join_path dir ''index.m3u8'') (rc_segment_sec (re_config e)) fs"
    have x: "rec_inv cfg ?x" "\<not> segment_open (ws_mux ?x)"
      using c 2 by (auto simp: rec_inv_defs mux_ok_def segment_open_alt)
    let ?y = "(on_playlist (append_kept (filter (\<lambda>k. ks_day k = day) (ws_kept ?x)))
         (?x\<lparr>ws_playlist := fst (snd ?b), ws_fs := snd (snd ?b), ws_current_day := day\<rparr>))\<lparr>ws_session_ready := True\<rparr>"
    have y: "rec_inv cfg ?y \<and> ws_current_day ?y = day \<and> ws_session_ready ?y \<and>
        \<not> segment_open (ws_mux ?y) \<and> ws_trace ?y = ws_trace ?x \<and> ws_policy ?y = ws_policy ?x"
      by (rule session_started [OF x(1) _ x(2) assms(2) refl _ refl]) (use 2 in auto)
    have "switch_day e day dir ws = (True, upload_relative e (pl_path (ws_playlist ?y))
        (upload_relative e (join_path dir ''init.mp4'') ?y))"
      using 2 by (simp add: switch_day_def case_prod_beta Let_def)
    with y show ?thesis by simp
  qed
qed

lemma begin_segment_inv:
  assumes "rec_inv cfg ws" "ws_session_ready ws" "path = join_path (join_path (rc_directory cfg) (ws_current_day ws)) n"
    "file_of_day (ws_current_day ws) n"
  shows "rec_inv cfg (snd (begin_segment e kf path ws)) \<and>
    (fst (begin_segment e kf path ws) \<longrightarrow> segment_open (ws_mux (snd (begin_segment e kf path ws))) \<and>
       ws_trace (snd (begin_segment e kf path ws)) = ws_trace ws @ [Seg_Open path (mf_pts_ms kf)]) \<and>
    (\<not> fst (begin_segment e kf path ws) \<longrightarrow> \<not> segment_open (ws_mux (snd (begin_segment e kf path ws))) \<and>
       ws_trace (snd (begin_segment e kf path ws)) = ws_trace ws)"
proof -
  obtain ok m fs where o: "open_segment (re_kit e) path (ws_mux ws, ws_fs ws) = (ok, m, fs)"
    by (metis prod_cases3)
  have path: "path \<noteq> []" using assms(3,4) file_of_day_nonempty by simp
  have mux: "mux_ok (ws_mux ws)" "has_writer (ws_mux ws)"
    using assms(1,2) by (auto simp: rec_inv_defs)
  note st = open_segment_state [OF o mux(1)]
  have "has_writer m" using st(1,2) mux(2) by (auto simp: mux_ok_def has_writer_def)
  show ?thesis
  proof (cases ok)
    case True
    define v where "v = ws\<lparr>ws_mux := m, ws_fs := fs, ws_current_media_path := path,
        ws_segment_start_pts_ms := mf_pts_ms kf, ws_segment_last_pts_ms := mf_pts_ms kf,
        ws_policy := on_segment_started (mf_pts_ms kf) (ws_policy ws),
        ws_trace := ws_trace ws @ [Seg_Open path (mf_pts_ms kf)]\<rparr>"
    have "begin_segment e kf path ws = (True, v)"
      using True by (simp add: begin_segment_def o v_def Let_def)
    moreover have "rec_inv cfg v \<and> segment_open (ws_mux v)"
      using st(1) st(3) [OF True] assms by (auto simp: v_def rec_inv_defs segment_open_alt)
    ultimately show ?thesis by (simp add: v_def)
  next
    case False
    have "rec_inv cfg (ws\<lparr>ws_mux := m, ws_fs := fs\<rparr>) \<and> \<not> segment_open m"
      using st(1) st(4) [OF False path] assms \<open>has_writer m\<close>
      by (auto simp: rec_inv_defs segment_open_alt)
    then show ?thesis using False by (simp add: begin_segment_def o)
  qed
qed


section \<open>The life of a segment\<close>

datatype seg_state = Seg_Closed | Seg_Opened int | Seg_Recording

text \<open>
  A segment is opened, gets first the key frame it was opened for, then any frames, and is closed
  before the next one is opened.
\<close>

fun seg_next :: "seg_event \<Rightarrow> seg_state \<Rightarrow> seg_state option" where
  "seg_next (Seg_Open path t) Seg_Closed = Some (Seg_Opened t)"
| "seg_next (Seg_Frame f ok) (Seg_Opened t) =
     (if mf_type f = Video \<and> keyframe f \<and> mf_pts_ms f = t then Some Seg_Recording else None)"
| "seg_next (Seg_Frame f ok) Seg_Recording = Some Seg_Recording"
| "seg_next Seg_Close Seg_Recording = Some Seg_Closed"
| "seg_next _ _ = None"

definition trace_inv :: "'x writer_state \<Rightarrow> bool" where
  "trace_inv ws \<longleftrightarrow>
     run_option seg_next (ws_trace ws) Seg_Closed =
       Some (if segment_open (ws_mux ws) then Seg_Recording else Seg_Closed) \<and>
     (ws_await_keyframe ws \<longrightarrow> \<not> segment_open (ws_mux ws)) \<and>
     (\<forall>k. ws_pending_keyframe ws = Some k \<longrightarrow> mf_type k = Video \<and> keyframe k)"

lemma run_option_append:
  "run_option step (xs @ ys) s = (case run_option step xs s of None \<Rightarrow> None | Some t \<Rightarrow> run_option step ys t)"
  by (induction xs arbitrary: s) (auto split: option.split)

lemma close_current_segment_trace:
  "ws_trace (close_current_segment e b ws) = ws_trace ws @ (if segment_open (ws_mux ws) then [Seg_Close] else [])"
  by (simp add: close_current_segment_def record_closed_def remember_closed_segment_def Let_def
      on_playlist_eq on_mux_close frame_simps)

lemma open_next_segment_inv:
  assumes "rec_inv cfg ws" "re_config e = cfg" "\<not> segment_open (ws_mux ws)"
  shows "rec_inv cfg (snd (open_next_segment e kf ws)) \<and>
    (if fst (open_next_segment e kf ws)
     then segment_open (ws_mux (snd (open_next_segment e kf ws))) \<and>
       (\<exists>path. ws_trace (snd (open_next_segment e kf ws)) = ws_trace ws @ [Seg_Open path (mf_pts_ms kf)])
     else \<not> segment_open (ws_mux (snd (open_next_segment e kf ws))) \<and>
       ws_trace (snd (open_next_segment e kf ws)) = ws_trace ws)"
proof (cases rule: make_day_paths_cases [of e ws])
  case (fail fs)
  then show ?thesis using assms by (simp add: open_next_segment_def)
next
  case (ok day t fs)
  let ?w = "ws\<lparr>ws_fs := fs, ws_ticks := Suc (ws_ticks ws)\<rparr>"
  let ?closed = "(on_mux (end_session (re_kit e)) (close_current_segment e True ?w))
                \<lparr>ws_session_ready := False, ws_current_day := []\<rparr>"
  define v where "v = (if ws_session_ready ?w \<and> day \<noteq> ws_current_day ?w then ?closed else ?w)"
  have "rec_inv cfg (close_current_segment e True ?w)"
    by (rule close_current_segment_inv) (use assms(1) in simp)
  then have "rec_inv cfg ?closed"
    by (rule end_session_inv) (simp_all add: on_mux_eq)
  then have v: "rec_inv cfg v" "ws_trace v = ws_trace ws" "\<not> segment_open (ws_mux v)"
    using assms by (auto simp: v_def on_mux_eq close_current_segment_trace segment_open_def)
  define u where "u = snd (ensure_session e kf v)"
  have u: "rec_inv cfg u" "fst (ensure_session e kf v) \<longrightarrow> ws_session_ready u"
    "ws_trace u = ws_trace ws" "\<not> segment_open (ws_mux u)"
    using ensure_session_inv [OF v(1), of e kf] v by (auto simp: u_def)
  let ?dir = "join_path (rc_directory (re_config e)) day"
  let ?s = "if day \<noteq> ws_current_day u then switch_day e day ?dir u else (True, u)"
  have o: "open_next_segment e kf ws =
      (if \<not> fst (ensure_session e kf v) then (False, u)
       else if \<not> fst ?s then (False, snd ?s)
       else begin_segment e kf (next_media_path (ws_fs (snd ?s)) ?dir (day @ ''_'' @ t)) (snd ?s))"
    unfolding open_next_segment_def ok(1) prod.case option.case Let_def ok(4) v_def [symmetric]
    unfolding u_def case_prod_beta ..
  show ?thesis
  proof (cases "fst (ensure_session e kf v)")
    case False
    with o u show ?thesis by simp
  next
    case ready: True
    have s: "rec_inv cfg (snd ?s)" "ws_trace (snd ?s) = ws_trace ws" "\<not> segment_open (ws_mux (snd ?s))"
      "fst ?s \<longrightarrow> ws_session_ready (snd ?s) \<and> ws_current_day (snd ?s) = day"
      using u ready switch_day_inv [OF u(1) ok(2), of e ?dir] by (auto simp: close_current_segment_trace)
    obtain n where n: "next_media_path (ws_fs (snd ?s)) ?dir (day @ ''_'' @ t) = join_path ?dir n" "file_of_day day n"
      using next_media_path_name [OF ok(2) refl ok(3)] by blast
    show ?thesis
    proof (cases "fst ?s")
      case False
      with o s ready show ?thesis by simp
    next
      case True
      with s(4) have d: "ws_session_ready (snd ?s)" "ws_current_day (snd ?s) = day" by auto
      have "open_next_segment e kf ws = begin_segment e kf (join_path ?dir n) (snd ?s)"
        using o ready True n(1) by simp
      with begin_segment_inv [OF s(1) d(1), of "join_path ?dir n" n e kf] s(2) d(2) n(2) assms(2)
      show ?thesis by auto
    qed
  qed
qed

lemma mux_write_inv:
  "rec_inv cfg (snd (mux_write e f ws)) = rec_inv cfg ws"
  "segment_open (ws_mux (snd (mux_write e f ws))) = segment_open (ws_mux ws)"
  "ws_await_keyframe (snd (mux_write e f ws)) = ws_await_keyframe ws"
  "ws_trace (snd (mux_write e f ws)) = ws_trace ws @ [Seg_Frame f (fst (mux_write e f ws))]"
  by (simp_all add: mux_write_def case_prod_beta rec_inv_defs)


text \<open>The flags that decide about the next frame are left alone.\<close>

definition waits :: "'x writer_state \<Rightarrow> media_frame option \<times> bool" where
  "waits ws = (ws_pending_keyframe ws, ws_await_keyframe ws)"

lemma waits_updates [simp]:
  "waits (ws\<lparr>ws_fs := fs\<rparr>) = waits ws" "waits (ws\<lparr>ws_mux := m\<rparr>) = waits ws"
  "waits (ws\<lparr>ws_playlist := p\<rparr>) = waits ws" "waits (ws\<lparr>ws_session_ready := b\<rparr>) = waits ws"
  "waits (ws\<lparr>ws_current_day := d\<rparr>) = waits ws" "waits (ws\<lparr>ws_ticks := i\<rparr>) = waits ws"
  "waits (ws\<lparr>ws_current_media_path := q\<rparr>) = waits ws" "waits (ws\<lparr>ws_policy := pol\<rparr>) = waits ws"
  "waits (ws\<lparr>ws_segment_start_pts_ms := t\<rparr>) = waits ws" "waits (ws\<lparr>ws_trace := tr\<rparr>) = waits ws"
  "waits (ws\<lparr>ws_segment_last_pts_ms := t\<rparr>) = waits ws" "waits (ws\<lparr>ws_video_format := vf\<rparr>) = waits ws"
  "waits (ws\<lparr>ws_audio_format := af\<rparr>) = waits ws" "waits (ws\<lparr>ws_formats_ready := b\<rparr>) = waits ws"
  "waits (ws\<lparr>ws_audio_config_ready := b\<rparr>) = waits ws"
  "waits (upload_relative e path ws) = waits ws" "waits (on_playlist f ws) = waits ws"
  "waits (on_mux g ws) = waits ws" "waits (snd (mux_write e f2 ws)) = waits ws"
  "waits (close_current_segment e b ws) = waits ws"
  using close_current_segment_closed [of e b ws]
  by (simp_all add: waits_def on_playlist_eq on_mux_eq mux_write_def case_prod_beta)

lemma waits_parts [simp]:
  "waits (snd (begin_mux_session e path ws)) = waits ws"
  "waits (snd (make_day_paths e ws)) = waits ws"
  "waits (snd (begin_segment e kf path ws)) = waits ws"
  by (simp_all add: begin_mux_session_def make_day_paths_def begin_segment_def Let_def case_prod_beta)

lemma waits_capture [simp]: "waits (snd (capture_formats_from_keyframe e kf ws)) = waits ws"
  by (simp add: capture_formats_from_keyframe_def capture_audio_format_def set_extradata_def Let_def
      case_prod_beta split: option.split)

lemma waits_switch_day [simp]: "waits (snd (switch_day e day dir ws)) = waits ws"
  by (simp add: switch_day_def Let_def case_prod_beta)

lemma waits_start_day_session [simp]: "waits (snd (start_day_session e ws)) = waits ws"
proof (cases rule: make_day_paths_cases [of e ws])
  case (fail fs)
  then show ?thesis by (simp add: start_day_session_def)
next
  case (ok day t fs)
  then show ?thesis by (simp add: start_day_session_def Let_def case_prod_beta)
qed

lemma waits_ensure_session [simp]: "waits (snd (ensure_session e kf ws)) = waits ws"
  by (simp add: ensure_session_def Let_def case_prod_beta)

lemma waits_open_next_segment [simp]: "waits (snd (open_next_segment e kf ws)) = waits ws"
proof (cases rule: make_day_paths_cases [of e ws])
  case (fail fs)
  then show ?thesis by (simp add: open_next_segment_def)
next
  case (ok day t fs)
  then show ?thesis by (simp add: open_next_segment_def Let_def case_prod_beta)
qed

definition good :: "record_config \<Rightarrow> 'x writer_state \<Rightarrow> bool" where
  "good cfg ws \<longleftrightarrow> rec_inv cfg ws \<and> trace_inv ws"

text \<open>Opening a segment for a key frame and handing the frame over.\<close>

lemma open_and_write_good:
  assumes "good cfg ws" "re_config e = cfg" "\<not> segment_open (ws_mux ws)" "mf_type kf = Video" "keyframe kf"
    and "open_next_segment e kf ws = (True, v)"
    and "ws_mux w = ws_mux v" "ws_trace w = ws_trace v" "rec_inv cfg w" "\<not> ws_await_keyframe w"
    and "ws_pending_keyframe w = ws_pending_keyframe v \<or> ws_pending_keyframe w = None"
  shows "good cfg (snd (mux_write e kf w))"
proof -
  have v: "segment_open (ws_mux v)" "\<exists>path. ws_trace v = ws_trace ws @ [Seg_Open path (mf_pts_ms kf)]"
    "ws_pending_keyframe v = ws_pending_keyframe ws"
    using open_next_segment_inv [OF _ assms(2,3), of kf] waits_open_next_segment [of e kf ws] assms(1,6)
    by (auto simp: good_def waits_def)
  moreover have "ws_pending_keyframe (snd (mux_write e kf w)) = ws_pending_keyframe w"
    using waits_updates(19) [of e kf w] by (simp add: waits_def)
  ultimately show ?thesis
    using assms by (auto simp: good_def trace_inv_def mux_write_inv run_option_append)
qed

lemma open_failed_good:
  assumes "good cfg ws" "re_config e = cfg" "\<not> segment_open (ws_mux ws)" "open_next_segment e kf ws = (False, v)"
  shows "good cfg v \<and> \<not> segment_open (ws_mux v)"
  using open_next_segment_inv [OF _ assms(2,3), of kf] waits_open_next_segment [of e kf ws] assms
  by (auto simp: good_def trace_inv_def waits_def)

lemma close_good:
  assumes "good cfg ws"
  shows "good cfg (close_current_segment e b ws)"
  using assms close_current_segment_inv [of cfg ws e b] close_current_segment_closed [of e b ws]
  by (simp add: good_def trace_inv_def close_current_segment_trace run_option_append)

lemma good_updates [simp]:
  "good cfg (ws\<lparr>ws_segment_last_pts_ms := t\<rparr>) = good cfg ws"
  "good cfg (ws\<lparr>ws_audio_format := af\<rparr>) = good cfg ws"
  "good cfg (ws\<lparr>ws_audio_config_ready := b\<rparr>) = good cfg ws"
  "good cfg (ws\<lparr>ws_fs := fs\<rparr>) = good cfg ws"
  "good cfg (ws\<lparr>ws_uploader := up\<rparr>) = good cfg ws"
  by (simp_all add: good_def trace_inv_def)

lemma rotate_good:
  assumes "good cfg ws" "re_config e = cfg" "mf_type kf = Video" "keyframe kf"
  shows "good cfg (snd (rotate_to_new_segment e kf ws))"
proof -
  let ?c = "(close_current_segment e False ws)\<lparr>ws_await_keyframe := False\<rparr>"
  have c: "good cfg ?c" "\<not> segment_open (ws_mux ?c)"
    using close_good [OF assms(1), of e False] close_current_segment_closed [of e False ws]
    by (auto simp: good_def trace_inv_def)
  obtain ok v where o: "open_next_segment e kf ?c = (ok, v)" by fastforce
  show ?thesis
  proof (cases ok)
    case True
    then have "waits v = waits ?c" using waits_open_next_segment [of e kf ?c] o by simp
    then have "good cfg (snd (mux_write e kf v))"
      using open_next_segment_inv [OF _ assms(2) c(2), of kf] c o True
      by (intro open_and_write_good [OF c(1) assms(2) c(2) assms(3,4)]) (auto simp: good_def waits_def)
    then show ?thesis using o True
      by (simp add: rotate_to_new_segment_def case_prod_beta)
  next
    case False
    then show ?thesis
      using open_failed_good [OF c(1) assms(2) c(2)] o
      by (simp add: rotate_to_new_segment_def good_def trace_inv_def)
  qed
qed


lemma mux_write_good:
  assumes "good cfg ws" "segment_open (ws_mux ws)"
  shows "good cfg (snd (mux_write e f ws))"
proof -
  have "ws_pending_keyframe (snd (mux_write e f ws)) = ws_pending_keyframe ws"
    using waits_updates(19) [of e f ws] by (simp add: waits_def)
  with assms show ?thesis
    by (simp add: good_def trace_inv_def mux_write_inv run_option_append)
qed

lemma take_pending_good:
  assumes "good cfg ws" "re_config e = cfg"
  shows "good cfg (take_pending_keyframe e ws)"
proof (cases "ws_pending_keyframe ws = None \<or> segment_open (ws_mux ws)")
  case True
  then show ?thesis using assms by (auto simp: take_pending_keyframe_def split: option.split)
next
  case False
  then obtain key where key: "ws_pending_keyframe ws = Some key" by auto
  let ?w = "ws\<lparr>ws_pending_keyframe := None\<rparr>"
  have w: "good cfg ?w" "\<not> segment_open (ws_mux ?w)" "mf_type key = Video" "keyframe key"
    using assms(1) key False by (auto simp: good_def trace_inv_def)
  obtain ok v where o: "open_next_segment e key ?w = (ok, v)" by fastforce
  then have "rec_inv cfg v"
    using open_next_segment_inv [OF _ assms(2) w(2), of key] w(1) by (simp add: good_def)
  with open_and_write_good [OF w(1) assms(2) w(2-4), of v "v\<lparr>ws_await_keyframe := False\<rparr>"]
    open_failed_good [OF w(1) assms(2) w(2), of key v] o False key
  show ?thesis by (cases ok) (simp_all add: take_pending_keyframe_def)
qed

lemma learn_aac_config_good:
  assumes "good cfg ws" "re_config e = cfg"
  shows "good cfg (learn_aac_config e f ws)"
  using assms by (auto simp: learn_aac_config_def Let_def case_prod_beta intro!: take_pending_good split: option.split)

lemma process_audio_good:
  assumes "good cfg ws" "re_config e = cfg"
  shows "good cfg (process_audio e f ws)"
  using learn_aac_config_good [OF assms, of f] assms
  by (auto simp: process_audio_def Let_def intro: mux_write_good split: option.split)

lemma process_first_keyframe_good:
  assumes "good cfg ws" "re_config e = cfg" "ws_await_keyframe ws" "mf_type f = Video" "keyframe f"
  shows "good cfg (process_first_keyframe e f ws)"
proof -
  let ?cap = "if ws_formats_ready ws then (True, ws) else capture_formats_from_keyframe e (Some f) ws"
  define v where "v = snd ?cap"
  have v: "good cfg v" "\<not> segment_open (ws_mux v)"
    using assms capture_inv [of cfg ws e "Some f"] capture_frame [of e "Some f" ws]
      waits_capture [of e "Some f" ws]
    by (auto simp: v_def good_def trace_inv_def waits_def)
  obtain ok w where o: "open_next_segment e f v = (ok, w)" by fastforce
  then have w: "rec_inv cfg w"
    using open_next_segment_inv [OF _ assms(2) v(2), of f] v(1) by (simp add: good_def)
  have p: "process_first_keyframe e f ws =
      (if \<not> fst ?cap then v
       else if \<not> ws_audio_config_ready v then v\<lparr>ws_pending_keyframe := Some f\<rparr>
       else if \<not> ok then w
       else (snd (mux_write e f (w\<lparr>ws_pending_keyframe := None, ws_await_keyframe := False\<rparr>)))
              \<lparr>ws_segment_last_pts_ms := mf_pts_ms f\<rparr>)"
    by (simp add: process_first_keyframe_def v_def [symmetric] case_prod_beta o)
  have "good cfg (v\<lparr>ws_pending_keyframe := Some f\<rparr>)"
    using v assms(4,5) by (simp add: good_def trace_inv_def)
  moreover have "\<not> ok \<Longrightarrow> good cfg w"
    using open_failed_good [OF v(1) assms(2) v(2), of f w] o by simp
  moreover have "ok \<Longrightarrow> good cfg (snd (mux_write e f (w\<lparr>ws_pending_keyframe := None, ws_await_keyframe := False\<rparr>)))"
    using open_and_write_good [OF v(1) assms(2) v(2) assms(4,5), of w] o w by simp
  ultimately show ?thesis using v unfolding p by simp
qed

lemma process_frame_good:
  assumes "good cfg ws" "re_config e = cfg"
  shows "good cfg (process_frame e frame ws)"
proof (cases frame)
  case (Some f)
  have "good cfg (ws\<lparr>ws_await_keyframe := True\<rparr>)" if "\<not> segment_open (ws_mux ws)"
    using assms(1) that by (simp add: good_def trace_inv_def)
  then have "good cfg (process_video e f ws)" if "mf_type f = Video"
    using assms that process_first_keyframe_good [OF assms _ that] rotate_good [OF assms that]
    by (auto simp: process_video_def mux_write_good)
  then show ?thesis
    using process_audio_good [OF assms] Some by (cases "mf_type f") (simp_all add: process_frame_def)
qed (use assms in \<open>simp add: process_frame_def\<close>)

lemma writer_exit_closed [simp]:
  "ws_mux (writer_exit e ws) = None" "\<not> ws_session_ready (writer_exit e ws)"
  "\<not> segment_open (ws_mux (writer_exit e ws))"
  by (simp_all add: writer_exit_def on_mux_eq segment_open_def)

lemma writer_exit_good:
  assumes "good cfg ws"
  shows "good cfg (writer_exit e ws)"
proof -
  let ?c = "close_current_segment e True ws"
  have c: "good cfg ?c" "\<not> segment_open (ws_mux ?c)"
    using close_good [OF assms] close_current_segment_closed [of e True ws] by auto
  have "rec_inv cfg ?c" using c(1) by (simp add: good_def)
  then have "rec_inv cfg (writer_exit e ws)"
    by (rule end_session_inv) (simp_all, simp add: writer_exit_def on_mux_eq)
  moreover have "trace_inv (writer_exit e ws)"
    using c unfolding good_def trace_inv_def by (simp add: segment_open_def writer_exit_def on_mux_eq)
  ultimately show "good cfg (writer_exit e ws)" by (simp add: good_def)
qed

section \<open>Runs of the recorder\<close>

text \<open>The directory holds nothing but recordings: in each day folder, files named after the day.\<close>

definition recordings_only :: "string \<Rightarrow> file_system \<Rightarrow> bool" where
  "recordings_only dir fs \<longleftrightarrow>
     list_all (\<lambda>day. list_all (\<lambda>n. day_ok day \<and> file_of_day day n) (media_files (join_path dir day) fs))
       (day_folders dir fs)"

lemma scan_ok:
  assumes "recordings_only (rc_directory (re_config e)) (ws_fs ws)"
  shows "list_all seg_ok (ws_kept (scan_existing_segments e ws))"
proof -
  let ?dir = "rc_directory (re_config e)"
  have "seg_ok (kept_of (join_path (join_path ?dir day) n) d fs)" if "day_ok day" "file_of_day day n" for day n d fs
    using that day_of_join [of day n ?dir] by (auto simp: seg_ok_def kept_of_def file_of_day_def day_ok_def)
  with assms show ?thesis
    by (auto simp: scan_existing_segments_def Let_def recordings_only_def list_all_iff)
qed

lemma writer_loop_stopping:
  "rec_stopping r \<Longrightarrow> writer_loop e r =
     Some (r\<lparr>rec_queue := [],
             rec_ws := writer_exit e (fold (\<lambda>f. process_frame e (Some f)) (rec_queue r) (rec_ws r))\<rparr>)"
proof (induction "rec_queue r" arbitrary: r)
  case Nil
  have "r\<lparr>rec_queue := [], rec_ws := ws\<rparr> = r\<lparr>rec_ws := ws\<rparr>" for ws
    using Nil(1) by (cases r) simp
  then show ?case using Nil by (subst writer_loop.simps) simp
next
  case (Cons f rest)
  let ?r = "r\<lparr>rec_queue := rest, rec_ws := process_frame e (Some f) (rec_ws r)\<rparr>"
  have "writer_loop e r = writer_loop e ?r"
    using Cons.hyps(2) [symmetric] by (subst writer_loop.simps) simp
  with Cons.hyps(1) [of ?r] Cons.prems Cons.hyps(2) [symmetric] show ?case by simp
qed


lemma join_writer_stopping:
  assumes "rec_stopping r"
  shows "join_writer e r =
    Some (if rec_writer_joinable r
          then r\<lparr>rec_queue := [], rec_writer_joinable := False,
                 rec_ws := writer_exit e (fold (\<lambda>f. process_frame e (Some f)) (rec_queue r) (rec_ws r))\<rparr>
          else r)"
  using writer_loop_stopping [OF assms, of e] by (simp add: join_writer_def)

lemma fold_process_good:
  "good cfg ws \<Longrightarrow> re_config e = cfg \<Longrightarrow> good cfg (fold (\<lambda>f. process_frame e (Some f)) fs ws)"
  by (induction fs arbitrary: ws) (simp_all add: process_frame_good)

definition rec_good :: "record_config \<Rightarrow> 'x recorder \<Rightarrow> bool" where
  "rec_good cfg r \<longleftrightarrow>
     good cfg (rec_ws r) \<and> (\<not> rec_writer_joinable r \<longrightarrow> \<not> ws_session_ready (rec_ws r)) \<and>
     length (rec_queue r) \<le> rc_max_pending_frames cfg"

text \<open>
  The steps of a recorder with configuration \<open>cfg\<close>: calls of its owner, frames from the source, the
  writer thread taking a frame, and changes of the upload queue and the disk by others.
\<close>

inductive rec_step :: "record_config \<Rightarrow> 'x recorder \<Rightarrow> 'x recorder \<Rightarrow> bool" for cfg where
  start: "re_config e = cfg \<Longrightarrow>
    recordings_only (rc_directory cfg) (snd (mkdir_p (rc_directory cfg) (ws_fs (rec_ws r)))) \<Longrightarrow>
    recorder_start e h r (src :: nat media_source) = Some (b, r', src') \<Longrightarrow> rec_step cfg r r'"
| frame: "rec_step cfg r (on_frame cfg f r)"
| take_frame: "re_config e = cfg \<Longrightarrow> rec_writer_joinable r \<Longrightarrow> rec_queue r = f # rest \<Longrightarrow>
    rec_step cfg r (r\<lparr>rec_queue := rest, rec_ws := process_frame e (Some f) (rec_ws r)\<rparr>)"
| uploads: "rec_step cfg r (r\<lparr>rec_ws := (rec_ws r)\<lparr>ws_uploader := up\<rparr>\<rparr>)"
| disk: "rec_step cfg r (r\<lparr>rec_ws := (rec_ws r)\<lparr>ws_fs := fs\<rparr>\<rparr>)"
| stop: "re_config e = cfg \<Longrightarrow>
    recorder_stop e we wr r (src :: nat media_source) = Some (r', wr', src') \<Longrightarrow> rec_step cfg r r'"

lemma new_recorder_good: "rec_good cfg (new_recorder cfg up fs)"
  by (simp add: rec_good_def new_recorder_def new_writer_state_def good_def rec_inv_def mux_ok_def
      segment_open_def trace_inv_def)

lemma start_good:
  assumes "rec_good cfg r" "re_config e = cfg"
    and "recordings_only (rc_directory cfg) (snd (mkdir_p (rc_directory cfg) (ws_fs (rec_ws r))))"
    and "recorder_start e h r src = Some (b, r', src')"
  shows "rec_good cfg r'"
proof (cases "rec_writer_joinable r \<or> \<not> fst (mkdir_p (rc_directory cfg) (ws_fs (rec_ws r)))")
  case True
  then show ?thesis using assms
    by (auto simp: recorder_start_def Let_def case_prod_beta rec_good_def split: if_splits)
next
  case False
  let ?fs = "snd (mkdir_p (rc_directory cfg) (ws_fs (rec_ws r)))"
  let ?v = "scan_existing_segments e ((rec_ws r)\<lparr>ws_fs := ?fs\<rparr>)"
  have "list_all seg_ok (ws_kept ?v)" using scan_ok [of e] assms(2,3) by simp
  then have "good cfg ?v"
    using assms(1) False closed_of_inv
    by (auto simp: rec_good_def good_def scan_existing_segments_def Let_def rec_inv_def trace_inv_def)
  then have w: "good cfg (prune_retained e ?v)" "\<not> ws_session_ready (prune_retained e ?v)"
    using prune_retained_inv [of cfg ?v e] prune_retained_frame [of e ?v] assms(1) False
    by (auto simp: good_def trace_inv_def rec_good_def scan_existing_segments_def Let_def)
  let ?sub = "subscribe (rc_stream_id cfg) (Some h) src"
  let ?r = "r\<lparr>rec_ws := prune_retained e ?v, rec_stopping := False, rec_writer_joinable := True,
              rec_subscription_id := fst ?sub\<rparr>"
  have "r' = (if fst ?sub = 0 then the (join_writer e (?r\<lparr>rec_stopping := True\<rparr>)) else ?r)"
    using assms(2,4) False
    by (auto simp: recorder_start_def Let_def case_prod_beta split: if_splits)
  then show ?thesis
    using w assms(1,2) writer_exit_good [OF fold_process_good [OF w(1) assms(2)], of e "rec_queue r"]
    by (auto simp: rec_good_def join_writer_stopping split: if_splits)
qed

lemma stop_good:
  assumes "rec_good cfg r" "re_config e = cfg" "recorder_stop e we wr r src = Some (r', wr', src')"
  shows "rec_good cfg r'"
proof -
  let ?r1 = "r\<lparr>rec_subscription_id := 0, rec_stopping := True\<rparr>"
  let ?r2 = "the (join_writer e ?r1)"
  have g: "good cfg (rec_ws ?r2)" "length (rec_queue ?r2) \<le> rc_max_pending_frames cfg"
    "\<not> rec_writer_joinable ?r2"
    using assms(1,2) writer_exit_good [OF fold_process_good [of cfg "rec_ws r" e "rec_queue r"], of e]
    by (auto simp: rec_good_def join_writer_stopping)
  obtain u where "r' = ?r2\<lparr>rec_ws := (writer_exit e (rec_ws ?r2))\<lparr>ws_uploader := u\<rparr>\<rparr>"
    using assms(3) by (auto simp: recorder_stop_def Let_def split: option.splits)
  then show ?thesis using g writer_exit_good [OF g(1), of e] by (simp add: rec_good_def)
qed

lemma rec_step_good: "rec_step cfg r r' \<Longrightarrow> rec_good cfg r \<Longrightarrow> rec_good cfg r'"
proof (induction rule: rec_step.induct)
  case (frame r f)
  have "rec_ws (on_frame cfg f r) = rec_ws r" "rec_writer_joinable (on_frame cfg f r) = rec_writer_joinable r"
    by (simp_all add: on_frame_def split: option.split)
  then show ?case using frame rq.put_bound [of r cfg f] by (simp add: rec_good_def)
next
  case (take_frame e r f rest)
  then show ?case by (simp add: rec_good_def process_frame_good)
next
  case (start e r h src b r' src')
  show ?case by (rule start_good [OF start.prems start.hyps])
next
  case (stop e we wr r src r' wr' src')
  show ?case by (rule stop_good [OF stop.prems stop.hyps])
qed (simp_all add: rec_good_def)

lemma rec_reach_good: "(rec_step cfg)\<^sup>*\<^sup>* (new_recorder cfg up fs) r \<Longrightarrow> rec_good cfg r"
  by (induction rule: rtranclp_induct) (auto intro: new_recorder_good rec_step_good)



lemma demo_start:
  "recorder_start (demo_env False) 0 demo_new demo_source =
     Some (True, demo_started, snd (snd (the (recorder_start (demo_env False) 0 demo_new demo_source)))) \<and>
   rec_writer_joinable demo_started \<and> rec_queue demo_started = []"
proof -
  have "case recorder_start (demo_env False) 0 demo_new demo_source of
      Some (b, r, src) \<Rightarrow> b \<and> rec_writer_joinable r \<and> rec_queue r = [] \<and> \<not> rec_stopping r | None \<Rightarrow> False"
    by code_simp
  then show ?thesis
    unfolding demo_started_def by (auto split: option.splits)
qed

lemma demo_session:
  "ws_session_ready (rec_ws demo_recording) \<and> segment_open (ws_mux (rec_ws demo_recording)) \<and>
   rec_writer_joinable demo_recording"
  by code_simp

lemma demo_recordings_only:
  "recordings_only (rc_directory demo_config)
     (snd (mkdir_p (rc_directory demo_config) (ws_fs (rec_ws demo_new))))"
  by code_simp

lemma demo_reach:
  "(rec_step demo_config)\<^sup>*\<^sup>* (new_recorder demo_config new_null_uploader empty_disk) demo_recording"
proof -
  have cfg: "re_config (demo_env False) = demo_config"
    by (simp add: demo_env_def demo_config_def)
  let ?f = "demo_frame Video Key 0"
  let ?q = "demo_started\<lparr>rec_queue := [?f]\<rparr>"
  have "rec_step demo_config demo_new demo_started"
    by (rule rec_step.start [OF cfg demo_recordings_only conjunct1 [OF demo_start]])
  moreover have "on_frame demo_config (Some ?f) demo_started = ?q"
  proof -
    have "\<not> rec_stopping demo_started" by code_simp
    then show ?thesis
      using demo_start by (simp add: on_frame_def demo_config_def demo_frame_def create_frame_def)
  qed
  then have "rec_step demo_config demo_started ?q" using rec_step.frame by metis
  moreover have "rec_step demo_config ?q
      (?q\<lparr>rec_queue := [], rec_ws := process_frame (demo_env False) (Some ?f) (rec_ws ?q)\<rparr>)"
    by (rule rec_step.take_frame [OF cfg]) (use demo_start in simp_all)
  moreover have "?q\<lparr>rec_queue := [], rec_ws := process_frame (demo_env False) (Some ?f) (rec_ws ?q)\<rparr> = demo_recording"
    using demo_start by (cases demo_started) (simp add: demo_recording_def)
  ultimately show ?thesis unfolding demo_new_def by (metis converse_rtranclp_into_rtranclp r_into_rtranclp)
qed


text \<open>
  C19: In each state a recorder reaches, the calls of the muxer are a sequence of complete segments and
  at most one open one: a segment is opened only when none is open, its first frame is the video key
  frame at whose time stamp it was opened, frames go only into an open segment, and
  each is closed once.  The queue never holds more frames than configured.
\<close>

theorem segments_start_at_keyframes:
  assumes "(rec_step cfg)\<^sup>*\<^sup>* (new_recorder cfg up fs) r"
  shows "run_option seg_next (ws_trace (rec_ws r)) Seg_Closed =
      Some (if segment_open (ws_mux (rec_ws r)) then Seg_Recording else Seg_Closed) \<and>
    length (rec_queue r) \<le> rc_max_pending_frames cfg"
  using rec_reach_good [OF assms] by (simp add: rec_good_def good_def trace_inv_def)

theorem segments_start_at_keyframes_witness:
  "run_option seg_next (ws_trace (rec_ws demo_recording)) Seg_Closed = Some Seg_Recording"
  using segments_start_at_keyframes [OF demo_reach] demo_session by simp



text \<open>
  A key frame that waited for the audio configuration is written late: of the video frames at
  0, 40, 80 and 120 ms around the first AAC frame at 90 ms, the segment gets the key frame at 0 and
  then the inter frame at 120, so the two it depends on are missing.
\<close>

definition demo_late_audio :: "unit writer_state" where
  "demo_late_audio =
     fold (\<lambda>f. process_frame (demo_env True) (Some f))
       [demo_frame Video Key 0, demo_frame Video Inter 40, demo_frame Video Inter 80,
        demo_frame Audio Kind_Audio 90, demo_frame Video Inter 120]
       (new_writer_state demo_config new_null_uploader empty_disk)"

definition written_pts :: "media_type \<Rightarrow> seg_event list \<Rightarrow> int list" where
  "written_pts ty tr =
     concat (map (\<lambda>e. case e of Seg_Frame f ok \<Rightarrow> if ok \<and> mf_type f = ty then [mf_pts_ms f] else [] | _ \<Rightarrow> []) tr)"

theorem pending_keyframe_gap: "written_pts Video (ws_trace demo_late_audio) = [0, 120]"
  by code_simp

end
