(* ===== verification/Record_Plugin.thy ===== *)
theory Record_Plugin
  imports Recorder_Run
begin

text \<open>
  The recording plugin (src/include/protocol/record\_plugin.h, src/src/protocol/record\_plugin.cpp):
  it builds the recorder from its configuration when the application starts it.  A recorder that
  cannot start is thrown away and the camera goes on without it.  The lemmas show that both
  calls return and that the plugin never refuses because of the disk.
\<close>

record 'x record_plugin =
  rp_config :: record_config
  rp_recorder :: "'x recorder option"

definition new_record_plugin :: "record_config \<Rightarrow> 'x record_plugin" where
  "new_record_plugin cfg = \<lparr>rp_config = cfg, rp_recorder = None\<rparr>"

text \<open>The configuration with the defaults filled in.\<close>

definition plugin_config :: "record_config \<Rightarrow> record_config" where
  "plugin_config cfg =
     cfg\<lparr>rc_segment_sec := (if rc_segment_sec cfg \<le> 0 then 300 else rc_segment_sec cfg),
        rc_directory := (if rc_directory cfg = [] then ''/mnt/record'' else rc_directory cfg)\<rparr>"

definition plugin_recorder :: "record_config \<Rightarrow> file_system \<Rightarrow> 'x recorder" where
  "plugin_recorder cfg fs =
     new_recorder cfg
       (if rc_upload_url cfg \<noteq> [] then new_http_uploader (rc_upload_url cfg) (rc_upload_token cfg)
        else new_null_uploader) fs"

text \<open>
  \<open>start\<close>: the environment \<open>e\<close> gives clock, library and tracks; its configuration is the one of the
  plugin.  Destroying a recorder stops it.
\<close>

definition plugin_start ::
  "'x rec_env \<Rightarrow> worker_env \<Rightarrow> worker_run \<Rightarrow> 'h \<Rightarrow> file_system \<Rightarrow> 'x record_plugin \<Rightarrow> 'h media_source option \<Rightarrow>
     (bool \<times> 'x record_plugin \<times> 'h media_source option) option" where
  "plugin_start e we wr h fs p source =
     (case source of
        None \<Rightarrow> Some (\<not> rc_enabled (rp_config p), p, source)
      | Some src \<Rightarrow>
          if rp_recorder p \<noteq> None \<or> \<not> rc_enabled (rp_config p)
          then Some (\<not> rc_enabled (rp_config p), p, source)
          else if rc_stream_id (rp_config p) \<noteq> 0 \<and> rc_stream_id (rp_config p) \<noteq> 1
          then Some (False, p, source)
          else
            let cfg = plugin_config (rp_config p);
                e1 = e\<lparr>re_config := cfg\<rparr>;
                p1 = p\<lparr>rp_config := cfg\<rparr>
            in case recorder_start e1 h (plugin_recorder cfg fs) src of
                 None \<Rightarrow> None
               | Some (ok, r, src1) \<Rightarrow>
                   if ok then Some (True, p1\<lparr>rp_recorder := Some r\<rparr>, Some src1)
                   else
                     (case recorder_stop e1 we wr r src1 of
                        None \<Rightarrow> None
                      | Some (_, _, src2) \<Rightarrow> Some (True, p1\<lparr>rp_recorder := None\<rparr>, Some src2)))"

definition plugin_stop ::
  "'x rec_env \<Rightarrow> worker_env \<Rightarrow> worker_run \<Rightarrow> 'x record_plugin \<Rightarrow> 'h media_source \<Rightarrow>
     ('x record_plugin \<times> 'h media_source) option" where
  "plugin_stop e we wr p src =
     (case rp_recorder p of
        None \<Rightarrow> Some (p, src)
      | Some r \<Rightarrow>
          (case recorder_stop (e\<lparr>re_config := rp_config p\<rparr>) we wr r src of
             None \<Rightarrow> None
           | Some (_, _, src1) \<Rightarrow> Some (p\<lparr>rp_recorder := None\<rparr>, src1)))"

lemma recorder_stop_total: "\<exists>r' wr' src'. recorder_stop e we wr r src = Some (r', wr', src')"
proof -
  obtain r2 where r2: "join_writer e (r\<lparr>rec_subscription_id := 0, rec_stopping := True\<rparr>) = Some r2"
    by (simp add: join_writer_stopping)
  obtain u wr' where "uploader_stop we (ws_uploader (writer_exit e (rec_ws r2))) wr = Some (u, wr')"
    using uploader_stop_total by blast
  with r2 show ?thesis by (simp add: recorder_stop_def)
qed

lemma recorder_start_total: "\<exists>b r' src'. recorder_start e h r src = Some (b, r', src')"
  by (auto simp: recorder_start_def Let_def case_prod_beta join_writer_stopping)

lemma plugin_start_total: "\<exists>b p' src'. plugin_start e we wr h fs p source = Some (b, p', src')"
proof (cases source)
  case (Some src)
  let ?cfg = "plugin_config (rp_config p)"
  obtain ok r src1 where s:
    "recorder_start (e\<lparr>re_config := ?cfg\<rparr>) h (plugin_recorder ?cfg fs) src = Some (ok, r, src1)"
    using recorder_start_total [of "e\<lparr>re_config := ?cfg\<rparr>" h "plugin_recorder ?cfg fs" src] by auto
  obtain r' wr' src2 where "recorder_stop (e\<lparr>re_config := ?cfg\<rparr>) we wr r src1 = Some (r', wr', src2)"
    using recorder_stop_total by blast
  with s show ?thesis by (auto simp: plugin_start_def Some Let_def)
qed (simp add: plugin_start_def)

lemma plugin_stop_total: "\<exists>p' src'. plugin_stop e we wr p src = Some (p', src') \<and> rp_recorder p' = None"
proof (cases "rp_recorder p")
  case (Some r)
  obtain r' wr' src1 where "recorder_stop (e\<lparr>re_config := rp_config p\<rparr>) we wr r src = Some (r', wr', src1)"
    using recorder_stop_total by blast
  then show ?thesis by (simp add: plugin_stop_def Some)
qed (simp add: plugin_stop_def)

text \<open>With recording enabled for stream 0 or 1 and a media source, a first start always succeeds.\<close>

lemma plugin_start_succeeds:
  assumes "plugin_start e we wr h fs p (Some src) = Some (b, p', src')"
    and "rp_recorder p = None" and "rc_stream_id (rp_config p) \<in> {0, 1}"
  shows b
  using assms by (auto simp: plugin_start_def Let_def split: if_splits option.splits)

end
