(* ===== verification/Memory_File.thy ===== *)
theory Memory_File
  imports Prelude
begin

text \<open>
  The growing memory buffer that the MP4 muxer gives to the media library (\<^verbatim>\<open>MemoryFile\<close> and the
  functions of \<^verbatim>\<open>kMemoryBuffer\<close> in src/src/packaging/mp4\_muxer.cpp).  The library may call the
  four functions in any order: what it does with the file is a value of \<open>file_prog\<close>, and
  \<open>run_file\<close> executes it on the buffer.  The locale \<open>byte_file\<close> states what a seekable file
  promises its user; the buffer is an interpretation of it.
\<close>

section \<open>The buffer\<close>

record memory_file =
  mem_bytes :: "u8 list"
  mem_position :: nat
  mem_max :: nat

definition new_memory_file :: "u32 \<Rightarrow> memory_file" where
  "new_memory_file max_bytes = \<lparr>mem_bytes = [], mem_position = 0, mem_max = unat max_bytes\<rparr>"

text \<open>\<^verbatim>\<open>SIZE_MAX\<close> of the 32 bit target.\<close>

definition size_t_max :: nat where
  "size_t_max = 4294967295"

definition int64_max :: int where
  "int64_max = 9223372036854775807"

text \<open>
  \<open>None\<close> is the return value \<open>-1\<close>.  The position may lie behind the end of the data: then only an
  empty read succeeds.
\<close>

definition buffer_read :: "nat \<Rightarrow> memory_file \<Rightarrow> u8 list option \<times> memory_file" where
  "buffer_read n f =
     (if n > length (mem_bytes f) - min (mem_position f) (length (mem_bytes f)) then (None, f)
      else (Some (take n (drop (mem_position f) (mem_bytes f))),
            f\<lparr>mem_position := mem_position f + n\<rparr>))"

text \<open>\<^verbatim>\<open>resize\<close> to a greater size, and the copy of \<open>data\<close> over the cells from \<open>p\<close> on.\<close>

definition resize_zero :: "nat \<Rightarrow> u8 list \<Rightarrow> u8 list" where
  "resize_zero n xs = xs @ replicate (n - length xs) 0"

definition overlay :: "nat \<Rightarrow> u8 list \<Rightarrow> u8 list \<Rightarrow> u8 list" where
  "overlay p data xs =
     (let ys = resize_zero (p + length data) xs in take p ys @ data @ drop (p + length data) ys)"

definition buffer_write :: "u8 list \<Rightarrow> memory_file \<Rightarrow> bool \<times> memory_file" where
  "buffer_write data f =
     (if length data > size_t_max - mem_position f then (False, f)
      else if mem_position f + length data > mem_max f then (False, f)
      else (True, f\<lparr>mem_bytes := overlay (mem_position f) data (mem_bytes f),
                    mem_position := mem_position f + length data\<rparr>))"

definition buffer_seek :: "int \<Rightarrow> memory_file \<Rightarrow> bool \<times> memory_file" where
  "buffer_seek offset f =
     (let target = if offset \<ge> 0 then offset else int (length (mem_bytes f)) + offset in
      if target < 0 \<or> target > int (mem_max f) \<or> target > int size_t_max then (False, f)
      else (True, f\<lparr>mem_position := nat target\<rparr>))"

text \<open>The bound of the check is \<^verbatim>\<open>INT64_MAX\<close> converted to \<^verbatim>\<open>std::size_t\<close>.\<close>

definition buffer_tell :: "memory_file \<Rightarrow> int" where
  "buffer_tell f =
     (if mem_position f > nat int64_max mod (size_t_max + 1) then - 1 else int (mem_position f))"

section \<open>What the library does with the file\<close>

datatype 'r file_prog =
    Finished 'r
  | Reads nat "u8 list option \<Rightarrow> 'r file_prog"
  | Writes "u8 list" "bool \<Rightarrow> 'r file_prog"
  | Seeks int "bool \<Rightarrow> 'r file_prog"
  | Tells "int \<Rightarrow> 'r file_prog"

primrec run_file :: "'r file_prog \<Rightarrow> memory_file \<Rightarrow> 'r \<times> memory_file" where
  "run_file (Finished r) f = (r, f)"
| "run_file (Reads n next) f = (case buffer_read n f of (d, g) \<Rightarrow> run_file (next d) g)"
| "run_file (Writes d next) f = (case buffer_write d f of (ok, g) \<Rightarrow> run_file (next ok) g)"
| "run_file (Seeks off next) f = (case buffer_seek off f of (ok, g) \<Rightarrow> run_file (next ok) g)"
| "run_file (Tells next) f = run_file (next (buffer_tell f)) f"

section \<open>The limit\<close>

text \<open>Data and position stay inside the limit the file was created with.\<close>

definition mem_ok :: "memory_file \<Rightarrow> bool" where
  "mem_ok f \<longleftrightarrow> length (mem_bytes f) \<le> mem_max f \<and> mem_position f \<le> mem_max f \<and>
     mem_max f \<le> size_t_max"

lemma new_memory_file_ok [inv_intros, simp]: "mem_ok (new_memory_file n)"
  by (simp add: mem_ok_def new_memory_file_def size_t_max_def)

lemma length_overlay [simp]: "length (overlay p d xs) = max (length xs) (p + length d)"
  by (simp add: overlay_def resize_zero_def Let_def)

lemma buffer_read_ok [inv_intros]: "mem_ok f \<Longrightarrow> mem_ok (snd (buffer_read n f))"
  by (auto simp: buffer_read_def mem_ok_def min_def split: if_splits)

lemma buffer_write_ok [inv_intros]: "mem_ok f \<Longrightarrow> mem_ok (snd (buffer_write d f))"
  by (auto simp: buffer_write_def mem_ok_def)

lemma buffer_seek_ok [inv_intros]: "mem_ok f \<Longrightarrow> mem_ok (snd (buffer_seek off f))"
  by (auto simp: buffer_seek_def mem_ok_def Let_def)

lemma buffer_max [frame_simps]:
  "mem_max (snd (buffer_read n f)) = mem_max f"
  "mem_max (snd (buffer_write d f)) = mem_max f"
  "mem_max (snd (buffer_seek off f)) = mem_max f"
  by (simp_all add: buffer_read_def buffer_write_def buffer_seek_def Let_def)

lemma run_file_ok [inv_intros]: "mem_ok f \<Longrightarrow> mem_ok (snd (run_file p f))"
  by (induction p arbitrary: f) (auto simp: case_prod_beta intro: inv_intros)

lemma run_file_max [frame_simps]: "mem_max (snd (run_file p f)) = mem_max f"
  by (induction p arbitrary: f) (auto simp: case_prod_beta frame_simps)

text \<open>The check of \<open>buffer_tell\<close> never fires.\<close>

lemma buffer_tell_position [simp]: "mem_ok f \<Longrightarrow> buffer_tell f = int (mem_position f)"
  by (simp add: buffer_tell_def mem_ok_def int64_max_def size_t_max_def)

section \<open>The file as a byte store\<close>

lemma overlay_alt:
  "overlay p d xs = take p xs @ replicate (p - length xs) 0 @ d @ drop (p + length d) xs"
proof (cases "p \<le> length xs")
  case True
  then show ?thesis by (simp add: overlay_def resize_zero_def Let_def)
next
  case False
  then have "replicate (p + length d - length xs) 0 =
      replicate (p - length xs) 0 @ replicate (length d) (0 :: u8)"
    by (simp flip: replicate_add)
  with False show ?thesis by (simp add: overlay_def resize_zero_def Let_def)
qed

lemma overlay_overlay: "overlay (p + length d) e (overlay p d xs) = overlay p (d @ e) xs"
  by (cases "p \<le> length xs") (auto simp: overlay_alt min_def add.commute add.left_commute)

lemma overlay_read: "take (length d) (drop p (overlay p d xs)) = d"
  by (cases "p \<le> length xs") (simp_all add: overlay_alt)

locale byte_file =
  fixes rd :: "nat \<Rightarrow> 'f \<Rightarrow> u8 list option \<times> 'f"
    and wr :: "u8 list \<Rightarrow> 'f \<Rightarrow> bool \<times> 'f"
    and sk :: "int \<Rightarrow> 'f \<Rightarrow> bool \<times> 'f"
    and contents :: "'f \<Rightarrow> u8 list"
    and pos :: "'f \<Rightarrow> nat"
    and ok :: "'f \<Rightarrow> bool"
  assumes wr_ok: "ok f \<Longrightarrow> wr d f = (True, g) \<Longrightarrow>
      ok g \<and> contents g = overlay (pos f) d (contents f) \<and> pos g = pos f + length d"
    and wr_fail: "wr d f = (False, g) \<Longrightarrow> g = f"
    and sk_back: "ok f \<Longrightarrow> p \<le> pos f \<Longrightarrow>
      \<exists>g. sk (int p) f = (True, g) \<and> ok g \<and> contents g = contents f \<and> pos g = p"
    and rd_ok: "ok f \<Longrightarrow> pos f + n \<le> length (contents f) \<Longrightarrow>
      fst (rd n f) = Some (take n (drop (pos f) (contents f)))"
begin

text \<open>A run of writes, given up at the first one that fails.\<close>

fun write_chunks :: "u8 list list \<Rightarrow> 'f \<Rightarrow> bool \<times> 'f" where
  "write_chunks [] f = (True, f)"
| "write_chunks (d # ds) f = (case wr d f of (True, g) \<Rightarrow> write_chunks ds g | (False, g) \<Rightarrow> (False, g))"

lemma write_chunks_concat:
  assumes "ok f" and "write_chunks (d # ds) f = (True, g)"
  shows "ok g \<and> contents g = overlay (pos f) (concat (d # ds)) (contents f) \<and>
     pos g = pos f + length (concat (d # ds))"
  using assms
proof (induction ds arbitrary: d f)
  case Nil
  then show ?case using wr_ok [of f d g] by (auto split: prod.splits bool.splits)
next
  case (Cons e ds)
  from Cons.prems obtain h where h: "wr d f = (True, h)" "write_chunks (e # ds) h = (True, g)"
    by (cases "wr d f"; cases "fst (wr d f)") auto
  with wr_ok [OF Cons.prems(1) h(1)] Cons.IH [of h e] show ?case
    using overlay_overlay [of "pos f" d "concat (e # ds)" "contents f"] by simp
qed

text \<open>What was written in pieces is read back as a whole.\<close>

lemma written_is_read:
  assumes "ok f" and "write_chunks (d # ds) f = (True, g)"
  shows "fst (rd (length (concat (d # ds))) (snd (sk (int (pos f)) g))) = Some (concat (d # ds))"
proof -
  let ?all = "concat (d # ds)"
  from write_chunks_concat [OF assms]
  have g: "ok g" "contents g = overlay (pos f) ?all (contents f)" "pos f \<le> pos g" by simp_all
  from sk_back [OF g(1, 3)] obtain h
    where h: "sk (int (pos f)) g = (True, h)" "ok h" "contents h = contents g" "pos h = pos f"
    by auto
  have "pos h + length ?all \<le> length (contents h)" using h(3,4) g(2) by simp
  from rd_ok [OF h(2) this] show ?thesis
    using overlay_read [of ?all "pos f" "contents f"] unfolding h(1) snd_conv h(3,4) g(2) by simp
qed

end

interpretation mem: byte_file buffer_read buffer_write buffer_seek mem_bytes mem_position mem_ok
proof
  show "mem_ok f \<Longrightarrow> buffer_write d f = (True, g) \<Longrightarrow>
      mem_ok g \<and> mem_bytes g = overlay (mem_position f) d (mem_bytes f) \<and>
      mem_position g = mem_position f + length d" for f d g
    using buffer_write_ok [of f d] by (auto simp: buffer_write_def split: if_splits)
  show "buffer_write d f = (False, g) \<Longrightarrow> g = f" for d f g
    by (auto simp: buffer_write_def split: if_splits)
  show "mem_ok f \<Longrightarrow> p \<le> mem_position f \<Longrightarrow>
      \<exists>g. buffer_seek (int p) f = (True, g) \<and> mem_ok g \<and> mem_bytes g = mem_bytes f \<and> mem_position g = p"
    for f p
    by (auto simp: buffer_seek_def mem_ok_def Let_def)
  show "mem_ok f \<Longrightarrow> mem_position f + n \<le> length (mem_bytes f) \<Longrightarrow>
      fst (buffer_read n f) = Some (take n (drop (mem_position f) (mem_bytes f)))" for f n
    by (auto simp: buffer_read_def)
qed

end
