(* ===== verification/Mp4_Muxer.thy ===== *)
theory Mp4_Muxer
  imports Fmp4_Muxer Memory_File
begin

text \<open>
  The muxer that builds a whole MP4 file in memory (src/include/packaging/mp4\_muxer.h,
  src/src/packaging/mp4\_muxer.cpp).  The media library is a parameter: the parameter set functions of
  \<open>media_kit\<close> and, in the fields added here, the calls that may touch the file, each a program over
  the four functions of the memory buffer.  The lemmas show that no sequence of calls makes the file
  larger than the limit given to the constructor, that a video frame is only converted with the
  parameter sets of its codec, and that the file is handed out at most once.
\<close>

section \<open>State\<close>

record 'x mov_kit = "'x media_kit" +
  mov_create :: "'x option file_prog"
  mov_add_video :: "'x \<Rightarrow> u8 \<Rightarrow> int \<Rightarrow> int \<Rightarrow> u8 list \<Rightarrow> (int \<times> 'x) file_prog"
  mov_add_audio :: "'x \<Rightarrow> u8 \<Rightarrow> int \<Rightarrow> int \<Rightarrow> int \<Rightarrow> u8 list \<Rightarrow> (int \<times> 'x) file_prog"
  mov_write :: "'x \<Rightarrow> int \<Rightarrow> u8 list \<Rightarrow> int \<Rightarrow> int \<Rightarrow> bool \<Rightarrow> (int \<times> 'x) file_prog"
  mov_destroy :: "'x \<Rightarrow> unit file_prog"
  mov_aac_config_load :: "u8 list \<Rightarrow> int"

record 'x mp4_context =
  m4_file :: memory_file
  m4_writer :: "'x option"
  m4_video_track :: int
  m4_audio_track :: int
  m4_video_codec :: codec
  m4_audio_codec :: codec
  m4_avc :: "'x option"
  m4_hevc :: "'x option"

definition mp4_video_object :: "'x mov_kit \<Rightarrow> codec \<Rightarrow> u8" where
  "mp4_video_object k c = (if c = H265 then mk_MOV_OBJECT_H265 k else mk_MOV_OBJECT_H264 k)"

definition mp4_audio_object :: "'x mov_kit \<Rightarrow> codec \<Rightarrow> u8" where
  "mp4_audio_object k c =
     (if c = G711U then mk_MOV_OBJECT_G711u k
      else if c = G711A then mk_MOV_OBJECT_G711a k else mk_MOV_OBJECT_AAC k)"

text \<open>The constructor; without a limit there is no writer, and every call refuses.\<close>

definition new_mp4_muxer :: "'x mov_kit \<Rightarrow> u32 \<Rightarrow> 'x mp4_context" where
  "new_mp4_muxer k max_bytes =
     (let file = new_memory_file max_bytes;
          (w, file1) = (if max_bytes > 0 then run_file (mov_create k) file else (None, file))
      in \<lparr>m4_file = file1, m4_writer = w, m4_video_track = - 1, m4_audio_track = - 1,
          m4_video_codec = Codec_Unknown, m4_audio_codec = Codec_Unknown, m4_avc = None, m4_hevc = None\<rparr>)"

section \<open>Operations\<close>

text \<open>A call of the library that returns a track or status and the writer's next state.\<close>

definition on_writer ::
  "('x \<Rightarrow> (int \<times> 'x) file_prog) \<Rightarrow> 'x mp4_context \<Rightarrow> int \<times> 'x mp4_context" where
  "on_writer call c =
     (case m4_writer c of
        None \<Rightarrow> (- 1, c)
      | Some w \<Rightarrow>
          let ((r, w1), file1) = run_file (call w) (m4_file c)
          in (r, c\<lparr>m4_writer := Some w1, m4_file := file1\<rparr>))"

definition mp4_load_video ::
  "'x mov_kit \<Rightarrow> video_format \<Rightarrow> 'x mp4_context \<Rightarrow> bool \<times> 'x mp4_context" where
  "mp4_load_video k v c =
     (case vf_codec v of
        H264 \<Rightarrow> (let (n, avc) = mk_avc_load k (vf_extradata v) in (n > 0, c\<lparr>m4_avc := Some avc\<rparr>))
      | H265 \<Rightarrow> (let (n, hevc) = mk_hevc_load k (vf_extradata v) in (n > 0, c\<lparr>m4_hevc := Some hevc\<rparr>))
      | _ \<Rightarrow> (False, c))"

definition mp4_configure_video ::
  "'x mov_kit \<Rightarrow> video_format \<Rightarrow> 'x mp4_context \<Rightarrow> bool \<times> 'x mp4_context" where
  "mp4_configure_video k v c =
     (if m4_writer c = None \<or> m4_video_track c \<ge> 0 \<or> vf_width v \<le> 0 \<or> vf_height v \<le> 0 \<or>
         vf_extradata v = []
      then (False, c)
      else
        let (loaded, c1) = mp4_load_video k v c in
        if \<not> loaded then (False, c1)
        else
          let (trk, c2) = on_writer (\<lambda>w. mov_add_video k w (mp4_video_object k (vf_codec v))
                                      (vf_width v) (vf_height v) (vf_extradata v)) c1
          in if trk < 0 then (False, c2)
             else (True, c2\<lparr>m4_video_track := trk, m4_video_codec := vf_codec v\<rparr>))"

definition mp4_configure_audio ::
  "'x mov_kit \<Rightarrow> audio_format \<Rightarrow> 'x mp4_context \<Rightarrow> bool \<times> 'x mp4_context" where
  "mp4_configure_audio k a c =
     (if m4_writer c = None \<or> m4_audio_track c \<ge> 0 \<or> af_sample_rate a \<le> 0 \<or> af_channels a \<le> 0 \<or>
         (af_codec a \<noteq> AAC \<and> af_codec a \<noteq> G711A \<and> af_codec a \<noteq> G711U)
      then (False, c)
      else if af_codec a = AAC \<and>
              (af_extradata a = [] \<or> mov_aac_config_load k (af_extradata a) < 0)
      then (False, c)
      else
        let (trk, c1) = on_writer (\<lambda>w. mov_add_audio k w (mp4_audio_object k (af_codec a))
                                    (af_channels a)
                                    (if af_bits_per_sample a > 0 then af_bits_per_sample a else 16)
                                    (af_sample_rate a) (af_extradata a)) c
        in if trk < 0 then (False, c1)
           else (True, c1\<lparr>m4_audio_track := trk, m4_audio_codec := af_codec a\<rparr>))"

text \<open>
  The sample of a video frame; the conversion updates the parameter sets it finds in the stream.
\<close>

definition mp4_sample ::
  "'x mov_kit \<Rightarrow> media_frame \<Rightarrow> 'x mp4_context \<Rightarrow> int \<times> u8 list \<times> 'x mp4_context" where
  "mp4_sample k f c =
     (let cap = frame_size f + length (mf_nalus f) * 4 + 64 in
      if m4_video_codec c = H264
      then let (n, b, p) = mk_h264_annexbtomp4 k (the (m4_avc c)) (mf_payload f) cap
           in (n, b, c\<lparr>m4_avc := Some p\<rparr>)
      else let (n, b, p) = mk_h265_annexbtomp4 k (the (m4_hevc c)) (mf_payload f) cap
           in (n, b, c\<lparr>m4_hevc := Some p\<rparr>))"

definition mp4_write_frame ::
  "'x mov_kit \<Rightarrow> media_frame option \<Rightarrow> 'x mp4_context \<Rightarrow> bool \<times> 'x mp4_context" where
  "mp4_write_frame k frame c =
     (case frame of
        None \<Rightarrow> (False, c)
      | Some f \<Rightarrow>
          if m4_writer c = None \<or> frame_size f = 0 then (False, c)
          else
            let video = (mf_type f = Video);
                trk = (if video then m4_video_track c else m4_audio_track c);
                cdc = (if video then m4_video_codec c else m4_audio_codec c);
                put = (\<lambda>data. on_writer (\<lambda>w. mov_write k w trk data (mf_pts_ms f) (mf_dts_ms f) (keyframe f)))
            in if trk < 0 \<or> mf_codec f \<noteq> cdc \<or> mf_pts_ms f < 0 \<or> mf_dts_ms f < 0 \<or> mf_codec_config f
               then (False, c)
               else if \<not> video
               then
                 if cdc = AAC \<and> frame_size f \<ge> 7 \<and> fst (mk_aac_adts_load k (mf_payload f)) \<ge> 7
                 then (False, c)
                 else let (r, c1) = put (mf_payload f) c in (r = 0, c1)
               else
                 let (n, buf, c1) = mp4_sample k f c
                 in if n \<le> 0 then (False, c1)
                    else let (r, c2) = put (take (nat n) buf) c1 in (r = 0, c2))"

text \<open>
  \<open>output\<close> is the sink (\<open>None\<close> an empty \<^verbatim>\<open>std::function\<close>); the list holds what it was called with.
\<close>

definition mp4_finalize ::
  "'x mov_kit \<Rightarrow> (u8 list \<Rightarrow> bool) option \<Rightarrow> 'x mp4_context \<Rightarrow> bool \<times> u8 list list \<times> 'x mp4_context" where
  "mp4_finalize k output c =
     (case (m4_writer c, output) of
        (Some w, Some sink) \<Rightarrow>
          let file1 = snd (run_file (mov_destroy k w) (m4_file c));
              data = mem_bytes file1
          in (sink data, [data], c\<lparr>m4_writer := None, m4_file := file1\<rparr>)
      | _ \<Rightarrow> (False, [], c))"

text \<open>A caller's use of the muxer: a sequence of calls; the result is what the sinks received.\<close>

datatype mp4_call =
    Configure_Video video_format
  | Configure_Audio audio_format
  | Write_Frame "media_frame option"
  | Finalize "(u8 list \<Rightarrow> bool) option"

fun mp4_step :: "'x mov_kit \<Rightarrow> mp4_call \<Rightarrow> 'x mp4_context \<Rightarrow> bool \<times> u8 list list \<times> 'x mp4_context" where
  "mp4_step k (Configure_Video v) c = (let (r, c1) = mp4_configure_video k v c in (r, [], c1))"
| "mp4_step k (Configure_Audio a) c = (let (r, c1) = mp4_configure_audio k a c in (r, [], c1))"
| "mp4_step k (Write_Frame f) c = (let (r, c1) = mp4_write_frame k f c in (r, [], c1))"
| "mp4_step k (Finalize out) c = mp4_finalize k out c"

fun mp4_run :: "'x mov_kit \<Rightarrow> mp4_call list \<Rightarrow> 'x mp4_context \<Rightarrow> u8 list list \<times> 'x mp4_context" where
  "mp4_run k [] c = ([], c)"
| "mp4_run k (x # xs) c =
     (let (r, out, c1) = mp4_step k x c; (outs, c2) = mp4_run k xs c1 in (out @ outs, c2))"

section \<open>The file stays inside its limit\<close>

definition mp4_ok :: "nat \<Rightarrow> 'x mp4_context \<Rightarrow> bool" where
  "mp4_ok limit c \<longleftrightarrow> mem_ok (m4_file c) \<and> mem_max (m4_file c) = limit \<and>
     (m4_video_track c \<ge> 0 \<longrightarrow>
        m4_video_codec c = H264 \<and> m4_avc c \<noteq> None \<or> m4_video_codec c = H265 \<and> m4_hevc c \<noteq> None)"

lemma new_mp4_muxer_ok [inv_intros]: "mp4_ok (unat n) (new_mp4_muxer k n)"
proof -
  have "mem_max (new_memory_file n) = unat n" by (simp add: new_memory_file_def)
  then show ?thesis
    by (auto simp: mp4_ok_def new_mp4_muxer_def Let_def case_prod_beta frame_simps intro: inv_intros)
qed

lemma on_writer_file:
  "mem_ok (m4_file c) \<Longrightarrow> mem_ok (m4_file (snd (on_writer call c)))"
  "mem_max (m4_file (snd (on_writer call c))) = mem_max (m4_file c)"
  by (auto simp: on_writer_def Let_def case_prod_beta frame_simps intro: inv_intros split: option.split)

lemma on_writer_frame [frame_simps]:
  "m4_video_track (snd (on_writer call c)) = m4_video_track c"
  "m4_video_codec (snd (on_writer call c)) = m4_video_codec c"
  "m4_avc (snd (on_writer call c)) = m4_avc c"
  "m4_hevc (snd (on_writer call c)) = m4_hevc c"
  by (simp_all add: on_writer_def Let_def case_prod_beta split: option.split)

lemma on_writer_ok [inv_intros]: "mp4_ok n c \<Longrightarrow> mp4_ok n (snd (on_writer call c))"
  by (simp add: mp4_ok_def frame_simps on_writer_file)

lemma mp4_configure_video_ok [inv_intros]:
  "mp4_ok n c \<Longrightarrow> mp4_ok n (snd (mp4_configure_video k v c))"
  by (auto simp: mp4_configure_video_def mp4_load_video_def mp4_ok_def Let_def case_prod_beta frame_simps
      on_writer_file split: codec.split)

lemma mp4_configure_audio_ok [inv_intros]:
  "mp4_ok n c \<Longrightarrow> mp4_ok n (snd (mp4_configure_audio k a c))"
  by (auto simp: mp4_configure_audio_def mp4_ok_def Let_def case_prod_beta frame_simps on_writer_file)

lemma mp4_sample_ok [inv_intros]: "mp4_ok n c \<Longrightarrow> mp4_ok n (snd (snd (mp4_sample k f c)))"
  by (auto simp: mp4_sample_def mp4_ok_def Let_def case_prod_beta)

lemma mp4_write_frame_ok [inv_intros]: "mp4_ok n c \<Longrightarrow> mp4_ok n (snd (mp4_write_frame k f c))"
  by (auto simp: mp4_write_frame_def Let_def case_prod_beta intro: inv_intros split: option.split)

lemma mp4_finalize_ok [inv_intros]: "mp4_ok n c \<Longrightarrow> mp4_ok n (snd (snd (mp4_finalize k out c)))"
  by (auto simp: mp4_finalize_def mp4_ok_def Let_def frame_simps intro: inv_intros split: option.split)

lemma mp4_step_ok [inv_intros]: "mp4_ok n c \<Longrightarrow> mp4_ok n (snd (snd (mp4_step k x c)))"
  by (cases x) (auto simp: Let_def case_prod_beta intro: inv_intros)

section \<open>The file is handed out once\<close>

lemma on_writer_writer: "m4_writer (snd (on_writer call c)) = None \<longleftrightarrow> m4_writer c = None"
  by (simp add: on_writer_def Let_def case_prod_beta split: option.split)

lemma mp4_load_video_writer [simp]: "m4_writer (snd (mp4_load_video k v c)) = m4_writer c"
  by (simp add: mp4_load_video_def Let_def case_prod_beta split: codec.split)

lemma mp4_sample_writer [simp]: "m4_writer (snd (snd (mp4_sample k f c))) = m4_writer c"
  by (simp add: mp4_sample_def Let_def case_prod_beta)

lemmas mp4_op_defs = mp4_configure_video_def mp4_configure_audio_def mp4_write_frame_def mp4_finalize_def

text \<open>Without a writer every call refuses and changes nothing.\<close>

lemma mp4_step_closed: "m4_writer c = None \<Longrightarrow> mp4_step k x c = (False, [], c)"
  by (cases x) (auto simp: mp4_op_defs split: option.split)

lemma mp4_run_closed: "m4_writer c = None \<Longrightarrow> mp4_run k xs c = ([], c)"
  by (induction xs) (simp_all add: mp4_step_closed)

text \<open>Only \<open>finalize\<close> delivers; then the writer is gone, and the file is inside its limit.\<close>

lemma mp4_step_delivers:
  assumes "mp4_ok n c" and "fst (snd (mp4_step k x c)) \<noteq> []"
  shows "\<exists>d. fst (snd (mp4_step k x c)) = [d] \<and> length d \<le> n \<and> m4_writer (snd (snd (mp4_step k x c))) = None"
proof -
  obtain out where x: "x = Finalize out"
    using assms(2) by (cases x) (auto simp: Let_def case_prod_beta)
  then show ?thesis
    using assms run_file_ok [of "m4_file c" "mov_destroy k (the (m4_writer c))"]
      run_file_max [of "mov_destroy k (the (m4_writer c))" "m4_file c"]
    by (auto simp: mp4_finalize_def Let_def mp4_ok_def mem_ok_def split: option.splits)
qed

lemma mp4_run_ok:
  assumes "mp4_ok n c"
  shows "mp4_ok n (snd (mp4_run k xs c)) \<and> length (fst (mp4_run k xs c)) \<le> 1 \<and>
    (\<forall>d \<in> set (fst (mp4_run k xs c)). length d \<le> n)"
  using assms
proof (induction xs arbitrary: c)
  case Nil
  then show ?case by simp
next
  case (Cons x xs)
  let ?c1 = "snd (snd (mp4_step k x c))"
  have ok: "mp4_ok n ?c1" using Cons.prems by (rule mp4_step_ok)
  show ?case
  proof (cases "fst (snd (mp4_step k x c)) = []")
    case True
    with Cons.IH [OF ok] show ?thesis by (simp add: Let_def case_prod_beta)
  next
    case False
    from mp4_step_delivers [OF Cons.prems False] ok show ?thesis
      by (auto simp: Let_def case_prod_beta mp4_run_closed)
  qed
qed

text \<open>A video frame reaches the converter of its own codec, with the parameter sets loaded.\<close>

lemma mp4_sample_ready:
  assumes "mp4_ok n c" and "fst (mp4_write_frame k (Some f) c)" and "mf_type f = Video"
  shows "mf_codec f = H264 \<and> m4_avc c \<noteq> None \<or> mf_codec f = H265 \<and> m4_hevc c \<noteq> None"
  using assms by (auto simp: mp4_write_frame_def mp4_ok_def Let_def split: if_splits)

text \<open>
  C25: the MP4 muxer keeps its memory limit: whatever the media library does with the buffer, and in
  whatever order the muxer is configured, fed and finalised, the file never holds more than the number
  of bytes given to the constructor, the sink is called at most once over the whole life of the muxer,
  and with no more than that many bytes.
\<close>

theorem mp4_file_within_limit:
  "case mp4_run k calls (new_mp4_muxer k max_bytes) of (delivered, c) \<Rightarrow>
     length (mem_bytes (m4_file c)) \<le> unat max_bytes \<and> length delivered \<le> 1 \<and>
     list_all (\<lambda>d. length d \<le> unat max_bytes) delivered"
  using mp4_run_ok [OF new_mp4_muxer_ok [of max_bytes k], of k calls]
  by (auto simp: mp4_ok_def mem_ok_def list_all_iff split: prod.split)

end
