(* ===== verification/Packet_Sink.thy ===== *)
theory Packet_Sink
  imports Prelude
begin

text \<open>
  The output side that the streaming muxers share (\<^verbatim>\<open>MpegMuxer::write_packet\<close> in
  src/src/packaging/mpeg\_muxer.cpp and \<^verbatim>\<open>FlvMuxer::on_packet\<close> in src/src/packaging/flv\_muxer.cpp):
  the media library emits packets through a callback, the callback passes them to the sink of the
  muxer's user, and the first refusal or exception sets a latch.  What the library does is a value of
  \<open>packet_prog\<close>; the locale \<open>latched_callback\<close> states what both callbacks promise and proves what
  follows for a whole call of the library.
\<close>

section \<open>Sinks and programs\<close>

text \<open>The sink returns true or false, or throws.\<close>

datatype sink_result = Accepted | Refused | Threw

datatype ('p, 'r) packet_prog =
    Done 'r
  | Emit 'p "int \<Rightarrow> ('p, 'r) packet_prog"

text \<open>The result of the program, the packets with the callback's answers, and the state.\<close>

primrec run_packets ::
  "('p \<Rightarrow> 's \<Rightarrow> int \<times> 's) \<Rightarrow> ('p, 'r) packet_prog \<Rightarrow> 's \<Rightarrow> 'r \<times> ('p \<times> int) list \<times> 's" where
  "run_packets cb (Done r) s = (r, [], s)"
| "run_packets cb (Emit p nxt) s =
     (let (a, s1) = cb p s; (r, out, s2) = run_packets cb (nxt a) s1 in (r, (p, a) # out, s2))"

section \<open>The latch\<close>

locale latched_callback =
  fixes cb :: "'p \<Rightarrow> 's \<Rightarrow> int \<times> 's"
    and failed :: "'s \<Rightarrow> bool"
    and connected :: "'s \<Rightarrow> bool"
  assumes keeps: "failed s \<Longrightarrow> failed (snd (cb p s))"
    and keeps_connected: "connected (snd (cb p s)) = connected s"
    and latches: "connected s \<Longrightarrow> fst (cb p s) \<noteq> 0 \<Longrightarrow> failed (snd (cb p s))"
    and silent: "\<not> connected s \<Longrightarrow> snd (cb p s) = s \<and> fst (cb p s) \<noteq> 0"
begin

lemma run_keeps: "failed s \<Longrightarrow> failed (snd (snd (run_packets cb prog s)))"
proof (induction prog arbitrary: s)
  case (Emit p nxt)
  from keeps [OF Emit.prems] Emit.IH [of "nxt (fst (cb p s))"] show ?case
    by (auto simp: Let_def case_prod_beta)
qed simp

text \<open>No silent loss: with the latch still open, the sink took every packet of the call.\<close>

lemma run_accepted:
  assumes "connected s" and "\<not> failed (snd (snd (run_packets cb prog s)))"
  shows "list_all (\<lambda>x. snd x = 0) (fst (snd (run_packets cb prog s)))"
  using assms
proof (induction prog arbitrary: s)
  case (Emit p nxt)
  let ?s1 = "snd (cb p s)" and ?n = "nxt (fst (cb p s))"
  have rest: "\<not> failed (snd (snd (run_packets cb ?n ?s1)))"
    using Emit.prems(2) by (simp add: Let_def case_prod_beta)
  then have "\<not> failed ?s1" using run_keeps by blast
  then have "fst (cb p s) = 0" using latches [OF Emit.prems(1)] by blast
  moreover have "list_all (\<lambda>x. snd x = 0) (fst (snd (run_packets cb ?n ?s1)))"
    by (rule Emit.IH) (use rest Emit.prems(1) keeps_connected in auto)
  ultimately show ?case by (simp add: Let_def case_prod_beta)
qed simp

text \<open>Without a sink nothing is accepted, and no state changes.\<close>

lemma run_disconnected:
  assumes "\<not> connected s"
  shows "snd (snd (run_packets cb prog s)) = s \<and>
     list_all (\<lambda>x. snd x \<noteq> 0) (fst (snd (run_packets cb prog s)))"
  using assms
proof (induction prog arbitrary: s)
  case (Emit p nxt)
  from silent [OF Emit.prems] Emit.IH [of "nxt (fst (cb p s))" s] Emit.prems show ?case
    by (auto simp: Let_def case_prod_beta)
qed simp

end

end
