(* ===== verification/Mpeg_Muxer.thy ===== *)
theory Mpeg_Muxer
  imports Media_Frame Packet_Sink
begin

text \<open>
  The MPEG transport and program stream muxer (src/include/packaging/mpeg\_muxer.h,
  src/src/packaging/mpeg\_muxer.cpp).  The media library is the parameter \<open>mpeg_kit\<close>; the sink of the
  user is a function on a state of its own.  The packets' \<^verbatim>\<open>malloc\<close> and \<^verbatim>\<open>free\<close> leave no trace in the
  model.  The lemmas show that the 90 kHz time stamps handed to the library are exact, that a muxer has
  at most one stream of each kind, and that a packet the sink refused stops the muxer for good.
\<close>

section \<open>State\<close>

type_synonym mpeg_packet = "int \<times> u8 list"

record 'x mpeg_kit =
  mp_PSI_STREAM_RESERVED :: int
  mp_PSI_STREAM_H264 :: int
  mp_PSI_STREAM_H265 :: int
  mp_PSI_STREAM_AAC :: int
  mp_PSI_STREAM_AUDIO_G711A :: int
  mp_PSI_STREAM_AUDIO_G711U :: int
  mp_MPEG_FLAG_IDR_FRAME :: int
  mp_create :: "int \<Rightarrow> 'x option"
  mp_add_stream :: "'x \<Rightarrow> int \<Rightarrow> int \<times> 'x"
  mp_input :: "'x \<Rightarrow> int \<Rightarrow> int \<Rightarrow> int \<Rightarrow> int \<Rightarrow> u8 list \<Rightarrow> (mpeg_packet, int \<times> 'x) packet_prog"
  mp_destroy :: "'x \<Rightarrow> (mpeg_packet, unit) packet_prog"
  mp_adts_load :: "u8 list \<Rightarrow> int"

datatype mpeg_container = TransportStream | ProgramStream

record ('x, 's) mpeg_context =
  mg_output :: "(u8 list \<Rightarrow> 's \<Rightarrow> sink_result \<times> 's) option"
  mg_sink :: 's
  mg_muxer :: "'x option"
  mg_video_codec :: codec
  mg_audio_codec :: codec
  mg_video_stream :: int
  mg_audio_stream :: int
  mg_output_failed :: bool

definition new_mpeg_muxer ::
  "'x mpeg_kit \<Rightarrow> (u8 list \<Rightarrow> 's \<Rightarrow> sink_result \<times> 's) option \<Rightarrow> mpeg_container \<Rightarrow> 's \<Rightarrow>
     ('x, 's) mpeg_context" where
  "new_mpeg_muxer k output container s =
     \<lparr>mg_output = output, mg_sink = s, mg_muxer = mp_create k (if container = ProgramStream then 1 else 0),
      mg_video_codec = Codec_Unknown, mg_audio_codec = Codec_Unknown,
      mg_video_stream = - 1, mg_audio_stream = - 1, mg_output_failed = False\<rparr>"

section \<open>Operations\<close>

definition stream_codec :: "'x mpeg_kit \<Rightarrow> codec \<Rightarrow> int" where
  "stream_codec k c =
     (case c of
        H264 \<Rightarrow> mp_PSI_STREAM_H264 k
      | H265 \<Rightarrow> mp_PSI_STREAM_H265 k
      | AAC \<Rightarrow> mp_PSI_STREAM_AAC k
      | G711A \<Rightarrow> mp_PSI_STREAM_AUDIO_G711A k
      | G711U \<Rightarrow> mp_PSI_STREAM_AUDIO_G711U k
      | _ \<Rightarrow> mp_PSI_STREAM_RESERVED k)"

definition is_video_codec :: "codec \<Rightarrow> bool" where
  "is_video_codec c \<longleftrightarrow> c = H264 \<or> c = H265"

definition milliseconds_to_90khz :: "int \<Rightarrow> int option" where
  "milliseconds_to_90khz value =
     (if value < 0 \<or> value > 9223372036854775807 div 90 then None else Some (value * 90))"

definition is_adts :: "'x mpeg_kit \<Rightarrow> media_frame \<Rightarrow> bool" where
  "is_adts k f = (if frame_size f < 7 then False else mp_adts_load k (mf_payload f) \<ge> 7)"

text \<open>The callback of the library: refused and thrown packets set the latch; no sink does not.\<close>

definition mpeg_write_packet :: "mpeg_packet \<Rightarrow> ('x, 's) mpeg_context \<Rightarrow> int \<times> ('x, 's) mpeg_context" where
  "mpeg_write_packet p c =
     (case mg_output c of
        None \<Rightarrow> (- 1, c)
      | Some out \<Rightarrow>
          let (a, s1) = out (snd p) (mg_sink c); c1 = c\<lparr>mg_sink := s1\<rparr>
          in if a = Accepted then (0, c1) else (- 1, c1\<lparr>mg_output_failed := True\<rparr>))"

definition mpeg_add_track :: "'x mpeg_kit \<Rightarrow> codec \<Rightarrow> ('x, 's) mpeg_context \<Rightarrow> bool \<times> ('x, 's) mpeg_context" where
  "mpeg_add_track k codec c =
     (case mg_muxer c of
        None \<Rightarrow> (False, c)
      | Some m \<Rightarrow>
          if stream_codec k codec = mp_PSI_STREAM_RESERVED k then (False, c)
          else
            let video = is_video_codec codec in
            if (video \<and> mg_video_stream c > 0) \<or> (\<not> video \<and> mg_audio_stream c > 0) then (False, c)
            else
              let (i, m1) = mp_add_stream k m (stream_codec k codec); c1 = c\<lparr>mg_muxer := Some m1\<rparr>
              in if i \<le> 0 then (False, c1)
                 else if video
                 then (True, c1\<lparr>mg_video_stream := i, mg_video_codec := codec\<rparr>)
                 else (True, c1\<lparr>mg_audio_stream := i, mg_audio_codec := codec\<rparr>))"

text \<open>
  \<open>mpeg_request\<close> is the part of \<^verbatim>\<open>write_frame\<close> before the library is called: the stream and the two
  time stamps, or a refusal.
\<close>

definition mpeg_request ::
  "'x mpeg_kit \<Rightarrow> media_frame \<Rightarrow> ('x, 's) mpeg_context \<Rightarrow> (int \<times> int \<times> int) option" where
  "mpeg_request k f c =
     (let video = (mf_type f = Video);
          stream = (if video then mg_video_stream c else mg_audio_stream c);
          codec = (if video then mg_video_codec c else mg_audio_codec c)
      in if stream \<le> 0 \<or> mf_codec f \<noteq> codec \<or> (codec = AAC \<and> \<not> is_adts k f) then None
         else
           case (milliseconds_to_90khz (mf_pts_ms f), milliseconds_to_90khz (mf_dts_ms f)) of
             (Some pts, Some dts) \<Rightarrow> Some (stream, pts, dts)
           | _ \<Rightarrow> None)"

text \<open>The result also lists the packets of the call with the callback's answers.\<close>

definition mpeg_write_frame ::
  "'x mpeg_kit \<Rightarrow> media_frame option \<Rightarrow> ('x, 's) mpeg_context \<Rightarrow>
     bool \<times> (mpeg_packet \<times> int) list \<times> ('x, 's) mpeg_context" where
  "mpeg_write_frame k frame c =
     (case (frame, mg_muxer c) of
        (Some f, Some m) \<Rightarrow>
          if mg_output_failed c \<or> frame_size f = 0 then (False, [], c)
          else
            (case mpeg_request k f c of
               None \<Rightarrow> (False, [], c)
             | Some (stream, pts, dts) \<Rightarrow>
                 let flags = (if keyframe f then mp_MPEG_FLAG_IDR_FRAME k else 0);
                     ((r, m1), out, c1) =
                       run_packets mpeg_write_packet (mp_input k m stream flags pts dts (mf_payload f)) c
                 in (r = 0, out, c1\<lparr>mg_muxer := Some m1\<rparr>))
      | _ \<Rightarrow> (False, [], c))"

definition mpeg_close ::
  "'x mpeg_kit \<Rightarrow> ('x, 's) mpeg_context \<Rightarrow> (mpeg_packet \<times> int) list \<times> ('x, 's) mpeg_context" where
  "mpeg_close k c =
     (case mg_muxer c of
        None \<Rightarrow> ([], c)
      | Some m \<Rightarrow>
          let (_, out, c1) = run_packets mpeg_write_packet (mp_destroy k m) c
          in (out, c1\<lparr>mg_muxer := None\<rparr>))"

section \<open>Time stamps\<close>

lemma milliseconds_to_90khz_exact:
  "milliseconds_to_90khz v = Some t \<Longrightarrow> t = 90 * v \<and> 0 \<le> t \<and> t < 2 ^ 63"
  by (auto simp: milliseconds_to_90khz_def split: if_splits)

text \<open>The check refuses no value that would fit.\<close>

lemma milliseconds_to_90khz_total: "milliseconds_to_90khz v = None \<longleftrightarrow> v < 0 \<or> 90 * v \<ge> 2 ^ 63"
  by (auto simp: milliseconds_to_90khz_def)

lemma mpeg_request_exact:
  assumes "mpeg_request k f c = Some (stream, pts, dts)"
  shows "stream > 0 \<and> pts = 90 * mf_pts_ms f \<and> dts = 90 * mf_dts_ms f \<and> 0 \<le> pts \<and> pts < 2 ^ 63 \<and>
    0 \<le> dts \<and> dts < 2 ^ 63"
  using assms milliseconds_to_90khz_exact [of "mf_pts_ms f"] milliseconds_to_90khz_exact [of "mf_dts_ms f"]
  by (auto simp: mpeg_request_def Let_def split: if_splits option.splits)

section \<open>The latch\<close>

interpretation mpeg_latch: latched_callback mpeg_write_packet mg_output_failed "\<lambda>c. mg_output c \<noteq> None"
  by unfold_locales (auto simp: mpeg_write_packet_def Let_def case_prod_beta split: option.splits if_splits)

lemma mpeg_run_packets_muxer:
  "mg_muxer (snd (snd (run_packets mpeg_write_packet prog c))) = mg_muxer c \<and>
   mg_video_stream (snd (snd (run_packets mpeg_write_packet prog c))) = mg_video_stream c \<and>
   mg_audio_stream (snd (snd (run_packets mpeg_write_packet prog c))) = mg_audio_stream c"
proof (induction prog arbitrary: c)
  case (Emit p nxt)
  have "mg_muxer (snd (mpeg_write_packet p c)) = mg_muxer c \<and>
      mg_video_stream (snd (mpeg_write_packet p c)) = mg_video_stream c \<and>
      mg_audio_stream (snd (mpeg_write_packet p c)) = mg_audio_stream c"
    by (simp add: mpeg_write_packet_def Let_def case_prod_beta split: option.split)
  with Emit.IH [of "nxt (fst (mpeg_write_packet p c))" "snd (mpeg_write_packet p c)"] show ?case
    by (simp add: Let_def case_prod_beta)
qed simp

text \<open>A call of \<open>write_frame\<close> that leaves the latch open lost nothing to the sink.\<close>

lemma mpeg_write_frame_lossless:
  assumes "mpeg_write_frame k frame c = (r, out, c1)" and "mg_output c \<noteq> None" and "\<not> mg_output_failed c1"
  shows "list_all (\<lambda>x. snd x = 0) out"
proof (cases "out = []")
  case False
  then obtain f m where fm: "frame = Some f" "mg_muxer c = Some m"
    using assms(1) by (auto simp: mpeg_write_frame_def split: option.splits)
  with False assms(1) obtain stream pts dts
    where q: "mpeg_request k f c = Some (stream, pts, dts)" "\<not> (mg_output_failed c \<or> frame_size f = 0)"
    by (auto simp: mpeg_write_frame_def split: if_splits option.splits)
  let ?p = "mp_input k m stream (if keyframe f then mp_MPEG_FLAG_IDR_FRAME k else 0) pts dts (mf_payload f)"
  let ?u = "run_packets mpeg_write_packet ?p c"
  have u: "out = fst (snd ?u)" "mg_output_failed c1 = mg_output_failed (snd (snd ?u))"
    using assms(1) fm q by (auto simp: mpeg_write_frame_def Let_def case_prod_beta)
  have "\<not> mg_output_failed (snd (snd ?u))" using assms(3) u(2) by simp
  from mpeg_latch.run_accepted [OF assms(2) this] show ?thesis unfolding u(1) .
qed simp

text \<open>A refused packet stops the muxer: no later frame reaches the library or the sink.\<close>

lemma mpeg_write_frame_latched:
  "mg_output_failed c \<Longrightarrow> mpeg_write_frame k frame c = (False, [], c)"
  by (simp add: mpeg_write_frame_def split: option.split)

lemma mpeg_write_frame_refuses:
  assumes "frame = None \<or> mg_muxer c = None \<or> frame_size (the frame) = 0 \<or>
    mpeg_request k (the frame) c = None"
  shows "mpeg_write_frame k frame c = (False, [], c)"
  using assms by (auto simp: mpeg_write_frame_def split: option.split)

section \<open>Streams\<close>

text \<open>One stream of each kind: a stream once added is never replaced.\<close>

lemma mpeg_add_track_once:
  assumes "mpeg_add_track k codec c = (ok, c1)"
  shows "mg_video_stream c > 0 \<Longrightarrow> mg_video_stream c1 = mg_video_stream c \<and> mg_video_codec c1 = mg_video_codec c"
    and "mg_audio_stream c > 0 \<Longrightarrow> mg_audio_stream c1 = mg_audio_stream c \<and> mg_audio_codec c1 = mg_audio_codec c"
  using assms by (auto simp: mpeg_add_track_def Let_def case_prod_beta split: option.splits if_splits)

lemma mpeg_add_track_result:
  assumes "mpeg_add_track k codec c = (True, c1)"
  shows "if is_video_codec codec then mg_video_stream c1 > 0 \<and> mg_video_codec c1 = codec
    else mg_audio_stream c1 > 0 \<and> mg_audio_codec c1 = codec"
  using assms by (auto simp: mpeg_add_track_def Let_def case_prod_beta split: option.splits if_splits)

text \<open>After \<open>close\<close> the muxer refuses everything.\<close>

lemma mpeg_closed:
  assumes "mpeg_close k c = (out, c1)"
  shows "mpeg_write_frame k frame c1 = (False, [], c1)" and "mpeg_add_track k codec c1 = (False, c1)"
    and "mpeg_close k c1 = ([], c1)"
proof -
  have "mg_muxer c1 = None"
    using assms by (auto simp: mpeg_close_def Let_def case_prod_beta split: option.splits)
  then show "mpeg_write_frame k frame c1 = (False, [], c1)" "mpeg_add_track k codec c1 = (False, c1)"
    "mpeg_close k c1 = ([], c1)"
    by (auto simp: mpeg_write_frame_def mpeg_add_track_def mpeg_close_def split: option.split)
qed

end
