(* ===== verification/Flv_Muxer.thy ===== *)
theory Flv_Muxer
  imports Media_Frame Packet_Sink
begin

text \<open>
  The FLV tag muxer (src/include/packaging/flv\_muxer.h, src/include/packaging/flv\_tag\_sink.h,
  src/src/packaging/flv\_muxer.cpp).  The media library is the parameter \<open>flv_kit\<close>.  The lemmas show that
  the 32 bit time stamps handed to the library are the exact distances from the caller's base, and the
  behaviour of the latch that a refused tag sets.
\<close>

section \<open>State\<close>

type_synonym flv_tag = "int \<times> u8 list \<times> u32"

record flv_metadata =
  fm_audiocodecid :: int
  fm_audiosamplerate :: int
  fm_audiosamplesize :: int
  fm_stereo :: bool
  fm_videocodecid :: int
  fm_width :: int
  fm_height :: int
  fm_framerate :: int

definition zero_metadata :: flv_metadata where
  "zero_metadata =
     \<lparr>fm_audiocodecid = 0, fm_audiosamplerate = 0, fm_audiosamplesize = 0, fm_stereo = False,
      fm_videocodecid = 0, fm_width = 0, fm_height = 0, fm_framerate = 0\<rparr>"

type_synonym 'x flv_input = "'x \<Rightarrow> u8 list \<Rightarrow> u32 \<Rightarrow> u32 \<Rightarrow> (flv_tag, int \<times> 'x) packet_prog"

record 'x flv_kit =
  fk_FLV_VIDEO_H264 :: int
  fk_FLV_VIDEO_H265 :: int
  fk_FLV_AUDIO_AAC :: int
  fk_FLV_AUDIO_G711A :: int
  fk_FLV_AUDIO_G711U :: int
  fk_create :: "'x option"
  fk_metadata :: "'x \<Rightarrow> flv_metadata \<Rightarrow> (flv_tag, int \<times> 'x) packet_prog"
  fk_set_enhanced_rtmp :: "'x \<Rightarrow> int \<Rightarrow> 'x"
  fk_avc :: "'x flv_input"
  fk_hevc :: "'x flv_input"
  fk_g711a :: "'x flv_input"
  fk_g711u :: "'x flv_input"
  fk_aac :: "'x flv_input"
  fk_reset :: "'x \<Rightarrow> 'x"
  fk_adts_load :: "u8 list \<Rightarrow> int"

datatype flv_tag_type = Tag_Audio | Tag_Video | Tag_Script | Tag_Other int

text \<open>\<^verbatim>\<open>static_cast\<FlvTagType>(type)\<close>: the enumerators have the values 8, 9 and 18 of 8 bits.\<close>

definition flv_tag_type :: "int \<Rightarrow> flv_tag_type" where
  "flv_tag_type t =
     (let v = t mod 256 in
      if v = 8 then Tag_Audio else if v = 9 then Tag_Video else if v = 18 then Tag_Script else Tag_Other v)"

type_synonym 's flv_sink = "flv_tag_type \<Rightarrow> u8 list \<Rightarrow> u32 \<Rightarrow> 's \<Rightarrow> sink_result \<times> 's"

record ('x, 's) flv_context =
  fc_output :: "'s flv_sink option"
  fc_sink :: 's
  fc_muxer :: "'x option"
  fc_video_codec :: codec
  fc_audio_codec :: codec
  fc_output_failed :: bool

definition new_flv_muxer :: "'x flv_kit \<Rightarrow> 's flv_sink option \<Rightarrow> 's \<Rightarrow> ('x, 's) flv_context" where
  "new_flv_muxer k output s =
     \<lparr>fc_output = output, fc_sink = s, fc_muxer = fk_create k, fc_video_codec = Codec_Unknown,
      fc_audio_codec = Codec_Unknown, fc_output_failed = False\<rparr>"

section \<open>Operations\<close>

definition flv_on_packet :: "flv_tag \<Rightarrow> ('x, 's) flv_context \<Rightarrow> int \<times> ('x, 's) flv_context" where
  "flv_on_packet = (\<lambda>(type, data, timestamp) c.
     case fc_output c of
       None \<Rightarrow> (- 1, c)
     | Some out \<Rightarrow>
         let (a, s1) = out (flv_tag_type type) data timestamp (fc_sink c); c1 = c\<lparr>fc_sink := s1\<rparr>
         in if a = Accepted then (0, c1) else (- 1, c1\<lparr>fc_output_failed := True\<rparr>))"

text \<open>A call of the library that returns a status; the tags it emitted are listed with the answers.\<close>

definition flv_call ::
  "('x \<Rightarrow> (flv_tag, int \<times> 'x) packet_prog) \<Rightarrow> 'x \<Rightarrow> ('x, 's) flv_context \<Rightarrow>
     int \<times> (flv_tag \<times> int) list \<times> ('x, 's) flv_context" where
  "flv_call call m c =
     (let ((r, m1), out, c1) = run_packets flv_on_packet (call m) c
      in (r, out, c1\<lparr>fc_muxer := Some m1\<rparr>))"

definition flv_configure_video ::
  "'x flv_kit \<Rightarrow> video_format \<Rightarrow> ('x, 's) flv_context \<Rightarrow>
     bool \<times> (flv_tag \<times> int) list \<times> ('x, 's) flv_context" where
  "flv_configure_video k v c =
     (case fc_muxer c of
        None \<Rightarrow> (False, [], c)
      | Some m \<Rightarrow>
          if fc_video_codec c \<noteq> Codec_Unknown \<or> vf_width v \<le> 0 \<or> vf_height v \<le> 0 \<or>
             vf_frame_rate v \<le> 0 \<or> (vf_codec v \<noteq> H264 \<and> vf_codec v \<noteq> H265)
          then (False, [], c)
          else
            let md = zero_metadata
                  \<lparr>fm_videocodecid := (if vf_codec v = H265 then fk_FLV_VIDEO_H265 k else fk_FLV_VIDEO_H264 k),
                   fm_width := vf_width v, fm_height := vf_height v, fm_framerate := vf_frame_rate v\<rparr>;
                (r, out, c1) = flv_call (\<lambda>x. fk_metadata k x md) m c
            in if r \<noteq> 0 then (False, out, c1)
               else (True, out,
                     c1\<lparr>fc_muxer := map_option (\<lambda>x. fk_set_enhanced_rtmp k x (if vf_codec v = H265 then 1 else 0))
                                     (fc_muxer c1),
                        fc_video_codec := vf_codec v\<rparr>))"

text \<open>\<^verbatim>\<open>FLV_AUDIO_x >> 4\<close>.\<close>

definition flv_audio_id :: "'x flv_kit \<Rightarrow> codec \<Rightarrow> int" where
  "flv_audio_id k c =
     (case c of AAC \<Rightarrow> fk_FLV_AUDIO_AAC k div 16 | G711A \<Rightarrow> fk_FLV_AUDIO_G711A k div 16
      | _ \<Rightarrow> fk_FLV_AUDIO_G711U k div 16)"

definition flv_configure_audio ::
  "'x flv_kit \<Rightarrow> audio_format \<Rightarrow> ('x, 's) flv_context \<Rightarrow>
     bool \<times> (flv_tag \<times> int) list \<times> ('x, 's) flv_context" where
  "flv_configure_audio k a c =
     (case fc_muxer c of
        None \<Rightarrow> (False, [], c)
      | Some m \<Rightarrow>
          if fc_audio_codec c \<noteq> Codec_Unknown \<or> af_sample_rate a \<le> 0 \<or> af_channels a \<le> 0 \<or>
             (af_codec a \<noteq> AAC \<and> af_codec a \<noteq> G711A \<and> af_codec a \<noteq> G711U)
          then (False, [], c)
          else
            let md = zero_metadata
                  \<lparr>fm_audiocodecid := flv_audio_id k (af_codec a), fm_audiosamplerate := af_sample_rate a,
                   fm_audiosamplesize := (if af_bits_per_sample a > 0 then af_bits_per_sample a else 16),
                   fm_stereo := af_channels a > 1\<rparr>;
                (r, out, c1) = flv_call (\<lambda>x. fk_metadata k x md) m c
            in if r \<noteq> 0 then (False, out, c1) else (True, out, c1\<lparr>fc_audio_codec := af_codec a\<rparr>))"

text \<open>The checks of \<^verbatim>\<open>write_frame\<close>, and the library function of the codec.\<close>

definition flv_in_window :: "int \<Rightarrow> media_frame \<Rightarrow> bool" where
  "flv_in_window base f \<longleftrightarrow>
     \<not> (base < 0 \<or> mf_pts_ms f < base \<or> mf_dts_ms f < base \<or>
        mf_pts_ms f - base > 4294967295 \<or> mf_dts_ms f - base > 4294967295)"

definition flv_configured :: "'x flv_kit \<Rightarrow> media_frame \<Rightarrow> ('x, 's) flv_context \<Rightarrow> bool" where
  "flv_configured k f c \<longleftrightarrow>
     (if mf_type f = Video then mf_codec f = fc_video_codec c else mf_codec f = fc_audio_codec c) \<and>
     \<not> (mf_codec f = AAC \<and> (frame_size f < 7 \<or> fk_adts_load k (mf_payload f) < 7))"

definition flv_input_of :: "'x flv_kit \<Rightarrow> codec \<Rightarrow> 'x flv_input option" where
  "flv_input_of k c =
     (case c of H264 \<Rightarrow> Some (fk_avc k) | H265 \<Rightarrow> Some (fk_hevc k) | G711A \<Rightarrow> Some (fk_g711a k)
      | G711U \<Rightarrow> Some (fk_g711u k) | AAC \<Rightarrow> Some (fk_aac k) | _ \<Rightarrow> None)"

definition flv_write_frame ::
  "'x flv_kit \<Rightarrow> media_frame option \<Rightarrow> int \<Rightarrow> ('x, 's) flv_context \<Rightarrow>
     bool \<times> (flv_tag \<times> int) list \<times> ('x, 's) flv_context" where
  "flv_write_frame k frame base c =
     (case (frame, fc_muxer c) of
        (Some f, Some m) \<Rightarrow>
          if fc_output_failed c \<or> frame_size f = 0 \<or> \<not> flv_in_window base f then (False, [], c)
          else if \<not> flv_configured k f c then (False, [], c)
          else
            let pts = word_of_int (mf_pts_ms f - base); dts = word_of_int (mf_dts_ms f - base) in
            (case flv_input_of k (mf_codec f) of
               None \<Rightarrow> (False, [], c)
             | Some input \<Rightarrow>
                 let (r, out, c1) = flv_call (\<lambda>x. input x (mf_payload f) pts dts) m c in (r = 0, out, c1))
      | _ \<Rightarrow> (False, [], c))"

definition flv_reset :: "'x flv_kit \<Rightarrow> ('x, 's) flv_context \<Rightarrow> ('x, 's) flv_context" where
  "flv_reset k c = c\<lparr>fc_muxer := map_option (fk_reset k) (fc_muxer c)\<rparr>"

section \<open>Time stamps\<close>

text \<open>Inside the window the conversion to 32 bits loses nothing.\<close>

lemma flv_timestamp_exact:
  assumes "flv_in_window base f"
  shows "uint (word_of_int (mf_pts_ms f - base) :: u32) = mf_pts_ms f - base"
    and "uint (word_of_int (mf_dts_ms f - base) :: u32) = mf_dts_ms f - base"
  using assms by (simp_all add: flv_in_window_def uint_word_of_int del: of_int_diff)

text \<open>The window is the caller's base and the 32 bit range behind it.\<close>

lemma flv_in_window_iff:
  "flv_in_window base f \<longleftrightarrow> 0 \<le> base \<and> mf_pts_ms f \<in> {base..base + 4294967295} \<and>
     mf_dts_ms f \<in> {base..base + 4294967295}"
  by (auto simp: flv_in_window_def)

section \<open>The latch\<close>

interpretation flv_latch: latched_callback flv_on_packet fc_output_failed "\<lambda>c. fc_output c \<noteq> None"
  by unfold_locales (auto simp: flv_on_packet_def Let_def case_prod_beta split: option.splits if_splits)

lemma flv_call_lossless:
  assumes "flv_call call m c = (r, out, c1)" and "fc_output c \<noteq> None" and "\<not> fc_output_failed c1"
  shows "list_all (\<lambda>x. snd x = 0) out"
proof -
  let ?u = "run_packets flv_on_packet (call m) c"
  have u: "out = fst (snd ?u)" "fc_output_failed c1 = fc_output_failed (snd (snd ?u))"
    using assms(1) by (auto simp: flv_call_def Let_def case_prod_beta)
  from flv_latch.run_accepted [OF assms(2), of "call m"] assms(3) u show ?thesis by simp
qed

lemma flv_call_keeps_failed: "fc_output_failed c \<Longrightarrow> fc_output_failed (snd (snd (flv_call call m c)))"
  using flv_latch.run_keeps [of c "call m"] by (simp add: flv_call_def Let_def case_prod_beta)

lemma flv_write_frame_lossless:
  assumes "flv_write_frame k frame base c = (r, out, c1)" and "fc_output c \<noteq> None"
    and "\<not> fc_output_failed c1"
  shows "list_all (\<lambda>x. snd x = 0) out"
proof (cases "out = []")
  case False
  then obtain call m where "snd (flv_call call m c) = (out, c1)"
    using assms(1)
    by (auto simp: flv_write_frame_def Let_def case_prod_beta split: option.splits if_splits)
  then have "flv_call call m c = (fst (flv_call call m c), out, c1)" by (simp add: prod_eq_iff)
  then show ?thesis by (rule flv_call_lossless [OF _ assms(2,3)])
qed simp

text \<open>
  The latch is for ever: a reset of the muxer renews the library's state and leaves the latch set, so a
  muxer whose sink failed once never accepts a frame again.
\<close>

lemma flv_reset_keeps_latch: "fc_output_failed (flv_reset k c) = fc_output_failed c"
  by (simp add: flv_reset_def)

lemma flv_write_frame_latched:
  "fc_output_failed c \<Longrightarrow> flv_write_frame k frame base c = (False, [], c)"
  by (simp add: flv_write_frame_def split: option.split)

lemma flv_configure_once:
  "fc_video_codec c \<noteq> Codec_Unknown \<Longrightarrow> flv_configure_video k v c = (False, [], c)"
  "fc_audio_codec c \<noteq> Codec_Unknown \<Longrightarrow> flv_configure_audio k a c = (False, [], c)"
  by (simp_all add: flv_configure_video_def flv_configure_audio_def split: option.split)

end
