(* ===== verification/Json_Value.thy ===== *)
theory Json_Value
  imports Complex_Main Prelude
begin

text \<open>
  The values of the JSON library as the configuration reader uses them (\<^verbatim>\<open>Json::Value\<close> of
  src/3rdpart/jsoncpp/json\_value.cpp), and the results of a reader: a value, an error message, or the
  end of the program by one of the library's assertions.  Two properties of this version of the library
  matter: null counts as an object and as an array, and indexing a value that is neither null nor an
  object by a name fails an assertion.
\<close>

section \<open>Results\<close>

datatype 'a outcome = Good 'a | Bad string | Aborted

primrec and_then :: "'a outcome \<Rightarrow> ('a \<Rightarrow> 'b outcome) \<Rightarrow> 'b outcome" where
  "and_then (Good x) f = f x"
| "and_then (Bad msg) f = Bad msg"
| "and_then Aborted f = Aborted"

lemma and_then_Good: "and_then r f = Good y \<longleftrightarrow> (\<exists>x. r = Good x \<and> f x = Good y)"
  by (cases r) auto

lemma and_then_assoc: "and_then (and_then r f) g = and_then r (\<lambda>x. and_then (f x) g)"
  by (cases r) auto

text \<open>A reader answers when it gives a value or a message; \<open>answered\<close> composes.\<close>

definition answered :: "'a outcome \<Rightarrow> bool" where
  "answered r \<longleftrightarrow> (case r of Good x \<Rightarrow> True | Bad msg \<Rightarrow> msg \<noteq> [] | Aborted \<Rightarrow> False)"

lemma answered_simps [simp]:
  "answered (Good x)" "answered (Bad msg) \<longleftrightarrow> msg \<noteq> []" "\<not> answered Aborted"
  "answered (and_then r f) \<longleftrightarrow> answered r \<and> (\<forall>x. r = Good x \<longrightarrow> answered (f x))"
  by (cases r; simp add: answered_def)+

text \<open>Weaker: the message, if there is one, is not empty.\<close>

definition no_silence :: "'a outcome \<Rightarrow> bool" where
  "no_silence r \<longleftrightarrow> r \<noteq> Bad []"

lemma no_silence_simps [simp]:
  "no_silence (Good x)" "no_silence (Bad msg) \<longleftrightarrow> msg \<noteq> []" "no_silence Aborted"
  "no_silence (and_then r f) \<longleftrightarrow> no_silence r \<and> (\<forall>x. r = Good x \<longrightarrow> no_silence (f x))"
  by (cases r; simp add: no_silence_def)+

lemma answered_no_silence: "answered r \<Longrightarrow> no_silence r"
  by (cases r) simp_all

section \<open>Values\<close>

text \<open>
  An object is an ordered map: the names are distinct, and lookup takes the first.  A real number that
  exceeds the range of the type is infinite (\<open>None\<close>).
\<close>

datatype json =
    Json_Null
  | Json_Int int
  | Json_UInt nat
  | Json_Real "rat option"
  | Json_String string
  | Json_Bool bool
  | Json_Array "json list"
  | Json_Object "(string \<times> json) list"

fun is_object :: "json \<Rightarrow> bool" where
  "is_object Json_Null = True"
| "is_object (Json_Object ms) = True"
| "is_object _ = False"

fun is_array :: "json \<Rightarrow> bool" where
  "is_array Json_Null = True"
| "is_array (Json_Array xs) = True"
| "is_array _ = False"

fun is_string :: "json \<Rightarrow> bool" where
  "is_string (Json_String s) = True"
| "is_string _ = False"

fun is_int :: "json \<Rightarrow> bool" where
  "is_int (Json_Int i) = True"
| "is_int _ = False"

fun is_bool :: "json \<Rightarrow> bool" where
  "is_bool (Json_Bool b) = True"
| "is_bool _ = False"

text \<open>\<^verbatim>\<open>asString\<close> and \<^verbatim>\<open>asInt\<close>; the conversion of a real number truncates.\<close>

fun as_string :: "json \<Rightarrow> string outcome" where
  "as_string Json_Null = Good []"
| "as_string (Json_String s) = Good s"
| "as_string (Json_Bool b) = Good (if b then ''true'' else ''false'')"
| "as_string _ = Aborted"

fun as_int :: "json \<Rightarrow> int outcome" where
  "as_int Json_Null = Good 0"
| "as_int (Json_Int i) = Good i"
| "as_int (Json_UInt n) = (if n < 2147483647 then Good (int n) else Aborted)"
| "as_int (Json_Real r) =
     (case r of
        None \<Rightarrow> Aborted
      | Some q \<Rightarrow> if - 2147483648 \<le> q \<and> q \<le> 2147483647
                  then Good (if q < 0 then \<lceil>q\<rceil> else \<lfloor>q\<rfloor>) else Aborted)"
| "as_int (Json_Bool b) = Good (if b then 1 else 0)"
| "as_int _ = Aborted"

text \<open>\<^verbatim>\<open>operator[]\<close> with a name, and \<^verbatim>\<open>isMember\<close>, which calls it.\<close>

fun json_at :: "json \<Rightarrow> string \<Rightarrow> json outcome" where
  "json_at Json_Null key = Good Json_Null"
| "json_at (Json_Object ms) key = Good (case map_of ms key of Some v \<Rightarrow> v | None \<Rightarrow> Json_Null)"
| "json_at _ key = Aborted"

fun is_member :: "json \<Rightarrow> string \<Rightarrow> bool outcome" where
  "is_member Json_Null key = Good False"
| "is_member (Json_Object ms) key = Good (map_of ms key \<noteq> None)"
| "is_member _ key = Aborted"

fun json_items :: "json \<Rightarrow> json list" where
  "json_items (Json_Array xs) = xs"
| "json_items (Json_Object ms) = map snd ms"
| "json_items _ = []"

lemma json_at_answered [simp]:
  "answered (json_at v key) \<longleftrightarrow> is_object v" "no_silence (json_at v key)"
  "json_at v key = Aborted \<longleftrightarrow> \<not> is_object v"
  by (cases v; auto split: option.split)+

lemma is_member_answered [simp]:
  "answered (is_member v key) \<longleftrightarrow> is_object v" "no_silence (is_member v key)"
  by (cases v; auto)+

lemma as_answered [simp]:
  "is_string v \<Longrightarrow> answered (as_string v)" "is_int v \<Longrightarrow> answered (as_int v)"
  by (cases v; auto)+

lemma as_string_Good: "is_string v \<Longrightarrow> \<exists>s. v = Json_String s \<and> as_string v = Good s"
  by (cases v) auto

lemma as_int_Good: "is_int v \<Longrightarrow> \<exists>i. v = Json_Int i \<and> as_int v = Good i"
  by (cases v) auto

end
