(* ===== verification/Runtime_Config.thy ===== *)
theory Runtime_Config
  imports Json_Value Record_Path
begin

text \<open>
  The configuration of the program (src/include/config/stream\_config.h,
  src/include/config/runtime\_config.h, src/src/config/runtime\_config.cpp).  The file system and the
  parser of the JSON library are the parameter \<open>config_env\<close>; a loader is a function to \<open>outcome\<close>,
  with every error message of the source.  A loader overwrites the structure it was given, which on
  failure the caller throws away: the model returns the structure only on success.
\<close>

section \<open>The structures\<close>

datatype stream_start = Boot | OnDemand

definition stream_start_name :: "stream_start \<Rightarrow> string" where
  "stream_start_name s = (if s = Boot then ''boot'' else ''on_demand'')"

definition stream_id_from_name :: "string \<Rightarrow> int" where
  "stream_id_from_name name =
     (if name = ''main'' then 0 else if name = ''sub'' then 1 else if name = ''ai'' then 2 else - 1)"

record time_osd_config =
  to_enable :: bool
  to_x :: int
  to_y :: int
  to_font_size :: int

record encoded_stream_config =
  es_enable :: bool
  es_start :: stream_start
  es_mode :: string
  es_width :: int
  es_height :: int
  es_fps :: int
  es_bitrate_kbps :: int
  es_svc :: bool
  es_osd :: time_osd_config

record ai_stream_config =
  ai_enable :: bool
  ai_start :: stream_start
  ai_engine :: string
  ai_model :: string
  ai_acl :: string
  ai_width :: int
  ai_height :: int
  ai_fps :: int
  ai_idle_stop_sec :: int

record streams_config =
  ss_main :: encoded_stream_config
  ss_sub :: encoded_stream_config
  ss_ai :: ai_stream_config

record sensor_config =
  se_name :: string
  se_lane_mode :: int
  se_width :: int
  se_height :: int
  se_fps :: int
  se_wdr :: int

record audio_config =
  ac_enable :: bool
  ac_microphone :: bool
  ac_codec :: string

record record_section =
  rs_enable :: bool
  rs_stream :: string
  rs_stream_id :: int
  rs_audio :: bool
  rs_segment_sec :: int
  rs_retain_sec :: int
  rs_max_bytes_mb :: int
  rs_directory :: string
  rs_upload_url :: string
  rs_upload_token :: string

record ice_server_config =
  ice_urls :: string
  ice_username :: string
  ice_credential :: string

record webrtc_config =
  wc_enable :: bool
  wc_signaling_url :: string
  wc_signaling_token :: string
  wc_room :: string
  wc_preview :: string
  wc_preview_stream_id :: int
  wc_send_detections :: bool
  wc_disable_twcc :: bool
  wc_rolling_buffer_sec :: int
  wc_expected_bitrate_kbps :: int
  wc_max_viewers :: int
  wc_ice_servers :: "ice_server_config list"

record runtime_config =
  cf_sensor :: sensor_config
  cf_audio :: audio_config
  cf_streams :: streams_config
  cf_record :: record_section
  cf_webrtc :: webrtc_config

text \<open>The default member initialisers.\<close>

definition default_osd :: time_osd_config where
  "default_osd = \<lparr>to_enable = False, to_x = 32, to_y = 32, to_font_size = 32\<rparr>"

definition default_encoded_stream :: encoded_stream_config where
  "default_encoded_stream =
     \<lparr>es_enable = True, es_start = Boot, es_mode = ''H264_CBR'', es_width = 1280, es_height = 720,
      es_fps = 15, es_bitrate_kbps = 800, es_svc = False, es_osd = default_osd\<rparr>"

definition default_ai_stream :: ai_stream_config where
  "default_ai_stream =
     \<lparr>ai_enable = False, ai_start = OnDemand, ai_engine = ''yolov8'', ai_model = [], ai_acl = [],
      ai_width = 640, ai_height = 640, ai_fps = 1, ai_idle_stop_sec = 5\<rparr>"

definition default_sensor :: sensor_config where
  "default_sensor =
     \<lparr>se_name = ''SC4336P'', se_lane_mode = 0, se_width = 2560, se_height = 1440, se_fps = 30, se_wdr = 0\<rparr>"

definition default_audio :: audio_config where
  "default_audio = \<lparr>ac_enable = False, ac_microphone = False, ac_codec = ''G711U''\<rparr>"

definition default_record :: record_section where
  "default_record =
     \<lparr>rs_enable = False, rs_stream = ''main'', rs_stream_id = 0, rs_audio = True, rs_segment_sec = 300,
      rs_retain_sec = 3600, rs_max_bytes_mb = 200, rs_directory = ''/mnt/record'', rs_upload_url = [],
      rs_upload_token = []\<rparr>"

definition default_webrtc :: webrtc_config where
  "default_webrtc =
     \<lparr>wc_enable = True, wc_signaling_url = ''ws://127.0.0.1:8089/ws'', wc_signaling_token = [],
      wc_room = ''door-1'', wc_preview = ''sub'', wc_preview_stream_id = 1, wc_send_detections = True,
      wc_disable_twcc = True, wc_rolling_buffer_sec = 1, wc_expected_bitrate_kbps = 1000,
      wc_max_viewers = 3, wc_ice_servers = []\<rparr>"

definition default_config :: runtime_config where
  "default_config =
     \<lparr>cf_sensor = default_sensor, cf_audio = default_audio,
      cf_streams = \<lparr>ss_main = default_encoded_stream, ss_sub = default_encoded_stream, ss_ai = default_ai_stream\<rparr>,
      cf_record = default_record, cf_webrtc = default_webrtc\<rparr>"

section \<open>Files\<close>

text \<open>
  What \<^verbatim>\<open>fopen\<close>, \<^verbatim>\<open>fseek\<close>, \<^verbatim>\<open>ftell\<close> and \<^verbatim>\<open>fread\<close> do on a path: an open file has the size that
  \<^verbatim>\<open>ftell\<close> tells, whether the way back to the start succeeds, and the bytes that can be read.
\<close>

datatype file_read = Cannot_Open | Cannot_Seek | Opened int bool string

record config_env =
  ce_regular :: "string \<Rightarrow> bool"
  ce_file :: "string \<Rightarrow> file_read"
  ce_parse :: "string \<Rightarrow> string + json"

definition kMaxConfigBytes :: int where
  "kMaxConfigBytes = 64 * 1024"

definition path_join :: "string \<Rightarrow> string \<Rightarrow> string" where
  "path_join directory file =
     (if directory \<noteq> [] \<and> last directory = CHR ''/'' then directory @ file
      else directory @ ''/'' @ file)"

definition read_json :: "config_env \<Rightarrow> string \<Rightarrow> json outcome" where
  "read_json e path =
     (case ce_file e path of
        Cannot_Open \<Rightarrow> Bad (''cannot open '' @ path)
      | Cannot_Seek \<Rightarrow> Bad (''cannot seek '' @ path)
      | Opened size_told rewinds data \<Rightarrow>
          if size_told \<le> 0 \<or> size_told > kMaxConfigBytes \<or> \<not> rewinds
          then Bad (''invalid config size: '' @ path)
          else
            let txt = take (nat size_told) data in
            if length txt \<noteq> nat size_told then Bad (''cannot read '' @ path)
            else
              (case ce_parse e txt of
                 Inl msgs \<Rightarrow> Bad (''invalid JSON in '' @ path @ '': '' @ msgs)
               | Inr doc \<Rightarrow> Good doc))"

section \<open>Fields\<close>

text \<open>
  \<open>field_value\<close> is the shape that the typed readers share: \<open>None\<close> when the value is no object or has
  no such field.
\<close>

definition field_value :: "json \<Rightarrow> string \<Rightarrow> json option outcome" where
  "field_value obj field =
     (if \<not> is_object obj then Good None
      else and_then (is_member obj field)
             (\<lambda>m. if \<not> m then Good None else and_then (json_at obj field) (\<lambda>v. Good (Some v))))"

definition field_error :: "string \<Rightarrow> string \<Rightarrow> string \<Rightarrow> string" where
  "field_error loc field what = loc @ ''.'' @ field @ what"

definition required_string :: "json \<Rightarrow> string \<Rightarrow> string \<Rightarrow> string outcome" where
  "required_string obj loc field =
     (let bad = Bad (field_error loc field '' must be a non-empty string'') in
      and_then (field_value obj field) (\<lambda>v. case v of
        None \<Rightarrow> bad
      | Some v \<Rightarrow> if \<not> is_string v then bad
                  else and_then (as_string v) (\<lambda>s. if s = [] then bad else Good s)))"

definition optional_string :: "json \<Rightarrow> string \<Rightarrow> string \<Rightarrow> string \<Rightarrow> string outcome" where
  "optional_string obj loc field dflt =
     and_then (field_value obj field) (\<lambda>v. case v of
       None \<Rightarrow> Good dflt
     | Some v \<Rightarrow> if \<not> is_string v then Bad (field_error loc field '' must be a string'')
                 else as_string v)"

definition required_int :: "json \<Rightarrow> string \<Rightarrow> string \<Rightarrow> int outcome" where
  "required_int obj loc field =
     (let bad = Bad (field_error loc field '' must be an integer'') in
      and_then (field_value obj field) (\<lambda>v. case v of
        None \<Rightarrow> bad
      | Some v \<Rightarrow> if \<not> is_int v then bad else as_int v))"

definition optional_int :: "json \<Rightarrow> string \<Rightarrow> string \<Rightarrow> int \<Rightarrow> int outcome" where
  "optional_int obj loc field dflt =
     and_then (field_value obj field) (\<lambda>v. case v of
       None \<Rightarrow> Good dflt
     | Some _ \<Rightarrow> required_int obj loc field)"

fun parse_bool :: "json \<Rightarrow> bool option" where
  "parse_bool (Json_Bool b) = Some b"
| "parse_bool (Json_Int i) = Some (i \<noteq> 0)"
| "parse_bool _ = None"

definition required_bool :: "json \<Rightarrow> string \<Rightarrow> string \<Rightarrow> bool outcome" where
  "required_bool obj loc field =
     (let bad = Bad (field_error loc field '' must be a boolean or 0/1'') in
      and_then (field_value obj field) (\<lambda>v. case v of
        None \<Rightarrow> bad
      | Some v \<Rightarrow> (case parse_bool v of None \<Rightarrow> bad | Some b \<Rightarrow> Good b)))"

definition optional_bool :: "json \<Rightarrow> string \<Rightarrow> string \<Rightarrow> bool \<Rightarrow> bool outcome" where
  "optional_bool obj loc field dflt =
     and_then (field_value obj field) (\<lambda>v. case v of
       None \<Rightarrow> Good dflt
     | Some _ \<Rightarrow> required_bool obj loc field)"

definition parse_start :: "json \<Rightarrow> string \<Rightarrow> stream_start \<Rightarrow> stream_start outcome" where
  "parse_start obj loc dflt =
     (let bad = Bad (loc @ ''.start must be \"boot\" or \"on_demand\"'') in
      and_then (field_value obj ''start'') (\<lambda>v. case v of
        None \<Rightarrow> Good dflt
      | Some v \<Rightarrow> if \<not> is_string v then bad
                  else and_then (as_string v) (\<lambda>s.
                         if s = ''boot'' then Good Boot
                         else if s = ''on_demand'' then Good OnDemand else bad)))"

section \<open>Streams\<close>

definition supported_encoder_mode :: "string \<Rightarrow> bool" where
  "supported_encoder_mode mode \<longleftrightarrow>
     mode = ''H264_CBR'' \<or> mode = ''H264_AVBR'' \<or> mode = ''H265_CBR'' \<or> mode = ''H265_AVBR''"

definition parse_osd :: "json \<Rightarrow> string \<Rightarrow> time_osd_config outcome" where
  "parse_osd obj loc =
     (if \<not> is_object obj then Bad (loc @ '' must be an object'')
      else and_then (optional_bool obj loc ''enable'' True) (\<lambda>enable.
           and_then (optional_int obj loc ''x'' 32) (\<lambda>x.
           and_then (optional_int obj loc ''y'' 32) (\<lambda>y.
           and_then (optional_int obj loc ''font_size'' 32) (\<lambda>font_size.
           Good \<lparr>to_enable = enable, to_x = x, to_y = y, to_font_size = font_size\<rparr>)))))"

definition parse_encoder ::
  "json \<Rightarrow> string \<Rightarrow> encoded_stream_config \<Rightarrow> encoded_stream_config \<Rightarrow> encoded_stream_config outcome" where
  "parse_encoder enc loc d stream =
     and_then (optional_string enc loc ''mode'' (es_mode d)) (\<lambda>mode.
     and_then (optional_int enc loc ''width'' (es_width d)) (\<lambda>width.
     and_then (optional_int enc loc ''height'' (es_height d)) (\<lambda>height.
     and_then (optional_int enc loc ''fps'' (es_fps d)) (\<lambda>fps.
     and_then (optional_int enc loc ''bitrate_kbps'' (es_bitrate_kbps d)) (\<lambda>bitrate.
     and_then (optional_bool enc loc ''svc'' (es_svc d)) (\<lambda>svc.
     Good (stream\<lparr>es_mode := mode, es_width := width, es_height := height, es_fps := fps,
                   es_bitrate_kbps := bitrate, es_svc := svc\<rparr>)))))))"

definition parse_encoded_stream ::
  "json \<Rightarrow> string \<Rightarrow> encoded_stream_config \<Rightarrow> encoded_stream_config outcome" where
  "parse_encoded_stream obj loc d =
     (if \<not> is_object obj then Bad (loc @ '' must be an object'')
      else
        and_then (optional_bool obj loc ''enable'' (es_enable d)) (\<lambda>enable.
        and_then (parse_start obj loc (es_start d)) (\<lambda>start.
        and_then (is_member obj ''encoder'') (\<lambda>has_encoder.
        and_then (if has_encoder then json_at obj ''encoder'' else Good obj) (\<lambda>enc.
        and_then (parse_encoder enc (if has_encoder then loc @ ''.encoder'' else loc) d
                    (default_encoded_stream\<lparr>es_enable := enable, es_start := start\<rparr>)) (\<lambda>stream.
        and_then (is_member obj ''osd'') (\<lambda>has_osd.
        if has_osd
        then and_then (json_at obj ''osd'') (\<lambda>v.
             and_then (parse_osd v (loc @ ''.osd'')) (\<lambda>osd. Good (stream\<lparr>es_osd := osd\<rparr>)))
        else Good (stream\<lparr>es_osd := es_osd d\<rparr>))))))))"

definition parse_ai_stream :: "json \<Rightarrow> string \<Rightarrow> ai_stream_config outcome" where
  "parse_ai_stream obj loc =
     (if \<not> is_object obj then Bad (loc @ '' must be an object'')
      else
        and_then (optional_bool obj loc ''enable'' False) (\<lambda>enable.
        and_then (parse_start obj loc OnDemand) (\<lambda>start.
        and_then (optional_string obj loc ''engine'' ''yolov8'') (\<lambda>engine.
        and_then (optional_string obj loc ''model'' []) (\<lambda>model.
        and_then (optional_string obj loc ''acl'' []) (\<lambda>acl.
        and_then (optional_int obj loc ''width'' 640) (\<lambda>width.
        and_then (optional_int obj loc ''height'' 640) (\<lambda>height.
        and_then (optional_int obj loc ''fps'' 1) (\<lambda>fps.
        and_then (optional_int obj loc ''idle_stop_sec'' 5) (\<lambda>idle.
        Good \<lparr>ai_enable = enable, ai_start = start, ai_engine = engine, ai_model = model, ai_acl = acl,
              ai_width = width, ai_height = height, ai_fps = fps, ai_idle_stop_sec = idle\<rparr>))))))))))"

definition apply_inherit_modes :: "streams_config \<Rightarrow> streams_config" where
  "apply_inherit_modes s =
     (if es_mode (ss_sub s) = ''inherit'' \<or> es_mode (ss_sub s) = []
      then s\<lparr>ss_sub := (ss_sub s)\<lparr>es_mode := es_mode (ss_main s)\<rparr>\<rparr> else s)"

section \<open>WebRTC\<close>

definition parse_ice_server :: "json \<Rightarrow> string \<Rightarrow> ice_server_config outcome" where
  "parse_ice_server item loc =
     (let bad = (\<lambda>field. Bad (loc @ ''[].'' @ field @ '' must be a string'')) in
      and_then (field_value item ''urls'') (\<lambda>urls. case urls of
        None \<Rightarrow> bad ''urls''
      | Some u \<Rightarrow>
          if \<not> is_string u then bad ''urls''
          else
            and_then (as_string u) (\<lambda>url.
            and_then (field_value item ''username'') (\<lambda>name.
            and_then (field_value item ''credential'') (\<lambda>cred.
            if name \<noteq> None \<and> \<not> is_string (the name) then bad ''username''
            else if cred \<noteq> None \<and> \<not> is_string (the cred) then bad ''credential''
            else
              and_then (case name of None \<Rightarrow> Good [] | Some v \<Rightarrow> as_string v) (\<lambda>n.
              and_then (case cred of None \<Rightarrow> Good [] | Some v \<Rightarrow> as_string v) (\<lambda>c.
              Good \<lparr>ice_urls = url, ice_username = n, ice_credential = c\<rparr>)))))))"

fun parse_ice_items :: "json list \<Rightarrow> string \<Rightarrow> ice_server_config list outcome" where
  "parse_ice_items [] loc = Good []"
| "parse_ice_items (item # items) loc =
     and_then (parse_ice_server item loc) (\<lambda>server.
     and_then (parse_ice_items items loc) (\<lambda>servers.
     Good (if ice_urls server \<noteq> [] \<and> length (ice_urls server) \<le> 1024 then server # servers else servers)))"

definition parse_ice_servers :: "json \<Rightarrow> string \<Rightarrow> ice_server_config list outcome" where
  "parse_ice_servers ice loc =
     (if ice = Json_Null then Good []
      else if \<not> is_array ice then Bad (loc @ '' must be an array'')
      else parse_ice_items (json_items ice) loc)"

text \<open>The two older spellings that \<open>parse_webrtc\<close> accepts at its end.\<close>

definition legacy_detections :: "json \<Rightarrow> string \<Rightarrow> bool \<Rightarrow> bool outcome" where
  "legacy_detections obj loc send =
     and_then (is_member obj ''detections_enable'') (\<lambda>old.
     and_then (is_member obj ''send_detections'') (\<lambda>new.
     if old \<and> \<not> new then optional_bool obj loc ''detections_enable'' True else Good send))"

definition legacy_preview :: "json \<Rightarrow> string \<Rightarrow> string \<Rightarrow> string outcome" where
  "legacy_preview obj loc preview =
     and_then (is_member obj ''preview_stream_id'') (\<lambda>old.
     if old \<and> preview = ''sub''
     then and_then (optional_int obj loc ''preview_stream_id'' 1) (\<lambda>i.
          Good (if i = 0 then ''main'' else if i = 2 then ''ai'' else ''sub''))
     else Good preview)"

definition parse_webrtc :: "json \<Rightarrow> string \<Rightarrow> webrtc_config outcome" where
  "parse_webrtc obj loc =
     (if \<not> is_object obj then Bad (loc @ '' must be an object'')
      else
        and_then (optional_bool obj loc ''enable'' True) (\<lambda>enable.
        and_then (required_string obj loc ''signaling_url'') (\<lambda>url.
        and_then (optional_string obj loc ''signaling_token'' []) (\<lambda>token.
        and_then (optional_string obj loc ''room'' ''door-1'') (\<lambda>room.
        and_then (optional_string obj loc ''preview'' ''sub'') (\<lambda>preview.
        and_then (optional_bool obj loc ''send_detections'' True) (\<lambda>send.
        and_then (optional_bool obj loc ''disable_twcc'' True) (\<lambda>twcc.
        and_then (optional_int obj loc ''rolling_buffer_sec'' 1) (\<lambda>rolling.
        and_then (optional_int obj loc ''expected_bitrate_kbps'' 1000) (\<lambda>bitrate.
        and_then (optional_int obj loc ''max_viewers'' 3) (\<lambda>viewers.
        and_then (json_at obj ''ice_servers'') (\<lambda>ice.
        and_then (parse_ice_servers ice (loc @ ''.ice_servers'')) (\<lambda>servers.
        and_then (legacy_detections obj loc send) (\<lambda>send1.
        and_then (legacy_preview obj loc preview) (\<lambda>preview1.
        if stream_id_from_name preview1 < 0 then Bad (loc @ ''.preview must be main, sub, or ai'')
        else Good
          \<lparr>wc_enable = enable, wc_signaling_url = url, wc_signaling_token = token, wc_room = room,
           wc_preview = preview1, wc_preview_stream_id = stream_id_from_name preview1,
           wc_send_detections = send1, wc_disable_twcc = twcc, wc_rolling_buffer_sec = rolling,
           wc_expected_bitrate_kbps = bitrate, wc_max_viewers = viewers,
           wc_ice_servers = servers\<rparr>)))))))))))))))"

end
