(* ===== verification/Config_Loader.thy ===== *)
theory Config_Loader
  imports Runtime_Config
begin

text \<open>
  The loaders of the configuration (src/src/config/runtime\_config.cpp): the unified file
  \<^verbatim>\<open>ipc_mini.json\<close>, the older directory of separate files, the validation both end with, and the
  resolution of the model paths.  The lemmas show what an accepted configuration guarantees, that the
  unified loader never trips an assertion of the JSON library, and where the older one does.
\<close>

section \<open>Validation\<close>

definition positive :: "int \<Rightarrow> bool" where
  "positive value \<longleftrightarrow> value > 0"

definition bad_encoder :: "encoded_stream_config \<Rightarrow> bool" where
  "bad_encoder s \<longleftrightarrow>
     \<not> supported_encoder_mode (es_mode s) \<or> \<not> positive (es_width s) \<or> \<not> positive (es_height s) \<or>
     \<not> positive (es_fps s) \<or> \<not> positive (es_bitrate_kbps s)"

definition bad_ai :: "ai_stream_config \<Rightarrow> bool" where
  "bad_ai a \<longleftrightarrow>
     ai_enable a \<and>
     (ai_engine a \<noteq> ''yolov8'' \<or> ai_model a = [] \<or> ai_acl a = [] \<or> \<not> positive (ai_width a) \<or>
      \<not> positive (ai_height a) \<or> \<not> positive (ai_fps a) \<or> ai_idle_stop_sec a < 1 \<or> ai_idle_stop_sec a > 60)"

definition bad_osd :: "time_osd_config \<Rightarrow> bool" where
  "bad_osd t \<longleftrightarrow> to_enable t \<and> (to_x t < 0 \<or> to_y t < 0 \<or> \<not> positive (to_font_size t))"

definition bad_webrtc :: "webrtc_config \<Rightarrow> bool" where
  "bad_webrtc w \<longleftrightarrow>
     \<not> (starts_with ''ws://'' (wc_signaling_url w) \<or> starts_with ''wss://'' (wc_signaling_url w)) \<or>
     wc_signaling_url w = [] \<or> length (wc_signaling_url w) > 2048 \<or>
     wc_room w = [] \<or> length (wc_room w) > 128 \<or>
     wc_preview_stream_id w < 0 \<or> wc_preview_stream_id w > 2 \<or>
     wc_rolling_buffer_sec w < 0 \<or> wc_rolling_buffer_sec w > 30 \<or>
     \<not> positive (wc_expected_bitrate_kbps w) \<or> wc_max_viewers w < 1 \<or> wc_max_viewers w > 3"

definition bad_record :: "record_section \<Rightarrow> bool" where
  "bad_record r \<longleftrightarrow>
     rs_enable r \<and>
     (rs_directory r = [] \<or> rs_stream_id r < 0 \<or> rs_stream_id r > 1 \<or>
      rs_segment_sec r < 5 \<or> rs_segment_sec r > 3600 \<or>
      rs_retain_sec r < 0 \<or> rs_retain_sec r > 7 * 24 * 3600 \<or>
      rs_max_bytes_mb r < 0 \<or> rs_max_bytes_mb r > 8192 \<or>
      (rs_upload_url r \<noteq> [] \<and> \<not> starts_with ''http://'' (rs_upload_url r)))"

definition validate_config :: "runtime_config \<Rightarrow> runtime_config outcome" where
  "validate_config c =
     (let sensor = cf_sensor c; main = ss_main (cf_streams c); sub = ss_sub (cf_streams c);
          ai = ss_ai (cf_streams c) in
      if se_name sensor = [] \<or> \<not> positive (se_width sensor) \<or> \<not> positive (se_height sensor) \<or>
         \<not> positive (se_fps sensor) \<or> \<not> es_enable main \<or> bad_encoder main \<or>
         (es_enable sub \<and> bad_encoder sub) \<or> bad_ai ai \<or> bad_webrtc (cf_webrtc c) \<or>
         bad_osd (es_osd main) \<or> bad_osd (es_osd sub) \<or> bad_record (cf_record c)
      then Bad ''configuration contains unsupported mode, URL, stream, or numeric value''
      else if ac_enable (cf_audio c) \<and> ac_codec (cf_audio c) \<noteq> ''AAC'' \<and> ac_codec (cf_audio c) \<noteq> ''G711U''
      then Bad ''audio.codec must be AAC or G711U''
      else Good c)"

section \<open>The unified file\<close>

definition load_sensor :: "json \<Rightarrow> sensor_config outcome" where
  "load_sensor sensor =
     (if \<not> is_object sensor then Bad ''ipc_mini.json: missing sensor''
      else
        and_then (required_string sensor ''sensor'' ''name'') (\<lambda>name.
        and_then (optional_int sensor ''sensor'' ''lane_mode'' 0) (\<lambda>lanes.
        and_then (required_int sensor ''sensor'' ''width'') (\<lambda>width.
        and_then (required_int sensor ''sensor'' ''height'') (\<lambda>height.
        and_then (required_int sensor ''sensor'' ''fps'') (\<lambda>fps.
        and_then (optional_int sensor ''sensor'' ''wdr'' 0) (\<lambda>wdr.
        Good \<lparr>se_name = name, se_lane_mode = lanes, se_width = width, se_height = height, se_fps = fps,
              se_wdr = wdr\<rparr>)))))))"

definition load_audio :: "json \<Rightarrow> audio_config outcome" where
  "load_audio doc =
     and_then (is_member doc ''audio'') (\<lambda>has.
     if \<not> has then Good default_audio
     else and_then (json_at doc ''audio'') (\<lambda>audio.
       if \<not> is_object audio then Bad ''audio must be an object''
       else
         and_then (optional_bool audio ''audio'' ''enable'' False) (\<lambda>enable.
         and_then (optional_bool audio ''audio'' ''microphone'' False) (\<lambda>mic.
         and_then (optional_string audio ''audio'' ''codec'' ''G711U'') (\<lambda>codec.
         Good \<lparr>ac_enable = enable, ac_microphone = mic, ac_codec = codec\<rparr>)))))"

definition sub_defaults :: encoded_stream_config where
  "sub_defaults =
     default_encoded_stream\<lparr>es_start := OnDemand, es_mode := ''inherit'', es_width := 720, es_height := 480,
                            es_bitrate_kbps := 1000\<rparr>"

text \<open>The sub stream without an overlay of its own takes the one at the top of the file.\<close>

definition shared_osd :: "json \<Rightarrow> json \<Rightarrow> streams_config \<Rightarrow> streams_config outcome" where
  "shared_osd doc sub s =
     and_then (if \<not> is_object sub then Good False else is_member sub ''osd'') (\<lambda>own.
     if own then Good s
     else and_then (is_member doc ''osd'') (\<lambda>has.
       if \<not> has then Good s
       else and_then (json_at doc ''osd'') (\<lambda>v.
            and_then (parse_osd v ''osd'') (\<lambda>osd.
            Good (s\<lparr>ss_sub := (ss_sub s)\<lparr>es_osd := osd\<rparr>\<rparr>)))))"

definition load_streams :: "json \<Rightarrow> streams_config outcome" where
  "load_streams doc =
     and_then (json_at doc ''streams'') (\<lambda>streams.
     if \<not> is_object streams then Bad ''ipc_mini.json: missing streams''
     else
       and_then (json_at streams ''main'') (\<lambda>m.
       and_then (parse_encoded_stream m ''streams.main'' default_encoded_stream) (\<lambda>main.
       and_then (json_at streams ''sub'') (\<lambda>b.
       and_then (parse_encoded_stream b ''streams.sub'' sub_defaults) (\<lambda>sub.
       and_then (json_at streams ''ai'') (\<lambda>a.
       and_then (parse_ai_stream a ''streams.ai'') (\<lambda>ai.
       and_then (shared_osd doc b \<lparr>ss_main = main, ss_sub = sub, ss_ai = ai\<rparr>) (\<lambda>s.
       Good (apply_inherit_modes s)))))))))"

text \<open>\<^verbatim>\<open>file\<close> is the older spelling of the record directory: the part before the last slash.\<close>

definition directory_of_file :: "string \<Rightarrow> string \<Rightarrow> string" where
  "directory_of_file file old =
     (if CHR ''/'' \<in> set file \<and> parent_of file \<noteq> [] then parent_of file else old)"

definition load_record_fields :: "json \<Rightarrow> string \<Rightarrow> string \<Rightarrow> bool \<Rightarrow> record_section outcome" where
  "load_record_fields rec loc directory_key has_token =
     and_then (optional_bool rec loc ''enable'' False) (\<lambda>enable.
     and_then (optional_string rec loc ''stream'' ''main'') (\<lambda>stream.
     and_then (optional_bool rec loc ''audio'' True) (\<lambda>audio.
     and_then (optional_int rec loc ''segment_sec'' 300) (\<lambda>segment.
     and_then (optional_int rec loc ''retain_sec'' 3600) (\<lambda>retain.
     and_then (optional_int rec loc ''max_bytes_mb'' 200) (\<lambda>max_mb.
     and_then (optional_string rec loc directory_key ''/mnt/record'') (\<lambda>directory.
     and_then (optional_string rec loc ''upload_url'' []) (\<lambda>url.
     and_then (if has_token then optional_string rec loc ''upload_token'' [] else Good []) (\<lambda>token.
     and_then (is_member rec ''file'') (\<lambda>has_file.
     and_then (is_member rec directory_key) (\<lambda>has_directory.
     and_then (json_at rec ''file'') (\<lambda>file.
     and_then (if has_file \<and> \<not> has_directory \<and> is_string file
               then and_then (as_string file) (\<lambda>f. Good (directory_of_file f directory))
               else Good directory) (\<lambda>directory1.
     Good \<lparr>rs_enable = enable, rs_stream = stream, rs_stream_id = stream_id_from_name stream,
           rs_audio = audio, rs_segment_sec = segment, rs_retain_sec = retain, rs_max_bytes_mb = max_mb,
           rs_directory = directory1, rs_upload_url = url, rs_upload_token = token\<rparr>)))))))))))))"

definition load_record :: "json \<Rightarrow> record_section outcome" where
  "load_record doc =
     and_then (is_member doc ''record'') (\<lambda>has.
     if \<not> has then Good default_record
     else and_then (json_at doc ''record'') (\<lambda>rec.
       if \<not> is_object rec then Bad ''record must be an object''
       else
         and_then (load_record_fields rec ''record'' ''directory'' True) (\<lambda>r.
         and_then (json_at rec ''dir'') (\<lambda>dir.
         and_then (if is_string dir then as_string dir else Good []) (\<lambda>d.
         let r1 = (if d \<noteq> [] then r\<lparr>rs_directory := d\<rparr> else r) in
         if rs_enable r1 \<and> rs_stream_id r1 < 0 then Bad ''record.stream must be main or sub''
         else Good r1)))))"

definition load_ipc_mini_json :: "config_env \<Rightarrow> string \<Rightarrow> runtime_config outcome" where
  "load_ipc_mini_json e path =
     and_then (read_json e path) (\<lambda>doc.
     if \<not> is_object doc then Bad ''ipc_mini.json: root must be an object''
     else
       and_then (json_at doc ''sensor'') (\<lambda>sn.
       and_then (load_sensor sn) (\<lambda>sensor.
       and_then (load_audio doc) (\<lambda>audio.
       and_then (load_streams doc) (\<lambda>streams.
       and_then (load_record doc) (\<lambda>rec.
       and_then (is_member doc ''webrtc'') (\<lambda>has.
       if \<not> has then Bad ''ipc_mini.json: missing webrtc''
       else
         and_then (json_at doc ''webrtc'') (\<lambda>w.
         and_then (parse_webrtc w ''webrtc'') (\<lambda>webrtc.
         validate_config
           \<lparr>cf_sensor = sensor, cf_audio = audio, cf_streams = streams, cf_record = rec,
            cf_webrtc = webrtc\<rparr>)))))))))"

section \<open>The separate files\<close>

text \<open>Reading a file and indexing its root; nothing has tested what the root is.\<close>

definition read_section :: "config_env \<Rightarrow> string \<Rightarrow> string \<Rightarrow> string \<Rightarrow> json outcome" where
  "read_section e directory file section =
     and_then (read_json e (path_join directory file)) (\<lambda>doc. json_at doc section)"

definition legacy_sensor :: "config_env \<Rightarrow> string \<Rightarrow> sensor_config outcome" where
  "legacy_sensor e directory =
     and_then (read_section e directory ''vi.json'' ''sensor1'') (\<lambda>sensor.
     if \<not> is_object sensor then Bad ''vi.json: missing sensor1''
     else
       and_then (required_string sensor ''vi.json:sensor1'' ''name'') (\<lambda>name.
       and_then (required_int sensor ''vi.json:sensor1'' ''lane_mode'') (\<lambda>lanes.
       and_then (required_int sensor ''vi.json:sensor1'' ''max_w'') (\<lambda>width.
       and_then (required_int sensor ''vi.json:sensor1'' ''max_h'') (\<lambda>height.
       and_then (required_int sensor ''vi.json:sensor1'' ''vi_fr'') (\<lambda>fps.
       and_then (required_int sensor ''vi.json:sensor1'' ''wdr_mode'') (\<lambda>wdr.
       Good \<lparr>se_name = name, se_lane_mode = lanes, se_width = width, se_height = height, se_fps = fps,
             se_wdr = wdr\<rparr>)))))))"

definition legacy_streams :: "config_env \<Rightarrow> string \<Rightarrow> streams_config outcome" where
  "legacy_streams e directory =
     and_then (read_section e directory ''venc.json'' ''venc1'') (\<lambda>enc.
     if \<not> is_object enc then Bad ''venc.json: missing venc1''
     else
       and_then (required_string enc ''venc.json:venc1'' ''name'') (\<lambda>mode.
       and_then (required_int enc ''venc.json:venc1'' ''w'') (\<lambda>width.
       and_then (required_int enc ''venc.json:venc1'' ''h'') (\<lambda>height.
       and_then (required_int enc ''venc.json:venc1'' ''fr'') (\<lambda>fps.
       and_then (required_int enc ''venc.json:venc1'' ''bitrate'') (\<lambda>bitrate.
       and_then (required_int enc ''venc.json:venc1'' ''svc_enable'') (\<lambda>svc.
       let main = default_encoded_stream
             \<lparr>es_enable := True, es_start := Boot, es_mode := mode, es_width := width, es_height := height,
              es_fps := fps, es_bitrate_kbps := bitrate, es_svc := svc \<noteq> 0\<rparr>;
           sub = default_encoded_stream
             \<lparr>es_enable := True, es_start := OnDemand, es_mode := mode, es_width := 720, es_height := 480,
              es_fps := fps, es_bitrate_kbps := 1000\<rparr>
       in Good \<lparr>ss_main = main, ss_sub = sub, ss_ai = default_ai_stream\<rparr>)))))))"

definition legacy_audio :: "config_env \<Rightarrow> string \<Rightarrow> audio_config outcome" where
  "legacy_audio e directory =
     and_then (read_section e directory ''aenc.json'' ''aenc1'') (\<lambda>audio.
     if \<not> is_object audio then Bad ''aenc.json: missing aenc1''
     else
       and_then (required_bool audio ''aenc.json:aenc1'' ''enable'') (\<lambda>enable.
       and_then (required_bool audio ''aenc.json:aenc1'' ''is_mic'') (\<lambda>mic.
       and_then (required_string audio ''aenc.json:aenc1'' ''name'') (\<lambda>codec.
       Good \<lparr>ac_enable = enable, ac_microphone = mic, ac_codec = codec\<rparr>))))"

text \<open>The section is indexed before it is tested.\<close>

definition legacy_webrtc :: "config_env \<Rightarrow> string \<Rightarrow> webrtc_config outcome" where
  "legacy_webrtc e directory =
     and_then (read_section e directory ''net_service.json'' ''net_service'') (\<lambda>services.
     and_then (json_at services ''webrtc'') (\<lambda>webrtc.
     if \<not> is_object services \<or> \<not> is_object webrtc then Bad ''net_service.json: missing webrtc''
     else parse_webrtc webrtc ''net_service.json:webrtc''))"

definition legacy_ai :: "config_env \<Rightarrow> string \<Rightarrow> ai_stream_config outcome" where
  "legacy_ai e directory =
     and_then (read_section e directory ''../yolov8/yolov8.json'' ''yolov8'') (\<lambda>y.
     if \<not> is_object y then Bad ''yolov8.json: missing yolov8''
     else
       and_then (required_bool y ''yolov8.json:yolov8'' ''enable'') (\<lambda>enable.
       and_then (required_string y ''yolov8.json:yolov8'' ''cfg_file'') (\<lambda>acl.
       and_then (required_string y ''yolov8.json:yolov8'' ''model_file'') (\<lambda>model.
       Good (default_ai_stream\<lparr>ai_enable := enable, ai_acl := acl, ai_model := model, ai_start := OnDemand,
               ai_engine := ''yolov8'', ai_width := 640, ai_height := 640, ai_fps := 1\<rparr>)))))"

definition legacy_record :: "config_env \<Rightarrow> string \<Rightarrow> record_section outcome" where
  "legacy_record e directory =
     (if \<not> ce_regular e (path_join directory ''mp4_save_info.json'') then Good default_record
      else
        and_then (read_section e directory ''mp4_save_info.json'' ''mp4_save'') (\<lambda>rec.
        if \<not> is_object rec then Bad ''mp4_save_info.json: missing mp4_save''
        else load_record_fields rec ''mp4_save_info.json:mp4_save'' ''dir'' False))"

definition load_legacy_files :: "config_env \<Rightarrow> string \<Rightarrow> runtime_config outcome" where
  "load_legacy_files e directory =
     and_then (legacy_sensor e directory) (\<lambda>sensor.
     and_then (legacy_streams e directory) (\<lambda>streams.
     and_then (legacy_audio e directory) (\<lambda>audio.
     and_then (legacy_webrtc e directory) (\<lambda>webrtc.
     and_then (and_then (read_section e directory ''osd.json'' ''time_osd'') (\<lambda>v.
                 parse_osd v ''osd.json:time_osd'')) (\<lambda>osd.
     and_then (legacy_ai e directory) (\<lambda>ai.
     and_then (legacy_record e directory) (\<lambda>rec.
     validate_config
       \<lparr>cf_sensor = sensor, cf_audio = audio,
        cf_streams = streams\<lparr>ss_sub := (ss_sub streams)\<lparr>es_osd := osd\<rparr>, ss_ai := ai\<rparr>,
        cf_record = rec, cf_webrtc = webrtc\<rparr>)))))))"

definition load_runtime_config :: "config_env \<Rightarrow> string \<Rightarrow> runtime_config outcome" where
  "load_runtime_config e directory =
     (let unified = path_join directory ''ipc_mini.json'' in
      if ce_regular e unified then load_ipc_mini_json e unified else load_legacy_files e directory)"

section \<open>Paths and summary\<close>

definition resolve_path :: "string \<Rightarrow> string \<Rightarrow> string" where
  "resolve_path install_root path =
     (if path = [] then path
      else if starts_with ''/opt/ipc_mini'' path then install_root @ drop 13 path
      else if starts_with ''/opt/zero_mini'' path then install_root @ drop 14 path
      else if hd path = CHR ''/'' then path
      else if install_root \<noteq> [] \<and> last install_root = CHR ''/'' then install_root @ path
      else install_root @ ''/'' @ path)"

definition resolve_runtime_paths :: "runtime_config \<Rightarrow> string \<Rightarrow> runtime_config" where
  "resolve_runtime_paths c install_root =
     (let s = cf_streams c; a = ss_ai s in
      c\<lparr>cf_streams := s\<lparr>ss_ai := a\<lparr>ai_model := resolve_path install_root (ai_model a),
                                      ai_acl := resolve_path install_root (ai_acl a)\<rparr>\<rparr>\<rparr>)"

definition stream_summary :: "string \<Rightarrow> encoded_stream_config \<Rightarrow> string" where
  "stream_summary name s =
     name @ '' '' @ dec_int (es_width s) @ ''x'' @ dec_int (es_height s) @ ''@'' @ dec_int (es_fps s) @ '' '' @
     stream_start_name (es_start s) @ (if to_enable (es_osd s) then '' osd'' else [])"

text \<open>\<^verbatim>\<open>snprintf\<close> cuts the line at 383 characters.\<close>

definition format_streams_summary :: "runtime_config \<Rightarrow> string" where
  "format_streams_summary c =
     (let s = cf_streams c; a = ss_ai s in
      take 383
        (stream_summary ''main'' (ss_main s) @ '' | '' @ stream_summary ''sub'' (ss_sub s) @
         '' | ai '' @ dec_int (ai_width a) @ ''x'' @ dec_int (ai_height a) @ ''@'' @ dec_int (ai_fps a) @ '' '' @
         stream_start_name (ai_start a) @ '' '' @ (if ai_enable a then ai_engine a else ''off'') @
         '' | record '' @ (if rs_enable (cf_record c) then ''on'' else ''off'')))"

section \<open>Assertions of the JSON library\<close>

lemma field_value_answered [simp]: "answered (field_value obj field)"
  by (simp add: field_value_def)

lemma field_error_nonempty [simp]: "field_error loc field what \<noteq> []"
  by (simp add: field_error_def)

text \<open>Every typed reader tests the value before it reads it.\<close>

lemma readers_answered [simp]:
  "answered (required_string obj loc field)"
  "answered (optional_string obj loc field s)"
  "answered (required_int obj loc field)"
  "answered (optional_int obj loc field i)"
  "answered (required_bool obj loc field)"
  "answered (optional_bool obj loc field b)"
  "answered (parse_start obj loc st)"
proof -
  show i: "answered (required_int obj loc field)"
    by (simp add: required_int_def Let_def split: option.split)
  show b: "answered (required_bool obj loc field)"
    by (simp add: required_bool_def Let_def split: option.split)
  show "answered (required_string obj loc field)"
    by (simp add: required_string_def Let_def split: option.split)
  show "answered (optional_string obj loc field s)"
    by (simp add: optional_string_def split: option.split)
  show "answered (optional_int obj loc field i)"
    by (simp add: optional_int_def i split: option.split)
  show "answered (optional_bool obj loc field b)"
    by (simp add: optional_bool_def b split: option.split)
  show "answered (parse_start obj loc st)"
    by (simp add: parse_start_def Let_def split: option.split)
qed

lemma parse_osd_answered [simp]: "answered (parse_osd obj loc)"
  by (simp add: parse_osd_def)

lemma parse_encoder_answered [simp]: "answered (parse_encoder obj loc d stream)"
  by (simp add: parse_encoder_def)

lemma parse_encoded_stream_answered [simp]: "answered (parse_encoded_stream obj loc d)"
  by (simp add: parse_encoded_stream_def)

lemma parse_ai_stream_answered [simp]: "answered (parse_ai_stream obj loc)"
  by (simp add: parse_ai_stream_def)

lemma parse_ice_server_answered [simp]: "answered (parse_ice_server item loc)"
  by (auto simp: parse_ice_server_def Let_def split: option.splits)

lemma parse_ice_items_answered [simp]: "answered (parse_ice_items items loc)"
  by (induction items) auto

lemma parse_webrtc_answered [simp]: "answered (parse_webrtc obj loc)"
  by (simp add: parse_webrtc_def parse_ice_servers_def legacy_detections_def legacy_preview_def)

lemma read_json_answered [simp]: "answered (read_json e path)"
  by (auto simp: read_json_def Let_def split: file_read.split sum.split)

lemma validate_config_answered [simp]: "answered (validate_config c)"
  by (simp add: validate_config_def Let_def)

lemma load_record_fields_answered [simp]:
  "is_object rec \<Longrightarrow> answered (load_record_fields rec loc key tok)"
  by (auto simp: load_record_fields_def)

lemma load_parts_answered [simp]:
  "answered (load_sensor v)"
  "is_object doc \<Longrightarrow> answered (load_audio doc)"
  "is_object doc \<Longrightarrow> answered (load_streams doc)"
  "is_object doc \<Longrightarrow> answered (load_record doc)"
  by (auto simp: load_sensor_def load_audio_def load_streams_def shared_osd_def load_record_def Let_def)

text \<open>The unified loader rejects or accepts every file; no assertion of the library can fail.\<close>

lemma load_ipc_mini_json_answered: "answered (load_ipc_mini_json e path)"
  by (auto simp: load_ipc_mini_json_def)

text \<open>The older loader may end the program, but it never fails without a message.\<close>

lemma read_section_no_silence [simp]: "no_silence (read_section e d file sect)"
  by (simp add: read_section_def answered_no_silence)

lemma load_legacy_files_no_silence: "no_silence (load_legacy_files e d)"
  by (simp add: load_legacy_files_def legacy_sensor_def legacy_streams_def legacy_audio_def
      legacy_webrtc_def legacy_ai_def legacy_record_def answered_no_silence Let_def)

text \<open>
  The loader of the separate files does not test the root of a file: a root that is an array or a
  number ends the program, and so does a section \<^verbatim>\<open>net_service\<close> that is no object, although the test
  for it stands in the next line.
\<close>

lemma legacy_root_aborts:
  assumes "read_json e (path_join d ''vi.json'') = Good doc" and "\<not> is_object doc"
  shows "load_legacy_files e d = Aborted"
proof -
  have *: "json_at doc ''sensor1'' = Aborted" using assms(2) by simp
  show ?thesis
    unfolding load_legacy_files_def legacy_sensor_def read_section_def assms(1) and_then.simps * ..
qed

lemma legacy_services_abort:
  assumes "read_section e d ''net_service.json'' ''net_service'' = Good v" and "\<not> is_object v"
  shows "legacy_webrtc e d = Aborted"
proof -
  have *: "json_at v ''webrtc'' = Aborted" using assms(2) by simp
  show ?thesis unfolding legacy_webrtc_def assms(1) and_then.simps * ..
qed

section \<open>What an accepted configuration guarantees\<close>

definition encoder_ok :: "encoded_stream_config \<Rightarrow> bool" where
  "encoder_ok s \<longleftrightarrow>
     es_mode s \<in> {''H264_CBR'', ''H264_AVBR'', ''H265_CBR'', ''H265_AVBR''} \<and>
     es_width s > 0 \<and> es_height s > 0 \<and> es_fps s > 0 \<and> es_bitrate_kbps s > 0"

definition osd_ok :: "time_osd_config \<Rightarrow> bool" where
  "osd_ok t \<longleftrightarrow> (if to_enable t then to_x t \<ge> 0 \<and> to_y t \<ge> 0 \<and> to_font_size t > 0 else True)"

definition streams_ok :: "streams_config \<Rightarrow> bool" where
  "streams_ok s \<longleftrightarrow>
     es_enable (ss_main s) \<and> encoder_ok (ss_main s) \<and> osd_ok (es_osd (ss_main s)) \<and>
     (if es_enable (ss_sub s) then encoder_ok (ss_sub s) else True) \<and> osd_ok (es_osd (ss_sub s)) \<and>
     (if ai_enable (ss_ai s)
      then ai_engine (ss_ai s) = ''yolov8'' \<and> ai_model (ss_ai s) \<noteq> [] \<and> ai_acl (ss_ai s) \<noteq> [] \<and>
        ai_width (ss_ai s) > 0 \<and> ai_height (ss_ai s) > 0 \<and> ai_fps (ss_ai s) > 0 \<and>
        1 \<le> ai_idle_stop_sec (ss_ai s) \<and> ai_idle_stop_sec (ss_ai s) \<le> 60
      else True)"

text \<open>The numbers of the streams agree with their names, and every ICE server has a usable address.\<close>

definition webrtc_ok :: "webrtc_config \<Rightarrow> bool" where
  "webrtc_ok w \<longleftrightarrow>
     (starts_with ''ws://'' (wc_signaling_url w) \<or> starts_with ''wss://'' (wc_signaling_url w)) \<and>
     length (wc_signaling_url w) \<le> 2048 \<and> 0 < length (wc_room w) \<and> length (wc_room w) \<le> 128 \<and>
     (wc_preview w, wc_preview_stream_id w) \<in> {(''main'', 0), (''sub'', 1), (''ai'', 2)} \<and>
     0 \<le> wc_rolling_buffer_sec w \<and> wc_rolling_buffer_sec w \<le> 30 \<and>
     wc_expected_bitrate_kbps w > 0 \<and> 1 \<le> wc_max_viewers w \<and> wc_max_viewers w \<le> 3 \<and>
     list_all (\<lambda>s. 0 < length (ice_urls s) \<and> length (ice_urls s) \<le> 1024) (wc_ice_servers w)"

definition record_ok :: "record_section \<Rightarrow> bool" where
  "record_ok r \<longleftrightarrow>
     rs_stream_id r = stream_id_from_name (rs_stream r) \<and>
     (if rs_enable r
      then rs_stream r \<in> {''main'', ''sub''} \<and> rs_directory r \<noteq> [] \<and>
        5 \<le> rs_segment_sec r \<and> rs_segment_sec r \<le> 3600 \<and>
        0 \<le> rs_retain_sec r \<and> rs_retain_sec r \<le> 604800 \<and>
        0 \<le> rs_max_bytes_mb r \<and> rs_max_bytes_mb r \<le> 8192 \<and>
        (rs_upload_url r = [] \<or> starts_with ''http://'' (rs_upload_url r))
      else True)"

definition config_ok :: "runtime_config \<Rightarrow> bool" where
  "config_ok c \<longleftrightarrow>
     se_name (cf_sensor c) \<noteq> [] \<and> se_width (cf_sensor c) > 0 \<and> se_height (cf_sensor c) > 0 \<and>
     se_fps (cf_sensor c) > 0 \<and>
     (if ac_enable (cf_audio c) then ac_codec (cf_audio c) \<in> {''AAC'', ''G711U''} else True) \<and>
     streams_ok (cf_streams c) \<and> webrtc_ok (cf_webrtc c) \<and> record_ok (cf_record c)"

text \<open>What the parsers establish by themselves.\<close>

lemma parse_ice_items_urls:
  "parse_ice_items items loc = Good servers \<Longrightarrow>
     list_all (\<lambda>s. 0 < length (ice_urls s) \<and> length (ice_urls s) \<le> 1024) servers"
  by (induction items arbitrary: servers) (auto simp: and_then_Good)

lemma stream_id_from_name_pairs:
  "stream_id_from_name n \<ge> 0 \<longleftrightarrow> (n, stream_id_from_name n) \<in> {(''main'', 0), (''sub'', 1), (''ai'', 2)}"
  by (auto simp: stream_id_from_name_def)

lemma parse_webrtc_established:
  assumes "parse_webrtc obj loc = Good w"
  shows "(wc_preview w, wc_preview_stream_id w) \<in> {(''main'', 0), (''sub'', 1), (''ai'', 2)}"
    and "list_all (\<lambda>s. 0 < length (ice_urls s) \<and> length (ice_urls s) \<le> 1024) (wc_ice_servers w)"
proof -
  from assms obtain ice servers where p: "parse_ice_servers ice (loc @ ''.ice_servers'') = Good servers"
      "wc_ice_servers w = servers" "stream_id_from_name (wc_preview w) \<ge> 0"
      "wc_preview_stream_id w = stream_id_from_name (wc_preview w)"
    by (fastforce simp: parse_webrtc_def and_then_Good split: if_splits)
  then show "(wc_preview w, wc_preview_stream_id w) \<in> {(''main'', 0), (''sub'', 1), (''ai'', 2)}"
    using stream_id_from_name_pairs [of "wc_preview w"] by simp
  show "list_all (\<lambda>s. 0 < length (ice_urls s) \<and> length (ice_urls s) \<le> 1024) (wc_ice_servers w)"
    using p(1,2) parse_ice_items_urls [of "json_items ice"] by (auto simp: parse_ice_servers_def split: if_splits)
qed

lemma load_record_fields_id:
  "load_record_fields rec loc key tok = Good r \<Longrightarrow> rs_stream_id r = stream_id_from_name (rs_stream r)"
  by (auto simp: load_record_fields_def and_then_Good)

lemma default_record_id [simp]: "rs_stream_id default_record = stream_id_from_name (rs_stream default_record)"
  by (simp add: default_record_def stream_id_from_name_def)

lemma load_record_id: "load_record doc = Good r \<Longrightarrow> rs_stream_id r = stream_id_from_name (rs_stream r)"
  by (auto simp: load_record_def and_then_Good Let_def dest!: load_record_fields_id split: if_splits)

text \<open>Validation and the parsers' own facts give the whole.\<close>

lemma bad_encoder_iff: "\<not> bad_encoder s \<longleftrightarrow> encoder_ok s"
  by (auto simp: bad_encoder_def encoder_ok_def supported_encoder_mode_def positive_def)

lemma bad_osd_iff: "\<not> bad_osd t \<longleftrightarrow> osd_ok t"
  by (auto simp: bad_osd_def osd_ok_def positive_def)

lemma record_ok_iff:
  "rs_stream_id r = stream_id_from_name (rs_stream r) \<Longrightarrow> \<not> bad_record r \<Longrightarrow> record_ok r"
  by (auto simp: bad_record_def record_ok_def stream_id_from_name_def split: if_splits)

lemma validate_config_ok:
  assumes "validate_config c = Good c'"
    and "(wc_preview (cf_webrtc c), wc_preview_stream_id (cf_webrtc c)) \<in> {(''main'', 0), (''sub'', 1), (''ai'', 2)}"
    and "list_all (\<lambda>s. 0 < length (ice_urls s) \<and> length (ice_urls s) \<le> 1024) (wc_ice_servers (cf_webrtc c))"
    and "rs_stream_id (cf_record c) = stream_id_from_name (rs_stream (cf_record c))"
  shows "c' = c" and "config_ok c"
proof -
  let ?s = "cf_streams c"
  show "c' = c" using assms(1) by (auto simp: validate_config_def Let_def split: if_splits)
  from assms(1) have v: "se_name (cf_sensor c) \<noteq> []" "se_width (cf_sensor c) > 0"
      "se_height (cf_sensor c) > 0" "se_fps (cf_sensor c) > 0" "es_enable (ss_main ?s)"
      "\<not> bad_encoder (ss_main ?s)" "es_enable (ss_sub ?s) \<longrightarrow> \<not> bad_encoder (ss_sub ?s)"
      "\<not> bad_ai (ss_ai ?s)" "\<not> bad_webrtc (cf_webrtc c)" "\<not> bad_osd (es_osd (ss_main ?s))"
      "\<not> bad_osd (es_osd (ss_sub ?s))" "\<not> bad_record (cf_record c)"
      "ac_enable (cf_audio c) \<longrightarrow> ac_codec (cf_audio c) \<in> {''AAC'', ''G711U''}"
    by (auto simp: validate_config_def Let_def positive_def split: if_splits)
  have "webrtc_ok (cf_webrtc c)"
    using v(9) assms(2,3) by (auto simp: bad_webrtc_def webrtc_ok_def positive_def)
  moreover have "streams_ok ?s"
    using v(5-8,10,11) by (auto simp: streams_ok_def bad_encoder_iff bad_osd_iff bad_ai_def positive_def)
  ultimately show "config_ok c"
    using v(1-4,13) record_ok_iff [OF assms(4) v(12)] by (simp add: config_ok_def)
qed

lemma assembled_config_ok:
  assumes "validate_config \<lparr>cf_sensor = sn, cf_audio = au, cf_streams = st, cf_record = r, cf_webrtc = w\<rparr> = Good c"
    and "parse_webrtc obj loc = Good w" and "rs_stream_id r = stream_id_from_name (rs_stream r)"
  shows "config_ok c"
  using validate_config_ok [OF assms(1)] parse_webrtc_established [OF assms(2)] assms(3) by simp

lemma load_ipc_mini_json_ok: "load_ipc_mini_json e path = Good c \<Longrightarrow> config_ok c"
  by (auto simp: load_ipc_mini_json_def and_then_Good intro: assembled_config_ok load_record_id
      split: if_splits)

lemma legacy_webrtc_parsed: "legacy_webrtc e d = Good w \<Longrightarrow> \<exists>obj loc. parse_webrtc obj loc = Good w"
  by (auto simp: legacy_webrtc_def and_then_Good split: if_splits)

lemma legacy_record_id: "legacy_record e d = Good r \<Longrightarrow> rs_stream_id r = stream_id_from_name (rs_stream r)"
  by (auto simp: legacy_record_def and_then_Good dest!: load_record_fields_id split: if_splits)

lemma load_legacy_files_ok: "load_legacy_files e d = Good c \<Longrightarrow> config_ok c"
  by (auto simp: load_legacy_files_def and_then_Good dest!: legacy_webrtc_parsed
      intro: assembled_config_ok legacy_record_id)

lemmas load_runtime_config_cases = load_ipc_mini_json_ok load_legacy_files_ok

lemma load_runtime_config_ok: "load_runtime_config e d = Good c \<Longrightarrow> config_ok c"
  by (auto simp: load_runtime_config_def Let_def intro: load_runtime_config_cases split: if_splits)

lemma load_runtime_config_message: "load_runtime_config e d = Bad msg \<Longrightarrow> msg \<noteq> []"
  using load_ipc_mini_json_answered [of e "path_join d ''ipc_mini.json''"] load_legacy_files_no_silence [of e d]
  by (auto simp: load_runtime_config_def Let_def split: if_splits)

lemma load_runtime_config_aborted:
  "load_runtime_config e d = Aborted \<Longrightarrow> \<not> ce_regular e (path_join d ''ipc_mini.json'')"
  using load_ipc_mini_json_answered [of e "path_join d ''ipc_mini.json''"]
  by (auto simp: load_runtime_config_def Let_def)

text \<open>
  The tests for a missing section never fire, because a missing section reads as null, which counts as
  an object.  A missing \<^verbatim>\<open>sensor\<close> is then reported as a missing name; a file without \<^verbatim>\<open>streams\<close> is
  accepted, with the defaults.
\<close>

lemmas null_readers = required_string_def optional_string_def required_int_def optional_int_def
  required_bool_def optional_bool_def parse_start_def field_value_def

lemma missing_sensor_message:
  "load_sensor Json_Null = Bad ''sensor.name must be a non-empty string''"
  by (simp add: load_sensor_def null_readers field_error_def Let_def)

lemma missing_streams_accepted:
  assumes "map_of ms ''streams'' = None" and "map_of ms ''osd'' = None"
  shows "load_streams (Json_Object ms) =
    Good \<lparr>ss_main = default_encoded_stream, ss_sub = sub_defaults\<lparr>es_mode := ''H264_CBR''\<rparr>,
          ss_ai = default_ai_stream\<rparr>"
  using assms
  by (simp add: load_streams_def shared_osd_def parse_encoded_stream_def parse_encoder_def
      parse_ai_stream_def apply_inherit_modes_def null_readers sub_defaults_def default_encoded_stream_def
      default_ai_stream_def)

text \<open>
  Two gaps of the accepted configurations.  The path test of the two old install directories has no
  word boundary; and the bit rate has no upper bound, although it is multiplied by 1000 in 32 bits.
\<close>

lemma resolve_path_no_boundary:
  "resolve_path ''/root'' ''/opt/ipc_mini_backup/m.om'' = ''/root_backup/m.om''"
  by (simp add: resolve_path_def starts_with_def)

lemma resolve_path_relative:
  "p \<noteq> [] \<Longrightarrow> hd p \<noteq> CHR ''/'' \<Longrightarrow> r \<noteq> [] \<Longrightarrow> last r \<noteq> CHR ''/'' \<Longrightarrow> resolve_path r p = r @ ''/'' @ p"
  by (cases p) (auto simp: resolve_path_def starts_with_def)

end
