(* ===== verification/Signaling_Json.thy ===== *)
theory Signaling_Json
  imports Json_Value Record_Path
begin

text \<open>
  The JSON helpers of the signalling (src/protocol/webrtc/signaling\_json.h,
  src/protocol/webrtc/signaling\_json.cpp), and the part of the JSON reader that reads a string
  (\<^verbatim>\<open>readString\<close>, \<^verbatim>\<open>decodeString\<close> and what they call in src/3rdpart/jsoncpp/json\_reader.cpp).  A character
  is a byte.  The main lemma: a string that the program escapes and puts between quotes is found and
  decoded by the reader as it was, so no content can end the string early.
\<close>

section \<open>Escaping\<close>

definition byte_of :: "char \<Rightarrow> nat" where
  "byte_of c = of_char c"

definition byte_char :: "nat \<Rightarrow> char" where
  "byte_char n = char_of n"

text \<open>The digit of a table of hexadecimal digits.\<close>

definition hex_digit :: "nat \<Rightarrow> char" where
  "hex_digit n = ''0123456789abcdef'' ! n"

definition append_hex_escape :: "nat \<Rightarrow> string" where
  "append_hex_escape value =
     [CHR 0x5C, CHR ''u'', CHR ''0'', CHR ''0'', hex_digit (value div 16), hex_digit (value mod 16)]"

definition escape_char :: "char \<Rightarrow> string" where
  "escape_char c =
     (if c = CHR 0x5C then [CHR 0x5C, CHR 0x5C]
      else if c = CHR 0x22 then [CHR 0x5C, CHR 0x22]
      else if c = CHR 0x08 then [CHR 0x5C, CHR ''b'']
      else if c = CHR 0x0C then [CHR 0x5C, CHR ''f'']
      else if c = CHR 0x0A then [CHR 0x5C, CHR ''n'']
      else if c = CHR 0x0D then [CHR 0x5C, CHR ''r'']
      else if c = CHR 0x09 then [CHR 0x5C, CHR ''t'']
      else if byte_of c < 32 then append_hex_escape (byte_of c)
      else [c])"

definition json_escape_string :: "string \<Rightarrow> string" where
  "json_escape_string value = concat (map escape_char value)"

section \<open>The reader of strings\<close>

text \<open>
  \<open>read_string\<close> starts behind the opening quote; the result is the text up to the closing quote and what
  follows it.  A backslash takes the next character with it.
\<close>

fun read_string :: "string \<Rightarrow> (string \<times> string) option" where
  "read_string [] = None"
| "read_string (c # s) =
     (if c = CHR 0x5C
      then (case s of
              [] \<Rightarrow> None
            | d # s1 \<Rightarrow> map_option (\<lambda>(t, r). (c # d # t, r)) (read_string s1))
      else if c = CHR 0x22 then Some ([], s)
      else map_option (\<lambda>(t, r). (c # t, r)) (read_string s))"

definition hex_value :: "char \<Rightarrow> nat option" where
  "hex_value c =
     (if 48 \<le> byte_of c \<and> byte_of c \<le> 57 then Some (byte_of c - 48)
      else if 97 \<le> byte_of c \<and> byte_of c \<le> 102 then Some (byte_of c - 97 + 10)
      else if 65 \<le> byte_of c \<and> byte_of c \<le> 70 then Some (byte_of c - 65 + 10)
      else None)"

text \<open>\<^verbatim>\<open>decodeUnicodeEscapeSequence\<close>: four hexadecimal digits.\<close>

definition decode_unicode_escape :: "string \<Rightarrow> (nat \<times> string) option" where
  "decode_unicode_escape s =
     (case s of
        a # b # c # d # rest \<Rightarrow>
          (case (hex_value a, hex_value b, hex_value c, hex_value d) of
             (Some w, Some x, Some y, Some z) \<Rightarrow> Some (((w * 16 + x) * 16 + y) * 16 + z, rest)
           | _ \<Rightarrow> None)
      | _ \<Rightarrow> None)"

text \<open>
  \<^verbatim>\<open>decodeUnicodeCodePoint\<close>: a high surrogate takes the next escape sequence with it, whatever its value;
  without a further one the reader refuses.
\<close>

definition decode_code_point :: "string \<Rightarrow> (nat \<times> string) option" where
  "decode_code_point s =
     (case decode_unicode_escape s of
        None \<Rightarrow> None
      | Some (u, rest) \<Rightarrow>
          if 0xD800 \<le> u \<and> u \<le> 0xDBFF
          then
            if length rest < 6 then None
            else if rest ! 0 = CHR 0x5C \<and> rest ! 1 = CHR ''u''
            then (case decode_unicode_escape (drop 2 rest) of
                    None \<Rightarrow> None
                  | Some (v, rest1) \<Rightarrow> Some (0x10000 + (u mod 1024) * 1024 + v mod 1024, rest1))
            else None
          else Some (u, rest))"

definition code_point_to_utf8 :: "nat \<Rightarrow> string" where
  "code_point_to_utf8 cp =
     (if cp \<le> 0x7F then [byte_char cp]
      else if cp \<le> 0x7FF then [byte_char (0xC0 + cp div 64 mod 32), byte_char (0x80 + cp mod 64)]
      else if cp \<le> 0xFFFF
      then [byte_char (0xE0 + cp div 4096 mod 16), byte_char (0x80 + cp div 64 mod 64), byte_char (0x80 + cp mod 64)]
      else if cp \<le> 0x10FFFF
      then [byte_char (0xF0 + cp div 262144 mod 8), byte_char (0x80 + cp div 4096 mod 64),
            byte_char (0x80 + cp div 64 mod 64), byte_char (0x80 + cp mod 64)]
      else [])"

lemma decode_unicode_escape_shorter:
  "decode_unicode_escape s = Some (u, rest) \<Longrightarrow> length rest < length s"
  by (auto simp: decode_unicode_escape_def split: list.splits option.splits)

lemma decode_code_point_shorter:
  assumes "decode_code_point s = Some (u, rest)"
  shows "length rest < length s"
proof -
  obtain u1 r1 where 1: "decode_unicode_escape s = Some (u1, r1)"
    using assms by (auto simp: decode_code_point_def split: option.splits)
  have "length rest \<le> length r1"
    using assms 1 decode_unicode_escape_shorter [of "drop 2 r1"]
    by (force simp: decode_code_point_def split: option.splits if_splits)
  with decode_unicode_escape_shorter [OF 1] show ?thesis by simp
qed

text \<open>\<^verbatim>\<open>decodeString\<close> on the text between the quotes; \<open>None\<close> is a refusal.\<close>

definition simple_escape :: "char \<Rightarrow> char option" where
  "simple_escape e =
     (if e = CHR 0x22 \<or> e = CHR ''/'' \<or> e = CHR 0x5C then Some e
      else if e = CHR ''b'' then Some (CHR 0x08)
      else if e = CHR ''f'' then Some (CHR 0x0C)
      else if e = CHR ''n'' then Some (CHR 0x0A)
      else if e = CHR ''r'' then Some (CHR 0x0D)
      else if e = CHR ''t'' then Some (CHR 0x09)
      else None)"

function decode_string :: "string \<Rightarrow> string option" where
  "decode_string s =
     (case s of
        [] \<Rightarrow> Some []
      | c # s1 \<Rightarrow>
          if c = CHR 0x22 then Some []
          else if c = CHR 0x5C
          then
            (case s1 of
               [] \<Rightarrow> None
             | e # s2 \<Rightarrow>
                 if e = CHR ''u''
                 then (case decode_code_point s2 of
                         None \<Rightarrow> None
                       | Some (u, s3) \<Rightarrow> map_option (\<lambda>t. code_point_to_utf8 u @ t) (decode_string s3))
                 else (case simple_escape e of
                         None \<Rightarrow> None
                       | Some d \<Rightarrow> map_option (\<lambda>t. d # t) (decode_string s2)))
          else map_option (\<lambda>t. c # t) (decode_string s1))"
  by auto

termination
  by (relation "measure length") (auto dest!: decode_code_point_shorter)

declare decode_string.simps [simp del]

section \<open>Fields of a message\<close>

definition get_member :: "json \<Rightarrow> string \<Rightarrow> json outcome" where
  "get_member obj field =
     (if \<not> is_object obj then Bad ''message must be a JSON object''
      else and_then (is_member obj field) (\<lambda>m.
             if \<not> m then Bad (''missing field: '' @ field) else json_at obj field))"

definition get_required_string :: "json \<Rightarrow> string \<Rightarrow> string outcome" where
  "get_required_string obj field =
     (let bad = Bad (''field must be a non-empty string: '' @ field) in
      and_then (get_member obj field) (\<lambda>v.
        if \<not> is_string v then bad
        else and_then (as_string v) (\<lambda>s. if s = [] then bad else Good s)))"

definition get_optional_string :: "json \<Rightarrow> string \<Rightarrow> string outcome" where
  "get_optional_string obj field =
     (if \<not> is_object obj then Bad ''message must be a JSON object''
      else and_then (is_member obj field) (\<lambda>m.
             if \<not> m then Good []
             else and_then (json_at obj field) (\<lambda>v.
                    if \<not> is_string v then Bad (''field must be a string: '' @ field) else as_string v)))"

definition get_optional_int :: "json \<Rightarrow> string \<Rightarrow> int \<Rightarrow> int outcome" where
  "get_optional_int obj field old =
     (if \<not> is_object obj then Bad ''message must be a JSON object''
      else and_then (is_member obj field) (\<lambda>m.
             if \<not> m then Good old
             else and_then (json_at obj field) (\<lambda>v.
                    if \<not> is_int v then Bad (''field must be an integer: '' @ field) else as_int v)))"

text \<open>The parser of the library is a parameter: its errors, or a value.\<close>

definition parse_json_object :: "(string \<Rightarrow> string + json) \<Rightarrow> string \<Rightarrow> json outcome" where
  "parse_json_object parse txt =
     (if txt = [] \<or> length txt > 512 * 1024 then Bad ''message size is invalid''
      else
        (case parse txt of
           Inl msgs \<Rightarrow> Bad (if msgs = [] then ''message must be a JSON object'' else msgs)
         | Inr v \<Rightarrow> if is_object v then Good v else Bad ''message must be a JSON object''))"

text \<open>No reader trips an assertion of the library, on any value.\<close>

lemma getters_answered [simp]:
  "answered (get_member obj field)" "answered (get_required_string obj field)"
  "answered (get_optional_string obj field)" "answered (get_optional_int obj field i)"
  "answered (parse_json_object parse txt)"
  by (auto simp: get_member_def get_required_string_def get_optional_string_def get_optional_int_def
      parse_json_object_def Let_def split: sum.split)

lemma get_required_string_nonempty: "get_required_string obj field = Good s \<Longrightarrow> s \<noteq> []"
  by (auto simp: get_required_string_def Let_def and_then_Good split: if_splits)

section \<open>Escaping and reading\<close>

lemma byte_of_less: "byte_of c < 256"
  by (simp add: byte_of_def)

lemma byte_char_of [simp]: "byte_char (byte_of c) = c"
  by (simp add: byte_of_def byte_char_def)

lemma hex_digits:
  "list_all (\<lambda>n. hex_value (hex_digit n) = Some n \<and> hex_digit n \<noteq> CHR 0x5C \<and> hex_digit n \<noteq> CHR 0x22) [0..<16]"
  by code_simp

lemma hex_digit_value: "n < 16 \<Longrightarrow> hex_value (hex_digit n) = Some n"
  and hex_digit_plain: "n < 16 \<Longrightarrow> hex_digit n \<noteq> CHR 0x5C \<and> hex_digit n \<noteq> CHR 0x22"
  using hex_digits by (simp_all add: list_all_iff)

lemma decode_append_hex_escape:
  assumes "n < 32"
  shows "decode_unicode_escape (drop 2 (append_hex_escape n) @ s) = Some (n, s)"
proof -
  have "n div 16 < 16" "n mod 16 < 16" using assms by auto
  moreover have "hex_value CHR ''0'' = Some 0" by (simp add: hex_value_def byte_of_def)
  ultimately show ?thesis
    using assms by (simp add: decode_unicode_escape_def append_hex_escape_def hex_digit_value)
qed

text \<open>One character: what the reader makes of its escaped form.\<close>

lemma decode_escape_char:
  "decode_string (escape_char c @ s) = map_option (\<lambda>t. c # t) (decode_string s)"
proof (cases "escape_char c = append_hex_escape (byte_of c) \<and> byte_of c < 32")
  case True
  let ?t = "drop 2 (append_hex_escape (byte_of c)) @ s"
  have "decode_code_point ?t = Some (byte_of c, s)"
    using True by (simp add: decode_code_point_def decode_append_hex_escape)
  moreover have *: "escape_char c @ s = CHR 0x5C # CHR ''u'' # ?t"
    using True by (simp add: append_hex_escape_def)
  moreover have "code_point_to_utf8 (byte_of c) = [c]"
    using True by (simp add: code_point_to_utf8_def)
  ultimately show ?thesis
    unfolding * by (subst decode_string.simps) (simp, rule option.map_cong, simp_all)
next
  case False
  then show ?thesis
    by (subst decode_string.simps) (auto simp: escape_char_def simple_escape_def split: if_splits)
qed

lemma read_escape_char:
  "read_string (escape_char c @ s) = map_option (\<lambda>(t, r). (escape_char c @ t, r)) (read_string s)"
proof (cases "escape_char c = append_hex_escape (byte_of c) \<and> byte_of c < 32")
  case True
  then have "byte_of c div 16 < 16" "byte_of c mod 16 < 16" by auto
  from hex_digit_plain [OF this(1)] hex_digit_plain [OF this(2)] True show ?thesis
    by (simp add: append_hex_escape_def option.map_comp comp_def case_prod_unfold)
next
  case False
  then show ?thesis
    by (auto simp: escape_char_def option.map_comp comp_def case_prod_unfold split: if_splits)
qed

lemma json_escape_Cons: "json_escape_string (c # s) = escape_char c @ json_escape_string s"
  by (simp add: json_escape_string_def)

lemma json_escape_Nil [simp]: "json_escape_string [] = []"
  by (simp add: json_escape_string_def)

lemma decode_json_escape: "decode_string (json_escape_string s) = Some s"
  by (induction s) (simp_all add: json_escape_Cons decode_escape_char decode_string.simps [of "[]"])

lemma read_json_escape: "read_string (json_escape_string s @ CHR 0x22 # rest) = Some (json_escape_string s, rest)"
  by (induction s) (simp_all add: json_escape_Cons read_escape_char)

section \<open>Properties\<close>

text \<open>
  C29: the strings of the messages survive the way to the peer: a value that the program escapes and
  closes with a quote is read up to exactly that quote, whatever bytes it holds and whatever follows, and
  decodes to the value.  No room name, identifier or session description can add fields to a message.
\<close>

theorem json_string_roundtrip:
  "\<exists>body. read_string (json_escape_string s @ [CHR 0x22] @ rest) = Some (body, rest) \<and>
     decode_string body = Some s"
  by (simp add: read_json_escape decode_json_escape)

end
