(* ===== verification/Webrtc_Sessions.thy ===== *)
theory Webrtc_Sessions
  imports Media_Source Detection_Source Runtime_Config Signaling_Json
begin

text \<open>
  The viewer sessions of the WebRTC plugin (src/protocol/webrtc/webrtc\_plugin\_impl.h,
  src/protocol/webrtc/webrtc\_session.cpp, src/protocol/webrtc/webrtc\_media.cpp, and the bounds and options
  of src/protocol/webrtc/webrtc\_runtime.cpp): who watches, what waits for each viewer, and which
  subscriptions the plugin holds for them.

  The sessions are changed on one thread, that of the signalling poller; frames and detections come from
  other threads and are sent by a worker.  The mutex makes each locked section atomic, so an operation is
  a function on the state.  Where an operation looks at the running flag again after other work, the
  stop of another thread may have come between: the model takes what it sees as an argument.  A peer
  connection of the vendored SDK is a number; its answers are the parameter \<open>webrtc_env\<close>, and what is
  done with it is recorded in \<open>wi_log\<close>.
\<close>

section \<open>State\<close>

record webrtc_options =
  wo_signaling_url :: string
  wo_signaling_token :: string
  wo_room :: string
  wo_preview_stream_id :: int
  wo_detections_enabled :: bool
  wo_disable_twcc :: bool
  wo_rolling_buffer_sec :: int
  wo_expected_bitrate_bps :: int
  wo_max_viewers :: int
  wo_ice_servers :: "ice_server_config list"

definition kMaxViewerLimit :: nat where "kMaxViewerLimit = 3"
definition kVideoQueueFrames :: nat where "kVideoQueueFrames = 4"
definition kVideoQueueBytes :: nat where "kVideoQueueBytes = 128 * 1024"
definition kAudioQueueFrames :: nat where "kAudioQueueFrames = 16"
definition kAudioQueueBytes :: nat where "kAudioQueueBytes = 16 * 1024"
definition kPendingCandidateLimit :: nat where "kPendingCandidateLimit = 32"

record pending_candidate =
  pc_candidate :: string
  pc_mid :: string

record 'r viewer_session =
  vs_viewer_id :: string
  vs_peer :: nat
  vs_remote_description_ready :: bool
  vs_video_queue :: "media_frame list"
  vs_audio_queue :: "media_frame list"
  vs_video_bytes :: nat
  vs_audio_bytes :: nat
  vs_latest_detection :: "'r option"
  vs_connected :: bool

datatype webrtc_event =
    Peer_Start nat
  | Peer_Offer nat string
  | Peer_Candidate nat string string
  | Peer_Reap nat
  | Keyframe_Request
  | Drain_Posted

record ('h, 'd, 'r) webrtc_impl =
  wi_options :: webrtc_options
  wi_media :: "'h media_source option"
  wi_detection_source :: "'d detection_source option"
  wi_viewers :: "(string \<times> 'r viewer_session) list"
  wi_pending_candidates :: "(string \<times> pending_candidate list) list"
  wi_video_sub :: u64
  wi_ai_hold_sub :: u64
  wi_detect_sub :: u64
  wi_video_queue_limit :: nat
  wi_drain_scheduled :: bool
  wi_keyframe_pending :: bool
  wi_running :: bool
  wi_next_peer :: nat
  wi_log :: "webrtc_event list"

record ('h, 'd) webrtc_env =
  we_frame_handler :: 'h
  we_ai_handler :: 'h
  we_detection_handler :: 'd
  we_peer_start :: "nat \<Rightarrow> bool"
  we_remote_offer :: "nat \<Rightarrow> string \<Rightarrow> bool"

text \<open>The plugin as its constructor leaves it.\<close>

definition new_webrtc_impl :: "webrtc_options \<Rightarrow> ('h, 'd, 'r) webrtc_impl" where
  "new_webrtc_impl opts =
     \<lparr>wi_options = opts, wi_media = None, wi_detection_source = None, wi_viewers = [],
      wi_pending_candidates = [], wi_video_sub = 0, wi_ai_hold_sub = 0, wi_detect_sub = 0,
      wi_video_queue_limit = kVideoQueueBytes, wi_drain_scheduled = False, wi_keyframe_pending = False,
      wi_running = False, wi_next_peer = 0, wi_log = []\<rparr>"

definition new_viewer :: "string \<Rightarrow> nat \<Rightarrow> 'r viewer_session" where
  "new_viewer i p =
     \<lparr>vs_viewer_id = i, vs_peer = p, vs_remote_description_ready = False, vs_video_queue = [],
      vs_audio_queue = [], vs_video_bytes = 0, vs_audio_bytes = 0, vs_latest_detection = None,
      vs_connected = False\<rparr>"

section \<open>Ordered maps\<close>

text \<open>A \<^verbatim>\<open>std::map\<close> with string keys: its entries in the order of the bytes of the keys.\<close>

fun bytes_less :: "string \<Rightarrow> string \<Rightarrow> bool" where
  "bytes_less s [] = False"
| "bytes_less [] (b # bs) = True"
| "bytes_less (a # as) (b # bs) = (byte_of a < byte_of b \<or> a = b \<and> bytes_less as bs)"

fun map_insert :: "string \<Rightarrow> 'v \<Rightarrow> (string \<times> 'v) list \<Rightarrow> (string \<times> 'v) list" where
  "map_insert k v [] = [(k, v)]"
| "map_insert k v ((l, w) # m) = (if bytes_less k l then (k, v) # (l, w) # m else (l, w) # map_insert k v m)"

definition map_emplace :: "string \<Rightarrow> 'v \<Rightarrow> (string \<times> 'v) list \<Rightarrow> (string \<times> 'v) list" where
  "map_emplace k v m = (if k \<in> fst ` set m then m else map_insert k v m)"

definition map_erase :: "string \<Rightarrow> (string \<times> 'v) list \<Rightarrow> (string \<times> 'v) list" where
  "map_erase k m = filter (\<lambda>e. fst e \<noteq> k) m"

definition map_change :: "string \<Rightarrow> ('v \<Rightarrow> 'v) \<Rightarrow> (string \<times> 'v) list \<Rightarrow> (string \<times> 'v) list" where
  "map_change k f m = map (\<lambda>(l, v). (l, if l = k then f v else v)) m"

lemma set_map_insert [simp]: "set (map_insert k v m) = insert (k, v) (set m)"
  by (induction k v m rule: map_insert.induct) auto

lemma length_map_insert [simp]: "length (map_insert k v m) = Suc (length m)"
  by (induction k v m rule: map_insert.induct) auto

lemma distinct_map_insert: "distinct (map fst m) \<Longrightarrow> k \<notin> fst ` set m \<Longrightarrow> distinct (map fst (map_insert k v m))"
  by (induction k v m rule: map_insert.induct) auto

lemma map_emplace_facts:
  "distinct (map fst m) \<Longrightarrow> distinct (map fst (map_emplace k v m))"
  "length (map_emplace k v m) \<le> Suc (length m)"
  "set (map_emplace k v m) \<subseteq> insert (k, v) (set m)"
  by (auto simp: map_emplace_def distinct_map_insert)

lemma map_erase_facts [simp]:
  "distinct (map fst m) \<Longrightarrow> distinct (map fst (map_erase k m))"
  "length (map_erase k m) \<le> length m"
  "set (map_erase k m) = {e \<in> set m. fst e \<noteq> k}"
  by (auto simp: map_erase_def distinct_map_filter)

lemma length_map_erase_le: "length m \<le> n \<Longrightarrow> length (map_erase k m) \<le> n"
  using map_erase_facts(2) [of k m] by (rule order_trans)

lemma map_change_facts [simp]:
  "map fst (map_change k f m) = map fst m"
  "length (map_change k f m) = length m"
  by (auto simp: map_change_def)

section \<open>Subscriptions\<close>

definition viewer_limit :: "webrtc_options \<Rightarrow> nat" where
  "viewer_limit opts = min kMaxViewerLimit (nat (max (wo_max_viewers opts) 1))"

definition any_connected :: "('h, 'd, 'r) webrtc_impl \<Rightarrow> bool" where
  "any_connected st \<longleftrightarrow> list_ex (\<lambda>e. vs_connected (snd e)) (wi_viewers st)"

text \<open>What another thread's stop does between two looks at the running flag.\<close>

definition look_again :: "bool \<Rightarrow> ('h, 'd, 'r) webrtc_impl \<Rightarrow> ('h, 'd, 'r) webrtc_impl" where
  "look_again still st = (if still then st else st\<lparr>wi_running := False\<rparr>)"

definition log_event :: "webrtc_event \<Rightarrow> ('h, 'd, 'r) webrtc_impl \<Rightarrow> ('h, 'd, 'r) webrtc_impl" where
  "log_event ev st = st\<lparr>wi_log := wi_log st @ [ev]\<rparr>"

definition start_uplink ::
  "('h, 'd) webrtc_env \<Rightarrow> bool \<Rightarrow> ('h, 'd, 'r) webrtc_impl \<Rightarrow> bool \<times> ('h, 'd, 'r) webrtc_impl" where
  "start_uplink e still st =
     (if wi_video_sub st \<noteq> 0 then (True, st)
      else
        case wi_media st of
          None \<Rightarrow> (False, st)
        | Some media \<Rightarrow>
            let preview = wo_preview_stream_id (wi_options st);
                (sub, media1) = subscribe preview (Some (we_frame_handler e)) media;
                st1 = st\<lparr>wi_media := Some media1\<rparr>
            in if sub = 0 then (False, st1)
               else
                 let st2 = look_again still st1
                 in if wi_running st2 \<and> wi_video_sub st2 = 0 then (True, st2\<lparr>wi_video_sub := sub\<rparr>)
                    else (False, st2\<lparr>wi_media := Some (unsubscribe preview sub media1)\<rparr>))"

definition start_ai_uplink ::
  "('h, 'd) webrtc_env \<Rightarrow> bool \<Rightarrow> ('h, 'd, 'r) webrtc_impl \<Rightarrow> ('h, 'd, 'r) webrtc_impl" where
  "start_ai_uplink e still st =
     (if \<not> wo_detections_enabled (wi_options st) then st
      else if wi_ai_hold_sub st \<noteq> 0 then st
      else
        case (wi_media st, wi_detection_source st) of
          (Some media, Some dets) \<Rightarrow>
            let (dsub, dets1) = ds_subscribe (Some (we_detection_handler e)) dets;
                (asub, media1) = subscribe 2 (Some (we_ai_handler e)) media;
                st1 = st\<lparr>wi_media := Some media1, wi_detection_source := Some dets1\<rparr>;
                undo_det = (\<lambda>s. s\<lparr>wi_detection_source :=
                              Some (if dsub \<noteq> 0 then ds_unsubscribe dsub dets1 else dets1)\<rparr>)
            in if asub = 0 then undo_det st1
               else
                 let st2 = look_again still st1
                 in if wi_running st2 \<and> any_connected st2 \<and> wi_ai_hold_sub st2 = 0
                    then st2\<lparr>wi_ai_hold_sub := asub, wi_detect_sub := dsub\<rparr>
                    else undo_det (st2\<lparr>wi_media := Some (unsubscribe 2 asub media1)\<rparr>)
        | _ \<Rightarrow> st)"

definition request_preview_keyframe :: "('h, 'd, 'r) webrtc_impl \<Rightarrow> ('h, 'd, 'r) webrtc_impl" where
  "request_preview_keyframe st = (if wi_media st = None then st else log_event Keyframe_Request st)"

section \<open>Viewers\<close>

definition queue_reap :: "nat \<Rightarrow> ('h, 'd, 'r) webrtc_impl \<Rightarrow> ('h, 'd, 'r) webrtc_impl" where
  "queue_reap p st = log_event (Peer_Reap p) st"

definition release_stream :: "int \<Rightarrow> u64 \<Rightarrow> ('h, 'd, 'r) webrtc_impl \<Rightarrow> ('h, 'd, 'r) webrtc_impl" where
  "release_stream sid sub st =
     (if sub = 0 then st else st\<lparr>wi_media := map_option (unsubscribe sid sub) (wi_media st)\<rparr>)"

definition release_detections :: "u64 \<Rightarrow> ('h, 'd, 'r) webrtc_impl \<Rightarrow> ('h, 'd, 'r) webrtc_impl" where
  "release_detections sub st =
     (if sub = 0 then st
      else st\<lparr>wi_detection_source := map_option (ds_unsubscribe sub) (wi_detection_source st)\<rparr>)"

text \<open>The locked section of \<^verbatim>\<open>remove_viewer\<close> for a viewer that exists: what is to be released, and the state.\<close>

definition forget_viewer ::
  "string \<Rightarrow> ('h, 'd, 'r) webrtc_impl \<Rightarrow> u64 \<times> u64 \<times> u64 \<times> ('h, 'd, 'r) webrtc_impl" where
  "forget_viewer i st =
     (let st1 = st\<lparr>wi_viewers := map_erase i (wi_viewers st),
                   wi_pending_candidates := map_erase i (wi_pending_candidates st)\<rparr>;
          (det, ai, st2) = (if any_connected st1 then (0, 0, st1)
                            else (wi_detect_sub st1, wi_ai_hold_sub st1,
                                  st1\<lparr>wi_ai_hold_sub := 0, wi_detect_sub := 0\<rparr>));
          (vid, st3) = (if wi_viewers st2 = []
                        then (wi_video_sub st2, st2\<lparr>wi_video_sub := 0, wi_drain_scheduled := False\<rparr>)
                        else (0, st2))
      in (det, ai, vid, st3))"

definition remove_viewer :: "string \<Rightarrow> ('h, 'd, 'r) webrtc_impl \<Rightarrow> ('h, 'd, 'r) webrtc_impl" where
  "remove_viewer i st =
     (case map_of (wi_viewers st) i of
        None \<Rightarrow> st
      | Some v \<Rightarrow>
          let (det, ai, vid, st1) = forget_viewer i st;
              st2 = release_detections det st1;
              st3 = release_stream 2 ai st2;
              st4 = release_stream (wo_preview_stream_id (wi_options st3)) vid st3
          in queue_reap (vs_peer v) st4)"

definition remove_all_viewers :: "('h, 'd, 'r) webrtc_impl \<Rightarrow> ('h, 'd, 'r) webrtc_impl" where
  "remove_all_viewers st = fold remove_viewer (map fst (wi_viewers st)) st"

text \<open>The candidates that came before the offer, taken out of the table and handed to the peer.\<close>

definition flush_candidates :: "string \<Rightarrow> nat \<Rightarrow> ('h, 'd, 'r) webrtc_impl \<Rightarrow> ('h, 'd, 'r) webrtc_impl" where
  "flush_candidates i p st =
     (let queued = (case map_of (wi_pending_candidates st) i of None \<Rightarrow> [] | Some q \<Rightarrow> q)
      in st\<lparr>wi_viewers := map_change i (\<lambda>v. v\<lparr>vs_remote_description_ready := True\<rparr>) (wi_viewers st),
            wi_pending_candidates := map_erase i (wi_pending_candidates st),
            wi_log := wi_log st @ map (\<lambda>c. Peer_Candidate p (pc_candidate c) (pc_mid c)) queued\<rparr>)"

definition create_viewer ::
  "('h, 'd) webrtc_env \<Rightarrow> bool \<Rightarrow> bool \<Rightarrow> string \<Rightarrow> string \<Rightarrow> ('h, 'd, 'r) webrtc_impl \<Rightarrow>
     bool \<times> ('h, 'd, 'r) webrtc_impl" where
  "create_viewer e still1 still2 i sdp st =
     (if i = [] \<or> sdp = [] \<or> \<not> wi_running st then (False, st)
      else
        let st1 = remove_viewer i st in
        if length (wi_viewers st1) \<ge> viewer_limit (wi_options st1) then (False, st1)
        else
          let (ok, st2) = start_uplink e still1 st1 in
          if \<not> ok then (False, st2)
          else
            let p = wi_next_peer st2;
                st3 = log_event (Peer_Start p) (st2\<lparr>wi_next_peer := p + 1\<rparr>)
            in if \<not> we_peer_start e p then (False, queue_reap p st3)
               else
                 let st4 = look_again still2 st3 in
                 if \<not> wi_running st4 then (False, queue_reap p st4)
                 else
                   let st5 = log_event (Peer_Offer p sdp)
                               (st4\<lparr>wi_viewers := map_emplace i (new_viewer i p) (wi_viewers st4)\<rparr>)
                   in if \<not> we_remote_offer e p sdp then (False, remove_viewer i st5)
                      else (True, flush_candidates i p st5))"

text \<open>
  \<open>on_peer_state\<close> as it runs on the poller's thread, for the viewer and the peer it was set up for;
  \<open>alive\<close> is the outcome of \<^verbatim>\<open>weak_peer.lock()\<close>.
\<close>

definition on_connected ::
  "('h, 'd) webrtc_env \<Rightarrow> bool \<Rightarrow> string \<Rightarrow> nat \<Rightarrow> ('h, 'd, 'r) webrtc_impl \<Rightarrow> ('h, 'd, 'r) webrtc_impl" where
  "on_connected e still i p st =
     (case map_of (wi_viewers st) i of
        None \<Rightarrow> st
      | Some v \<Rightarrow>
          if vs_peer v \<noteq> p then st
          else request_preview_keyframe
                 (start_ai_uplink e still
                   (st\<lparr>wi_viewers := map_change i (\<lambda>v. v\<lparr>vs_connected := True\<rparr>) (wi_viewers st)\<rparr>)))"

definition on_peer_state ::
  "('h, 'd) webrtc_env \<Rightarrow> bool \<Rightarrow> bool \<Rightarrow> string \<Rightarrow> nat \<Rightarrow> string \<Rightarrow> ('h, 'd, 'r) webrtc_impl \<Rightarrow>
     ('h, 'd, 'r) webrtc_impl" where
  "on_peer_state e still alive i p state st =
     (if \<not> alive then st
      else if state = ''connected'' then on_connected e still i p st
      else if state = ''disconnected'' \<or> state = ''failed'' \<or> state = ''closed'' then remove_viewer i st
      else st)"

text \<open>A candidate waits in the queue of its sender while the queue is short.\<close>

definition append_candidate ::
  "string \<Rightarrow> string \<Rightarrow> string \<Rightarrow> (string \<times> pending_candidate list) list \<Rightarrow>
     (string \<times> pending_candidate list) list" where
  "append_candidate i candidate mid m =
     map_change i (\<lambda>q. if length q < kPendingCandidateLimit
                       then q @ [\<lparr>pc_candidate = candidate, pc_mid = mid\<rparr>] else q)
       (map_emplace i [] m)"

definition apply_remote_candidate ::
  "string \<Rightarrow> string \<Rightarrow> string \<Rightarrow> ('h, 'd, 'r) webrtc_impl \<Rightarrow> ('h, 'd, 'r) webrtc_impl" where
  "apply_remote_candidate i candidate mid st =
     (let viewer = (case map_of (wi_viewers st) i of
                      Some v \<Rightarrow> Some v
                    | None \<Rightarrow> if i = [] \<and> length (wi_viewers st) = 1 then Some (snd (hd (wi_viewers st))) else None)
      in case viewer of
           Some v \<Rightarrow>
             if vs_remote_description_ready v then log_event (Peer_Candidate (vs_peer v) candidate mid) st
             else if candidate = [] then st
             else st\<lparr>wi_pending_candidates := append_candidate i candidate mid (wi_pending_candidates st)\<rparr>
         | None \<Rightarrow>
             if i \<noteq> [] \<and> candidate \<noteq> [] \<and> length (wi_pending_candidates st) < kPendingCandidateLimit
             then st\<lparr>wi_pending_candidates := append_candidate i candidate mid (wi_pending_candidates st)\<rparr>
             else st)"

section \<open>Queues\<close>

text \<open>\<open>posted\<close>: the worker's queue takes the task; it is not even offered when the plugin is stopping.\<close>

definition schedule_drain :: "bool \<Rightarrow> ('h, 'd, 'r) webrtc_impl \<Rightarrow> ('h, 'd, 'r) webrtc_impl" where
  "schedule_drain posted st =
     (if posted \<and> wi_running st then log_event Drain_Posted st else st\<lparr>wi_drain_scheduled := False\<rparr>)"

definition mark_drain :: "bool \<Rightarrow> bool \<Rightarrow> ('h, 'd, 'r) webrtc_impl \<Rightarrow> ('h, 'd, 'r) webrtc_impl" where
  "mark_drain posted queued st =
     (if queued \<and> \<not> wi_drain_scheduled st then schedule_drain posted (st\<lparr>wi_drain_scheduled := True\<rparr>) else st)"

definition video_overflow :: "nat \<Rightarrow> media_frame \<Rightarrow> 'r viewer_session \<Rightarrow> bool" where
  "video_overflow limit f v \<longleftrightarrow>
     frame_size f > limit \<or> length (vs_video_queue v) \<ge> kVideoQueueFrames \<or>
     vs_video_bytes v > limit - frame_size f"

text \<open>One viewer: whether the frame was queued, and the session.\<close>

definition offer_video :: "nat \<Rightarrow> media_frame \<Rightarrow> 'r viewer_session \<Rightarrow> bool \<times> 'r viewer_session" where
  "offer_video limit f v =
     (if \<not> vs_connected v then (False, v)
      else
        let over = video_overflow limit f v;
            v1 = (if over then v\<lparr>vs_video_queue := [], vs_video_bytes := 0\<rparr> else v)
        in if over \<and> \<not> keyframe f then (False, v1)
           else (True, v1\<lparr>vs_video_bytes := vs_video_bytes v1 + frame_size f,
                          vs_video_queue := vs_video_queue v1 @ [f]\<rparr>))"

definition video_dropped :: "nat \<Rightarrow> media_frame \<Rightarrow> 'r viewer_session \<Rightarrow> bool" where
  "video_dropped limit f v \<longleftrightarrow> vs_connected v \<and> video_overflow limit f v \<and> \<not> keyframe f"

definition enqueue_video :: "bool \<Rightarrow> media_frame \<Rightarrow> ('h, 'd, 'r) webrtc_impl \<Rightarrow> ('h, 'd, 'r) webrtc_impl" where
  "enqueue_video posted f st =
     (if \<not> wi_running st then st
      else
        let limit = wi_video_queue_limit st;
            pending = wi_keyframe_pending st \<and> \<not> keyframe f;
            dropped = list_ex (\<lambda>e. video_dropped limit f (snd e)) (wi_viewers st);
            queued = list_ex (\<lambda>e. fst (offer_video limit f (snd e))) (wi_viewers st);
            st1 = st\<lparr>wi_viewers := map (\<lambda>(i, v). (i, snd (offer_video limit f v))) (wi_viewers st),
                     wi_keyframe_pending := pending \<or> dropped\<rparr>;
            st2 = (if dropped \<and> \<not> pending then request_preview_keyframe st1 else st1)
        in mark_drain posted queued st2)"

definition offer_audio :: "media_frame \<Rightarrow> 'r viewer_session \<Rightarrow> 'r viewer_session" where
  "offer_audio f v =
     (if \<not> vs_connected v then v
      else
        let over = frame_size f > kAudioQueueBytes \<or> length (vs_audio_queue v) \<ge> kAudioQueueFrames \<or>
                   vs_audio_bytes v > kAudioQueueBytes - frame_size f;
            v1 = (if over then v\<lparr>vs_audio_queue := [], vs_audio_bytes := 0\<rparr> else v)
        in v1\<lparr>vs_audio_bytes := vs_audio_bytes v1 + frame_size f, vs_audio_queue := vs_audio_queue v1 @ [f]\<rparr>)"

definition enqueue_audio :: "bool \<Rightarrow> media_frame \<Rightarrow> ('h, 'd, 'r) webrtc_impl \<Rightarrow> ('h, 'd, 'r) webrtc_impl" where
  "enqueue_audio posted f st =
     (if \<not> wi_running st \<or> mf_codec f \<noteq> G711U then st
      else mark_drain posted (any_connected st)
             (st\<lparr>wi_viewers := map (\<lambda>(i, v). (i, offer_audio f v)) (wi_viewers st)\<rparr>))"

definition offer_detection :: "'r \<Rightarrow> 'r viewer_session \<Rightarrow> 'r viewer_session" where
  "offer_detection d v = (if vs_connected v then v\<lparr>vs_latest_detection := Some d\<rparr> else v)"

definition enqueue_detection :: "bool \<Rightarrow> 'r \<Rightarrow> ('h, 'd, 'r) webrtc_impl \<Rightarrow> ('h, 'd, 'r) webrtc_impl" where
  "enqueue_detection posted d st =
     (if \<not> wi_running st then st
      else mark_drain posted (any_connected st)
             (st\<lparr>wi_viewers := map (\<lambda>(i, v). (i, offer_detection d v)) (wi_viewers st)\<rparr>))"

text \<open>The worker: what each peer is given, in the order of the sends.\<close>

record 'r batch =
  ba_peer :: nat
  ba_video_frames :: "media_frame list"
  ba_audio_frames :: "media_frame list"
  ba_detection :: "'r option"

definition drain :: "('h, 'd, 'r) webrtc_impl \<Rightarrow> 'r batch list \<times> ('h, 'd, 'r) webrtc_impl" where
  "drain st =
     (map (\<lambda>(i, v). \<lparr>ba_peer = vs_peer v, ba_video_frames = vs_video_queue v,
                      ba_audio_frames = vs_audio_queue v, ba_detection = vs_latest_detection v\<rparr>) (wi_viewers st),
      st\<lparr>wi_viewers := map (\<lambda>(i, v). (i, v\<lparr>vs_video_queue := [], vs_audio_queue := [], vs_video_bytes := 0,
                                            vs_audio_bytes := 0, vs_latest_detection := None\<rparr>)) (wi_viewers st),
         wi_drain_scheduled := False\<rparr>)"

section \<open>Invariant\<close>

definition video_ok :: "nat \<Rightarrow> 'r viewer_session \<Rightarrow> bool" where
  "video_ok limit v \<longleftrightarrow>
     length (vs_video_queue v) \<le> kVideoQueueFrames \<and>
     vs_video_bytes v = sum_list (map frame_size (vs_video_queue v)) \<and>
     (vs_video_bytes v \<le> limit \<or> length (vs_video_queue v) = 1)"

definition audio_ok :: "'r viewer_session \<Rightarrow> bool" where
  "audio_ok v \<longleftrightarrow>
     length (vs_audio_queue v) \<le> kAudioQueueFrames \<and>
     vs_audio_bytes v = sum_list (map frame_size (vs_audio_queue v)) \<and>
     (vs_audio_bytes v \<le> kAudioQueueBytes \<or> length (vs_audio_queue v) = 1)"

text \<open>One entry of the table; the keys in \<open>K\<close> may still wait for their description.\<close>

definition entry_ok :: "string set \<Rightarrow> nat \<Rightarrow> nat \<Rightarrow> string \<times> 'r viewer_session \<Rightarrow> bool" where
  "entry_ok K limit n e \<longleftrightarrow>
     fst e \<noteq> [] \<and> vs_viewer_id (snd e) = fst e \<and> vs_peer (snd e) < n \<and>
     (fst e \<notin> K \<longrightarrow> vs_remote_description_ready (snd e)) \<and> video_ok limit (snd e) \<and> audio_ok (snd e)"

definition peers :: "(string \<times> 'r viewer_session) list \<Rightarrow> nat list" where
  "peers vs = map (\<lambda>e. vs_peer (snd e)) vs"

definition viewers_inv :: "string set \<Rightarrow> nat \<Rightarrow> nat \<Rightarrow> (string \<times> 'r viewer_session) list \<Rightarrow> bool" where
  "viewers_inv K limit n vs \<longleftrightarrow>
     distinct (map fst vs) \<and> distinct (peers vs) \<and> list_all (entry_ok K limit n) vs"

definition pending_inv :: "(string \<times> pending_candidate list) list \<Rightarrow> bool" where
  "pending_inv m \<longleftrightarrow>
     distinct (map fst m) \<and> length m \<le> kPendingCandidateLimit \<and>
     list_all (\<lambda>e. length (snd e) \<le> kPendingCandidateLimit) m"

text \<open>The subscription \<open>sub\<close> of a stream is in the table of the media source.\<close>

definition held :: "int \<Rightarrow> u64 \<Rightarrow> 'h media_source option \<Rightarrow> bool" where
  "held sid sub m \<longleftrightarrow> sub \<noteq> 0 \<longrightarrow> (\<exists>media. m = Some media \<and> sub \<in> fst ` set (subscribers_of sid media))"

definition subs_inv :: "('h, 'd, 'r) webrtc_impl \<Rightarrow> bool" where
  "subs_inv st \<longleftrightarrow>
     (wi_viewers st \<noteq> [] \<longrightarrow> wi_video_sub st \<noteq> 0) \<and>
     (wi_ai_hold_sub st \<noteq> 0 \<longrightarrow> any_connected st \<and> wo_detections_enabled (wi_options st)) \<and>
     (wi_detect_sub st \<noteq> 0 \<longrightarrow> wi_ai_hold_sub st \<noteq> 0) \<and>
     (wo_preview_stream_id (wi_options st) \<noteq> 2 \<longrightarrow>
        held (wo_preview_stream_id (wi_options st)) (wi_video_sub st) (wi_media st) \<and>
        held 2 (wi_ai_hold_sub st) (wi_media st))"

definition sessions_inv_but :: "string set \<Rightarrow> ('h, 'd, 'r) webrtc_impl \<Rightarrow> bool" where
  "sessions_inv_but K st \<longleftrightarrow>
     viewers_inv K (wi_video_queue_limit st) (wi_next_peer st) (wi_viewers st) \<and>
     length (wi_viewers st) \<le> viewer_limit (wi_options st) \<and>
     pending_inv (wi_pending_candidates st) \<and> subs_inv st"

abbreviation sessions_inv :: "('h, 'd, 'r) webrtc_impl \<Rightarrow> bool" where
  "sessions_inv \<equiv> sessions_inv_but {}"

lemma viewers_inv_erase:
  "viewers_inv K limit n vs \<Longrightarrow> viewers_inv (K - {i}) limit n (map_erase i vs)"
  by (auto simp: viewers_inv_def map_erase_def peers_def list_all_iff entry_ok_def distinct_map_filter
      intro: inj_on_subset simp: distinct_map)

lemma viewers_inv_later: "viewers_inv K limit n vs \<Longrightarrow> n \<le> n' \<Longrightarrow> viewers_inv K limit n' vs"
  by (auto simp: viewers_inv_def list_all_iff entry_ok_def)

text \<open>A change of each session that keeps key, peer and readiness.\<close>

lemma viewers_inv_map:
  assumes "viewers_inv K limit n vs"
    and "\<And>v. vs_viewer_id (f v) = vs_viewer_id v \<and> vs_peer (f v) = vs_peer v \<and>
          (vs_remote_description_ready v \<longrightarrow> vs_remote_description_ready (f v))"
    and "\<And>v. video_ok limit v \<Longrightarrow> video_ok limit (f v)" and "\<And>v. audio_ok v \<Longrightarrow> audio_ok (f v)"
  shows "viewers_inv K limit n (map (\<lambda>(i, v). (i, f v)) vs)"
  using assms
  by (auto simp: viewers_inv_def peers_def list_all_iff entry_ok_def comp_def case_prod_beta)

lemma peers_map_change [simp]: "(\<And>v. vs_peer (f v) = vs_peer v) \<Longrightarrow> peers (map_change k f m) = peers m"
  by (auto simp: peers_def map_change_def)

lemma map_change_Nil [simp]: "map_change k f m = [] \<longleftrightarrow> m = []"
  by (simp add: map_change_def)

lemma connected_map_change [simp]:
  assumes "\<And>v. vs_connected (f v) = vs_connected v"
  shows "list_ex (\<lambda>e. vs_connected (snd e)) (map_change k f m) = list_ex (\<lambda>e. vs_connected (snd e)) m"
proof (induction m)
  case (Cons e m)
  then show ?case using assms by (cases e) (simp add: map_change_def)
qed (simp add: map_change_def)

lemma in_map_change: "(l, v) \<in> set (map_change k f m) \<Longrightarrow> \<exists>w. (l, w) \<in> set m \<and> v = (if l = k then f w else w)"
  by (auto simp: map_change_def)

lemma viewers_inv_change:
  assumes "viewers_inv K limit n vs"
    and "\<And>v. vs_viewer_id (f v) = vs_viewer_id v \<and> vs_peer (f v) = vs_peer v \<and>
          (vs_remote_description_ready v \<longrightarrow> vs_remote_description_ready (f v))"
    and "\<And>v. video_ok limit v \<Longrightarrow> video_ok limit (f v)" and "\<And>v. audio_ok v \<Longrightarrow> audio_ok (f v)"
  shows "viewers_inv K limit n (map_change i f vs)"
  using assms
  by (fastforce simp: viewers_inv_def list_all_iff entry_ok_def dest: in_map_change split: if_splits)

lemma viewers_inv_ready:
  assumes "viewers_inv {i} limit n vs"
  shows "viewers_inv {} limit n (map_change i (\<lambda>v. v\<lparr>vs_remote_description_ready := True\<rparr>) vs)"
  using assms
  by (fastforce simp: viewers_inv_def list_all_iff entry_ok_def video_ok_def audio_ok_def
      dest: in_map_change split: if_splits)

lemma peers_map_insert: "set (peers (map_insert i v m)) = insert (vs_peer v) (set (peers m))"
  by (simp add: peers_def)

lemma distinct_peers_insert:
  "distinct (peers m) \<Longrightarrow> vs_peer v \<notin> set (peers m) \<Longrightarrow> distinct (peers (map_insert i v m))"
  by (induction i v m rule: map_insert.induct) (auto simp: peers_def)

lemma viewers_inv_new:
  assumes "viewers_inv {} limit n vs" and "i \<notin> fst ` set vs" and "i \<noteq> []"
  shows "viewers_inv {i} limit (Suc n) (map_insert i (new_viewer i n) vs)"
proof -
  have "n \<notin> set (peers vs)"
    using assms(1) by (auto simp: viewers_inv_def list_all_iff entry_ok_def peers_def)
  then show ?thesis
    using assms
    by (auto simp: viewers_inv_def distinct_map_insert distinct_peers_insert list_all_iff entry_ok_def
        new_viewer_def video_ok_def audio_ok_def)
qed

section \<open>Preservation\<close>

subsection \<open>Queues\<close>

lemma offer_video_facts [simp]:
  "vs_viewer_id (snd (offer_video limit f v)) = vs_viewer_id v"
  "vs_peer (snd (offer_video limit f v)) = vs_peer v"
  "vs_remote_description_ready (snd (offer_video limit f v)) = vs_remote_description_ready v"
  "vs_connected (snd (offer_video limit f v)) = vs_connected v"
  by (simp_all add: offer_video_def Let_def)

lemma offer_video_ok: "video_ok limit v \<Longrightarrow> video_ok limit (snd (offer_video limit f v))"
  by (auto simp: offer_video_def Let_def video_ok_def video_overflow_def kVideoQueueFrames_def)

lemma offer_video_audio: "audio_ok v \<Longrightarrow> audio_ok (snd (offer_video limit f v))"
  by (auto simp: offer_video_def Let_def audio_ok_def)

lemma offer_audio_facts [simp]:
  "vs_viewer_id (offer_audio f v) = vs_viewer_id v"
  "vs_peer (offer_audio f v) = vs_peer v"
  "vs_remote_description_ready (offer_audio f v) = vs_remote_description_ready v"
  "vs_connected (offer_audio f v) = vs_connected v"
  by (simp_all add: offer_audio_def Let_def)

lemma offer_audio_ok: "audio_ok v \<Longrightarrow> audio_ok (offer_audio f v)"
  by (auto simp: offer_audio_def Let_def audio_ok_def kAudioQueueFrames_def)

lemma offer_audio_video: "video_ok limit v \<Longrightarrow> video_ok limit (offer_audio f v)"
  by (auto simp: offer_audio_def Let_def video_ok_def)

lemma offer_detection_facts [simp]:
  "vs_viewer_id (offer_detection d v) = vs_viewer_id v"
  "vs_peer (offer_detection d v) = vs_peer v"
  "vs_remote_description_ready (offer_detection d v) = vs_remote_description_ready v"
  "vs_connected (offer_detection d v) = vs_connected v"
  "video_ok limit (offer_detection d v) = video_ok limit v"
  "audio_ok (offer_detection d v) = audio_ok v"
  by (simp_all add: offer_detection_def video_ok_def audio_ok_def)

text \<open>What the drain flag, the request flag and the record of events are does not matter.\<close>

lemma inv_bookkeeping [simp]:
  "sessions_inv_but K (st\<lparr>wi_drain_scheduled := b\<rparr>) = sessions_inv_but K st"
  "sessions_inv_but K (st\<lparr>wi_keyframe_pending := b\<rparr>) = sessions_inv_but K st"
  "sessions_inv_but K (st\<lparr>wi_log := l\<rparr>) = sessions_inv_but K st"
  "sessions_inv_but K (st\<lparr>wi_running := b\<rparr>) = sessions_inv_but K st"
  by (simp_all add: sessions_inv_but_def subs_inv_def any_connected_def)

lemma log_event_inv [simp]: "sessions_inv_but K (log_event ev st) = sessions_inv_but K st"
  by (simp add: log_event_def)

lemma look_again_inv [simp]: "sessions_inv_but K (look_again b st) = sessions_inv_but K st"
  by (simp add: look_again_def)

lemma keyframe_inv [simp]: "sessions_inv_but K (request_preview_keyframe st) = sessions_inv_but K st"
  by (simp add: request_preview_keyframe_def)

lemma mark_drain_inv [simp]: "sessions_inv_but K (mark_drain p q st) = sessions_inv_but K st"
  by (simp add: mark_drain_def schedule_drain_def)

text \<open>Any change of the sessions that keeps the entries correct and who is connected.\<close>

lemma inv_sessions:
  assumes "sessions_inv_but K st"
    and "viewers_inv K (wi_video_queue_limit st) (wi_next_peer st) vs" and "length vs = length (wi_viewers st)"
    and "list_ex (\<lambda>e. vs_connected (snd e)) (wi_viewers st) \<Longrightarrow> list_ex (\<lambda>e. vs_connected (snd e)) vs"
  shows "sessions_inv_but K (st\<lparr>wi_viewers := vs\<rparr>)"
  using assms by (auto simp: sessions_inv_but_def subs_inv_def any_connected_def)

lemma inv_map_sessions:
  assumes "sessions_inv_but K st"
    and "\<And>v. vs_viewer_id (f v) = vs_viewer_id v \<and> vs_peer (f v) = vs_peer v \<and>
          (vs_remote_description_ready v \<longrightarrow> vs_remote_description_ready (f v))"
    and "\<And>v. video_ok (wi_video_queue_limit st) v \<Longrightarrow> video_ok (wi_video_queue_limit st) (f v)"
    and "\<And>v. audio_ok v \<Longrightarrow> audio_ok (f v)" and "\<And>v. vs_connected v \<Longrightarrow> vs_connected (f v)"
  shows "sessions_inv_but K (st\<lparr>wi_viewers := map (\<lambda>(i, v). (i, f v)) (wi_viewers st)\<rparr>)"
  using assms
  by (intro inv_sessions viewers_inv_map) (auto simp: sessions_inv_but_def list_ex_iff intro!: bexI)

lemma enqueue_video_inv: "sessions_inv st \<Longrightarrow> sessions_inv (enqueue_video posted f st)"
  using inv_map_sessions [of "{}" st "\<lambda>v. snd (offer_video (wi_video_queue_limit st) f v)"]
  by (simp add: enqueue_video_def Let_def offer_video_ok offer_video_audio)

lemma enqueue_audio_inv: "sessions_inv st \<Longrightarrow> sessions_inv (enqueue_audio posted f st)"
  using inv_map_sessions [of "{}" st "offer_audio f"]
  by (simp add: enqueue_audio_def offer_audio_ok offer_audio_video)

lemma enqueue_detection_inv: "sessions_inv st \<Longrightarrow> sessions_inv (enqueue_detection posted d st)"
  using inv_map_sessions [of "{}" st "offer_detection d"] by (simp add: enqueue_detection_def)

lemma drain_inv: "sessions_inv st \<Longrightarrow> sessions_inv (snd (drain st))"
  using inv_map_sessions [of "{}" st "\<lambda>v. v\<lparr>vs_video_queue := [], vs_audio_queue := [], vs_video_bytes := 0,
      vs_audio_bytes := 0, vs_latest_detection := None\<rparr>"]
  by (simp add: drain_def video_ok_def audio_ok_def)

subsection \<open>Subscriptions\<close>

lemma call_demand_streams [simp]: "ms_streams (snd (call_demand sid b m)) = ms_streams m"
  by (simp add: call_demand_def Let_def split: option.splits)

lemma subscribers_of_call_demand [simp]: "subscribers_of sid (snd (call_demand sid' b m)) = subscribers_of sid m"
  by (simp add: subscribers_of_def)

lemma emplace_keys: "fst ` set (emplace i h es) = insert i (fst ` set es)"
  by (auto simp: emplace_def)

lemma subscribe_keys:
  "fst ` set (subscribers_of sid (snd (subscribe sid' (Some h) m))) =
     (if sid = sid' \<and> fst (subscribe sid' (Some h) m) \<noteq> 0
      then insert (fst (subscribe sid' (Some h) m)) (fst ` set (subscribers_of sid m))
      else fst ` set (subscribers_of sid m)) \<or>
   fst (subscribe sid' (Some h) m) = 0"
  by (auto simp: subscribe_def subscribers_of_def set_subscribers_def emplace_keys Let_def case_prod_beta
      split: option.splits if_splits)

lemma subscribe_keeps:
  "i \<in> fst ` set (subscribers_of sid m) \<Longrightarrow> i \<in> fst ` set (subscribers_of sid (snd (subscribe sid' (Some h) m)))"
  by (auto simp: subscribe_def subscribers_of_def set_subscribers_def emplace_def Let_def case_prod_beta
      split: option.splits if_splits)

lemma subscribe_holds:
  "fst (subscribe sid (Some h) m) \<noteq> 0 \<Longrightarrow>
     fst (subscribe sid (Some h) m) \<in> fst ` set (subscribers_of sid (snd (subscribe sid (Some h) m)))"
  using subscribe_keys [of sid sid h m] by auto

lemma unsubscribe_other: "sid \<noteq> sid' \<Longrightarrow> subscribers_of sid (unsubscribe sid' i m) = subscribers_of sid m"
  by (auto simp: unsubscribe_def subscribers_of_def set_subscribers_def call_demand_def Let_def
      split: option.splits)

lemma held_0 [simp]: "held sid 0 m"
  by (simp add: held_def)

lemma held_subscribe: "held sid sub (Some m) \<Longrightarrow> held sid sub (Some (snd (subscribe sid' (Some h) m)))"
  by (simp add: held_def subscribe_keeps)

lemma held_new: "held sid (fst (subscribe sid (Some h) m)) (Some (snd (subscribe sid (Some h) m)))"
  by (simp add: held_def subscribe_holds)

lemma held_unsubscribe:
  "sid \<noteq> sid' \<Longrightarrow> held sid sub m \<Longrightarrow> held sid sub (map_option (unsubscribe sid' i) m)"
  by (cases m) (auto simp: held_def unsubscribe_other image_iff)

lemma held_unsubscribe_Some:
  "sid \<noteq> sid' \<Longrightarrow> held sid sub (Some m) \<Longrightarrow> held sid sub (Some (unsubscribe sid' i m))"
  using held_unsubscribe [of sid sid' sub "Some m" i] by simp

lemma any_connected_frame [simp]:
  "any_connected (st\<lparr>wi_media := m\<rparr>) = any_connected st"
  "any_connected (st\<lparr>wi_detection_source := d\<rparr>) = any_connected st"
  "any_connected (st\<lparr>wi_video_sub := i\<rparr>) = any_connected st"
  "any_connected (st\<lparr>wi_ai_hold_sub := i\<rparr>) = any_connected st"
  "any_connected (st\<lparr>wi_detect_sub := i\<rparr>) = any_connected st"
  "any_connected (st\<lparr>wi_running := b\<rparr>) = any_connected st"
  "any_connected (look_again b st) = any_connected st"
  by (simp_all add: any_connected_def look_again_def)

lemma look_again_fields [simp]:
  "wi_options (look_again b st) = wi_options st" "wi_media (look_again b st) = wi_media st"
  "wi_detection_source (look_again b st) = wi_detection_source st"
  "wi_viewers (look_again b st) = wi_viewers st"
  "wi_pending_candidates (look_again b st) = wi_pending_candidates st"
  "wi_video_sub (look_again b st) = wi_video_sub st" "wi_ai_hold_sub (look_again b st) = wi_ai_hold_sub st"
  "wi_detect_sub (look_again b st) = wi_detect_sub st"
  "wi_video_queue_limit (look_again b st) = wi_video_queue_limit st"
  "wi_next_peer (look_again b st) = wi_next_peer st"
  by (simp_all add: look_again_def)

lemma log_event_fields [simp]:
  "wi_options (log_event ev st) = wi_options st" "wi_media (log_event ev st) = wi_media st"
  "wi_viewers (log_event ev st) = wi_viewers st"
  "wi_pending_candidates (log_event ev st) = wi_pending_candidates st"
  "wi_video_sub (log_event ev st) = wi_video_sub st" "wi_ai_hold_sub (log_event ev st) = wi_ai_hold_sub st"
  "wi_detect_sub (log_event ev st) = wi_detect_sub st"
  "wi_video_queue_limit (log_event ev st) = wi_video_queue_limit st"
  "wi_next_peer (log_event ev st) = wi_next_peer st" "wi_running (log_event ev st) = wi_running st"
  by (simp_all add: log_event_def)

lemma start_uplink_fields [simp]:
  "wi_options (snd (start_uplink e b st)) = wi_options st"
  "wi_viewers (snd (start_uplink e b st)) = wi_viewers st"
  "wi_pending_candidates (snd (start_uplink e b st)) = wi_pending_candidates st"
  "wi_video_queue_limit (snd (start_uplink e b st)) = wi_video_queue_limit st"
  "wi_next_peer (snd (start_uplink e b st)) = wi_next_peer st"
  "wi_ai_hold_sub (snd (start_uplink e b st)) = wi_ai_hold_sub st"
  "wi_detect_sub (snd (start_uplink e b st)) = wi_detect_sub st"
  by (simp_all add: start_uplink_def Let_def case_prod_beta split: option.split)

lemma start_uplink_subs: "subs_inv st \<Longrightarrow> subs_inv (snd (start_uplink e b st))"
  by (auto simp: subs_inv_def start_uplink_def Let_def case_prod_beta any_connected_def held_subscribe held_new
      intro!: held_unsubscribe_Some split: option.splits)

lemma start_uplink_sub: "fst (start_uplink e b st) \<Longrightarrow> wi_video_sub (snd (start_uplink e b st)) \<noteq> 0"
  by (auto simp: start_uplink_def Let_def case_prod_beta split: option.splits if_splits)

lemma start_uplink_inv: "sessions_inv_but K st \<Longrightarrow> sessions_inv_but K (snd (start_uplink e b st))"
  by (simp add: sessions_inv_but_def start_uplink_subs)

lemma start_ai_uplink_fields [simp]:
  "wi_options (start_ai_uplink e b st) = wi_options st"
  "wi_viewers (start_ai_uplink e b st) = wi_viewers st"
  "wi_pending_candidates (start_ai_uplink e b st) = wi_pending_candidates st"
  "wi_video_queue_limit (start_ai_uplink e b st) = wi_video_queue_limit st"
  "wi_next_peer (start_ai_uplink e b st) = wi_next_peer st"
  "wi_video_sub (start_ai_uplink e b st) = wi_video_sub st"
  by (simp_all add: start_ai_uplink_def Let_def case_prod_beta split: option.split)

lemma start_ai_uplink_subs: "subs_inv st \<Longrightarrow> subs_inv (start_ai_uplink e b st)"
  by (auto simp: subs_inv_def start_ai_uplink_def Let_def case_prod_beta any_connected_def held_subscribe held_new
      intro!: held_unsubscribe_Some split: option.splits)

lemma start_ai_uplink_inv: "sessions_inv_but K st \<Longrightarrow> sessions_inv_but K (start_ai_uplink e b st)"
  by (simp add: sessions_inv_but_def start_ai_uplink_subs)

subsection \<open>Viewers\<close>

lemma release_stream_fields [simp]:
  "wi_options (release_stream s i st) = wi_options st" "wi_viewers (release_stream s i st) = wi_viewers st"
  "wi_pending_candidates (release_stream s i st) = wi_pending_candidates st"
  "wi_video_sub (release_stream s i st) = wi_video_sub st"
  "wi_ai_hold_sub (release_stream s i st) = wi_ai_hold_sub st"
  "wi_detect_sub (release_stream s i st) = wi_detect_sub st"
  "wi_video_queue_limit (release_stream s i st) = wi_video_queue_limit st"
  "wi_next_peer (release_stream s i st) = wi_next_peer st" "wi_running (release_stream s i st) = wi_running st"
  "any_connected (release_stream s i st) = any_connected st"
  by (simp_all add: release_stream_def)

lemma release_detections_fields [simp]:
  "wi_options (release_detections i st) = wi_options st" "wi_viewers (release_detections i st) = wi_viewers st"
  "wi_pending_candidates (release_detections i st) = wi_pending_candidates st"
  "wi_media (release_detections i st) = wi_media st"
  "wi_video_sub (release_detections i st) = wi_video_sub st"
  "wi_ai_hold_sub (release_detections i st) = wi_ai_hold_sub st"
  "wi_detect_sub (release_detections i st) = wi_detect_sub st"
  "wi_video_queue_limit (release_detections i st) = wi_video_queue_limit st"
  "wi_next_peer (release_detections i st) = wi_next_peer st" "wi_running (release_detections i st) = wi_running st"
  "any_connected (release_detections i st) = any_connected st"
  by (simp_all add: release_detections_def)

text \<open>What \<^verbatim>\<open>remove_viewer\<close> leaves, when the viewer exists.\<close>

lemma remove_viewer_fields:
  fixes st :: "('h, 'd, 'r) webrtc_impl"
  assumes "map_of (wi_viewers st) i = Some v"
  defines "vs \<equiv> map_erase i (wi_viewers st)" and "t \<equiv> remove_viewer i st"
  shows "wi_options t = wi_options st" and "wi_viewers t = vs"
    and "wi_pending_candidates t = map_erase i (wi_pending_candidates st)"
    and "wi_video_queue_limit t = wi_video_queue_limit st" and "wi_next_peer t = wi_next_peer st"
    and "wi_running t = wi_running st"
    and "wi_video_sub t = (if vs = [] then 0 else wi_video_sub st)"
    and "wi_ai_hold_sub t = (if list_ex (\<lambda>e. vs_connected (snd e)) vs then wi_ai_hold_sub st else 0)"
    and "wi_detect_sub t = (if list_ex (\<lambda>e. vs_connected (snd e)) vs then wi_detect_sub st else 0)"
  using assms(1)
  by (simp_all add: t_def vs_def remove_viewer_def forget_viewer_def queue_reap_def any_connected_def Let_def
      case_prod_beta)

lemma remove_viewer_media:
  assumes "map_of (wi_viewers st) i = Some v" and "wo_preview_stream_id (wi_options st) \<noteq> 2"
  shows "map_erase i (wi_viewers st) \<noteq> [] \<Longrightarrow> held (wo_preview_stream_id (wi_options st)) sub (wi_media st) \<Longrightarrow>
      held (wo_preview_stream_id (wi_options st)) sub (wi_media (remove_viewer i st))"
    and "list_ex (\<lambda>e. vs_connected (snd e)) (map_erase i (wi_viewers st)) \<Longrightarrow> held 2 sub (wi_media st) \<Longrightarrow>
      held 2 sub (wi_media (remove_viewer i st))"
  using assms
  by (auto simp: remove_viewer_def forget_viewer_def queue_reap_def any_connected_def release_stream_def Let_def
      case_prod_beta held_unsubscribe)

lemma remove_viewer_subs:
  assumes "subs_inv st" and "map_of (wi_viewers st) i = Some v"
  shows "subs_inv (remove_viewer i st)"
proof -
  note [simp] = remove_viewer_fields [OF assms(2)]
  have ne: "wi_viewers st \<noteq> []" using assms(2) by auto
  have conn: "any_connected (remove_viewer i st) = list_ex (\<lambda>e. vs_connected (snd e)) (map_erase i (wi_viewers st))"
    by (simp add: any_connected_def)
  show ?thesis
    using assms(1) ne remove_viewer_media [OF assms(2)] by (auto simp: subs_inv_def conn)
qed

lemma remove_viewer_absent: "map_of (wi_viewers st) i = None \<Longrightarrow> remove_viewer i st = st"
  by (simp add: remove_viewer_def)

lemma map_erase_absent: "map_of m i = None \<Longrightarrow> map_erase i m = m"
  by (auto simp: map_erase_def filter_id_conv map_of_eq_None_iff)

lemma remove_viewer_viewers: "wi_viewers (remove_viewer i st) = map_erase i (wi_viewers st)"
  by (cases "map_of (wi_viewers st) i") (simp_all add: remove_viewer_absent map_erase_absent remove_viewer_fields)

lemma remove_viewer_keeps [simp]:
  "wi_options (remove_viewer i st) = wi_options st"
  "wi_video_queue_limit (remove_viewer i st) = wi_video_queue_limit st"
  "wi_next_peer (remove_viewer i st) = wi_next_peer st" "wi_running (remove_viewer i st) = wi_running st"
  by (cases "map_of (wi_viewers st) i"; simp add: remove_viewer_absent remove_viewer_fields)+

lemma pending_inv_erase: "pending_inv m \<Longrightarrow> pending_inv (map_erase i m)"
  by (auto simp: pending_inv_def list_all_iff length_map_erase_le)

lemma remove_viewer_inv: "sessions_inv_but K st \<Longrightarrow> sessions_inv_but (K - {i}) (remove_viewer i st)"
proof (cases "map_of (wi_viewers st) i")
  case None
  assume "sessions_inv_but K st"
  then show ?thesis
    using None viewers_inv_erase [of K _ _ "wi_viewers st" i]
    by (simp add: remove_viewer_absent sessions_inv_but_def map_erase_absent)
next
  case (Some v)
  assume "sessions_inv_but K st"
  then show ?thesis
    using remove_viewer_subs [OF _ Some]
    by (auto simp: sessions_inv_but_def remove_viewer_fields [OF Some] viewers_inv_erase pending_inv_erase
        length_map_erase_le)
qed

lemma remove_viewer_inv' [intro]: "sessions_inv st \<Longrightarrow> sessions_inv (remove_viewer i st)"
  using remove_viewer_inv [of "{}" st i] by simp

lemma remove_viewers_inv: "sessions_inv st \<Longrightarrow> sessions_inv (fold remove_viewer is st)"
  by (induction "is" arbitrary: st) auto

lemma remove_all_inv: "sessions_inv st \<Longrightarrow> sessions_inv (remove_all_viewers st)"
  by (simp add: remove_all_viewers_def remove_viewers_inv)

lemma fold_remove_viewers:
  "wi_viewers (fold remove_viewer is st) = filter (\<lambda>e. fst e \<notin> set is) (wi_viewers st)"
proof (induction "is" arbitrary: st)
  case (Cons i "is")
  then show ?case
    by (simp add: remove_viewer_viewers map_erase_def conj_commute)
qed simp

lemma remove_all_viewers_none: "wi_viewers (remove_all_viewers st) = []"
  by (auto simp: remove_all_viewers_def fold_remove_viewers filter_empty_conv)

lemma queue_reap_inv [simp]: "sessions_inv_but K (queue_reap p st) = sessions_inv_but K st"
  by (simp add: queue_reap_def)

text \<open>The peer's number is used up, whatever becomes of it.\<close>

lemma next_peer_inv: "sessions_inv_but K st \<Longrightarrow> sessions_inv_but K (st\<lparr>wi_next_peer := wi_next_peer st + 1\<rparr>)"
  using viewers_inv_later [of K _ "wi_next_peer st" _ "wi_next_peer st + 1"]
  by (auto simp: sessions_inv_but_def subs_inv_def any_connected_def)

lemma add_viewer_inv:
  fixes st :: "('h, 'd, 'r) webrtc_impl"
  assumes "sessions_inv st" and "i \<notin> fst ` set (wi_viewers st)" and "i \<noteq> []" and "wi_video_sub st \<noteq> 0"
    and "length (wi_viewers st) < viewer_limit (wi_options st)"
  shows "sessions_inv_but {i} (st\<lparr>wi_next_peer := wi_next_peer st + 1,
           wi_viewers := map_insert i (new_viewer i (wi_next_peer st)) (wi_viewers st)\<rparr>)"
  using assms viewers_inv_new [of "wi_video_queue_limit st" "wi_next_peer st" "wi_viewers st" i]
  by (auto simp: sessions_inv_but_def subs_inv_def any_connected_def list_ex_iff)

lemma flush_candidates_inv: "sessions_inv_but {i} st \<Longrightarrow> sessions_inv (flush_candidates i p st)"
  by (auto simp: sessions_inv_but_def flush_candidates_def Let_def viewers_inv_ready pending_inv_erase subs_inv_def
      any_connected_def)

lemma create_viewer_inv:
  assumes inv: "sessions_inv st"
  shows "sessions_inv (snd (create_viewer e b1 b2 i sdp st))"
proof (cases "i = [] \<or> sdp = [] \<or> \<not> wi_running st")
  case True
  then show ?thesis using inv by (simp add: create_viewer_def)
next
  case go: False
  let ?st1 = "remove_viewer i st"
  let ?st2 = "snd (start_uplink e b1 ?st1)"
  let ?ok = "fst (start_uplink e b1 ?st1)"
  let ?p = "wi_next_peer ?st2"
  let ?st3 = "log_event (Peer_Start ?p) (?st2\<lparr>wi_next_peer := ?p + 1\<rparr>)"
  let ?st4 = "look_again b2 ?st3"
  let ?st5 = "log_event (Peer_Offer ?p sdp) (?st4\<lparr>wi_viewers := map_emplace i (new_viewer i ?p) (wi_viewers ?st4)\<rparr>)"
  have inv1: "sessions_inv ?st1" using inv by blast
  then have inv2: "sessions_inv ?st2" by (rule start_uplink_inv)
  then have inv3: "sessions_inv ?st3" using next_peer_inv [of "{}" ?st2] by simp
  have fresh: "i \<notin> fst ` set (wi_viewers ?st1)" by (auto simp: remove_viewer_viewers)
  have inv5: "sessions_inv_but {i} ?st5" if "?ok" and "length (wi_viewers ?st1) < viewer_limit (wi_options ?st1)"
  proof -
    have eq: "?st5 = (?st2\<lparr>wi_next_peer := ?p + 1,
        wi_viewers := map_insert i (new_viewer i ?p) (wi_viewers ?st2)\<rparr>)
        \<lparr>wi_log := wi_log ?st5, wi_running := wi_running ?st5\<rparr>"
      using fresh by (simp add: log_event_def look_again_def map_emplace_def)
    have "sessions_inv_but {i} (?st2\<lparr>wi_next_peer := ?p + 1,
        wi_viewers := map_insert i (new_viewer i ?p) (wi_viewers ?st2)\<rparr>)"
      using inv2 fresh go that start_uplink_sub by (intro add_viewer_inv) simp_all
    then show ?thesis by (subst eq) simp
  qed
  have "sessions_inv (remove_viewer i ?st5)" "sessions_inv (flush_candidates i ?p ?st5)"
    if "?ok" and "length (wi_viewers ?st1) < viewer_limit (wi_options ?st1)"
    using remove_viewer_inv [OF inv5 [OF that], of i] flush_candidates_inv [OF inv5 [OF that], of ?p] by simp_all
  then show ?thesis
    using go inv1 inv2 inv3 by (simp add: create_viewer_def Let_def case_prod_beta)
qed

lemma on_connected_inv: "sessions_inv st \<Longrightarrow> sessions_inv (on_connected e b i p st)"
proof -
  assume inv: "sessions_inv st"
  let ?vs = "map_change i (\<lambda>v. v\<lparr>vs_connected := True\<rparr>) (wi_viewers st)"
  have "sessions_inv (st\<lparr>wi_viewers := ?vs\<rparr>)"
    using inv
    by (intro inv_sessions viewers_inv_change)
      (auto simp: sessions_inv_but_def video_ok_def audio_ok_def list_ex_iff map_change_def case_prod_beta)
  then show ?thesis
    using inv by (auto simp: on_connected_def start_ai_uplink_inv split: option.split)
qed

lemma on_peer_state_inv: "sessions_inv st \<Longrightarrow> sessions_inv (on_peer_state e b alive i p s st)"
  by (auto simp: on_peer_state_def on_connected_inv)

lemma append_candidate_inv:
  assumes "pending_inv m" and "length m < kPendingCandidateLimit"
  shows "pending_inv (append_candidate i c mid m)"
proof -
  have "distinct (map fst (map_emplace i [] m))" "length (map_emplace i [] m) \<le> kPendingCandidateLimit"
    using assms map_emplace_facts(1) [of m i "[]"] map_emplace_facts(2) [of i "[]" m]
    by (auto simp: pending_inv_def)
  moreover have "length q \<le> kPendingCandidateLimit" if "(k, q) \<in> set (map_emplace i [] m)" for k q
    using assms(1) that map_emplace_facts(3) [of i "[]" m] by (fastforce simp: pending_inv_def list_all_iff)
  ultimately show ?thesis
    by (fastforce simp: pending_inv_def append_candidate_def list_all_iff dest: in_map_change split: if_splits)
qed

lemma session_ready:
  "sessions_inv st \<Longrightarrow> (k, v) \<in> set (wi_viewers st) \<Longrightarrow> vs_remote_description_ready v"
  by (auto simp: sessions_inv_but_def viewers_inv_def list_all_iff entry_ok_def)

lemma apply_remote_candidate_inv: "sessions_inv st \<Longrightarrow> sessions_inv (apply_remote_candidate i c mid st)"
proof -
  assume inv: "sessions_inv st"
  have hd: "vs_remote_description_ready (snd (hd (wi_viewers st)))" if "length (wi_viewers st) = Suc 0"
    using that session_ready [OF inv] by (cases "wi_viewers st") auto
  have "sessions_inv (st\<lparr>wi_pending_candidates := append_candidate i c mid (wi_pending_candidates st)\<rparr>)"
    if "length (wi_pending_candidates st) < kPendingCandidateLimit"
    using inv append_candidate_inv [OF _ that]
    by (simp add: sessions_inv_but_def subs_inv_def any_connected_def)
  then show ?thesis
    using inv hd by (auto simp: apply_remote_candidate_def Let_def dest: session_ready map_of_SomeD split: option.split)
qed

end
