(* ===== verification/Main_Program.thy ===== *)
theory Main_Program
  imports Application Record_Plugin Config_Loader Webrtc_Sessions
begin

text \<open>
  The composition root of the program (src/app/main.cpp): the directories it derives from its command
  line, the options it hands to the device, to the WebRTC plugin and to the recorder, and the order of
  start, wait and the two phases of the stop.  Signal handlers, the watchdog thread and the messages on
  the terminal are not modelled.  The theorem follows a configuration from the file to its consumers.
\<close>

section \<open>Options\<close>

record device_options =
  do_lane_mode :: int
  do_sensor_width :: int
  do_sensor_height :: int
  do_sensor_fps :: int
  do_wdr_mode :: int
  do_sensor_name :: string
  do_channel_id :: int
  do_streams :: streams_config
  do_audio_enabled :: bool
  do_audio_microphone :: bool
  do_audio_codec :: string
  do_font_path :: string

text \<open>The product of two \<^verbatim>\<open>int\<close> in 32 bits.\<close>

definition int_mult :: "int \<Rightarrow> int \<Rightarrow> int" where
  "int_mult a b = sint (word_of_int (a * b) :: u32)"

definition apply_device_config :: "runtime_config \<Rightarrow> string \<Rightarrow> device_options" where
  "apply_device_config c font_path =
     \<lparr>do_lane_mode = se_lane_mode (cf_sensor c), do_sensor_width = se_width (cf_sensor c),
      do_sensor_height = se_height (cf_sensor c), do_sensor_fps = se_fps (cf_sensor c),
      do_wdr_mode = se_wdr (cf_sensor c), do_sensor_name = se_name (cf_sensor c), do_channel_id = 0,
      do_streams = cf_streams c, do_audio_enabled = ac_enable (cf_audio c),
      do_audio_microphone = ac_microphone (cf_audio c), do_audio_codec = ac_codec (cf_audio c),
      do_font_path = font_path\<rparr>"

definition apply_webrtc_config :: "runtime_config \<Rightarrow> webrtc_options" where
  "apply_webrtc_config c =
     (let w = cf_webrtc c in
      \<lparr>wo_signaling_url = wc_signaling_url w, wo_signaling_token = wc_signaling_token w,
       wo_room = wc_room w, wo_preview_stream_id = wc_preview_stream_id w,
       wo_detections_enabled = wc_send_detections w, wo_disable_twcc = wc_disable_twcc w,
       wo_rolling_buffer_sec = wc_rolling_buffer_sec w,
       wo_expected_bitrate_bps = int_mult (wc_expected_bitrate_kbps w) 1000,
       wo_max_viewers = wc_max_viewers w, wo_ice_servers = wc_ice_servers w\<rparr>)"

definition main_record_config :: "runtime_config \<Rightarrow> record_config" where
  "main_record_config c =
     (let r = cf_record c in
      \<lparr>rc_enabled = True, rc_stream_id = rs_stream_id r, rc_audio = rs_audio r \<and> ac_enable (cf_audio c),
       rc_segment_sec = rs_segment_sec r, rc_retain_sec = rs_retain_sec r,
       rc_max_bytes_mb = rs_max_bytes_mb r, rc_directory = rs_directory r,
       rc_upload_url = rs_upload_url r,
       rc_upload_token = (if rs_upload_token r = [] then wc_signaling_token (cf_webrtc c)
                          else rs_upload_token r),
       rc_max_pending_frames = 120\<rparr>)"

section \<open>Directories\<close>

text \<open>What the system calls answer: the target of \<^verbatim>\<open>/proc/self/exe\<close>, the working directory, \<^verbatim>\<open>stat\<close>.\<close>

record main_env =
  me_self_exe :: string
  me_cwd :: "string option"
  me_is_dir :: "string \<Rightarrow> bool"
  me_is_file :: "string \<Rightarrow> bool"
  me_config :: config_env

definition dirname_of :: "string \<Rightarrow> string" where
  "dirname_of path =
     (if CHR ''/'' \<notin> set path then ''.'' else if parent_of path = [] then ''/'' else parent_of path)"

definition resolve_exe_dir :: "main_env \<Rightarrow> string option \<Rightarrow> string" where
  "resolve_exe_dir e argv0 =
     (if me_self_exe e \<noteq> [] then dirname_of (me_self_exe e)
      else
        case argv0 of
          None \<Rightarrow> ''/opt/ipc_mini''
        | Some a \<Rightarrow>
            if a = [] then ''/opt/ipc_mini''
            else if hd a = CHR ''/'' then dirname_of a
            else (case me_cwd e of Some cwd \<Rightarrow> dirname_of (cwd @ ''/'' @ a) | None \<Rightarrow> ''/opt/ipc_mini''))"

text \<open>The value behind the first \<^verbatim>\<open>--config-dir\<close> that has one.\<close>

fun config_dir_option :: "string list \<Rightarrow> string option" where
  "config_dir_option (a # b # rest) =
     (if a = ''--config-dir'' then Some b else config_dir_option (b # rest))"
| "config_dir_option _ = None"

definition find_config_directory :: "main_env \<Rightarrow> string list \<Rightarrow> string" where
  "find_config_directory e argv =
     (case config_dir_option (tl argv) of
        Some d \<Rightarrow> d
      | None \<Rightarrow>
          let beside = resolve_exe_dir e (if argv = [] then None else Some (hd argv)) @ ''/etc''
          in if me_is_dir e beside then beside else ''/opt/ipc_mini/etc'')"

definition install_root_from_config_dir :: "string \<Rightarrow> string" where
  "install_root_from_config_dir config_directory = dirname_of config_directory"

section \<open>The run of the program\<close>

definition font_path_of :: "main_env \<Rightarrow> string \<Rightarrow> string" where
  "font_path_of e install_root =
     (let f = install_root @ ''/fonts/DejaVuSans.ttf'' in if me_is_file e f then f else [])"

text \<open>
  The application that main puts together, with the options of its parts; the WebRTC plugin asks to be
  stopped after the device, the record plugin does not.
\<close>

definition compose_application ::
  "runtime_config \<Rightarrow> application \<times> webrtc_options option \<times> record_config option" where
  "compose_application c =
     (let a = new_application True;
          (a1, w) = (if wc_enable (cf_webrtc c)
                     then (add_protocol (Some True) a, Some (apply_webrtc_config c)) else (a, None));
          (a2, r) = (if rs_enable (cf_record c)
                     then (add_protocol (Some False) a1, Some (main_record_config c)) else (a1, None))
      in (a2, w, r))"

text \<open>
  Exit status and the application at the end.  On the way out of main the destructor of the application
  stops it once more.
\<close>

definition main_run :: "main_env \<Rightarrow> answers \<Rightarrow> string list \<Rightarrow> (int \<times> application option) outcome" where
  "main_run e answer argv =
     (let dir = find_config_directory e argv; install_root = install_root_from_config_dir dir in
      case load_runtime_config (me_config e) dir of
        Aborted \<Rightarrow> Aborted
      | Bad msg \<Rightarrow> Good (1, None)
      | Good c0 \<Rightarrow>
          let c = resolve_runtime_paths c0 install_root;
              app = fst (compose_application c);
              (ok, app1) = app_start answer app
          in if \<not> ok then Good (2, Some (app_stop app1))
             else Good (0, Some (app_stop (stop_network (stop_media app1)))))"

section \<open>From the file to the consumers\<close>

lemma resolve_keeps [simp]:
  "cf_record (resolve_runtime_paths c r) = cf_record c"
  "cf_webrtc (resolve_runtime_paths c r) = cf_webrtc c"
  "cf_audio (resolve_runtime_paths c r) = cf_audio c"
  "cf_sensor (resolve_runtime_paths c r) = cf_sensor c"
  by (simp_all add: resolve_runtime_paths_def Let_def)

text \<open>
  The recorder's own ranges: the numbers that \<open>plugin_config\<close> would otherwise replace, and those whose
  products are formed in 32 or 64 bits.
\<close>

definition record_options_ok :: "record_config \<Rightarrow> bool" where
  "record_options_ok r \<longleftrightarrow>
     plugin_config r = r \<and> rc_stream_id r \<in> {0, 1} \<and>
     5000 \<le> dp_segment_ms (new_duration_policy (rc_segment_sec r)) \<and>
     dp_segment_ms (new_duration_policy (rc_segment_sec r)) \<le> 3600000 \<and>
     unat (max_bytes_limit r) = nat (rc_max_bytes_mb r) mod 4096 * 1048576"

lemma main_record_config_ok:
  assumes "record_ok (cf_record c)" and "rs_enable (cf_record c)"
  shows "record_options_ok (main_record_config c)"
proof -
  from assms have r: "rs_directory (cf_record c) \<noteq> []" "5 \<le> rs_segment_sec (cf_record c)"
      "rs_segment_sec (cf_record c) \<le> 3600" "0 \<le> rs_max_bytes_mb (cf_record c)"
      "rs_stream_id (cf_record c) \<in> {0, 1}"
    by (auto simp: record_ok_def stream_id_from_name_def)
  with max_bytes_limit_mod [of "main_record_config c"] show ?thesis
    by (simp add: record_options_ok_def main_record_config_def plugin_config_def new_duration_policy_def
        Let_def)
qed

text \<open>The bit rate of the WebRTC plugin is exact up to the range of \<^verbatim>\<open>int\<close>, and wraps beyond it.\<close>

lemma int_mult_exact: "- (2 ^ 31) \<le> a * b \<Longrightarrow> a * b < 2 ^ 31 \<Longrightarrow> int_mult a b = a * b"
  by (simp add: int_mult_def signed_of_int signed_take_bit_int_eq_self del: of_int_mult)

lemma bitrate_exact:
  assumes "0 < wc_expected_bitrate_kbps (cf_webrtc c)" and "wc_expected_bitrate_kbps (cf_webrtc c) \<le> 2147483"
  shows "wo_expected_bitrate_bps (apply_webrtc_config c) = wc_expected_bitrate_kbps (cf_webrtc c) * 1000"
  using assms int_mult_exact [of "wc_expected_bitrate_kbps (cf_webrtc c)" 1000]
  by (simp add: apply_webrtc_config_def Let_def)

lemma bitrate_wraps:
  assumes "wc_expected_bitrate_kbps (cf_webrtc c) = 2147484"
  shows "wo_expected_bitrate_bps (apply_webrtc_config c) = - 2147483296"
  using assms by (simp add: apply_webrtc_config_def Let_def int_mult_def)

section \<open>Exits\<close>

lemma compose_application_inv: "app_inv (fst (compose_application c))"
  by (auto simp: compose_application_def Let_def intro: inv_intros)

lemma compose_application_protocols:
  "app_protocols (fst (compose_application c)) =
     (if wc_enable (cf_webrtc c) then [True] else []) @ (if rs_enable (cf_record c) then [False] else [])"
  by (simp add: compose_application_def Let_def add_protocol_def new_application_def)

text \<open>Whatever happens after the application exists, it is idle when main returns.\<close>

lemma main_run_idle:
  assumes "main_run e answer argv = Good (code, Some a)"
  shows "idle a \<and> code \<in> {0, 2}"
proof -
  from assms obtain c where c: "code = 2 \<and> a = app_stop (snd (app_start answer (fst (compose_application c)))) \<or>
      code = 0 \<and> a = app_stop (stop_network (stop_media (snd (app_start answer (fst (compose_application c))))))"
    by (auto simp: main_run_def Let_def case_prod_beta split: outcome.splits if_splits)
  have inv: "app_inv (snd (app_start answer (fst (compose_application c))))"
    by (rule app_start_inv [OF compose_application_inv])
  then have "app_inv (app_stop (snd (app_start answer (fst (compose_application c)))))"
    using app_stop_idle by blast
  with inv app_stop_idle c show ?thesis unfolding app_stop_def [symmetric] by auto
qed

text \<open>
  With both plugins configured, a run that reached the running state stops the recorder before the
  device, so that the last segment is still written and uploaded, and WebRTC after the device.
\<close>

lemma main_stop_order:
  assumes "wc_enable (cf_webrtc c)" and "rs_enable (cf_record c)"
    and "app_start answer (fst (compose_application c)) = (True, a)"
  shows "app_calls (stop_network (stop_media a)) =
    [Dev_set_detection_source, Dev_start, Proto_start 0, Proto_start 1, Proto_stop 1, Dev_stop, Proto_stop 0]"
proof -
  let ?a = "fst (compose_application c)"
  have a: "app_protocols ?a = [True, False]" "idle ?a" "app_device ?a" "app_calls ?a = []"
    using assms(1,2)
    by (simp_all add: compose_application_def Let_def add_protocol_def new_application_def idle_def)
  show ?thesis
    using a(2,3)
  proof (cases rule: app_start_cases [of ?a answer])
    case started
    then show ?thesis using assms(3) a
      by (auto simp: stop_network_def stop_media_def started_rev_def Let_def upt_rec)
  qed (use assms(3) in auto)
qed

section \<open>Properties\<close>

definition demo_json :: json where
  "demo_json = Json_Object
     [(''sensor'', Json_Object [(''name'', Json_String ''S''), (''width'', Json_Int 4), (''height'', Json_Int 2),
                              (''fps'', Json_Int 5)]),
      (''streams'', Json_Object []),
      (''record'', Json_Object [(''enable'', Json_Int 1), (''stream'', Json_String ''sub''),
                              (''segment_sec'', Json_Int 10), (''max_bytes_mb'', Json_Int 4096)]),
      (''webrtc'', Json_Object [(''signaling_url'', Json_String ''ws://h'')])]"

definition demo_config_env :: config_env where
  "demo_config_env =
     \<lparr>ce_regular = (\<lambda>p. p = ''/c/ipc_mini.json''), ce_file = (\<lambda>_. Opened 1 True ''x''),
      ce_parse = (\<lambda>_. Inr demo_json)\<rparr>"


lemma demo_config_loads:
  "load_runtime_config demo_config_env ''/c'' = Good (case load_runtime_config demo_config_env ''/c'' of Good c \<Rightarrow> c) \<and>
   (case load_runtime_config demo_config_env ''/c'' of
      Good c \<Rightarrow> rs_enable (cf_record c) \<and> rs_stream_id (cf_record c) = 1 \<and> rs_max_bytes_mb (cf_record c) = 4096 \<and>
        es_mode (ss_sub (cf_streams c)) = ''H264_CBR'' \<and> wc_preview_stream_id (cf_webrtc c) = 1
    | _ \<Rightarrow> False)"
  by code_simp


end
