(* ===== verification/Ws_Frame.thy ===== *)
theory Ws_Frame
  imports Signaling_Json
begin

text \<open>
  The wire formats of the WebSocket client (the free functions and the framing of
  src/protocol/webrtc/ws\_client.cpp): the URL, the base64 text of the handshake key, the frames sent and
  the frames read.  The main lemmas: a frame the client sends is read back with its operation code and
  payload, whatever mask was drawn and whatever follows it; and reading a frame from the front of the
  buffer does not depend on how much has already arrived behind it.
\<close>

section \<open>URLs\<close>

text \<open>\<open>hostport.rfind(':')\<close> splits at the last colon.\<close>

definition before_last :: "char \<Rightarrow> string \<Rightarrow> string" where
  "before_last c s = rev (tl (dropWhile (\<lambda>d. d \<noteq> c) (rev s)))"

definition after_last :: "char \<Rightarrow> string \<Rightarrow> string" where
  "after_last c s = rev (takeWhile (\<lambda>d. d \<noteq> c) (rev s))"

definition parse_ws_url :: "string \<Rightarrow> (string \<times> int \<times> string) option" where
  "parse_ws_url url =
     (if \<not> starts_with ''ws://'' url then None
      else
        let rest = drop 5 url;
            hostport = takeWhile (\<lambda>c. c \<noteq> CHR ''/'') rest;
            path = (if CHR ''/'' \<in> set rest then dropWhile (\<lambda>c. c \<noteq> CHR ''/'') rest else ''/'');
            (host, port) = (if CHR '':'' \<notin> set hostport then (hostport, 80)
                            else (before_last CHR '':'' hostport, atoi (after_last CHR '':'' hostport)))
        in if host \<noteq> [] \<and> port > 0 \<and> port \<le> 65535 then Some (host, port, path) else None)"

lemma parse_ws_url_ranges:
  "parse_ws_url url = Some (host, port, path) \<Longrightarrow> host \<noteq> [] \<and> 0 < port \<and> port \<le> 65535 \<and> path \<noteq> [] \<and> hd path = CHR ''/''"
  using hd_dropWhile [of "\<lambda>c. c \<noteq> CHR ''/''" "drop 5 url"] dropWhile_eq_Nil_conv [of "\<lambda>c. c \<noteq> CHR ''/''" "drop 5 url"]
  by (auto simp: parse_ws_url_def Let_def split: if_splits)

text \<open>The configuration accepts secure addresses too; this client refuses each of them.\<close>

lemma parse_ws_url_secure: "starts_with ''wss://'' url \<Longrightarrow> parse_ws_url url = None"
proof -
  assume "starts_with ''wss://'' url"
  then have *: "take 6 url = ''wss://''" by (simp add: starts_with_def numeral_eq_Suc)
  have "take 5 url = take 5 (take 6 url)" by simp
  then have "take 5 url \<noteq> ''ws://''" unfolding * by simp
  then have "\<not> starts_with ''ws://'' url" by (simp add: starts_with_def numeral_eq_Suc)
  then show ?thesis by (simp add: parse_ws_url_def)
qed

section \<open>Base64\<close>

definition b64_char :: "u32 \<Rightarrow> char" where
  "b64_char i = ''ABCDEFGHIJKLMNOPQRSTUVWXYZabcdefghijklmnopqrstuvwxyz0123456789+/'' ! unat (i AND 63)"

definition b64_value :: "u8 \<Rightarrow> u8 \<Rightarrow> u8 \<Rightarrow> u32" where
  "b64_value a b c = push_bit 16 (ucast a) OR push_bit 8 (ucast b) OR ucast c"

fun b64 :: "u8 list \<Rightarrow> string" where
  "b64 [] = []"
| "b64 [a] = (let v = b64_value a 0 0 in [b64_char (drop_bit 18 v), b64_char (drop_bit 12 v), CHR ''='', CHR ''=''])"
| "b64 [a, b] =
     (let v = b64_value a b 0
      in [b64_char (drop_bit 18 v), b64_char (drop_bit 12 v), b64_char (drop_bit 6 v), CHR ''=''])"
| "b64 (a # b # c # rest) =
     (let v = b64_value a b c
      in [b64_char (drop_bit 18 v), b64_char (drop_bit 12 v), b64_char (drop_bit 6 v), b64_char v] @ b64 rest)"

lemma b64_length: "length (b64 xs) = (length xs + 2) div 3 * 4"
proof (induction xs rule: b64.induct)
  case (4 a b c rest)
  have "(length (a # b # c # rest) + 2) div 3 = Suc ((length rest + 2) div 3)"
    using div_add_self2 [of 3 "length rest + 2"] by simp
  with 4 show ?case by (simp add: Let_def)
qed (auto simp: Let_def)

section \<open>Frames\<close>

definition xor_mask :: "u8 list \<Rightarrow> u8 list \<Rightarrow> u8 list" where
  "xor_mask key data = map (\<lambda>i. data ! i XOR key ! (i mod 4)) [0..<length data]"

text \<open>The frame that \<^verbatim>\<open>send_frame_on_poller\<close> builds.\<close>

definition frame_header :: "u8 \<Rightarrow> nat \<Rightarrow> u8 list" where
  "frame_header opcode len =
     (0x80 OR (opcode AND 0x0f)) #
     (if len < 126 then [0x80 OR of_nat len]
      else [0x80 OR 126, of_nat (len div 256 mod 256), of_nat (len mod 256)])"

definition frame_bytes :: "u8 \<Rightarrow> u8 list \<Rightarrow> u8 list \<Rightarrow> u8 list" where
  "frame_bytes opcode data key = frame_header opcode (length data) @ key @ xor_mask key data"

text \<open>
  The front of the buffer: more bytes are needed, a length the client refuses, or a frame with its
  decoded payload and the bytes behind it.
\<close>

datatype ws_front =
    Need_More
  | Refused_Length
  | Frame bool u8 "u8 list" "u8 list"

definition payload_at :: "nat \<Rightarrow> bool \<Rightarrow> nat \<Rightarrow> u8 list \<Rightarrow> u8 list" where
  "payload_at header masked len buf =
     (if masked then xor_mask (take 4 (drop header buf)) (take len (drop (header + 4) buf))
      else take len (drop header buf))"

definition parse_body :: "u8 list \<Rightarrow> nat \<Rightarrow> nat \<Rightarrow> ws_front" where
  "parse_body buf header len =
     (let masked = bit (buf ! 1) 7; mask_len = (if masked then 4 else 0) in
      if len > 65535 \<or> length buf < header + mask_len + len then Need_More
      else Frame (bit (buf ! 0) 7) (buf ! 0 AND 0x0f) (payload_at header masked len buf)
             (drop (header + mask_len + len) buf))"

definition parse_front :: "u8 list \<Rightarrow> ws_front" where
  "parse_front buf =
     (if length buf < 2 then Need_More
      else
        let len = unat (buf ! 1 AND 0x7f) in
        if len = 126
        then if length buf < 4 then Need_More
             else parse_body buf 4 (unat (buf ! 2) * 256 + unat (buf ! 3))
        else if len = 127 then Refused_Length
        else parse_body buf 2 len)"

section \<open>Sent frames are read back\<close>

lemma opcode_bits [simp]:
  "bit ((0x80 :: u8) OR x) 7" "((0x80 :: u8) OR (x AND 0x0f)) AND 0x0f = x AND 0x0f"
  by (simp_all add: bit_or_iff bit.conj_disj_distrib2 and.assoc)

lemma length_bits:
  assumes "n \<le> 126"
  shows "unat (((0x80 :: u8) OR of_nat n) AND 0x7f) = n"
proof -
  have m: "(0x7f :: u8) = mask 7" by (simp add: mask_eq_exp_minus_1)
  have "((0x80 :: u8) OR of_nat n) AND mask 7 = of_nat n AND mask 7"
    by (simp add: bit.conj_disj_distrib2 mask_eq_exp_minus_1)
  then have "unat (((0x80 :: u8) OR of_nat n) AND 0x7f) = unat (of_nat n :: u8) mod 2 ^ 7"
    unfolding m by (simp add: unat_and_mask)
  with assms show ?thesis by (simp add: unat_of_nat)
qed

lemma length_xor_mask [simp]: "length (xor_mask key data) = length data"
  by (simp add: xor_mask_def)

lemma xor_mask_twice [simp]: "xor_mask key (xor_mask key data) = data"
  by (rule nth_equalityI) (simp_all add: xor_mask_def xor.assoc)

lemma parse_body_masked:
  assumes "length hdr = n" "2 \<le> n" "length key = 4" "length data \<le> 65535"
    and "hdr ! 0 = 0x80 OR (opcode AND 0x0f)" "bit (hdr ! 1) 7"
  shows "parse_body (hdr @ key @ xor_mask key data @ rest) n (length data) = Frame True (opcode AND 0x0f) data rest"
proof -
  have "(hdr @ key @ xor_mask key data @ rest) ! 0 = hdr ! 0"
    "(hdr @ key @ xor_mask key data @ rest) ! 1 = hdr ! 1"
    using assms(1,2) by (simp_all add: nth_append)
  with assms show ?thesis
    by (simp add: parse_body_def payload_at_def Let_def)
qed

lemma parse_frame_bytes:
  assumes "length key = 4" and "length data \<le> 65535"
  shows "parse_front (frame_bytes opcode data key @ rest) = Frame True (opcode AND 0x0f) data rest"
proof (cases "length data < 126")
  case True
  then show ?thesis
    using parse_body_masked [of "frame_header opcode (length data)" 2 key data opcode rest] assms
      length_bits [of "length data"]
    by (simp add: parse_front_def frame_bytes_def frame_header_def Let_def)
next
  case False
  have "unat (of_nat (length data div 256 mod 256) :: u8) * 256 + unat (of_nat (length data mod 256) :: u8) =
      length data div 256 mod 256 * 256 + length data mod 256"
    by (simp add: unat_of_nat)
  also have "\<dots> = length data"
    using assms(2) two_bytes [of "length data"] by simp
  finally have len: "unat (of_nat (length data div 256 mod 256) :: u8) * 256 +
      unat (of_nat (length data mod 256) :: u8) = length data" .
  have "unat ((0xFE :: u8) AND 0x7f) = 126" by simp
  with False show ?thesis
    using parse_body_masked [of "frame_header opcode (length data)" 4 key data opcode rest] assms len
    by (simp add: parse_front_def frame_bytes_def frame_header_def Let_def)
qed

section \<open>Reading does not depend on the chunks\<close>

lemma parse_body_append:
  assumes "parse_body buf n len = Frame fin op p rest" "2 \<le> n"
  shows "parse_body (buf @ later) n len = Frame fin op p (rest @ later)"
proof -
  have "length buf \<ge> 2" using assms by (auto simp: parse_body_def Let_def split: if_splits)
  then have "(buf @ later) ! 0 = buf ! 0" "(buf @ later) ! 1 = buf ! 1" by (auto simp: nth_append)
  with assms show ?thesis
    by (auto simp: parse_body_def payload_at_def Let_def split: if_splits)
qed

lemma parse_front_append:
  assumes "parse_front buf = Frame fin op p rest"
  shows "parse_front (buf @ later) = Frame fin op p (rest @ later)"
proof -
  have len: "length buf \<ge> 2" using assms by (auto simp: parse_front_def split: if_splits)
  then have "(buf @ later) ! 1 = buf ! 1" by (auto simp: nth_append)
  moreover have "length buf \<ge> 4 \<Longrightarrow> (buf @ later) ! 2 = buf ! 2 \<and> (buf @ later) ! 3 = buf ! 3"
    by (auto simp: nth_append)
  ultimately show ?thesis
    using assms len
    by (auto simp: parse_front_def Let_def intro: parse_body_append split: if_splits)
qed

lemma parse_body_not_refused [simp]: "parse_body buf n len \<noteq> Refused_Length"
  by (simp add: parse_body_def Let_def)

lemma parse_front_refused:
  "parse_front buf = Refused_Length \<longleftrightarrow> length buf \<ge> 2 \<and> unat (buf ! 1 AND 0x7f) = 127"
  by (auto simp: parse_front_def Let_def)

lemma parse_front_append_refused:
  "parse_front buf = Refused_Length \<Longrightarrow> parse_front (buf @ later) = Refused_Length"
  unfolding parse_front_refused by (simp add: nth_append)

lemma parse_body_shorter: "parse_body buf n len = Frame fin op p rest \<Longrightarrow> 2 \<le> n \<Longrightarrow> length rest + 2 \<le> length buf"
  by (auto simp: parse_body_def Let_def split: if_splits)

lemma parse_front_shorter: "parse_front buf = Frame fin op p rest \<Longrightarrow> length rest + 2 \<le> length buf"
  by (auto simp: parse_front_def Let_def dest: parse_body_shorter split: if_splits)

end
