(* ===== verification/Ws_Client.thy ===== *)
theory Ws_Client
  imports Ws_Frame
begin

text \<open>
  The WebSocket client (src/protocol/webrtc/ws\_client.h, src/protocol/webrtc/ws\_client.cpp): handshake,
  buffers, frames and state changes, on the thread of its poller.  The TCP client and the poller are
  answers of the parameter \<open>ws_env\<close>; the two handlers of the user are functions there too, on any
  extension of the client's record, so that a user can keep its own state beside the client's.  The main
  lemma: whatever pieces the stream of a peer arrives in, exactly its messages are delivered, in order.
\<close>

section \<open>State\<close>

record ws_client =
  ws_poller :: bool
  ws_open :: bool
  ws_host :: string
  ws_path :: string
  ws_port :: int
  ws_handshake_buffer :: "u8 list"
  ws_frame_buffer :: "u8 list"
  ws_handshake_complete :: bool
  ws_connected :: bool
  ws_sent :: "u8 list list"

record 's ws_env =
  we_posted :: bool
  we_create :: bool
  we_connect :: "string \<Rightarrow> int \<Rightarrow> bool"
  we_send :: "u8 list list \<Rightarrow> u8 list \<Rightarrow> bool"
  we_random :: "nat \<Rightarrow> nat \<Rightarrow> u8"
  we_on_message :: "u8 list \<Rightarrow> 's \<Rightarrow> 's"
  we_on_state :: "bool \<Rightarrow> 's \<Rightarrow> 's"

text \<open>Text as the bytes on the wire.\<close>

definition bytes_of :: "string \<Rightarrow> u8 list" where
  "bytes_of s = map (\<lambda>c. of_nat (byte_of c)) s"

definition text_of :: "u8 list \<Rightarrow> string" where
  "text_of bs = map (\<lambda>b. byte_char (unat b)) bs"

lemma text_of_bytes_of [simp]: "text_of (bytes_of s) = s"
  by (simp add: text_of_def bytes_of_def comp_def unat_of_nat byte_of_less)

section \<open>Sending\<close>

definition tcp_send :: "'s ws_env \<Rightarrow> u8 list \<Rightarrow> 'm ws_client_scheme \<Rightarrow> bool \<times> 'm ws_client_scheme" where
  "tcp_send e raw s = (we_send e (ws_sent s) raw, s\<lparr>ws_sent := ws_sent s @ [raw]\<rparr>)"

text \<open>The bytes that the random device gives for the next message.\<close>

definition random_bytes :: "'s ws_env \<Rightarrow> nat \<Rightarrow> 'm ws_client_scheme \<Rightarrow> u8 list" where
  "random_bytes e n s = map (we_random e (length (ws_sent s))) [0..<n]"

definition send_handshake :: "'s ws_env \<Rightarrow> 'm ws_client_scheme \<Rightarrow> bool \<times> 'm ws_client_scheme" where
  "send_handshake e s =
     (if \<not> ws_open s then (False, s)
      else
        let crlf = [CHR 0x0D, CHR 0x0A];
            raw = ''GET '' @ ws_path s @ '' HTTP/1.1'' @ crlf @
                  ''Host: '' @ ws_host s @ '':'' @ dec_int (ws_port s) @ crlf @
                  ''Upgrade: websocket'' @ crlf @ ''Connection: Upgrade'' @ crlf @
                  ''Sec-WebSocket-Key: '' @ b64 (random_bytes e 16 s) @ crlf @
                  ''Sec-WebSocket-Version: 13'' @ crlf @ crlf
        in tcp_send e (bytes_of raw) s)"

definition send_frame_on_poller ::
  "'s ws_env \<Rightarrow> u8 \<Rightarrow> u8 list \<Rightarrow> 'm ws_client_scheme \<Rightarrow> bool \<times> 'm ws_client_scheme" where
  "send_frame_on_poller e opcode data s =
     (if \<not> ws_open s \<or> \<not> ws_connected s \<or> length data > 65535 then (False, s)
      else tcp_send e (frame_bytes opcode data (random_bytes e 4 s)) s)"

text \<open>A call made on the poller's thread; elsewhere it waits for the poller, which may refuse it.\<close>

definition call_on_poller ::
  "'s ws_env \<Rightarrow> ('m ws_client_scheme \<Rightarrow> bool \<times> 'm ws_client_scheme) \<Rightarrow> 'm ws_client_scheme \<Rightarrow>
     bool \<times> 'm ws_client_scheme" where
  "call_on_poller e f s = (if \<not> ws_poller s \<or> \<not> we_posted e then (False, s) else f s)"

definition ws_send_text :: "'s ws_env \<Rightarrow> string \<Rightarrow> 'm ws_client_scheme \<Rightarrow> bool \<times> 'm ws_client_scheme" where
  "ws_send_text e txt s =
     (if \<not> ws_connected s \<or> txt = [] then (False, s)
      else call_on_poller e (send_frame_on_poller e 1 (bytes_of txt)) s)"

section \<open>Opening and closing\<close>

definition drop_connection :: "'m ws_client_scheme \<Rightarrow> 'm ws_client_scheme" where
  "drop_connection s =
     s\<lparr>ws_connected := False, ws_handshake_complete := False, ws_handshake_buffer := [],
       ws_frame_buffer := []\<rparr>"

definition close_on_poller ::
  "('m ws_client_scheme) ws_env \<Rightarrow> bool \<Rightarrow> 'm ws_client_scheme \<Rightarrow> 'm ws_client_scheme" where
  "close_on_poller e notify s =
     (let s1 = (drop_connection s)\<lparr>ws_open := False\<rparr> in if notify then we_on_state e False s1 else s1)"

definition ws_close :: "('m ws_client_scheme) ws_env \<Rightarrow> 'm ws_client_scheme \<Rightarrow> 'm ws_client_scheme" where
  "ws_close e s = snd (call_on_poller e (\<lambda>t. (True, close_on_poller e False t)) s)"

definition connect_on_poller ::
  "('m ws_client_scheme) ws_env \<Rightarrow> 'm ws_client_scheme \<Rightarrow> bool \<times> 'm ws_client_scheme" where
  "connect_on_poller e s =
     (let s1 = close_on_poller e False s in
      if \<not> we_create e then (False, s1)
      else if \<not> we_connect e (ws_host s1) (ws_port s1 mod 65536) then (False, s1)
      else (True, s1\<lparr>ws_open := True\<rparr>))"

definition ws_connect ::
  "('m ws_client_scheme) ws_env \<Rightarrow> string \<Rightarrow> 'm ws_client_scheme \<Rightarrow> bool \<times> 'm ws_client_scheme" where
  "ws_connect e url s =
     (case parse_ws_url url of
        None \<Rightarrow> (False, s)
      | Some (host, port, path) \<Rightarrow>
          call_on_poller e (\<lambda>t. connect_on_poller e (t\<lparr>ws_host := host, ws_path := path, ws_port := port\<rparr>)) s)"

section \<open>Events of the TCP client\<close>

text \<open>
  The loop over the buffer; the first component tells whether reading goes on (it ends when the client
  closes).  A round takes at least two bytes from the buffer, so its length is enough fuel.
\<close>

fun consume_rounds ::
  "('m ws_client_scheme) ws_env \<Rightarrow> nat \<Rightarrow> 'm ws_client_scheme \<Rightarrow> bool \<times> 'm ws_client_scheme" where
  "consume_rounds e 0 s = (True, s)"
| "consume_rounds e (Suc n) s =
     (case parse_front (ws_frame_buffer s) of
        Need_More \<Rightarrow> (True, s)
      | Refused_Length \<Rightarrow> (False, close_on_poller e True s)
      | Frame fin opcode payload rest \<Rightarrow>
          let s1 = s\<lparr>ws_frame_buffer := rest\<rparr> in
          if opcode = 8 then (False, close_on_poller e True s1)
          else if opcode = 9 then consume_rounds e n (snd (send_frame_on_poller e 10 payload s1))
          else if (opcode = 1 \<or> opcode = 0) \<and> fin then consume_rounds e n (we_on_message e payload s1)
          else consume_rounds e n s1)"

definition consume_frames ::
  "('m ws_client_scheme) ws_env \<Rightarrow> 'm ws_client_scheme \<Rightarrow> bool \<times> 'm ws_client_scheme" where
  "consume_frames e s = consume_rounds e (length (ws_frame_buffer s)) s"

definition on_handshake_data ::
  "('m ws_client_scheme) ws_env \<Rightarrow> u8 list \<Rightarrow> 'm ws_client_scheme \<Rightarrow> 'm ws_client_scheme" where
  "on_handshake_data e data s =
     (let buf = ws_handshake_buffer s @ data; s1 = s\<lparr>ws_handshake_buffer := buf\<rparr> in
      if length buf > 8192 then close_on_poller e True s1
      else
        (case find_bytes [0x0D, 0x0A, 0x0D, 0x0A] buf of
           None \<Rightarrow> s1
         | Some i \<Rightarrow>
             if find_bytes (bytes_of '' 101 '') (take (i + 4) buf) = None then close_on_poller e True s1
             else
               snd (consume_frames e (we_on_state e True
                 (s1\<lparr>ws_frame_buffer := ws_frame_buffer s1 @ drop (i + 4) buf, ws_handshake_buffer := [],
                     ws_handshake_complete := True, ws_connected := True\<rparr>)))))"

definition handle_tcp_data ::
  "('m ws_client_scheme) ws_env \<Rightarrow> u8 list \<Rightarrow> 'm ws_client_scheme \<Rightarrow> 'm ws_client_scheme" where
  "handle_tcp_data e data s =
     (if \<not> ws_handshake_complete s then on_handshake_data e data s
      else snd (consume_frames e (s\<lparr>ws_frame_buffer := ws_frame_buffer s @ data\<rparr>)))"

definition on_tcp_connect :: "('m ws_client_scheme) ws_env \<Rightarrow> 'm ws_client_scheme \<Rightarrow> 'm ws_client_scheme" where
  "on_tcp_connect e s =
     (let (ok, s1) = send_handshake e s in if ok then s1 else close_on_poller e True s1)"

definition on_tcp_recv ::
  "('m ws_client_scheme) ws_env \<Rightarrow> u8 list \<Rightarrow> 'm ws_client_scheme \<Rightarrow> 'm ws_client_scheme" where
  "on_tcp_recv e data s = (if data = [] then s else handle_tcp_data e data s)"

definition on_tcp_error :: "('m ws_client_scheme) ws_env \<Rightarrow> 'm ws_client_scheme \<Rightarrow> 'm ws_client_scheme" where
  "on_tcp_error e s = we_on_state e False (drop_connection s)"

section \<open>The stream and its pieces\<close>

text \<open>
  A message handler that leaves the receiving side of the client alone: it may send and keep state of
  its own, but its effect does not depend on what is in the buffer.
\<close>

definition buffer_neutral :: "('m ws_client_scheme) ws_env \<Rightarrow> bool" where
  "buffer_neutral e \<longleftrightarrow>
     (\<forall>p s b. we_on_message e p (s\<lparr>ws_frame_buffer := b\<rparr>) = (we_on_message e p s)\<lparr>ws_frame_buffer := b\<rparr>) \<and>
     (\<forall>p s. ws_handshake_complete (we_on_message e p s) = ws_handshake_complete s)"

lemma neutral_buffer:
  assumes "buffer_neutral e"
  shows "ws_frame_buffer (we_on_message e p s) = ws_frame_buffer s"
proof -
  have "we_on_message e p s = (we_on_message e p s)\<lparr>ws_frame_buffer := ws_frame_buffer s\<rparr>"
    using assms [unfolded buffer_neutral_def] by (metis ws_client.surjective ws_client.update_convs(7))
  then show ?thesis by (metis ws_client.select_convs(7) ws_client.surjective ws_client.update_convs(7))
qed

lemma send_frame_buffer:
  "send_frame_on_poller e opcode data (s\<lparr>ws_frame_buffer := b\<rparr>) =
     (fst (send_frame_on_poller e opcode data s), (snd (send_frame_on_poller e opcode data s))\<lparr>ws_frame_buffer := b\<rparr>)"
  "ws_frame_buffer (snd (send_frame_on_poller e opcode data s)) = ws_frame_buffer s"
  "ws_handshake_complete (snd (send_frame_on_poller e opcode data s)) = ws_handshake_complete s"
  by (simp_all add: send_frame_on_poller_def tcp_send_def random_bytes_def)

text \<open>One round, with the part that depends on the operation code in one place.\<close>

definition round_effect ::
  "('m ws_client_scheme) ws_env \<Rightarrow> bool \<Rightarrow> u8 \<Rightarrow> u8 list \<Rightarrow> 'm ws_client_scheme \<Rightarrow> 'm ws_client_scheme" where
  "round_effect e fin opcode payload s =
     (if opcode = 9 then snd (send_frame_on_poller e 10 payload s)
      else if (opcode = 1 \<or> opcode = 0) \<and> fin then we_on_message e payload s else s)"

lemma consume_Frame:
  assumes "parse_front (ws_frame_buffer s) = Frame fin opcode payload rest"
  shows "consume_rounds e (Suc n) s =
    (if opcode = 8 then (False, close_on_poller e True (s\<lparr>ws_frame_buffer := rest\<rparr>))
     else consume_rounds e n (round_effect e fin opcode payload (s\<lparr>ws_frame_buffer := rest\<rparr>)))"
  using assms by (auto simp: round_effect_def Let_def)

lemma round_effect_buffer:
  assumes "buffer_neutral e"
  shows "round_effect e fin opcode payload (s\<lparr>ws_frame_buffer := b\<rparr>) =
      (round_effect e fin opcode payload s)\<lparr>ws_frame_buffer := b\<rparr>"
    and "ws_frame_buffer (round_effect e fin opcode payload s) = ws_frame_buffer s"
    and "ws_handshake_complete (round_effect e fin opcode payload s) = ws_handshake_complete s"
  using assms neutral_buffer [OF assms]
  by (auto simp: round_effect_def send_frame_buffer buffer_neutral_def)

lemma consume_rounds_fuel:
  assumes "buffer_neutral e" and "length (ws_frame_buffer s) \<le> n" and "length (ws_frame_buffer s) \<le> m"
  shows "consume_rounds e n s = consume_rounds e m s"
  using assms(2,3)
proof (induction n arbitrary: m s)
  case 0
  then have "parse_front (ws_frame_buffer s) = Need_More" by (simp add: parse_front_def)
  then show ?case by (cases m) simp_all
next
  case (Suc n)
  show ?case
  proof (cases m)
    case 0
    then have "parse_front (ws_frame_buffer s) = Need_More" using Suc.prems(2) by (simp add: parse_front_def)
    then show ?thesis using 0 by simp
  next
    case (Suc k)
    show ?thesis
    proof (cases "parse_front (ws_frame_buffer s)")
      case (Frame fin op p rest)
      have "length rest \<le> n" "length rest \<le> k"
        using parse_front_shorter [OF Frame] Suc.prems \<open>m = Suc k\<close> by auto
      then show ?thesis
        unfolding \<open>m = Suc k\<close> consume_Frame [OF Frame]
        using Suc.IH [of "round_effect e fin op p (s\<lparr>ws_frame_buffer := rest\<rparr>)" k]
          round_effect_buffer [OF assms(1)] by simp
    qed (use \<open>m = Suc k\<close> in simp_all)
  qed
qed

lemma consume_frames_Frame:
  assumes "buffer_neutral e" and "parse_front (ws_frame_buffer s) = Frame fin opcode payload rest" and "opcode \<noteq> 8"
  shows "consume_frames e s = consume_frames e (round_effect e fin opcode payload (s\<lparr>ws_frame_buffer := rest\<rparr>))"
proof -
  obtain n where n: "length (ws_frame_buffer s) = Suc n" "length rest \<le> n"
    using parse_front_shorter [OF assms(2)] by (cases "length (ws_frame_buffer s)") auto
  let ?t = "round_effect e fin opcode payload (s\<lparr>ws_frame_buffer := rest\<rparr>)"
  have "ws_frame_buffer ?t = rest" using round_effect_buffer(2) [OF assms(1)] by simp
  then have "consume_rounds e n ?t = consume_frames e ?t"
    unfolding consume_frames_def using n(2) by (intro consume_rounds_fuel [OF assms(1)]) simp_all
  then show ?thesis
    unfolding consume_frames_def [of e s] n(1) consume_Frame [OF assms(2)] using assms(3) by simp
qed

lemma consume_frames_others:
  "parse_front (ws_frame_buffer s) = Need_More \<Longrightarrow> consume_frames e s = (True, s)"
  "parse_front (ws_frame_buffer s) = Refused_Length \<Longrightarrow> \<not> fst (consume_frames e s)"
  "parse_front (ws_frame_buffer s) = Frame fin 8 payload rest \<Longrightarrow> \<not> fst (consume_frames e s)"
proof -
  show "parse_front (ws_frame_buffer s) = Need_More \<Longrightarrow> consume_frames e s = (True, s)"
    by (cases "ws_frame_buffer s") (simp_all add: consume_frames_def)
  show "parse_front (ws_frame_buffer s) = Refused_Length \<Longrightarrow> \<not> fst (consume_frames e s)"
    by (cases "ws_frame_buffer s") (simp_all add: consume_frames_def parse_front_def)
  show "parse_front (ws_frame_buffer s) = Frame fin 8 payload rest \<Longrightarrow> \<not> fst (consume_frames e s)"
    by (cases "ws_frame_buffer s") (simp_all add: consume_frames_def parse_front_def)
qed

text \<open>More bytes behind: a reading that stops still stops, one that goes on can be resumed.\<close>

lemma consume_frames_append:
  assumes "buffer_neutral e" and "ws_frame_buffer s = b"
  shows "(fst (consume_frames e s) \<longrightarrow>
      consume_frames e (s\<lparr>ws_frame_buffer := b @ d\<rparr>) =
        consume_frames e ((snd (consume_frames e s))
          \<lparr>ws_frame_buffer := ws_frame_buffer (snd (consume_frames e s)) @ d\<rparr>) \<and>
      parse_front (ws_frame_buffer (snd (consume_frames e s))) = Need_More \<and>
      ws_handshake_complete (snd (consume_frames e s)) = ws_handshake_complete s) \<and>
    (\<not> fst (consume_frames e s) \<longrightarrow> \<not> fst (consume_frames e (s\<lparr>ws_frame_buffer := b @ d\<rparr>)))"
  using assms(2)
proof (induction "length b" arbitrary: b s rule: less_induct)
  case less
  show ?case
  proof (cases "parse_front b")
    case Need_More
    then show ?thesis using less.prems by (simp add: consume_frames_others(1))
  next
    case Refused_Length
    then show ?thesis
      using less.prems parse_front_append_refused [OF Refused_Length, of d]
        consume_frames_others(2) [of s e] consume_frames_others(2) [of "s\<lparr>ws_frame_buffer := b @ d\<rparr>" e]
      by simp
  next
    case (Frame fin op p rest)
    note longer = parse_front_append [OF Frame, of d]
    show ?thesis
    proof (cases "op = 8")
      case True
      then show ?thesis
        using less.prems Frame longer consume_frames_others(3) [of s fin p rest e]
          consume_frames_others(3) [of "s\<lparr>ws_frame_buffer := b @ d\<rparr>" fin p "rest @ d" e]
        by simp
    next
      case False
      let ?t = "round_effect e fin op p (s\<lparr>ws_frame_buffer := rest\<rparr>)"
      have t: "ws_frame_buffer ?t = rest" "ws_handshake_complete ?t = ws_handshake_complete s"
        using round_effect_buffer(2,3) [OF assms(1)] by simp_all
      have 1: "consume_frames e s = consume_frames e ?t"
        by (rule consume_frames_Frame [OF assms(1) _ False]) (simp add: less.prems Frame)
      have "round_effect e fin op p (s\<lparr>ws_frame_buffer := rest @ d\<rparr>) = ?t\<lparr>ws_frame_buffer := rest @ d\<rparr>"
        using round_effect_buffer(1) [OF assms(1), where fin = fin and opcode = op and payload = p
            and s = "s\<lparr>ws_frame_buffer := rest\<rparr>" and b = "rest @ d"]
        by simp
      then have 2: "consume_frames e (s\<lparr>ws_frame_buffer := b @ d\<rparr>) = consume_frames e (?t\<lparr>ws_frame_buffer := rest @ d\<rparr>)"
        using consume_frames_Frame [OF assms(1) _ False, of "s\<lparr>ws_frame_buffer := b @ d\<rparr>"] longer by simp
      have "length rest < length b" using parse_front_shorter [OF Frame] by simp
      from less.hyps [OF this t(1)] show ?thesis unfolding 1 2 t(2) .
    qed
  qed
qed

text \<open>Feeding pieces is feeding the whole, as long as the peer does not close within it.\<close>

lemma handle_pieces:
  assumes "buffer_neutral e" and "ws_handshake_complete s" and "parse_front (ws_frame_buffer s) = Need_More"
    and "fst (consume_frames e (s\<lparr>ws_frame_buffer := ws_frame_buffer s @ concat ds\<rparr>))"
  shows "fold (handle_tcp_data e) ds s = handle_tcp_data e (concat ds) s"
  using assms(2-4)
proof (induction ds arbitrary: s)
  case Nil
  then show ?case by (simp add: handle_tcp_data_def consume_frames_others(1))
next
  case (Cons d ds)
  let ?s1 = "s\<lparr>ws_frame_buffer := ws_frame_buffer s @ d\<rparr>"
  let ?t = "snd (consume_frames e ?s1)"
  from consume_frames_append [OF assms(1), of ?s1 "ws_frame_buffer s @ d" "concat ds"] Cons.prems(3)
  have go: "fst (consume_frames e ?s1)" by auto
  with consume_frames_append [OF assms(1), of ?s1 "ws_frame_buffer s @ d" "concat ds"]
  have rest: "consume_frames e (s\<lparr>ws_frame_buffer := ws_frame_buffer s @ d @ concat ds\<rparr>) =
      consume_frames e (?t\<lparr>ws_frame_buffer := ws_frame_buffer ?t @ concat ds\<rparr>)"
    and t: "ws_handshake_complete ?t" "parse_front (ws_frame_buffer ?t) = Need_More"
    using Cons.prems(1) by (simp_all add: case_prod_beta)
  have "fold (handle_tcp_data e) ds ?t = handle_tcp_data e (concat ds) ?t"
    using Cons.prems(3) rest by (intro Cons.IH t) simp
  also have "\<dots> = handle_tcp_data e (concat (d # ds)) s"
    using Cons.prems(1) t(1) rest by (simp add: handle_tcp_data_def)
  finally have "fold (handle_tcp_data e) ds ?t = handle_tcp_data e (concat (d # ds)) s" .
  moreover have "handle_tcp_data e d s = ?t"
    using Cons.prems(1) by (simp add: handle_tcp_data_def)
  ultimately show ?case by simp
qed

section \<open>Messages of a peer\<close>

text \<open>The frame of a server: unmasked, in one piece.\<close>

definition server_frame :: "u8 list \<Rightarrow> u8 list" where
  "server_frame m =
     0x81 # (if length m < 126 then [of_nat (length m)]
             else [126, of_nat (length m div 256), of_nat (length m mod 256)]) @ m"

lemma parse_body_plain:
  assumes "length hdr = n" "2 \<le> n" "length data \<le> 65535" and "\<not> bit (hdr ! 1) 7"
  shows "parse_body (hdr @ data @ rest) n (length data) = Frame (bit (hdr ! 0) 7) (hdr ! 0 AND 0x0f) data rest"
proof -
  have "(hdr @ data @ rest) ! 0 = hdr ! 0" "(hdr @ data @ rest) ! 1 = hdr ! 1"
    using assms(1,2) by (simp_all add: nth_append)
  with assms show ?thesis by (simp add: parse_body_def payload_at_def Let_def)
qed

lemma parse_server_frame:
  assumes "length m \<le> 65535"
  shows "parse_front (server_frame m @ rest) = Frame True 1 m rest"
proof (cases "length m < 126")
  case True
  have "(of_nat (length m) :: u8) AND 0x7f = of_nat (length m) AND mask 7"
    by (simp add: mask_eq_exp_minus_1)
  then have len: "unat ((of_nat (length m) :: u8) AND 0x7f) = length m"
    using True by (simp add: unat_and_mask unat_of_nat)
  have "\<not> bit (of_nat (length m) :: u8) 7"
    using True by (simp add: bit_iff_odd_drop_bit drop_bit_eq_div word_arith_nat_div unat_of_nat)
  with True len parse_body_plain [of "[0x81, of_nat (length m)]" 2 m rest] show ?thesis
    by (simp add: parse_front_def server_frame_def Let_def)
next
  case False
  have len: "unat (of_nat (length m div 256) :: u8) * 256 + unat (of_nat (length m mod 256) :: u8) = length m"
    using assms by (simp add: unat_of_nat)
  with False assms
    parse_body_plain [of "[0x81, 126, of_nat (length m div 256), of_nat (length m mod 256)]" 4 m rest]
  show ?thesis by (simp add: parse_front_def server_frame_def Let_def)
qed

lemma consume_messages:
  assumes "buffer_neutral e" and "list_all (\<lambda>m. length m \<le> 65535) ms"
  shows "consume_frames e (s\<lparr>ws_frame_buffer := concat (map server_frame ms)\<rparr>) =
    (True, fold (we_on_message e) ms (s\<lparr>ws_frame_buffer := []\<rparr>))"
  using assms(2)
proof (induction ms arbitrary: s)
  case Nil
  then show ?case by (simp add: consume_frames_others(1) parse_front_def)
next
  case (Cons m ms)
  let ?s = "s\<lparr>ws_frame_buffer := concat (map server_frame (m # ms))\<rparr>"
  let ?rest = "concat (map server_frame ms)"
  have "parse_front (ws_frame_buffer ?s) = Frame True 1 m ?rest"
    using Cons.prems parse_server_frame by simp
  from consume_frames_Frame [OF assms(1) this]
  have "consume_frames e ?s = consume_frames e (we_on_message e m (s\<lparr>ws_frame_buffer := ?rest\<rparr>))"
    by (simp add: round_effect_def)
  also have "\<dots> = consume_frames e ((we_on_message e m s)\<lparr>ws_frame_buffer := ?rest\<rparr>)"
    using assms(1) by (simp add: buffer_neutral_def)
  also have "\<dots> = (True, fold (we_on_message e) ms ((we_on_message e m s)\<lparr>ws_frame_buffer := []\<rparr>))"
    using Cons by simp
  finally show ?case using assms(1) by (simp add: buffer_neutral_def)
qed

text \<open>
  C27: the client delivers what a peer sends.  For any list of messages of at most 65535 bytes, each sent as
  one frame, and for any way in which TCP cuts the stream into pieces, empty and single-byte pieces
  included, feeding the pieces to a connected client with an empty buffer calls the message handler with
  exactly these messages, in order, and leaves the buffer empty.
\<close>

theorem messages_delivered_in_order:
  assumes "buffer_neutral e" and "ws_handshake_complete s" and "ws_frame_buffer s = []"
    and "list_all (\<lambda>m. length m \<le> 65535) ms" and "concat pieces = concat (map server_frame ms)"
  shows "fold (handle_tcp_data e) pieces s = fold (we_on_message e) ms s \<and>
    ws_frame_buffer (fold (handle_tcp_data e) pieces s) = []"
proof -
  have s: "s\<lparr>ws_frame_buffer := []\<rparr> = s" using assms(3) by simp
  have c: "consume_frames e (s\<lparr>ws_frame_buffer := concat (map server_frame ms)\<rparr>) =
      (True, fold (we_on_message e) ms s)"
    using consume_messages [OF assms(1,4), of s] unfolding s .
  have "fold (handle_tcp_data e) pieces s = handle_tcp_data e (concat pieces) s"
    using assms(3,5) c by (intro handle_pieces [OF assms(1,2)]) (simp_all add: parse_front_def)
  also have "\<dots> = fold (we_on_message e) ms s"
    using assms(2,3,5) c by (simp add: handle_tcp_data_def)
  finally have 1: "fold (handle_tcp_data e) pieces s = fold (we_on_message e) ms s" .
  have "ws_frame_buffer (fold (we_on_message e) xs t) = ws_frame_buffer t" for xs t
    using neutral_buffer [OF assms(1)] by (induction xs arbitrary: t) simp_all
  with 1 assms(3) show ?thesis by simp
qed

text \<open>A connected client whose handler writes the messages one behind the other.\<close>

definition demo_ws_env :: "ws_client ws_env" where
  "demo_ws_env =
     \<lparr>we_posted = True, we_create = True, we_connect = (\<lambda>_ _. True), we_send = (\<lambda>_ _. True),
      we_random = (\<lambda>i j. of_nat (7 * i + j)), we_on_message = (\<lambda>p s. s\<lparr>ws_host := ws_host s @ text_of p\<rparr>),
      we_on_state = (\<lambda>_ s. s)\<rparr>"

definition demo_ws :: ws_client where
  "demo_ws =
     \<lparr>ws_poller = True, ws_open = True, ws_host = [], ws_path = [], ws_port = 80, ws_handshake_buffer = [],
      ws_frame_buffer = [], ws_handshake_complete = True, ws_connected = True, ws_sent = []\<rparr>"

lemma demo_ws_neutral: "buffer_neutral demo_ws_env"
  by (simp add: buffer_neutral_def demo_ws_env_def)

theorem messages_delivered_in_order_witness:
  "ws_host (fold (handle_tcp_data demo_ws_env) [[0x81], [2, 104], [], [105, 0x81, 1, 33]] demo_ws) = ''hi!''"
proof -
  have "concat [[0x81], [2, 104], [], [105, 0x81, 1, 33]] = concat (map server_frame [[104, 105], [33]])"
    by (simp add: server_frame_def)
  from messages_delivered_in_order [OF demo_ws_neutral _ _ _ this, of demo_ws]
  have *: "fold (handle_tcp_data demo_ws_env) [[0x81], [2, 104], [], [105, 0x81, 1, 33]] demo_ws =
      fold (we_on_message demo_ws_env) [[104, 105], [33]] demo_ws"
    by (simp add: demo_ws_def del: fold_simps)
  show ?thesis unfolding * by code_simp
qed

text \<open>
  A message in two fragments, the first without the final bit and the second a continuation: the client
  drops the first and delivers the second as a message of its own.
\<close>

lemma fragment_fronts:
  "parse_front [0x01, 1, 104, 0x80, 1, 105] = Frame False 1 [104] [0x80, 1, 105]"
  "parse_front [0x80, 1, 105] = Frame True 0 [105] []"
  by (simp_all add: parse_front_def parse_body_def payload_at_def Let_def)

lemma fragments_truncated:
  "handle_tcp_data demo_ws_env [0x01, 1, 104, 0x80, 1, 105] demo_ws = we_on_message demo_ws_env [105] demo_ws"
proof -
  let ?s = "\<lambda>b. demo_ws\<lparr>ws_frame_buffer := b\<rparr>"
  have 1: "consume_frames demo_ws_env (?s [0x01, 1, 104, 0x80, 1, 105]) = consume_frames demo_ws_env (?s [0x80, 1, 105])"
    using consume_frames_Frame [OF demo_ws_neutral, of "?s [0x01, 1, 104, 0x80, 1, 105]" False 1 "[104]" "[0x80, 1, 105]"]
      fragment_fronts(1)
    by (simp add: round_effect_def)
  have 2: "consume_frames demo_ws_env (?s [0x80, 1, 105]) =
      consume_frames demo_ws_env (we_on_message demo_ws_env [105] (?s []))"
    using consume_frames_Frame [OF demo_ws_neutral, of "?s [0x80, 1, 105]" True 0 "[105]" "[]"] fragment_fronts(2)
    by (simp add: round_effect_def)
  have "?s [] = demo_ws" by (simp add: demo_ws_def)
  moreover have "ws_frame_buffer (we_on_message demo_ws_env [105] demo_ws) = []"
    using neutral_buffer [OF demo_ws_neutral] by (simp add: demo_ws_def)
  ultimately have "consume_frames demo_ws_env (?s [0x01, 1, 104, 0x80, 1, 105]) =
      (True, we_on_message demo_ws_env [105] demo_ws)"
    unfolding 1 2 by (simp add: consume_frames_others(1) parse_front_def)
  then show ?thesis by (simp add: handle_tcp_data_def demo_ws_def)
qed

end
