(* ===== verification/Signaling_Client.thy ===== *)
theory Signaling_Client
  imports Ws_Client
begin

text \<open>
  The signalling client (src/protocol/webrtc/signaling\_client.h, src/protocol/webrtc/signaling\_client.cpp):
  the messages of the room protocol over the WebSocket client, and the reconnection with growing delays.
  Its state extends that of the WebSocket client it owns; what its own handler receives is recorded in
  \<open>sg_events\<close>.  The lemmas show the delays, the single timer, the silence after \<open>stop\<close>, that received
  messages reach the handler in order whatever the pieces of the stream, and that a secure address, which
  the configuration accepts, is retried for ever.
\<close>

section \<open>State\<close>

record signaling = ws_client +
  sg_url :: string
  sg_room :: string
  sg_role :: string
  sg_client_id :: string
  sg_token :: string
  sg_timer :: "nat option"
  sg_attempt :: u32
  sg_stopping :: bool
  sg_has_handler :: bool
  sg_events :: "(string \<times> string) list"
  sg_assigned_id :: string

text \<open>The answers of poller and TCP client, the parser of the JSON library, and whether timers start.\<close>

record sg_env =
  ge_posted :: bool
  ge_create :: bool
  ge_connect :: "string \<Rightarrow> int \<Rightarrow> bool"
  ge_send :: "u8 list list \<Rightarrow> u8 list \<Rightarrow> bool"
  ge_random :: "nat \<Rightarrow> nat \<Rightarrow> u8"
  ge_parse :: "string \<Rightarrow> string + json"
  ge_timer :: bool

definition ws_env_with ::
  "(u8 list \<Rightarrow> signaling \<Rightarrow> signaling) \<Rightarrow> (bool \<Rightarrow> signaling \<Rightarrow> signaling) \<Rightarrow> sg_env \<Rightarrow> signaling ws_env" where
  "ws_env_with msg state g =
     \<lparr>we_posted = ge_posted g, we_create = ge_create g, we_connect = ge_connect g, we_send = ge_send g,
      we_random = ge_random g, we_on_message = msg, we_on_state = state\<rparr>"

text \<open>For the calls that reach no handler: sending, and closing without notice.\<close>

definition plain_env :: "sg_env \<Rightarrow> signaling ws_env" where
  "plain_env g = ws_env_with (\<lambda>_ s. s) (\<lambda>_ s. s) g"

section \<open>URLs\<close>

definition url_safe :: "char \<Rightarrow> bool" where
  "url_safe c \<longleftrightarrow>
     (97 \<le> byte_of c \<and> byte_of c \<le> 122) \<or> (65 \<le> byte_of c \<and> byte_of c \<le> 90) \<or>
     (48 \<le> byte_of c \<and> byte_of c \<le> 57) \<or> c = CHR ''-'' \<or> c = CHR ''_'' \<or> c = CHR ''.'' \<or> c = CHR ''~''"

definition upper_hex :: "nat \<Rightarrow> char" where
  "upper_hex n = ''0123456789ABCDEF'' ! n"

definition url_encode_query_value :: "string \<Rightarrow> string" where
  "url_encode_query_value value =
     concat (map (\<lambda>c. if url_safe c then [c]
                      else [CHR ''%'', upper_hex (byte_of c div 16), upper_hex (byte_of c mod 16)]) value)"

definition build_url :: "signaling \<Rightarrow> string" where
  "build_url s =
     (if sg_token s = [] then sg_url s
      else sg_url s @ (if CHR ''?'' \<notin> set (sg_url s) then ''?'' else ''&'') @ ''token='' @
           url_encode_query_value (sg_token s))"

definition client_id :: "signaling \<Rightarrow> string" where
  "client_id s = (if sg_assigned_id s = [] then sg_client_id s else sg_assigned_id s)"

section \<open>Messages\<close>

definition quoted :: "string \<Rightarrow> string" where
  "quoted s = CHR 0x22 # s @ [CHR 0x22]"

text \<open>A member of an object literal whose value is an escaped string.\<close>

definition string_member :: "string \<Rightarrow> string \<Rightarrow> string" where
  "string_member name value = quoted name @ '':'' @ quoted (json_escape_string value)"

definition send_raw :: "sg_env \<Rightarrow> string \<Rightarrow> signaling \<Rightarrow> bool \<times> signaling" where
  "send_raw g json s = ws_send_text (plain_env g) json s"

definition join_text :: "signaling \<Rightarrow> string" where
  "join_text s =
     ''{'' @ string_member ''type'' ''join'' @ '','' @ string_member ''room'' (sg_room s) @ '','' @
     string_member ''role'' (sg_role s) @
     (if sg_client_id s = [] then [] else '','' @ string_member ''clientId'' (sg_client_id s)) @ ''}''"

definition send_join :: "sg_env \<Rightarrow> signaling \<Rightarrow> bool \<times> signaling" where
  "send_join g s = send_raw g (join_text s) s"

definition to_member :: "string \<Rightarrow> string" where
  "to_member to = (if to = [] then [] else '','' @ string_member ''to'' to)"

definition send_answer :: "sg_env \<Rightarrow> string \<Rightarrow> string \<Rightarrow> signaling \<Rightarrow> bool \<times> signaling" where
  "send_answer g sdp to s =
     send_raw g (''{'' @ string_member ''type'' ''answer'' @ '','' @ string_member ''sdp'' sdp @ to_member to @ ''}'') s"

definition send_candidate ::
  "sg_env \<Rightarrow> string \<Rightarrow> string \<Rightarrow> int \<Rightarrow> string \<Rightarrow> signaling \<Rightarrow> bool \<times> signaling" where
  "send_candidate g candidate sdp_mid sdp_mline_index to s =
     send_raw g
       (''{'' @ string_member ''type'' ''candidate'' @ '','' @ string_member ''candidate'' candidate @ '','' @
        string_member ''sdpMid'' sdp_mid @ '','' @ quoted ''sdpMLineIndex'' @ '':'' @ dec_int sdp_mline_index @
        to_member to @ ''}'') s"

definition emit :: "string \<Rightarrow> string \<Rightarrow> signaling \<Rightarrow> signaling" where
  "emit type json s = (if sg_has_handler s then s\<lparr>sg_events := sg_events s @ [(type, json)]\<rparr> else s)"

definition sg_on_message :: "sg_env \<Rightarrow> string \<Rightarrow> signaling \<Rightarrow> signaling" where
  "sg_on_message g txt s =
     (case and_then (parse_json_object (ge_parse g) txt) (\<lambda>m.
             and_then (get_required_string m ''type'') (\<lambda>t. Good (m, t))) of
        Good (m, type) \<Rightarrow>
          let s1 = (if type = ''joined''
                    then (case get_optional_string m ''clientId'' of
                            Good i \<Rightarrow> if i \<noteq> [] then s\<lparr>sg_assigned_id := i\<rparr> else s
                          | _ \<Rightarrow> s)
                    else s)
          in emit type txt s1
      | _ \<Rightarrow> s)"

section \<open>Connection\<close>

definition reconnect_delay_ms :: "u32 \<Rightarrow> nat" where
  "reconnect_delay_ms attempt = min 30000 (1000 * 2 ^ min (unat attempt) 5)"

definition schedule_reconnect :: "sg_env \<Rightarrow> signaling \<Rightarrow> signaling" where
  "schedule_reconnect g s =
     (if sg_stopping s \<or> \<not> ws_poller s then s
      else
        let delay = reconnect_delay_ms (sg_attempt s); s1 = s\<lparr>sg_attempt := sg_attempt s + 1\<rparr>
        in if sg_timer s1 = None \<and> ge_timer g then s1\<lparr>sg_timer := Some delay\<rparr> else s1)"

text \<open>The branch of \<^verbatim>\<open>on_ws_state\<close> for a lost connection, which the other branch ends in as well.\<close>

definition on_ws_lost :: "sg_env \<Rightarrow> signaling \<Rightarrow> signaling" where
  "on_ws_lost g s =
     (if sg_stopping s then s
      else schedule_reconnect g
             (emit ''signaling-disconnected'' (''{'' @ string_member ''type'' ''signaling-disconnected'' @ ''}'') s))"

definition on_ws_state :: "sg_env \<Rightarrow> bool \<Rightarrow> signaling \<Rightarrow> signaling" where
  "on_ws_state g up s =
     (if sg_stopping s then s
      else if up
      then
        let (ok, s1) = send_join g (s\<lparr>sg_attempt := 0\<rparr>)
        in if ok then s1 else on_ws_lost g (ws_close (plain_env g) s1)
      else on_ws_lost g s)"

definition sg_ws_env :: "sg_env \<Rightarrow> signaling ws_env" where
  "sg_ws_env g = ws_env_with (\<lambda>p. sg_on_message g (text_of p)) (on_ws_state g) g"

definition sg_connect :: "sg_env \<Rightarrow> signaling \<Rightarrow> bool \<times> signaling" where
  "sg_connect g s = ws_connect (sg_ws_env g) (build_url s) s"

definition sg_start :: "sg_env \<Rightarrow> signaling \<Rightarrow> bool \<times> signaling" where
  "sg_start g s =
     (let (ok, s1) = sg_connect g (s\<lparr>sg_stopping := False\<rparr>)
      in (True, if ok then s1 else schedule_reconnect g s1))"

definition reconnect_timer_cb :: "sg_env \<Rightarrow> signaling \<Rightarrow> signaling" where
  "reconnect_timer_cb g s =
     (let s1 = s\<lparr>sg_timer := None\<rparr> in
      if sg_stopping s1 then s1
      else let (ok, s2) = sg_connect g s1 in if ok then s2 else schedule_reconnect g s2)"

definition sg_stop :: "sg_env \<Rightarrow> signaling \<Rightarrow> signaling" where
  "sg_stop g s =
     (let s1 = s\<lparr>sg_stopping := True, sg_has_handler := False, sg_timer := None\<rparr>;
          s2 = (if ws_connected s1 then snd (send_raw g (''{'' @ string_member ''type'' ''leave'' @ ''}'') s1) else s1)
      in ws_close (sg_ws_env g) s2)"

section \<open>Delays\<close>

lemma reconnect_delays:
  "map (reconnect_delay_ms \<circ> of_nat) [0..<7] = [1000, 2000, 4000, 8000, 16000, 30000, 30000]"
  by (simp add: reconnect_delay_ms_def upt_rec unat_of_nat)

lemma reconnect_delay_bounds: "1000 \<le> reconnect_delay_ms a" "reconnect_delay_ms a \<le> 30000"
  by (simp_all add: reconnect_delay_ms_def)

lemma reconnect_delay_mono: "a \<le> b \<Longrightarrow> reconnect_delay_ms a \<le> reconnect_delay_ms b"
  unfolding reconnect_delay_ms_def
  by (intro min.mono mult_le_mono power_increasing) (simp_all add: word_le_nat_alt)

text \<open>One timer at a time: a pending one is left as it is.\<close>

lemma schedule_keeps_timer: "sg_timer s = Some d \<Longrightarrow> sg_timer (schedule_reconnect g s) = Some d"
  by (simp add: schedule_reconnect_def Let_def)

lemma schedule_sets_timer:
  "\<not> sg_stopping s \<Longrightarrow> ws_poller s \<Longrightarrow> ge_timer g \<Longrightarrow> sg_timer (schedule_reconnect g s) \<noteq> None"
  by (simp add: schedule_reconnect_def Let_def)

section \<open>Stop\<close>

lemma ws_close_fields [simp]:
  "sg_stopping (ws_close e s) = sg_stopping s" "sg_has_handler (ws_close e s) = sg_has_handler s"
  "sg_timer (ws_close e s) = sg_timer s" "sg_events (ws_close e s) = sg_events s"
  for s :: signaling
  by (simp_all add: ws_close_def call_on_poller_def close_on_poller_def drop_connection_def Let_def)

lemma send_raw_fields [simp]:
  "sg_stopping (snd (send_raw g j s)) = sg_stopping s" "sg_has_handler (snd (send_raw g j s)) = sg_has_handler s"
  "sg_timer (snd (send_raw g j s)) = sg_timer s" "sg_events (snd (send_raw g j s)) = sg_events s"
  "ws_poller (snd (send_raw g j s)) = ws_poller s"
  by (simp_all add: send_raw_def ws_send_text_def call_on_poller_def send_frame_on_poller_def tcp_send_def)

lemma sg_stop_state:
  "sg_stopping (sg_stop g s) \<and> \<not> sg_has_handler (sg_stop g s) \<and> sg_timer (sg_stop g s) = None \<and>
     sg_events (sg_stop g s) = sg_events s"
  by (simp add: sg_stop_def Let_def)

lemma sg_stop_closes:
  assumes "ws_poller s" and "ge_posted g"
  shows "\<not> ws_open (sg_stop g s) \<and> \<not> ws_connected (sg_stop g s)"
  using assms
  by (simp add: sg_stop_def Let_def ws_close_def call_on_poller_def close_on_poller_def drop_connection_def
      sg_ws_env_def ws_env_with_def)

text \<open>A stopped client reports nothing, sends nothing and plans nothing more.\<close>

lemma stopped_is_silent:
  assumes "sg_stopping s" and "\<not> sg_has_handler s"
  shows "on_ws_state g c s = s" and "schedule_reconnect g s = s"
    and "sg_events (sg_on_message g txt s) = sg_events s"
    and "sg_timer s = None \<Longrightarrow> reconnect_timer_cb g s = s"
  using assms
  by (auto simp: on_ws_state_def schedule_reconnect_def sg_on_message_def emit_def reconnect_timer_cb_def
      Let_def split: outcome.split)

section \<open>Receiving\<close>

lemma sg_on_message_neutral: "buffer_neutral (sg_ws_env g)"
  by (auto simp: buffer_neutral_def sg_ws_env_def ws_env_with_def sg_on_message_def emit_def Let_def
      split: outcome.split)

text \<open>The handler sees the messages of the server in order, whatever the pieces they arrive in.\<close>

lemma messages_reach_handler:
  assumes "ws_handshake_complete s" and "ws_frame_buffer s = []"
    and "list_all (\<lambda>m. length m \<le> 65535) ms" and "concat pieces = concat (map server_frame ms)"
  shows "fold (handle_tcp_data (sg_ws_env g)) pieces s = fold (\<lambda>m. sg_on_message g (text_of m)) ms s"
proof -
  have *: "buffer_neutral (sg_ws_env g)" by (rule sg_on_message_neutral)
  have "fold (handle_tcp_data (sg_ws_env g)) pieces s = handle_tcp_data (sg_ws_env g) (concat pieces) s"
    using assms(2,4) consume_messages [OF * assms(3), of s]
    by (intro handle_pieces [OF * assms(1)]) (simp_all add: parse_front_def)
  also have "\<dots> = fold (we_on_message (sg_ws_env g)) ms (s\<lparr>ws_frame_buffer := []\<rparr>)"
    using assms(1,2,4) consume_messages [OF * assms(3), of s] by (simp add: handle_tcp_data_def)
  also have "s\<lparr>ws_frame_buffer := []\<rparr> = s" using assms(2) by simp
  finally show ?thesis by (simp add: sg_ws_env_def ws_env_with_def)
qed

section \<open>Secure addresses\<close>

text \<open>
  The configuration accepts \<^verbatim>\<open>wss://\<close>, the WebSocket client does not.  \<open>start\<close> still succeeds, and the
  client never opens a connection but sets its timer again and again.
\<close>

lemma starts_with_append: "starts_with p t \<Longrightarrow> starts_with p (t @ u)"
proof -
  assume t: "starts_with p t"
  then have "length (take (length p) t) = length p" by (simp add: starts_with_def)
  then have "length p \<le> length t" by (simp add: min_def split: if_splits)
  with t show ?thesis by (simp add: starts_with_def)
qed

lemma secure_url_refused: "starts_with ''wss://'' (sg_url s) \<Longrightarrow> sg_connect g s = (False, s)"
proof -
  assume "starts_with ''wss://'' (sg_url s)"
  then have "starts_with ''wss://'' (build_url s)" by (simp add: build_url_def starts_with_append)
  then show ?thesis by (simp add: sg_connect_def ws_connect_def parse_ws_url_secure)
qed

lemma schedule_fields [simp]:
  "sg_url (schedule_reconnect g s) = sg_url s" "ws_open (schedule_reconnect g s) = ws_open s"
  "sg_stopping (schedule_reconnect g s) = sg_stopping s" "ws_poller (schedule_reconnect g s) = ws_poller s"
  "ws_sent (schedule_reconnect g s) = ws_sent s"
  by (simp_all add: schedule_reconnect_def Let_def)

lemma secure_url_retry:
  assumes "starts_with ''wss://'' (sg_url s)" and "\<not> sg_stopping s" and "ws_poller s" and "ge_timer g"
  shows "sg_url (reconnect_timer_cb g s) = sg_url s" "ws_open (reconnect_timer_cb g s) = ws_open s"
    "\<not> sg_stopping (reconnect_timer_cb g s)" "ws_poller (reconnect_timer_cb g s)"
    "ws_sent (reconnect_timer_cb g s) = ws_sent s" "sg_timer (reconnect_timer_cb g s) \<noteq> None"
  using assms secure_url_refused [of "s\<lparr>sg_timer := None\<rparr>" g]
  by (simp_all add: reconnect_timer_cb_def schedule_sets_timer)

lemma secure_url_never_opens:
  assumes "starts_with ''wss://'' (sg_url s)" and "\<not> ws_open s" and "ws_poller s" and "ge_timer g"
  shows "let (ok, t) = sg_start g s; u = (reconnect_timer_cb g ^^ n) t
    in ok \<and> \<not> ws_open u \<and> ws_sent u = ws_sent s \<and> sg_timer u \<noteq> None"
proof -
  let ?t = "snd (sg_start g s)"
  have t: "sg_url ?t = sg_url s" "\<not> ws_open ?t" "\<not> sg_stopping ?t" "ws_poller ?t" "ws_sent ?t = ws_sent s"
      "sg_timer ?t \<noteq> None" and ok: "fst (sg_start g s)"
    using assms secure_url_refused [of "s\<lparr>sg_stopping := False\<rparr>" g]
    by (simp_all add: sg_start_def schedule_sets_timer)
  let ?u = "\<lambda>n. (reconnect_timer_cb g ^^ n) ?t"
  have "sg_url (?u n) = sg_url s \<and> \<not> ws_open (?u n) \<and> \<not> sg_stopping (?u n) \<and> ws_poller (?u n) \<and>
      ws_sent (?u n) = ws_sent s \<and> sg_timer (?u n) \<noteq> None" for n
  proof (induction n)
    case 0
    then show ?case using t by simp
  next
    case (Suc n)
    then show ?case
      using assms(1) secure_url_retry [of "?u n" g, OF _ _ _ assms(4)] by simp
  qed
  then show ?thesis using ok by (simp add: Let_def case_prod_beta)
qed

end
