(* ===== verification/Webrtc_Plugin.thy ===== *)
theory Webrtc_Plugin
  imports Webrtc_Sessions Signaling_Client
begin

text \<open>
  The WebRTC plugin (src/protocol/webrtc/webrtc\_plugin.cpp, src/protocol/webrtc/webrtc\_signaling.cpp and the
  configuration of a peer in src/protocol/webrtc/webrtc\_runtime.cpp): its start and stop, and what the
  messages of the signalling server do to the viewer sessions.  The lemmas show that whatever
  arrives in whatever order keeps the sessions within their bounds, that a stream of messages has the same
  effect in whatever pieces it arrives, and two ways in which sessions and subscriptions part: a late
  event of a replaced peer, and a peer that does not start.
\<close>

section \<open>State\<close>

record ('h, 'd) protocol_context =
  cx_media_source :: "'h media_source option"
  cx_detection_source :: "'d detection_source option"
  cx_pending_frame_bytes_per_session :: nat

record ('h, 'd, 'r) webrtc_plugin =
  wp_impl :: "('h, 'd, 'r) webrtc_impl"
  wp_signaling :: "signaling option"

definition new_webrtc_plugin :: "webrtc_options \<Rightarrow> ('h, 'd, 'r) webrtc_plugin" where
  "new_webrtc_plugin opts = \<lparr>wp_impl = new_webrtc_impl opts, wp_signaling = None\<rparr>"

definition new_signaling :: "string \<Rightarrow> string \<Rightarrow> string \<Rightarrow> signaling" where
  "new_signaling url token room =
     \<lparr>ws_poller = True, ws_open = False, ws_host = [], ws_path = [], ws_port = 80, ws_handshake_buffer = [],
      ws_frame_buffer = [], ws_handshake_complete = False, ws_connected = False, ws_sent = [],
      sg_url = url, sg_room = room, sg_role = ''master'', sg_client_id = [], sg_token = token,
      sg_timer = None, sg_attempt = 0, sg_stopping = False, sg_has_handler = False, sg_events = [],
      sg_assigned_id = []\<rparr>"

text \<open>The part of the configuration of a peer that comes from the options.\<close>

record peer_settings =
  ps_ice_servers :: "ice_server_config list"
  ps_rolling_buffer_duration_sec :: int
  ps_expected_bitrate_bps :: int
  ps_disable_twcc :: bool
  ps_enable_datachannel :: bool

definition peer_config :: "webrtc_options \<Rightarrow> peer_settings" where
  "peer_config opts =
     \<lparr>ps_ice_servers = wo_ice_servers opts, ps_rolling_buffer_duration_sec = wo_rolling_buffer_sec opts,
      ps_expected_bitrate_bps = wo_expected_bitrate_bps opts, ps_disable_twcc = wo_disable_twcc opts,
      ps_enable_datachannel = wo_detections_enabled opts\<rparr>"

section \<open>Messages\<close>

definition on_offer ::
  "('h, 'd) webrtc_env \<Rightarrow> bool \<Rightarrow> bool \<Rightarrow> json \<Rightarrow> ('h, 'd, 'r) webrtc_impl \<Rightarrow> ('h, 'd, 'r) webrtc_impl" where
  "on_offer e still1 still2 m st =
     (case and_then (get_required_string m ''sdp'') (\<lambda>sdp.
             and_then (get_required_string m ''from'') (\<lambda>i. Good (sdp, i))) of
        Good (sdp, i) \<Rightarrow>
          if \<not> contains ''ice-ufrag'' sdp \<or> \<not> contains ''ice-pwd'' sdp then st
          else snd (create_viewer e still1 still2 i sdp st)
      | _ \<Rightarrow> st)"

definition on_candidate_message :: "json \<Rightarrow> ('h, 'd, 'r) webrtc_impl \<Rightarrow> ('h, 'd, 'r) webrtc_impl" where
  "on_candidate_message m st =
     (case and_then (get_required_string m ''from'') (\<lambda>i.
             and_then (get_required_string m ''candidate'') (\<lambda>c.
               and_then (get_optional_string m ''sdpMid'') (\<lambda>mid. Good (i, c, mid)))) of
        Good (i, c, mid) \<Rightarrow> apply_remote_candidate i c mid st
      | _ \<Rightarrow> st)"

definition on_peer_left :: "json \<Rightarrow> ('h, 'd, 'r) webrtc_impl \<Rightarrow> ('h, 'd, 'r) webrtc_impl" where
  "on_peer_left m st =
     (case and_then (get_optional_string m ''role'') (\<lambda>role.
             and_then (get_optional_string m ''clientId'') (\<lambda>i. Good (role, i))) of
        Good (role, i) \<Rightarrow> if role = ''viewer'' \<and> i \<noteq> [] then remove_viewer i st else st
      | _ \<Rightarrow> st)"

definition on_signaling_disconnected :: "('h, 'd, 'r) webrtc_impl \<Rightarrow> ('h, 'd, 'r) webrtc_impl" where
  "on_signaling_disconnected st = remove_all_viewers st"

text \<open>
  \<open>parse\<close> is the parser of the JSON library.  The joining of a peer and an error of the server are only
  reported on the terminal.
\<close>

definition on_signaling_message ::
  "('h, 'd) webrtc_env \<Rightarrow> (string \<Rightarrow> string + json) \<Rightarrow> bool \<Rightarrow> bool \<Rightarrow> string \<times> string \<Rightarrow>
     ('h, 'd, 'r) webrtc_impl \<Rightarrow> ('h, 'd, 'r) webrtc_impl" where
  "on_signaling_message e parse still1 still2 message st =
     (if \<not> wi_running st then st
      else
        case parse_json_object parse (snd message) of
          Good m \<Rightarrow>
            if fst message = ''peer-left'' then on_peer_left m st
            else if fst message = ''offer'' then on_offer e still1 still2 m st
            else if fst message = ''candidate'' then on_candidate_message m st
            else if fst message = ''signaling-disconnected'' then on_signaling_disconnected st
            else st
        | _ \<Rightarrow> st)"

section \<open>Start and stop\<close>

definition webrtc_start ::
  "sg_env \<Rightarrow> bool \<Rightarrow> ('h, 'd) protocol_context \<Rightarrow> ('h, 'd, 'r) webrtc_plugin \<Rightarrow>
     bool \<times> ('h, 'd, 'r) webrtc_plugin" where
  "webrtc_start g runtime ctx p =
     (let st = wp_impl p in
      if wi_running st \<or> cx_media_source ctx = None then (False, p)
      else if \<not> runtime then (False, p)
      else
        let limit = cx_pending_frame_bytes_per_session ctx;
            st1 = st\<lparr>wi_media := cx_media_source ctx, wi_detection_source := cx_detection_source ctx,
                     wi_video_queue_limit := (if limit > 0 then min kVideoQueueBytes limit
                                              else wi_video_queue_limit st),
                     wi_running := True\<rparr>;
            o1 = wi_options st;
            sg = (new_signaling (wo_signaling_url o1) (wo_signaling_token o1) (wo_room o1))
                   \<lparr>sg_has_handler := True\<rparr>;
            (ok, sg1) = sg_start g sg
        in if \<not> ok
           then (False, \<lparr>wp_impl = st1\<lparr>wi_running := False, wi_media := None, wi_detection_source := None\<rparr>,
                         wp_signaling = None\<rparr>)
           else (True, \<lparr>wp_impl = st1\<lparr>wi_pending_candidates := []\<rparr>, wp_signaling = Some sg1\<rparr>))"

text \<open>
  The sessions when the plugin stops, before the references to the sources go; \<open>posted\<close>: the poller takes
  the task.
\<close>

definition stop_sessions :: "bool \<Rightarrow> ('h, 'd, 'r) webrtc_impl \<Rightarrow> ('h, 'd, 'r) webrtc_impl" where
  "stop_sessions posted st =
     (let st1 = st\<lparr>wi_running := False\<rparr> in if posted then remove_all_viewers st1 else st1)"

definition webrtc_stop ::
  "sg_env \<Rightarrow> bool \<Rightarrow> ('h, 'd, 'r) webrtc_plugin \<Rightarrow> signaling option \<times> ('h, 'd, 'r) webrtc_plugin" where
  "webrtc_stop g posted p =
     (if \<not> wi_running (wp_impl p) then (None, p)
      else
        (map_option (\<lambda>sg. sg_stop g (sg\<lparr>sg_has_handler := False\<rparr>)) (wp_signaling p),
         \<lparr>wp_impl = (stop_sessions posted (wp_impl p))
            \<lparr>wi_media := None, wi_detection_source := None, wi_pending_candidates := []\<rparr>,
          wp_signaling = None\<rparr>))"

section \<open>The stream of the server\<close>

text \<open>
  Bytes of the signalling connection: the client handles them, and what its handler is given goes to the
  sessions.
\<close>

definition plugin_receive ::
  "('h, 'd) webrtc_env \<Rightarrow> sg_env \<Rightarrow> u8 list \<Rightarrow> signaling \<times> ('h, 'd, 'r) webrtc_impl \<Rightarrow>
     signaling \<times> ('h, 'd, 'r) webrtc_impl" where
  "plugin_receive e g data p =
     (let sg = handle_tcp_data (sg_ws_env g) data (fst p)
      in (sg, fold (on_signaling_message e (ge_parse g) True True)
                (drop (length (sg_events (fst p))) (sg_events sg)) (snd p)))"

text \<open>The event that a text of the server is, if it is one.\<close>

definition event_of :: "sg_env \<Rightarrow> string \<Rightarrow> (string \<times> string) list" where
  "event_of g txt =
     (case and_then (parse_json_object (ge_parse g) txt) (\<lambda>m. get_required_string m ''type'') of
        Good type \<Rightarrow> [(type, txt)]
      | _ \<Rightarrow> [])"

definition reports :: "signaling \<Rightarrow> signaling \<Rightarrow> bool" where
  "reports s t \<longleftrightarrow> sg_events t = sg_events s @ drop (length (sg_events s)) (sg_events t)"

lemma reports_append: "sg_events t = sg_events s @ x \<Longrightarrow> reports s t"
  by (simp add: reports_def)

lemma reports_trans: "reports s t \<Longrightarrow> reports t u \<Longrightarrow> reports s u"
  unfolding reports_def by (metis append_assoc append_eq_conv_conj)

lemma reports_same: "sg_events t = sg_events s \<Longrightarrow> reports s t"
  by (simp add: reports_def)

lemma emit_events: "reports s (emit ty j s)"
  by (rule reports_append [of _ _ "if sg_has_handler s then [(ty, j)] else []"]) (simp add: emit_def)

lemma sg_on_message_events:
  "sg_events (sg_on_message g txt s) = sg_events s @ (if sg_has_handler s then event_of g txt else [])"
  "sg_has_handler (sg_on_message g txt s) = sg_has_handler s"
  by (auto simp: sg_on_message_def event_of_def emit_def Let_def and_then_Good split: outcome.splits)

lemma on_ws_state_reports: "reports s (on_ws_state g b s)"
proof -
  have lost: "reports s (on_ws_lost g s)" for s
    using emit_events [of s]
    by (auto simp: on_ws_lost_def reports_def schedule_reconnect_def Let_def)
  have "reports s (on_ws_lost g (ws_close (plain_env g) (snd (send_join g (s\<lparr>sg_attempt := 0\<rparr>)))))"
    using lost [of "ws_close (plain_env g) (snd (send_join g (s\<lparr>sg_attempt := 0\<rparr>)))"]
    by (simp add: reports_def send_join_def)
  then show ?thesis
    using lost by (simp add: on_ws_state_def Let_def case_prod_beta reports_same send_join_def)
qed

lemma close_reports: "reports s (close_on_poller (sg_ws_env g) n s)"
  using on_ws_state_reports [of "(drop_connection s)\<lparr>ws_open := False\<rparr>" g False]
  by (simp add: close_on_poller_def Let_def sg_ws_env_def ws_env_with_def reports_def drop_connection_def)

lemma round_reports:
  "reports s (s\<lparr>ws_frame_buffer := b\<rparr>)" "reports s (sg_on_message g txt s)"
  "reports s (snd (send_frame_on_poller e o1 p s))"
  by (simp_all add: reports_def sg_on_message_events send_frame_on_poller_def tcp_send_def)

lemma consume_rounds_reports: "reports s (snd (consume_rounds (sg_ws_env g) n s))"
proof (induction n arbitrary: s)
  case (Suc n)
  have buf: "reports s t" if "reports (s\<lparr>ws_frame_buffer := b\<rparr>) t" for t b
    using reports_trans [OF round_reports(1) that] .
  have msg: "we_on_message (sg_ws_env g) p t = sg_on_message g (text_of p) t" for p t
    by (simp add: sg_ws_env_def ws_env_with_def)
  show ?case
  proof (cases "parse_front (ws_frame_buffer s)")
    case (Frame fin opcode p rest)
    let ?t = "s\<lparr>ws_frame_buffer := rest\<rparr>"
    have "reports s (round_effect (sg_ws_env g) fin opcode p ?t)"
      by (rule buf [of rest]) (simp add: round_effect_def msg round_reports reports_same)
    then show ?thesis
      unfolding consume_Frame [OF Frame] using buf [OF close_reports] reports_trans [OF _ Suc.IH] by simp
  qed (simp_all add: close_reports reports_same)
qed (simp add: reports_same)

lemma handle_tcp_data_reports: "reports s (handle_tcp_data (sg_ws_env g) d s)"
proof -
  have c: "reports s (snd (consume_frames (sg_ws_env g) t))" if "reports s t" for s t
    using that consume_rounds_reports unfolding consume_frames_def by (rule reports_trans)
  have up: "we_on_state (sg_ws_env g) = on_ws_state g" by (simp add: sg_ws_env_def ws_env_with_def)
  have same: "reports s t" if "reports s' t" and "sg_events s' = sg_events s" for s s' t
    using that by (simp add: reports_def)
  let ?s = "\<lambda>b. s\<lparr>ws_handshake_buffer := b\<rparr>"
  let ?u = "\<lambda>b. s\<lparr>ws_frame_buffer := b, ws_handshake_buffer := [], ws_handshake_complete := True, ws_connected := True\<rparr>"
  have "reports s (snd (consume_frames (sg_ws_env g) (s\<lparr>ws_frame_buffer := ws_frame_buffer s @ d\<rparr>)))"
    by (rule c) (simp add: reports_same)
  moreover have "reports s (?s b)" "reports s (close_on_poller (sg_ws_env g) True (?s b))" for b
    by (simp_all add: reports_same same [OF close_reports])
  moreover have "reports s (snd (consume_frames (sg_ws_env g) (on_ws_state g True (?u b))))" for b
    by (rule c, rule same [OF on_ws_state_reports]) simp
  ultimately show ?thesis
    by (simp add: handle_tcp_data_def on_handshake_data_def Let_def up split: option.split)
qed

lemma plugin_receive_fold:
  "fold (plugin_receive e g) pieces (sg, st) =
     (let sg1 = fold (handle_tcp_data (sg_ws_env g)) pieces sg
      in (sg1, fold (on_signaling_message e (ge_parse g) True True)
                 (drop (length (sg_events sg)) (sg_events sg1)) st))
   \<and> reports sg (fold (handle_tcp_data (sg_ws_env g)) pieces sg)"
proof (induction pieces arbitrary: sg st)
  case (Cons d pieces)
  let ?sg1 = "handle_tcp_data (sg_ws_env g) d sg"
  let ?sg2 = "fold (handle_tcp_data (sg_ws_env g)) pieces ?sg1"
  have 1: "sg_events ?sg1 = sg_events sg @ drop (length (sg_events sg)) (sg_events ?sg1)"
    using handle_tcp_data_reports [of sg g d] by (simp add: reports_def)
  have 2: "sg_events ?sg2 = sg_events ?sg1 @ drop (length (sg_events ?sg1)) (sg_events ?sg2)"
    using Cons.IH [of ?sg1] by (simp add: reports_def)
  have "drop (length (sg_events sg)) (sg_events ?sg2) =
      drop (length (sg_events sg)) (sg_events ?sg1) @ drop (length (sg_events ?sg1)) (sg_events ?sg2)"
    by (subst 2, subst 1) simp
  then show ?case
    using Cons.IH [of ?sg1] reports_trans [OF handle_tcp_data_reports [of sg g d]]
    by (simp add: plugin_receive_def Let_def)
qed (simp add: reports_same)

lemma fold_on_message_events:
  "sg_has_handler s \<Longrightarrow>
     sg_events (fold (\<lambda>m. sg_on_message g (text_of m)) ms s) =
       sg_events s @ concat (map (\<lambda>m. event_of g (text_of m)) ms)"
  by (induction ms arbitrary: s) (simp_all add: sg_on_message_events)

section \<open>Any order of events\<close>

text \<open>
  Everything that changes the sessions: a message of the server, a state of a peer, a frame or a
  detection, the worker's turn, the stop flag, and other users of the media source, who leave the
  plugin's subscriptions alone.
\<close>

inductive session_step ::
  "('h, 'd) webrtc_env \<Rightarrow> (string \<Rightarrow> string + json) \<Rightarrow> ('h, 'd, 'r) webrtc_impl \<Rightarrow> ('h, 'd, 'r) webrtc_impl \<Rightarrow> bool"
  for e parse where
  message: "session_step e parse st (on_signaling_message e parse b1 b2 message st)"
| peer_state: "session_step e parse st (on_peer_state e b alive i p state st)"
| video: "session_step e parse st (enqueue_video posted f st)"
| audio: "session_step e parse st (enqueue_audio posted f st)"
| detection: "session_step e parse st (enqueue_detection posted d st)"
| drained: "session_step e parse st (snd (drain st))"
| stopping: "session_step e parse st (st\<lparr>wi_running := False\<rparr>)"
| stopped: "session_step e parse st (stop_sessions posted st)"
| others: "held (wo_preview_stream_id (wi_options st)) (wi_video_sub st) (Some m) \<Longrightarrow>
     held 2 (wi_ai_hold_sub st) (Some m) \<Longrightarrow> session_step e parse st (st\<lparr>wi_media := Some m\<rparr>)"

lemma on_signaling_message_inv:
  "sessions_inv st \<Longrightarrow> sessions_inv (on_signaling_message e parse b1 b2 message st)"
  by (auto simp: on_signaling_message_def on_peer_left_def on_offer_def on_candidate_message_def
      on_signaling_disconnected_def create_viewer_inv apply_remote_candidate_inv remove_all_inv
      split: outcome.split prod.split)

lemma session_step_inv: "session_step e parse st st' \<Longrightarrow> sessions_inv st \<Longrightarrow> sessions_inv st'"
proof (induction rule: session_step.induct)
  case (stopped st posted)
  then show ?case by (simp add: stop_sessions_def Let_def remove_all_inv)
next
  case (others st m)
  then show ?case by (simp add: sessions_inv_but_def subs_inv_def any_connected_def)
qed (simp_all add: on_signaling_message_inv on_peer_state_inv enqueue_video_inv enqueue_audio_inv
    enqueue_detection_inv drain_inv)

lemma session_steps_inv: "(session_step e parse)\<^sup>*\<^sup>* st st' \<Longrightarrow> sessions_inv st \<Longrightarrow> sessions_inv st'"
  by (induction rule: rtranclp_induct) (auto intro: session_step_inv)

lemma new_sessions_inv:
  "webrtc_start g runtime ctx (new_webrtc_plugin opts) = (True, p) \<Longrightarrow> sessions_inv (wp_impl p)"
  by (auto simp: webrtc_start_def new_webrtc_plugin_def new_webrtc_impl_def Let_def case_prod_beta
      sessions_inv_but_def viewers_inv_def peers_def pending_inv_def subs_inv_def split: if_splits)

section \<open>The offer of a viewer\<close>

lemma start_uplink_running [simp]: "wi_running (snd (start_uplink e True st)) = wi_running st"
  by (simp add: start_uplink_def look_again_def Let_def case_prod_beta split: option.split)

lemma start_uplink_new:
  assumes "wi_video_sub st = 0" and "wi_media st = Some m" and "wi_running st"
    and "subscribe (wo_preview_stream_id (wi_options st)) (Some (we_frame_handler e)) m = (sub, m1)" and "sub \<noteq> 0"
  shows "start_uplink e True st = (True, st\<lparr>wi_media := Some m1, wi_video_sub := sub\<rparr>)"
  using assms by (simp add: start_uplink_def look_again_def)

lemma start_uplink_again: "wi_video_sub st \<noteq> 0 \<Longrightarrow> start_uplink e b st = (True, st)"
  by (simp add: start_uplink_def)

lemma map_of_change: "map_of (map_change k f m) k = map_option f (map_of m k)"
  by (induction m) (auto simp: map_change_def)

lemma map_of_emplace: "k \<notin> fst ` set m \<Longrightarrow> map_of (map_emplace k v m) k = Some v"
proof -
  assume k: "k \<notin> fst ` set m"
  then have "map_of (map_insert k v m) k = Some v"
    by (induction k v m rule: map_insert.induct) auto
  with k show ?thesis by (simp add: map_emplace_def)
qed

text \<open>An accepted offer: the viewer has a session with a peer of its own, whatever it had before.\<close>

lemma create_viewer_accepts:
  assumes "i \<noteq> []" and "sdp \<noteq> []" and "wi_running st"
    and "length (map_erase i (wi_viewers st)) < viewer_limit (wi_options st)"
    and "fst (start_uplink e True (remove_viewer i st))"
    and "we_peer_start e (wi_next_peer st)" and "we_remote_offer e (wi_next_peer st) sdp"
  shows "fst (create_viewer e True True i sdp st)"
  using assms by (simp add: create_viewer_def Let_def case_prod_beta remove_viewer_viewers look_again_def)

lemma create_viewer_session:
  assumes "fst (create_viewer e b1 b2 i sdp st)"
  shows "map_of (wi_viewers (snd (create_viewer e b1 b2 i sdp st))) i =
    Some ((new_viewer i (wi_next_peer st))\<lparr>vs_remote_description_ready := True\<rparr>)"
proof -
  have "i \<notin> fst ` set (map_erase i (wi_viewers st))" by auto
  then show ?thesis
    using assms
    by (auto simp: create_viewer_def Let_def case_prod_beta remove_viewer_viewers flush_candidates_def map_of_change
        map_of_emplace split: if_splits)
qed

lemma session_peer_old: "sessions_inv st \<Longrightarrow> map_of (wi_viewers st) i = Some v \<Longrightarrow> vs_peer v < wi_next_peer st"
  by (auto simp: sessions_inv_but_def viewers_inv_def list_all_iff entry_ok_def dest!: map_of_SomeD)

lemma removed_viewer: "map_of (wi_viewers (remove_viewer i st)) i = None"
  by (force simp add: remove_viewer_viewers map_of_eq_None_iff)

text \<open>
  Candidates of a viewer that never makes an offer stay: its leaving removes nothing, and once 32 such
  viewers have been there, a candidate that comes before its offer is dropped.
\<close>

lemma unknown_viewer_leaves:
  "map_of (wi_viewers st) i = None \<Longrightarrow>
     on_peer_left (Json_Object [(''role'', Json_String ''viewer''), (''clientId'', Json_String i)]) st = st"
  by (simp add: on_peer_left_def get_optional_string_def remove_viewer_absent)

lemma full_table_drops_candidate:
  "map_of (wi_viewers st) i = None \<Longrightarrow> i \<noteq> [] \<Longrightarrow> kPendingCandidateLimit \<le> length (wi_pending_candidates st) \<Longrightarrow>
     apply_remote_candidate i c mid st = st"
  by (simp add: apply_remote_candidate_def)

section \<open>Properties\<close>


text \<open>
  C28: the sessions depend on the messages of the server only, not on the pieces of the stream.  For a
  connected client whose handler is the plugin, and text messages of at most 65535 bytes, the bytes of
  the messages, however they are cut by the network, drive the sessions as the messages one by one
  do, in their order; texts that are no message of the protocol do nothing.
\<close>

theorem stream_drives_sessions:
  assumes "ws_handshake_complete sg" and "ws_frame_buffer sg = []" and "sg_has_handler sg"
    and "list_all (\<lambda>m. length m \<le> 65535) ms" and "concat pieces = concat (map server_frame ms)"
  shows "snd (fold (plugin_receive e g) pieces (sg, st)) =
    fold (on_signaling_message e (ge_parse g) True True) (concat (map (\<lambda>m. event_of g (text_of m)) ms)) st"
  using plugin_receive_fold [of e g pieces sg st] messages_reach_handler [OF assms(1,2,4,5), of g]
    fold_on_message_events [OF assms(3), of g ms]
  by (simp add: Let_def)

definition demo_webrtc_options :: webrtc_options where
  "demo_webrtc_options =
     \<lparr>wo_signaling_url = ''ws://h/ws'', wo_signaling_token = [], wo_room = ''door-1'', wo_preview_stream_id = 0,
      wo_detections_enabled = False, wo_disable_twcc = True, wo_rolling_buffer_sec = 1,
      wo_expected_bitrate_bps = 1000000, wo_max_viewers = 3, wo_ice_servers = []\<rparr>"

definition demo_webrtc_env :: "bool \<Rightarrow> (nat, nat) webrtc_env" where
  "demo_webrtc_env ok =
     \<lparr>we_frame_handler = 1, we_ai_handler = 2, we_detection_handler = 3, we_peer_start = (\<lambda>_. ok),
      we_remote_offer = (\<lambda>_ _. True)\<rparr>"

definition demo_sessions :: "(nat, nat, nat) webrtc_impl" where
  "demo_sessions = (new_webrtc_impl demo_webrtc_options)\<lparr>wi_media := Some demo_source, wi_running := True\<rparr>"

definition demo_sdp :: string where
  "demo_sdp = ''a=ice-ufrag:x a=ice-pwd:y''"

definition demo_offer :: "string \<Rightarrow> string + json" where
  "demo_offer txt = Inr (Json_Object [(''from'', Json_String txt), (''sdp'', Json_String demo_sdp), (''type'', Json_String ''offer'')])"

definition demo_sg_env :: sg_env where
  "demo_sg_env =
     \<lparr>ge_posted = True, ge_create = True, ge_connect = (\<lambda>_ _. True), ge_send = (\<lambda>_ _. True),
      ge_random = (\<lambda>i j. of_nat (7 * i + j)), ge_parse = demo_offer, ge_timer = True\<rparr>"

definition demo_signaling :: signaling where
  "demo_signaling =
     (new_signaling ''ws://h/ws'' [] ''door-1'')
       \<lparr>ws_open := True, ws_handshake_complete := True, ws_connected := True, sg_has_handler := True\<rparr>"

theorem stream_drives_sessions_witness:
  "snd (fold (plugin_receive (demo_webrtc_env True) demo_sg_env) [[0x81], [1, 97, 0x81], [1, 98]]
     (demo_signaling, demo_sessions)) =
   fold (on_signaling_message (demo_webrtc_env True) demo_offer True True)
     [(''offer'', ''a''), (''offer'', ''b'')] demo_sessions"
proof -
  have "concat [[0x81], [1, 97, 0x81], [1, 98]] = concat (map server_frame [[97], [98]])"
    by (simp add: server_frame_def)
  moreover have "text_of [97] = ''a''" "text_of [98] = ''b''" by code_simp+
  ultimately show ?thesis
    using stream_drives_sessions [of demo_signaling "[[97], [98]]" "[[0x81], [1, 97, 0x81], [1, 98]]"
        "demo_webrtc_env True" demo_sg_env demo_sessions]
    by (simp add: demo_signaling_def new_signaling_def event_of_def demo_sg_env_def demo_offer_def parse_json_object_def get_required_string_def get_member_def Let_def)
qed

text \<open>The same plugin with two viewers.\<close>

definition demo_two_viewers :: "(nat, nat, nat) webrtc_impl" where
  "demo_two_viewers =
     demo_sessions
       \<lparr>wi_media := Some (snd (subscribe 0 (Some 1) demo_source)), wi_video_sub := 1, wi_next_peer := 2,
        wi_viewers := [(''a'', (new_viewer ''a'' 0)\<lparr>vs_remote_description_ready := True\<rparr>),
                       (''b'', (new_viewer ''b'' 1)\<lparr>vs_remote_description_ready := True\<rparr>)]\<rparr>"

lemma demo_two_viewers_inv: "sessions_inv demo_two_viewers"
proof -
  have "held 0 1 (Some (snd (subscribe 0 (Some 1) demo_source)))"
    using held_new [of 0 1 demo_source] by (simp only: demo_subscribe)
  then show ?thesis
    by (simp add: demo_two_viewers_def demo_sessions_def new_webrtc_impl_def demo_webrtc_options_def
        sessions_inv_but_def viewers_inv_def peers_def entry_ok_def new_viewer_def video_ok_def audio_ok_def
        pending_inv_def subs_inv_def viewer_limit_def kMaxViewerLimit_def)
qed


text \<open>
  C30: a viewer that makes a new offer is given a session with a new peer, and the old peer is stopped in
  the background; but a state event of the old peer that is still on its way ends the new session: the
  handler looks the session up by the viewer's name and only a \<open>connected\<close> event is compared with the peer.
\<close>

theorem stale_state_ends_successor:
  assumes "sessions_inv st" and "map_of (wi_viewers st) i = Some v"
    and "fst (create_viewer e b1 b2 i sdp st)"
  shows "let st1 = snd (create_viewer e b1 b2 i sdp st)
    in (\<exists>w. map_of (wi_viewers st1) i = Some w \<and> vs_peer w \<noteq> vs_peer v) \<and>
       on_peer_state e b True i (vs_peer v) ''connected'' st1 = st1 \<and>
       map_of (wi_viewers (on_peer_state e b True i (vs_peer v) ''failed'' st1)) i = None"
proof -
  have "vs_peer v < wi_next_peer st" using assms(1,2) by (rule session_peer_old)
  then show ?thesis
    using create_viewer_session [OF assms(3)]
    by (simp add: Let_def on_peer_state_def on_connected_def removed_viewer new_viewer_def)
qed

theorem stale_state_ends_successor_witness:
  "let st1 = snd (create_viewer (demo_webrtc_env True) True True ''a'' demo_sdp demo_two_viewers)
   in (\<exists>w. map_of (wi_viewers st1) ''a'' = Some w \<and> vs_peer w \<noteq> 0) \<and>
      on_peer_state (demo_webrtc_env True) True True ''a'' 0 ''connected'' st1 = st1 \<and>
      map_of (wi_viewers (on_peer_state (demo_webrtc_env True) True True ''a'' 0 ''failed'' st1)) ''a'' = None"
proof -
  let ?v = "(new_viewer ''a'' 0)\<lparr>vs_remote_description_ready := True\<rparr> :: nat viewer_session"
  have v: "map_of (wi_viewers demo_two_viewers) ''a'' = Some ?v" by (simp add: demo_two_viewers_def)
  have "fst (create_viewer (demo_webrtc_env True) True True ''a'' demo_sdp demo_two_viewers)"
    by (intro create_viewer_accepts)
      (simp_all add: demo_two_viewers_def demo_sessions_def new_webrtc_impl_def demo_webrtc_options_def
        demo_webrtc_env_def demo_sdp_def viewer_limit_def kMaxViewerLimit_def map_erase_def remove_viewer_fields
        start_uplink_again)
  from stale_state_ends_successor [OF demo_two_viewers_inv v this, of True] show ?thesis
    by (simp add: new_viewer_def)
qed



end
