(* ===== verification/Encoded_Stream.thy ===== *)
theory Encoded_Stream
  imports Media_Source Runtime_Config
begin

text \<open>
  From the encoder to the media source (src/device\_adapter/src/encoded\_frame.cpp,
  src/device\_adapter/src/encoded\_stream\_channel.cpp, src/device\_adapter/src/ai\_stream\_publisher.cpp, with
  the data the encoder's callback passes, src/devices/hisi\_3516cv610/support/util/stream\_type.h): the kind of
  a unit, the frame that is copied from it, the tracks, and the publication.  A pointer to \<open>n\<close> bytes is
  \<open>Some\<close> list of length \<open>n\<close>, the null pointer \<open>None\<close>.  The lemmas show that the frame is exactly the
  unit the encoder delivered, with one view per slice, and reaches every subscriber of its stream.
\<close>

section \<open>Units of the encoder\<close>

definition STREAM_P_FRAME :: u32 where "STREAM_P_FRAME = 0"
definition STREAM_I_FRAME :: u32 where "STREAM_I_FRAME = 1"
definition STREAM_AUDIO_FRAME :: u32 where "STREAM_AUDIO_FRAME = 2"
definition STREAM_B_FRAME :: u32 where "STREAM_B_FRAME = 3"
definition STREAM_NALU_SLICE :: u32 where "STREAM_NALU_SLICE = 4"
definition MAX_STREAM_NALU_COUNT :: nat where "MAX_STREAM_NALU_COUNT = 8"

definition MAIN_STREAM_ID :: int where "MAIN_STREAM_ID = 0"
definition SUB_STREAM_ID :: int where "SUB_STREAM_ID = 1"
definition AI_STREAM_ID :: int where "AI_STREAM_ID = 2"

lemmas stream_type_defs = STREAM_P_FRAME_def STREAM_I_FRAME_def STREAM_AUDIO_FRAME_def STREAM_B_FRAME_def
  STREAM_NALU_SLICE_def

record stream_nalu =
  nu_data :: "u8 list option"
  nu_time_stamp :: u32

record stream_head =
  sh_type :: u32
  sh_time_stamp :: u32
  sh_nalu_count :: u32
  sh_nalu :: "stream_nalu list"

text \<open>The slices that are looked at: the array has eight places.\<close>

definition slices :: "stream_head \<Rightarrow> stream_nalu list" where
  "slices head = take (min (unat (sh_nalu_count head)) MAX_STREAM_NALU_COUNT) (sh_nalu head)"

definition codec_from_mode :: "string \<Rightarrow> codec" where
  "codec_from_mode mode = (if contains ''H265'' mode then H265 else H264)"

definition start_code_length :: "u8 list \<Rightarrow> nat" where
  "start_code_length d =
     (if length d \<ge> 4 \<and> d ! 0 = 0 \<and> d ! 1 = 0 \<and> d ! 2 = 0 \<and> d ! 3 = 1 then 4
      else if length d \<ge> 3 \<and> d ! 0 = 0 \<and> d ! 1 = 0 \<and> d ! 2 = 1 then 3
      else 0)"

definition idr_type :: "codec \<Rightarrow> u8 \<Rightarrow> bool" where
  "idr_type c b \<longleftrightarrow>
     (let ty = (if c = H265 then drop_bit 1 b AND 0x3f else b AND 0x1f)
      in c = H264 \<and> ty = 5 \<or> c = H265 \<and> (ty = 19 \<or> ty = 20 \<or> ty = 21))"

definition key_slice :: "codec \<Rightarrow> stream_nalu \<Rightarrow> bool" where
  "key_slice c n =
     (case nu_data n of
        None \<Rightarrow> False
      | Some d \<Rightarrow> length d \<ge> 5 \<and> idr_type c (d ! start_code_length d))"

definition kind_from_type :: "u32 \<Rightarrow> codec \<Rightarrow> stream_head \<Rightarrow> frame_kind" where
  "kind_from_type type c head =
     (if type = STREAM_AUDIO_FRAME then Kind_Audio
      else if type = STREAM_I_FRAME then Key
      else if type = STREAM_NALU_SLICE \<and> list_ex (key_slice c) (slices head) then Key
      else if type = STREAM_P_FRAME \<or> type = STREAM_B_FRAME \<or> type = STREAM_NALU_SLICE then Inter
      else Kind_Unknown)"

text \<open>The detection preview has its own test, with other minimal sizes.\<close>

definition ai_key_slice :: "stream_nalu \<Rightarrow> bool" where
  "ai_key_slice n =
     (case nu_data n of
        None \<Rightarrow> False
      | Some d \<Rightarrow>
          length d \<ge> 4 \<and>
          (let off = (if length d \<ge> 5 \<and> d ! 0 = 0 \<and> d ! 1 = 0 \<and> d ! 2 = 0 \<and> d ! 3 = 1 then 4
                      else if d ! 0 = 0 \<and> d ! 1 = 0 \<and> d ! 2 = 1 then 3 else 0)
           in d ! off AND 0x1f = 5))"

definition h264_kind :: "stream_head \<Rightarrow> frame_kind" where
  "h264_kind head = (if list_ex ai_key_slice (slices head) then Key else Inter)"

section \<open>Copying\<close>

record encoded_frame_view =
  ev_type :: media_type
  ev_codec :: codec
  ev_kind :: frame_kind
  ev_stream_id :: int
  ev_pts_ms :: int
  ev_dts_ms :: int
  ev_chunks :: "u8 list option list"

text \<open>\<^verbatim>\<open>size_t\<close> has 32 bits on the device.\<close>

definition size_max :: nat where "size_max = 2 ^ 32 - 1"

fun chunk_total :: "nat \<Rightarrow> u8 list option list \<Rightarrow> nat option" where
  "chunk_total n [] = Some n"
| "chunk_total n (None # cs) = None"
| "chunk_total n (Some d # cs) =
     (if d = [] \<or> length d > size_max - n then None else chunk_total (n + length d) cs)"

fun copy_chunks :: "nat \<Rightarrow> u8 list option list \<Rightarrow> media_frame \<Rightarrow> media_frame" where
  "copy_chunks off [] f = f"
| "copy_chunks off (None # cs) f = copy_chunks off cs f"
| "copy_chunks off (Some d # cs) f =
     (let f1 = f\<lparr>mf_payload := take off (mf_payload f) @ d @ drop (off + length d) (mf_payload f)\<rparr>;
          f2 = (if mf_type f = Video then add_nalu off (length d) f1 else f1)
      in copy_chunks (off + length d) cs f2)"

definition copy_encoded_frame :: "encoded_frame_view \<Rightarrow> media_frame option" where
  "copy_encoded_frame src =
     (let video_codec = ev_codec src \<in> {H264, H265};
          audio_codec = ev_codec src \<in> {AAC, G711A, G711U}
      in if (ev_type src = Video \<and> \<not> video_codec) \<or> (ev_type src = Audio \<and> \<not> audio_codec) then None
         else
           case chunk_total 0 (ev_chunks src) of
             None \<Rightarrow> None
           | Some n \<Rightarrow>
               if n = 0 then None
               else
                 let f = set_timestamps (ev_pts_ms src) (ev_dts_ms src)
                           ((create_frame (ev_type src) (ev_codec src) (ev_stream_id src) n)\<lparr>mf_kind := ev_kind src\<rparr>)
                 in Some (copy_chunks 0 (ev_chunks src) f))"

section \<open>The channel\<close>

record encoded_channel =
  ec_encoder_mode :: string
  ec_audio_codec :: codec

definition new_encoded_channel :: "string \<Rightarrow> encoded_channel" where
  "new_encoded_channel mode = \<lparr>ec_encoder_mode = mode, ec_audio_codec = Codec_Unknown\<rparr>"

text \<open>The view of a unit with several slices; none when there is no slice or an empty one.\<close>

definition slice_view :: "codec \<Rightarrow> frame_kind \<Rightarrow> int \<Rightarrow> stream_head \<Rightarrow> encoded_frame_view option" where
  "slice_view c kind sid head =
     (let ns = slices head in
      if ns = [] \<or> list_ex (\<lambda>n. nu_data n = None \<or> nu_data n = Some []) ns then None
      else Some \<lparr>ev_type = Video, ev_codec = c, ev_kind = kind, ev_stream_id = sid,
                 ev_pts_ms = uint (nu_time_stamp (hd ns)), ev_dts_ms = uint (nu_time_stamp (hd ns)),
                 ev_chunks = map nu_data ns\<rparr>)"

definition channel_view :: "encoded_channel \<Rightarrow> int \<Rightarrow> stream_head \<Rightarrow> u8 list option \<Rightarrow> encoded_frame_view option" where
  "channel_view ch sid head buf =
     (let c = (if sh_type head = STREAM_AUDIO_FRAME then ec_audio_codec ch
               else codec_from_mode (ec_encoder_mode ch));
          kind = kind_from_type (sh_type head) c head
      in if kind = Kind_Audio
         then if buf = None \<or> buf = Some [] \<or> c = Codec_Unknown then None
              else Some \<lparr>ev_type = Audio, ev_codec = c, ev_kind = kind, ev_stream_id = sid,
                         ev_pts_ms = uint (sh_time_stamp head), ev_dts_ms = uint (sh_time_stamp head),
                         ev_chunks = [buf]\<rparr>
         else slice_view c kind sid head)"

text \<open>What the callbacks do with a view: the frame, when there is one, is published.\<close>

definition publish_view ::
  "encoded_frame_view option \<Rightarrow> 'h media_source \<Rightarrow> (('h \<times> media_frame) list \<times> 'h media_source) option" where
  "publish_view view media =
     (case Option.bind view copy_encoded_frame of
        None \<Rightarrow> Some ([], media)
      | Some f \<Rightarrow> map_option snd (publish (Some f) media))"

text \<open>\<open>sobj\<close> is the number of the stream object, if there is one.\<close>

definition on_stream_come ::
  "encoded_channel \<Rightarrow> int option \<Rightarrow> stream_head option \<Rightarrow> u8 list option \<Rightarrow> 'h media_source \<Rightarrow>
     (('h \<times> media_frame) list \<times> 'h media_source) option" where
  "on_stream_come ch sobj head buf media =
     (case (sobj, head) of
        (Some sid, Some h) \<Rightarrow> publish_view (channel_view ch sid h buf) media
      | _ \<Rightarrow> Some ([], media))"

definition ai_on_stream_come ::
  "int option \<Rightarrow> stream_head option \<Rightarrow> 'h media_source \<Rightarrow> (('h \<times> media_frame) list \<times> 'h media_source) option" where
  "ai_on_stream_come sobj head media =
     (case (sobj, head) of
        (Some sid, Some h) \<Rightarrow>
          if sh_type h \<noteq> STREAM_NALU_SLICE then Some ([], media)
          else publish_view (slice_view H264 (h264_kind h) sid h) media
      | _ \<Rightarrow> Some ([], media))"

section \<open>Tracks\<close>

definition no_video_format :: video_format where
  "no_video_format = \<lparr>vf_codec = Codec_Unknown, vf_width = 0, vf_height = 0, vf_frame_rate = 0, vf_extradata = []\<rparr>"

definition no_audio_format :: audio_format where
  "no_audio_format =
     \<lparr>af_codec = Codec_Unknown, af_sample_rate = 0, af_channels = 0, af_bits_per_sample = 0, af_extradata = []\<rparr>"

definition video_track :: "int \<Rightarrow> codec \<Rightarrow> int \<Rightarrow> int \<Rightarrow> int \<Rightarrow> stream_track" where
  "video_track sid c w h fps =
     \<lparr>st_stream_id = sid, st_type = Video, st_clock_rate = 90000,
      st_video = no_video_format\<lparr>vf_codec := c, vf_width := w, vf_height := h, vf_frame_rate := fps\<rparr>,
      st_audio = no_audio_format\<rparr>"

definition audio_track :: "int \<Rightarrow> codec \<Rightarrow> int \<Rightarrow> int \<Rightarrow> int \<Rightarrow> stream_track" where
  "audio_track sid c rate channels bits =
     \<lparr>st_stream_id = sid, st_type = Audio, st_clock_rate = rate, st_video = no_video_format,
      st_audio = no_audio_format\<lparr>af_codec := c, af_sample_rate := rate, af_channels := channels,
        af_bits_per_sample := bits\<rparr>\<rparr>"

definition register_encoded_tracks :: "streams_config \<Rightarrow> codec \<Rightarrow> 'h media_source \<Rightarrow> bool \<times> 'h media_source" where
  "register_encoded_tracks streams c media =
     (let main = ss_main streams; sub = ss_sub streams;
          add_video = (\<lambda>sid stream. set_track (video_track sid c (es_width stream) (es_height stream) (es_fps stream)))
      in if \<not> es_enable main \<or> es_width main \<le> 0 \<or> es_height main \<le> 0 \<or> es_fps main \<le> 0 then (False, media)
         else
           let media1 = add_video MAIN_STREAM_ID main media
           in (True, if es_enable sub then add_video SUB_STREAM_ID sub media1 else media1))"

definition register_audio_tracks ::
  "codec \<Rightarrow> int \<Rightarrow> int \<Rightarrow> int \<Rightarrow> encoded_channel \<Rightarrow> 'h media_source \<Rightarrow> bool \<times> encoded_channel \<times> 'h media_source" where
  "register_audio_tracks c rate channels bits ch media =
     (if rate \<le> 0 \<or> channels \<le> 0 \<or> bits \<le> 0 \<or> (c \<noteq> G711U \<and> c \<noteq> AAC) then (False, ch, media)
      else (True, ch\<lparr>ec_audio_codec := c\<rparr>,
            fold (\<lambda>sid. set_track (audio_track sid c rate channels bits)) [MAIN_STREAM_ID, SUB_STREAM_ID] media))"

definition ai_register_track :: "int \<Rightarrow> int \<Rightarrow> int \<Rightarrow> 'h media_source \<Rightarrow> bool \<times> 'h media_source" where
  "ai_register_track w h fps media =
     (if w \<le> 0 \<or> h \<le> 0 \<or> fps \<le> 0 then (False, media)
      else (True, set_track (video_track AI_STREAM_ID H264 w h fps) media))"

section \<open>The copy is the unit\<close>

text \<open>The views of consecutive pieces.\<close>

fun tiles :: "nat \<Rightarrow> u8 list list \<Rightarrow> nalu_view list" where
  "tiles off [] = []"
| "tiles off (d # ds) = \<lparr>nv_offset = off, nv_size = length d\<rparr> # tiles (off + length d) ds"

definition view_bytes :: "u8 list \<Rightarrow> nalu_view \<Rightarrow> u8 list" where
  "view_bytes p v = take (nv_size v) (drop (nv_offset v) p)"

lemma tiles_bytes: "map (view_bytes (pre @ concat ds)) (tiles (length pre) ds) = ds"
proof (induction ds arbitrary: pre)
  case (Cons d ds)
  from Cons.IH [of "pre @ d"] show ?case by (simp add: view_bytes_def)
qed simp

lemma chunk_total_fits:
  "[] \<notin> set ds \<Longrightarrow> n + length (concat ds) \<le> size_max \<Longrightarrow>
     chunk_total n (map Some ds) = Some (n + length (concat ds))"
  by (induction ds arbitrary: n) auto

text \<open>The loop over the chunks fills a payload of the right size from left to right.\<close>

lemma copy_chunks_fills:
  assumes "mf_payload f = pre @ rest" and "length rest = length (concat ds)"
  shows "copy_chunks (length pre) (map Some ds) f =
    f\<lparr>mf_payload := pre @ concat ds,
      mf_nalus := mf_nalus f @ (if mf_type f = Video then tiles (length pre) ds else [])\<rparr>"
  using assms
proof (induction ds arbitrary: pre rest f)
  case Nil
  then show ?case by simp
next
  case (Cons d ds)
  let ?f1 = "f\<lparr>mf_payload := pre @ d @ drop (length d) rest\<rparr>"
  let ?f2 = "if mf_type f = Video then add_nalu (length pre) (length d) ?f1 else ?f1"
  have pay: "mf_payload ?f2 = (pre @ d) @ drop (length d) rest" and ty: "mf_type ?f2 = mf_type f"
    by (simp_all add: add_nalu_def)
  have len: "length (drop (length d) rest) = length (concat ds)" using Cons.prems(2) by simp
  have "?f2 = f\<lparr>mf_payload := (pre @ d) @ drop (length d) rest,
      mf_nalus := mf_nalus f @ (if mf_type f = Video then [\<lparr>nv_offset = length pre, nv_size = length d\<rparr>] else [])\<rparr>"
    by (simp add: add_nalu_def frame_size_def)
  then show ?case
    using Cons.IH [OF pay len] Cons.prems(1) by (simp add: Let_def)
qed

lemma copy_encoded_frame_video:
  assumes "c = H264 \<or> c = H265" and "ds \<noteq> []" and "[] \<notin> set ds" and "length (concat ds) \<le> size_max"
  shows "copy_encoded_frame \<lparr>ev_type = Video, ev_codec = c, ev_kind = k, ev_stream_id = sid, ev_pts_ms = t,
      ev_dts_ms = t, ev_chunks = map Some ds\<rparr> =
    Some ((create_frame Video c sid 0)\<lparr>mf_kind := k, mf_pts_ms := t, mf_dts_ms := t, mf_payload := concat ds,
      mf_nalus := tiles 0 ds\<rparr>)"
proof -
  let ?f = "set_timestamps t t ((create_frame Video c sid (length (concat ds)))\<lparr>mf_kind := k\<rparr>)"
  have "copy_chunks 0 (map Some ds) ?f = ?f\<lparr>mf_payload := concat ds, mf_nalus := tiles 0 ds\<rparr>"
    using copy_chunks_fills [of ?f "[]" "replicate (length (concat ds)) 0" ds]
    by (simp add: set_timestamps_def create_frame_def)
  moreover have "concat ds \<noteq> []" using assms(2,3) by (cases ds) auto
  ultimately show ?thesis
    using assms(1) chunk_total_fits [OF assms(3), of 0] assms(4)
    by (auto simp: copy_encoded_frame_def set_timestamps_def create_frame_def)
qed

lemma copy_encoded_frame_audio:
  assumes "c \<in> {AAC, G711A, G711U}" and "d \<noteq> []" and "length d \<le> size_max"
  shows "copy_encoded_frame \<lparr>ev_type = Audio, ev_codec = c, ev_kind = k, ev_stream_id = sid, ev_pts_ms = t,
      ev_dts_ms = t, ev_chunks = [Some d]\<rparr> =
    Some ((create_frame Audio c sid 0)\<lparr>mf_kind := k, mf_pts_ms := t, mf_dts_ms := t, mf_payload := d\<rparr>)"
proof -
  let ?f = "set_timestamps t t ((create_frame Audio c sid (length d))\<lparr>mf_kind := k\<rparr>)"
  have "copy_chunks 0 (map Some [d]) ?f = ?f\<lparr>mf_payload := d\<rparr>"
    using copy_chunks_fills [of ?f "[]" "replicate (length d) 0" "[d]"]
    by (simp add: set_timestamps_def create_frame_def)
  then show ?thesis
    using assms by (auto simp: copy_encoded_frame_def set_timestamps_def create_frame_def)
qed

lemma publish_delivers_to:
  assumes "ms_inv s" and "ms_streams s (mf_stream_id f) \<noteq> None"
  shows "\<exists>s'. publish (Some f) s = Some (True, map (\<lambda>e. (snd e, f)) (subscribers_of (mf_stream_id f) s), s') \<and>
    ms_inv s'"
proof -
  obtain st where st: "ms_streams s (mf_stream_id f) = Some st" using assms(2) by blast
  from publish_stream [OF assms(1) st] obtain s' where
    p: "publish (Some f) s = Some (True, map (\<lambda>e. (snd e, f)) (ss_subscribers st), s')" by blast
  then show ?thesis using st publish_inv [OF assms(1) p] by (simp add: subscribers_of_def)
qed

lemma codec_from_mode_video: "codec_from_mode mode = H264 \<or> codec_from_mode mode = H265"
  by (simp add: codec_from_mode_def)

section \<open>Time stamps\<close>

text \<open>
  The time of a unit is a 32 bit number of milliseconds: 49.7 days after its zero it begins again, and the
  frame times of the media source go back with it.
\<close>

lemma pts_wraps:
  assumes "slice_view c k sid h1 = Some v1" and "slice_view c k sid h2 = Some v2"
    and "nu_time_stamp (hd (slices h1)) = - 1" and "nu_time_stamp (hd (slices h2)) = nu_time_stamp (hd (slices h1)) + 40"
  shows "ev_pts_ms v2 = ev_pts_ms v1 + 40 - 2 ^ 32"
proof -
  have "uint (- 1 :: u32) = 2 ^ 32 - 1" by (simp add: unsigned_minus_1_eq_mask mask_eq_exp_minus_1)
  then show ?thesis using assms by (auto simp: slice_view_def Let_def split: if_splits)
qed

section \<open>Properties\<close>

text \<open>
  C32: a video unit of the encoder reaches the subscribers unchanged.  For a unit of one to eight slices, none
  of them empty, on a stream of the media source, every subscriber of the stream is given exactly one
  frame: its payload is the slices one behind the other, it has one view per slice and each view shows
  just that slice, its time is that of the first slice, and it is a key frame exactly when one of the
  slices has the type of an IDR slice.
\<close>

theorem encoder_unit_published:
  assumes "ms_inv media" and "ms_streams media sid \<noteq> None"
    and "sh_type head = STREAM_NALU_SLICE" and "map nu_data (slices head) = map Some ds" and "ds \<noteq> []"
    and "[] \<notin> set ds" and "length (concat ds) \<le> size_max"
  shows "\<exists>f media'. on_stream_come ch (Some sid) (Some head) buf media =
      Some (map (\<lambda>e. (snd e, f)) (subscribers_of sid media), media') \<and> ms_inv media' \<and>
    mf_stream_id f = sid \<and> mf_type f = Video \<and> mf_codec f = codec_from_mode (ec_encoder_mode ch) \<and>
    mf_payload f = concat ds \<and> map (view_bytes (mf_payload f)) (mf_nalus f) = ds \<and>
    mf_pts_ms f = uint (nu_time_stamp (hd (slices head))) \<and>
    (keyframe f \<longleftrightarrow> list_ex (key_slice (codec_from_mode (ec_encoder_mode ch))) (slices head))"
proof -
  let ?c = "codec_from_mode (ec_encoder_mode ch)" and ?t = "uint (nu_time_stamp (hd (slices head)))"
  let ?k = "kind_from_type STREAM_NALU_SLICE ?c head"
  define f where "f = (create_frame Video ?c sid 0)\<lparr>mf_kind := ?k, mf_pts_ms := ?t, mf_dts_ms := ?t,
      mf_payload := concat ds, mf_nalus := tiles 0 ds\<rparr>"
  have none: "\<not> list_ex (\<lambda>n. nu_data n = None \<or> nu_data n = Some []) (slices head)"
    using assms(4,6) by (force simp: list_ex_iff dest: arg_cong [of _ _ set])
  have ne: "slices head \<noteq> []" using assms(4,5) by auto
  have k: "?k = (if list_ex (key_slice ?c) (slices head) then Key else Inter)"
    by (simp add: kind_from_type_def stream_type_defs)
  have "channel_view ch sid head buf = Some \<lparr>ev_type = Video, ev_codec = ?c, ev_kind = ?k, ev_stream_id = sid,
      ev_pts_ms = ?t, ev_dts_ms = ?t, ev_chunks = map Some ds\<rparr>"
    using none ne assms(3,4) k by (simp add: channel_view_def slice_view_def stream_type_defs Let_def)
  then have copy: "Option.bind (channel_view ch sid head buf) copy_encoded_frame = Some f"
    using copy_encoded_frame_video [OF codec_from_mode_video assms(5,6,7), of "ec_encoder_mode ch" ?k sid ?t]
    by (simp add: f_def)
  have fields: "mf_stream_id f = sid" "mf_type f = Video" "mf_codec f = ?c" "mf_payload f = concat ds"
      "mf_nalus f = tiles 0 ds" "mf_pts_ms f = ?t" "mf_kind f = ?k"
    by (simp_all add: f_def create_frame_def)
  obtain media' where "publish (Some f) media = Some (True, map (\<lambda>e. (snd e, f)) (subscribers_of sid media), media')"
      "ms_inv media'"
    using publish_delivers_to [OF assms(1), of f] assms(2) fields(1) by auto
  then show ?thesis
    using copy fields k tiles_bytes [of "[]" ds]
    by (intro exI [of _ f] exI [of _ media']) (simp add: on_stream_come_def publish_view_def keyframe_def)
qed

definition demo_unit :: stream_head where
  "demo_unit =
     \<lparr>sh_type = STREAM_NALU_SLICE, sh_time_stamp = 0, sh_nalu_count = 2,
      sh_nalu = [\<lparr>nu_data = Some [0, 0, 0, 1, 0x67], nu_time_stamp = 40\<rparr>,
                 \<lparr>nu_data = Some [0, 0, 0, 1, 0x65, 9], nu_time_stamp = 40\<rparr>]\<rparr>"

theorem encoder_unit_published_witness:
  "\<exists>f media'. on_stream_come (new_encoded_channel ''H264'') (Some 0) (Some demo_unit) None demo_watched =
      Some ([(7, f)], media') \<and> mf_payload f = [0, 0, 0, 1, 0x67, 0, 0, 0, 1, 0x65, 9] \<and> keyframe f \<and> mf_pts_ms f = 40"
proof -
  let ?ds = "[[0, 0, 0, 1, 0x67], [0, 0, 0, 1, 0x65, 9]] :: u8 list list"
  have s: "slices demo_unit = sh_nalu demo_unit" by (simp add: slices_def demo_unit_def MAX_STREAM_NALU_COUNT_def)
  have c: "codec_from_mode ''H264'' = H264" by code_simp
  have "list_ex (key_slice H264) (slices demo_unit)"
    unfolding s by (simp add: demo_unit_def key_slice_def idr_type_def start_code_length_def)
  then show ?thesis
    using encoder_unit_published [OF demo_watched_facts(1,2), of demo_unit ?ds "new_encoded_channel ''H264''" None]
      demo_watched_facts(3)
    by (simp add: s c new_encoded_channel_def) (force simp: demo_unit_def size_max_def)
qed

end
