(* ===== verification/Sdk_Trace.thy ===== *)
theory Sdk_Trace
  imports Encoded_Stream
begin

text \<open>
  The calls of the device layer (src/devices/hisi\_3516cv610) into the media library of the chip.  The library
  is not under src/: it is the parameter \<open>k\<close> of every operation, which answers a call from the calls made
  before, and the operations only learn whether a call succeeded.  Calls that come in pairs - create and
  destroy, enable and disable, bind and unbind, init and exit - acquire and release a \<open>resource\<close>; all others
  are settings.  The state of the device layer starts with the trace of the calls and their answers, from
  which it can be told what is still acquired.
\<close>

section \<open>Calls\<close>

datatype media_port =
    Port_Vi int int
  | Port_Vpss int int
  | Port_Venc int int
  | Port_Ai int int
  | Port_Aenc int int

text \<open>What is acquired and released; the comment names the pair of functions.\<close>

datatype resource =
    Vb_Pools                         \<comment> \<open>ss\_mpi\_vb\_init, ss\_mpi\_vb\_exit\<close>
  | Mpi_Sys                          \<comment> \<open>ss\_mpi\_sys\_init, ss\_mpi\_sys\_exit\<close>
  | Link media_port media_port       \<comment> \<open>ss\_mpi\_sys\_bind, ss\_mpi\_sys\_unbind\<close>
  | Mipi_Clock int                   \<comment> \<open>OT\_MIPI\_ENABLE\_MIPI\_CLOCK, OT\_MIPI\_DISABLE\_MIPI\_CLOCK\<close>
  | Vi_Dev int                       \<comment> \<open>ss\_mpi\_vi\_enable\_dev, ss\_mpi\_vi\_disable\_dev\<close>
  | Vi_Bound int int                 \<comment> \<open>ss\_mpi\_vi\_bind, ss\_mpi\_vi\_unbind\<close>
  | Vi_Pipe int                      \<comment> \<open>ss\_mpi\_vi\_create\_pipe, ss\_mpi\_vi\_destroy\_pipe\<close>
  | Vi_Pipe_Run int                  \<comment> \<open>ss\_mpi\_vi\_start\_pipe, ss\_mpi\_vi\_stop\_pipe\<close>
  | Vi_Chn int int                   \<comment> \<open>ss\_mpi\_vi\_enable\_chn, ss\_mpi\_vi\_disable\_chn\<close>
  | Sensor int                       \<comment> \<open>pfn\_register\_callback, pfn\_un\_register\_callback\<close>
  | Ae_Lib int                       \<comment> \<open>ss\_mpi\_ae\_register, ss\_mpi\_ae\_unregister\<close>
  | Awb_Lib int                      \<comment> \<open>ss\_mpi\_awb\_register, ss\_mpi\_awb\_unregister\<close>
  | Isp int                          \<comment> \<open>ss\_mpi\_isp\_init, ss\_mpi\_isp\_exit\<close>
  | Vpss_Grp int                     \<comment> \<open>ss\_mpi\_vpss\_create\_grp, ss\_mpi\_vpss\_destroy\_grp\<close>
  | Vpss_Grp_Run int                 \<comment> \<open>ss\_mpi\_vpss\_start\_grp, ss\_mpi\_vpss\_stop\_grp\<close>
  | Vpss_Chn int int                 \<comment> \<open>ss\_mpi\_vpss\_enable\_chn, ss\_mpi\_vpss\_disable\_chn\<close>
  | Venc_Chn int                     \<comment> \<open>ss\_mpi\_venc\_create\_chn, ss\_mpi\_venc\_destroy\_chn\<close>
  | Venc_Run int                     \<comment> \<open>ss\_mpi\_venc\_start\_chn, ss\_mpi\_venc\_stop\_chn\<close>
  | Region int                       \<comment> \<open>ss\_mpi\_rgn\_create, ss\_mpi\_rgn\_destroy\<close>
  | Region_On int int                \<comment> \<open>ss\_mpi\_rgn\_attach\_to\_chn, ss\_mpi\_rgn\_detach\_from\_chn\<close>
  | Fonts                            \<comment> \<open>FontRenderer::init, FontRenderer::release\<close>
  | Audio_Lib                        \<comment> \<open>ss\_mpi\_audio\_init, ss\_mpi\_audio\_exit\<close>
  | Aac_Lib                          \<comment> \<open>ss\_mpi\_aenc\_aac\_init, ss\_mpi\_aenc\_aac\_deinit\<close>
  | Ai_Dev int                       \<comment> \<open>ss\_mpi\_ai\_enable, ss\_mpi\_ai\_disable\<close>
  | Ai_Chn int int                   \<comment> \<open>ss\_mpi\_ai\_enable\_chn, ss\_mpi\_ai\_disable\_chn\<close>
  | Aenc_Chn int                     \<comment> \<open>ss\_mpi\_aenc\_create\_chn, ss\_mpi\_aenc\_destroy\_chn\<close>
  | Ao_Dev int                       \<comment> \<open>ss\_mpi\_ao\_enable, ss\_mpi\_ao\_disable\<close>
  | Ao_Chn int int                   \<comment> \<open>ss\_mpi\_ao\_enable\_chn, ss\_mpi\_ao\_disable\_chn\<close>
  | Ao_Sys_Chn int                   \<comment> \<open>the same of the channel OT\_AO\_SYS\_CHN\_ID\<close>
  | Dev_File string                  \<comment> \<open>open, close\<close>
  | Acl_Lib                          \<comment> \<open>svp\_acl\_init, svp\_acl\_finalize\<close>
  | Acl_Dev int                      \<comment> \<open>svp\_acl\_rt\_set\_device, svp\_acl\_rt\_reset\_device\<close>
  | Detector                         \<comment> \<open>yolov8::start, yolov8::stop\<close>
  | Detector_Observer                \<comment> \<open>register\_stream\_observer, unregister\_stream\_observer of the detector\<close>

text \<open>A setting is named by its function and the constants it is given, with the numbers.\<close>

datatype sdk_call =
    Acquire resource
  | Release resource
  | Configure "string list" "int list"

type_synonym sdk_trace = "(sdk_call \<times> bool) list"
type_synonym sdk_answers = "sdk_trace \<Rightarrow> sdk_call \<Rightarrow> bool"

record sdk =
  sd_trace :: sdk_trace

definition sdk_ask :: "sdk_answers \<Rightarrow> sdk_call \<Rightarrow> 'm sdk_scheme \<Rightarrow> bool \<times> 'm sdk_scheme" where
  "sdk_ask k c d = (k (sd_trace d) c, d\<lparr>sd_trace := sd_trace d @ [(c, k (sd_trace d) c)]\<rparr>)"

text \<open>A call whose answer is not looked at.\<close>

definition sdk_tell :: "sdk_answers \<Rightarrow> sdk_call \<Rightarrow> 'm sdk_scheme \<Rightarrow> 'm sdk_scheme" where
  "sdk_tell k c d = snd (sdk_ask k c d)"

definition sdk_tells :: "sdk_answers \<Rightarrow> sdk_call list \<Rightarrow> 'm sdk_scheme \<Rightarrow> 'm sdk_scheme" where
  "sdk_tells k cs d = fold (sdk_tell k) cs d"

text \<open>Going on after a success, and tidying up after a failure.\<close>

definition and_try :: "bool \<times> 's \<Rightarrow> ('s \<Rightarrow> bool \<times> 's) \<Rightarrow> bool \<times> 's" where
  "and_try r f = (if fst r then f (snd r) else (False, snd r))"

definition or_undo :: "bool \<times> 's \<Rightarrow> ('s \<Rightarrow> 's) \<Rightarrow> bool \<times> 's" where
  "or_undo r f = (if fst r then r else (False, f (snd r)))"

text \<open>Calls one after the other, up to the first that fails.\<close>

fun sdk_sequence :: "sdk_answers \<Rightarrow> sdk_call list \<Rightarrow> 'm sdk_scheme \<Rightarrow> bool \<times> 'm sdk_scheme" where
  "sdk_sequence k [] d = (True, d)"
| "sdk_sequence k (c # cs) d = and_try (sdk_ask k c d) (sdk_sequence k cs)"

section \<open>What is acquired\<close>

text \<open>A resource is held after the last successful call that acquired it, unless it was released since.\<close>

definition after_call :: "resource \<Rightarrow> sdk_call \<times> bool \<Rightarrow> bool \<Rightarrow> bool" where
  "after_call r e b =
     (case fst e of
        Acquire r' \<Rightarrow> if r' = r then snd e \<or> b else b
      | Release r' \<Rightarrow> if r' = r then False else b
      | Configure n xs \<Rightarrow> b)"

definition holds_after :: "sdk_trace \<Rightarrow> resource \<Rightarrow> bool" where
  "holds_after tr r = fold (after_call r) tr False"

definition holds :: "'m sdk_scheme \<Rightarrow> resource \<Rightarrow> bool" where
  "holds d r = holds_after (sd_trace d) r"

lemma holds_ask [simp]:
  "holds (snd (sdk_ask k c d)) r = after_call r (c, k (sd_trace d) c) (holds d r)"
  "holds (sdk_tell k c d) r = after_call r (c, k (sd_trace d) c) (holds d r)"
  by (simp_all add: holds_def holds_after_def sdk_ask_def sdk_tell_def)

lemma after_call_simps [simp]:
  "after_call r (Acquire r', ok) b = (if r' = r then ok \<or> b else b)"
  "after_call r (Release r', ok) b = (r' \<noteq> r \<and> b)"
  "after_call r (Configure n xs, ok) b = b"
  by (auto simp: after_call_def)

lemma fst_ask [simp]: "fst (sdk_ask k c d) = k (sd_trace d) c"
  by (simp add: sdk_ask_def)

lemma sdk_tells_Nil [simp]: "sdk_tells k [] d = d"
  by (simp add: sdk_tells_def)

lemma sdk_tells_Cons: "sdk_tells k (c # cs) d = sdk_tells k cs (sdk_tell k c d)"
  by (simp add: sdk_tells_def)

lemma try_simps [simp]:
  "fst (and_try r f) = (fst r \<and> fst (f (snd r)))" "fst (or_undo r g) = fst r"
  "snd (and_try r f) = (if fst r then snd (f (snd r)) else snd r)"
  "snd (or_undo r g) = (if fst r then snd r else g (snd r))"
  by (simp_all add: and_try_def or_undo_def)

text \<open>A call only changes what it names.\<close>

fun touched :: "sdk_call list \<Rightarrow> resource set" where
  "touched [] = {}"
| "touched (Acquire r # cs) = insert r (touched cs)"
| "touched (Release r # cs) = insert r (touched cs)"
| "touched (Configure n xs # cs) = touched cs"

lemma touched_append [simp]: "touched (xs @ ys) = touched xs \<union> touched ys"
  by (induction xs rule: touched.induct) auto

lemma touched_concat [simp]: "touched (concat css) = (\<Union>cs\<in>set css. touched cs)"
  by (induction css) auto

lemma touched_map [simp]:
  "touched (map (\<lambda>x. Acquire (f x)) xs) = f ` set xs" "touched (map (\<lambda>x. Release (f x)) xs) = f ` set xs"
  by (induction xs) auto

lemma touched_Cons: "touched (c # cs) = touched [c] \<union> touched cs"
  by (cases c) auto

lemma after_call_other: "r \<notin> touched [c] \<Longrightarrow> after_call r (c, ok) b = b"
  by (cases c) auto

text \<open>
  The frame of an operation that only makes calls: nothing but the trace changes, and what is held only
  changes within a set of resources.
\<close>

definition calls_on :: "resource set \<Rightarrow> 'm sdk_scheme \<Rightarrow> 'm sdk_scheme \<Rightarrow> bool" where
  "calls_on S d d' \<longleftrightarrow> d' = d\<lparr>sd_trace := sd_trace d'\<rparr> \<and> (\<forall>r. r \<notin> S \<longrightarrow> holds d' r = holds d r)"

definition keeps :: "resource set \<Rightarrow> 'm sdk_scheme \<Rightarrow> 'n sdk_scheme \<Rightarrow> bool" where
  "keeps S d d' \<longleftrightarrow> (\<forall>r. r \<notin> S \<longrightarrow> holds d' r = holds d r)"

lemma calls_on_keeps: "calls_on S d d' \<Longrightarrow> keeps S d d'"
  by (simp add: calls_on_def keeps_def)

lemma keepsD: "keeps S d d' \<Longrightarrow> r \<notin> S \<Longrightarrow> holds d' r = holds d r"
  by (simp add: keeps_def)

lemma keeps_refl [simp]: "keeps S d d"
  by (simp add: keeps_def)

lemma keeps_trans [trans]: "keeps S a b \<Longrightarrow> keeps S b c \<Longrightarrow> keeps S a c"
  by (simp add: keeps_def)

lemma keeps_mono: "keeps S a b \<Longrightarrow> S \<subseteq> T \<Longrightarrow> keeps T a b"
  by (auto simp: keeps_def)

lemma calls_onE: "calls_on S d d' \<Longrightarrow> (\<And>t. d' = d\<lparr>sd_trace := t\<rparr> \<Longrightarrow> P) \<Longrightarrow> P"
  by (auto simp: calls_on_def)

lemma calls_on_holds: "calls_on S d d' \<Longrightarrow> r \<notin> S \<Longrightarrow> holds d' r = holds d r"
  by (simp add: calls_on_def)

lemma calls_on_refl [simp]: "calls_on S d d"
  by (simp add: calls_on_def)

lemma calls_on_trans [trans]:
  assumes "calls_on S a b" and "calls_on S b c"
  shows "calls_on S a c"
proof -
  have "b = a\<lparr>sd_trace := sd_trace b\<rparr>" "c = b\<lparr>sd_trace := sd_trace c\<rparr>" using assms by (simp_all add: calls_on_def)
  then have "c = a\<lparr>sd_trace := sd_trace c\<rparr>" by (metis sdk.update_convs(1) sdk.surjective)
  then show ?thesis using assms by (simp add: calls_on_def)
qed

lemma calls_on_mono: "calls_on S a b \<Longrightarrow> S \<subseteq> T \<Longrightarrow> calls_on T a b"
  by (auto simp: calls_on_def)

lemma calls_on_ask: "touched [c] \<subseteq> S \<Longrightarrow> calls_on S d (snd (sdk_ask k c d))"
proof -
  assume "touched [c] \<subseteq> S"
  then have "r \<notin> S \<Longrightarrow> r \<notin> touched [c]" for r by auto
  then show ?thesis by (simp add: calls_on_def after_call_other) (simp add: sdk_ask_def)
qed

lemma calls_on_tell: "touched [c] \<subseteq> S \<Longrightarrow> calls_on S d (sdk_tell k c d)"
  using calls_on_ask by (simp add: sdk_tell_def)

lemma calls_on_tells: "touched cs \<subseteq> S \<Longrightarrow> calls_on S d (sdk_tells k cs d)"
proof (induction cs arbitrary: d)
  case (Cons c cs)
  then show ?case using calls_on_trans [OF calls_on_tell [of c S d k]] touched_Cons [of c cs] by (simp add: sdk_tells_Cons)
qed simp

lemma calls_on_try:
  assumes "calls_on S d (snd r)" and "\<And>x. calls_on S x (snd (f x))"
  shows "calls_on S d (snd (and_try r f))"
  using calls_on_trans [OF assms(1) assms(2)] assms(1) by simp

lemma calls_on_undo:
  assumes "calls_on S d (snd r)" and "\<And>x. calls_on S x (g x)"
  shows "calls_on S d (snd (or_undo r g))"
  using calls_on_trans [OF assms(1) assms(2)] assms(1) by simp

lemma calls_on_sequence: "touched cs \<subseteq> S \<Longrightarrow> calls_on S d (snd (sdk_sequence k cs d))"
proof (induction cs arbitrary: d)
  case (Cons c cs)
  then show ?case
    unfolding sdk_sequence.simps using touched_Cons [of c cs] by (intro calls_on_try calls_on_ask) auto
qed simp

text \<open>What a list of calls releases and does not acquire again is not held after it.\<close>

lemma sdk_tells_append [simp]: "sdk_tells k (xs @ ys) d = sdk_tells k ys (sdk_tells k xs d)"
  by (simp add: sdk_tells_def)

lemma sdk_tells_unheld:
  assumes "Acquire r \<notin> set cs" and "\<not> holds d r"
  shows "\<not> holds (sdk_tells k cs d) r"
  using assms
proof (induction cs arbitrary: d)
  case (Cons c cs)
  have "\<not> holds (sdk_tell k c d) r" using Cons.prems by (cases c) auto
  then show ?case using Cons.IH Cons.prems by (simp add: sdk_tells_Cons)
qed simp

lemma sdk_tells_released:
  assumes "Release r \<in> set cs" and "Acquire r \<notin> set cs"
  shows "\<not> holds (sdk_tells k cs d) r"
  using assms
proof (induction cs arbitrary: d)
  case (Cons c cs)
  show ?case
  proof (cases "c = Release r")
    case True
    then show ?thesis using Cons.prems(2) by (simp add: sdk_tells_Cons sdk_tells_unheld)
  next
    case False
    then show ?thesis using Cons.IH Cons.prems by (simp add: sdk_tells_Cons)
  qed
qed simp

text \<open>What a sequence acquires is held if all of it succeeds.\<close>

lemma sdk_sequence_acquired:
  assumes "fst (sdk_sequence k cs d)" and "Acquire r \<in> set cs \<or> holds d r" and "Release r \<notin> set cs"
  shows "holds (snd (sdk_sequence k cs d)) r"
  using assms
proof (induction cs arbitrary: d)
  case (Cons c cs)
  have "Acquire r \<in> set cs \<or> holds (snd (sdk_ask k c d)) r" using Cons.prems by (cases c) auto
  then show ?case using Cons.IH Cons.prems by simp
qed simp

text \<open>What the last call of a sequence would acquire is not held if the sequence fails.\<close>

lemma sdk_sequence_failed:
  assumes "\<not> fst (sdk_sequence k (cs @ [Acquire r]) d)" and "r \<notin> touched cs" and "\<not> holds d r"
  shows "\<not> holds (snd (sdk_sequence k (cs @ [Acquire r]) d)) r"
  using assms
proof (induction cs arbitrary: d)
  case (Cons c cs)
  have "r \<notin> touched [c]" "r \<notin> touched cs" using Cons.prems(2) touched_Cons [of c cs] by auto
  then show ?case using Cons by (auto simp: after_call_other)
qed auto

end
