(* ===== verification/Dev_Sys.thy ===== *)
theory Dev_Sys
  imports Sdk_Trace
begin

text \<open>
  The system part of the device layer (src/devices/hisi\_3516cv610/dev\_sys.cpp): the buffers that are reserved
  for the media library, its start and end, and the numbers of encoder channels and overlay regions that
  are given out.  The sizes of pictures and the limits of the chip are parameters.  The lemmas show which buffers are
  reserved when, that a number is never given out twice, and what the clean-up after a crash leaves.
\<close>

section \<open>Buffers and modes\<close>

definition SYS_FUNCTION_AIISP_ENABLED :: "int \<Rightarrow> bool" where
  "SYS_FUNCTION_AIISP_ENABLED flag = bit flag 0"

definition SYS_FUNCTION_LDC_ENABLED :: "int \<Rightarrow> bool" where
  "SYS_FUNCTION_LDC_ENABLED flag = bit flag 1"

definition SYS_FUNCTION_DEBREATH_EFFECT_ENABLED :: "int \<Rightarrow> bool" where
  "SYS_FUNCTION_DEBREATH_EFFECT_ENABLED flag = bit flag 2"

definition SYS_FUNCTION_WDR_ENABLE :: "int \<Rightarrow> bool" where
  "SYS_FUNCTION_WDR_ENABLE flag = bit flag 3"

lemmas sys_function_defs = SYS_FUNCTION_AIISP_ENABLED_def SYS_FUNCTION_LDC_ENABLED_def
  SYS_FUNCTION_DEBREATH_EFFECT_ENABLED_def SYS_FUNCTION_WDR_ENABLE_def

text \<open>The sizes the library computes for a picture of a width and a height.\<close>

record buffer_sizes =
  bs_raw :: "int \<Rightarrow> int \<Rightarrow> int"
  bs_yuv :: "int \<Rightarrow> int \<Rightarrow> int"
  bs_wrap :: "int \<Rightarrow> int \<Rightarrow> int"

definition wrap_enabled :: "int \<Rightarrow> int \<Rightarrow> bool" where
  "wrap_enabled flag max_w \<longleftrightarrow>
     \<not> SYS_FUNCTION_LDC_ENABLED flag \<and> \<not> SYS_FUNCTION_DEBREATH_EFFECT_ENABLED flag \<and> max_w \<le> 3200"

definition vi_offline :: "int \<Rightarrow> int \<Rightarrow> int \<Rightarrow> bool" where
  "vi_offline flag max_w max_h = (if max_w \<le> 3200 \<and> max_h \<le> 4096 then SYS_FUNCTION_AIISP_ENABLED flag else True)"

text \<open>The mode of the first pipe and of the others; the scaler always works online.\<close>

definition vi_vpss_modes :: "int \<Rightarrow> int \<Rightarrow> int \<Rightarrow> string list" where
  "vi_vpss_modes flag max_w max_h =
     (if vi_offline flag max_w max_h then [''OT_VI_OFFLINE_VPSS_ONLINE'', ''OT_VI_OFFLINE_VPSS_ONLINE'']
      else [''OT_VI_ONLINE_VPSS_ONLINE'', ''OT_VI_OFFLINE_VPSS_OFFLINE''])"

text \<open>Sizes and numbers of the blocks of the four pools.\<close>

definition common_pools :: "buffer_sizes \<Rightarrow> int \<Rightarrow> int \<Rightarrow> int \<Rightarrow> (int \<times> int) list" where
  "common_pools bs flag max_w max_h =
     [(bs_raw bs max_w max_h,
       if vi_offline flag max_w max_h then
         (if SYS_FUNCTION_AIISP_ENABLED flag then 0 else if SYS_FUNCTION_WDR_ENABLE flag then 6 else 3)
       else 0),
      (bs_yuv bs max_w max_h,
       if SYS_FUNCTION_LDC_ENABLED flag \<or> SYS_FUNCTION_DEBREATH_EFFECT_ENABLED flag then 3 else 0),
      (bs_yuv bs 720 480, 1),
      (bs_wrap bs max_w max_h, if wrap_enabled flag max_w then 1 else 0)]"

definition sys_init :: "sdk_answers \<Rightarrow> buffer_sizes \<Rightarrow> int \<Rightarrow> int \<Rightarrow> int \<Rightarrow> 'm sdk_scheme \<Rightarrow> bool \<times> 'm sdk_scheme" where
  "sys_init k bs flag max_w max_h d =
     (let d1 = sdk_tells k [Release Mpi_Sys, Release Vb_Pools] d in
      if max_w > 4096 \<or> max_h > 4096 then (False, d1)
      else
        sdk_sequence k
          [Configure [''ss_mpi_vb_set_cfg''] (concat (map (\<lambda>(size, cnt). [size, cnt]) (common_pools bs flag max_w max_h))),
           Configure [''ss_mpi_vb_set_supplement_cfg'', ''OT_VB_SUPPLEMENT_BNR_MOT_MASK'', ''OT_VB_SUPPLEMENT_JPEG_MASK''] [],
           Acquire Vb_Pools,
           Acquire Mpi_Sys,
           Configure (''ss_mpi_sys_set_vi_vpss_mode'' # vi_vpss_modes flag max_w max_h) [],
           Configure [''ss_mpi_sys_set_vi_aiisp_mode'', ''OT_VI_AIISP_MODE_DEFAULT''] [0]] d1)"

definition sys_release :: "sdk_answers \<Rightarrow> 'm sdk_scheme \<Rightarrow> 'm sdk_scheme" where
  "sys_release k d =
     sdk_tells k [Release Mpi_Sys, Configure [''ss_mpi_vb_exit_mod_common_pool'', ''OT_VB_UID_VDEC''] [],
       Release Vb_Pools] d"

section \<open>Clean-up after a crash\<close>

text \<open>The limits of the chip.\<close>

record sdk_limits =
  li_venc :: nat
  li_region :: nat
  li_vpss_grp :: nat
  li_vpss_chn :: nat
  li_pipe :: nat
  li_vi_chn :: nat
  li_vi_dev :: nat

definition each :: "nat \<Rightarrow> (int \<Rightarrow> sdk_call list) \<Rightarrow> sdk_call list" where
  "each n f = concat (map (\<lambda>i. f (int i)) [0..<n])"

definition unexcepted_calls :: "sdk_limits \<Rightarrow> sdk_call list" where
  "unexcepted_calls li =
     each (li_venc li) (\<lambda>v.
       each (li_region li) (\<lambda>r. [Release (Region_On r v)]) @
       each (li_vpss_grp li) (\<lambda>g. each (li_vpss_chn li) (\<lambda>c. [Release (Link (Port_Vpss g c) (Port_Venc 0 v))])) @
       [Release (Venc_Run v), Release (Venc_Chn v)]) @
     each (li_region li) (\<lambda>r. [Release (Region r)]) @
     each (li_vpss_grp li) (\<lambda>g.
       each (li_vpss_chn li) (\<lambda>c.
         each (li_pipe li) (\<lambda>p. each (li_vi_chn li) (\<lambda>v. [Release (Link (Port_Vi p v) (Port_Vpss g c))])) @
         [Release (Vpss_Chn g c)]) @
       [Release (Vpss_Grp_Run g), Release (Vpss_Grp g)]) @
     each (li_pipe li) (\<lambda>p.
       each (li_vi_chn li) (\<lambda>c. [Release (Vi_Chn p c)]) @
       [Release (Isp p), Release (Vi_Pipe_Run p), Release (Vi_Pipe p)] @
       each (li_vi_dev li) (\<lambda>v. [Release (Vi_Bound v p)])) @
     each (li_vi_dev li) (\<lambda>v. [Release (Vi_Dev v)]) @
     [Release Mpi_Sys, Configure [''ss_mpi_vb_exit_mod_common_pool'', ''OT_VB_UID_VDEC''] [], Release Vb_Pools]"

definition release_unexcepted :: "sdk_answers \<Rightarrow> sdk_limits \<Rightarrow> 'm sdk_scheme \<Rightarrow> 'm sdk_scheme" where
  "release_unexcepted k li d = sdk_tells k (unexcepted_calls li) d"

text \<open>
  Nothing calls it.  It names every class of resource of the video path but one: the binding of the sub
  encoder to the main encoder (\<^verbatim>\<open>venc::bind_source\<close>) is between two encoders, and it only unbinds scalers.
\<close>

lemma unexcepted_leaves_encoder_links:
  "holds (release_unexcepted k li d) (Link (Port_Venc a b) x) = holds d (Link (Port_Venc a b) x)"
  unfolding release_unexcepted_def by (rule calls_on_holds [OF calls_on_tells [OF subset_refl]]) (auto simp: unexcepted_calls_def each_def)

lemma each_in: "0 \<le> i \<Longrightarrow> i < int n \<Longrightarrow> c \<in> set (f i) \<Longrightarrow> c \<in> set (each n f)"
  by (auto simp: each_def intro!: bexI [of _ "nat i"])

lemma unexcepted_releases_encoders:
  assumes "0 \<le> v" and "v < int (li_venc li)" and "r \<in> {Venc_Chn v, Venc_Run v}"
  shows "\<not> holds (release_unexcepted k li d) r"
  unfolding release_unexcepted_def
proof (rule sdk_tells_released)
  show "Release r \<in> set (unexcepted_calls li)"
    using assms by (auto simp: unexcepted_calls_def intro!: each_in [of v])
  show "Acquire r \<notin> set (unexcepted_calls li)" by (auto simp: unexcepted_calls_def each_def)
qed

section \<open>Channels and regions\<close>

text \<open>
  Numbers that are given out: whether the flags were cleared on the first use, and the flags.
\<close>

type_synonym number_pool = "bool \<times> bool list"

fun first_free :: "nat \<Rightarrow> bool list \<Rightarrow> nat option" where
  "first_free i [] = None"
| "first_free i (b # bs) = (if b then first_free (Suc i) bs else Some i)"

definition pool_flags :: "number_pool \<Rightarrow> bool list" where
  "pool_flags p = (if fst p then snd p else replicate (length (snd p)) False)"

definition pool_alloc :: "number_pool \<Rightarrow> nat option \<times> number_pool" where
  "pool_alloc p =
     (case first_free 0 (pool_flags p) of
        None \<Rightarrow> (None, True, pool_flags p)
      | Some i \<Rightarrow> (Some i, True, (pool_flags p)[i := True]))"

definition pool_free :: "nat \<Rightarrow> number_pool \<Rightarrow> number_pool" where
  "pool_free i p = (if i < length (snd p) then (fst p, (snd p)[i := False]) else p)"

definition pool_taken :: "number_pool \<Rightarrow> nat \<Rightarrow> bool" where
  "pool_taken p i \<longleftrightarrow> i < length (pool_flags p) \<and> pool_flags p ! i"

record sys_state = sdk +
  sy_venc :: number_pool
  sy_rgn :: number_pool

definition free_venc_chn :: "int \<Rightarrow> 'm sys_state_scheme \<Rightarrow> 'm sys_state_scheme" where
  "free_venc_chn c d = (if 0 \<le> c then d\<lparr>sy_venc := pool_free (nat c) (sy_venc d)\<rparr> else d)"

definition alloc_venc_chn :: "'m sys_state_scheme \<Rightarrow> int \<times> 'm sys_state_scheme" where
  "alloc_venc_chn d =
     (case pool_alloc (sy_venc d) of (c, p) \<Rightarrow> (case c of None \<Rightarrow> - 1 | Some i \<Rightarrow> int i, d\<lparr>sy_venc := p\<rparr>))"

text \<open>\<^verbatim>\<open>OT_INVALID_HANDLE\<close> is \<open>None\<close>.\<close>

definition free_rgn_handle :: "nat option \<Rightarrow> 'm sys_state_scheme \<Rightarrow> 'm sys_state_scheme" where
  "free_rgn_handle h d = (case h of None \<Rightarrow> d | Some i \<Rightarrow> d\<lparr>sy_rgn := pool_free i (sy_rgn d)\<rparr>)"

definition alloc_rgn_handle :: "'m sys_state_scheme \<Rightarrow> nat option \<times> 'm sys_state_scheme" where
  "alloc_rgn_handle d = (case pool_alloc (sy_rgn d) of (h, p) \<Rightarrow> (h, d\<lparr>sy_rgn := p\<rparr>))"

text \<open>A number that is given out was free, is taken until it is freed, and no other changes.\<close>

lemma first_free_Some:
  "first_free i bs = Some j \<Longrightarrow> i \<le> j \<and> j < i + length bs \<and> \<not> bs ! (j - i)"
proof (induction i bs rule: first_free.induct)
  case (2 i b bs)
  show ?case
  proof (cases b)
    case True
    then have "j - i = Suc (j - Suc i)" "Suc i \<le> j" using 2 by auto
    then show ?thesis using 2 True by simp
  qed (use 2 in auto)
qed simp

lemma pool_flags_inited [simp]: "pool_flags (True, fs) = fs"
  by (simp add: pool_flags_def)

lemma pool_alloc_fresh:
  assumes "pool_alloc p = (Some i, p')"
  shows "\<not> pool_taken p i" and "pool_taken p' j \<longleftrightarrow> j = i \<or> pool_taken p j"
proof -
  have i: "first_free 0 (pool_flags p) = Some i" "p' = (True, (pool_flags p)[i := True])"
    using assms by (auto simp: pool_alloc_def split: option.splits)
  then show "\<not> pool_taken p i" "pool_taken p' j \<longleftrightarrow> j = i \<or> pool_taken p j"
    using first_free_Some [OF i(1)] by (auto simp: pool_taken_def nth_list_update)
qed

lemma pool_alloc_full: "pool_alloc p = (None, p') \<Longrightarrow> pool_taken p' j \<longleftrightarrow> pool_taken p j"
  by (auto simp: pool_alloc_def pool_taken_def split: option.splits)

lemma pool_free_taken: "pool_taken (pool_free i p) j \<longleftrightarrow> j \<noteq> i \<and> pool_taken p j"
  by (auto simp: pool_taken_def pool_free_def pool_flags_def nth_list_update split: if_splits)

definition venc_taken :: "'m sys_state_scheme \<Rightarrow> int \<Rightarrow> bool" where
  "venc_taken d c \<longleftrightarrow> 0 \<le> c \<and> pool_taken (sy_venc d) (nat c)"

lemma alloc_venc_chn_fresh:
  assumes "alloc_venc_chn d = (c, d')" and "c \<noteq> - 1"
  shows "\<not> venc_taken d c" and "venc_taken d' e \<longleftrightarrow> e = c \<or> venc_taken d e" and "0 \<le> c"
proof -
  obtain h p where p: "pool_alloc (sy_venc d) = (h, p)" by (cases "pool_alloc (sy_venc d)") simp
  obtain i where i: "h = Some i" "c = int i" "d' = d\<lparr>sy_venc := p\<rparr>"
    using assms p by (cases h) (simp_all add: alloc_venc_chn_def)
  note fresh = pool_alloc_fresh [OF p [unfolded i(1)]]
  show "\<not> venc_taken d c" "0 \<le> c" using fresh(1) by (simp_all add: venc_taken_def i(2))
  show "venc_taken d' e \<longleftrightarrow> e = c \<or> venc_taken d e"
    using fresh(2) [of "nat e"] by (cases "0 \<le> e") (simp_all add: venc_taken_def i(2,3) nat_eq_iff)
qed

lemma alloc_venc_chn_full:
  assumes "alloc_venc_chn d = (- 1, d')"
  shows "venc_taken d' e \<longleftrightarrow> venc_taken d e"
proof -
  obtain h p where p: "pool_alloc (sy_venc d) = (h, p)" by (cases "pool_alloc (sy_venc d)") simp
  then have "h = None" "d' = d\<lparr>sy_venc := p\<rparr>"
    using assms by (cases h; simp add: alloc_venc_chn_def)+
  then show ?thesis using pool_alloc_full [of "sy_venc d" p "nat e"] p by (simp add: venc_taken_def)
qed

lemma free_venc_chn_taken: "venc_taken (free_venc_chn c d) e \<longleftrightarrow> e \<noteq> c \<and> venc_taken d e"
  by (cases "0 \<le> c"; cases "0 \<le> e") (simp_all add: venc_taken_def free_venc_chn_def pool_free_taken eq_nat_nat_iff)

text \<open>At least so many channels are free.\<close>

definition free_chns :: "nat \<Rightarrow> 'm sys_state_scheme \<Rightarrow> bool" where
  "free_chns n d \<longleftrightarrow> n \<le> length (filter Not (pool_flags (sy_venc d)))"

lemma first_free_None: "first_free i bs = None \<Longrightarrow> filter Not bs = []"
  by (induction i bs rule: first_free.induct) (auto split: if_splits)

lemma filter_Not_update:
  assumes "i < length bs" and "\<not> bs ! i"
  shows "length (filter Not bs) = Suc (length (filter Not (bs[i := True])))"
proof -
  have "filter Not bs = filter Not (take i bs @ bs ! i # drop (Suc i) bs)"
    using id_take_nth_drop [OF assms(1)] by (rule arg_cong)
  then have "filter Not bs = filter Not (take i bs) @ False # filter Not (drop (Suc i) bs)"
    using assms(2) by simp
  moreover have "filter Not (bs[i := True]) = filter Not (take i bs) @ filter Not (drop (Suc i) bs)"
    using assms(1) by (simp add: upd_conv_take_nth_drop)
  ultimately show ?thesis by simp
qed

lemma alloc_venc_chn_free:
  assumes "free_chns (Suc n) d" and "alloc_venc_chn d = (c, d')"
  shows "c \<noteq> - 1" and "free_chns n d'"
proof -
  obtain h p where p: "pool_alloc (sy_venc d) = (h, p)" by (cases "pool_alloc (sy_venc d)") simp
  obtain i where i: "first_free 0 (pool_flags (sy_venc d)) = Some i"
    using assms(1) first_free_None [of 0 "pool_flags (sy_venc d)"]
    by (cases "first_free 0 (pool_flags (sy_venc d))") (auto simp: free_chns_def)
  let ?f = "pool_flags (sy_venc d)"
  have c: "c = int i" and d': "d' = d\<lparr>sy_venc := (True, ?f[i := True])\<rparr>"
    using assms(2) i by (simp_all add: alloc_venc_chn_def pool_alloc_def)
  show "c \<noteq> - 1" by (simp add: c)
  have "length (filter Not ?f) = Suc (length (filter Not (?f[i := True])))"
    using first_free_Some [OF i] by (intro filter_Not_update) simp_all
  then show "free_chns n d'" using assms(1) by (simp add: free_chns_def d')
qed

lemma sys_fields:
  assumes "calls_on S d d'"
  shows "sy_venc d' = sy_venc d" and "sy_rgn d' = sy_rgn d" and "venc_taken d' c = venc_taken d c"
  using assms by (auto elim!: calls_onE simp: venc_taken_def)

lemma sys_init_on: "calls_on {Mpi_Sys, Vb_Pools} d (snd (sys_init k bs flag w h d))"
  unfolding sys_init_def Let_def
  by (auto simp del: sdk_sequence.simps
      intro!: calls_on_trans [OF calls_on_tells calls_on_sequence] calls_on_tells)

lemma sys_release_on: "calls_on {Mpi_Sys, Vb_Pools} d (sys_release k d)"
  unfolding sys_release_def by (rule calls_on_tells) auto

lemma sys_release_none: "r \<in> {Mpi_Sys, Vb_Pools} \<Longrightarrow> \<not> holds (sys_release k d) r"
  unfolding sys_release_def by (rule sdk_tells_released) auto

text \<open>The memory of the ring between scaler and encoder is reserved just when the capture switches it on.\<close>

lemma wrap_reserved: "snd (common_pools bs flag w h ! 3) = 1 \<longleftrightarrow> wrap_enabled flag w"
  by (simp add: common_pools_def)

end
