(* ===== verification/Dev_Video_Input.thy ===== *)
theory Dev_Video_Input
  imports Dev_Sys
begin

text \<open>
  The capture of the device layer (src/devices/hisi\_3516cv610/dev\_vi\_isp.cpp with the sensors of
  dev\_vi\_*\_liner.cpp): from the receiver of the sensor's signal over pipe and image processing to the scaler.
  Of the attributes only the numbers the program computes are kept.  The lemmas show that stopping releases
  everything that starting acquired, and what a start leaves behind that fails on the way.
\<close>

section \<open>Sensors\<close>

record vi =
  vi_w :: int
  vi_h :: int
  vi_fr :: int
  vi_dev :: int
  vi_mipi_dev :: int
  vi_wdr_mode :: int
  vi_pipes :: "int list"
  vi_wrap :: bool
  vi_isp_rate :: int
  vi_early_line :: int
  vi_vpss_w :: int
  vi_vpss_h :: int

definition vi_vpss_grp :: int where "vi_vpss_grp = 0"
definition vi_vpss_chn :: int where "vi_vpss_chn = 0"
definition vi_vi_chn :: int where "vi_vi_chn = 0"

lemmas vi_number_defs = vi_vpss_grp_def vi_vpss_chn_def vi_vi_chn_def

text \<open>The constructor of \<^verbatim>\<open>vi_isp\<close>; a frame rate of 30 is the default of its attributes.\<close>

definition new_vi_isp :: "int \<Rightarrow> int \<Rightarrow> int \<Rightarrow> int \<Rightarrow> int \<Rightarrow> int \<Rightarrow> int \<Rightarrow> vi" where
  "new_vi_isp w h src_fr dev mipi_dev wdr_mode flag =
     \<lparr>vi_w = w, vi_h = h, vi_fr = src_fr, vi_dev = dev, vi_mipi_dev = mipi_dev, vi_wdr_mode = wdr_mode,
      vi_pipes = (if wdr_mode \<noteq> 0 then [0, 1] else [0]), vi_wrap = wrap_enabled flag w, vi_isp_rate = 30,
      vi_early_line = h - 100, vi_vpss_w = w, vi_vpss_h = h\<rparr>"

text \<open>The constructors of the sensors: the rate of the image processing is limited, with AI noise reduction to 12.\<close>

definition limit_rate :: "int \<Rightarrow> int \<Rightarrow> vi \<Rightarrow> vi" where
  "limit_rate rate flag v =
     v\<lparr>vi_isp_rate := (if SYS_FUNCTION_AIISP_ENABLED flag then min 12 (vi_fr v) else min rate (vi_fr v))\<rparr>"

definition vi_sc4336p_liner :: "int \<Rightarrow> int \<Rightarrow> int \<Rightarrow> int \<Rightarrow> vi" where
  "vi_sc4336p_liner flag w h fr = limit_rate 30 flag (new_vi_isp w h fr 0 0 0 flag)"

definition vi_sc431hai_liner :: "int \<Rightarrow> int \<Rightarrow> int \<Rightarrow> int \<Rightarrow> vi" where
  "vi_sc431hai_liner flag w h fr = limit_rate 30 flag (new_vi_isp w h fr 0 0 0 flag)"

definition vi_gc8613_4k20_liner :: "int \<Rightarrow> int \<Rightarrow> int \<Rightarrow> int \<Rightarrow> int \<Rightarrow> vi" where
  "vi_gc8613_4k20_liner flag w h fr wdr_mode = limit_rate 20 flag (new_vi_isp w h fr 0 0 wdr_mode flag)"

definition vi_gc8613_1080p20_liner :: "int \<Rightarrow> int \<Rightarrow> int \<Rightarrow> int \<Rightarrow> vi" where
  "vi_gc8613_1080p20_liner flag w h fr = limit_rate 20 flag (new_vi_isp w h fr 0 0 0 flag)"

definition vi_gc4023_liner :: "int \<Rightarrow> int \<Rightarrow> int \<Rightarrow> int \<Rightarrow> vi" where
  "vi_gc4023_liner flag w h fr = limit_rate 20 flag (new_vi_isp w h 30 1 1 0 flag)"

definition vi_hy006_3814_0011_liner :: "int \<Rightarrow> int \<Rightarrow> int \<Rightarrow> int \<Rightarrow> vi" where
  "vi_hy006_3814_0011_liner flag w h fr = limit_rate 30 flag (new_vi_isp w h fr 0 0 0 flag)"

text \<open>The choice of \<^verbatim>\<open>chn::start\<close>.\<close>

definition make_vi :: "string \<Rightarrow> int \<Rightarrow> int \<Rightarrow> int \<Rightarrow> int \<Rightarrow> int \<Rightarrow> vi option" where
  "make_vi name flag w h fr wdr_mode =
     (if name = ''SC4336P'' then Some (vi_sc4336p_liner flag w h fr)
      else if name = ''SC431HAI'' then Some (vi_sc431hai_liner flag w h fr)
      else if name = ''GC8613_4K'' then Some (vi_gc8613_4k20_liner flag w h fr wdr_mode)
      else if name = ''GC8613_1080P'' then Some (vi_gc8613_1080p20_liner flag w h fr)
      else if name = ''GC4023'' then Some (vi_gc4023_liner flag w h fr)
      else if name = ''HY006_3814_0011'' then Some (vi_hy006_3814_0011_liner flag w h fr)
      else None)"

lemmas vi_liner_defs = vi_sc4336p_liner_def vi_sc431hai_liner_def vi_gc8613_4k20_liner_def
  vi_gc8613_1080p20_liner_def vi_gc4023_liner_def vi_hy006_3814_0011_liner_def

section \<open>Start and stop\<close>

record video_state = sys_state +
  dv_vi_started :: bool
  dv_isp_thread :: bool

definition MIPI_DEV_NAME :: string where "MIPI_DEV_NAME = ''/dev/ot_mipi_rx''"

text \<open>Open the receiver, make the calls, close it.\<close>

definition with_mipi :: "sdk_answers \<Rightarrow> sdk_call list \<Rightarrow> 'm sdk_scheme \<Rightarrow> bool \<times> 'm sdk_scheme" where
  "with_mipi k cs d =
     and_try (sdk_ask k (Acquire (Dev_File MIPI_DEV_NAME)) d)
       (\<lambda>d1. (True, sdk_tells k (cs @ [Release (Dev_File MIPI_DEV_NAME)]) d1))"

definition init_hs_mode :: "sdk_answers \<Rightarrow> int \<Rightarrow> 'm sdk_scheme \<Rightarrow> bool \<times> 'm sdk_scheme" where
  "init_hs_mode k mode d = with_mipi k [Configure [''OT_MIPI_SET_HS_MODE''] [mode]] d"

definition start_mipi :: "sdk_answers \<Rightarrow> vi \<Rightarrow> 'm sdk_scheme \<Rightarrow> bool \<times> 'm sdk_scheme" where
  "start_mipi k v d =
     with_mipi k
       [Acquire (Mipi_Clock (vi_mipi_dev v)), Configure [''OT_MIPI_RESET_MIPI''] [vi_mipi_dev v],
        Configure [''OT_MIPI_SET_DEV_ATTR''] [vi_w v, vi_h v], Configure [''OT_MIPI_UNRESET_MIPI''] [vi_mipi_dev v]] d"

definition stop_mipi :: "sdk_answers \<Rightarrow> vi \<Rightarrow> 'm sdk_scheme \<Rightarrow> bool \<times> 'm sdk_scheme" where
  "stop_mipi k v d =
     with_mipi k [Configure [''OT_MIPI_RESET_MIPI''] [vi_mipi_dev v], Release (Mipi_Clock (vi_mipi_dev v))] d"

definition reset_sns :: "sdk_answers \<Rightarrow> 'm sdk_scheme \<Rightarrow> bool \<times> 'm sdk_scheme" where
  "reset_sns k d =
     with_mipi k
       [Configure [''OT_MIPI_ENABLE_SENSOR_CLOCK''] [0], Configure [''OT_MIPI_RESET_SENSOR''] [0],
        Configure [''OT_MIPI_UNRESET_SENSOR''] [0]] d"

definition start_isp :: "sdk_answers \<Rightarrow> vi \<Rightarrow> 'm video_state_scheme \<Rightarrow> 'm video_state_scheme" where
  "start_isp k v d =
     (let p = hd (vi_pipes v) in
      (sdk_tells k
        [Acquire (Sensor p), Configure [''pfn_set_bus_info''] [p, 0], Acquire (Ae_Lib p), Acquire (Awb_Lib p),
         Configure [''ss_mpi_isp_mem_init''] [p], Configure [''ss_mpi_isp_set_pub_attr''] [p, vi_w v, vi_h v, vi_isp_rate v],
         Acquire (Isp p)] d)\<lparr>dv_isp_thread := True\<rparr>)"

text \<open>The thread ends when the image processing does, and is joined.\<close>

definition stop_isp :: "sdk_answers \<Rightarrow> vi \<Rightarrow> 'm video_state_scheme \<Rightarrow> 'm video_state_scheme" where
  "stop_isp k v d =
     (let p = hd (vi_pipes v) in
      sdk_tells k [Release (Awb_Lib p), Release (Ae_Lib p), Release (Sensor p)]
        ((sdk_tell k (Release (Isp p)) d)\<lparr>dv_isp_thread := False\<rparr>))"

text \<open>One round of the loop that starts the pipes; only pipe 0 has a channel.\<close>

definition start_pipe :: "sdk_answers \<Rightarrow> vi \<Rightarrow> int \<Rightarrow> 'm sdk_scheme \<Rightarrow> bool \<times> 'm sdk_scheme" where
  "start_pipe k v p d =
     and_try
       (and_try (sdk_ask k (Acquire (Vi_Pipe p)) d)
         (\<lambda>d1. sdk_ask k (Acquire (Vi_Pipe_Run p))
                 (if p = 0 then sdk_tell k (Configure [''ss_mpi_vi_set_pipe_frame_interrupt_attr''] [p, vi_early_line v]) d1
                  else d1)))
       (\<lambda>d1. if p = 0
             then sdk_sequence k
               [Configure [''ss_mpi_vi_set_chn_attr''] [p, vi_vi_chn, vi_w v, vi_h v], Acquire (Vi_Chn p vi_vi_chn)] d1
             else (True, d1))"

fun start_pipes :: "sdk_answers \<Rightarrow> vi \<Rightarrow> int list \<Rightarrow> 'm sdk_scheme \<Rightarrow> bool \<times> 'm sdk_scheme" where
  "start_pipes k v [] d = (True, d)"
| "start_pipes k v (p # ps) d = and_try (start_pipe k v p d) (start_pipes k v ps)"

definition vi_link :: "vi \<Rightarrow> resource" where
  "vi_link v = Link (Port_Vi (hd (vi_pipes v)) vi_vi_chn) (Port_Vpss vi_vpss_grp vi_vpss_chn)"

definition start_vpss :: "sdk_answers \<Rightarrow> vi \<Rightarrow> 'm sdk_scheme \<Rightarrow> bool \<times> 'm sdk_scheme" where
  "start_vpss k v d =
     and_try
       (and_try (sdk_ask k (Acquire (vi_link v)) d)
         (\<lambda>d1. sdk_sequence k
            [Acquire (Vpss_Grp vi_vpss_grp), Acquire (Vpss_Grp_Run vi_vpss_grp),
             Configure [''ss_mpi_vpss_set_chn_attr''] [vi_vpss_grp, vi_vpss_chn, vi_vpss_w v, vi_vpss_h v]]
            (sdk_tell k (Configure [''ss_mpi_vpss_set_grp_frame_interrupt_attr''] [0, vi_h v div 2]) d1)))
       (\<lambda>d1. sdk_ask k (Acquire (Vpss_Chn vi_vpss_grp vi_vpss_chn))
               (if vi_wrap v
                then sdk_tell k (Configure [''ss_mpi_vpss_set_chn_buf_wrap''] [vi_vpss_grp, vi_vpss_chn, 256]) d1 else d1))"

definition start_capture_path :: "sdk_answers \<Rightarrow> vi \<Rightarrow> 'm sdk_scheme \<Rightarrow> bool \<times> 'm sdk_scheme" where
  "start_capture_path k v d =
     and_try
       (and_try (and_try (start_mipi k v d) (reset_sns k))
         (sdk_sequence k
           ([Configure [''ss_mpi_vi_set_dev_attr''] [vi_dev v, vi_w v, vi_h v], Acquire (Vi_Dev (vi_dev v))] @
            map (\<lambda>p. Acquire (Vi_Bound (vi_dev v) p)) (vi_pipes v) @
            [Configure [''ss_mpi_vi_set_wdr_fusion_grp_attr''] (0 # vi_wdr_mode v # vi_h v # vi_pipes v)])))
       (start_pipes k v (vi_pipes v))"

definition vi_isp_start :: "sdk_answers \<Rightarrow> vi \<Rightarrow> 'm video_state_scheme \<Rightarrow> bool \<times> 'm video_state_scheme" where
  "vi_isp_start k v d =
     (if dv_vi_started d then (False, d)
      else
        and_try
          (and_try (start_capture_path k v d)
            (\<lambda>d1. start_vpss k v
               (sdk_tell k (Configure [''ss_mpi_vi_set_pipe_3dnr_attr''] [hd (vi_pipes v)]) (start_isp k v d1))))
          (\<lambda>d1. (True, d1\<lparr>dv_vi_started := True\<rparr>)))"

definition stop_pipe_calls :: "vi \<Rightarrow> int \<Rightarrow> sdk_call list" where
  "stop_pipe_calls v p =
     (if p = 0 then [Release (Vi_Chn p vi_vi_chn)] else []) @
     [Release (Vi_Pipe_Run p), Release (Vi_Pipe p), Release (Vi_Bound (vi_dev v) p)]"

definition vi_isp_stop :: "sdk_answers \<Rightarrow> vi \<Rightarrow> 'm video_state_scheme \<Rightarrow> 'm video_state_scheme" where
  "vi_isp_stop k v d =
     (sdk_tells k
       ([Release (vi_link v), Release (Vpss_Chn vi_vpss_grp vi_vpss_chn), Release (Vpss_Chn vi_vpss_grp 1),
         Release (Vpss_Grp_Run vi_vpss_grp), Release (Vpss_Grp vi_vpss_grp)] @
        concat (map (stop_pipe_calls v) (vi_pipes v)) @ [Release (Vi_Dev (vi_dev v))])
       (snd (stop_mipi k v (stop_isp k v d))))\<lparr>dv_vi_started := False\<rparr>"

text \<open>
  The destructor: a \<^verbatim>\<open>std::thread\<close> that is destroyed while it can still be joined ends the program, which
  is \<open>None\<close>.
\<close>

definition vi_isp_destroy :: "'m video_state_scheme \<Rightarrow> 'm video_state_scheme option" where
  "vi_isp_destroy d = (if dv_isp_thread d then None else Some (d\<lparr>dv_vi_started := False\<rparr>))"

section \<open>What starting acquires\<close>

text \<open>The resources of a capture, and those that come and go with the device file of the receiver.\<close>

definition vi_pipe_resources :: "vi \<Rightarrow> int \<Rightarrow> resource list" where
  "vi_pipe_resources v p =
     (if p = 0 then [Vi_Chn p vi_vi_chn] else []) @ [Vi_Pipe_Run p, Vi_Pipe p, Vi_Bound (vi_dev v) p]"

definition vi_resources :: "vi \<Rightarrow> resource set" where
  "vi_resources v =
     {vi_link v, Vpss_Chn vi_vpss_grp vi_vpss_chn, Vpss_Grp_Run vi_vpss_grp, Vpss_Grp vi_vpss_grp, Vi_Dev (vi_dev v),
      Isp (hd (vi_pipes v)), Awb_Lib (hd (vi_pipes v)), Ae_Lib (hd (vi_pipes v)), Sensor (hd (vi_pipes v))} \<union>
     (\<Union>p\<in>set (vi_pipes v). set (vi_pipe_resources v p))"

definition mipi_resources :: "vi \<Rightarrow> resource set" where
  "mipi_resources v = {Mipi_Clock (vi_mipi_dev v), Dev_File MIPI_DEV_NAME}"

lemmas vi_resource_defs = vi_resources_def vi_pipe_resources_def mipi_resources_def

lemma with_mipi_on:
  "Dev_File MIPI_DEV_NAME \<in> S \<Longrightarrow> touched cs \<subseteq> S \<Longrightarrow> calls_on S d (snd (with_mipi k cs d))"
  unfolding with_mipi_def by (intro calls_on_try calls_on_ask) (auto simp del: sdk_tells_append intro!: calls_on_tells)

text \<open>The device file is closed again.\<close>

lemma with_mipi_closed:
  "Acquire (Dev_File MIPI_DEV_NAME) \<notin> set cs \<Longrightarrow> \<not> holds d (Dev_File MIPI_DEV_NAME) \<Longrightarrow>
     \<not> holds (snd (with_mipi k cs d)) (Dev_File MIPI_DEV_NAME)"
  by (simp add: with_mipi_def sdk_tells_unheld sdk_tells_released)

lemma start_pipes_on:
  "(\<Union>p\<in>set ps. set (vi_pipe_resources v p)) \<subseteq> S \<Longrightarrow> calls_on S d (snd (start_pipes k v ps d))"
proof (induction ps arbitrary: d)
  case (Cons p ps)
  have "calls_on S x (snd (start_pipe k v p x))" for x
    unfolding start_pipe_def
    using Cons.prems
    by (intro calls_on_try calls_on_ask)
      (auto simp: vi_pipe_resources_def simp del: sdk_sequence.simps
        intro!: calls_on_sequence calls_on_trans [OF calls_on_tell calls_on_ask] calls_on_ask split: if_splits)
  then show ?case using Cons by (auto simp del: try_simps intro!: calls_on_try)
qed simp

lemma start_capture_path_on:
  "calls_on (vi_resources v \<union> mipi_resources v) d (snd (start_capture_path k v d))"
  unfolding start_capture_path_def start_mipi_def reset_sns_def
  by (intro calls_on_try with_mipi_on calls_on_sequence start_pipes_on) (auto simp: vi_resource_defs)

lemma start_vpss_on: "calls_on (vi_resources v \<union> mipi_resources v) d (snd (start_vpss k v d))"
  unfolding start_vpss_def
  by (intro calls_on_try)
    (auto simp: vi_resource_defs simp del: sdk_sequence.simps
      intro!: calls_on_ask calls_on_trans [OF calls_on_tell calls_on_ask] calls_on_trans [OF calls_on_tell calls_on_sequence])

lemma video_fields:
  assumes "calls_on S d d'"
  shows "dv_isp_thread d' = dv_isp_thread d" and "dv_vi_started d' = dv_vi_started d"
    and "sy_venc d' = sy_venc d" and "sy_rgn d' = sy_rgn d"
  using assms by (auto elim!: calls_onE)

lemma holds_video_update [simp]:
  "holds (d\<lparr>dv_isp_thread := b\<rparr>) r = holds d r" "holds (d\<lparr>dv_vi_started := b\<rparr>) r = holds d r"
  by (simp_all add: holds_def)

lemma start_isp_keeps: "keeps (vi_resources v \<union> mipi_resources v) d (start_isp k v d)"
proof -
  let ?p = "hd (vi_pipes v)"
  have "calls_on (vi_resources v \<union> mipi_resources v) d (sdk_tells k
        [Acquire (Sensor ?p), Configure [''pfn_set_bus_info''] [?p, 0], Acquire (Ae_Lib ?p), Acquire (Awb_Lib ?p),
         Configure [''ss_mpi_isp_mem_init''] [?p], Configure [''ss_mpi_isp_set_pub_attr''] [?p, vi_w v, vi_h v, vi_isp_rate v],
         Acquire (Isp ?p)] d)"
    by (rule calls_on_tells) (auto simp: vi_resources_def)
  then show ?thesis unfolding start_isp_def Let_def keeps_def by (auto dest: calls_on_holds)
qed

text \<open>
  A start only acquires what belongs to the capture.  The thread of the image processing runs exactly when the
  way to the pipes was opened, whether the start succeeds or not.
\<close>

lemma vi_isp_start_keeps: "keeps (vi_resources v \<union> mipi_resources v) d (snd (vi_isp_start k v d))"
proof (cases "\<not> dv_vi_started d \<and> fst (start_capture_path k v d)")
  case True
  let ?d1 = "snd (start_capture_path k v d)"
  let ?c = "Configure [''ss_mpi_vi_set_pipe_3dnr_attr''] [hd (vi_pipes v)]"
  have "keeps (vi_resources v \<union> mipi_resources v) d ?d1"
    using start_capture_path_on by (rule calls_on_keeps)
  also have "keeps (vi_resources v \<union> mipi_resources v) ?d1 (sdk_tell k ?c (start_isp k v ?d1))"
    by (rule keeps_trans [OF start_isp_keeps calls_on_keeps [OF calls_on_tell]]) simp
  also have "keeps (vi_resources v \<union> mipi_resources v) (sdk_tell k ?c (start_isp k v ?d1))
      (snd (start_vpss k v (sdk_tell k ?c (start_isp k v ?d1))))"
    using start_vpss_on by (rule calls_on_keeps)
  finally show ?thesis using True by (simp add: vi_isp_start_def keeps_def)
next
  case False
  then show ?thesis using calls_on_keeps [OF start_capture_path_on] by (auto simp: vi_isp_start_def)
qed

lemma video_call_fields [simp]:
  "dv_isp_thread (sdk_tell k c d) = dv_isp_thread d" "dv_vi_started (sdk_tell k c d) = dv_vi_started d"
  "dv_isp_thread (sdk_tells k cs d) = dv_isp_thread d" "dv_vi_started (sdk_tells k cs d) = dv_vi_started d"
  by (rule video_fields [OF calls_on_tell [OF subset_refl]] video_fields [OF calls_on_tells [OF subset_refl]])+

lemma video_step_fields [simp]:
  "dv_isp_thread (snd (start_capture_path k v d)) = dv_isp_thread d"
  "dv_vi_started (snd (start_capture_path k v d)) = dv_vi_started d"
  "dv_isp_thread (snd (start_vpss k v d)) = dv_isp_thread d"
  "dv_vi_started (snd (start_vpss k v d)) = dv_vi_started d"
  "dv_isp_thread (start_isp k v d)" "dv_vi_started (start_isp k v d) = dv_vi_started d"
  by (rule video_fields [OF start_capture_path_on] video_fields [OF start_vpss_on] | simp add: start_isp_def Let_def)+

lemma vi_isp_start_thread:
  assumes "\<not> dv_vi_started d" and "\<not> dv_isp_thread d"
  shows "dv_isp_thread (snd (vi_isp_start k v d)) = fst (start_capture_path k v d)"
    and "dv_vi_started (snd (vi_isp_start k v d)) = fst (vi_isp_start k v d)"
  using assms by (auto simp: vi_isp_start_def)

text \<open>Stopping releases all of it.\<close>

lemma vi_isp_stop_releases:
  assumes "r \<in> vi_resources v"
  shows "\<not> holds (vi_isp_stop k v d) r"
proof -
  let ?cs = "[Release (vi_link v), Release (Vpss_Chn vi_vpss_grp vi_vpss_chn), Release (Vpss_Chn vi_vpss_grp 1),
      Release (Vpss_Grp_Run vi_vpss_grp), Release (Vpss_Grp vi_vpss_grp)] @
      concat (map (stop_pipe_calls v) (vi_pipes v)) @ [Release (Vi_Dev (vi_dev v))]"
  let ?isp = "{Isp (hd (vi_pipes v)), Awb_Lib (hd (vi_pipes v)), Ae_Lib (hd (vi_pipes v)), Sensor (hd (vi_pipes v))}"
  have none: "Acquire r \<notin> set ?cs" by (auto simp: stop_pipe_calls_def)
  show ?thesis
  proof (cases "r \<in> ?isp")
    case True
    have "\<not> holds (stop_isp k v d) r" using True by (auto simp: stop_isp_def sdk_tells_Cons Let_def)
    moreover have "calls_on (mipi_resources v) (stop_isp k v d) (snd (stop_mipi k v (stop_isp k v d)))"
      unfolding stop_mipi_def by (rule with_mipi_on) (auto simp: mipi_resources_def)
    then have "holds (snd (stop_mipi k v (stop_isp k v d))) r = holds (stop_isp k v d) r"
      by (rule calls_on_holds) (use True in \<open>auto simp: mipi_resources_def\<close>)
    ultimately show ?thesis
      unfolding vi_isp_stop_def using sdk_tells_unheld [OF none] by simp
  next
    case False
    then have "Release r \<in> set ?cs" using assms by (auto simp: vi_resource_defs stop_pipe_calls_def)
    then show ?thesis
      unfolding vi_isp_stop_def using sdk_tells_released [OF _ none] by simp
  qed
qed

lemma vi_isp_stop_keeps: "keeps (vi_resources v \<union> mipi_resources v \<union> {Vpss_Chn vi_vpss_grp 1}) d (vi_isp_stop k v d)"
proof -
  let ?S = "vi_resources v \<union> mipi_resources v \<union> {Vpss_Chn vi_vpss_grp 1}" and ?p = "hd (vi_pipes v)"
  let ?d1 = "(sdk_tell k (Release (Isp ?p)) d)\<lparr>dv_isp_thread := False\<rparr>"
  have "keeps ?S d (sdk_tell k (Release (Isp ?p)) d)"
    by (rule calls_on_keeps [OF calls_on_tell]) (simp add: vi_resources_def)
  then have "keeps ?S d ?d1" by (simp add: keeps_def)
  also have "keeps ?S ?d1 (stop_isp k v d)"
    unfolding stop_isp_def Let_def by (rule calls_on_keeps [OF calls_on_tells]) (simp add: vi_resources_def)
  also have "keeps ?S (stop_isp k v d) (snd (stop_mipi k v (stop_isp k v d)))"
    unfolding stop_mipi_def by (rule calls_on_keeps [OF with_mipi_on]) (simp_all add: mipi_resources_def)
  also have "keeps ?S (snd (stop_mipi k v (stop_isp k v d))) (vi_isp_stop k v d)"
    unfolding vi_isp_stop_def keeps_def holds_video_update
    by (auto simp del: touched_concat intro!: calls_on_holds [OF calls_on_tells])
      (auto simp: vi_resource_defs stop_pipe_calls_def split: if_splits)
  finally show ?thesis .
qed

text \<open>A capture that has ended or never began can be destroyed, one whose thread runs cannot.\<close>

lemma vi_isp_stop_thread [simp]: "\<not> dv_isp_thread (vi_isp_stop k v d)" "\<not> dv_vi_started (vi_isp_stop k v d)"
proof -
  have "dv_isp_thread (snd (stop_mipi k v e)) = dv_isp_thread e" for e :: "'a video_state_scheme"
    unfolding stop_mipi_def by (rule video_fields(1) [OF with_mipi_on [of UNIV]]) simp_all
  then show "\<not> dv_isp_thread (vi_isp_stop k v d)" "\<not> dv_vi_started (vi_isp_stop k v d)"
    by (simp_all add: vi_isp_stop_def stop_isp_def Let_def)
qed

text \<open>Only the trace and the two flags change.\<close>

definition video_only :: "'m video_state_scheme \<Rightarrow> 'm video_state_scheme \<Rightarrow> bool" where
  "video_only d d' \<longleftrightarrow> (\<exists>t a b. d' = d\<lparr>sd_trace := t, dv_vi_started := a, dv_isp_thread := b\<rparr>)"

lemma video_only_calls: "calls_on S d d' \<Longrightarrow> video_only d d'"
proof (erule calls_onE)
  fix t assume "d' = d\<lparr>sd_trace := t\<rparr>"
  then have "d' = d\<lparr>sd_trace := t, dv_vi_started := dv_vi_started d, dv_isp_thread := dv_isp_thread d\<rparr>" by simp
  then show "video_only d d'" unfolding video_only_def by blast
qed

lemma video_only_trans [trans]:
  assumes "video_only a b" and "video_only b c"
  shows "video_only a c"
proof -
  obtain t p q u r s where "b = a\<lparr>sd_trace := t, dv_vi_started := p, dv_isp_thread := q\<rparr>"
      "c = b\<lparr>sd_trace := u, dv_vi_started := r, dv_isp_thread := s\<rparr>"
    using assms by (auto simp: video_only_def)
  then have "c = a\<lparr>sd_trace := u, dv_vi_started := r, dv_isp_thread := s\<rparr>" by simp
  then show ?thesis unfolding video_only_def by blast
qed

lemma video_only_flag: "video_only d (d\<lparr>dv_vi_started := b\<rparr>)" "video_only d (d\<lparr>dv_isp_thread := b\<rparr>)"
proof -
  have "d\<lparr>dv_vi_started := b\<rparr> = d\<lparr>sd_trace := sd_trace d, dv_vi_started := b, dv_isp_thread := dv_isp_thread d\<rparr>"
    "d\<lparr>dv_isp_thread := b\<rparr> = d\<lparr>sd_trace := sd_trace d, dv_vi_started := dv_vi_started d, dv_isp_thread := b\<rparr>" by simp_all
  then show "video_only d (d\<lparr>dv_vi_started := b\<rparr>)" "video_only d (d\<lparr>dv_isp_thread := b\<rparr>)"
    unfolding video_only_def by blast+
qed

lemmas video_only_tells = video_only_calls [OF calls_on_tells [OF subset_refl]]
  video_only_calls [OF calls_on_tell [OF subset_refl]]

lemma start_isp_only: "video_only d (start_isp k v d)"
  unfolding start_isp_def Let_def by (rule video_only_trans [OF video_only_tells(1) video_only_flag(2)])

lemma vi_isp_start_only: "video_only d (snd (vi_isp_start k v d))"
proof -
  let ?d1 = "snd (start_capture_path k v d)"
  let ?c = "Configure [''ss_mpi_vi_set_pipe_3dnr_attr''] [hd (vi_pipes v)]"
  have 1: "video_only d ?d1" by (rule video_only_calls [OF start_capture_path_on])
  have 2: "video_only ?d1 (sdk_tell k ?c (start_isp k v ?d1))"
    by (rule video_only_trans [OF start_isp_only video_only_tells(2)])
  have 3: "video_only (sdk_tell k ?c (start_isp k v ?d1)) (snd (start_vpss k v (sdk_tell k ?c (start_isp k v ?d1))))"
    by (rule video_only_calls [OF start_vpss_on])
  show ?thesis
    using 1 video_only_trans [OF video_only_trans [OF 1 2] 3] video_only_flag(1)
      video_only_trans [OF video_only_trans [OF video_only_trans [OF 1 2] 3] video_only_flag(1)]
      video_only_calls [OF calls_on_refl]
    by (auto simp: vi_isp_start_def)
qed

lemma vi_isp_stop_only: "video_only d (vi_isp_stop k v d)"
proof -
  let ?p = "hd (vi_pipes v)"
  have "video_only d (sdk_tell k (Release (Isp ?p)) d)" by (rule video_only_tells)
  also have "video_only (sdk_tell k (Release (Isp ?p)) d) ((sdk_tell k (Release (Isp ?p)) d)\<lparr>dv_isp_thread := False\<rparr>)"
    by (rule video_only_flag)
  also have "video_only ((sdk_tell k (Release (Isp ?p)) d)\<lparr>dv_isp_thread := False\<rparr>) (stop_isp k v d)"
    unfolding stop_isp_def Let_def by (rule video_only_tells)
  also have "video_only (stop_isp k v d) (snd (stop_mipi k v (stop_isp k v d)))"
    unfolding stop_mipi_def by (rule video_only_calls [OF with_mipi_on [of UNIV]]) simp_all
  also have "video_only (snd (stop_mipi k v (stop_isp k v d))) (vi_isp_stop k v d)"
    unfolding vi_isp_stop_def by (rule video_only_trans [OF video_only_tells(1) video_only_flag(1)])
  finally show ?thesis .
qed

text \<open>Every resource that some capture can hold; the receiver's clock and device file are apart.\<close>

definition vi_kinds :: "resource set" where
  "vi_kinds = (\<Union>v. vi_resources v) \<union> {Vpss_Chn vi_vpss_grp 1}"

lemma vi_resources_kinds: "vi_resources v \<subseteq> vi_kinds"
  by (auto simp: vi_kinds_def)

lemma vi_kinds_cases:
  assumes "r \<in> vi_kinds"
  shows "(\<exists>a b. r = Vpss_Chn a b) \<or> (\<exists>a b c e. r = Link (Port_Vi a b) (Port_Vpss c e)) \<or> (\<exists>a. r = Vpss_Grp_Run a) \<or>
    (\<exists>a. r = Vpss_Grp a) \<or> (\<exists>a. r = Vi_Dev a) \<or> (\<exists>a. r = Isp a) \<or> (\<exists>a. r = Awb_Lib a) \<or> (\<exists>a. r = Ae_Lib a) \<or>
    (\<exists>a. r = Sensor a) \<or> (\<exists>a b. r = Vi_Chn a b) \<or> (\<exists>a. r = Vi_Pipe_Run a) \<or> (\<exists>a. r = Vi_Pipe a) \<or> (\<exists>a b. r = Vi_Bound a b)"
  using assms by (auto simp: vi_kinds_def vi_resource_defs vi_link_def split: if_splits)

end
