(* ===== verification/Dev_Osd.thy ===== *)
theory Dev_Osd
  imports Dev_Video_Input
begin

text \<open>
  The clock that is drawn over the pictures (src/devices/hisi\_3516cv610/dev\_osd.cpp, classes \<^verbatim>\<open>osd\<close> and
  \<^verbatim>\<open>osd_date\<close>), and the two places \<^verbatim>\<open>chn\<close> has for it.  The size of the overlay and what the thread draws are
  left out.  The lemmas show that no region is left behind, whichever call fails.
\<close>

datatype venc_id = Main_Venc | Sub_Venc

record osd =
  od_x :: int
  od_y :: int
  od_font_size :: int
  od_venc :: int
  od_rgn :: "nat option"
  od_started :: bool

record osd_state = video_state +
  dv_osd :: "venc_id \<Rightarrow> osd option"

definition osd_init :: "sdk_answers \<Rightarrow> 'm sdk_scheme \<Rightarrow> bool \<times> 'm sdk_scheme" where
  "osd_init k d = sdk_ask k (Acquire Fonts) d"

definition osd_release :: "sdk_answers \<Rightarrow> 'm sdk_scheme \<Rightarrow> 'm sdk_scheme" where
  "osd_release k d = sdk_tell k (Release Fonts) d"

definition new_osd :: "int \<Rightarrow> int \<Rightarrow> int \<Rightarrow> int \<Rightarrow> 'm sys_state_scheme \<Rightarrow> osd \<times> 'm sys_state_scheme" where
  "new_osd x y font_size venc_h d =
     (case alloc_rgn_handle d of (h, d1) \<Rightarrow>
       (\<lparr>od_x = x, od_y = y, od_font_size = font_size, od_venc = venc_h, od_rgn = h, od_started = False\<rparr>, d1))"

definition osd_start :: "sdk_answers \<Rightarrow> osd \<Rightarrow> 'm sdk_scheme \<Rightarrow> bool \<times> osd \<times> 'm sdk_scheme" where
  "osd_start k ov d =
     (case od_rgn ov of
        None \<Rightarrow> (False, ov, d)
      | Some h \<Rightarrow>
          if od_started ov then (False, ov, d)
          else
            let r = and_try (sdk_ask k (Acquire (Region (int h))) d)
                  (\<lambda>d1. or_undo (sdk_ask k (Acquire (Region_On (int h) (od_venc ov))) d1)
                          (sdk_tell k (Release (Region (int h)))))
            in (fst r, if fst r then ov\<lparr>od_started := True\<rparr> else ov, snd r))"

text \<open>\<^verbatim>\<open>osd_date::stop\<close>, and the destructor, which only gives a handle back that was never started.\<close>

definition osd_date_stop :: "sdk_answers \<Rightarrow> osd \<Rightarrow> 'm sys_state_scheme \<Rightarrow> osd \<times> 'm sys_state_scheme" where
  "osd_date_stop k ov d =
     (case od_rgn ov of
        Some h \<Rightarrow>
          if \<not> od_started ov then (ov, d)
          else (ov\<lparr>od_started := False, od_rgn := None\<rparr>,
                free_rgn_handle (Some h)
                  (sdk_tells k [Release (Region_On (int h) (od_venc ov)), Release (Region (int h))] d))
      | None \<Rightarrow> (ov\<lparr>od_started := False\<rparr>, d))"

definition osd_destroy :: "osd \<Rightarrow> 'm sys_state_scheme \<Rightarrow> 'm sys_state_scheme" where
  "osd_destroy ov d = (if \<not> od_started ov then free_rgn_handle (od_rgn ov) d else d)"

text \<open>The two steps of \<^verbatim>\<open>chn\<close>: filling a place, and emptying it.\<close>

definition start_time_osd ::
  "sdk_answers \<Rightarrow> venc_id \<Rightarrow> time_osd_config \<Rightarrow> int \<Rightarrow> 'm osd_state_scheme \<Rightarrow> bool \<times> 'm osd_state_scheme" where
  "start_time_osd k i opt venc_chn d =
     (if \<not> to_enable opt then (True, d)
      else
        case new_osd (to_x opt) (to_y opt) (to_font_size opt) venc_chn d of (ov, d1) \<Rightarrow>
        (case osd_start k ov d1 of (ok, ov1, d2) \<Rightarrow>
          if ok then (True, d2\<lparr>dv_osd := (dv_osd d2)(i := Some ov1)\<rparr>)
          else (False, (osd_destroy ov1 d2)\<lparr>dv_osd := (dv_osd d2)(i := None)\<rparr>)))"

definition stop_time_osd :: "sdk_answers \<Rightarrow> venc_id \<Rightarrow> 'm osd_state_scheme \<Rightarrow> 'm osd_state_scheme" where
  "stop_time_osd k i d =
     (case dv_osd d i of
        None \<Rightarrow> d
      | Some ov \<Rightarrow>
          (case osd_date_stop k ov d of (ov1, d1) \<Rightarrow> (osd_destroy ov1 d1)\<lparr>dv_osd := (dv_osd d1)(i := None)\<rparr>))"

section \<open>No region is left behind\<close>

definition osd_kinds :: "resource set" where
  "osd_kinds = {Region h |h. True} \<union> {Region_On h c |h c. True}"

definition osd_accounts :: "(venc_id \<Rightarrow> osd option) \<Rightarrow> resource \<Rightarrow> bool" where
  "osd_accounts slots r \<longleftrightarrow>
     (\<exists>i ov h. slots i = Some ov \<and> od_rgn ov = Some h \<and> r \<in> {Region (int h), Region_On (int h) (od_venc ov)})"

text \<open>The clocks that are there run, and every region that is held belongs to one of them.\<close>

definition osd_inv :: "'m osd_state_scheme \<Rightarrow> bool" where
  "osd_inv d \<longleftrightarrow>
     (\<forall>i ov. dv_osd d i = Some ov \<longrightarrow> od_started ov \<and> od_rgn ov \<noteq> None) \<and>
     (\<forall>r\<in>osd_kinds. holds d r \<longrightarrow> osd_accounts (dv_osd d) r)"

lemma osd_kinds_simps [simp]: "Region h \<in> osd_kinds" "Region_On h c \<in> osd_kinds"
  by (simp_all add: osd_kinds_def)

lemma holds_osd_update [simp]: "holds (d\<lparr>dv_osd := s\<rparr>) r = holds d r"
  by (simp add: holds_def)

lemma holds_handles [simp]:
  "holds (free_rgn_handle h d) r = holds d r" "holds (snd (alloc_rgn_handle d)) r = holds d r"
  by (auto simp: free_rgn_handle_def alloc_rgn_handle_def holds_def split: option.splits prod.splits)

lemma osd_fields_handles [simp]:
  "dv_osd (free_rgn_handle h d) = dv_osd d" "dv_osd (snd (alloc_rgn_handle d)) = dv_osd d"
  by (auto simp: free_rgn_handle_def alloc_rgn_handle_def split: option.splits prod.splits)

lemma osd_fields_calls:
  assumes "calls_on S d d'"
  shows "dv_osd d' = dv_osd d"
  using assms by (auto elim!: calls_onE)

lemma osd_call_fields [simp]:
  "dv_osd (snd (sdk_ask k c d)) = dv_osd d" "dv_osd (sdk_tell k c d) = dv_osd d" "dv_osd (sdk_tells k cs d) = dv_osd d"
  by (rule osd_fields_calls [OF calls_on_ask [OF subset_refl]] osd_fields_calls [OF calls_on_tell [OF subset_refl]]
      osd_fields_calls [OF calls_on_tells [OF subset_refl]])+

lemma osd_accounts_upd: "osd_accounts s r \<Longrightarrow> s i = None \<Longrightarrow> osd_accounts (s(i := x)) r"
  unfolding osd_accounts_def by (metis fun_upd_apply option.distinct(1))

lemma osd_accounts_here:
  "od_rgn ov = Some h \<Longrightarrow> r \<in> {Region (int h), Region_On (int h) (od_venc ov)} \<Longrightarrow> osd_accounts (s(i := Some ov)) r"
  unfolding osd_accounts_def by (metis fun_upd_same)

text \<open>A start that fails leaves nothing, one that succeeds the region and its place on the encoder.\<close>

lemma osd_start_holds:
  assumes "osd_start k ov d = (ok, ov', d')" and "holds d' r" and "r \<in> osd_kinds"
  shows "holds d r \<or> ok \<and> (\<exists>h. od_rgn ov = Some h \<and> r \<in> {Region (int h), Region_On (int h) (od_venc ov)})"
  using assms by (cases "od_rgn ov") (auto simp: osd_start_def Let_def split: if_splits)

lemma osd_start_frame:
  assumes "osd_start k ov d = (ok, ov', d')"
  shows "calls_on osd_kinds d d'"
    and "ov' = (if ok then ov\<lparr>od_started := True\<rparr> else ov)" and "ok \<Longrightarrow> od_rgn ov \<noteq> None"
proof -
  have on: "calls_on osd_kinds d (snd (and_try (sdk_ask k (Acquire (Region h)) d)
      (\<lambda>d1. or_undo (sdk_ask k (Acquire (Region_On h c)) d1) (sdk_tell k (Release (Region h))))))" for h c
    by (intro calls_on_try calls_on_ask calls_on_undo calls_on_tell) auto
  show "calls_on osd_kinds d d'"
    using assms on by (cases "od_rgn ov") (auto simp: osd_start_def Let_def simp del: try_simps split: if_splits)
  show "ov' = (if ok then ov\<lparr>od_started := True\<rparr> else ov)" "ok \<Longrightarrow> od_rgn ov \<noteq> None"
    using assms by (auto simp: osd_start_def Let_def split: option.splits if_splits)
qed

lemma new_osd_frame:
  assumes "new_osd x y f c d = (ov, d1)"
  shows "holds d1 r = holds d r" and "dv_osd d1 = dv_osd d" and "\<not> od_started ov" and "od_venc ov = c"
proof -
  obtain h where h: "alloc_rgn_handle d = (h, d1)" and ov: "ov = \<lparr>od_x = x, od_y = y, od_font_size = f, od_venc = c, od_rgn = h, od_started = False\<rparr>"
    using assms by (auto simp: new_osd_def split: prod.splits)
  from h show "holds d1 r = holds d r" by (metis holds_handles(2) snd_conv)
  from h show "dv_osd d1 = dv_osd d" by (metis osd_fields_handles(2) snd_conv)
  show "\<not> od_started ov" "od_venc ov = c" by (simp_all add: ov)
qed

lemma start_time_osd_inv:
  assumes "osd_inv d" and "dv_osd d i = None"
  shows "osd_inv (snd (start_time_osd k i opt c d))" and "keeps osd_kinds d (snd (start_time_osd k i opt c d))"
proof -
  obtain ov d1 where n: "new_osd (to_x opt) (to_y opt) (to_font_size opt) c d = (ov, d1)" by fastforce
  obtain ok ov' d2 where st: "osd_start k ov d1 = (ok, ov', d2)" by (metis prod_cases3)
  note new = new_osd_frame [OF n] and frame = osd_start_frame [OF st]
  have slots: "dv_osd d2 = dv_osd d" using osd_fields_calls [OF frame(1)] new(2) by simp
  have other: "holds d2 r = holds d r" if "r \<notin> osd_kinds" for r
    using calls_on_holds [OF frame(1) that] new(1) by simp
  have old: "osd_accounts ((dv_osd d)(i := s)) r" if "holds d r" "r \<in> osd_kinds" for r s
    using assms that by (auto simp: osd_inv_def intro: osd_accounts_upd)
  have acc: "osd_accounts ((dv_osd d)(i := if ok then Some ov' else None)) r" if t: "holds d2 r" "r \<in> osd_kinds" for r
  proof (cases "holds d r")
    case False
    then obtain h where "ok" "od_rgn ov = Some h" "r \<in> {Region (int h), Region_On (int h) (od_venc ov)}"
      using osd_start_holds [OF st t] new(1) by auto
    then show ?thesis using frame(2) osd_accounts_here [of ov' h r] by simp
  qed (use old t in simp)
  show "osd_inv (snd (start_time_osd k i opt c d))"
    using assms n st slots frame(2,3) acc
    by (auto simp: start_time_osd_def osd_destroy_def osd_inv_def split: if_splits)
  show "keeps osd_kinds d (snd (start_time_osd k i opt c d))"
    using n st other by (auto simp: start_time_osd_def osd_destroy_def keeps_def)
qed

lemma stop_time_osd_inv:
  assumes "osd_inv d"
  shows "osd_inv (stop_time_osd k i d)" and "keeps osd_kinds d (stop_time_osd k i d)"
    and "dv_osd (stop_time_osd k i d) = (dv_osd d)(i := None)"
proof -
  have "osd_inv (stop_time_osd k i d) \<and> keeps osd_kinds d (stop_time_osd k i d) \<and>
    dv_osd (stop_time_osd k i d) = (dv_osd d)(i := None)"
  proof (cases "dv_osd d i")
    case None
    then show ?thesis using assms by (simp add: stop_time_osd_def fun_upd_idem)
  next
    case (Some ov)
    then obtain h where h: "od_rgn ov = Some h" "od_started ov" using assms by (fastforce simp: osd_inv_def)
    let ?cs = "[Release (Region_On (int h) (od_venc ov)), Release (Region (int h))]"
    have r: "stop_time_osd k i d = (free_rgn_handle (Some h) (sdk_tells k ?cs d))\<lparr>dv_osd := (dv_osd d)(i := None)\<rparr>"
      using Some h by (simp add: stop_time_osd_def osd_date_stop_def osd_destroy_def free_rgn_handle_def)
    have "calls_on osd_kinds d (sdk_tells k ?cs d)" by (rule calls_on_tells) simp
    moreover have "osd_accounts ((dv_osd d)(i := None)) r" if "holds (sdk_tells k ?cs d) r" "r \<in> osd_kinds" for r
    proof -
      have ne: "r \<notin> {Region (int h), Region_On (int h) (od_venc ov)}"
        using that(1) sdk_tells_released [of r ?cs k d] by auto
      then have "holds d r" using that(1) calls_on_holds [OF calls_on_tells [OF subset_refl], of r ?cs k d] by auto
      then have "osd_accounts (dv_osd d) r" using assms that(2) by (auto simp: osd_inv_def)
      then show ?thesis using ne Some h(1) by (auto simp: osd_accounts_def) (metis option.inject)+
    qed
    ultimately show ?thesis
      using assms unfolding r by (auto simp: osd_inv_def keeps_def dest: calls_on_holds split: if_splits)
  qed
  then show "osd_inv (stop_time_osd k i d)" "keeps osd_kinds d (stop_time_osd k i d)"
    "dv_osd (stop_time_osd k i d) = (dv_osd d)(i := None)" by auto
qed

text \<open>When both places are empty, no region is held.\<close>

lemma no_clock_no_region: "osd_inv d \<Longrightarrow> dv_osd d = Map.empty \<Longrightarrow> r \<in> osd_kinds \<Longrightarrow> \<not> holds d r"
  by (auto simp: osd_inv_def osd_accounts_def)

text \<open>Only the trace, the region numbers and the two places change.\<close>

lemma free_rgn_shape: "\<exists>p. free_rgn_handle h d = d\<lparr>sy_rgn := p\<rparr>"
  by (rule exI [of _ "case h of None \<Rightarrow> sy_rgn d | Some i \<Rightarrow> pool_free i (sy_rgn d)"])
    (simp add: free_rgn_handle_def split: option.split)

lemma start_time_osd_shape: "\<exists>t p s. snd (start_time_osd k i opt c d) = d\<lparr>sd_trace := t, sy_rgn := p, dv_osd := s\<rparr>"
proof (cases "to_enable opt")
  case True
  obtain ov d1 where n: "new_osd (to_x opt) (to_y opt) (to_font_size opt) c d = (ov, d1)" by fastforce
  obtain ok ov' d2 where st: "osd_start k ov d1 = (ok, ov', d2)" by (metis prod_cases3)
  obtain p where d1: "d1 = d\<lparr>sy_rgn := p\<rparr>" using n by (auto simp: new_osd_def alloc_rgn_handle_def split: prod.splits)
  obtain t where d2: "d2 = d1\<lparr>sd_trace := t\<rparr>" using osd_start_frame(1) [OF st] by (rule calls_onE)
  have "osd_destroy ov' d2 = d2 \<or> osd_destroy ov' d2 = free_rgn_handle (od_rgn ov') d2" by (simp add: osd_destroy_def)
  then obtain q where q: "osd_destroy ov' d2 = d2\<lparr>sy_rgn := q\<rparr>"
    using free_rgn_shape [of "od_rgn ov'" d2] free_rgn_shape [of None d2] by (auto simp: free_rgn_handle_def)
  show ?thesis
  proof (cases ok)
    case True
    then have "snd (start_time_osd k i opt c d) = d\<lparr>sd_trace := t, sy_rgn := p, dv_osd := (dv_osd d2)(i := Some ov')\<rparr>"
      using \<open>to_enable opt\<close> n st by (simp add: start_time_osd_def d2 d1)
    then show ?thesis by blast
  next
    case False
    then have "snd (start_time_osd k i opt c d) = d\<lparr>sd_trace := t, sy_rgn := q, dv_osd := (dv_osd d2)(i := None)\<rparr>"
      using \<open>to_enable opt\<close> n st q by (simp add: start_time_osd_def) (simp add: d2 d1)
    then show ?thesis by blast
  qed
next
  case False
  then show ?thesis
    by (intro exI [of _ "sd_trace d"] exI [of _ "sy_rgn d"] exI [of _ "dv_osd d"]) (simp add: start_time_osd_def)
qed

lemma stop_time_osd_shape:
  assumes "osd_inv d"
  shows "\<exists>t p s. stop_time_osd k i d = d\<lparr>sd_trace := t, sy_rgn := p, dv_osd := s\<rparr>"
proof (cases "dv_osd d i")
  case None
  then show ?thesis
    by (intro exI [of _ "sd_trace d"] exI [of _ "sy_rgn d"] exI [of _ "dv_osd d"]) (simp add: stop_time_osd_def)
next
  case (Some ov)
  then obtain h where h: "od_rgn ov = Some h" "od_started ov" using assms by (fastforce simp: osd_inv_def)
  let ?cs = "[Release (Region_On (int h) (od_venc ov)), Release (Region (int h))]"
  have r: "stop_time_osd k i d = (free_rgn_handle (Some h) (sdk_tells k ?cs d))\<lparr>dv_osd := (dv_osd d)(i := None)\<rparr>"
    using Some h by (simp add: stop_time_osd_def osd_date_stop_def osd_destroy_def free_rgn_handle_def)
  obtain t where t: "sdk_tells k ?cs d = d\<lparr>sd_trace := t\<rparr>" using calls_on_tells [OF subset_refl] by (rule calls_onE)
  obtain p where "free_rgn_handle (Some h) (d\<lparr>sd_trace := t\<rparr>) = (d\<lparr>sd_trace := t\<rparr>)\<lparr>sy_rgn := p\<rparr>"
    using free_rgn_shape by blast
  then have "stop_time_osd k i d = d\<lparr>sd_trace := t, sy_rgn := p, dv_osd := (dv_osd d)(i := None)\<rparr>"
    unfolding r t by simp
  then show ?thesis by blast
qed

text \<open>The invariant of the clocks only looks at them.\<close>

lemma osd_inv_frame:
  assumes "osd_inv d" and "\<And>r. r \<in> osd_kinds \<Longrightarrow> holds d' r = holds d r" and "dv_osd d' = dv_osd d"
  shows "osd_inv d'"
  using assms by (simp add: osd_inv_def)

lemma osd_kinds_cases: "r \<in> osd_kinds \<Longrightarrow> (\<exists>h. r = Region h) \<or> (\<exists>h c. r = Region_On h c)"
  by (auto simp: osd_kinds_def)

end
