(* ===== verification/Dev_Audio.thy ===== *)
theory Dev_Audio
  imports Dev_Osd
begin

unbundle bit_operations_syntax

text \<open>
  Sound (src/devices/hisi\_3516cv610/dev\_aenc.cpp and dev\_aplay.cpp): the encoder of the microphone, the
  loudspeaker that is opened by the first frame with a sound in it, and the decoding of mu-law.  The lemmas
  show that both leave nothing behind, what a frame becomes, when the loudspeaker is switched off, and which
  frames the test for silence gets wrong.
\<close>

section \<open>Encoder\<close>

record aenc =
  ae_g711u :: bool
  ae_is_mic :: bool

text \<open>The state: the encoder, the loudspeaker and its silent frames.\<close>

record audio_state = osd_state +
  dv_aenc :: "aenc option"
  dv_aplay_started :: bool
  dv_silence_frames :: nat

definition ACODEC_FILE :: string where "ACODEC_FILE = ''/dev/acodec''"

definition aenc_link :: resource where "aenc_link = Link (Port_Ai 0 0) (Port_Aenc 0 0)"

definition aenc_codec_calls :: "aenc \<Rightarrow> sdk_call list" where
  "aenc_codec_calls a =
     [Configure [''OT_ACODEC_SOFT_RESET_CTRL''] [],
      Configure [''OT_ACODEC_SET_I2S1_FS'', if ae_g711u a then ''OT_ACODEC_FS_8000'' else ''OT_ACODEC_FS_44100''] [],
      Configure [''OT_ACODEC_SET_MIXER_MIC'', ''OT_ACODEC_MIXER_IN_D''] []] @
     (if ae_is_mic a then [Configure [''OT_ACODEC_SET_INPUT_VOLUME''] [30]] else []) @
     [Acquire (Aenc_Chn 0), Acquire aenc_link]"

text \<open>The device file is closed at the end of the start and on the way to its error exit.\<close>

definition aenc_open :: "sdk_answers \<Rightarrow> aenc \<Rightarrow> 'm sdk_scheme \<Rightarrow> bool \<times> 'm sdk_scheme" where
  "aenc_open k a d =
     and_try (sdk_sequence k [Acquire (Ai_Chn 0 0), Acquire (Dev_File ACODEC_FILE)] d)
       (\<lambda>d1. let r = sdk_sequence k (aenc_codec_calls a) d1 in (fst r, sdk_tell k (Release (Dev_File ACODEC_FILE)) (snd r)))"

definition aenc_start :: "sdk_answers \<Rightarrow> aenc \<Rightarrow> 'm sdk_scheme \<Rightarrow> bool \<times> 'm sdk_scheme" where
  "aenc_start k a d =
     and_try
       (sdk_sequence k
         [Configure [''ss_mpi_ai_set_pub_attr''] [0, if ae_g711u a then 8000 else 44100], Acquire (Ai_Dev 0)] d)
       (\<lambda>d1. or_undo (aenc_open k a d1)
               (sdk_tells k [Release (Aenc_Chn 0), Release (Ai_Chn 0 0), Release (Ai_Dev 0)]))"

definition aenc_stop :: "sdk_answers \<Rightarrow> 'm sdk_scheme \<Rightarrow> 'm sdk_scheme" where
  "aenc_stop k d =
     sdk_tells k [Release aenc_link, Release (Aenc_Chn 0), Release (Ai_Chn 0 0), Release (Ai_Dev 0)] d"

definition aenc_get_instance :: "string \<Rightarrow> bool \<Rightarrow> aenc option" where
  "aenc_get_instance name is_mic =
     (if name = ''G711U'' then Some \<lparr>ae_g711u = True, ae_is_mic = is_mic\<rparr>
      else if name = ''AAC'' then Some \<lparr>ae_g711u = False, ae_is_mic = is_mic\<rparr> else None)"

section \<open>mu-law\<close>

definition kMulawSilence :: u8 where "kMulawSilence = 0xFF"
definition kSilenceFramesToStop :: nat where "kSilenceFramesToStop = 50"

text \<open>A byte that counts as quiet; the difference is taken in \<^verbatim>\<open>int\<close>, where it is not negative.\<close>

definition quiet_byte :: "u8 \<Rightarrow> bool" where
  "quiet_byte b \<longleftrightarrow> uint kMulawSilence - uint b \<le> 2 \<or> b \<le> 2"

definition is_mulaw_silence_frame :: "u8 list option \<Rightarrow> bool" where
  "is_mulaw_silence_frame data =
     (case data of
        None \<Rightarrow> True
      | Some bs \<Rightarrow> bs = [] \<or> length (filter quiet_byte bs) * 10 \<ge> length bs * 9)"

definition mulaw_to_linear :: "u8 \<Rightarrow> 16 word" where
  "mulaw_to_linear b =
     (let m = NOT b; sign = m AND 0x80; exponent = unat (drop_bit 4 m AND 0x07); mantissa = uint (m AND 0x0f);
          sample = (mantissa * 2 ^ 3 + 0x84) * 2 ^ exponent - 0x84
      in word_of_int (if sign \<noteq> 0 then - sample else sample))"

section \<open>Loudspeaker\<close>

definition configure_acodec_output :: "sdk_answers \<Rightarrow> 'm sdk_scheme \<Rightarrow> bool \<times> 'm sdk_scheme" where
  "configure_acodec_output k d =
     and_try (sdk_ask k (Acquire (Dev_File ACODEC_FILE)) d)
       (\<lambda>d1. (True, sdk_tells k
          [Configure [''OT_ACODEC_SET_PD_DACL''] [0], Configure [''OT_ACODEC_SET_PD_DACR''] [0],
           Configure [''OT_ACODEC_SET_DACL_MUTE''] [0], Configure [''OT_ACODEC_SET_DACR_MUTE''] [0],
           Configure [''OT_ACODEC_DAC_SOFT_UNMUTE''] [1], Configure [''OT_ACODEC_SET_DACL_VOLUME''] [0x5a, 0],
           Configure [''OT_ACODEC_SET_DACR_VOLUME''] [0x5a, 0], Configure [''OT_ACODEC_SET_OUTPUT_VOLUME''] [40],
           Release (Dev_File ACODEC_FILE)] d1))"

definition aplay_open :: "sdk_answers \<Rightarrow> 'm sdk_scheme \<Rightarrow> bool \<times> 'm sdk_scheme" where
  "aplay_open k d =
     and_try (and_try (and_try
       (sdk_sequence k [Configure [''ss_mpi_ao_set_pub_attr''] [0, 8000], Acquire (Ao_Dev 0)] d)
       (\<lambda>d1. or_undo (sdk_ask k (Acquire (Ao_Chn 0 0)) d1) (sdk_tell k (Release (Ao_Dev 0)))))
       (\<lambda>d1. or_undo (sdk_ask k (Acquire (Ao_Sys_Chn 0)) d1)
               (sdk_tells k [Release (Ao_Chn 0 0), Release (Ao_Dev 0)])))
       (\<lambda>d1. or_undo (configure_acodec_output k d1)
               (sdk_tells k [Release (Ao_Sys_Chn 0), Release (Ao_Chn 0 0), Release (Ao_Dev 0)]))"

definition aplay_start :: "sdk_answers \<Rightarrow> 'm audio_state_scheme \<Rightarrow> bool \<times> 'm audio_state_scheme" where
  "aplay_start k d =
     (if dv_aplay_started d then (True, d)
      else
        and_try (aplay_open k d)
          (\<lambda>d1. (True, (sdk_tells k [Configure [''ss_mpi_ao_set_volume''] [0, 6], Configure [''ss_mpi_ao_set_mute''] [0, 0]] d1)
                   \<lparr>dv_silence_frames := 0, dv_aplay_started := True\<rparr>)))"

definition aplay_stop :: "sdk_answers \<Rightarrow> 'm audio_state_scheme \<Rightarrow> 'm audio_state_scheme" where
  "aplay_stop k d =
     (if \<not> dv_aplay_started d then d
      else (sdk_tells k [Release (Ao_Sys_Chn 0), Release (Ao_Chn 0 0), Release (Ao_Dev 0)] d)
             \<lparr>dv_silence_frames := 0, dv_aplay_started := False\<rparr>)"

definition send_pcm_locked :: "sdk_answers \<Rightarrow> 16 word list \<Rightarrow> 'm sdk_scheme \<Rightarrow> bool \<times> 'm sdk_scheme" where
  "send_pcm_locked k pcm d = sdk_ask k (Configure [''ss_mpi_ao_send_frame''] (map sint pcm)) d"

text \<open>The counter of silent frames, and what follows from it: to open, to close, or to go on.\<close>

definition note_silence :: "bool \<Rightarrow> 'm audio_state_scheme \<Rightarrow> 'm audio_state_scheme" where
  "note_silence silence d =
     (if \<not> dv_aplay_started d then d
      else d\<lparr>dv_silence_frames := (if silence then Suc (dv_silence_frames d) else 0)\<rparr>)"

definition send_g711u :: "sdk_answers \<Rightarrow> u8 list option \<Rightarrow> 'm audio_state_scheme \<Rightarrow> bool \<times> 'm audio_state_scheme" where
  "send_g711u k data d =
     (case data of
        None \<Rightarrow> (False, d)
      | Some bs \<Rightarrow>
          if bs = [] \<or> length bs > 960 then (False, d)
          else
            let silence = is_mulaw_silence_frame data; d1 = note_silence silence d in
            if \<not> dv_aplay_started d \<and> silence then (True, d)
            else if dv_aplay_started d \<and> silence \<and> dv_silence_frames d1 \<ge> kSilenceFramesToStop then (True, aplay_stop k d1)
            else
              and_try (if dv_aplay_started d then (True, d1) else aplay_start k d1)
                (\<lambda>d2. if \<not> dv_aplay_started d2 then (False, d2)
                      else send_pcm_locked k (map mulaw_to_linear bs) d2))"

section \<open>What mu-law bytes mean\<close>

text \<open>The magnitude of the code \<open>c\<close>, the lower seven bits of the inverted byte.\<close>

definition mulaw_magnitude :: "nat \<Rightarrow> int" where
  "mulaw_magnitude c = (int (c mod 16) * 8 + 132) * 2 ^ (c div 16) - 132"

lemma mulaw_magnitude_step: "list_all (\<lambda>c. mulaw_magnitude c < mulaw_magnitude (Suc c)) [0..<127]"
  by code_simp

lemma mulaw_magnitude_less: "a < b \<Longrightarrow> b < 128 \<Longrightarrow> mulaw_magnitude a < mulaw_magnitude b"
proof (induction b)
  case (Suc b)
  have "mulaw_magnitude b < mulaw_magnitude (Suc b)"
    using mulaw_magnitude_step Suc.prems(2) by (simp add: list_all_iff)
  then show ?case using Suc by (cases "a = b") auto
qed simp

lemma mulaw_magnitude_ends: "mulaw_magnitude 0 = 0" "mulaw_magnitude 127 = 32124"
  by (simp_all add: mulaw_magnitude_def)

lemma mulaw_magnitude_bounds: "c < 128 \<Longrightarrow> 0 \<le> mulaw_magnitude c \<and> mulaw_magnitude c \<le> 32124"
  using mulaw_magnitude_less [of 0 c] mulaw_magnitude_less [of c 127] mulaw_magnitude_ends
  by (cases "c = 0"; cases "c = 127") auto

definition mulaw_code :: "u8 \<Rightarrow> nat" where
  "mulaw_code b = 127 - unat b mod 128"

lemma unat_byte_less [simp]: "unat (b :: u8) < 256"
  using unsigned_less [of b] by simp

lemma unat_not_byte: "unat (NOT (b :: u8)) = 255 - unat b"
proof -
  have "NOT b = - 1 - b" by (simp add: not_eq_complement)
  moreover have "unat (- 1 :: u8) = 255" by (simp add: unsigned_minus_1_eq_mask mask_eq_exp_minus_1)
  ultimately show ?thesis by (metis unat_sub word_order.extremum)
qed

lemma sint_of_small: "- 32768 \<le> x \<Longrightarrow> x < 32768 \<Longrightarrow> sint (word_of_int x :: 16 word) = x"
  by (simp add: signed_of_int signed_take_bit_int_eq_self_iff)

lemma byte_masks: "(0x07 :: u8) = mask 3" "(0x0f :: u8) = mask 4" "(0x80 :: u8) = push_bit 7 1"
  by (simp_all add: mask_eq_exp_minus_1)

lemma sign_bit: "(m AND 0x80 = 0) \<longleftrightarrow> unat (m :: u8) < 128"
proof -
  have "(m AND 0x80 = 0) \<longleftrightarrow> \<not> bit m 7"
    unfolding byte_masks bit_iff_and_push_bit_not_eq_0 by simp
  also have "bit m 7 \<longleftrightarrow> bit (unat m) 7" by (simp add: bit_unsigned_iff)
  also have "\<dots> \<longleftrightarrow> odd (unat m div 128)" by (simp add: bit_iff_odd)
  also have "unat m div 128 = (if unat m < 128 then 0 else 1)"
    using unat_byte_less [of m] by (simp add: div_nat_eqI)
  finally show ?thesis by auto
qed

lemma complement_mod:
  assumes "x < (256 :: nat)"
  shows "(255 - x) mod 128 = 127 - x mod 128"
proof (cases "x < 128")
  case True
  then have "255 - x = (127 - x) + 128" by simp
  then show ?thesis using True by (simp only: mod_add_self2) simp
next
  case False
  then show ?thesis using assms by (simp add: le_mod_geq)
qed

lemma mulaw_value: "sint (mulaw_to_linear b) =
    (if unat b < 128 then - mulaw_magnitude (mulaw_code b) else mulaw_magnitude (mulaw_code b))"
proof -
  define u where "u = 255 - unat b"
  have u: "unat (NOT b) = u" "u < 256" using unat_byte_less [of b] by (simp_all add: unat_not_byte u_def)
  have code: "mulaw_code b = u mod 128"
    using complement_mod [OF unat_byte_less] by (simp add: mulaw_code_def u_def)
  have "unat (drop_bit 4 (NOT b) AND 0x07) = u div 16 mod 8"
    by (simp add: byte_masks unat_and_mask unat_drop_bit u(1))
  also have "\<dots> = mulaw_code b div 16" unfolding code using mod_mult2_eq [of u 16 8] by simp
  finally have e: "unat (drop_bit 4 (NOT b) AND 0x07) = mulaw_code b div 16" .
  have "uint (NOT b AND 0x0f) = int (u mod 16)"
    unfolding byte_masks uint_nat unat_and_mask u(1) by simp
  also have "\<dots> = int (mulaw_code b mod 16)" unfolding code by (simp add: mod_mod_cancel)
  finally have m: "uint (NOT b AND 0x0f) = int (mulaw_code b mod 16)" .
  have s: "NOT b AND 0x80 = 0 \<longleftrightarrow> \<not> unat b < 128"
    using u unat_byte_less [of b] unfolding sign_bit by (simp add: u_def) linarith
  have v: "mulaw_to_linear b =
      word_of_int (if unat b < 128 then - mulaw_magnitude (mulaw_code b) else mulaw_magnitude (mulaw_code b))"
    unfolding mulaw_to_linear_def Let_def e m s mulaw_magnitude_def by simp
  have "mulaw_code b < 128" by (simp add: mulaw_code_def)
  then show ?thesis
    unfolding v using mulaw_magnitude_bounds [of "mulaw_code b"] by (intro sint_of_small) auto
qed

section \<open>Nothing is left behind\<close>

definition audio_kinds :: "resource set" where
  "audio_kinds =
     {aenc_link, Aenc_Chn 0, Ai_Chn 0 0, Ai_Dev 0, Ao_Sys_Chn 0, Ao_Chn 0 0, Ao_Dev 0, Dev_File ACODEC_FILE}"

definition aenc_kinds :: "resource set" where
  "aenc_kinds = {aenc_link, Aenc_Chn 0, Ai_Chn 0 0, Ai_Dev 0}"

definition aplay_kinds :: "resource set" where
  "aplay_kinds = {Ao_Sys_Chn 0, Ao_Chn 0 0, Ao_Dev 0}"

lemmas audio_kind_defs = audio_kinds_def aenc_kinds_def aplay_kinds_def aenc_link_def

text \<open>What is held is accounted for by the flags; the device file of the codec is never left open.\<close>

definition audio_inv :: "'m audio_state_scheme \<Rightarrow> bool" where
  "audio_inv d \<longleftrightarrow>
     (\<forall>r\<in>aenc_kinds. holds d r \<longrightarrow> dv_aenc d \<noteq> None) \<and> (\<forall>r\<in>aplay_kinds. holds d r \<longrightarrow> dv_aplay_started d) \<and>
     \<not> holds d (Dev_File ACODEC_FILE)"

lemma aenc_open_on: "calls_on (aenc_kinds \<union> {Dev_File ACODEC_FILE}) d (snd (aenc_open k a d))"
proof -
  have "calls_on (aenc_kinds \<union> {Dev_File ACODEC_FILE}) x
      (sdk_tell k (Release (Dev_File ACODEC_FILE)) (snd (sdk_sequence k (aenc_codec_calls a) x)))" for x :: "'a sdk_scheme"
    by (rule calls_on_trans [OF calls_on_sequence calls_on_tell]) (auto simp: aenc_codec_calls_def audio_kind_defs)
  then show ?thesis
    unfolding aenc_open_def Let_def by (intro calls_on_try calls_on_sequence) (auto simp: audio_kind_defs)
qed

lemma aenc_start_on: "calls_on (aenc_kinds \<union> {Dev_File ACODEC_FILE}) d (snd (aenc_start k a d))"
  unfolding aenc_start_def
  by (intro calls_on_try calls_on_undo calls_on_sequence aenc_open_on calls_on_tells) (auto simp: audio_kind_defs)

text \<open>An encoder that does not start gives back what it took, whichever call fails.\<close>

lemma aenc_open_file:
  "\<not> holds d (Dev_File ACODEC_FILE) \<Longrightarrow> \<not> holds (snd (aenc_open k a d)) (Dev_File ACODEC_FILE)"
  by (auto simp: aenc_open_def Let_def)

lemma aenc_open_link:
  assumes "\<not> holds d aenc_link" and "\<not> fst (aenc_open k a d)"
  shows "\<not> holds (snd (aenc_open k a d)) aenc_link"
proof -
  let ?cs = "butlast (aenc_codec_calls a)" and ?r1 = "sdk_sequence k [Acquire (Ai_Chn 0 0), Acquire (Dev_File ACODEC_FILE)] d"
  have seq: "aenc_codec_calls a = ?cs @ [Acquire aenc_link]" by (simp add: aenc_codec_calls_def butlast_append)
  have "aenc_link \<notin> touched ?cs" by (simp add: aenc_codec_calls_def butlast_append aenc_link_def)
  moreover have "\<not> holds (snd ?r1) aenc_link" using assms(1) by (auto simp: aenc_link_def)
  ultimately show ?thesis
    using assms(2) sdk_sequence_failed [of k ?cs aenc_link "snd ?r1"]
    unfolding aenc_open_def Let_def seq [symmetric]
    by (cases "fst ?r1") (simp_all del: sdk_sequence.simps add: aenc_link_def)
qed

lemma aenc_start_failed:
  assumes "\<not> fst (aenc_start k a d)" and "r \<in> aenc_kinds" and "\<forall>r\<in>aenc_kinds. \<not> holds d r"
  shows "\<not> holds (snd (aenc_start k a d)) r"
proof -
  let ?r1 = "sdk_sequence k [Configure [''ss_mpi_ai_set_pub_attr''] [0, if ae_g711u a then 8000 else 44100], Acquire (Ai_Dev 0)] d"
  let ?cs = "[Release (Aenc_Chn 0), Release (Ai_Chn 0 0), Release (Ai_Dev 0)]"
  have none: "\<not> holds d q" if "q \<in> aenc_kinds" for q using assms(3) that by blast
  show ?thesis
  proof (cases "fst ?r1")
    case False
    have "\<not> holds (snd ?r1) r"
      using False none [OF assms(2)] by (cases "r = Ai_Dev 0") (auto split: if_splits)
    then show ?thesis using False by (simp add: aenc_start_def del: sdk_sequence.simps)
  next
    case True
    then have failed: "\<not> fst (aenc_open k a (snd ?r1))" using assms(1) by (simp add: aenc_start_def del: sdk_sequence.simps)
    have eq: "snd (aenc_start k a d) = sdk_tells k ?cs (snd (aenc_open k a (snd ?r1)))"
      using True failed by (simp add: aenc_start_def del: sdk_sequence.simps)
    show ?thesis
    proof (cases "r = aenc_link")
      case True
      have "\<not> holds (snd ?r1) aenc_link" using none [of aenc_link] by (auto simp: audio_kind_defs)
      then have "\<not> holds (snd (aenc_open k a (snd ?r1))) aenc_link" using failed by (rule aenc_open_link)
      then show ?thesis unfolding eq True by (intro sdk_tells_unheld) (auto simp: aenc_link_def)
    next
      case False
      then show ?thesis using assms(2) unfolding eq by (intro sdk_tells_released) (auto simp: aenc_kinds_def)
    qed
  qed
qed

lemma aenc_stop_none: "r \<in> aenc_kinds \<Longrightarrow> \<not> holds (aenc_stop k d) r"
  unfolding aenc_stop_def by (rule sdk_tells_released) (auto simp: aenc_kinds_def)

lemma aenc_stop_on: "calls_on aenc_kinds d (aenc_stop k d)"
  unfolding aenc_stop_def by (rule calls_on_tells) (auto simp: aenc_kinds_def)

text \<open>The same of the loudspeaker.\<close>

lemma configure_acodec_on: "calls_on {Dev_File ACODEC_FILE} d (snd (configure_acodec_output k d))"
  unfolding configure_acodec_output_def
  by (intro calls_on_try calls_on_ask) (auto intro!: calls_on_tells)

lemma configure_acodec_file:
  "\<not> holds d (Dev_File ACODEC_FILE) \<Longrightarrow> \<not> holds (snd (configure_acodec_output k d)) (Dev_File ACODEC_FILE)"
  by (simp add: configure_acodec_output_def sdk_tells_released)

lemma aplay_open_on: "calls_on (aplay_kinds \<union> {Dev_File ACODEC_FILE}) d (snd (aplay_open k d))"
  unfolding aplay_open_def
  by (intro calls_on_try calls_on_undo calls_on_sequence calls_on_ask calls_on_tell calls_on_tells
      calls_on_mono [OF configure_acodec_on]) (auto simp: audio_kind_defs)

lemma aplay_open_failed:
  assumes "\<not> fst (aplay_open k d)" and "r \<in> aplay_kinds" and "\<forall>r\<in>aplay_kinds. \<not> holds d r"
  shows "\<not> holds (snd (aplay_open k d)) r"
proof -
  define r1 where "r1 = sdk_sequence k [Configure [''ss_mpi_ao_set_pub_attr''] [0, 8000], Acquire (Ao_Dev 0)] d"
  define r2 where "r2 = and_try r1 (\<lambda>d1. or_undo (sdk_ask k (Acquire (Ao_Chn 0 0)) d1) (sdk_tell k (Release (Ao_Dev 0))))"
  define r3 where "r3 = and_try r2 (\<lambda>d1. or_undo (sdk_ask k (Acquire (Ao_Sys_Chn 0)) d1)
      (sdk_tells k [Release (Ao_Chn 0 0), Release (Ao_Dev 0)]))"
  have eq: "aplay_open k d = and_try r3 (\<lambda>d1. or_undo (configure_acodec_output k d1)
      (sdk_tells k [Release (Ao_Sys_Chn 0), Release (Ao_Chn 0 0), Release (Ao_Dev 0)]))"
    by (simp only: aplay_open_def r1_def r2_def r3_def)
  have none: "\<not> holds d q" if "q \<in> aplay_kinds" for q using assms(3) that by blast
  have n1: "\<not> holds (snd r1) q" if "q \<in> aplay_kinds" "q = Ao_Dev 0 \<longrightarrow> \<not> fst r1" for q
    using none [OF that(1)] that(2) by (auto simp: r1_def split: if_splits)
  have n2: "\<not> holds (snd r2) q" if "q \<in> aplay_kinds" "q \<in> {Ao_Dev 0, Ao_Chn 0 0} \<longrightarrow> \<not> fst r2" for q
    using n1 [of q] that by (auto simp: r2_def split: if_splits)
  have n3: "\<not> holds (snd r3) q" if "q \<in> aplay_kinds" "\<not> fst r3" for q
    using n2 [of q] that by (auto simp: r3_def aplay_kinds_def sdk_tells_Cons split: if_splits)
  show ?thesis
  proof (cases "fst r3")
    case True
    then have "snd (aplay_open k d) = sdk_tells k [Release (Ao_Sys_Chn 0), Release (Ao_Chn 0 0), Release (Ao_Dev 0)]
        (snd (configure_acodec_output k (snd r3)))"
      using assms(1) by (simp add: eq)
    then show ?thesis using assms(2) by (auto simp: aplay_kinds_def sdk_tells_released)
  next
    case False
    then show ?thesis using n3 assms(2) by (simp add: eq)
  qed
qed

lemma aplay_open_file:
  assumes "\<not> holds d (Dev_File ACODEC_FILE)"
  shows "\<not> holds (snd (aplay_open k d)) (Dev_File ACODEC_FILE)"
proof -
  define r3 where "r3 = and_try (and_try
      (sdk_sequence k [Configure [''ss_mpi_ao_set_pub_attr''] [0, 8000], Acquire (Ao_Dev 0)] d)
      (\<lambda>d1. or_undo (sdk_ask k (Acquire (Ao_Chn 0 0)) d1) (sdk_tell k (Release (Ao_Dev 0)))))
      (\<lambda>d1. or_undo (sdk_ask k (Acquire (Ao_Sys_Chn 0)) d1) (sdk_tells k [Release (Ao_Chn 0 0), Release (Ao_Dev 0)]))"
  have "calls_on aplay_kinds d (snd r3)"
    unfolding r3_def
    by (intro calls_on_try calls_on_undo calls_on_sequence calls_on_ask calls_on_tell calls_on_tells)
      (auto simp: aplay_kinds_def)
  then have "\<not> holds (snd r3) (Dev_File ACODEC_FILE)"
    using assms by (simp add: calls_on_holds aplay_kinds_def)
  then have "\<not> holds (snd (configure_acodec_output k (snd r3))) (Dev_File ACODEC_FILE)"
    by (rule configure_acodec_file)
  moreover have "aplay_open k d = and_try r3 (\<lambda>d1. or_undo (configure_acodec_output k d1)
      (sdk_tells k [Release (Ao_Sys_Chn 0), Release (Ao_Chn 0 0), Release (Ao_Dev 0)]))"
    by (simp only: aplay_open_def r3_def)
  ultimately show ?thesis
    using \<open>\<not> holds (snd r3) (Dev_File ACODEC_FILE)\<close> by (simp add: sdk_tells_Cons)
qed

lemma audio_fields:
  assumes "calls_on S d d'"
  shows "dv_aenc d' = dv_aenc d" and "dv_aplay_started d' = dv_aplay_started d"
    and "dv_silence_frames d' = dv_silence_frames d" and "dv_osd d' = dv_osd d"
    and "dv_vi_started d' = dv_vi_started d" and "dv_isp_thread d' = dv_isp_thread d"
  using assms by (auto elim!: calls_onE)

lemma holds_audio_update [simp]:
  "holds (d\<lparr>dv_aenc := a\<rparr>) r = holds d r" "holds (d\<lparr>dv_aplay_started := b\<rparr>) r = holds d r"
  "holds (d\<lparr>dv_silence_frames := n\<rparr>) r = holds d r"
  by (simp_all add: holds_def)

text \<open>The loudspeaker keeps the invariant, and only touches its own.\<close>

lemma aplay_start_inv:
  assumes "audio_inv d"
  shows "audio_inv (snd (aplay_start k d))" and "keeps audio_kinds d (snd (aplay_start k d))"
    and "dv_aenc (snd (aplay_start k d)) = dv_aenc d"
    and "fst (aplay_start k d) \<longleftrightarrow> dv_aplay_started (snd (aplay_start k d))"
proof -
  let ?o = "snd (aplay_open k d)"
  let ?cs = "[Configure [''ss_mpi_ao_set_volume''] [0, 6], Configure [''ss_mpi_ao_set_mute''] [0, 0]]"
  note f = audio_fields [OF aplay_open_on, of k d] and on = calls_on_tells [of ?cs "{}" _ k]
  have g: "holds (sdk_tells k ?cs e) r = holds e r" "dv_aenc (sdk_tells k ?cs e) = dv_aenc e" for e :: "'a audio_state_scheme" and r
    using calls_on_holds [OF on] audio_fields(1) [OF on] by simp_all
  have h: "holds ?o r = holds d r" if "r \<notin> aplay_kinds \<union> {Dev_File ACODEC_FILE}" for r
    using calls_on_holds [OF aplay_open_on that] .
  have nofile: "\<not> holds ?o (Dev_File ACODEC_FILE)"
    using aplay_open_file [of d k] assms by (simp add: audio_inv_def)
  have disjoint: "r \<in> aenc_kinds \<Longrightarrow> r \<notin> aplay_kinds \<union> {Dev_File ACODEC_FILE}" for r
    by (auto simp: audio_kind_defs)
  have enc: "\<forall>r\<in>aenc_kinds. holds ?o r \<longrightarrow> dv_aenc d \<noteq> None"
    using assms h disjoint by (auto simp: audio_inv_def)
  have failed: "\<not> fst (aplay_open k d) \<Longrightarrow> \<not> dv_aplay_started d \<Longrightarrow> \<forall>r\<in>aplay_kinds. \<not> holds ?o r"
    using aplay_open_failed [of k d] assms by (auto simp: audio_inv_def)
  show "audio_inv (snd (aplay_start k d))"
    using assms nofile enc failed f by (auto simp: aplay_start_def audio_inv_def g)
  show "keeps audio_kinds d (snd (aplay_start k d))"
    using h by (auto simp: aplay_start_def keeps_def g audio_kind_defs)
  show "dv_aenc (snd (aplay_start k d)) = dv_aenc d"
    and "fst (aplay_start k d) \<longleftrightarrow> dv_aplay_started (snd (aplay_start k d))"
    using f by (auto simp: aplay_start_def g)
qed

lemma aplay_stop_inv:
  assumes "audio_inv d"
  shows "audio_inv (aplay_stop k d)" and "keeps audio_kinds d (aplay_stop k d)"
    and "dv_aenc (aplay_stop k d) = dv_aenc d" and "\<not> dv_aplay_started (aplay_stop k d)"
proof -
  let ?cs = "[Release (Ao_Sys_Chn 0), Release (Ao_Chn 0 0), Release (Ao_Dev 0)]"
  have on: "calls_on aplay_kinds d (sdk_tells k ?cs d)" by (rule calls_on_tells) (auto simp: aplay_kinds_def)
  have none: "r \<in> aplay_kinds \<Longrightarrow> \<not> holds (sdk_tells k ?cs d) r" for r
    by (rule sdk_tells_released) (auto simp: aplay_kinds_def)
  show "audio_inv (aplay_stop k d)"
    using assms none calls_on_holds [OF on] audio_fields [OF on]
    by (auto simp: aplay_stop_def audio_inv_def aenc_kinds_def aplay_kinds_def aenc_link_def)
  show "keeps audio_kinds d (aplay_stop k d)"
    using calls_on_holds [OF on] by (auto simp: aplay_stop_def keeps_def audio_kind_defs)
  show "dv_aenc (aplay_stop k d) = dv_aenc d" "\<not> dv_aplay_started (aplay_stop k d)"
    using audio_fields [OF on] by (auto simp: aplay_stop_def)
qed

lemma note_silence_inv:
  "audio_inv (note_silence q d) = audio_inv d" "holds (note_silence q d) r = holds d r"
  "dv_aenc (note_silence q d) = dv_aenc d" "dv_aplay_started (note_silence q d) = dv_aplay_started d"
  "keeps S e (note_silence q d) = keeps S e d"
  by (simp_all add: note_silence_def audio_inv_def keeps_def)

lemma send_pcm_on: "calls_on {} d (snd (send_pcm_locked k pcm d))"
  unfolding send_pcm_locked_def by (rule calls_on_ask) simp

lemma audio_inv_cong:
  assumes "calls_on {} d d'"
  shows "audio_inv d' = audio_inv d"
  using calls_on_holds [OF assms] audio_fields [OF assms] by (simp add: audio_inv_def)

lemma send_pcm_simps [simp]:
  "audio_inv (snd (send_pcm_locked k pcm d)) = audio_inv d"
  "holds (snd (send_pcm_locked k pcm d)) r = holds d r"
  "dv_aenc (snd (send_pcm_locked k pcm d)) = dv_aenc d"
  "dv_aplay_started (snd (send_pcm_locked k pcm d)) = dv_aplay_started d"
  "dv_silence_frames (snd (send_pcm_locked k pcm d)) = dv_silence_frames d"
  by (rule audio_inv_cong [OF send_pcm_on] calls_on_holds [OF send_pcm_on] audio_fields [OF send_pcm_on] | simp)+

lemma send_g711u_inv:
  assumes "audio_inv d"
  shows "audio_inv (snd (send_g711u k data d))" and "keeps audio_kinds d (snd (send_g711u k data d))"
    and "dv_aenc (snd (send_g711u k data d)) = dv_aenc d"
proof -
  define ready where "ready q = (if dv_aplay_started d then (True, note_silence q d) else aplay_start k (note_silence q d))" for q
  have r: "audio_inv (snd (ready q))" "keeps audio_kinds d (snd (ready q))" "dv_aenc (snd (ready q)) = dv_aenc d" for q
    using aplay_start_inv [of "note_silence q d" k] assms
    by (auto simp: ready_def note_silence_inv keeps_def)
  have st: "audio_inv (aplay_stop k (note_silence q d))" "keeps audio_kinds d (aplay_stop k (note_silence q d))"
      "dv_aenc (aplay_stop k (note_silence q d)) = dv_aenc d" for q
    using aplay_stop_inv [of "note_silence q d" k] assms by (auto simp: note_silence_inv keeps_def)
  have "send_g711u k data d = (False, d) \<or> send_g711u k data d = (True, d) \<or>
      (\<exists>q. send_g711u k data d = (True, aplay_stop k (note_silence q d))) \<or>
      (\<exists>q pcm. send_g711u k data d = and_try (ready q) (\<lambda>d2. if \<not> dv_aplay_started d2 then (False, d2) else send_pcm_locked k pcm d2))"
    by (cases data) (auto simp: send_g711u_def ready_def note_silence_def Let_def)
  then show "audio_inv (snd (send_g711u k data d))" "keeps audio_kinds d (snd (send_g711u k data d))"
      "dv_aenc (snd (send_g711u k data d)) = dv_aenc d"
    using assms r st by (auto simp: keeps_def split: if_splits)
qed

lemma aplay_start_silence: "fst (aplay_start k d) \<Longrightarrow> \<not> dv_aplay_started d \<Longrightarrow> dv_silence_frames (snd (aplay_start k d)) = 0"
  by (auto simp: aplay_start_def)

lemma aplay_start_ok: "fst (aplay_start k d) \<Longrightarrow> dv_aplay_started (snd (aplay_start k d))"
  by (auto simp: aplay_start_def)

lemma mulaw_code_bounds: "0 \<le> mulaw_magnitude (mulaw_code b)" "mulaw_magnitude (mulaw_code b) \<le> 32124"
proof -
  have "mulaw_code b < 128" by (simp add: mulaw_code_def)
  then show "0 \<le> mulaw_magnitude (mulaw_code b)" "mulaw_magnitude (mulaw_code b) \<le> 32124"
    using mulaw_magnitude_bounds by blast+
qed

lemma mulaw_abs: "\<bar>sint (mulaw_to_linear b)\<bar> = mulaw_magnitude (mulaw_code b)"
  using mulaw_code_bounds [of b] by (simp add: mulaw_value)

lemma mulaw_sign:
  "sint (mulaw_to_linear b) < 0 \<Longrightarrow> unat b < 128" "0 < sint (mulaw_to_linear b) \<Longrightarrow> 128 \<le> unat b"
  using mulaw_code_bounds [of b] by (auto simp: mulaw_value split: if_splits)

lemma send_audible:
  assumes "bs \<noteq> []" and "length bs \<le> 960" and "\<not> is_mulaw_silence_frame (Some bs)"
    and "dv_aplay_started d \<or> fst (aplay_start k d)"
  shows "last (sd_trace (snd (send_g711u k (Some bs) d))) =
      (Configure [''ss_mpi_ao_send_frame''] (map (\<lambda>b. sint (mulaw_to_linear b)) bs), fst (send_g711u k (Some bs) d))"
    and "dv_aplay_started (snd (send_g711u k (Some bs) d))"
    and "dv_silence_frames (snd (send_g711u k (Some bs) d)) = 0"
proof -
  let ?ready = "if dv_aplay_started d then (True, note_silence False d) else aplay_start k d"
  have r: "fst ?ready" "dv_aplay_started (snd ?ready)" "dv_silence_frames (snd ?ready) = 0"
    using assms(4) aplay_start_silence [of k d] aplay_start_ok [of k d] by (auto simp: note_silence_def)
  have eq: "send_g711u k (Some bs) d = send_pcm_locked k (map mulaw_to_linear bs) (snd ?ready)"
    using assms(1-3) r(1,2) by (auto simp: send_g711u_def note_silence_def Let_def and_try_def)
  show "last (sd_trace (snd (send_g711u k (Some bs) d))) =
      (Configure [''ss_mpi_ao_send_frame''] (map (\<lambda>b. sint (mulaw_to_linear b)) bs), fst (send_g711u k (Some bs) d))"
    unfolding eq by (simp add: send_pcm_locked_def sdk_ask_def comp_def)
  show "dv_aplay_started (snd (send_g711u k (Some bs) d))" "dv_silence_frames (snd (send_g711u k (Some bs) d)) = 0"
    unfolding eq using r by simp_all
qed

text \<open>Only the trace and the loudspeaker change, and the invariant only looks at the sound.\<close>

lemma aplay_stop_shape: "\<exists>t a n. aplay_stop k d = d\<lparr>sd_trace := t, dv_aplay_started := a, dv_silence_frames := n\<rparr>"
proof (cases "dv_aplay_started d")
  case True
  let ?cs = "[Release (Ao_Sys_Chn 0), Release (Ao_Chn 0 0), Release (Ao_Dev 0)]"
  obtain t where "sdk_tells k ?cs d = d\<lparr>sd_trace := t\<rparr>" using calls_on_tells [OF subset_refl] by (rule calls_onE)
  then have "aplay_stop k d = d\<lparr>sd_trace := t, dv_aplay_started := False, dv_silence_frames := 0\<rparr>"
    using True by (simp add: aplay_stop_def)
  then show ?thesis by blast
next
  case False
  then show ?thesis
    by (intro exI [of _ "sd_trace d"] exI [of _ False] exI [of _ "dv_silence_frames d"]) (simp add: aplay_stop_def)
qed

lemma audio_inv_frame:
  assumes "audio_inv d" and "\<And>r. r \<in> audio_kinds \<Longrightarrow> holds d' r = holds d r"
    and "dv_aenc d' = dv_aenc d" and "dv_aplay_started d' = dv_aplay_started d"
  shows "audio_inv d'"
  using assms by (auto simp: audio_inv_def audio_kind_defs)

section \<open>Properties\<close>

text \<open>
  C36: a frame with a sound in it is played.  For every frame of one to 960 bytes that is not silent, once the
  loudspeaker is open or opens, the last call hands the library the decoded samples, one per byte, and
  answers the caller with its result; the count of silent frames begins again.  The samples are within
  32124, the highest bit of the byte is the sign, and the magnitude falls strictly in the rest of the byte.
\<close>

theorem speaker_plays_frame:
  assumes "bs \<noteq> []" and "length bs \<le> 960" and "\<not> is_mulaw_silence_frame (Some bs)"
    and "dv_aplay_started d \<or> fst (aplay_start k d)"
  shows "last (sd_trace (snd (send_g711u k (Some bs) d))) =
      (Configure [''ss_mpi_ao_send_frame''] (map (\<lambda>b. sint (mulaw_to_linear b)) bs), fst (send_g711u k (Some bs) d)) \<and>
    dv_aplay_started (snd (send_g711u k (Some bs) d)) \<and> dv_silence_frames (snd (send_g711u k (Some bs) d)) = 0 \<and>
    (\<forall>b. \<bar>sint (mulaw_to_linear b)\<bar> \<le> 32124 \<and> (sint (mulaw_to_linear b) < 0 \<longrightarrow> unat b < 128) \<and>
      (0 < sint (mulaw_to_linear b) \<longrightarrow> 128 \<le> unat b)) \<and>
    (\<forall>b c. unat b mod 128 < unat c mod 128 \<longrightarrow> \<bar>sint (mulaw_to_linear c)\<bar> < \<bar>sint (mulaw_to_linear b)\<bar>)"
proof -
  have order: "mulaw_magnitude (mulaw_code c) < mulaw_magnitude (mulaw_code b)" if "unat b mod 128 < unat c mod 128" for b c
    by (rule mulaw_magnitude_less) (use that in \<open>auto simp: mulaw_code_def\<close>)
  then show ?thesis using send_audible [OF assms] mulaw_code_bounds(2) by (auto simp: mulaw_abs dest: mulaw_sign)
qed

definition demo_speaker :: audio_state where
  "demo_speaker =
     \<lparr>sd_trace = [], sy_venc = (False, []), sy_rgn = (False, []), dv_vi_started = False, dv_isp_thread = False,
      dv_osd = Map.empty, dv_aenc = None, dv_aplay_started = True, dv_silence_frames = 7\<rparr>"

theorem speaker_plays_frame_witness:
  "last (sd_trace (snd (send_g711u (\<lambda>_ _. True) (Some [0x80, 0x7F, 0x10]) demo_speaker))) =
     (Configure [''ss_mpi_ao_send_frame''] [32124, 0, -15996], fst (send_g711u (\<lambda>_ _. True) (Some [0x80, 0x7F, 0x10]) demo_speaker))"
proof -
  have v: "sint (mulaw_to_linear 0x80) = 32124" "sint (mulaw_to_linear 0x7F) = 0" "sint (mulaw_to_linear 0x10) = - 15996"
    by (simp_all add: mulaw_value mulaw_code_def mulaw_magnitude_def)
  have "\<not> is_mulaw_silence_frame (Some [0x80, 0x7F, 0x10])"
    by (simp add: is_mulaw_silence_frame_def quiet_byte_def kMulawSilence_def)
  then show ?thesis
    using speaker_plays_frame [of "[0x80, 0x7F, 0x10]" demo_speaker "\<lambda>_ _. True"] v
    by (simp add: demo_speaker_def)
qed

text \<open>
  C37: the loudspeaker closes after silence.  When the open loudspeaker is given silent frames, at the latest
  the fiftieth in a row closes it, and then neither device nor channels are held.
\<close>

theorem silence_closes_speaker:
  assumes "audio_inv d" and "dv_aplay_started d"
    and "\<forall>bs\<in>set frames. bs \<noteq> [] \<and> length bs \<le> 960 \<and> is_mulaw_silence_frame (Some bs)"
    and "length frames + dv_silence_frames d = kSilenceFramesToStop" and "frames \<noteq> []"
  shows "\<not> dv_aplay_started (fold (\<lambda>bs e. snd (send_g711u k (Some bs) e)) frames d) \<and>
    (\<forall>r\<in>aplay_kinds. \<not> holds (fold (\<lambda>bs e. snd (send_g711u k (Some bs) e)) frames d) r)"
  using assms
proof (induction frames arbitrary: d)
  case (Cons bs frames)
  let ?d1 = "snd (send_g711u k (Some bs) d)"
  have bs: "bs \<noteq> []" "length bs \<le> 960" "is_mulaw_silence_frame (Some bs)" using Cons.prems(3) by auto
  have inv: "audio_inv ?d1" using send_g711u_inv(1) [OF Cons.prems(1)] .
  show ?case
  proof (cases "frames = []")
    case True
    then have "?d1 = aplay_stop k (note_silence True d)"
      using bs Cons.prems(2,4) by (simp add: send_g711u_def note_silence_def Let_def)
    then have "\<not> dv_aplay_started ?d1"
      using aplay_stop_inv(4) [of "note_silence True d" k] Cons.prems(1) by (simp add: note_silence_inv)
    then show ?thesis using True inv by (auto simp: audio_inv_def)
  next
    case False
    then have "Suc (dv_silence_frames d) < kSilenceFramesToStop" using Cons.prems(4) by (cases frames) auto
    then have "?d1 = snd (send_pcm_locked k (map mulaw_to_linear bs) (note_silence True d))"
      using bs Cons.prems(2) by (simp add: send_g711u_def note_silence_def Let_def)
    then have "dv_aplay_started ?d1" "dv_silence_frames ?d1 = Suc (dv_silence_frames d)"
      using Cons.prems(2) by (simp_all add: note_silence_def)
    then show ?thesis using Cons.IH [OF inv] Cons.prems(3,4) False by simp
  qed
qed simp

theorem silence_closes_speaker_witness:
  "\<not> dv_aplay_started (fold (\<lambda>bs e. snd (send_g711u (\<lambda>_ _. False) (Some bs) e)) (replicate 43 [0xFF, 0xFE]) demo_speaker)"
  using silence_closes_speaker [of demo_speaker "replicate 43 [0xFF, 0xFE]" "\<lambda>_ _. False"]
  by (simp add: demo_speaker_def audio_inv_def holds_def holds_after_def is_mulaw_silence_frame_def quiet_byte_def
      kMulawSilence_def kSilenceFramesToStop_def)

text \<open>
  C39: the test for silence is wrong about the ends of the scale.  Frames of the three loudest negative
  bytes, 0 to 2, decode to samples below -30000 but count as silence: as long as the loudspeaker is closed they are
  answered with success and not played at all.  The byte 0x7F decodes to exactly 0 but does not count as silence:
  frames of it open the loudspeaker.
\<close>

theorem loud_frames_taken_for_silence:
  assumes "bs \<noteq> []" and "length bs \<le> 960" and "set bs \<subseteq> {0, 1, 2}" and "\<not> dv_aplay_started d"
  shows "send_g711u k (Some bs) d = (True, d) \<and> (\<forall>b\<in>set bs. sint (mulaw_to_linear b) < -30000) \<and>
    sint (mulaw_to_linear 0x7F) = 0 \<and> \<not> is_mulaw_silence_frame (Some (map (\<lambda>_. 0x7F) bs)) \<and>
    (fst (aplay_start k d) \<longrightarrow> dv_aplay_started (snd (send_g711u k (Some (map (\<lambda>_. 0x7F) bs)) d)))"
proof -
  have loud: "sint (mulaw_to_linear 0) = - 32124" "sint (mulaw_to_linear 1) = - 31100" "sint (mulaw_to_linear 2) = - 30076"
      "sint (mulaw_to_linear 0x7F) = 0"
    by (simp_all add: mulaw_value mulaw_code_def mulaw_magnitude_def)
  have "filter quiet_byte bs = bs" using assms(3) by (intro filter_True) (auto simp: quiet_byte_def)
  then have "is_mulaw_silence_frame (Some bs)" by (simp add: is_mulaw_silence_frame_def)
  moreover have zero: "\<not> is_mulaw_silence_frame (Some (map (\<lambda>_. 0x7F) bs))"
    using assms(1) by (simp add: is_mulaw_silence_frame_def quiet_byte_def kMulawSilence_def filter_map comp_def)
  moreover have "fst (aplay_start k d) \<Longrightarrow> dv_aplay_started (snd (send_g711u k (Some (map (\<lambda>_. 0x7F) bs)) d))"
    using send_audible(2) [of "map (\<lambda>_. 0x7F) bs" d k] assms(1,2) zero by simp
  ultimately show ?thesis using assms loud by (auto simp: send_g711u_def Let_def)
qed

theorem loud_frames_taken_for_silence_witness:
  "send_g711u (\<lambda>_ _. True) (Some [0, 1, 2, 0]) (demo_speaker\<lparr>dv_aplay_started := False\<rparr>) =
     (True, demo_speaker\<lparr>dv_aplay_started := False\<rparr>)"
  using loud_frames_taken_for_silence [of "[0, 1, 2, 0]" "demo_speaker\<lparr>dv_aplay_started := False\<rparr>" "\<lambda>_ _. True"]
  by (simp add: demo_speaker_def)

end
