(* ===== verification/Dev_Venc.thy ===== *)
theory Dev_Venc
  imports Dev_Audio
begin

text \<open>
  The video encoders (src/devices/hisi\_3516cv610/dev\_venc.cpp): creating, resuming, pausing and stopping
  an encoder, the list the capture thread reads from, and the units that the packs of an encoded picture
  and the frames of the microphone become.  The lemmas show that the flags of an encoder account for what
  it holds after every operation, whichever call fails.
\<close>

section \<open>One encoder\<close>

record venc =
  vn_chn :: int
  vn_w :: int
  vn_h :: int
  vn_src_fr :: int
  vn_fr :: int
  vn_bitrate :: int
  vn_svc :: bool
  vn_h265 :: bool
  vn_avbr :: bool
  vn_source :: media_port
  vn_created :: bool
  vn_bound :: bool
  vn_running :: bool

definition MAX_VENC_BUF_SIZE :: u32 where "MAX_VENC_BUF_SIZE = 2 * 1024 * 1024"

text \<open>The size of the stream buffer is computed without sign, in 32 bits.\<close>

definition venc_buf_size :: "int \<Rightarrow> int \<Rightarrow> u32" where
  "venc_buf_size w h = min (word_of_int w * word_of_int h * 3 div 4) MAX_VENC_BUF_SIZE"

definition venc_link :: "venc \<Rightarrow> resource" where
  "venc_link v = Link (vn_source v) (Port_Venc 0 (vn_chn v))"

definition venc_request_i_frame :: "sdk_answers \<Rightarrow> venc \<Rightarrow> 'm sdk_scheme \<Rightarrow> bool \<times> 'm sdk_scheme" where
  "venc_request_i_frame k v d = sdk_ask k (Configure [''ss_mpi_venc_request_idr''] [vn_chn v, 1]) d"

definition enable_debreath_effect ::
  "sdk_answers \<Rightarrow> bool \<Rightarrow> int \<Rightarrow> int \<Rightarrow> venc \<Rightarrow> 'm sdk_scheme \<Rightarrow> bool \<times> 'm sdk_scheme" where
  "enable_debreath_effect k enable strength0 strength1 v d =
     sdk_sequence k
       [Configure [''ss_mpi_venc_get_debreath_effect''] [vn_chn v],
        Configure [''ss_mpi_venc_set_debreath_effect'']
          (vn_chn v # (if enable then [1, strength0, strength1] else [0]))] d"

definition enable_intra_refresh ::
  "sdk_answers \<Rightarrow> bool \<Rightarrow> int \<Rightarrow> int \<Rightarrow> int \<Rightarrow> venc \<Rightarrow> 'm sdk_scheme \<Rightarrow> bool \<times> 'm sdk_scheme" where
  "enable_intra_refresh k enable mode refresh_num request_i_qp v d =
     sdk_sequence k
       [Configure [''ss_mpi_venc_get_intra_refresh''] [vn_chn v],
        Configure [''ss_mpi_venc_set_intra_refresh'']
          (vn_chn v # (if enable then [1, mode, refresh_num, request_i_qp] else [0]))] d"

definition venc_prepare :: "sdk_answers \<Rightarrow> venc \<Rightarrow> 'm sdk_scheme \<Rightarrow> bool \<times> venc \<times> 'm sdk_scheme" where
  "venc_prepare k v d =
     (if vn_created v then (True, v, d)
      else
        let configured = (if vn_svc v
              then sdk_sequence k
                [Configure [''ss_mpi_venc_get_chn_config''] [vn_chn v],
                 Configure [''ss_mpi_venc_set_chn_config'', ''OT_VENC_SVC_V2''] [vn_chn v]] d
              else (True, d));
            opened = and_try (and_try configured (sdk_ask k (Acquire (Venc_Chn (vn_chn v)))))
              (\<lambda>d1. or_undo (sdk_ask k (Configure [''ss_mpi_venc_get_fd''] [vn_chn v]) d1)
                      (sdk_tell k (Release (Venc_Chn (vn_chn v)))))
        in (fst opened, v\<lparr>vn_created := fst opened\<rparr>, snd opened))"

definition bind_source :: "sdk_answers \<Rightarrow> venc \<Rightarrow> 'm sdk_scheme \<Rightarrow> bool \<times> venc \<times> 'm sdk_scheme" where
  "bind_source k v d =
     (if vn_bound v then (True, v, d)
      else let r = sdk_ask k (Acquire (venc_link v)) d in (fst r, v\<lparr>vn_bound := fst r\<rparr>, snd r))"

definition unbind_source :: "sdk_answers \<Rightarrow> venc \<Rightarrow> 'm sdk_scheme \<Rightarrow> venc \<times> 'm sdk_scheme" where
  "unbind_source k v d =
     (if \<not> vn_bound v then (v, d) else (v\<lparr>vn_bound := False\<rparr>, sdk_tell k (Release (venc_link v)) d))"

text \<open>Starting a channel that is bound, with its layers if it has any.\<close>

definition start_bound :: "sdk_answers \<Rightarrow> venc \<Rightarrow> 'm sdk_scheme \<Rightarrow> bool \<times> venc \<times> 'm sdk_scheme" where
  "start_bound k v d =
     (let started = sdk_ask k (Acquire (Venc_Run (vn_chn v))) d;
          layered = sdk_ask k (Configure [''ss_mpi_venc_enable_svc''] [vn_chn v, 1]) (snd started)
      in if \<not> fst started then (False, unbind_source k v (snd started))
         else if \<not> vn_svc v then (True, v\<lparr>vn_running := True\<rparr>, snd started)
         else if \<not> fst layered then (False, unbind_source k v (sdk_tell k (Release (Venc_Run (vn_chn v))) (snd layered)))
         else (True, v\<lparr>vn_running := True\<rparr>, snd layered))"

definition venc_resume :: "sdk_answers \<Rightarrow> venc \<Rightarrow> 'm sdk_scheme \<Rightarrow> bool \<times> venc \<times> 'm sdk_scheme" where
  "venc_resume k v d =
     (if vn_running v then (True, v, d)
      else
        case venc_prepare k v d of (ok1, v1, d1) \<Rightarrow>
        if \<not> ok1 then (False, v1, d1)
        else
          case bind_source k v1 d1 of (ok2, v2, d2) \<Rightarrow>
          if \<not> ok2 then (False, v2, d2) else start_bound k v2 d2)"

definition venc_pause :: "sdk_answers \<Rightarrow> venc \<Rightarrow> 'm sdk_scheme \<Rightarrow> venc \<times> 'm sdk_scheme" where
  "venc_pause k v d =
     (if \<not> vn_running v then (v, d)
      else
        case unbind_source k v d of (v1, d1) \<Rightarrow>
        (v1\<lparr>vn_running := False\<rparr>, sdk_tell k (Release (Venc_Run (vn_chn v))) d1))"

definition venc_stop :: "sdk_answers \<Rightarrow> venc \<Rightarrow> 'm sdk_scheme \<Rightarrow> venc \<times> 'm sdk_scheme" where
  "venc_stop k v d =
     (case venc_pause k v d of (v1, d1) \<Rightarrow>
        if vn_created v1 then (v1\<lparr>vn_created := False\<rparr>, sdk_tell k (Release (Venc_Chn (vn_chn v1))) d1) else (v1, d1))"

subsection \<open>The flags account for what is held\<close>

text \<open>Everything an encoder can hold, from whatever source it is bound.\<close>

definition venc_kinds :: "int \<Rightarrow> resource set" where
  "venc_kinds c = {Venc_Chn c, Venc_Run c} \<union> {Link a (Port_Venc 0 c) |a. True}"

definition venc_accounts :: "venc \<Rightarrow> 'm sdk_scheme \<Rightarrow> bool" where
  "venc_accounts v d \<longleftrightarrow>
     (holds d (Venc_Chn (vn_chn v)) \<longrightarrow> vn_created v) \<and> (holds d (Venc_Run (vn_chn v)) \<longrightarrow> vn_running v) \<and>
     (\<forall>a. holds d (Link a (Port_Venc 0 (vn_chn v))) \<longrightarrow> vn_bound v \<and> a = vn_source v)"

text \<open>Between the operations an encoder is bound just while it runs, and a running one is created.\<close>

definition venc_ok :: "venc \<Rightarrow> 'm sdk_scheme \<Rightarrow> bool" where
  "venc_ok v d \<longleftrightarrow> vn_bound v = vn_running v \<and> (vn_running v \<longrightarrow> vn_created v) \<and> venc_accounts v d"

lemmas venc_ok_defs = venc_ok_def venc_accounts_def

text \<open>What an operation leaves as it is.\<close>

definition same_venc :: "venc \<Rightarrow> venc \<Rightarrow> bool" where
  "same_venc v v' \<longleftrightarrow>
     v' = v\<lparr>vn_created := vn_created v', vn_bound := vn_bound v', vn_running := vn_running v'\<rparr>"

lemma same_venc_refl [simp]: "same_venc v v"
  by (simp add: same_venc_def)

lemma same_venc_trans [trans]: "same_venc u v \<Longrightarrow> same_venc v w \<Longrightarrow> same_venc u w"
  by (cases u; cases v; cases w) (simp add: same_venc_def)

lemma same_venc_upd [simp]:
  "same_venc v (v\<lparr>vn_bound := b\<rparr>)" "same_venc v (v\<lparr>vn_running := b\<rparr>)" "same_venc v (v\<lparr>vn_created := b\<rparr>)"
  by (simp_all add: same_venc_def)

lemma same_venc_chn: "same_venc v v' \<Longrightarrow> vn_chn v' = vn_chn v \<and> vn_svc v' = vn_svc v \<and> vn_source v' = vn_source v"
  by (cases v; cases v') (simp add: same_venc_def)

lemma venc_prepare_spec:
  assumes "venc_prepare k v d = (ok, v', d')" and "venc_ok v d"
  shows "calls_on (venc_kinds (vn_chn v)) d d' \<and> same_venc v v' \<and> venc_ok v' d' \<and> (ok \<longrightarrow> vn_created v') \<and>
    vn_running v' = vn_running v"
proof (cases "vn_created v")
  case False
  define r where "r = (if vn_svc v
              then sdk_sequence k
                [Configure [''ss_mpi_venc_get_chn_config''] [vn_chn v],
                 Configure [''ss_mpi_venc_set_chn_config'', ''OT_VENC_SVC_V2''] [vn_chn v]] d
              else (True, d))"
  define s where "s = and_try (and_try r (sdk_ask k (Acquire (Venc_Chn (vn_chn v)))))
              (\<lambda>d1. or_undo (sdk_ask k (Configure [''ss_mpi_venc_get_fd''] [vn_chn v]) d1)
                      (sdk_tell k (Release (Venc_Chn (vn_chn v)))))"
  have r: "calls_on {} d (snd r)" unfolding r_def by (auto simp del: sdk_sequence.simps intro!: calls_on_sequence)
  have s: "calls_on {Venc_Chn (vn_chn v)} d (snd s)"
    unfolding s_def
    by (intro calls_on_try calls_on_undo calls_on_ask calls_on_tell calls_on_mono [OF r]) auto
  have eq: "ok = fst s" "v' = v\<lparr>vn_created := fst s\<rparr>" "d' = snd s"
    using assms(1) False unfolding venc_prepare_def Let_def r_def [symmetric] s_def [symmetric] by auto
  have "\<not> fst s \<Longrightarrow> \<not> holds (snd s) (Venc_Chn (vn_chn v))"
    using assms(2) False calls_on_holds [OF r] by (auto simp: s_def venc_ok_defs)
  then show ?thesis
    using assms(2) False s calls_on_holds [OF s] unfolding eq
    by (auto simp: venc_ok_defs same_venc_def venc_kinds_def intro: calls_on_mono)
qed (use assms in \<open>auto simp: venc_prepare_def\<close>)

lemma bind_source_spec:
  assumes "bind_source k v d = (ok, v', d')" and "venc_ok v d" and "\<not> vn_running v"
  shows "calls_on (venc_kinds (vn_chn v)) d d' \<and> v' = v\<lparr>vn_bound := ok\<rparr> \<and> venc_accounts v' d'"
proof -
  have on: "calls_on {venc_link v} d (snd (sdk_ask k (Acquire (venc_link v)) d))" by (rule calls_on_ask) simp
  have "\<not> vn_bound v" using assms(2,3) by (simp add: venc_ok_def)
  then have eq: "ok = k (sd_trace d) (Acquire (venc_link v))" "v' = v\<lparr>vn_bound := ok\<rparr>"
      "d' = snd (sdk_ask k (Acquire (venc_link v)) d)"
    using assms(1) by (auto simp: bind_source_def Let_def)
  have "calls_on (venc_kinds (vn_chn v)) d d'"
    unfolding eq(3) by (rule calls_on_mono [OF on]) (auto simp: venc_kinds_def venc_link_def)
  moreover have "venc_accounts v' d'"
    using assms(2) \<open>\<not> vn_bound v\<close> unfolding eq(2,3) by (auto simp: venc_ok_defs venc_link_def eq(1))
  ultimately show ?thesis using eq(2) by simp
qed

lemma unbind_source_spec:
  assumes "unbind_source k v d = (v', d')" and "venc_accounts v d"
  shows "calls_on (venc_kinds (vn_chn v)) d d' \<and> v' = v\<lparr>vn_bound := False\<rparr> \<and> venc_accounts v' d'"
proof (cases "vn_bound v")
  case True
  then have eq: "v' = v\<lparr>vn_bound := False\<rparr>" "d' = sdk_tell k (Release (venc_link v)) d"
    using assms(1) by (auto simp: unbind_source_def)
  have "calls_on (venc_kinds (vn_chn v)) d d'"
    unfolding eq(2) by (rule calls_on_tell) (auto simp: venc_kinds_def venc_link_def)
  moreover have "venc_accounts v' d'"
    using assms(2) unfolding eq by (auto simp: venc_accounts_def venc_link_def)
  ultimately show ?thesis using eq(1) by simp
qed (use assms in \<open>auto simp: unbind_source_def\<close>)

lemma start_bound_spec:
  assumes "start_bound k v d = (ok, v', d')" and "venc_accounts v d" and "vn_created v" "vn_bound v" "\<not> vn_running v"
  shows "calls_on (venc_kinds (vn_chn v)) d d' \<and> same_venc v v' \<and> venc_ok v' d' \<and> vn_running v' = ok"
proof -
  let ?c = "vn_chn v"
  define d1 where "d1 = snd (sdk_ask k (Acquire (Venc_Run ?c)) d)"
  define d2 where "d2 = snd (sdk_ask k (Configure [''ss_mpi_venc_enable_svc''] [?c, 1]) d1)"
  define d3 where "d3 = sdk_tell k (Release (Venc_Run ?c)) d2"
  have on1: "calls_on (venc_kinds ?c) d d1" unfolding d1_def by (rule calls_on_ask) (simp add: venc_kinds_def)
  have on2: "calls_on (venc_kinds ?c) d1 d2" unfolding d2_def by (rule calls_on_ask) simp
  have on3: "calls_on (venc_kinds ?c) d2 d3" unfolding d3_def by (rule calls_on_tell) (simp add: venc_kinds_def)
  note on12 = calls_on_trans [OF on1 on2] and on123 = calls_on_trans [OF calls_on_trans [OF on1 on2] on3]
  have h: "holds d1 (Venc_Run ?c) = (k (sd_trace d) (Acquire (Venc_Run ?c)) \<or> holds d (Venc_Run ?c))"
      "holds d3 (Venc_Run ?c) = False" "holds d2 r = holds d1 r" for r
    by (simp_all add: d1_def d2_def d3_def)
  have other: "holds d1 r = holds d r" "holds d3 r = holds d r" if "r \<noteq> Venc_Run ?c" for r
    using that by (auto simp: d1_def d2_def d3_def)
  have acc: "venc_accounts (v\<lparr>vn_running := True\<rparr>) d1" "venc_accounts (v\<lparr>vn_running := True\<rparr>) d2" "venc_accounts v d3"
      "\<not> k (sd_trace d) (Acquire (Venc_Run ?c)) \<Longrightarrow> venc_accounts v d1"
    using assms(2-5) other by (auto simp: venc_accounts_def h)
  obtain v1 e1 where u1: "unbind_source k v d1 = (v1, e1)" by fastforce
  obtain v3 e3 where u3: "unbind_source k v d3 = (v3, e3)" by fastforce
  have "(ok, v', d') = (if \<not> k (sd_trace d) (Acquire (Venc_Run ?c)) then (False, v1, e1)
       else if \<not> vn_svc v then (True, v\<lparr>vn_running := True\<rparr>, d1)
       else if \<not> fst (sdk_ask k (Configure [''ss_mpi_venc_enable_svc''] [?c, 1]) d1) then (False, v3, e3)
       else (True, v\<lparr>vn_running := True\<rparr>, d2))"
    using assms(1) unfolding start_bound_def Let_def d1_def [symmetric] d2_def [symmetric] d3_def [symmetric] u1 u3
    by (auto split: if_splits)
  then consider "ok" "v' = v\<lparr>vn_running := True\<rparr>" "d' = d1" | "ok" "v' = v\<lparr>vn_running := True\<rparr>" "d' = d2"
    | "\<not> ok" "v' = v1" "d' = e1" "venc_accounts v d1" | "\<not> ok" "v' = v3" "d' = e3"
    using acc(4) by (auto split: if_splits)
  then show ?thesis
  proof cases
    case 1
    then show ?thesis using on1 acc(1) assms(3-5) by (simp add: venc_ok_def same_venc_def)
  next
    case 2
    then show ?thesis using on12 acc(2) assms(3-5) by (simp add: venc_ok_def same_venc_def)
  next
    case 3
    then show ?thesis
      using unbind_source_spec [OF u1] calls_on_trans [OF on1] assms(3-5) by (auto simp: venc_ok_def same_venc_def)
  next
    case 4
    then show ?thesis
      using unbind_source_spec [OF u3 acc(3)] calls_on_trans [OF on123] assms(3-5) by (auto simp: venc_ok_def same_venc_def)
  qed
qed

lemma venc_resume_spec:
  assumes "venc_resume k v d = (ok, v', d')" and "venc_ok v d"
  shows "calls_on (venc_kinds (vn_chn v)) d d' \<and> same_venc v v' \<and> venc_ok v' d' \<and> vn_running v' = ok"
proof (cases "vn_running v")
  case False
  obtain ok1 v1 d1 where p: "venc_prepare k v d = (ok1, v1, d1)" by (metis prod_cases3)
  note sp = venc_prepare_spec [OF p assms(2)]
  have c1: "vn_chn v1 = vn_chn v" "\<not> vn_running v1" using sp False same_venc_chn by auto
  obtain ok2 v2 d2 where b: "bind_source k v1 d1 = (ok2, v2, d2)" by (metis prod_cases3)
  note sb = bind_source_spec [OF b _ c1(2)]
  show ?thesis
  proof (cases "ok1 \<and> ok2")
    case True
    then have st: "start_bound k v2 d2 = (ok, v', d')" using assms(1) False p b by (simp add: venc_resume_def)
    have v2: "v2 = v1\<lparr>vn_bound := True\<rparr>" using sp sb True by simp
    have "vn_created v2" "vn_bound v2" "\<not> vn_running v2" "venc_accounts v2 d2"
      using sp sb True c1(2) by (simp_all add: v2)
    moreover have "same_venc v v2" unfolding v2 by (rule same_venc_trans [of v v1]) (use sp in simp_all)
    moreover have "calls_on (venc_kinds (vn_chn v)) d d2"
      using sp sb c1(1) by (metis calls_on_trans)
    moreover have "vn_chn v2 = vn_chn v" using c1(1) by (simp add: v2)
    ultimately show ?thesis
      using start_bound_spec [OF st] same_venc_trans [of v v2 v'] calls_on_trans [of _ d d2 d'] by metis
  next
    case failed: False
    show ?thesis
    proof (cases "ok1")
      case True
      then have eq: "\<not> ok" "v' = v1\<lparr>vn_bound := False\<rparr>" "d' = d2" and sb1: "calls_on (venc_kinds (vn_chn v1)) d1 d2"
          "venc_accounts v2 d2" "v2 = v1\<lparr>vn_bound := False\<rparr>"
        using assms(1) False p b sb sp failed by (auto simp: venc_resume_def)
      have "same_venc v v'" unfolding eq by (rule same_venc_trans [of v v1]) (use sp in simp_all)
      moreover have "venc_ok v' d'" using sb1 c1 eq by (simp add: venc_ok_def)
      moreover have "calls_on (venc_kinds (vn_chn v)) d d'" using sp sb1(1) c1(1) eq(3) by (metis calls_on_trans)
      ultimately show ?thesis using eq c1 by simp
    next
      case False
      then show ?thesis using assms(1) \<open>\<not> vn_running v\<close> p sp c1 by (auto simp: venc_resume_def)
    qed
  qed
qed (use assms in \<open>auto simp: venc_resume_def\<close>)

lemma venc_pause_spec:
  assumes "venc_pause k v d = (v', d')" and "venc_ok v d"
  shows "calls_on (venc_kinds (vn_chn v)) d d' \<and> same_venc v v' \<and> venc_ok v' d' \<and> \<not> vn_running v' \<and>
    vn_created v' = vn_created v"
proof (cases "vn_running v")
  case True
  obtain v1 d1 where u: "unbind_source k v d = (v1, d1)" by fastforce
  have su: "calls_on (venc_kinds (vn_chn v)) d d1" "v1 = v\<lparr>vn_bound := False\<rparr>" "venc_accounts v1 d1"
    using unbind_source_spec [OF u] assms(2) by (auto simp: venc_ok_def)
  have eq: "v' = v1\<lparr>vn_running := False\<rparr>" "d' = sdk_tell k (Release (Venc_Run (vn_chn v))) d1"
    using assms(1) True u by (auto simp: venc_pause_def)
  have "calls_on (venc_kinds (vn_chn v)) d1 d'" unfolding eq by (rule calls_on_tell) (simp add: venc_kinds_def)
  moreover have "venc_accounts v' d'" using su(2,3) unfolding eq by (auto simp: venc_accounts_def)
  ultimately show ?thesis
    using su assms(2) True by (auto simp: eq venc_ok_def same_venc_def intro: calls_on_trans)
qed (use assms in \<open>auto simp: venc_pause_def\<close>)

lemma venc_stop_spec:
  assumes "venc_stop k v d = (v', d')" and "venc_ok v d"
  shows "calls_on (venc_kinds (vn_chn v)) d d' \<and> same_venc v v' \<and> venc_ok v' d' \<and> \<not> vn_created v'"
proof -
  obtain v1 d1 where p: "venc_pause k v d = (v1, d1)" by fastforce
  note sp = venc_pause_spec [OF p assms(2)]
  have c: "vn_chn v1 = vn_chn v" using sp same_venc_chn by auto
  show ?thesis
  proof (cases "vn_created v1")
    case True
    then have eq: "v' = v1\<lparr>vn_created := False\<rparr>" "d' = sdk_tell k (Release (Venc_Chn (vn_chn v))) d1"
      using assms(1) p c by (auto simp: venc_stop_def)
    have "calls_on (venc_kinds (vn_chn v)) d1 d'" unfolding eq by (rule calls_on_tell) (simp add: venc_kinds_def)
    moreover have "venc_ok v' d'" using sp c unfolding eq by (auto simp: venc_ok_defs)
    moreover have "same_venc v v'" unfolding eq by (rule same_venc_trans [of v v1]) (use sp in simp_all)
    ultimately show ?thesis
      using sp calls_on_trans [of _ d d1 d'] by (auto simp: eq(1))
  qed (use assms p sp in \<open>auto simp: venc_stop_def\<close>)
qed

text \<open>A stopped encoder holds nothing.\<close>

lemma venc_stopped_none: "venc_ok v d \<Longrightarrow> \<not> vn_created v \<Longrightarrow> r \<in> venc_kinds (vn_chn v) \<Longrightarrow> \<not> holds d r"
  by (auto simp: venc_ok_defs venc_kinds_def)

end
