(* ===== verification/Dev_Encoders.thy ===== *)
theory Dev_Encoders
  imports Dev_Venc
begin

text \<open>
  The encoders of a camera together (src/devices/hisi\_3516cv610/dev\_venc.cpp): the list of those the
  capture thread reads from, the thread and one round of it, the microphone, and the library of sounds.  The lemmas
  show that the operations on the main and the sub encoder keep apart, and what a picture of the encoder is
  handed on as.
\<close>

section \<open>State\<close>

record encoders_state = audio_state +
  dv_venc :: "venc_id \<Rightarrow> venc option"
  dv_vencs :: "venc_id list"
  dv_capturing :: bool

text \<open>Each get and set of the three module parameters.\<close>

definition mini_buf_calls :: "string \<Rightarrow> sdk_call list" where
  "mini_buf_calls ty =
     [Configure [''ss_mpi_venc_get_mod_param'', ty] [], Configure [''ss_mpi_venc_set_mod_param'', ty] [1]]"

definition venc_init :: "sdk_answers \<Rightarrow> 'm sdk_scheme \<Rightarrow> bool \<times> 'm sdk_scheme" where
  "venc_init k d =
     and_try (sdk_ask k (Acquire Audio_Lib) (sdk_tell k (Release Audio_Lib) d))
       (\<lambda>d1. sdk_sequence k
          (mini_buf_calls ''OT_VENC_MOD_JPEG'' @ mini_buf_calls ''OT_VENC_MOD_H264'' @ mini_buf_calls ''OT_VENC_MOD_H265'')
          (sdk_tell k (Acquire Aac_Lib) d1))"

definition venc_release :: "sdk_answers \<Rightarrow> 'm sdk_scheme \<Rightarrow> 'm sdk_scheme" where
  "venc_release k d = sdk_tells k [Release Aac_Lib, Release Audio_Lib] d"

text \<open>A new encoder takes a channel, and gives it back when it is destroyed.\<close>

definition new_venc ::
  "venc_id \<Rightarrow> bool \<Rightarrow> bool \<Rightarrow> int \<Rightarrow> int \<Rightarrow> int \<Rightarrow> int \<Rightarrow> int \<Rightarrow> bool \<Rightarrow> media_port \<Rightarrow>
   'm encoders_state_scheme \<Rightarrow> 'm encoders_state_scheme" where
  "new_venc i h265 avbr w h src_fr fr bitrate svc source d =
     (case alloc_venc_chn d of (c, d1) \<Rightarrow>
       d1\<lparr>dv_venc := (dv_venc d1)(i := Some
         \<lparr>vn_chn = c, vn_w = w, vn_h = h, vn_src_fr = src_fr, vn_fr = fr, vn_bitrate = bitrate, vn_svc = svc,
          vn_h265 = h265, vn_avbr = avbr, vn_source = source, vn_created = False, vn_bound = False, vn_running = False\<rparr>)\<rparr>)"

definition drop_venc :: "venc_id \<Rightarrow> 'm encoders_state_scheme \<Rightarrow> 'm encoders_state_scheme" where
  "drop_venc i d =
     (case dv_venc d i of
        None \<Rightarrow> d
      | Some v \<Rightarrow> (free_venc_chn (vn_chn v) d)\<lparr>dv_venc := (dv_venc d)(i := None)\<rparr>)"

text \<open>The list the capture thread reads from: a pause removes the first encoder with the same channel.\<close>

fun erase_chn :: "(venc_id \<Rightarrow> venc option) \<Rightarrow> int \<Rightarrow> venc_id list \<Rightarrow> venc_id list" where
  "erase_chn vs c [] = []"
| "erase_chn vs c (j # js) =
     (if map_option vn_chn (vs j) = Some c then js else j # erase_chn vs c js)"

definition put_venc :: "venc_id \<Rightarrow> venc \<Rightarrow> 'm encoders_state_scheme \<Rightarrow> 'm encoders_state_scheme" where
  "put_venc i v d = d\<lparr>dv_venc := (dv_venc d)(i := Some v)\<rparr>"

definition encoder_prepare :: "sdk_answers \<Rightarrow> venc_id \<Rightarrow> 'm encoders_state_scheme \<Rightarrow> bool \<times> 'm encoders_state_scheme" where
  "encoder_prepare k i d =
     (case dv_venc d i of
        None \<Rightarrow> (False, d)
      | Some v \<Rightarrow> (case venc_prepare k v d of (ok, v', d') \<Rightarrow> (ok, put_venc i v' d')))"

definition encoder_resume :: "sdk_answers \<Rightarrow> venc_id \<Rightarrow> 'm encoders_state_scheme \<Rightarrow> bool \<times> 'm encoders_state_scheme" where
  "encoder_resume k i d =
     (case dv_venc d i of
        None \<Rightarrow> (False, d)
      | Some v \<Rightarrow>
          (case venc_resume k v d of (ok, v', d') \<Rightarrow>
            (ok, (put_venc i v' d')\<lparr>dv_vencs := dv_vencs d @ (if ok \<and> \<not> vn_running v then [i] else [])\<rparr>)))"

definition encoder_pause :: "sdk_answers \<Rightarrow> venc_id \<Rightarrow> 'm encoders_state_scheme \<Rightarrow> 'm encoders_state_scheme" where
  "encoder_pause k i d =
     (case dv_venc d i of
        None \<Rightarrow> d
      | Some v \<Rightarrow>
          (case venc_pause k v d of (v', d') \<Rightarrow>
            (put_venc i v' d')\<lparr>dv_vencs := (if vn_running v then erase_chn (dv_venc d) (vn_chn v) (dv_vencs d) else dv_vencs d)\<rparr>))"

definition encoder_stop :: "sdk_answers \<Rightarrow> venc_id \<Rightarrow> 'm encoders_state_scheme \<Rightarrow> 'm encoders_state_scheme" where
  "encoder_stop k i d =
     (case dv_venc d i of
        None \<Rightarrow> d
      | Some v \<Rightarrow>
          (case venc_stop k v d of (v', d') \<Rightarrow>
            (put_venc i v' d')\<lparr>dv_vencs := (if vn_running v then erase_chn (dv_venc d) (vn_chn v) (dv_vencs d) else dv_vencs d)\<rparr>))"

section \<open>Capture and microphone\<close>

definition start_capture :: "'m encoders_state_scheme \<Rightarrow> bool \<times> 'm encoders_state_scheme" where
  "start_capture d = (if dv_capturing d then (False, d) else (True, d\<lparr>dv_capturing := True\<rparr>))"

definition stop_capture :: "'m encoders_state_scheme \<Rightarrow> 'm encoders_state_scheme" where
  "stop_capture d = d\<lparr>dv_capturing := False\<rparr>"

definition venc_enable_audio ::
  "sdk_answers \<Rightarrow> bool \<Rightarrow> bool \<Rightarrow> string \<Rightarrow> 'm encoders_state_scheme \<Rightarrow> bool \<times> 'm encoders_state_scheme" where
  "venc_enable_audio k enable is_mic name d =
     (if dv_capturing d then (False, d)
      else
        let d1 = (if dv_aenc d \<noteq> None then (aenc_stop k d)\<lparr>dv_aenc := None\<rparr> else d) in
        if \<not> enable then (True, d1)
        else
          case aenc_get_instance name is_mic of
            None \<Rightarrow> (False, d1)
          | Some a \<Rightarrow> and_try (aenc_start k a d1) (\<lambda>d2. (True, d2\<lparr>dv_aenc := Some a\<rparr>)))"

definition get_audio_info :: "'m audio_state_scheme \<Rightarrow> (string \<times> int \<times> int \<times> int) option" where
  "get_audio_info d =
     map_option (\<lambda>a. if ae_g711u a then (''STREAM_AUDIO_ENCODE_G711U'', 8000, 16, 1)
                     else (''STREAM_AUDIO_ENCODE_AAC'', 44100, 16, 2)) (dv_aenc d)"

section \<open>Packs\<close>

text \<open>One pack of an encoded picture: the memory of the library, where the data begins, micro seconds.\<close>

record venc_pack =
  pk_addr :: "u8 list option"
  pk_offset :: nat
  pk_pts :: u64

text \<open>The data of a pack that is used.\<close>

definition pack_data :: "venc_pack \<Rightarrow> u8 list option" where
  "pack_data p =
     (case pk_addr p of
        None \<Rightarrow> None
      | Some m \<Rightarrow> if pk_offset p > length m \<or> length m - pk_offset p < 5 then None else Some (drop (pk_offset p) m))"

definition pack_nalu :: "u8 list \<Rightarrow> venc_pack \<Rightarrow> stream_nalu" where
  "pack_nalu d p = \<lparr>nu_data = Some d, nu_time_stamp = ucast (pk_pts p div 1000)\<rparr>"

text \<open>H.264 only hands on parameter sets and slices, told by the fifth byte.\<close>

definition wanted_pack :: "bool \<Rightarrow> u8 list \<Rightarrow> bool" where
  "wanted_pack h265 d \<longleftrightarrow> h265 \<or> (d ! 4 AND 0x1f) \<in> {7, 8, 1, 5}"

text \<open>The loop of \<^verbatim>\<open>process_video_stream\<close>: a pack that is not wanted is passed over, after eight it ends.\<close>

fun packs_to_nalus :: "bool \<Rightarrow> nat \<Rightarrow> venc_pack list \<Rightarrow> stream_nalu list" where
  "packs_to_nalus h265 n [] = []"
| "packs_to_nalus h265 n (p # ps) =
     (if n \<ge> MAX_STREAM_NALU_COUNT then []
      else
        (case pack_data p of
           None \<Rightarrow> packs_to_nalus h265 n ps
         | Some d \<Rightarrow> if wanted_pack h265 d then pack_nalu d p # packs_to_nalus h265 (Suc n) ps
                    else packs_to_nalus h265 n ps))"

text \<open>The unit handed to the observers, if there is one.  The rest of the array is zero.\<close>

definition no_nalu :: stream_nalu where
  "no_nalu = \<lparr>nu_data = None, nu_time_stamp = 0\<rparr>"

definition process_video_stream :: "bool \<Rightarrow> venc_pack list \<Rightarrow> stream_head option" where
  "process_video_stream h265 ps =
     (let ns = packs_to_nalus h265 0 ps in
      if ns = [] then None
      else Some \<lparr>sh_type = STREAM_NALU_SLICE, sh_time_stamp = 0, sh_nalu_count = of_nat (length ns),
                 sh_nalu = ns @ replicate (MAX_STREAM_NALU_COUNT - length ns) no_nalu\<rparr>)"

text \<open>A G.711 frame of the library starts with a header of four bytes, which is cut off.\<close>

definition process_audio_stream :: "aenc option \<Rightarrow> u64 \<Rightarrow> u8 list \<Rightarrow> (stream_head \<times> u8 list) option" where
  "process_audio_stream a time_stamp data =
     (let g711u = (case a of None \<Rightarrow> False | Some a \<Rightarrow> ae_g711u a) in
      if g711u \<and> length data \<le> 4 then None
      else Some (\<lparr>sh_type = STREAM_AUDIO_FRAME, sh_time_stamp = ucast (time_stamp div 1000), sh_nalu_count = 0,
                  sh_nalu = replicate MAX_STREAM_NALU_COUNT no_nalu\<rparr>,
                 if g711u then drop 4 data else data))"

section \<open>A round of the capture thread\<close>

text \<open>What the library has for an encoder in a round; a failed allocation or read ends the round.\<close>

datatype video_read = Not_Ready | No_Status | No_Packs | No_Memory | No_Stream | Packs "venc_pack list"

text \<open>What the observers of an encoder are called with.\<close>

type_synonym stream_post = "venc_id \<times> stream_head \<times> u8 list option"

fun read_videos :: "(venc_id \<Rightarrow> venc option) \<Rightarrow> (venc_id \<Rightarrow> video_read) \<Rightarrow> venc_id list \<Rightarrow> stream_post list" where
  "read_videos vs inp [] = []"
| "read_videos vs inp (i # js) =
     (case inp i of
        No_Memory \<Rightarrow> []
      | No_Stream \<Rightarrow> []
      | Packs ps \<Rightarrow>
          (case Option.bind (vs i) (\<lambda>v. process_video_stream (vn_h265 v) ps) of
             None \<Rightarrow> read_videos vs inp js
           | Some h \<Rightarrow> (i, h, None) # read_videos vs inp js)
      | _ \<Rightarrow> read_videos vs inp js)"

definition on_capturing_round ::
  "(u64 \<times> u8 list) option \<Rightarrow> (venc_id \<Rightarrow> video_read) \<Rightarrow> 'm encoders_state_scheme \<Rightarrow> stream_post list" where
  "on_capturing_round audio inp d =
     (case (dv_aenc d, audio) of
        (Some a, Some (t, data)) \<Rightarrow>
          (case process_audio_stream (Some a) t data of
             None \<Rightarrow> []
           | Some (h, bytes) \<Rightarrow> map (\<lambda>i. (i, h, Some bytes)) (dv_vencs d))
      | _ \<Rightarrow> []) @
     read_videos (dv_venc d) inp (dv_vencs d)"

section \<open>The encoders keep apart\<close>

text \<open>
  Every encoder accounts for its channel, the channels are different and taken, no other channel is held, and
  the list of the capture thread holds just the running encoders.
\<close>

definition encoders_inv :: "'m encoders_state_scheme \<Rightarrow> bool" where
  "encoders_inv d \<longleftrightarrow>
     (\<forall>i v. dv_venc d i = Some v \<longrightarrow> venc_ok v d \<and> venc_taken d (vn_chn v)) \<and>
     (\<forall>i j v w. dv_venc d i = Some v \<longrightarrow> dv_venc d j = Some w \<longrightarrow> vn_chn v = vn_chn w \<longrightarrow> i = j) \<and>
     (\<forall>c. (\<forall>i v. dv_venc d i = Some v \<longrightarrow> vn_chn v \<noteq> c) \<longrightarrow> (\<forall>r\<in>venc_kinds c. \<not> holds d r)) \<and>
     distinct (dv_vencs d) \<and> (\<forall>i. i \<in> set (dv_vencs d) \<longleftrightarrow> (\<exists>v. dv_venc d i = Some v \<and> vn_running v))"

definition all_venc_kinds :: "resource set" where
  "all_venc_kinds = (\<Union>c. venc_kinds c)"

lemma encoders_invD:
  assumes "encoders_inv d"
  shows "dv_venc d i = Some v \<Longrightarrow> venc_ok v d" and "dv_venc d i = Some v \<Longrightarrow> venc_taken d (vn_chn v)"
    and "dv_venc d i = Some v \<Longrightarrow> dv_venc d j = Some w \<Longrightarrow> vn_chn v = vn_chn w \<Longrightarrow> i = j"
    and "(\<forall>i v. dv_venc d i = Some v \<longrightarrow> vn_chn v \<noteq> c) \<Longrightarrow> r \<in> venc_kinds c \<Longrightarrow> \<not> holds d r"
    and "distinct (dv_vencs d)" and "i \<in> set (dv_vencs d) \<longleftrightarrow> (\<exists>v. dv_venc d i = Some v \<and> vn_running v)"
  using assms unfolding encoders_inv_def by blast+

lemma venc_kinds_apart: "c \<noteq> c' \<Longrightarrow> r \<in> venc_kinds c \<Longrightarrow> r \<notin> venc_kinds c'"
  by (auto simp: venc_kinds_def)

lemma venc_kinds_sub: "venc_kinds c \<subseteq> all_venc_kinds"
  by (auto simp: all_venc_kinds_def)

lemma holds_encoders_update [simp]:
  "holds (d\<lparr>dv_venc := f\<rparr>) r = holds d r" "holds (d\<lparr>dv_vencs := l\<rparr>) r = holds d r"
  "holds (d\<lparr>dv_capturing := b\<rparr>) r = holds d r" "holds (put_venc i v d) r = holds d r"
  by (simp_all add: holds_def put_venc_def)

lemma venc_ok_cong: "(\<And>r. r \<in> venc_kinds (vn_chn v) \<Longrightarrow> holds d' r = holds d r) \<Longrightarrow> venc_ok v d' = venc_ok v d"
  by (auto simp: venc_ok_defs venc_kinds_def)

lemma encoders_fields:
  assumes "calls_on S d d'"
  shows "dv_venc d' = dv_venc d" and "dv_vencs d' = dv_vencs d" and "dv_capturing d' = dv_capturing d"
    and "sy_venc d' = sy_venc d"
  using assms by (auto elim!: calls_onE)

text \<open>Calls outside the encoders keep their invariant.\<close>

lemma encoders_inv_frame:
  assumes "encoders_inv d" and "\<And>r. r \<in> all_venc_kinds \<Longrightarrow> holds d' r = holds d r"
    and "dv_venc d' = dv_venc d" and "dv_vencs d' = dv_vencs d" and "sy_venc d' = sy_venc d"
  shows "encoders_inv d'"
proof -
  have h: "holds d' r = holds d r" if "r \<in> venc_kinds c" for r c using assms(2) that venc_kinds_sub by blast
  have ok: "venc_ok v d' = venc_ok v d" for v by (rule venc_ok_cong) (rule h)
  have tk: "venc_taken d' c = venc_taken d c" for c using assms(5) by (simp add: venc_taken_def)
  show ?thesis using assms(1) h unfolding encoders_inv_def ok tk assms(3,4) by blast
qed

text \<open>One operation on one encoder.\<close>

lemma put_venc_inv:
  assumes "encoders_inv d" and "dv_venc d i = Some v" and "calls_on (venc_kinds (vn_chn v)) d d'"
    and "same_venc v v'" and "venc_ok v' d'" and "distinct l"
    and "\<And>j. j \<in> set l \<longleftrightarrow> (if j = i then vn_running v' else j \<in> set (dv_vencs d))"
  shows "encoders_inv ((put_venc i v' d')\<lparr>dv_vencs := l\<rparr>)"
proof -
  let ?d = "(put_venc i v' d')\<lparr>dv_vencs := l\<rparr>"
  note f = encoders_fields [OF assms(3)] and c = same_venc_chn [OF assms(4)]
  have vs: "dv_venc ?d = (dv_venc d)(i := Some v')" using f(1) by (simp add: put_venc_def)
  have h: "holds ?d r = holds d r" if "r \<in> venc_kinds e" "e \<noteq> vn_chn v" for r e
    using calls_on_holds [OF assms(3)] venc_kinds_apart [of e "vn_chn v" r] that by auto
  have tk: "venc_taken ?d e = venc_taken d e" for e using f(4) by (simp add: venc_taken_def put_venc_def)
  have old: "venc_ok w ?d \<and> venc_taken ?d (vn_chn w)" if "dv_venc ?d j = Some w" for j w
  proof (cases "j = i")
    case True
    then have "w = v'" using that vs by simp
    moreover have "venc_ok v' ?d" using assms(5) by (rule iffD2 [OF venc_ok_cong, rotated]) simp
    moreover have "venc_taken ?d (vn_chn v')" using assms(1,2) c tk by (simp add: encoders_inv_def)
    ultimately show ?thesis by simp
  next
    case False
    then have w: "dv_venc d j = Some w" using that vs by simp
    then have "vn_chn w \<noteq> vn_chn v" using encoders_invD(3) [OF assms(1)] assms(2) False by blast
    then have "venc_ok w ?d = venc_ok w d" using h by (intro venc_ok_cong) auto
    then show ?thesis using assms(1) w tk by (simp add: encoders_inv_def)
  qed
  have chn: "map_option vn_chn (dv_venc ?d j) = map_option vn_chn (dv_venc d j)" for j
    using assms(2) vs c by auto
  have inj: "j = j'" if "dv_venc ?d j = Some w" "dv_venc ?d j' = Some w'" "vn_chn w = vn_chn w'" for j j' w w'
  proof -
    have "map_option vn_chn (dv_venc d j) = Some (vn_chn w)" "map_option vn_chn (dv_venc d j') = Some (vn_chn w)"
      using chn [of j] chn [of j'] that by simp_all
    then show ?thesis using encoders_invD(3) [OF assms(1)] by auto
  qed
  have none: "\<not> holds ?d r" if "\<forall>j w. dv_venc ?d j = Some w \<longrightarrow> vn_chn w \<noteq> e" "r \<in> venc_kinds e" for e r
  proof -
    have "\<forall>j w. dv_venc d j = Some w \<longrightarrow> vn_chn w \<noteq> e"
      using that(1) chn by (metis option.simps(9) map_option_eq_Some)
    then show ?thesis using encoders_invD(4) [OF assms(1) _ that(2)] assms(2) h [OF that(2)] by metis
  qed
  have lst: "j \<in> set (dv_vencs ?d) \<longleftrightarrow> (\<exists>w. dv_venc ?d j = Some w \<and> vn_running w)" for j
    using assms(1,7) vs by (auto simp: encoders_inv_def)
  show ?thesis unfolding encoders_inv_def using old inj none lst assms(6) by (intro conjI allI impI ballI) auto
qed

lemma erase_chn_set:
  assumes "distinct l" and "\<And>j. j \<in> set l \<Longrightarrow> map_option vn_chn (vs j) = Some c \<longleftrightarrow> j = i"
  shows "distinct (erase_chn vs c l)" and "set (erase_chn vs c l) = set l - {i}"
proof -
  have "erase_chn vs c l = remove1 i l" using assms by (induction l) (auto simp: remove1_idem)
  then show "distinct (erase_chn vs c l)" "set (erase_chn vs c l) = set l - {i}"
    using assms(1) by (simp_all add: distinct_remove1 set_remove1_eq)
qed

text \<open>What the operations on encoders leave alone.\<close>

definition encoders_only :: "'m encoders_state_scheme \<Rightarrow> 'm encoders_state_scheme \<Rightarrow> bool" where
  "encoders_only d d' \<longleftrightarrow>
     (\<exists>t f l. d' = d\<lparr>sd_trace := t, dv_venc := f, dv_vencs := l\<rparr>) \<and> keeps all_venc_kinds d d'"

lemma encoders_only_refl [simp]: "encoders_only d d"
  unfolding encoders_only_def by (intro conjI exI [of _ "sd_trace d"] exI [of _ "dv_venc d"] exI [of _ "dv_vencs d"]) simp_all

lemma encoders_only_trans [trans]:
  assumes "encoders_only a b" and "encoders_only b c"
  shows "encoders_only a c"
proof -
  obtain t f l u g m where "b = a\<lparr>sd_trace := t, dv_venc := f, dv_vencs := l\<rparr>" "c = b\<lparr>sd_trace := u, dv_venc := g, dv_vencs := m\<rparr>"
    using assms by (auto simp: encoders_only_def)
  then have "c = a\<lparr>sd_trace := u, dv_venc := g, dv_vencs := m\<rparr>" by simp
  then show ?thesis using assms keeps_trans [of all_venc_kinds a b c] by (auto simp: encoders_only_def)
qed

lemma encoders_only_fields:
  assumes "encoders_only d d'"
  shows "sy_venc d' = sy_venc d" "sy_rgn d' = sy_rgn d" "dv_vi_started d' = dv_vi_started d"
    "dv_isp_thread d' = dv_isp_thread d" "dv_osd d' = dv_osd d" "dv_aenc d' = dv_aenc d"
    "dv_aplay_started d' = dv_aplay_started d" "dv_capturing d' = dv_capturing d"
  using assms by (auto simp: encoders_only_def)

lemma encoders_update_shape:
  "(put_venc i v (d\<lparr>sd_trace := t\<rparr>))\<lparr>dv_vencs := l\<rparr> =
     d\<lparr>sd_trace := t, dv_venc := (dv_venc d)(i := Some v), dv_vencs := l\<rparr>"
  by (simp add: put_venc_def)

lemma put_venc_only:
  assumes "calls_on (venc_kinds c) d d'"
  shows "encoders_only d ((put_venc i v' d')\<lparr>dv_vencs := l\<rparr>)" and "encoders_only d (put_venc i v' d')"
proof -
  obtain t where "d' = d\<lparr>sd_trace := t\<rparr>" using assms by (rule calls_onE)
  moreover have "keeps all_venc_kinds d d'" using keeps_mono [OF calls_on_keeps [OF assms] venc_kinds_sub] .
  moreover have "put_venc i v' d' = (put_venc i v' d')\<lparr>dv_vencs := dv_vencs d\<rparr>"
    using \<open>d' = d\<lparr>sd_trace := t\<rparr>\<close> by (simp add: put_venc_def)
  ultimately show "encoders_only d ((put_venc i v' d')\<lparr>dv_vencs := l\<rparr>)" "encoders_only d (put_venc i v' d')"
    unfolding encoders_only_def keeps_def holds_encoders_update
    by (metis \<open>d' = d\<lparr>sd_trace := t\<rparr>\<close> encoders_update_shape)+
qed

lemma put_venc_same_list: "dv_vencs (put_venc i v d) = dv_vencs d" "dv_venc (put_venc i v d) = (dv_venc d)(i := Some v)"
  by (simp_all add: put_venc_def)

lemma encoder_prepare_spec:
  assumes "encoders_inv d" and "dv_venc d i = Some v" and "encoder_prepare k i d = (ok, d')"
  shows "encoders_inv d' \<and> encoders_only d d' \<and>
    (\<exists>v'. dv_venc d' = (dv_venc d)(i := Some v') \<and> same_venc v v' \<and> (ok \<longrightarrow> vn_created v') \<and> vn_running v' = vn_running v)"
proof -
  obtain v' d1 where p: "venc_prepare k v d = (ok, v', d1)" "d' = put_venc i v' d1"
    using assms(2,3) by (auto simp: encoder_prepare_def split: prod.splits)
  have sp: "calls_on (venc_kinds (vn_chn v)) d d1" "same_venc v v'" "venc_ok v' d1" "ok \<longrightarrow> vn_created v'"
      "vn_running v' = vn_running v"
    using venc_prepare_spec [OF p(1) encoders_invD(1) [OF assms(1,2)]] by auto
  note f = encoders_fields [OF sp(1)]
  have "encoders_inv ((put_venc i v' d1)\<lparr>dv_vencs := dv_vencs d\<rparr>)"
    by (rule put_venc_inv [OF assms(1,2) sp(1,2,3) encoders_invD(5) [OF assms(1)]])
      (use encoders_invD(6) [OF assms(1)] assms(2) sp(5) in auto)
  moreover have "(put_venc i v' d1)\<lparr>dv_vencs := dv_vencs d\<rparr> = put_venc i v' d1" using f(2) by (simp add: put_venc_def)
  ultimately show ?thesis
    using put_venc_only(2) [OF sp(1)] sp f(1) by (auto simp: p(2) put_venc_same_list)
qed

lemma encoder_resume_spec:
  assumes "encoders_inv d" and "dv_venc d i = Some v" and "encoder_resume k i d = (ok, d')"
  shows "encoders_inv d' \<and> encoders_only d d' \<and>
    (\<exists>v'. dv_venc d' = (dv_venc d)(i := Some v') \<and> same_venc v v' \<and> vn_running v' = ok)"
proof -
  let ?l = "dv_vencs d @ (if ok \<and> \<not> vn_running v then [i] else [])"
  obtain v' d1 where p: "venc_resume k v d = (ok, v', d1)" "d' = (put_venc i v' d1)\<lparr>dv_vencs := ?l\<rparr>"
    using assms(2,3) by (auto simp: encoder_resume_def split: prod.splits)
  have sp: "calls_on (venc_kinds (vn_chn v)) d d1" "same_venc v v'" "venc_ok v' d1" "vn_running v' = ok"
    using venc_resume_spec [OF p(1) encoders_invD(1) [OF assms(1,2)]] by auto
  have stays: "vn_running v \<Longrightarrow> ok" using p(1) by (auto simp: venc_resume_def)
  have "encoders_inv d'" unfolding p(2)
    by (rule put_venc_inv [OF assms(1,2) sp(1,2,3)])
      (use encoders_invD(5,6) [OF assms(1)] assms(2) sp(4) stays in auto)
  then show ?thesis
    using put_venc_only(1) [OF sp(1)] sp encoders_fields(1) [OF sp(1)] by (auto simp: p(2) put_venc_same_list)
qed

text \<open>Pausing and stopping remove the encoder from the list.\<close>

lemma erase_running:
  assumes "encoders_inv d" and "dv_venc d i = Some v"
  shows "distinct (if vn_running v then erase_chn (dv_venc d) (vn_chn v) (dv_vencs d) else dv_vencs d)"
    and "j \<in> set (if vn_running v then erase_chn (dv_venc d) (vn_chn v) (dv_vencs d) else dv_vencs d) \<longleftrightarrow>
      j \<noteq> i \<and> j \<in> set (dv_vencs d)"
proof -
  have "map_option vn_chn (dv_venc d j) = Some (vn_chn v) \<longleftrightarrow> j = i" if "j \<in> set (dv_vencs d)" for j
    using encoders_invD(3) [OF assms(1)] assms(2) by auto
  note e = erase_chn_set [OF encoders_invD(5) [OF assms(1)] this]
  show "distinct (if vn_running v then erase_chn (dv_venc d) (vn_chn v) (dv_vencs d) else dv_vencs d)"
    using e(1) encoders_invD(5) [OF assms(1)] by simp
  show "j \<in> set (if vn_running v then erase_chn (dv_venc d) (vn_chn v) (dv_vencs d) else dv_vencs d) \<longleftrightarrow>
      j \<noteq> i \<and> j \<in> set (dv_vencs d)"
    using e(2) encoders_invD(6) [OF assms(1), of i] assms(2) by auto
qed

lemma encoder_pause_spec:
  assumes "encoders_inv d" and "dv_venc d i = Some v"
  shows "encoders_inv (encoder_pause k i d) \<and> encoders_only d (encoder_pause k i d) \<and>
    (\<exists>v'. dv_venc (encoder_pause k i d) = (dv_venc d)(i := Some v') \<and> same_venc v v' \<and> \<not> vn_running v')"
proof -
  obtain v' d1 where p: "venc_pause k v d = (v', d1)" by fastforce
  have sp: "calls_on (venc_kinds (vn_chn v)) d d1" "same_venc v v'" "venc_ok v' d1" "\<not> vn_running v'"
    using venc_pause_spec [OF p encoders_invD(1) [OF assms]] by auto
  let ?l = "if vn_running v then erase_chn (dv_venc d) (vn_chn v) (dv_vencs d) else dv_vencs d"
  have eq: "encoder_pause k i d = (put_venc i v' d1)\<lparr>dv_vencs := ?l\<rparr>" using assms(2) p by (simp add: encoder_pause_def)
  have "encoders_inv (encoder_pause k i d)" unfolding eq
    by (rule put_venc_inv [OF assms sp(1,2,3) erase_running(1) [OF assms]]) (use erase_running(2) [OF assms] sp(4) in auto)
  then show ?thesis
    using put_venc_only(1) [OF sp(1)] sp encoders_fields(1) [OF sp(1)] by (auto simp: eq put_venc_same_list)
qed

lemma encoder_stop_spec:
  assumes "encoders_inv d" and "dv_venc d i = Some v"
  shows "encoders_inv (encoder_stop k i d) \<and> encoders_only d (encoder_stop k i d) \<and>
    (\<exists>v'. dv_venc (encoder_stop k i d) = (dv_venc d)(i := Some v') \<and> same_venc v v' \<and> \<not> vn_created v')"
proof -
  obtain v' d1 where p: "venc_stop k v d = (v', d1)" by fastforce
  have sp: "calls_on (venc_kinds (vn_chn v)) d d1" "same_venc v v'" "venc_ok v' d1" "\<not> vn_created v'"
    using venc_stop_spec [OF p encoders_invD(1) [OF assms]] by auto
  then have nr: "\<not> vn_running v'" by (auto simp: venc_ok_def)
  let ?l = "if vn_running v then erase_chn (dv_venc d) (vn_chn v) (dv_vencs d) else dv_vencs d"
  have eq: "encoder_stop k i d = (put_venc i v' d1)\<lparr>dv_vencs := ?l\<rparr>" using assms(2) p by (simp add: encoder_stop_def)
  have "encoders_inv (encoder_stop k i d)" unfolding eq
    by (rule put_venc_inv [OF assms sp(1,2,3) erase_running(1) [OF assms]]) (use erase_running(2) [OF assms] nr in auto)
  then show ?thesis
    using put_venc_only(1) [OF sp(1)] sp encoders_fields(1) [OF sp(1)] by (auto simp: eq put_venc_same_list)
qed

text \<open>A new encoder has a channel of its own.\<close>

lemma alloc_frame:
  assumes "alloc_venc_chn d = (c, d1)"
  shows "\<exists>p. d1 = d\<lparr>sy_venc := p\<rparr>" and "holds d1 r = holds d r"
proof -
  show "\<exists>p. d1 = d\<lparr>sy_venc := p\<rparr>" using assms by (auto simp: alloc_venc_chn_def split: prod.splits)
  then show "holds d1 r = holds d r" by (auto simp: holds_def)
qed

lemma new_venc_spec:
  assumes "encoders_inv d" and "dv_venc d i = None" and "free_chns (Suc n) d"
  shows "encoders_inv (new_venc i h265 avbr w h src_fr fr bitrate svc source d)"
    and "free_chns n (new_venc i h265 avbr w h src_fr fr bitrate svc source d)"
    and "\<exists>v p. new_venc i h265 avbr w h src_fr fr bitrate svc source d =
        d\<lparr>sy_venc := p, dv_venc := (dv_venc d)(i := Some v)\<rparr> \<and>
        \<not> vn_created v \<and> \<not> vn_bound v \<and> \<not> vn_running v \<and> vn_svc v = svc \<and> vn_h265 v = h265 \<and> vn_source v = source"
proof -
  obtain c d1 where a: "alloc_venc_chn d = (c, d1)" by fastforce
  obtain p where d1: "d1 = d\<lparr>sy_venc := p\<rparr>" using alloc_frame(1) [OF a] by blast
  define v where "v = \<lparr>vn_chn = c, vn_w = w, vn_h = h, vn_src_fr = src_fr, vn_fr = fr, vn_bitrate = bitrate, vn_svc = svc,
          vn_h265 = h265, vn_avbr = avbr, vn_source = source, vn_created = False, vn_bound = False, vn_running = False\<rparr>"
  let ?d = "new_venc i h265 avbr w h src_fr fr bitrate svc source d"
  have eq: "?d = d\<lparr>sy_venc := p, dv_venc := (dv_venc d)(i := Some v)\<rparr>"
    by (simp add: new_venc_def a v_def d1)
  note fresh = alloc_venc_chn_fresh [OF a alloc_venc_chn_free(1) [OF assms(3) a]]
  have hd: "holds ?d r = holds d r" for r unfolding eq by (simp add: holds_def)
  have tk: "venc_taken ?d e \<longleftrightarrow> e = c \<or> venc_taken d e" for e
    using fresh(2) unfolding eq d1 by (simp add: venc_taken_def)
  have other: "\<forall>j w. dv_venc d j = Some w \<longrightarrow> vn_chn w \<noteq> c"
    using fresh(1) encoders_invD(2) [OF assms(1)] by auto
  have none: "\<not> holds d r" if "r \<in> venc_kinds c" for r using encoders_invD(4) [OF assms(1) other that] .
  have vs: "dv_venc ?d = (dv_venc d)(i := Some v)" "dv_vencs ?d = dv_vencs d" unfolding eq by simp_all
  have okv: "venc_ok v ?d" using none by (auto simp: venc_ok_defs v_def hd venc_kinds_def)
  have okw: "venc_ok w ?d = venc_ok w d" for w by (rule venc_ok_cong) (rule hd)
  show "encoders_inv ?d"
    unfolding encoders_inv_def
  proof (intro conjI allI impI ballI)
    fix j w assume j: "dv_venc ?d j = Some w"
    show "venc_ok w ?d" using j okv okw encoders_invD(1) [OF assms(1)] by (auto simp: vs split: if_splits)
    show "venc_taken ?d (vn_chn w)"
      using j tk encoders_invD(2) [OF assms(1)] by (auto simp: vs v_def split: if_splits)
  next
    fix j j' x x' assume "dv_venc ?d j = Some x" "dv_venc ?d j' = Some x'" "vn_chn x = vn_chn x'"
    moreover have "vn_chn v = c" by (simp add: v_def)
    ultimately show "j = j'" using other encoders_invD(3) [OF assms(1)] by (fastforce simp: vs split: if_splits)
  next
    fix e r assume e: "\<forall>j w. dv_venc ?d j = Some w \<longrightarrow> vn_chn w \<noteq> e" "r \<in> venc_kinds e"
    have "vn_chn x \<noteq> e" if "dv_venc d j = Some x" for j x
      using e(1) [rule_format, of j x] assms(2) that by (cases "j = i") (simp_all add: vs)
    then show "\<not> holds ?d r" using encoders_invD(4) [OF assms(1)] e(2) hd by blast
  next
    show "distinct (dv_vencs ?d)" using encoders_invD(5) [OF assms(1)] by (simp add: vs)
    show "j \<in> set (dv_vencs ?d) \<longleftrightarrow> (\<exists>w. dv_venc ?d j = Some w \<and> vn_running w)" for j
      using encoders_invD(6) [OF assms(1), of j] assms(2) by (auto simp: vs v_def)
  qed
  show "free_chns n ?d" using alloc_venc_chn_free(2) [OF assms(3) a] unfolding eq d1 by (simp add: free_chns_def)
  show "\<exists>v p. ?d = d\<lparr>sy_venc := p, dv_venc := (dv_venc d)(i := Some v)\<rparr> \<and>
        \<not> vn_created v \<and> \<not> vn_bound v \<and> \<not> vn_running v \<and> vn_svc v = svc \<and> vn_h265 v = h265 \<and> vn_source v = source"
    using eq by (intro exI [of _ v] exI [of _ p]) (simp add: v_def)
qed

text \<open>A stopped encoder can be destroyed.\<close>

lemma free_frame: "\<exists>p. free_venc_chn c d = d\<lparr>sy_venc := p\<rparr>"
proof -
  have "d = d\<lparr>sy_venc := sy_venc d\<rparr>" by simp
  then show ?thesis unfolding free_venc_chn_def by (metis (full_types))
qed

lemma drop_venc_spec:
  assumes "encoders_inv d" and "\<And>v. dv_venc d i = Some v \<Longrightarrow> \<not> vn_created v"
  shows "encoders_inv (drop_venc i d)" and "\<exists>p. drop_venc i d = d\<lparr>sy_venc := p, dv_venc := (dv_venc d)(i := None)\<rparr>"
proof -
  have "encoders_inv (drop_venc i d) \<and> (\<exists>p. drop_venc i d = d\<lparr>sy_venc := p, dv_venc := (dv_venc d)(i := None)\<rparr>)"
  proof (cases "dv_venc d i")
    case None
    then have "d = d\<lparr>sy_venc := sy_venc d, dv_venc := (dv_venc d)(i := None)\<rparr>" by (simp add: fun_upd_idem)
    then have "\<exists>p. drop_venc i d = d\<lparr>sy_venc := p, dv_venc := (dv_venc d)(i := None)\<rparr>"
      using None unfolding drop_venc_def by (metis option.case(1))
    then show ?thesis using assms(1) None by (simp add: drop_venc_def)
  next
    case (Some v)
    obtain p where p: "free_venc_chn (vn_chn v) d = d\<lparr>sy_venc := p\<rparr>" using free_frame by blast
    let ?d = "drop_venc i d"
    have eq: "?d = d\<lparr>sy_venc := p, dv_venc := (dv_venc d)(i := None)\<rparr>" using Some p by (simp add: drop_venc_def)
    have hd: "holds ?d r = holds d r" for r unfolding eq by (simp add: holds_def)
    have tk: "venc_taken ?d e \<longleftrightarrow> e \<noteq> vn_chn v \<and> venc_taken d e" for e
      using free_venc_chn_taken [of "vn_chn v" d e] unfolding eq p by (simp add: venc_taken_def)
    have vs: "dv_venc ?d = (dv_venc d)(i := None)" "dv_vencs ?d = dv_vencs d" unfolding eq by simp_all
    have okw: "venc_ok w ?d = venc_ok w d" for w by (rule venc_ok_cong) (rule hd)
    have okv: "venc_ok v d" using encoders_invD(1) [OF assms(1) Some] .
    have off: "\<not> vn_created v" "\<not> vn_running v" using assms(2) [OF Some] okv by (auto simp: venc_ok_def)
    have "encoders_inv ?d"
      unfolding encoders_inv_def
    proof (intro conjI allI impI ballI)
      fix j w assume j: "dv_venc ?d j = Some w"
      then have w: "dv_venc d j = Some w" "j \<noteq> i" by (auto simp: vs split: if_splits)
      show "venc_ok w ?d" using okw encoders_invD(1) [OF assms(1) w(1)] by simp
      show "venc_taken ?d (vn_chn w)"
        using tk encoders_invD(2) [OF assms(1) w(1)] encoders_invD(3) [OF assms(1) w(1) Some] w(2) by auto
    next
      fix j j' w w' assume "dv_venc ?d j = Some w" "dv_venc ?d j' = Some w'" "vn_chn w = vn_chn w'"
      then show "j = j'" using encoders_invD(3) [OF assms(1)] by (auto simp: vs split: if_splits)
    next
      fix e r assume e: "\<forall>j w. dv_venc ?d j = Some w \<longrightarrow> vn_chn w \<noteq> e" "r \<in> venc_kinds e"
      show "\<not> holds ?d r"
      proof (cases "e = vn_chn v")
        case True
        then show ?thesis using venc_stopped_none [OF okv off(1)] e(2) hd by simp
      next
        case False
        have "vn_chn w \<noteq> e" if "dv_venc d j = Some w" for j w
          using False e(1) [rule_format, of j w] Some that by (cases "j = i") (simp_all add: vs)
        then show ?thesis using encoders_invD(4) [OF assms(1)] e(2) hd by blast
      qed
    next
      show "distinct (dv_vencs ?d)" using encoders_invD(5) [OF assms(1)] by (simp add: vs)
      show "j \<in> set (dv_vencs ?d) \<longleftrightarrow> (\<exists>w. dv_venc ?d j = Some w \<and> vn_running w)" for j
        using encoders_invD(6) [OF assms(1), of j] Some off(2) by (auto simp: vs)
    qed
    then show ?thesis using eq by blast
  qed
  then show "encoders_inv (drop_venc i d)" "\<exists>p. drop_venc i d = d\<lparr>sy_venc := p, dv_venc := (dv_venc d)(i := None)\<rparr>" by auto
qed

text \<open>Without encoders, nothing of them is held.\<close>

lemma no_encoder_none: "encoders_inv d \<Longrightarrow> dv_venc d = Map.empty \<Longrightarrow> r \<in> all_venc_kinds \<Longrightarrow> \<not> holds d r"
  by (auto simp: all_venc_kinds_def dest: encoders_invD(4))

section \<open>The microphone\<close>

lemma audio_kinds_apart: "r \<in> all_venc_kinds \<Longrightarrow> r \<notin> audio_kinds"
  by (auto simp: all_venc_kinds_def venc_kinds_def audio_kind_defs)

lemma venc_enable_audio_spec:
  assumes "audio_inv d" and "venc_enable_audio k enable is_mic name d = (ok, d')"
  shows "audio_inv d' \<and> keeps audio_kinds d d' \<and> (\<exists>t a. d' = d\<lparr>sd_trace := t, dv_aenc := a\<rparr>) \<and>
    (\<not> dv_capturing d \<longrightarrow> (if ok \<and> enable then dv_aenc d' \<noteq> None else dv_aenc d' = None))"
proof (cases "dv_capturing d")
  case True
  then have "d' = d" using assms(2) by (simp add: venc_enable_audio_def)
  moreover have "\<exists>t a. d = d\<lparr>sd_trace := t, dv_aenc := a\<rparr>"
    by (rule exI [of _ "sd_trace d"], rule exI [of _ "dv_aenc d"]) simp
  ultimately show ?thesis using True assms(1) by simp
next
  case False
  define d1 where "d1 = (if dv_aenc d \<noteq> None then (aenc_stop k d)\<lparr>dv_aenc := None\<rparr> else d)"
  obtain t where st: "aenc_stop k d = d\<lparr>sd_trace := t\<rparr>" using aenc_stop_on by (rule calls_onE)
  have shape1: "\<exists>t. d1 = d\<lparr>sd_trace := t, dv_aenc := None\<rparr>"
  proof (cases "dv_aenc d")
    case None
    then have "d = d\<lparr>sd_trace := sd_trace d, dv_aenc := None\<rparr>" by simp
    then show ?thesis using None unfolding d1_def by (metis)
  qed (use st in \<open>auto simp: d1_def\<close>)
  have h1: "holds d1 r = holds d r" if "r \<notin> aenc_kinds" for r
    using calls_on_holds [OF aenc_stop_on that, of k d] by (simp add: d1_def)
  have none1: "\<not> holds d1 r" if "r \<in> aenc_kinds" for r
    using aenc_stop_none [OF that] assms(1) that by (auto simp: d1_def audio_inv_def)
  have f1: "dv_aenc d1 = None" "dv_aplay_started d1 = dv_aplay_started d" using shape1 by auto
  have inv1: "audio_inv d1"
    using assms(1) none1 h1 f1 by (auto simp: audio_inv_def audio_kind_defs)
  have keeps1: "keeps audio_kinds d d1" using h1 by (auto simp: keeps_def audio_kind_defs)
  consider "\<not> enable" "ok" "d' = d1" | "enable" "\<not> ok" "d' = d1"
    | a where "enable" "aenc_get_instance name is_mic = Some a"
      "(ok, d') = and_try (aenc_start k a d1) (\<lambda>d2. (True, d2\<lparr>dv_aenc := Some a\<rparr>))"
    using assms(2) False unfolding venc_enable_audio_def Let_def d1_def [symmetric]
    by (auto split: if_splits option.splits)
  then show ?thesis
  proof cases
    case (3 a)
    let ?d2 = "snd (aenc_start k a d1)"
    have ok: "ok = fst (aenc_start k a d1)" and d': "d' = (if ok then ?d2\<lparr>dv_aenc := Some a\<rparr> else ?d2)"
      using 3(3) by (auto simp: and_try_def split: if_splits)
    obtain u where sh2: "?d2 = d1\<lparr>sd_trace := u\<rparr>" using aenc_start_on by (rule calls_onE)
    have h2: "holds ?d2 r = holds d1 r" if "r \<notin> aenc_kinds \<union> {Dev_File ACODEC_FILE}" for r
      using calls_on_holds [OF aenc_start_on that] .
    have nofile: "\<not> holds ?d2 (Dev_File ACODEC_FILE)"
    proof -
      let ?r1 = "sdk_sequence k
         [Configure [''ss_mpi_ai_set_pub_attr''] [0, if ae_g711u a then 8000 else 44100], Acquire (Ai_Dev 0)] d1"
      let ?cs = "[Release (Aenc_Chn 0), Release (Ai_Chn 0 0), Release (Ai_Dev 0)]"
      have "\<not> holds (snd ?r1) (Dev_File ACODEC_FILE)"
        using inv1 calls_on_holds [OF calls_on_sequence [OF subset_refl]] by (simp add: audio_inv_def)
      then have "\<not> holds (snd (aenc_open k a (snd ?r1))) (Dev_File ACODEC_FILE)" by (rule aenc_open_file)
      moreover have "holds (sdk_tells k ?cs e) (Dev_File ACODEC_FILE) = holds e (Dev_File ACODEC_FILE)" for e :: "'a encoders_state_scheme"
        by (rule calls_on_holds [OF calls_on_tells [OF subset_refl]]) simp
      ultimately show ?thesis
        using \<open>\<not> holds (snd ?r1) (Dev_File ACODEC_FILE)\<close> by (simp add: aenc_start_def del: sdk_sequence.simps)
    qed
    have f2: "dv_aenc ?d2 = None" "dv_aplay_started ?d2 = dv_aplay_started d" using sh2 f1 by simp_all
    have failed: "\<not> ok \<Longrightarrow> \<forall>r\<in>aenc_kinds. \<not> holds ?d2 r"
      using aenc_start_failed [of k a d1] none1 ok by blast
    have "audio_inv d'"
      using d' nofile failed f2 inv1 h2 f1
      by (auto simp: audio_inv_def) (auto simp: audio_kind_defs)
    moreover have "keeps audio_kinds d d'"
      using d' h2 keeps1 by (auto simp: keeps_def audio_kind_defs)
    moreover obtain t1 where t1: "d1 = d\<lparr>sd_trace := t1, dv_aenc := None\<rparr>" using shape1 by blast
    have "d' = d\<lparr>sd_trace := u, dv_aenc := (if ok then Some a else None)\<rparr>"
      using d' unfolding sh2 unfolding t1 by (cases ok) simp_all
    then have "\<exists>t a. d' = d\<lparr>sd_trace := t, dv_aenc := a\<rparr>" by blast
    ultimately show ?thesis using d' f2 False 3(1) by simp
  qed (use inv1 keeps1 shape1 f1 in auto)
qed

section \<open>Pictures\<close>

text \<open>What the packs of a picture say: the data of the packs that are wanted.\<close>

definition wanted_data :: "bool \<Rightarrow> venc_pack list \<Rightarrow> u8 list list" where
  "wanted_data h265 ps = filter (wanted_pack h265) (List.map_filter pack_data ps)"

lemma packs_to_nalus_data:
  "map nu_data (packs_to_nalus h265 n ps) = map Some (take (MAX_STREAM_NALU_COUNT - n) (wanted_data h265 ps))"
proof (induction ps arbitrary: n)
  case (Cons p ps)
  show ?case
  proof (cases "n \<ge> MAX_STREAM_NALU_COUNT")
    case False
    then have "MAX_STREAM_NALU_COUNT - n = Suc (MAX_STREAM_NALU_COUNT - Suc n)" by simp
    then show ?thesis
      using False Cons.IH by (auto simp: wanted_data_def pack_nalu_def List.map_filter_simps split: option.splits)
  qed simp
qed (simp add: wanted_data_def)

lemma packs_to_nalus_length: "n \<le> MAX_STREAM_NALU_COUNT \<Longrightarrow> length (packs_to_nalus h265 n ps) \<le> MAX_STREAM_NALU_COUNT - n"
  using arg_cong [OF packs_to_nalus_data [of h265 n ps], of length] by simp

text \<open>The slices of the unit are the data of the first eight wanted packs, and none of them is empty.\<close>

lemma process_video_slices:
  assumes "wanted_data h265 ps \<noteq> []"
  shows "\<exists>h. process_video_stream h265 ps = Some h \<and> sh_type h = STREAM_NALU_SLICE \<and>
    map nu_data (slices h) = map Some (take MAX_STREAM_NALU_COUNT (wanted_data h265 ps))"
proof -
  let ?ns = "packs_to_nalus h265 0 ps"
  have data: "map nu_data ?ns = map Some (take MAX_STREAM_NALU_COUNT (wanted_data h265 ps))"
    using packs_to_nalus_data [of h265 0 ps] by simp
  then have ne: "?ns \<noteq> []" using assms by (auto simp: MAX_STREAM_NALU_COUNT_def)
  have len: "length ?ns \<le> 8" using packs_to_nalus_length [of 0 h265 ps] by (simp add: MAX_STREAM_NALU_COUNT_def)
  then have "unat (of_nat (length ?ns) :: u32) = length ?ns" by (simp add: unat_of_nat)
  then show ?thesis
    using ne len data by (simp add: process_video_stream_def slices_def MAX_STREAM_NALU_COUNT_def Let_def)
qed

lemma wanted_data_nonempty: "[] \<notin> set (wanted_data h265 ps)"
  by (auto simp: wanted_data_def map_filter_def pack_data_def split: option.splits if_splits)

end
