(* ===== verification/Dev_Chn.thy ===== *)
theory Dev_Chn
  imports Dev_Encoders
begin

text \<open>
  A camera channel (src/devices/hisi\_3516cv610/dev\_chn.cpp): the capture, the main and the sub encoder and
  their clocks as one thing that is started and stopped, the sub stream that is switched on and off while
  the channel runs, and the requests that reach it by its number.  There is one channel, number 0.
  \<open>None\<close> is the end of the program: a capture that fails after its image processing has been started is destroyed
  together with a thread that can still be joined.  The lemmas show that the parts account for everything
  that is held after every operation, that a start that fails leaves nothing behind unless
  the capture itself has failed, and that the sub encoder runs just when the channel says so.
\<close>

section \<open>State\<close>

definition MAX_CHANNEL :: int where "MAX_CHANNEL = 1"

record venc_encode_options =
  vo_enable :: bool
  vo_width :: int
  vo_height :: int
  vo_frame_rate :: int
  vo_bitrate_kbps :: int
  vo_svc_enable :: int
  vo_osd :: time_osd_config

definition default_encode_options :: venc_encode_options where
  "default_encode_options =
     \<lparr>vo_enable = True, vo_width = 1280, vo_height = 720, vo_frame_rate = 15, vo_bitrate_kbps = 800, vo_svc_enable = 0,
      vo_osd = \<lparr>to_enable = False, to_x = 32, to_y = 32, to_font_size = 32\<rparr>\<rparr>"

text \<open>What the constructor is given.\<close>

record chn =
  ch_vi_name :: string
  ch_venc_mode :: string
  ch_no :: int

text \<open>
  The members and the statics of the class.  \<open>dc_registered\<close> says whether \<^verbatim>\<open>g_chns[0]\<close> is the channel, \<open>dc_observes\<close> which
  encoders it observes.  The two statics for the name of the audio encoder are never read.
\<close>

record device = encoders_state +
  dc_is_start :: bool
  dc_vi :: "vi option"
  dc_sub_running :: bool
  dc_registered :: bool
  dc_observes :: "venc_id set"
  dc_sys_flag :: int
  dc_vi_max_w :: int
  dc_vi_max_h :: int
  dc_vi_fr :: int
  dc_vi_wdr_mode :: int

section \<open>Start\<close>

text \<open>H.265 or not, AVBR or not.\<close>

definition venc_of_mode :: "string \<Rightarrow> (bool \<times> bool) option" where
  "venc_of_mode mode =
     (if mode = ''H264_CBR'' then Some (False, False)
      else if mode = ''H264_AVBR'' then Some (False, True)
      else if mode = ''H265_CBR'' then Some (True, False)
      else if mode = ''H265_AVBR'' then Some (True, True) else None)"

definition venc_chn_of :: "venc_id \<Rightarrow> 'm encoders_state_scheme \<Rightarrow> int" where
  "venc_chn_of i d = (case dv_venc d i of None \<Rightarrow> - 1 | Some v \<Rightarrow> vn_chn v)"

text \<open>The sub encoder reads from the main encoder.\<close>

definition sub_source :: "int \<Rightarrow> media_port" where
  "sub_source main_chn = (if main_chn \<noteq> - 1 then Port_Venc 1 main_chn else Port_Vpss (- 1) (- 1))"

definition make_encoders ::
  "bool \<times> bool \<Rightarrow> vi \<Rightarrow> venc_encode_options \<Rightarrow> venc_encode_options \<Rightarrow> 'm encoders_state_scheme \<Rightarrow> 'm encoders_state_scheme" where
  "make_encoders mode v main sub d =
     (let d1 = new_venc Main_Venc (fst mode) (snd mode) (vo_width main) (vo_height main) (vi_fr v) (vo_frame_rate main)
            (vo_bitrate_kbps main) (vo_svc_enable main \<noteq> 0) (Port_Vpss vi_vpss_grp vi_vpss_chn) d
      in if \<not> vo_enable sub then d1
         else new_venc Sub_Venc (fst mode) (snd mode) (vo_width sub) (vo_height sub) (vo_frame_rate sub) (vo_frame_rate sub)
            (vo_bitrate_kbps sub) False (sub_source (venc_chn_of Main_Venc d1)) d1)"

definition start_both :: "sdk_answers \<Rightarrow> 'm encoders_state_scheme \<Rightarrow> bool \<times> 'm encoders_state_scheme" where
  "start_both k d =
     and_try (encoder_resume k Main_Venc d)
       (\<lambda>d1. if dv_venc d1 Sub_Venc \<noteq> None then encoder_prepare k Sub_Venc d1 else (True, d1))"

definition start_clocks ::
  "sdk_answers \<Rightarrow> venc_encode_options \<Rightarrow> venc_encode_options \<Rightarrow> 'm encoders_state_scheme \<Rightarrow> bool \<times> 'm encoders_state_scheme" where
  "start_clocks k main sub d =
     and_try (start_time_osd k Main_Venc (vo_osd main) (venc_chn_of Main_Venc d) d)
       (\<lambda>d1. if dv_venc d1 Sub_Venc \<noteq> None
             then start_time_osd k Sub_Venc (vo_osd sub) (venc_chn_of Sub_Venc d1) d1 else (True, d1))"

definition stop_clocks :: "sdk_answers \<Rightarrow> 'm osd_state_scheme \<Rightarrow> 'm osd_state_scheme" where
  "stop_clocks k d = stop_time_osd k Sub_Venc (stop_time_osd k Main_Venc d)"

definition stop_both :: "sdk_answers \<Rightarrow> 'm encoders_state_scheme \<Rightarrow> 'm encoders_state_scheme" where
  "stop_both k d = encoder_stop k Sub_Venc (encoder_stop k Main_Venc d)"

definition drop_both :: "'m encoders_state_scheme \<Rightarrow> 'm encoders_state_scheme" where
  "drop_both d = drop_venc Sub_Venc (drop_venc Main_Venc d)"

text \<open>The part of \<^verbatim>\<open>chn::start\<close> that follows the start of the capture.\<close>

definition start_streams ::
  "sdk_answers \<Rightarrow> chn \<Rightarrow> vi \<Rightarrow> venc_encode_options \<Rightarrow> venc_encode_options \<Rightarrow> 'm device_scheme \<Rightarrow> bool \<times> 'm device_scheme" where
  "start_streams k c v main sub d =
     (case venc_of_mode (ch_venc_mode c) of
        None \<Rightarrow> (False, (vi_isp_stop k v d)\<lparr>dc_vi := None\<rparr>)
      | Some mode \<Rightarrow>
          let r1 = start_both k (make_encoders mode v main sub d); r2 = start_clocks k main sub (snd r1) in
          if \<not> fst r1 then (False, (vi_isp_stop k v (drop_both (stop_both k (snd r1))))\<lparr>dc_vi := None\<rparr>)
          else if \<not> fst r2 then
            (False, (drop_both (vi_isp_stop k v (stop_both k (stop_clocks k (snd r2)))))\<lparr>dc_vi := None\<rparr>)
          else (True, (snd r2)\<lparr>dc_observes := dom (dv_venc (snd r2)), dc_registered := True,
                               dc_sub_running := False, dc_is_start := True\<rparr>))"

text \<open>The sensor the channel takes, if it can: the scaler gets the size of the main stream.\<close>

definition sized_vi :: "venc_encode_options \<Rightarrow> vi \<Rightarrow> vi" where
  "sized_vi main v =
     v\<lparr>vi_vpss_w := uint (word_of_int (vo_width main) :: u32), vi_vpss_h := uint (word_of_int (vo_height main) :: u32)\<rparr>"

definition too_large :: "venc_encode_options \<Rightarrow> vi \<Rightarrow> bool" where
  "too_large main v \<longleftrightarrow> vo_width main > vi_w v \<or> vo_height main > vi_h v \<or> vo_frame_rate main > vi_fr v"

definition chn_start ::
  "sdk_answers \<Rightarrow> chn \<Rightarrow> venc_encode_options \<Rightarrow> venc_encode_options \<Rightarrow> 'm device_scheme \<Rightarrow> (bool \<times> 'm device_scheme) option" where
  "chn_start k c main sub d =
     (if dc_is_start d \<or> ch_no c < 0 \<or> ch_no c \<ge> MAX_CHANNEL \<or> \<not> vo_enable main then Some (False, d)
      else
        case make_vi (ch_vi_name c) (dc_sys_flag d) (dc_vi_max_w d) (dc_vi_max_h d) (dc_vi_fr d) (dc_vi_wdr_mode d) of
          None \<Rightarrow> Some (False, d)
        | Some v \<Rightarrow>
            (case vi_isp_destroy d of
               None \<Rightarrow> None
             | Some d0 \<Rightarrow>
                 if too_large main v then Some (False, d0\<lparr>dc_vi := Some v\<rparr>)
                 else
                   let w = sized_vi main v; r = vi_isp_start k w (d0\<lparr>dc_vi := Some w\<rparr>) in
                   if fst r then Some (start_streams k c w main sub (snd r))
                   else map_option (\<lambda>d1. (False, d1\<lparr>dc_vi := None\<rparr>)) (vi_isp_destroy (snd r))))"

text \<open>The variant with sizes.\<close>

definition chn_start_sizes ::
  "sdk_answers \<Rightarrow> chn \<Rightarrow> int \<Rightarrow> int \<Rightarrow> int \<Rightarrow> int \<Rightarrow> int \<Rightarrow> time_osd_config \<Rightarrow> 'm device_scheme \<Rightarrow>
   (bool \<times> 'm device_scheme) option" where
  "chn_start_sizes k c w h fr bitrate svc clock d =
     chn_start k c
       (default_encode_options\<lparr>vo_width := w, vo_height := h, vo_frame_rate := fr, vo_bitrate_kbps := bitrate, vo_svc_enable := svc\<rparr>)
       (default_encode_options\<lparr>vo_width := 720, vo_height := 480, vo_frame_rate := fr, vo_bitrate_kbps := 1000, vo_osd := clock\<rparr>) d"

section \<open>Running\<close>

definition chn_stop :: "sdk_answers \<Rightarrow> 'm device_scheme \<Rightarrow> 'm device_scheme" where
  "chn_stop k d =
     (if \<not> dc_is_start d then d
      else
        let d1 = stop_both k (stop_clocks k d);
            d2 = (case dc_vi d of None \<Rightarrow> d1 | Some v \<Rightarrow> vi_isp_stop k v d1)
        in (drop_both d2)\<lparr>dc_is_start := False, dc_observes := {}, dc_vi := None, dc_sub_running := False,
                          dc_registered := False\<rparr>)"

definition set_sub_stream_enabled :: "sdk_answers \<Rightarrow> bool \<Rightarrow> 'm device_scheme \<Rightarrow> bool \<times> 'm device_scheme" where
  "set_sub_stream_enabled k enable d =
     (if \<not> dc_is_start d \<or> dv_venc d Sub_Venc = None then (False, d)
      else if dc_sub_running d = enable then (True, d)
      else
        let d1 = (if dv_capturing d then stop_capture d else d);
            r = (if enable
                 then and_try (encoder_resume k Sub_Venc d1)
                   (\<lambda>d2. (True, case dv_venc d2 Sub_Venc of None \<Rightarrow> d2 | Some v \<Rightarrow> snd (venc_request_i_frame k v d2)))
                 else (True, encoder_pause k Sub_Venc d1));
            r2 = (if dv_capturing d then (fst (start_capture (snd r)) \<and> fst r, snd (start_capture (snd r))) else r)
        in if fst r2 then (True, (snd r2)\<lparr>dc_sub_running := enable\<rparr>) else r2)"

definition chn_start_capture :: "bool \<Rightarrow> 'm encoders_state_scheme \<Rightarrow> 'm encoders_state_scheme" where
  "chn_start_capture enable d = (if enable then snd (start_capture d) else stop_capture d)"

definition svc_venc_chn :: "'m device_scheme \<Rightarrow> int option" where
  "svc_venc_chn d =
     (case dv_venc d Main_Venc of None \<Rightarrow> None | Some v \<Rightarrow> if vn_svc v then Some (vn_chn v) else None)"

definition request_i_frame :: "sdk_answers \<Rightarrow> int \<Rightarrow> int \<Rightarrow> 'm device_scheme \<Rightarrow> bool \<times> 'm device_scheme" where
  "request_i_frame k no stream d =
     (let ask = (\<lambda>i. case dv_venc d i of None \<Rightarrow> (False, d) | Some v \<Rightarrow> venc_request_i_frame k v d) in
      if no < 0 \<or> no \<ge> MAX_CHANNEL \<or> stream \<notin> {MAIN_STREAM_ID, SUB_STREAM_ID, AI_STREAM_ID} then (False, d)
      else if stream = AI_STREAM_ID then (True, d)
      else if \<not> dc_registered d then (False, d)
      else if stream = MAIN_STREAM_ID then ask Main_Venc
      else if dc_sub_running d then ask Sub_Venc else (False, d))"

section \<open>The library and sound\<close>

definition chn_init ::
  "sdk_answers \<Rightarrow> buffer_sizes \<Rightarrow> int \<Rightarrow> int \<Rightarrow> int \<Rightarrow> int \<Rightarrow> int \<Rightarrow> int \<Rightarrow> 'm device_scheme \<Rightarrow> bool \<times> 'm device_scheme" where
  "chn_init k bs flag lane_mode max_w max_h fr wdr_mode d =
     and_try
       (sys_init k bs flag max_w max_h
         (d\<lparr>dc_sys_flag := flag, dc_vi_max_w := max_w, dc_vi_max_h := max_h, dc_vi_fr := fr, dc_vi_wdr_mode := wdr_mode\<rparr>))
       (\<lambda>d1. (True, snd (venc_init k (snd (init_hs_mode k lane_mode d1)))))"

definition chn_release :: "sdk_answers \<Rightarrow> 'm audio_state_scheme \<Rightarrow> 'm audio_state_scheme" where
  "chn_release k d = sys_release k (venc_release k (aplay_stop k d))"

definition enable_audio_play :: "sdk_answers \<Rightarrow> bool \<Rightarrow> 'm audio_state_scheme \<Rightarrow> bool \<times> 'm audio_state_scheme" where
  "enable_audio_play k enable d = (if enable then aplay_start k d else (True, aplay_stop k d))"

section \<open>What the steps leave alone\<close>

text \<open>Sound, the capture thread and everything of the channel stays as it is.\<close>

definition same_rest :: "'m encoders_state_scheme \<Rightarrow> 'm encoders_state_scheme \<Rightarrow> bool" where
  "same_rest d d' \<longleftrightarrow>
     dv_aenc d' = dv_aenc d \<and> dv_aplay_started d' = dv_aplay_started d \<and> dv_silence_frames d' = dv_silence_frames d \<and>
     dv_capturing d' = dv_capturing d \<and> encoders_state.more d' = encoders_state.more d"

definition same_capture :: "'m encoders_state_scheme \<Rightarrow> 'm encoders_state_scheme \<Rightarrow> bool" where
  "same_capture d d' \<longleftrightarrow> dv_vi_started d' = dv_vi_started d \<and> dv_isp_thread d' = dv_isp_thread d"

definition mipi_kinds :: "resource set" where
  "mipi_kinds = {Mipi_Clock c |c. True} \<union> {Dev_File MIPI_DEV_NAME}"

definition stream_kinds :: "resource set" where
  "stream_kinds = all_venc_kinds \<union> osd_kinds"

definition camera_kinds :: "resource set" where
  "camera_kinds = vi_kinds \<union> stream_kinds"

definition streams_only :: "'m encoders_state_scheme \<Rightarrow> 'm encoders_state_scheme \<Rightarrow> bool" where
  "streams_only d d' \<longleftrightarrow> same_rest d d' \<and> same_capture d d' \<and> keeps stream_kinds d d'"

definition camera_only :: "'m encoders_state_scheme \<Rightarrow> 'm encoders_state_scheme \<Rightarrow> bool" where
  "camera_only d d' \<longleftrightarrow> same_rest d d' \<and> keeps (camera_kinds \<union> mipi_kinds) d d'"

lemmas same_defs = same_rest_def same_capture_def

lemma same_refl [simp]: "same_rest d d" "same_capture d d" "streams_only d d" "camera_only d d"
  by (simp_all add: same_defs streams_only_def camera_only_def)

lemma same_rest_trans [trans]: "same_rest a b \<Longrightarrow> same_rest b c \<Longrightarrow> same_rest a c"
  by (simp add: same_rest_def)

lemma streams_only_trans [trans]: "streams_only a b \<Longrightarrow> streams_only b c \<Longrightarrow> streams_only a c"
  by (simp add: streams_only_def same_defs keeps_def)

lemma camera_only_trans [trans]: "camera_only a b \<Longrightarrow> camera_only b c \<Longrightarrow> camera_only a c"
  by (simp add: camera_only_def same_defs keeps_def)

lemma streams_camera: "streams_only d d' \<Longrightarrow> camera_only d d'"
  by (auto simp: streams_only_def camera_only_def keeps_def camera_kinds_def)

lemma stream_kinds_apart:
  "r \<in> stream_kinds \<Longrightarrow> r \<notin> vi_kinds" "r \<in> stream_kinds \<Longrightarrow> r \<notin> mipi_kinds" "r \<in> stream_kinds \<Longrightarrow> r \<notin> audio_kinds"
  "r \<in> vi_kinds \<Longrightarrow> r \<notin> mipi_kinds" "r \<in> vi_kinds \<Longrightarrow> r \<notin> audio_kinds" "r \<in> mipi_kinds \<Longrightarrow> r \<notin> audio_kinds"
  "r \<in> osd_kinds \<Longrightarrow> r \<notin> all_venc_kinds"
  by (auto simp: stream_kinds_def all_venc_kinds_def venc_kinds_def mipi_kinds_def audio_kind_defs MIPI_DEV_NAME_def ACODEC_FILE_def
      dest!: vi_kinds_cases osd_kinds_cases)

lemma camera_kinds_apart: "r \<in> audio_kinds \<Longrightarrow> r \<notin> camera_kinds \<union> mipi_kinds"
  using stream_kinds_apart unfolding camera_kinds_def by blast

lemma camera_audio: "camera_only d d' \<Longrightarrow> audio_inv d \<Longrightarrow> audio_inv d'"
proof -
  assume a: "camera_only d d'" "audio_inv d"
  have "holds d' r = holds d r" if "r \<in> audio_kinds" for r
    using a(1) camera_kinds_apart [OF that] by (auto simp: camera_only_def keeps_def)
  then show ?thesis using a by (simp add: camera_only_def same_rest_def audio_inv_def audio_kind_defs)
qed

text \<open>The fields of the channel are those of the rest.\<close>

lemma same_rest_device:
  assumes "same_rest d d'"
  shows "dc_is_start d' = dc_is_start d" "dc_vi d' = dc_vi d" "dc_sub_running d' = dc_sub_running d"
    "dc_registered d' = dc_registered d" "dc_observes d' = dc_observes d" "device.more d' = device.more d"
    "dc_sys_flag d' = dc_sys_flag d" "dc_vi_max_w d' = dc_vi_max_w d" "dc_vi_max_h d' = dc_vi_max_h d"
    "dc_vi_fr d' = dc_vi_fr d" "dc_vi_wdr_mode d' = dc_vi_wdr_mode d"
  using assms by (cases d; cases d'; simp add: same_rest_def)+

text \<open>What an operation of the channel leaves alone: sound, the capture thread, all other resources.\<close>

definition chn_only :: "'m encoders_state_scheme \<Rightarrow> 'm encoders_state_scheme \<Rightarrow> bool" where
  "chn_only d d' \<longleftrightarrow>
     dv_aenc d' = dv_aenc d \<and> dv_aplay_started d' = dv_aplay_started d \<and> dv_capturing d' = dv_capturing d \<and>
     keeps (camera_kinds \<union> mipi_kinds) d d'"

lemma chn_only_trans [trans]: "chn_only a b \<Longrightarrow> chn_only b c \<Longrightarrow> chn_only a c"
  by (simp add: chn_only_def keeps_def)

lemma camera_chn_only: "camera_only d d' \<Longrightarrow> chn_only d d'"
  by (simp add: camera_only_def same_rest_def chn_only_def)

section \<open>Encoders and clocks together\<close>

definition parts_inv :: "'m encoders_state_scheme \<Rightarrow> bool" where
  "parts_inv d \<longleftrightarrow> encoders_inv d \<and> osd_inv d"

lemma venc_id_all: "(\<forall>i :: venc_id. P i) \<longleftrightarrow> P Main_Venc \<and> P Sub_Venc"
  by (metis venc_id.exhaust)

lemma encoder_step:
  assumes "parts_inv d" and "encoders_only d d'" and "encoders_inv d'"
  shows "parts_inv d' \<and> streams_only d d' \<and> dv_osd d' = dv_osd d"
proof -
  obtain t f l where s: "d' = d\<lparr>sd_trace := t, dv_venc := f, dv_vencs := l\<rparr>" and k: "keeps all_venc_kinds d d'"
    using assms(2) by (auto simp: encoders_only_def)
  have "osd_inv d'"
    by (rule osd_inv_frame [of d]) (use assms(1) k s stream_kinds_apart(7) in \<open>auto simp: parts_inv_def keeps_def\<close>)
  moreover have "same_rest d d'" "same_capture d d'" unfolding s by (simp_all add: same_defs)
  ultimately show ?thesis
    using assms(3) k s by (auto simp: parts_inv_def streams_only_def stream_kinds_def keeps_def)
qed

lemma clock_step:
  assumes "parts_inv d" and "osd_inv d'" and "keeps osd_kinds d d'"
    and "\<exists>t p s. d' = d\<lparr>sd_trace := t, sy_rgn := p, dv_osd := s\<rparr>"
  shows "parts_inv d' \<and> streams_only d d' \<and> dv_venc d' = dv_venc d"
proof -
  obtain t p s where s: "d' = d\<lparr>sd_trace := t, sy_rgn := p, dv_osd := s\<rparr>" using assms(4) by blast
  have "encoders_inv d'"
    by (rule encoders_inv_frame [of d]) (use assms(1,3) s stream_kinds_apart(7) in \<open>auto simp: parts_inv_def keeps_def\<close>)
  moreover have "same_rest d d'" "same_capture d d'" unfolding s by (simp_all add: same_defs)
  ultimately show ?thesis
    using assms(2,3) s by (auto simp: parts_inv_def streams_only_def stream_kinds_def keeps_def)
qed

lemma stop_clocks_spec:
  assumes "parts_inv d"
  shows "parts_inv (stop_clocks k d) \<and> streams_only d (stop_clocks k d) \<and> dv_venc (stop_clocks k d) = dv_venc d \<and>
    dv_osd (stop_clocks k d) = Map.empty"
proof -
  have one: "parts_inv (stop_time_osd k i e) \<and> streams_only e (stop_time_osd k i e) \<and>
      dv_venc (stop_time_osd k i e) = dv_venc e \<and> dv_osd (stop_time_osd k i e) = (dv_osd e)(i := None)"
    if "parts_inv e" for i and e :: "'a encoders_state_scheme"
  proof -
    have oi: "osd_inv e" using that by (simp add: parts_inv_def)
    show ?thesis
      using clock_step [OF that stop_time_osd_inv(1,2) [OF oi] stop_time_osd_shape [OF oi]] stop_time_osd_inv(3) [OF oi] by blast
  qed
  have "(m(Main_Venc := None)) (Sub_Venc := None) = Map.empty" for m :: "venc_id \<Rightarrow> osd option"
    by (rule ext) (metis fun_upd_apply venc_id.exhaust)
  then show ?thesis
    using one [OF assms, of Main_Venc] one [of "stop_time_osd k Main_Venc d" Sub_Venc] streams_only_trans
    unfolding stop_clocks_def by metis
qed

lemma encoder_stop_step:
  assumes "parts_inv d"
  shows "parts_inv (encoder_stop k i d) \<and> streams_only d (encoder_stop k i d) \<and> dv_osd (encoder_stop k i d) = dv_osd d \<and>
    (\<forall>j v. dv_venc (encoder_stop k i d) j = Some v \<longrightarrow> (if j = i then \<not> vn_created v else dv_venc d j = Some v))"
proof (cases "dv_venc d i")
  case None
  then show ?thesis using assms by (auto simp: encoder_stop_def)
next
  case (Some v)
  have "encoders_inv d" using assms by (simp add: parts_inv_def)
  note sp = encoder_stop_spec [OF this Some, of k]
  then show ?thesis using encoder_step [OF assms] by auto
qed

lemma stop_both_spec:
  assumes "parts_inv d"
  shows "parts_inv (stop_both k d) \<and> streams_only d (stop_both k d) \<and> dv_osd (stop_both k d) = dv_osd d \<and>
    (\<forall>j v. dv_venc (stop_both k d) j = Some v \<longrightarrow> \<not> vn_created v)"
proof -
  note a = encoder_stop_step [OF assms, of k Main_Venc]
  note b = encoder_stop_step [of "encoder_stop k Main_Venc d" k Sub_Venc]
  have "\<not> vn_created v" if "dv_venc (stop_both k d) j = Some v" for j v
    using that a b unfolding stop_both_def by (cases j) (fastforce split: if_splits)+
  moreover have "parts_inv (stop_both k d) \<and> streams_only d (stop_both k d) \<and> dv_osd (stop_both k d) = dv_osd d"
    using a b streams_only_trans unfolding stop_both_def by metis
  ultimately show ?thesis by blast
qed

lemma drop_step:
  assumes "parts_inv d" and "\<And>v. dv_venc d i = Some v \<Longrightarrow> \<not> vn_created v"
  shows "parts_inv (drop_venc i d) \<and> streams_only d (drop_venc i d) \<and> dv_osd (drop_venc i d) = dv_osd d \<and>
    dv_venc (drop_venc i d) = (dv_venc d)(i := None)"
proof -
  have ei: "encoders_inv d" "osd_inv d" using assms(1) by (simp_all add: parts_inv_def)
  obtain p where s: "drop_venc i d = d\<lparr>sy_venc := p, dv_venc := (dv_venc d)(i := None)\<rparr>"
    using drop_venc_spec(2) [OF ei(1) assms(2)] by blast
  have h: "holds (drop_venc i d) r = holds d r" for r unfolding s by (simp add: holds_def)
  have ev: "encoders_inv (drop_venc i d)" by (rule drop_venc_spec(1) [OF ei(1) assms(2)])
  have "osd_inv (drop_venc i d)" by (rule osd_inv_frame [OF ei(2)]) (use h s in simp_all)
  moreover have "same_rest d (drop_venc i d)" "same_capture d (drop_venc i d)" unfolding s by (simp_all add: same_defs)
  ultimately show ?thesis
    using ev h s by (simp add: parts_inv_def streams_only_def keeps_def)
qed

lemma drop_both_spec:
  assumes "parts_inv d" and "\<forall>j v. dv_venc d j = Some v \<longrightarrow> \<not> vn_created v"
  shows "parts_inv (drop_both d) \<and> streams_only d (drop_both d) \<and> dv_osd (drop_both d) = dv_osd d \<and>
    dv_venc (drop_both d) = Map.empty"
proof -
  let ?d1 = "drop_venc Main_Venc d"
  have a: "parts_inv ?d1 \<and> streams_only d ?d1 \<and> dv_osd ?d1 = dv_osd d \<and> dv_venc ?d1 = (dv_venc d)(Main_Venc := None)"
    by (rule drop_step [OF assms(1)]) (use assms(2) in blast)
  have b: "parts_inv (drop_both d) \<and> streams_only ?d1 (drop_both d) \<and> dv_osd (drop_both d) = dv_osd ?d1 \<and>
      dv_venc (drop_both d) = (dv_venc ?d1)(Sub_Venc := None)"
    unfolding drop_both_def by (rule drop_step [OF conjunct1 [OF a]]) (use assms(2) a in simp)
  have "(m(Main_Venc := None)) (Sub_Venc := None) = Map.empty" for m :: "venc_id \<Rightarrow> venc option"
    by (rule ext) (metis fun_upd_apply venc_id.exhaust)
  moreover have "streams_only d (drop_both d)" using streams_only_trans a b by blast
  ultimately show ?thesis using a b by simp
qed

text \<open>Stopping the capture leaves encoders and clocks alone.\<close>

lemma vi_isp_stop_spec:
  assumes "parts_inv d"
  shows "parts_inv (vi_isp_stop k v d) \<and> camera_only d (vi_isp_stop k v d) \<and>
    dv_venc (vi_isp_stop k v d) = dv_venc d \<and> dv_osd (vi_isp_stop k v d) = dv_osd d"
proof -
  let ?d = "vi_isp_stop k v d"
  obtain t a b where s: "?d = d\<lparr>sd_trace := t, dv_vi_started := a, dv_isp_thread := b\<rparr>"
    using vi_isp_stop_only [of d k v] unfolding video_only_def by blast
  have sub: "vi_resources v \<union> mipi_resources v \<union> {Vpss_Chn vi_vpss_grp 1} \<subseteq> vi_kinds \<union> mipi_kinds"
    using vi_resources_kinds [of v] by (auto simp: vi_kinds_def mipi_kinds_def mipi_resources_def)
  have k: "keeps (vi_kinds \<union> mipi_kinds) d ?d" by (rule keeps_mono [OF vi_isp_stop_keeps sub])
  have h: "holds ?d r = holds d r" if "r \<in> stream_kinds" for r
    using k stream_kinds_apart(1,2) [OF that] by (simp add: keeps_def)
  have "encoders_inv ?d"
    by (rule encoders_inv_frame [of d]) (use assms h s in \<open>simp_all add: parts_inv_def stream_kinds_def\<close>)
  moreover have "osd_inv ?d"
    by (rule osd_inv_frame [of d]) (use assms h s in \<open>simp_all add: parts_inv_def stream_kinds_def\<close>)
  moreover have "same_rest d ?d" unfolding s by (simp add: same_defs)
  ultimately show ?thesis
    using k s by (auto simp: parts_inv_def camera_only_def camera_kinds_def keeps_def)
qed

text \<open>The scaler channel that nobody enables is released all the same.\<close>

lemma vi_isp_stop_none:
  assumes "\<And>r. r \<in> vi_kinds \<Longrightarrow> holds d r \<Longrightarrow> r \<in> vi_resources v" and "r \<in> vi_kinds"
  shows "\<not> holds (vi_isp_stop k v d) r"
proof (cases "r \<in> vi_resources v")
  case True
  then show ?thesis by (rule vi_isp_stop_releases)
next
  case False
  then have nd: "\<not> holds d r" using assms by blast
  show ?thesis
  proof (cases "r = Vpss_Chn vi_vpss_grp 1")
    case True
    show ?thesis
      unfolding vi_isp_stop_def holds_video_update
      by (rule sdk_tells_released) (auto simp: True stop_pipe_calls_def)
  next
    case False
    have "r \<notin> mipi_resources v"
      using stream_kinds_apart(4) [OF assms(2)] by (auto simp: mipi_kinds_def mipi_resources_def)
    then show ?thesis
      using vi_isp_stop_keeps [of v d k] False \<open>r \<notin> vi_resources v\<close> nd by (simp add: keeps_def)
  qed
qed

text \<open>The two orders in which a channel is taken apart.\<close>

definition torn_down :: "'m encoders_state_scheme \<Rightarrow> 'm encoders_state_scheme \<Rightarrow> bool" where
  "torn_down d d' \<longleftrightarrow>
     parts_inv d' \<and> camera_only d d' \<and> dv_venc d' = Map.empty \<and> dv_osd d' = Map.empty \<and>
     \<not> dv_isp_thread d' \<and> \<not> dv_vi_started d' \<and> (\<forall>r\<in>camera_kinds. \<not> holds d' r)"

lemma torn_downI:
  assumes "parts_inv d'" and "camera_only d d'" and "dv_venc d' = Map.empty" and "dv_osd d' = Map.empty"
    and "\<not> dv_isp_thread d'" and "\<not> dv_vi_started d'" and "\<And>r. r \<in> vi_kinds \<Longrightarrow> \<not> holds d' r"
  shows "torn_down d d'"
  using assms no_encoder_none [of d'] no_clock_no_region [of d']
  by (auto simp: torn_down_def parts_inv_def camera_kinds_def stream_kinds_def)

lemma streams_keep_vi: "streams_only d d' \<Longrightarrow> r \<in> vi_kinds \<Longrightarrow> holds d' r = holds d r"
  using stream_kinds_apart(1) by (auto simp: streams_only_def keeps_def)

lemma streams_keep_flags:
  "streams_only d d' \<Longrightarrow> dv_isp_thread d' = dv_isp_thread d" "streams_only d d' \<Longrightarrow> dv_vi_started d' = dv_vi_started d"
  by (simp_all add: streams_only_def same_capture_def)

lemma tear_down_vi_last:
  assumes "parts_inv d" and "dv_osd d = Map.empty" and "\<And>r. r \<in> vi_kinds \<Longrightarrow> holds d r \<Longrightarrow> r \<in> vi_resources v"
  shows "torn_down d (vi_isp_stop k v (drop_both (stop_both k d)))"
proof -
  let ?d1 = "drop_both (stop_both k d)"
  have a: "parts_inv (stop_both k d)" "streams_only d (stop_both k d)" "dv_osd (stop_both k d) = Map.empty"
      "\<forall>j v. dv_venc (stop_both k d) j = Some v \<longrightarrow> \<not> vn_created v"
    using stop_both_spec [OF assms(1), of k] assms(2) by simp_all
  have b: "parts_inv ?d1" "streams_only (stop_both k d) ?d1" "dv_osd ?d1 = Map.empty" "dv_venc ?d1 = Map.empty"
    using drop_both_spec [OF a(1,4)] a(3) by simp_all
  have s: "streams_only d ?d1" by (rule streams_only_trans [OF a(2) b(2)])
  have c: "parts_inv (vi_isp_stop k v ?d1)" "camera_only ?d1 (vi_isp_stop k v ?d1)"
      "dv_venc (vi_isp_stop k v ?d1) = Map.empty" "dv_osd (vi_isp_stop k v ?d1) = Map.empty"
    using vi_isp_stop_spec [OF b(1), of k v] b(3,4) by simp_all
  show ?thesis
  proof (rule torn_downI [OF c(1) camera_only_trans [OF streams_camera [OF s] c(2)] c(3,4)])
    fix r assume "r \<in> vi_kinds"
    then show "\<not> holds (vi_isp_stop k v ?d1) r"
      using vi_isp_stop_none [of ?d1 v r k] assms(3) streams_keep_vi [OF s] by blast
  qed simp_all
qed

lemma tear_down_vi_first:
  assumes "parts_inv d" and "\<And>r. r \<in> vi_kinds \<Longrightarrow> holds d r \<Longrightarrow> r \<in> vi_resources v"
  shows "torn_down d (drop_both (vi_isp_stop k v (stop_both k (stop_clocks k d))))"
proof -
  let ?d1 = "stop_both k (stop_clocks k d)" and ?d2 = "vi_isp_stop k v (stop_both k (stop_clocks k d))"
  have a: "parts_inv (stop_clocks k d)" "streams_only d (stop_clocks k d)" "dv_osd (stop_clocks k d) = Map.empty"
    using stop_clocks_spec [OF assms(1), of k] by simp_all
  have b: "parts_inv ?d1" "streams_only (stop_clocks k d) ?d1" "dv_osd ?d1 = Map.empty"
      "\<forall>j v. dv_venc ?d1 j = Some v \<longrightarrow> \<not> vn_created v"
    using stop_both_spec [OF a(1), of k] a(3) by simp_all
  have s: "streams_only d ?d1" by (rule streams_only_trans [OF a(2) b(2)])
  have c: "parts_inv ?d2" "camera_only ?d1 ?d2" "dv_osd ?d2 = Map.empty"
      "\<forall>j v. dv_venc ?d2 j = Some v \<longrightarrow> \<not> vn_created v"
    using vi_isp_stop_spec [OF b(1), of k v] b(3,4) by simp_all
  have e: "parts_inv (drop_both ?d2)" "streams_only ?d2 (drop_both ?d2)" "dv_osd (drop_both ?d2) = Map.empty"
      "dv_venc (drop_both ?d2) = Map.empty"
    using drop_both_spec [OF c(1,4)] c(3) by simp_all
  have cam: "camera_only d (drop_both ?d2)"
    by (rule camera_only_trans [OF camera_only_trans [OF streams_camera [OF s] c(2)] streams_camera [OF e(2)]])
  show ?thesis
  proof (rule torn_downI [OF e(1) cam e(4,3)])
    fix r assume r: "r \<in> vi_kinds"
    have "\<not> holds ?d2 r" using vi_isp_stop_none [of ?d1 v r k] assms(2) streams_keep_vi [OF s] r by blast
    then show "\<not> holds (drop_both ?d2) r" using streams_keep_vi [OF e(2) r] by simp
  qed (simp_all add: streams_keep_flags [OF e(2)])
qed

section \<open>The steps of the start\<close>

lemma new_venc_step:
  assumes "parts_inv d" and "dv_venc d i = None" and "free_chns (Suc n) d"
  shows "parts_inv (new_venc i h265 avbr w h src_fr fr bitrate svc source d) \<and>
    streams_only d (new_venc i h265 avbr w h src_fr fr bitrate svc source d) \<and>
    free_chns n (new_venc i h265 avbr w h src_fr fr bitrate svc source d) \<and>
    dv_osd (new_venc i h265 avbr w h src_fr fr bitrate svc source d) = dv_osd d \<and>
    (\<exists>v. dv_venc (new_venc i h265 avbr w h src_fr fr bitrate svc source d) = (dv_venc d)(i := Some v) \<and>
      \<not> vn_created v \<and> \<not> vn_running v \<and> vn_svc v = svc \<and> vn_h265 v = h265)"
proof -
  let ?d = "new_venc i h265 avbr w h src_fr fr bitrate svc source d"
  have ei: "encoders_inv d" "osd_inv d" using assms(1) by (simp_all add: parts_inv_def)
  obtain v p where s: "?d = d\<lparr>sy_venc := p, dv_venc := (dv_venc d)(i := Some v)\<rparr>"
      "\<not> vn_created v \<and> \<not> vn_bound v \<and> \<not> vn_running v \<and> vn_svc v = svc \<and> vn_h265 v = h265 \<and> vn_source v = source"
    using new_venc_spec(3) [OF ei(1) assms(2,3), of h265 avbr w h src_fr fr bitrate svc source] by blast
  have h: "holds ?d r = holds d r" for r unfolding s(1) by (simp add: holds_def)
  have ev: "encoders_inv ?d" by (rule new_venc_spec(1) [OF ei(1) assms(2,3)])
  have fc: "free_chns n ?d" by (rule new_venc_spec(2) [OF ei(1) assms(2,3)])
  have "osd_inv ?d" by (rule osd_inv_frame [OF ei(2)]) (use h s(1) in simp_all)
  moreover have "same_rest d ?d" "same_capture d ?d" unfolding s(1) by (simp_all add: same_defs)
  moreover have "dv_venc ?d = (dv_venc d)(i := Some v)" "dv_osd ?d = dv_osd d" unfolding s(1) by simp_all
  ultimately show ?thesis using ev fc h s(2) by (auto simp: parts_inv_def streams_only_def keeps_def)
qed

lemma make_encoders_spec:
  assumes "parts_inv d" and "dv_venc d = Map.empty" and "free_chns 2 d"
  shows "parts_inv (make_encoders mode v main sub d) \<and> streams_only d (make_encoders mode v main sub d) \<and>
    dv_osd (make_encoders mode v main sub d) = dv_osd d \<and>
    (\<exists>m. dv_venc (make_encoders mode v main sub d) Main_Venc = Some m \<and> vn_h265 m = fst mode \<and>
      vn_svc m = (vo_svc_enable main \<noteq> 0)) \<and>
    (case dv_venc (make_encoders mode v main sub d) Sub_Venc of
       None \<Rightarrow> \<not> vo_enable sub
     | Some s \<Rightarrow> vo_enable sub \<and> vn_h265 s = fst mode \<and> \<not> vn_svc s \<and> \<not> vn_running s)"
proof -
  define d1 where "d1 = new_venc Main_Venc (fst mode) (snd mode) (vo_width main) (vo_height main) (vi_fr v) (vo_frame_rate main)
            (vo_bitrate_kbps main) (vo_svc_enable main \<noteq> 0) (Port_Vpss vi_vpss_grp vi_vpss_chn) d"
  have f2: "free_chns (Suc (Suc 0)) d" using assms(3) by (simp add: numeral_2_eq_2)
  have n1: "dv_venc d Main_Venc = None" using assms(2) by simp
  obtain m where a: "parts_inv d1" "streams_only d d1" "free_chns (Suc 0) d1" "dv_osd d1 = dv_osd d"
      "dv_venc d1 = (dv_venc d)(Main_Venc := Some m)" "vn_h265 m = fst mode" "vn_svc m = (vo_svc_enable main \<noteq> 0)"
    using new_venc_step [OF assms(1) n1 f2] unfolding d1_def by blast
  show ?thesis
  proof (cases "vo_enable sub")
    case False
    then have "make_encoders mode v main sub d = d1" by (simp add: make_encoders_def d1_def)
    then show ?thesis using a assms(2) False by simp
  next
    case True
    define d2 where "d2 = new_venc Sub_Venc (fst mode) (snd mode) (vo_width sub) (vo_height sub) (vo_frame_rate sub)
            (vo_frame_rate sub) (vo_bitrate_kbps sub) False (sub_source (venc_chn_of Main_Venc d1)) d1"
    have n2: "dv_venc d1 Sub_Venc = None" using a(5) assms(2) by simp
    obtain s where b: "parts_inv d2" "streams_only d1 d2" "dv_osd d2 = dv_osd d1"
        "dv_venc d2 = (dv_venc d1)(Sub_Venc := Some s)" "vn_h265 s = fst mode" "\<not> vn_svc s" "\<not> vn_running s"
      using new_venc_step [OF a(1) n2 a(3)] unfolding d2_def by blast
    have "make_encoders mode v main sub d = d2" using True by (simp add: make_encoders_def d1_def d2_def Let_def)
    then show ?thesis using a b True streams_only_trans [OF a(2) b(2)] by simp
  qed
qed

lemma start_both_spec:
  assumes "parts_inv d" and "dv_venc d Main_Venc = Some m" and "start_both k d = (ok, d')"
  shows "parts_inv d' \<and> streams_only d d' \<and> dv_osd d' = dv_osd d \<and>
    (\<exists>m'. dv_venc d' Main_Venc = Some m' \<and> same_venc m m' \<and> (ok \<longrightarrow> vn_running m')) \<and>
    (case dv_venc d Sub_Venc of
       None \<Rightarrow> dv_venc d' Sub_Venc = None
     | Some s \<Rightarrow> \<exists>s'. dv_venc d' Sub_Venc = Some s' \<and> same_venc s s' \<and> vn_running s' = vn_running s \<and> (ok \<longrightarrow> vn_created s'))"
proof -
  obtain ok1 d1 where r: "encoder_resume k Main_Venc d = (ok1, d1)" by fastforce
  have "encoders_inv d" using assms(1) by (simp add: parts_inv_def)
  note sp = encoder_resume_spec [OF this assms(2) r]
  obtain m' where m': "dv_venc d1 = (dv_venc d)(Main_Venc := Some m')" "same_venc m m'" "vn_running m' = ok1" using sp by blast
  have a: "parts_inv d1" "streams_only d d1" "dv_osd d1 = dv_osd d" using encoder_step [OF assms(1)] sp by blast+
  show ?thesis
  proof (cases "ok1 \<and> dv_venc d Sub_Venc \<noteq> None")
    case False
    then have "d' = d1" "ok \<longrightarrow> ok1" "ok \<longrightarrow> dv_venc d Sub_Venc = None"
      using assms(3) r m'(1) by (auto simp: start_both_def and_try_def split: if_splits)
    then show ?thesis using a m' by (auto split: option.splits)
  next
    case True
    then obtain s where s: "dv_venc d Sub_Venc = Some s" "dv_venc d1 Sub_Venc = Some s" using m'(1) by auto
    have p: "encoder_prepare k Sub_Venc d1 = (ok, d')" using assms(3) r s True by (simp add: start_both_def and_try_def)
    have "encoders_inv d1" using a(1) by (simp add: parts_inv_def)
    note sp2 = encoder_prepare_spec [OF this s(2) p]
    obtain s' where s': "dv_venc d' = (dv_venc d1)(Sub_Venc := Some s')" "same_venc s s'" "ok \<longrightarrow> vn_created s'"
        "vn_running s' = vn_running s" using sp2 by blast
    have b: "parts_inv d'" "streams_only d1 d'" "dv_osd d' = dv_osd d1" using encoder_step [OF a(1)] sp2 by blast+
    have "dv_venc d' Main_Venc = Some m'" using s'(1) m'(1) by simp
    then show ?thesis
      using b a(3) s s' m'(2,3) True streams_only_trans [OF a(2) b(2)] by simp
  qed
qed

text \<open>What a place holds after it was to be filled.\<close>

lemma start_time_osd_slot:
  assumes "start_time_osd k i opt c d = (ok, d')"
  shows "\<exists>x. dv_osd d' = (dv_osd d)(i := x) \<and> (ok \<longrightarrow> (x \<noteq> None) = (to_enable opt \<or> dv_osd d i \<noteq> None))"
proof (cases "to_enable opt")
  case False
  then show ?thesis using assms by (intro exI [of _ "dv_osd d i"]) (simp add: start_time_osd_def)
next
  case True
  obtain ov d1 where n: "new_osd (to_x opt) (to_y opt) (to_font_size opt) c d = (ov, d1)" by fastforce
  obtain ok1 ov1 d2 where st: "osd_start k ov d1 = (ok1, ov1, d2)" by (metis prod_cases3)
  have "dv_osd d1 = dv_osd d" by (rule new_osd_frame(2) [OF n])
  moreover have "dv_osd d2 = dv_osd d1" by (rule osd_fields_calls [OF osd_start_frame(1) [OF st]])
  ultimately show ?thesis using assms True n st by (auto simp: start_time_osd_def split: if_splits)
qed

lemma start_clocks_spec:
  assumes "parts_inv d" and "dv_osd d = Map.empty" and "start_clocks k main sub d = (ok, d')"
  shows "parts_inv d' \<and> streams_only d d' \<and> dv_venc d' = dv_venc d \<and>
    (ok \<longrightarrow> (dv_osd d' Main_Venc \<noteq> None) = to_enable (vo_osd main) \<and>
      (dv_osd d' Sub_Venc \<noteq> None) = (dv_venc d Sub_Venc \<noteq> None \<and> to_enable (vo_osd sub)))"
proof -
  have one: "parts_inv e' \<and> streams_only e e' \<and> dv_venc e' = dv_venc e"
    if "parts_inv e" "dv_osd e i = None" "start_time_osd k i opt c e = (b, e')" for i opt c b and e e' :: "'a encoders_state_scheme"
  proof -
    have oi: "osd_inv e" using that(1) by (simp add: parts_inv_def)
    have "e' = snd (start_time_osd k i opt c e)" using that(3) by simp
    then show ?thesis
      using clock_step [OF that(1) start_time_osd_inv [OF oi that(2)] start_time_osd_shape] by simp
  qed
  obtain ok1 d1 where r: "start_time_osd k Main_Venc (vo_osd main) (venc_chn_of Main_Venc d) d = (ok1, d1)" by fastforce
  obtain x where x: "dv_osd d1 = (dv_osd d)(Main_Venc := x)" "ok1 \<longrightarrow> (x \<noteq> None) = to_enable (vo_osd main)"
    using start_time_osd_slot [OF r] assms(2) by auto
  have a: "parts_inv d1" "streams_only d d1" "dv_venc d1 = dv_venc d" using one [OF assms(1) _ r] assms(2) by auto
  show ?thesis
  proof (cases "ok1 \<and> dv_venc d Sub_Venc \<noteq> None")
    case False
    then have "d' = d1" "ok = ok1"  using assms(3) r a(3) by (auto simp: start_clocks_def and_try_def split: if_splits)
    then show ?thesis using a x assms(2) False by simp
  next
    case True
    have r2: "start_time_osd k Sub_Venc (vo_osd sub) (venc_chn_of Sub_Venc d1) d1 = (ok, d')"
      using assms(3) r a(3) True by (simp add: start_clocks_def and_try_def)
    have none: "dv_osd d1 Sub_Venc = None" using x(1) assms(2) by simp
    obtain y where y: "dv_osd d' = (dv_osd d1)(Sub_Venc := y)" "ok \<longrightarrow> (y \<noteq> None) = to_enable (vo_osd sub)"
      using start_time_osd_slot [OF r2] none by auto
    have b: "parts_inv d'" "streams_only d1 d'" "dv_venc d' = dv_venc d1" using one [OF a(1) none r2] by auto
    show ?thesis using a(3) b x y True streams_only_trans [OF a(2) b(2)] by simp
  qed
qed

section \<open>The invariant of a channel\<close>

definition idle_chn :: "'m device_scheme \<Rightarrow> bool" where
  "idle_chn d \<longleftrightarrow>
     \<not> dc_is_start d \<and> dv_venc d = Map.empty \<and> dv_osd d = Map.empty \<and> \<not> dv_isp_thread d \<and> \<not> dv_vi_started d \<and>
     \<not> dc_registered d \<and> \<not> dc_sub_running d \<and> dc_observes d = {}"

definition running_chn :: "'m device_scheme \<Rightarrow> bool" where
  "running_chn d \<longleftrightarrow>
     dc_is_start d \<and> dc_vi d \<noteq> None \<and> dv_vi_started d \<and> dc_registered d \<and> dc_observes d = dom (dv_venc d) \<and>
     (\<exists>m. dv_venc d Main_Venc = Some m \<and> vn_running m) \<and>
     (dc_sub_running d \<longleftrightarrow> (\<exists>s. dv_venc d Sub_Venc = Some s \<and> vn_running s))"

definition chn_inv :: "'m device_scheme \<Rightarrow> bool" where
  "chn_inv d \<longleftrightarrow> audio_inv d \<and> parts_inv d \<and> (idle_chn d \<or> running_chn d)"

text \<open>Whatever of the capture is held belongs to the channel that runs.\<close>

definition vi_accounted :: "'m device_scheme \<Rightarrow> bool" where
  "vi_accounted d \<longleftrightarrow>
     (\<forall>r\<in>vi_kinds. holds d r \<longrightarrow> dc_is_start d \<and> (\<exists>v. dc_vi d = Some v \<and> r \<in> vi_resources v))"

definition nothing_held :: "'m device_scheme \<Rightarrow> bool" where
  "nothing_held d \<longleftrightarrow> (\<forall>r\<in>camera_kinds. \<not> holds d r)"

lemmas chn_defs = chn_inv_def idle_chn_def running_chn_def

lemma not_started_idle: "chn_inv d \<Longrightarrow> \<not> dc_is_start d \<Longrightarrow> idle_chn d"
  and started_running: "chn_inv d \<Longrightarrow> dc_is_start d \<Longrightarrow> running_chn d"
  by (auto simp: chn_defs)

lemma idle_nothing_held:
  assumes "chn_inv d" and "vi_accounted d" and "\<not> dc_is_start d"
  shows "nothing_held d"
proof -
  have "idle_chn d" using not_started_idle assms(1,3) by blast
  then show ?thesis
    using assms no_encoder_none [of d] no_clock_no_region [of d]
    by (auto simp: chn_inv_def parts_inv_def idle_chn_def nothing_held_def vi_accounted_def camera_kinds_def stream_kinds_def)
qed

text \<open>Fields of the channel are not looked at by the parts.\<close>

lemma holds_device_update [simp]:
  "holds (d\<lparr>dc_is_start := a\<rparr>) r = holds d r" "holds (d\<lparr>dc_vi := b\<rparr>) r = holds d r"
  "holds (d\<lparr>dc_sub_running := a\<rparr>) r = holds d r" "holds (d\<lparr>dc_registered := a\<rparr>) r = holds d r"
  "holds (d\<lparr>dc_observes := c\<rparr>) r = holds d r"
  by (simp_all add: holds_def)

lemma chn_only_device [simp]:
  "chn_only d (e\<lparr>dc_is_start := a\<rparr>) = chn_only d e" "chn_only d (e\<lparr>dc_vi := b\<rparr>) = chn_only d e"
  "chn_only d (e\<lparr>dc_sub_running := a\<rparr>) = chn_only d e" "chn_only d (e\<lparr>dc_registered := a\<rparr>) = chn_only d e"
  "chn_only d (e\<lparr>dc_observes := c\<rparr>) = chn_only d e"
  "chn_only (e\<lparr>dc_vi := b\<rparr>) d = chn_only e d" "chn_only d d"
  by (simp_all add: chn_only_def keeps_def)

lemma parts_inv_cong:
  assumes "sd_trace d' = sd_trace d" and "sy_venc d' = sy_venc d" and "dv_venc d' = dv_venc d" and "dv_vencs d' = dv_vencs d"
    and "dv_osd d' = dv_osd d"
  shows "parts_inv d' = parts_inv d"
proof -
  have h: "holds d' r = holds d r" for r using assms(1) by (simp add: holds_def)
  have "encoders_inv d' = encoders_inv d"
    using encoders_inv_frame [of d d'] encoders_inv_frame [of d' d] h assms by auto
  moreover have "osd_inv d' = osd_inv d" using osd_inv_frame [of d d'] osd_inv_frame [of d' d] h assms by auto
  ultimately show ?thesis by (simp add: parts_inv_def)
qed

lemma parts_inv_device [simp]:
  "parts_inv (d\<lparr>dc_is_start := a\<rparr>) = parts_inv d" "parts_inv (d\<lparr>dc_vi := b\<rparr>) = parts_inv d"
  "parts_inv (d\<lparr>dc_sub_running := a\<rparr>) = parts_inv d" "parts_inv (d\<lparr>dc_registered := a\<rparr>) = parts_inv d"
  "parts_inv (d\<lparr>dc_observes := c\<rparr>) = parts_inv d"
  by (rule parts_inv_cong; simp)+

lemma audio_inv_device [simp]:
  "audio_inv (d\<lparr>dc_is_start := a\<rparr>) = audio_inv d" "audio_inv (d\<lparr>dc_vi := b\<rparr>) = audio_inv d"
  "audio_inv (d\<lparr>dc_sub_running := a\<rparr>) = audio_inv d" "audio_inv (d\<lparr>dc_registered := a\<rparr>) = audio_inv d"
  "audio_inv (d\<lparr>dc_observes := c\<rparr>) = audio_inv d"
  by (simp_all add: audio_inv_def)

text \<open>A channel that has been taken apart is idle.\<close>

lemma torn_down_idle:
  assumes "torn_down d d'" and "audio_inv d" and "\<not> dc_is_start d" and "\<not> dc_registered d" and "\<not> dc_sub_running d"
    and "dc_observes d = {}"
  shows "chn_inv (d'\<lparr>dc_vi := x\<rparr>) \<and> vi_accounted (d'\<lparr>dc_vi := x\<rparr>) \<and> \<not> dc_is_start (d'\<lparr>dc_vi := x\<rparr>) \<and> nothing_held (d'\<lparr>dc_vi := x\<rparr>)"
proof -
  have t: "parts_inv d'" "camera_only d d'" "\<forall>r\<in>camera_kinds. \<not> holds d' r" using assms(1) by (simp_all add: torn_down_def)
  have "same_rest d d'" using t(2) by (simp add: camera_only_def)
  note f = same_rest_device [OF this]
  have "idle_chn (d'\<lparr>dc_vi := x\<rparr>)" using assms f by (simp add: idle_chn_def torn_down_def)
  then show ?thesis
    using t camera_audio [OF t(2) assms(2)] by (auto simp: chn_inv_def vi_accounted_def nothing_held_def idle_chn_def camera_kinds_def)
qed

lemma start_streams_spec:
  assumes "audio_inv d" and "parts_inv d" and "dv_venc d = Map.empty" and "dv_osd d = Map.empty" and "free_chns 2 d"
    and "dv_vi_started d" and "dc_vi d = Some v" and "\<not> dc_is_start d" and "\<not> dc_registered d"
    and "\<not> dc_sub_running d" and "dc_observes d = {}" and "\<And>r. r \<in> vi_kinds \<Longrightarrow> holds d r \<Longrightarrow> r \<in> vi_resources v"
    and "start_streams k c v main sub d = (ok, d')"
  shows "chn_only d d' \<and> chn_inv d' \<and> vi_accounted d' \<and> dc_is_start d' = ok \<and> \<not> dc_sub_running d' \<and> (\<not> ok \<longrightarrow> nothing_held d') \<and>
    (ok \<longrightarrow> (dv_venc d' Sub_Venc \<noteq> None) = vo_enable sub \<and> (dv_osd d' Main_Venc \<noteq> None) = to_enable (vo_osd main) \<and>
      (dv_osd d' Sub_Venc \<noteq> None) = (vo_enable sub \<and> to_enable (vo_osd sub)))"
proof (cases "venc_of_mode (ch_venc_mode c)")
  case None
  have "torn_down d (vi_isp_stop k v d)"
    by (rule torn_downI) (use vi_isp_stop_spec [OF assms(2), of k v] vi_isp_stop_none [of d v _ k] assms in simp_all)
  note t = torn_down_idle [OF this assms(1,8,9,10,11), of None]
  have "chn_only d (vi_isp_stop k v d)" using vi_isp_stop_spec [OF assms(2), of k v] camera_chn_only by blast
  then show ?thesis using assms(13) None t by (auto simp: start_streams_def chn_defs)
next
  case (Some mode)
  let ?d1 = "make_encoders mode v main sub d"
  obtain m where a: "parts_inv ?d1" "streams_only d ?d1" "dv_osd ?d1 = Map.empty" "dv_venc ?d1 Main_Venc = Some m"
      "case dv_venc ?d1 Sub_Venc of None \<Rightarrow> \<not> vo_enable sub
       | Some s \<Rightarrow> vo_enable sub \<and> vn_h265 s = fst mode \<and> \<not> vn_svc s \<and> \<not> vn_running s"
    using make_encoders_spec [OF assms(2,3,5), of mode v main sub] assms(4) by auto
  obtain ok1 d2 where r1: "start_both k ?d1 = (ok1, d2)" by fastforce
  note sb = start_both_spec [OF a(1,4) r1]
  obtain m' where b: "parts_inv d2" "streams_only ?d1 d2" "dv_osd d2 = Map.empty" "dv_venc d2 Main_Venc = Some m'"
      "ok1 \<longrightarrow> vn_running m'" using sb a(3) by auto
  have sub2: "case dv_venc d2 Sub_Venc of None \<Rightarrow> \<not> vo_enable sub | Some s \<Rightarrow> vo_enable sub \<and> \<not> vn_running s"
    using sb a(5) by (auto split: option.splits)
  have s2: "streams_only d d2" by (rule streams_only_trans [OF a(2) b(2)])
  obtain ok2 d3 where r2: "start_clocks k main sub d2 = (ok2, d3)" by fastforce
  note sc = start_clocks_spec [OF b(1,3) r2]
  have s3: "streams_only d d3" by (rule streams_only_trans [OF s2]) (use sc in blast)
  have acc2: "r \<in> vi_resources v" if "r \<in> vi_kinds" "holds d2 r" for r
    using assms(12) that streams_keep_vi [OF s2] by blast
  have acc3: "r \<in> vi_resources v" if "r \<in> vi_kinds" "holds d3 r" for r
    using assms(12) that streams_keep_vi [OF s3] by blast
  have down: "chn_inv (e'\<lparr>dc_vi := None\<rparr>) \<and> vi_accounted (e'\<lparr>dc_vi := None\<rparr>) \<and> \<not> dc_is_start (e'\<lparr>dc_vi := None\<rparr>) \<and>
      nothing_held (e'\<lparr>dc_vi := None\<rparr>) \<and> \<not> dc_sub_running (e'\<lparr>dc_vi := None\<rparr>) \<and> chn_only d e'"
    if "streams_only d e" "torn_down e e'" for e e'
  proof -
    have q: "same_rest d e" using that(1) by (simp add: streams_only_def)
    have au: "audio_inv e" by (rule camera_audio [OF streams_camera [OF that(1)] assms(1)])
    have c: "camera_only e e'" using that(2) by (simp add: torn_down_def)
    have "chn_only d e'" by (rule camera_chn_only [OF camera_only_trans [OF streams_camera [OF that(1)] c]])
    moreover have "same_rest e e'" using c by (simp add: camera_only_def)
    ultimately show ?thesis
      using torn_down_idle [OF that(2) au] same_rest_device [OF q] same_rest_device [of e e'] assms(8,9,10,11) by simp
  qed
  have t2: "torn_down d2 (vi_isp_stop k v (drop_both (stop_both k d2)))" by (rule tear_down_vi_last [OF b(1,3) acc2])
  have t3: "torn_down d3 (drop_both (vi_isp_stop k v (stop_both k (stop_clocks k d3))))"
    by (rule tear_down_vi_first) (use sc acc3 in blast)+
  consider "\<not> ok1" "\<not> ok" "d' = (vi_isp_stop k v (drop_both (stop_both k d2)))\<lparr>dc_vi := None\<rparr>"
    | "\<not> ok" "d' = (drop_both (vi_isp_stop k v (stop_both k (stop_clocks k d3))))\<lparr>dc_vi := None\<rparr>"
    | "ok1" "ok2" "ok" "d' = d3\<lparr>dc_observes := dom (dv_venc d3), dc_registered := True, dc_sub_running := False, dc_is_start := True\<rparr>"
    using assms(13) Some r1 r2 by (auto simp: start_streams_def Let_def split: if_splits)
  then show ?thesis
  proof cases
    case 1
    then show ?thesis using down [OF s2 t2] by simp
  next
    case 2
    then show ?thesis using down [OF s3 t3] by simp
  next
    case 3
    have q: "same_rest d d3" "dv_vi_started d3 = dv_vi_started d" using s3 by (simp_all add: streams_only_def same_capture_def)
    have au: "audio_inv d3" by (rule camera_audio [OF streams_camera [OF s3] assms(1)])
    have "running_chn d'"
      using 3 q(2) same_rest_device(2) [OF q(1)] assms(6,7) sc b(4,5) sub2 by (auto simp: running_chn_def split: option.splits)
    moreover have "vi_accounted d'" using 3 acc3 same_rest_device(2) [OF q(1)] assms(7) by (auto simp: vi_accounted_def)
    moreover have "chn_only d d'" using camera_chn_only [OF streams_camera [OF s3]] 3 by simp
    ultimately show ?thesis using 3 sc au sub2 by (auto simp: chn_inv_def split: option.splits)
  qed
qed

section \<open>Starting and stopping\<close>

text \<open>The capture a start begins, if it gets that far.\<close>

definition chn_capture :: "chn \<Rightarrow> venc_encode_options \<Rightarrow> 'm device_scheme \<Rightarrow> vi option" where
  "chn_capture c main d =
     (if dc_is_start d \<or> ch_no c < 0 \<or> ch_no c \<ge> MAX_CHANNEL \<or> \<not> vo_enable main then None
      else
        case make_vi (ch_vi_name c) (dc_sys_flag d) (dc_vi_max_w d) (dc_vi_max_h d) (dc_vi_fr d) (dc_vi_wdr_mode d) of
          None \<Rightarrow> None
        | Some v \<Rightarrow> if too_large main v then None else Some (sized_vi main v))"

lemma idle_destroy: "idle_chn d \<Longrightarrow> vi_isp_destroy d = Some d"
  by (cases d) (simp add: idle_chn_def vi_isp_destroy_def)

lemma chn_start_refused:
  assumes "idle_chn d" and "chn_capture c main d = None"
  shows "chn_start k c main sub d = Some (False, d) \<or> (\<exists>v. chn_start k c main sub d = Some (False, d\<lparr>dc_vi := Some v\<rparr>))"
proof (cases "dc_is_start d \<or> ch_no c < 0 \<or> ch_no c \<ge> MAX_CHANNEL \<or> \<not> vo_enable main")
  case False
  let ?v = "make_vi (ch_vi_name c) (dc_sys_flag d) (dc_vi_max_w d) (dc_vi_max_h d) (dc_vi_fr d) (dc_vi_wdr_mode d)"
  show ?thesis
  proof (cases ?v)
    case (Some v)
    then have "too_large main v" using assms(2) False by (simp add: chn_capture_def split: if_splits)
    then have "chn_start k c main sub d = Some (False, d\<lparr>dc_vi := Some v\<rparr>)"
      using False Some idle_destroy [OF assms(1)] by (simp add: chn_start_def)
    then show ?thesis by blast
  next
    case None
    then show ?thesis using False unfolding chn_start_def by simp
  qed
next
  case True
  then show ?thesis unfolding chn_start_def by simp
qed

lemma chn_start_capture_step:
  assumes "idle_chn d" and "chn_capture c main d = Some w"
  shows "chn_start k c main sub d =
    (let r = vi_isp_start k w (d\<lparr>dc_vi := Some w\<rparr>) in
     if fst r then Some (start_streams k c w main sub (snd r))
     else map_option (\<lambda>d1. (False, d1\<lparr>dc_vi := None\<rparr>)) (vi_isp_destroy (snd r)))"
proof -
  have a: "\<not> (dc_is_start d \<or> ch_no c < 0 \<or> ch_no c \<ge> MAX_CHANNEL \<or> \<not> vo_enable main)"
    using assms(2) unfolding chn_capture_def by (simp split: if_splits)
  obtain v where v: "make_vi (ch_vi_name c) (dc_sys_flag d) (dc_vi_max_w d) (dc_vi_max_h d) (dc_vi_fr d) (dc_vi_wdr_mode d) = Some v"
      "\<not> too_large main v" "w = sized_vi main v"
    using assms(2) a unfolding chn_capture_def by (simp split: option.splits if_splits)
  show ?thesis using a v idle_destroy [OF assms(1)] unfolding chn_start_def Let_def by simp
qed

lemma idle_device_vi: "idle_chn (d\<lparr>dc_vi := x\<rparr>) = idle_chn d"
  by (simp add: idle_chn_def)

lemma free_chns_cong: "sy_venc d' = sy_venc d \<Longrightarrow> free_chns n d' = free_chns n d"
  by (simp add: free_chns_def)

text \<open>What the start of the capture leaves of an idle channel.\<close>

lemma vi_start_idle:
  assumes "idle_chn d" and "audio_inv d" and "parts_inv d"
  shows "audio_inv (snd (vi_isp_start k w d)) \<and> parts_inv (snd (vi_isp_start k w d)) \<and>
    same_rest d (snd (vi_isp_start k w d)) \<and> dv_venc (snd (vi_isp_start k w d)) = Map.empty \<and>
    dv_osd (snd (vi_isp_start k w d)) = Map.empty \<and> sy_venc (snd (vi_isp_start k w d)) = sy_venc d \<and>
    keeps (vi_resources w \<union> mipi_kinds) d (snd (vi_isp_start k w d))"
proof -
  let ?d = "snd (vi_isp_start k w d)"
  obtain t a b where s: "?d = d\<lparr>sd_trace := t, dv_vi_started := a, dv_isp_thread := b\<rparr>"
    using vi_isp_start_only [of d k w] unfolding video_only_def by blast
  have k: "keeps (vi_resources w \<union> mipi_kinds) d ?d"
    by (rule keeps_mono [OF vi_isp_start_keeps]) (auto simp: mipi_kinds_def mipi_resources_def)
  have "holds ?d r = holds d r" if "r \<in> stream_kinds \<union> audio_kinds" for r
    using k that stream_kinds_apart vi_resources_kinds [of w] unfolding keeps_def by blast
  note h = this
  have ei: "encoders_inv d" "osd_inv d" using assms(3) by (simp_all add: parts_inv_def)
  have "encoders_inv ?d"
    by (rule encoders_inv_frame [OF ei(1)]) (use h in \<open>simp_all add: stream_kinds_def\<close>, simp_all add: s)
  moreover have "osd_inv ?d"
    by (rule osd_inv_frame [OF ei(2)]) (use h in \<open>simp_all add: stream_kinds_def\<close>, simp_all add: s)
  moreover have "audio_inv ?d"
    by (rule audio_inv_frame [OF assms(2)]) (use h in simp_all, simp_all add: s)
  ultimately show ?thesis using k assms(1) unfolding s by (simp add: parts_inv_def same_defs idle_chn_def)
qed

lemma vi_started_streams:
  assumes "chn_inv d" and "vi_accounted d" and "\<not> dc_is_start d" and "free_chns 2 d"
    and "vi_isp_start k w (d\<lparr>dc_vi := Some w\<rparr>) = (True, d1)" and "start_streams k c w main sub d1 = (ok, d')"
  shows "chn_only d d' \<and> chn_inv d' \<and> vi_accounted d' \<and> dc_is_start d' = ok \<and> \<not> dc_sub_running d' \<and> (\<not> ok \<longrightarrow> nothing_held d') \<and>
    (ok \<longrightarrow> (dv_venc d' Sub_Venc \<noteq> None) = vo_enable sub \<and> (dv_osd d' Main_Venc \<noteq> None) = to_enable (vo_osd main) \<and>
      (dv_osd d' Sub_Venc \<noteq> None) = (vo_enable sub \<and> to_enable (vo_osd sub)))"
proof -
  let ?d0 = "d\<lparr>dc_vi := Some w\<rparr>"
  have d1: "d1 = snd (vi_isp_start k w ?d0)" using assms(5) by simp
  have idle: "idle_chn ?d0" using not_started_idle [OF assms(1,3)] by (simp add: idle_device_vi)
  have inv: "audio_inv ?d0" "parts_inv ?d0" using assms(1) by (simp_all add: chn_inv_def)
  have v: "audio_inv d1" "parts_inv d1" "same_rest ?d0 d1" "dv_venc d1 = Map.empty" "dv_osd d1 = Map.empty"
      "sy_venc d1 = sy_venc d" "keeps (vi_resources w \<union> mipi_kinds) ?d0 d1"
    using vi_start_idle [OF idle inv, of k w] unfolding d1 by simp_all
  note f = same_rest_device [OF v(3)]
  have nh: "\<not> holds ?d0 r" if "r \<in> vi_kinds" for r using assms(2,3) that by (auto simp: vi_accounted_def)
  have acc: "r \<in> vi_resources w" if "r \<in> vi_kinds" "holds d1 r" for r
    using nh [OF that(1)] that v(7) stream_kinds_apart(4) [OF that(1)] by (auto simp: keeps_def)
  have "dv_vi_started d1"
    using vi_isp_start_thread(2) [of ?d0 k w] idle assms(5) by (simp add: idle_chn_def)
  moreover have "chn_only ?d0 d1"
    using v(3,7) vi_resources_kinds [of w] by (auto simp: chn_only_def same_rest_def keeps_def camera_kinds_def)
  then have "chn_only d1 d' \<longrightarrow> chn_only d d'" using chn_only_trans [of ?d0 d1 d'] by simp
  ultimately show ?thesis
    using start_streams_spec [OF v(1,2,4,5) _ _ _ _ _ _ _ acc assms(6)] f idle assms(4) v(6) free_chns_cong [of d1 d 2]
    by (simp add: idle_chn_def)
qed

lemma chn_start_spec:
  assumes "chn_inv d" and "vi_accounted d" and "\<not> dc_is_start d" and "free_chns 2 d"
    and "\<forall>w. chn_capture c main d = Some w \<longrightarrow> fst (vi_isp_start k w (d\<lparr>dc_vi := Some w\<rparr>))"
  shows "\<exists>ok d'. chn_start k c main sub d = Some (ok, d') \<and> chn_only d d' \<and> chn_inv d' \<and> vi_accounted d' \<and> dc_is_start d' = ok \<and>
    (\<not> ok \<longrightarrow> nothing_held d') \<and>
    (ok \<longrightarrow> dv_vi_started d' \<and> Main_Venc \<in> set (dv_vencs d') \<and> Sub_Venc \<notin> set (dv_vencs d') \<and>
      (dv_venc d' Sub_Venc \<noteq> None) = vo_enable sub \<and> (dv_osd d' Main_Venc \<noteq> None) = to_enable (vo_osd main) \<and>
      (dv_osd d' Sub_Venc \<noteq> None) = (vo_enable sub \<and> to_enable (vo_osd sub)))"
proof (cases "chn_capture c main d")
  case None
  have idle: "idle_chn d" using not_started_idle [OF assms(1,3)] .
  have "chn_inv (d\<lparr>dc_vi := x\<rparr>) \<and> vi_accounted (d\<lparr>dc_vi := x\<rparr>) \<and> nothing_held (d\<lparr>dc_vi := x\<rparr>)" for x
    using assms(1-3) idle idle_nothing_held [OF assms(1-3)] idle_device_vi [of x d]
    by (simp add: chn_inv_def vi_accounted_def nothing_held_def)
  moreover have "nothing_held d" by (rule idle_nothing_held [OF assms(1-3)])
  ultimately show ?thesis using chn_start_refused [OF idle None, of k sub] assms(1-3) by fastforce
next
  case (Some w)
  obtain d1 where v: "vi_isp_start k w (d\<lparr>dc_vi := Some w\<rparr>) = (True, d1)" using assms(5) Some by (metis prod.collapse)
  obtain ok d' where r: "start_streams k c w main sub d1 = (ok, d')" by fastforce
  have eq: "chn_start k c main sub d = Some (ok, d')"
    using chn_start_capture_step [OF not_started_idle [OF assms(1,3)] Some, of k sub] v r by simp
  note sp = vi_started_streams [OF assms(1-4) v r]
  have "dv_vi_started d' \<and> Main_Venc \<in> set (dv_vencs d') \<and> Sub_Venc \<notin> set (dv_vencs d')" if ok
  proof -
    have "running_chn d'" using sp that started_running by blast
    moreover have "encoders_inv d'" using sp by (simp add: chn_inv_def parts_inv_def)
    ultimately show ?thesis using encoders_invD(6) [of d'] sp by (auto simp: running_chn_def)
  qed
  then show ?thesis using eq sp by blast
qed


text \<open>
  C38: a capture that fails is not cleaned up.  When a call of the capture fails, \<^verbatim>\<open>chn::start\<close> only drops
  the capture.  If the pipes had been started the thread of the image processing is running, and the program
  ends (\<^verbatim>\<open>std::terminate\<close>); otherwise the channel is idle again, but
  the resources taken until then stay taken.
\<close>

theorem failed_capture_not_cleaned:
  assumes "chn_inv d" and "\<not> dc_is_start d" and "chn_capture c main d = Some w"
    and "\<not> fst (vi_isp_start k w (d\<lparr>dc_vi := Some w\<rparr>))"
  shows "if fst (start_capture_path k w (d\<lparr>dc_vi := Some w\<rparr>)) then chn_start k c main sub d = None
    else \<exists>d'. chn_start k c main sub d = Some (False, d') \<and> chn_inv d' \<and> \<not> dc_is_start d' \<and>
      (\<forall>r. holds d' r = holds (snd (vi_isp_start k w (d\<lparr>dc_vi := Some w\<rparr>))) r)"
proof -
  let ?d0 = "d\<lparr>dc_vi := Some w\<rparr>" let ?d1 = "snd (vi_isp_start k w ?d0)"
  have idle: "idle_chn ?d0" using not_started_idle [OF assms(1,2)] by (simp add: idle_device_vi)
  have inv: "audio_inv ?d0" "parts_inv ?d0" using assms(1) by (simp_all add: chn_inv_def)
  have th: "dv_isp_thread ?d1 = fst (start_capture_path k w ?d0)" "\<not> dv_vi_started ?d1"
    using vi_isp_start_thread [of ?d0 k w] idle assms(4) by (simp_all add: idle_chn_def)
  have eq: "chn_start k c main sub d = map_option (\<lambda>d1. (False, d1\<lparr>dc_vi := None\<rparr>)) (vi_isp_destroy ?d1)"
    using chn_start_capture_step [OF not_started_idle [OF assms(1,2)] assms(3), of k sub] assms(4) by (simp add: Let_def)
  show ?thesis
  proof (cases "dv_isp_thread ?d1")
    case False
    have v: "audio_inv ?d1" "parts_inv ?d1" "same_rest ?d0 ?d1" "dv_venc ?d1 = Map.empty" "dv_osd ?d1 = Map.empty"
      using vi_start_idle [OF idle inv, of k w] by simp_all
    have same: "?d1\<lparr>dv_vi_started := False\<rparr> = ?d1" using th(2) by (cases ?d1) simp
    have "idle_chn (?d1\<lparr>dc_vi := None\<rparr>)"
      using same_rest_device [OF v(3)] v(4,5) idle th(2) False by (simp add: idle_chn_def)
    then show ?thesis using v eq th(1) False same by (simp add: vi_isp_destroy_def chn_inv_def idle_chn_def)
  qed (use eq th in \<open>simp add: vi_isp_destroy_def\<close>)
qed

lemma chn_stop_spec:
  assumes "chn_inv d" and "vi_accounted d"
  shows "chn_only d (chn_stop k d) \<and> chn_inv (chn_stop k d) \<and> vi_accounted (chn_stop k d) \<and> \<not> dc_is_start (chn_stop k d) \<and>
    nothing_held (chn_stop k d)"
proof (cases "dc_is_start d")
  case False
  then show ?thesis using assms idle_nothing_held by (auto simp: chn_stop_def)
next
  case True
  obtain v where v: "dc_vi d = Some v" using started_running [OF assms(1) True] by (auto simp: running_chn_def)
  let ?d1 = "drop_both (vi_isp_stop k v (stop_both k (stop_clocks k d)))"
  have "torn_down d ?d1"
    by (rule tear_down_vi_first) (use assms v in \<open>auto simp: chn_inv_def vi_accounted_def\<close>)
  then have t: "parts_inv ?d1" "camera_only d ?d1" "dv_venc ?d1 = Map.empty" "dv_osd ?d1 = Map.empty" "\<not> dv_isp_thread ?d1"
      "\<not> dv_vi_started ?d1" "\<forall>r\<in>camera_kinds. \<not> holds ?d1 r"
    by (simp_all add: torn_down_def)
  have eq: "chn_stop k d = ?d1\<lparr>dc_is_start := False, dc_observes := {}, dc_vi := None, dc_sub_running := False,
      dc_registered := False\<rparr>" using True v by (simp add: chn_stop_def Let_def)
  have "audio_inv ?d1" by (rule camera_audio [OF t(2)]) (use assms(1) in \<open>simp add: chn_inv_def\<close>)
  moreover have "chn_only d ?d1" by (rule camera_chn_only [OF t(2)])
  ultimately show ?thesis
    using t unfolding eq by (simp add: chn_inv_def idle_chn_def vi_accounted_def nothing_held_def camera_kinds_def)
qed


section \<open>The sub stream\<close>

lemma parts_inv_capturing [simp]: "parts_inv (d\<lparr>dv_capturing := b\<rparr>) = parts_inv d"
  "audio_inv (d\<lparr>dv_capturing := b\<rparr>) = audio_inv d"
  by (rule parts_inv_cong; simp) (simp add: audio_inv_def)

text \<open>Calls that acquire and release nothing.\<close>

lemma settings_step:
  assumes "calls_on {} d d'" and "parts_inv d"
  shows "parts_inv d' \<and> streams_only d d' \<and> dv_venc d' = dv_venc d \<and> dv_osd d' = dv_osd d"
proof -
  obtain t where t: "d' = d\<lparr>sd_trace := t\<rparr>" using assms(1) by (rule calls_onE)
  have h: "holds d' r = holds d r" for r using calls_on_holds [OF assms(1)] by simp
  have ei: "encoders_inv d" "osd_inv d" using assms(2) by (simp_all add: parts_inv_def)
  have "encoders_inv d'" by (rule encoders_inv_frame [OF ei(1)]) (use h in simp, simp_all add: t)
  moreover have "osd_inv d'" by (rule osd_inv_frame [OF ei(2)]) (use h in simp, simp add: t)
  moreover have "same_rest d d'" "same_capture d d'" unfolding t by (simp_all add: same_defs)
  ultimately show ?thesis using h t by (simp add: parts_inv_def streams_only_def keeps_def)
qed

text \<open>The middle of the switch: resume and ask for a key frame, or pause.\<close>

lemma switch_step:
  assumes "parts_inv d" and "dv_venc d Sub_Venc = Some s"
    and "r = (if enable
       then and_try (encoder_resume k Sub_Venc d)
         (\<lambda>d2. (True, case dv_venc d2 Sub_Venc of None \<Rightarrow> d2 | Some v \<Rightarrow> snd (venc_request_i_frame k v d2)))
       else (True, encoder_pause k Sub_Venc d))"
  shows "parts_inv (snd r) \<and> streams_only d (snd r) \<and>
    (\<exists>s'. dv_venc (snd r) = (dv_venc d)(Sub_Venc := Some s') \<and> vn_running s' = (enable \<and> fst r)) \<and> (\<not> enable \<longrightarrow> fst r)"
proof (cases enable)
  case False
  have "encoders_inv d" using assms(1) by (simp add: parts_inv_def)
  note sp = encoder_pause_spec [OF this assms(2), of k]
  have r: "r = (True, encoder_pause k Sub_Venc d)" using assms(3) False by simp
  show ?thesis using encoder_step [OF assms(1), of "encoder_pause k Sub_Venc d"] sp False unfolding r by auto
next
  case True
  obtain ok d2 where q: "encoder_resume k Sub_Venc d = (ok, d2)" by fastforce
  have "encoders_inv d" using assms(1) by (simp add: parts_inv_def)
  note sp = encoder_resume_spec [OF this assms(2) q]
  obtain s' where s': "dv_venc d2 = (dv_venc d)(Sub_Venc := Some s')" "vn_running s' = ok" using sp by blast
  have a: "parts_inv d2" "streams_only d d2" using encoder_step [OF assms(1)] sp by blast+
  have c: "calls_on {} d2 (snd (venc_request_i_frame k s' d2))" unfolding venc_request_i_frame_def by (rule calls_on_ask) simp
  note b = settings_step [OF c a(1)]
  have r: "r = (ok, if ok then snd (venc_request_i_frame k s' d2) else d2)"
    using assms(3) True q s'(1) by (simp add: and_try_def)
  show ?thesis
  proof (cases ok)
    case False
    then show ?thesis using a s' True unfolding r by auto
  next
    case ok: True
    then show ?thesis using a b s' True streams_only_trans [OF a(2)] unfolding r by auto
  qed
qed

definition sub_encoding :: "'m encoders_state_scheme \<Rightarrow> bool" where
  "sub_encoding d \<longleftrightarrow> Sub_Venc \<in> set (dv_vencs d)"

lemma sub_encoding_running:
  "chn_inv d \<Longrightarrow> sub_encoding d \<longleftrightarrow> dc_sub_running d"
  by (auto simp: chn_inv_def parts_inv_def sub_encoding_def encoders_invD(6) idle_chn_def running_chn_def)

lemma set_sub_cases:
  assumes "dc_is_start d" and "dv_venc d Sub_Venc = Some s" and "dc_sub_running d \<noteq> enable"
    and "r = (if enable
       then and_try (encoder_resume k Sub_Venc (d\<lparr>dv_capturing := False\<rparr>))
         (\<lambda>d2. (True, case dv_venc d2 Sub_Venc of None \<Rightarrow> d2 | Some v \<Rightarrow> snd (venc_request_i_frame k v d2)))
       else (True, encoder_pause k Sub_Venc (d\<lparr>dv_capturing := False\<rparr>)))"
    and "\<not> dv_capturing (snd r)"
  shows "set_sub_stream_enabled k enable d =
    (fst r, (snd r)\<lparr>dv_capturing := dv_capturing d, dc_sub_running := (if fst r then enable else dc_sub_running (snd r))\<rparr>)"
proof -
  have same: "d\<lparr>dv_capturing := False\<rparr> = d" if "\<not> dv_capturing d" using that by (cases d) simp
  obtain b e where r: "r = (b, e)" by fastforce
  have f: "e\<lparr>dv_capturing := False, dc_sub_running := x\<rparr> = e\<lparr>dc_sub_running := x\<rparr>"
    "e\<lparr>dc_sub_running := dc_sub_running e\<rparr> = e" "e\<lparr>dv_capturing := True, dc_sub_running := dc_sub_running e\<rparr> = e\<lparr>dv_capturing := True\<rparr>" for x
    using assms(5) r by (cases e; simp)+
  have d1: "(if dv_capturing d then stop_capture d else d) = d\<lparr>dv_capturing := False\<rparr>"
    using same by (simp add: stop_capture_def)
  show ?thesis
    using assms(1,2,3,5) f
    unfolding set_sub_stream_enabled_def Let_def d1 assms(4) [symmetric] r by (auto simp: start_capture_def)
qed

lemma set_sub_spec:
  assumes "chn_inv d" and "set_sub_stream_enabled k enable d = (ok, d')"
  shows "chn_only d d' \<and> chn_inv d' \<and> (vi_accounted d \<longrightarrow> vi_accounted d') \<and> sub_encoding d' = (if ok then enable else sub_encoding d) \<and>
    (\<not> enable \<and> dc_is_start d \<and> dv_venc d Sub_Venc \<noteq> None \<longrightarrow> ok) \<and>
    dc_is_start d' = dc_is_start d \<and> dv_capturing d' = dv_capturing d \<and> dv_venc d' Main_Venc = dv_venc d Main_Venc"
proof (cases "\<not> dc_is_start d \<or> dv_venc d Sub_Venc = None \<or> dc_sub_running d = enable")
  case True
  then have "d' = d" "ok \<longrightarrow> dc_sub_running d = enable" "dc_is_start d \<and> dv_venc d Sub_Venc \<noteq> None \<longrightarrow> ok"
    using assms(2) by (auto simp: set_sub_stream_enabled_def split: if_splits)
  then show ?thesis using assms(1) sub_encoding_running [OF assms(1)] by auto
next
  case False
  then obtain s where s: "dc_is_start d" "dv_venc d Sub_Venc = Some s" "dc_sub_running d \<noteq> enable" by auto
  let ?d1 = "d\<lparr>dv_capturing := False\<rparr>"
  define r where "r = (if enable
       then and_try (encoder_resume k Sub_Venc ?d1)
         (\<lambda>d2. (True, case dv_venc d2 Sub_Venc of None \<Rightarrow> d2 | Some v \<Rightarrow> snd (venc_request_i_frame k v d2)))
       else (True, encoder_pause k Sub_Venc ?d1))"
  have p1: "parts_inv ?d1" "audio_inv ?d1" using assms(1) by (simp_all add: chn_inv_def)
  have s1: "dv_venc ?d1 Sub_Venc = Some s" using s(2) by simp
  note sw = switch_step [OF p1(1) s1 r_def]
  obtain s' where r: "parts_inv (snd r)" "streams_only ?d1 (snd r)" "dv_venc (snd r) = (dv_venc d)(Sub_Venc := Some s')"
      "vn_running s' = (enable \<and> fst r)" "\<not> enable \<longrightarrow> fst r" using sw by auto
  have q: "same_rest ?d1 (snd r)" "same_capture ?d1 (snd r)" using r(2) by (simp_all add: streams_only_def)
  note f = same_rest_device [OF q(1)]
  have nc: "\<not> dv_capturing (snd r)" using q(1) by (simp add: same_rest_def)
  have eq: "ok = fst r" "d' = (snd r)\<lparr>dv_capturing := dv_capturing d, dc_sub_running := (if ok then enable else dc_sub_running (snd r))\<rparr>"
    using trans [OF assms(2) [symmetric] set_sub_cases [OF s r_def nc]] unfolding prod.inject by simp_all
  have run: "running_chn d" using started_running [OF assms(1) s(1)] .
  have fields: "dc_is_start d' = dc_is_start d" "dc_vi d' = dc_vi d" "dc_registered d' = dc_registered d"
      "dc_observes d' = dc_observes d" "dv_vi_started d' = dv_vi_started d" "dv_venc d' = (dv_venc d)(Sub_Venc := Some s')"
      "dc_sub_running d' = (if ok then enable else dc_sub_running d)" "dv_capturing d' = dv_capturing d"
    using f q(2) r(3) unfolding eq(2) by (simp_all add: same_capture_def)
  have "running_chn d'" using run s fields r(4,5) eq(1) unfolding running_chn_def by (auto simp: dom_def)
  moreover have "audio_inv d'" "parts_inv d'"
    using camera_audio [OF streams_camera [OF r(2)] p1(2)] r(1) unfolding eq(2) by simp_all
  ultimately have inv: "chn_inv d'" by (simp add: chn_inv_def)
  have "holds d' t = holds d t" if "t \<in> vi_kinds" for t
    using streams_keep_vi [OF r(2) that] unfolding eq(2) by simp
  then have "vi_accounted d \<longrightarrow> vi_accounted d'" using fields by (auto simp: vi_accounted_def)
  moreover have "sub_encoding d' = (if ok then enable else sub_encoding d)"
    using sub_encoding_running [OF inv] sub_encoding_running [OF assms(1)] fields(7) by simp
  moreover have "chn_only d d'"
    using camera_chn_only [OF streams_camera [OF r(2)]] unfolding eq(2) by (simp add: chn_only_def keeps_def)
  ultimately show ?thesis using inv fields r(5) eq(1) by simp
qed

text \<open>
  C35: the sub encoder follows its switch.  After \<^verbatim>\<open>set_sub_stream_enabled\<close> the capture thread reads the sub encoder just
  if it was switched on with success; a failure changes nothing, switching off cannot fail while there is a sub encoder, the capture
  runs if it ran before, and the main encoder is not touched.
\<close>

theorem sub_stream_follows:
  assumes "chn_inv d" and "set_sub_stream_enabled k enable d = (ok, d')"
  shows "chn_inv d' \<and> (vi_accounted d \<longrightarrow> vi_accounted d') \<and> sub_encoding d' = (if ok then enable else sub_encoding d) \<and>
    (\<not> enable \<and> dc_is_start d \<and> dv_venc d Sub_Venc \<noteq> None \<longrightarrow> ok) \<and>
    dc_is_start d' = dc_is_start d \<and> dv_capturing d' = dv_capturing d \<and> dv_venc d' Main_Venc = dv_venc d Main_Venc"
  using set_sub_spec [OF assms] by blast

section \<open>Sound beside the channel\<close>

definition sound_only :: "'m encoders_state_scheme \<Rightarrow> 'm encoders_state_scheme \<Rightarrow> bool" where
  "sound_only d d' \<longleftrightarrow>
     (\<exists>t x a n. d' = d\<lparr>sd_trace := t, dv_aenc := x, dv_aplay_started := a, dv_silence_frames := n\<rparr>) \<and> keeps audio_kinds d d'"

lemma sound_step:
  assumes "chn_inv d" and "audio_inv d'" and "sound_only d d'"
  shows "chn_inv d' \<and> (vi_accounted d \<longrightarrow> vi_accounted d') \<and> dc_is_start d' = dc_is_start d \<and>
    dv_capturing d' = dv_capturing d \<and> sub_encoding d' = sub_encoding d \<and> (nothing_held d \<longrightarrow> nothing_held d')"
proof -
  obtain t x a n where s: "d' = d\<lparr>sd_trace := t, dv_aenc := x, dv_aplay_started := a, dv_silence_frames := n\<rparr>"
    and k: "keeps audio_kinds d d'" using assms(3) by (auto simp: sound_only_def)
  have h: "holds d' r = holds d r" if "r \<in> camera_kinds" for r
    using k that stream_kinds_apart(3,5) [of r] unfolding keeps_def camera_kinds_def by blast
  have ei: "encoders_inv d" "osd_inv d" using assms(1) by (simp_all add: chn_inv_def parts_inv_def)
  have "encoders_inv d'"
    by (rule encoders_inv_frame [OF ei(1)]) (use h in \<open>simp add: camera_kinds_def stream_kinds_def\<close>, simp_all add: s)
  moreover have "osd_inv d'"
    by (rule osd_inv_frame [OF ei(2)]) (use h in \<open>simp add: camera_kinds_def stream_kinds_def\<close>, simp add: s)
  moreover have "idle_chn d' = idle_chn d" "running_chn d' = running_chn d"
    unfolding s by (simp_all add: idle_chn_def running_chn_def)
  moreover have "dc_is_start d' = dc_is_start d" "dc_vi d' = dc_vi d" unfolding s by simp_all
  ultimately show ?thesis
    using assms(1,2) h s
    by (simp add: chn_inv_def parts_inv_def vi_accounted_def sub_encoding_def nothing_held_def camera_kinds_def)
qed

lemma aplay_start_only: "\<exists>t a n. snd (aplay_start k d) = d\<lparr>sd_trace := t, dv_aplay_started := a, dv_silence_frames := n\<rparr>"
proof (cases "dv_aplay_started d")
  case True
  then show ?thesis
    by (intro exI [of _ "sd_trace d"] exI [of _ "dv_aplay_started d"] exI [of _ "dv_silence_frames d"]) (simp add: aplay_start_def)
next
  case False
  obtain t where t: "snd (aplay_open k d) = d\<lparr>sd_trace := t\<rparr>" using aplay_open_on by (rule calls_onE)
  let ?cs = "[Configure [''ss_mpi_ao_set_volume''] [0, 6], Configure [''ss_mpi_ao_set_mute''] [0, 0]]"
  obtain u where u: "sdk_tells k ?cs (d\<lparr>sd_trace := t\<rparr>) = (d\<lparr>sd_trace := t\<rparr>)\<lparr>sd_trace := u\<rparr>"
    using calls_on_tells [OF subset_refl] by (rule calls_onE)
  show ?thesis
  proof (cases "fst (aplay_open k d)")
    case True
    then have "snd (aplay_start k d) = d\<lparr>sd_trace := u, dv_aplay_started := True, dv_silence_frames := 0\<rparr>"
      using False t u by (simp add: aplay_start_def)
    then show ?thesis by blast
  next
    case nok: False
    then have "snd (aplay_start k d) =
        d\<lparr>sd_trace := t, dv_aplay_started := dv_aplay_started d, dv_silence_frames := dv_silence_frames d\<rparr>"
      using False t by (simp add: aplay_start_def)
    then show ?thesis by blast
  qed
qed

lemma send_g711u_only:
  "\<exists>t a n. snd (send_g711u k data d) = d\<lparr>sd_trace := t, dv_aplay_started := a, dv_silence_frames := n\<rparr>"
proof -
  define speaker :: "'a audio_state_scheme \<Rightarrow> 'a audio_state_scheme \<Rightarrow> bool" where
    "speaker = (\<lambda>d d'. \<exists>t a n. d' = d\<lparr>sd_trace := t, dv_aplay_started := a, dv_silence_frames := n\<rparr>)"
  have refl: "speaker e e" for e
    unfolding speaker_def by (rule exI [of _ "sd_trace e"], rule exI [of _ "dv_aplay_started e"], rule exI [of _ "dv_silence_frames e"]) simp
  have tr: "speaker a c" if "speaker a b" "speaker b c" for a b c using that unfolding speaker_def by fastforce
  have note1: "speaker e (note_silence b e)" for b e
  proof (cases "dv_aplay_started e")
    case True
    have "e\<lparr>dv_silence_frames := n\<rparr> = e\<lparr>sd_trace := sd_trace e, dv_aplay_started := dv_aplay_started e, dv_silence_frames := n\<rparr>" for n
      by simp
    then show ?thesis using True unfolding speaker_def note_silence_def by metis
  qed (use refl in \<open>simp add: note_silence_def\<close>)
  have start: "speaker e (snd (aplay_start k e))" for e unfolding speaker_def by (rule aplay_start_only)
  have stop: "speaker e (aplay_stop k e)" for e unfolding speaker_def by (rule aplay_stop_shape)
  have send: "speaker e (snd (send_pcm_locked k p e))" for p e
  proof -
    obtain t where "snd (send_pcm_locked k p e) = e\<lparr>sd_trace := t\<rparr>" using send_pcm_on by (rule calls_onE)
    then have "snd (send_pcm_locked k p e) =
        e\<lparr>sd_trace := t, dv_aplay_started := dv_aplay_started e, dv_silence_frames := dv_silence_frames e\<rparr>" by simp
    then show ?thesis unfolding speaker_def by blast
  qed
  have "speaker d (snd (send_g711u k data d))"
  proof (cases data)
    case None
    then show ?thesis using refl by (simp add: send_g711u_def)
  next
    case (Some bs)
    define d1 where "d1 = note_silence (is_mulaw_silence_frame (Some bs)) d"
    define r where "r = (if dv_aplay_started d then (True, d1) else aplay_start k d1)"
    have d1: "speaker d d1" unfolding d1_def by (rule note1)
    have r: "speaker d (snd r)" unfolding r_def using d1 tr [OF d1 start] by simp
    have go: "speaker d (snd (and_try r (\<lambda>d2. if \<not> dv_aplay_started d2 then (False, d2)
        else send_pcm_locked k (map mulaw_to_linear bs) d2)))"
      using r tr [OF r send] by simp
    show ?thesis
      using refl [of d] go tr [OF d1 stop]
      unfolding send_g711u_def Some option.case Let_def d1_def [symmetric] r_def [symmetric] by simp
  qed
  then show ?thesis unfolding speaker_def .
qed

lemma audio_shape_only:
  assumes "\<exists>t a n. d' = d\<lparr>sd_trace := t, dv_aplay_started := a, dv_silence_frames := n\<rparr>" and "keeps audio_kinds d d'"
  shows "sound_only d d'"
proof -
  obtain t a n where "d' = d\<lparr>sd_trace := t, dv_aplay_started := a, dv_silence_frames := n\<rparr>" using assms(1) by blast
  then have "d' = d\<lparr>sd_trace := t, dv_aenc := dv_aenc d, dv_aplay_started := a, dv_silence_frames := n\<rparr>" by simp
  then show ?thesis using assms(2) unfolding sound_only_def by blast
qed

text \<open>The speaker and the microphone.\<close>

lemma play_step:
  assumes "chn_inv d"
  shows "chn_inv (snd (send_g711u k data d)) \<and> (vi_accounted d \<longrightarrow> vi_accounted (snd (send_g711u k data d))) \<and>
    dc_is_start (snd (send_g711u k data d)) = dc_is_start d \<and> dv_capturing (snd (send_g711u k data d)) = dv_capturing d \<and>
    sub_encoding (snd (send_g711u k data d)) = sub_encoding d \<and> (nothing_held d \<longrightarrow> nothing_held (snd (send_g711u k data d)))"
proof -
  have "audio_inv d" using assms by (simp add: chn_inv_def)
  note i = send_g711u_inv [OF this, of k data]
  show ?thesis by (rule sound_step [OF assms i(1) audio_shape_only [OF send_g711u_only i(2)]])
qed

lemma aplay_stop_step:
  assumes "chn_inv d"
  shows "chn_inv (aplay_stop k d) \<and> (vi_accounted d \<longrightarrow> vi_accounted (aplay_stop k d)) \<and>
    dc_is_start (aplay_stop k d) = dc_is_start d \<and> dv_capturing (aplay_stop k d) = dv_capturing d \<and>
    sub_encoding (aplay_stop k d) = sub_encoding d \<and> (nothing_held d \<longrightarrow> nothing_held (aplay_stop k d))"
proof -
  have "audio_inv d" using assms by (simp add: chn_inv_def)
  note i = aplay_stop_inv [OF this, of k]
  show ?thesis by (rule sound_step [OF assms i(1) audio_shape_only [OF aplay_stop_shape i(2)]])
qed

lemma enable_audio_step:
  assumes "chn_inv d" and "venc_enable_audio k enable is_mic name d = (ok, d')"
  shows "chn_inv d' \<and> (vi_accounted d \<longrightarrow> vi_accounted d') \<and> dc_is_start d' = dc_is_start d \<and>
    dv_capturing d' = dv_capturing d \<and> sub_encoding d' = sub_encoding d \<and> (nothing_held d \<longrightarrow> nothing_held d')"
proof -
  have "audio_inv d" using assms(1) by (simp add: chn_inv_def)
  note sp = venc_enable_audio_spec [OF this assms(2)]
  obtain t a where "d' = d\<lparr>sd_trace := t, dv_aenc := a\<rparr>" using sp by blast
  then have "d' = d\<lparr>sd_trace := t, dv_aenc := a, dv_aplay_started := dv_aplay_started d, dv_silence_frames := dv_silence_frames d\<rparr>"
    by simp
  then have "sound_only d d'" using sp unfolding sound_only_def by blast
  then show ?thesis using sound_step [OF assms(1)] sp by blast
qed

section \<open>Instances\<close>

text \<open>An idle camera with four encoder channels, and one that runs.\<close>

definition demo_device :: device where
  "demo_device =
     \<lparr>sd_trace = [], sy_venc = (True, replicate 4 False), sy_rgn = (True, replicate 4 False), dv_vi_started = False,
      dv_isp_thread = False, dv_osd = Map.empty, dv_aenc = None, dv_aplay_started = False, dv_silence_frames = 0,
      dv_venc = Map.empty, dv_vencs = [], dv_capturing = False, dc_is_start = False, dc_vi = None, dc_sub_running = False,
      dc_registered = False, dc_observes = {}, dc_sys_flag = 0, dc_vi_max_w = 2560, dc_vi_max_h = 1440, dc_vi_fr = 30,
      dc_vi_wdr_mode = 0\<rparr>"

definition demo_chn :: chn where
  "demo_chn = \<lparr>ch_vi_name = ''SC4336P'', ch_venc_mode = ''H264_CBR'', ch_no = 0\<rparr>"

definition demo_venc :: "int \<Rightarrow> bool \<Rightarrow> venc" where
  "demo_venc c running =
     \<lparr>vn_chn = c, vn_w = 1280, vn_h = 720, vn_src_fr = 30, vn_fr = 15, vn_bitrate = 800, vn_svc = False, vn_h265 = False,
      vn_avbr = False, vn_source = Port_Vpss 0 0, vn_created = True, vn_bound = running, vn_running = running\<rparr>"

definition demo_running :: device where
  "demo_running = demo_device
     \<lparr>sd_trace := [(Acquire (Vi_Dev 0), True), (Acquire (Venc_Chn 0), True), (Acquire (Venc_Run 0), True), (Acquire (Venc_Chn 1), True)],
      sy_venc := (True, [True, True, False, False]), dv_vi_started := True, dv_isp_thread := True,
      dv_venc := [Main_Venc \<mapsto> demo_venc 0 True, Sub_Venc \<mapsto> demo_venc 1 False], dv_vencs := [Main_Venc],
      dv_capturing := True, dc_is_start := True, dc_vi := Some (vi_sc4336p_liner 0 2560 1440 30), dc_registered := True,
      dc_observes := {Main_Venc, Sub_Venc}\<rparr>"

lemma holds_demo [simp]: "holds demo_device r = False"
  by (simp add: holds_def holds_after_def demo_device_def)

lemma demo_device_inv: "chn_inv demo_device" "vi_accounted demo_device" "\<not> dc_is_start demo_device" "free_chns 2 demo_device"
  by (simp_all add: vi_accounted_def)
    (simp_all add: demo_device_def chn_inv_def idle_chn_def parts_inv_def encoders_inv_def osd_inv_def audio_inv_def holds_def
      holds_after_def free_chns_def pool_flags_def)

lemma holds_demo_running:
  "holds demo_running r \<longleftrightarrow> r = Vi_Dev 0 \<or> r = Venc_Chn 0 \<or> r = Venc_Run 0 \<or> r = Venc_Chn 1"
  by (simp add: holds_def holds_after_def demo_running_def)

lemma demo_running_inv: "chn_inv demo_running" "vi_accounted demo_running"
proof -
  have v: "dv_venc demo_running = [Main_Venc \<mapsto> demo_venc 0 True, Sub_Venc \<mapsto> demo_venc 1 False]"
    "dv_vencs demo_running = [Main_Venc]" "dv_osd demo_running = Map.empty" "dv_aenc demo_running = None"
    "dc_vi demo_running = Some (vi_sc4336p_liner 0 2560 1440 30)" "dc_is_start demo_running"
    by (simp_all add: demo_running_def demo_device_def)
  have t: "venc_taken demo_running 0" "venc_taken demo_running 1"
    by (simp_all add: venc_taken_def pool_taken_def pool_flags_def demo_running_def)
  have "encoders_inv demo_running"
    unfolding encoders_inv_def v venc_ok_defs holds_demo_running
    by (auto simp: demo_venc_def venc_kinds_def t)
  moreover have "osd_inv demo_running" unfolding osd_inv_def holds_demo_running v by (auto simp: osd_kinds_def)
  moreover have "audio_inv demo_running" unfolding audio_inv_def holds_demo_running v by (auto simp: audio_kind_defs)
  moreover have "running_chn demo_running"
    by (auto simp: running_chn_def demo_running_def demo_venc_def demo_device_def)
  ultimately show "chn_inv demo_running" by (simp add: chn_inv_def parts_inv_def)
  have "Vi_Dev 0 \<in> vi_resources (vi_sc4336p_liner 0 2560 1440 30)"
    by (simp add: vi_resources_def vi_liner_defs limit_rate_def new_vi_isp_def)
  moreover have "Venc_Chn c \<notin> vi_kinds" "Venc_Run c \<notin> vi_kinds" for c by (auto dest!: vi_kinds_cases)
  ultimately show "vi_accounted demo_running" unfolding vi_accounted_def holds_demo_running v(5) using v(6) by auto
qed

text \<open>Answers that do not look at the calls made before.\<close>

lemma fst_sequence_const: "fst (sdk_sequence (\<lambda>_. f) cs d) = list_all f cs"
  by (induction cs arbitrary: d) simp_all

lemma demo_capture: "chn_capture demo_chn default_encode_options demo_device = Some (sized_vi default_encode_options (vi_sc4336p_liner 0 2560 1440 30))"
  by (simp add: chn_capture_def demo_chn_def demo_device_def default_encode_options_def MAX_CHANNEL_def make_vi_def too_large_def
      vi_liner_defs limit_rate_def new_vi_isp_def)

lemma fst_vi_start_const:
  assumes "\<not> dv_vi_started d" and "vi_pipes w = [0]"
  shows "fst (start_capture_path (\<lambda>_. f) w d) \<longleftrightarrow>
      f (Acquire (Dev_File MIPI_DEV_NAME)) \<and> f (Configure [''ss_mpi_vi_set_dev_attr''] [vi_dev w, vi_w w, vi_h w]) \<and>
      f (Acquire (Vi_Dev (vi_dev w))) \<and> f (Acquire (Vi_Bound (vi_dev w) 0)) \<and>
      f (Configure [''ss_mpi_vi_set_wdr_fusion_grp_attr''] [0, vi_wdr_mode w, vi_h w, 0]) \<and> f (Acquire (Vi_Pipe 0)) \<and>
      f (Acquire (Vi_Pipe_Run 0)) \<and> f (Configure [''ss_mpi_vi_set_chn_attr''] [0, vi_vi_chn, vi_w w, vi_h w]) \<and>
      f (Acquire (Vi_Chn 0 vi_vi_chn))"
    and "fst (vi_isp_start (\<lambda>_. f) w d) \<longleftrightarrow> fst (start_capture_path (\<lambda>_. f) w d) \<and> f (Acquire (vi_link w)) \<and>
      f (Acquire (Vpss_Grp vi_vpss_grp)) \<and> f (Acquire (Vpss_Grp_Run vi_vpss_grp)) \<and>
      f (Configure [''ss_mpi_vpss_set_chn_attr''] [vi_vpss_grp, vi_vpss_chn, vi_vpss_w w, vi_vpss_h w]) \<and>
      f (Acquire (Vpss_Chn vi_vpss_grp vi_vpss_chn))"
  using assms
  by (auto simp: start_capture_path_def start_mipi_def reset_sns_def with_mipi_def fst_sequence_const start_pipe_def
      vi_isp_start_def start_vpss_def simp del: sdk_sequence.simps)

lemmas demo_vi_defs = sized_vi_def vi_sc4336p_liner_def limit_rate_def new_vi_isp_def


theorem failed_capture_not_cleaned_witness:
  "chn_start (\<lambda>_ c. c \<noteq> Acquire (Vpss_Grp 0)) demo_chn default_encode_options default_encode_options demo_device = None"
proof -
  let ?w = "sized_vi default_encode_options (vi_sc4336p_liner 0 2560 1440 30)" and ?f = "\<lambda>c. c \<noteq> Acquire (Vpss_Grp 0)"
  have a: "\<not> dv_vi_started (demo_device\<lparr>dc_vi := Some ?w\<rparr>)" by (simp add: demo_device_def)
  have b: "vi_pipes ?w = [0]" by (simp add: demo_vi_defs)
  have "fst (start_capture_path (\<lambda>_. ?f) ?w (demo_device\<lparr>dc_vi := Some ?w\<rparr>))"
    "\<not> fst (vi_isp_start (\<lambda>_. ?f) ?w (demo_device\<lparr>dc_vi := Some ?w\<rparr>))"
    unfolding fst_vi_start_const [OF a b] by (simp_all add: vi_number_defs)
  then show ?thesis
    using failed_capture_not_cleaned [OF demo_device_inv(1,3) demo_capture, of "\<lambda>_. ?f" default_encode_options] by simp
qed


theorem sub_stream_follows_witness:
  "sub_encoding (snd (set_sub_stream_enabled (\<lambda>_ _. True) True demo_running)) =
     fst (set_sub_stream_enabled (\<lambda>_ _. True) True demo_running)"
  using sub_stream_follows [OF demo_running_inv(1) prod.collapse [symmetric], of "\<lambda>_ _. True" True]
  by (simp add: sub_encoding_def demo_running_def)

end
