(* ===== verification/Hisi_Pipeline.thy ===== *)
theory Hisi_Pipeline
  imports Dev_Chn Main_Program
begin

text \<open>
  The device as the program sees it (src/device\_adapter/src/hisilicon\_pipeline.cpp, and the initialisation of
  the neural unit in src/devices/hisi\_3516cv610/dev\_svp.cpp): start with roll-back, stop, the demand for
  streams, and the two threads that start and stop the sub encoder and the detector.  A thread is the place
  where it waits or has given the mutex away; between two such places it is one step, because it holds the
  mutex.  Whether a timed wait has run out is an argument of the step.  The detector itself is not modelled: its
  start and stop are calls.  The lemmas show that start and stop account
  for everything that is held, that a stream that is required is encoded, and where the threads miss a demand.
\<close>

section \<open>State\<close>

datatype stream_place = Stream_Wait | Stream_Idle u64 | Stream_Off

datatype ai_place =
    Ai_Wait
  | Ai_Launch u64
  | Ai_Starting u64
  | Ai_Started u64 bool
  | Ai_Done u64 bool
  | Ai_Idle u64

record 'h pipeline =
  pl_device :: device
  pl_media :: "'h media_source"
  pl_streams :: streams_config
  pl_channel :: "(chn \<times> encoded_channel) option"
  pl_publisher :: bool
  pl_detector :: bool
  pl_stream_worker :: "stream_place option"
  pl_ai_worker :: "ai_place option"
  pl_stream_generation :: u64
  pl_ai_generation :: u64
  pl_stream_worker_stop :: bool
  pl_ai_worker_stop :: bool
  pl_sub_required :: bool
  pl_ai_required :: bool
  pl_running :: bool
  pl_sys_inited :: bool
  pl_osd_inited :: bool
  pl_svp_inited :: bool

text \<open>The options, of which only the streams change, with what the library says about sizes.\<close>

record hisi_env =
  he_options :: device_options
  he_sys_flag :: int
  he_sizes :: buffer_sizes
  he_detector_size :: "int \<times> int"

definition audio_codec_from_name :: "string \<Rightarrow> codec" where
  "audio_codec_from_name name = (if name = ''G711U'' then G711U else if name = ''AAC'' then AAC else Codec_Unknown)"

definition new_pipeline :: "hisi_env \<Rightarrow> device \<Rightarrow> 'h media_source \<Rightarrow> 'h pipeline" where
  "new_pipeline e d media =
     \<lparr>pl_device = d, pl_media = media, pl_streams = do_streams (he_options e), pl_channel = None, pl_publisher = False,
      pl_detector = False, pl_stream_worker = None, pl_ai_worker = None, pl_stream_generation = 0, pl_ai_generation = 0,
      pl_stream_worker_stop = False, pl_ai_worker_stop = False, pl_sub_required = False, pl_ai_required = False,
      pl_running = False, pl_sys_inited = False, pl_osd_inited = False, pl_svp_inited = False\<rparr>"

definition on_device :: "(device \<Rightarrow> device) \<Rightarrow> 'h pipeline \<Rightarrow> 'h pipeline" where
  "on_device f p = p\<lparr>pl_device := f (pl_device p)\<rparr>"

definition try_device :: "(device \<Rightarrow> bool \<times> device) \<Rightarrow> 'h pipeline \<Rightarrow> bool \<times> 'h pipeline" where
  "try_device f p = (fst (f (pl_device p)), p\<lparr>pl_device := snd (f (pl_device p))\<rparr>)"

section \<open>The neural unit\<close>

definition svp_init :: "sdk_answers \<Rightarrow> 'm sdk_scheme \<Rightarrow> bool \<times> 'm sdk_scheme" where
  "svp_init k d =
     and_try (sdk_ask k (Acquire Acl_Lib) d)
       (\<lambda>d1. or_undo
          (and_try (sdk_ask k (Acquire (Acl_Dev 0)) d1)
            (\<lambda>d2. or_undo (sdk_ask k (Configure [''svp_acl_rt_get_run_mode'', ''SVP_ACL_DEVICE''] []) d2)
                    (sdk_tell k (Release (Acl_Dev 0)))))
          (sdk_tell k (Release Acl_Lib)))"

definition svp_release :: "sdk_answers \<Rightarrow> 'm sdk_scheme \<Rightarrow> 'm sdk_scheme" where
  "svp_release k d = sdk_tell k (Release Acl_Lib) d"

definition stop_yolov8_locked :: "sdk_answers \<Rightarrow> 'h pipeline \<Rightarrow> 'h pipeline" where
  "stop_yolov8_locked k p =
     (if \<not> pl_detector p then p
      else (on_device (sdk_tells k ((if pl_publisher p then [Release Detector_Observer] else []) @ [Release Detector])) p)
             \<lparr>pl_detector := False\<rparr>)"

section \<open>Start\<close>

definition release_channel :: "sdk_answers \<Rightarrow> 'h pipeline \<Rightarrow> 'h pipeline" where
  "release_channel k p =
     (case pl_channel p of None \<Rightarrow> p | Some c \<Rightarrow> (on_device (chn_stop k) p)\<lparr>pl_channel := None\<rparr>)"

definition release_svp :: "sdk_answers \<Rightarrow> 'h pipeline \<Rightarrow> 'h pipeline" where
  "release_svp k p = (if pl_svp_inited p then (on_device (svp_release k) p)\<lparr>pl_svp_inited := False\<rparr> else p)"

definition release_osd :: "sdk_answers \<Rightarrow> 'h pipeline \<Rightarrow> 'h pipeline" where
  "release_osd k p = (if pl_osd_inited p then (on_device (osd_release k) p)\<lparr>pl_osd_inited := False\<rparr> else p)"

definition release_sys :: "sdk_answers \<Rightarrow> 'h pipeline \<Rightarrow> 'h pipeline" where
  "release_sys k p = (if pl_sys_inited p then (on_device (chn_release k) p)\<lparr>pl_sys_inited := False\<rparr> else p)"

definition release_sound :: "sdk_answers \<Rightarrow> 'h pipeline \<Rightarrow> 'h pipeline" where
  "release_sound k p = on_device (\<lambda>d. snd (venc_enable_audio k False False [] (aplay_stop k d))) p"

definition fail_cleanup :: "sdk_answers \<Rightarrow> 'h pipeline \<Rightarrow> 'h pipeline" where
  "fail_cleanup k p =
     release_sys k (release_osd k (release_channel k (release_svp k (release_sound k
       ((stop_yolov8_locked k p)\<lparr>pl_publisher := False\<rparr>)))))"

text \<open>Fonts are needed for clocks and for the detector; without them there are no clocks.\<close>

definition clocks_off :: "streams_config \<Rightarrow> streams_config" where
  "clocks_off s =
     s\<lparr>ss_main := (ss_main s)\<lparr>es_osd := (es_osd (ss_main s))\<lparr>to_enable := False\<rparr>\<rparr>,
       ss_sub := (ss_sub s)\<lparr>es_osd := (es_osd (ss_sub s))\<lparr>to_enable := False\<rparr>\<rparr>\<rparr>"

definition init_fonts :: "sdk_answers \<Rightarrow> 'h pipeline \<Rightarrow> 'h pipeline" where
  "init_fonts k p =
     (let s = pl_streams p; r = try_device (osd_init k) p;
          q = (if to_enable (es_osd (ss_main s)) \<or> to_enable (es_osd (ss_sub s)) \<or> ai_enable (ss_ai s)
               then (snd r)\<lparr>pl_osd_inited := fst r\<rparr> else p)
      in if pl_osd_inited q then q else q\<lparr>pl_streams := clocks_off s\<rparr>)"

text \<open>\<^verbatim>\<open>EncodedStreamChannel::start_encoders\<close>: the options of the encoders.\<close>

definition encode_options :: "encoded_stream_config \<Rightarrow> bool \<Rightarrow> venc_encode_options" where
  "encode_options s svc =
     \<lparr>vo_enable = es_enable s, vo_width = es_width s, vo_height = es_height s, vo_frame_rate = es_fps s,
      vo_bitrate_kbps = es_bitrate_kbps s, vo_svc_enable = (if svc then 1 else 0), vo_osd = es_osd s\<rparr>"

definition start_encoders ::
  "sdk_answers \<Rightarrow> chn \<Rightarrow> encoded_stream_config \<Rightarrow> encoded_stream_config \<Rightarrow> device \<Rightarrow> (bool \<times> device) option" where
  "start_encoders k c main sub d = chn_start k c (encode_options main (es_svc main)) (encode_options sub False) d"

text \<open>A new channel, its tracks and its encoders; \<open>None\<close> is the end of the program.\<close>

definition open_channel :: "sdk_answers \<Rightarrow> hisi_env \<Rightarrow> 'h pipeline \<Rightarrow> (bool \<times> 'h pipeline) option" where
  "open_channel k e p =
     (let s = pl_streams p; mode = es_mode (ss_main s);
          c = \<lparr>ch_vi_name = do_sensor_name (he_options e), ch_venc_mode = mode, ch_no = do_channel_id (he_options e)\<rparr>;
          codec = (if contains ''H265'' mode then H265 else H264);
          t = register_encoded_tracks s codec (pl_media p);
          q = p\<lparr>pl_channel := Some (c, new_encoded_channel mode), pl_media := snd t,
                pl_device := (pl_device p)\<lparr>dc_vi := None\<rparr>\<rparr>
      in if \<not> fst t then Some (False, q)
         else map_option (\<lambda>(ok, d). (ok, q\<lparr>pl_device := d\<rparr>)) (start_encoders k c (ss_main s) (ss_sub s) (pl_device q)))"

definition start_sub :: "sdk_answers \<Rightarrow> 'h pipeline \<Rightarrow> bool \<times> 'h pipeline" where
  "start_sub k p =
     (if es_enable (ss_sub (pl_streams p)) \<and> es_start (ss_sub (pl_streams p)) = Boot
      then try_device (set_sub_stream_enabled k True) p else (True, p))"

definition start_audio :: "sdk_answers \<Rightarrow> hisi_env \<Rightarrow> 'h pipeline \<Rightarrow> bool \<times> 'h pipeline" where
  "start_audio k e p =
     (let name = do_audio_codec (he_options e); codec = audio_codec_from_name name;
          rate = (if codec = AAC then 44100 else 8000); channels = (if codec = AAC then 2 else 1)
      in if \<not> do_audio_enabled (he_options e) then (True, p)
         else
           case pl_channel p of
             None \<Rightarrow> (False, p)
           | Some (c, ch) \<Rightarrow>
               (case register_audio_tracks codec rate channels 16 ch (pl_media p) of (ok, ch1, media) \<Rightarrow>
                 let q = p\<lparr>pl_channel := Some (c, ch1), pl_media := media\<rparr> in
                 if \<not> ok then (False, q)
                 else try_device (venc_enable_audio k True (do_audio_microphone (he_options e)) name) q))"

definition start_ai :: "sdk_answers \<Rightarrow> 'h pipeline \<Rightarrow> bool \<times> 'h pipeline" where
  "start_ai k p =
     (let ai = ss_ai (pl_streams p) in
      if \<not> ai_enable ai then (True, p)
      else if ai_acl ai = [] \<or> ai_model ai = [] then (False, p)
      else
        and_try (try_device (svp_init k) p)
          (\<lambda>q. let t = ai_register_track (ai_width ai) (ai_height ai) (ai_fps ai) (pl_media q) in
               (fst t, q\<lparr>pl_svp_inited := True, pl_publisher := True, pl_media := snd t\<rparr>)))"

definition begin_running :: "sdk_answers \<Rightarrow> hisi_env \<Rightarrow> 'h pipeline \<Rightarrow> 'h pipeline" where
  "begin_running k e p =
     (let s = pl_streams p;
          q = on_device (\<lambda>d. snd (request_i_frame k (do_channel_id (he_options e)) 0 (chn_start_capture True d))) p
      in q\<lparr>pl_stream_worker_stop := False, pl_ai_worker_stop := False,
           pl_sub_required := (es_enable (ss_sub s) \<and> es_start (ss_sub s) = Boot),
           pl_ai_required := (ai_enable (ss_ai s) \<and> ai_start (ss_ai s) = Boot),
           pl_stream_generation := pl_stream_generation q + 1, pl_ai_generation := pl_ai_generation q + 1,
           pl_running := True, pl_stream_worker := Some Stream_Wait,
           pl_ai_worker := (if ai_enable (ss_ai s) then Some Ai_Wait else pl_ai_worker q)\<rparr>)"

definition start_features :: "sdk_answers \<Rightarrow> hisi_env \<Rightarrow> 'h pipeline \<Rightarrow> bool \<times> 'h pipeline" where
  "start_features k e p = and_try (and_try (start_sub k p) (start_audio k e)) (start_ai k)"

definition start_library :: "sdk_answers \<Rightarrow> hisi_env \<Rightarrow> device \<Rightarrow> bool \<times> device" where
  "start_library k e d =
     (let ho = he_options e in
      chn_init k (he_sizes e) (he_sys_flag e) (do_lane_mode ho) (do_sensor_width ho) (do_sensor_height ho) (do_sensor_fps ho)
        (do_wdr_mode ho) d)"

definition pipeline_start :: "sdk_answers \<Rightarrow> hisi_env \<Rightarrow> 'h pipeline \<Rightarrow> (bool \<times> 'h pipeline) option" where
  "pipeline_start k e p =
     (if pl_running p then Some (False, p)
      else
        let r = try_device (start_library k e) p
        in if \<not> fst r then Some (False, snd r)
           else
             map_option
               (\<lambda>r1. let r2 = and_try r1 (start_features k e) in
                  if fst r2 then (True, begin_running k e (snd r2)) else (False, fail_cleanup k (snd r2)))
               (open_channel k e (init_fonts k ((snd r)\<lparr>pl_sys_inited := True\<rparr>))))"

section \<open>Demand\<close>

definition set_stream_active ::
  "sdk_answers \<Rightarrow> hisi_env \<Rightarrow> int \<Rightarrow> int \<Rightarrow> bool \<Rightarrow> 'h pipeline \<Rightarrow> bool \<times> 'h pipeline" where
  "set_stream_active k e channel_id stream_id active p =
     (if channel_id \<noteq> do_channel_id (he_options e) then (False, p)
      else if stream_id = 0 then (True, p)
      else if stream_id = AI_STREAM_ID then
        (if \<not> ai_enable (ss_ai (pl_streams p)) \<or> \<not> pl_running p \<or> pl_channel p = None \<or> \<not> pl_publisher p then (False, p)
         else (True, p\<lparr>pl_ai_required := active, pl_ai_generation := pl_ai_generation p + 1\<rparr>))
      else if stream_id \<noteq> SUB_STREAM_ID \<or> \<not> es_enable (ss_sub (pl_streams p)) \<or> \<not> pl_running p \<or> pl_channel p = None
      then (False, p)
      else
        let q = p\<lparr>pl_sub_required := active, pl_stream_generation := pl_stream_generation p + 1\<rparr> in
        if \<not> active then (True, q)
        else
          let r = try_device (set_sub_stream_enabled k True) q in
          if fst r then r
          else (False, (snd r)\<lparr>pl_sub_required := False, pl_stream_generation := pl_stream_generation q + 1\<rparr>))"

definition pipeline_keyframe :: "sdk_answers \<Rightarrow> int \<Rightarrow> int \<Rightarrow> 'h pipeline \<Rightarrow> bool \<times> 'h pipeline" where
  "pipeline_keyframe k channel_id stream_id p = try_device (request_i_frame k channel_id stream_id) p"

definition pipeline_play :: "sdk_answers \<Rightarrow> u8 list option \<Rightarrow> 'h pipeline \<Rightarrow> bool \<times> 'h pipeline" where
  "pipeline_play k data p = try_device (send_g711u k data) p"

section \<open>The threads\<close>

text \<open>The head of the loop.\<close>

definition stream_loop :: "'h pipeline \<Rightarrow> 'h pipeline" where
  "stream_loop p = p\<lparr>pl_stream_worker := (if pl_stream_worker_stop p then None else Some Stream_Wait)\<rparr>"

text \<open>A step of \<^verbatim>\<open>stream_lifecycle_worker\<close>; \<open>None\<close> when it waits or has ended.\<close>

definition stream_worker_step :: "sdk_answers \<Rightarrow> bool \<Rightarrow> 'h pipeline \<Rightarrow> 'h pipeline option" where
  "stream_worker_step k timeout p =
     (case pl_stream_worker p of
        None \<Rightarrow> None
      | Some Stream_Wait \<Rightarrow>
          if pl_stream_worker_stop p then Some (p\<lparr>pl_stream_worker := None\<rparr>)
          else if \<not> pl_sub_required p then Some (p\<lparr>pl_stream_worker := Some (Stream_Idle (pl_stream_generation p))\<rparr>)
          else None
      | Some (Stream_Idle g) \<Rightarrow>
          if pl_stream_worker_stop p \<or> pl_sub_required p \<or> pl_stream_generation p \<noteq> g then Some (stream_loop p)
          else if timeout then
            Some ((if pl_channel p \<noteq> None then on_device (\<lambda>d. snd (set_sub_stream_enabled k False d)) p else p)
                    \<lparr>pl_stream_worker := Some Stream_Off\<rparr>)
          else None
      | Some Stream_Off \<Rightarrow> if pl_stream_worker_stop p \<or> pl_sub_required p then Some (stream_loop p) else None)"

definition ai_loop :: "'h pipeline \<Rightarrow> 'h pipeline" where
  "ai_loop p = p\<lparr>pl_ai_worker := (if pl_ai_worker_stop p then None else Some Ai_Wait)\<rparr>"

text \<open>What \<^verbatim>\<open>start_yolov8_async\<close> asks under the mutex before and after the detector has been loaded.\<close>

definition ai_unwanted :: "u64 \<Rightarrow> 'h pipeline \<Rightarrow> bool" where
  "ai_unwanted g p \<longleftrightarrow> pl_ai_worker_stop p \<or> \<not> pl_ai_required p \<or> pl_ai_generation p \<noteq> g \<or> pl_detector p"

definition take_detector :: "sdk_answers \<Rightarrow> hisi_env \<Rightarrow> 'h pipeline \<Rightarrow> 'h pipeline" where
  "take_detector k e p =
     (case he_detector_size e of (w, h) \<Rightarrow>
       (on_device (sdk_tell k (Acquire Detector_Observer)) p)
         \<lparr>pl_media := (if w > 0 \<and> h > 0 then snd (ai_register_track w h (ai_fps (ss_ai (pl_streams p))) (pl_media p))
                      else pl_media p),
          pl_detector := True\<rparr>)"

definition ai_worker_step :: "sdk_answers \<Rightarrow> hisi_env \<Rightarrow> bool \<Rightarrow> 'h pipeline \<Rightarrow> 'h pipeline option" where
  "ai_worker_step k e timeout p =
     (let to = (\<lambda>w q. Some (q\<lparr>pl_ai_worker := Some w\<rparr>)) in
      case pl_ai_worker p of
        None \<Rightarrow> None
      | Some Ai_Wait \<Rightarrow>
          if pl_ai_worker_stop p then Some (p\<lparr>pl_ai_worker := None\<rparr>)
          else if pl_ai_required p \<and> \<not> pl_detector p then to (Ai_Launch (pl_ai_generation p)) p
          else if \<not> pl_ai_required p \<and> pl_detector p then to (Ai_Idle (pl_ai_generation p)) p
          else None
      | Some (Ai_Launch g) \<Rightarrow>
          if ai_unwanted g p \<or> pl_channel p = None \<or> \<not> pl_publisher p \<or> \<not> pl_svp_inited p \<or> dc_vi (pl_device p) = None
          then to (Ai_Done g False) p
          else to (Ai_Starting g) p
      | Some (Ai_Starting g) \<Rightarrow>
          let r = try_device (sdk_ask k (Acquire Detector)) p in to (Ai_Started g (fst r)) (snd r)
      | Some (Ai_Started g ok) \<Rightarrow>
          if \<not> ok then to (Ai_Done g False) p
          else if ai_unwanted g p then to (Ai_Done g False) (on_device (sdk_tell k (Release Detector)) p)
          else to (Ai_Done g True) (take_detector k e p)
      | Some (Ai_Done g ok) \<Rightarrow>
          Some (ai_loop
            (if \<not> ok \<and> pl_ai_required p \<and> pl_ai_generation p = g \<and> \<not> pl_detector p
             then p\<lparr>pl_ai_required := False, pl_ai_generation := pl_ai_generation p + 1\<rparr> else p))
      | Some (Ai_Idle g) \<Rightarrow>
          if pl_ai_worker_stop p \<or> pl_ai_required p \<or> pl_ai_generation p \<noteq> g then Some (ai_loop p)
          else if timeout then Some (ai_loop (stop_yolov8_locked k p))
          else None)"

section \<open>Stop\<close>

text \<open>Joining a thread that has been told to stop: its steps up to the end, of which there are at most four.\<close>

fun join_ai :: "sdk_answers \<Rightarrow> hisi_env \<Rightarrow> nat \<Rightarrow> 'h pipeline \<Rightarrow> 'h pipeline option" where
  "join_ai k e 0 p = (if pl_ai_worker p = None then Some p else None)"
| "join_ai k e (Suc n) p =
     (if pl_ai_worker p = None then Some p else Option.bind (ai_worker_step k e False p) (join_ai k e n))"

fun join_stream :: "sdk_answers \<Rightarrow> nat \<Rightarrow> 'h pipeline \<Rightarrow> 'h pipeline option" where
  "join_stream k 0 p = (if pl_stream_worker p = None then Some p else None)"
| "join_stream k (Suc n) p =
     (if pl_stream_worker p = None then Some p else Option.bind (stream_worker_step k False p) (join_stream k n))"

definition ask_to_stop :: "'h pipeline \<Rightarrow> 'h pipeline" where
  "ask_to_stop p =
     p\<lparr>pl_running := False, pl_stream_worker_stop := True, pl_ai_worker_stop := True, pl_sub_required := False,
       pl_ai_required := False, pl_stream_generation := pl_stream_generation p + 1, pl_ai_generation := pl_ai_generation p + 1\<rparr>"

definition release_all :: "sdk_answers \<Rightarrow> 'h pipeline \<Rightarrow> 'h pipeline" where
  "release_all k p =
     release_sys k (release_osd k (release_svp k (release_channel k (release_sound k
       (on_device (chn_start_capture False) ((stop_yolov8_locked k p)\<lparr>pl_publisher := False\<rparr>))))))"

text \<open>\<open>None\<close> would be a thread that never ends.\<close>

definition pipeline_stop :: "sdk_answers \<Rightarrow> hisi_env \<Rightarrow> 'h pipeline \<Rightarrow> 'h pipeline option" where
  "pipeline_stop k e p =
     (if \<not> pl_running p \<and> pl_channel p = None \<and> \<not> pl_sys_inited p then Some p
      else map_option (release_all k) (Option.bind (join_stream k 4 (ask_to_stop p)) (join_ai k e 4)))"

section \<open>What is held\<close>

text \<open>What does not belong to the channel or to sound.\<close>

definition lib_kinds :: "resource set" where
  "lib_kinds = {Fonts, Acl_Lib, Detector, Detector_Observer, Audio_Lib, Aac_Lib, Mpi_Sys, Vb_Pools}"

definition outer_kinds :: "resource set" where
  "outer_kinds = lib_kinds \<union> mipi_kinds \<union> {Acl_Dev 0}"

definition known_only :: "'m sdk_scheme \<Rightarrow> bool" where
  "known_only d \<longleftrightarrow> (\<forall>r. holds d r \<longrightarrow> r \<in> camera_kinds \<union> audio_kinds \<union> outer_kinds)"

definition device_ok :: "'m device_scheme \<Rightarrow> bool" where
  "device_ok d \<longleftrightarrow> chn_inv d \<and> vi_accounted d \<and> known_only d"

lemma lib_kinds_apart:
  "r \<in> lib_kinds \<Longrightarrow> r \<notin> camera_kinds \<union> audio_kinds \<union> mipi_kinds" "r \<in> lib_kinds \<Longrightarrow> r \<noteq> Acl_Dev 0"
  by (auto simp: lib_kinds_def camera_kinds_def stream_kinds_def all_venc_kinds_def venc_kinds_def mipi_kinds_def audio_kind_defs
      dest!: vi_kinds_cases osd_kinds_cases)

lemma outer_kinds_apart: "r \<in> outer_kinds \<Longrightarrow> r \<notin> camera_kinds \<union> audio_kinds"
proof -
  have "Acl_Dev 0 \<notin> camera_kinds \<union> audio_kinds"
    by (auto simp: camera_kinds_def stream_kinds_def all_venc_kinds_def venc_kinds_def audio_kind_defs
        dest!: vi_kinds_cases osd_kinds_cases)
  moreover have "r \<notin> camera_kinds \<union> audio_kinds" if "r \<in> mipi_kinds" for r
    using that stream_kinds_apart(6) [OF that] stream_kinds_apart(2,4) [of r] by (auto simp: camera_kinds_def)
  ultimately show "r \<in> outer_kinds \<Longrightarrow> r \<notin> camera_kinds \<union> audio_kinds"
    using lib_kinds_apart(1) by (auto simp: outer_kinds_def)
qed

lemma known_only_keeps:
  "known_only d \<Longrightarrow> keeps S d d' \<Longrightarrow> S \<subseteq> camera_kinds \<union> audio_kinds \<union> outer_kinds \<Longrightarrow> known_only d'"
  by (auto simp: known_only_def keeps_def)

text \<open>The steps of channel and sound, and the steps outside of them.\<close>

definition same_flags :: "'m device_scheme \<Rightarrow> 'm device_scheme \<Rightarrow> bool" where
  "same_flags d d' \<longleftrightarrow>
     dc_is_start d' = dc_is_start d \<and> dv_capturing d' = dv_capturing d \<and> sub_encoding d' = sub_encoding d \<and>
     (\<forall>r\<in>lib_kinds. holds d' r = holds d r)"

lemma chn_only_lib: "chn_only d d' \<Longrightarrow> r \<in> lib_kinds \<Longrightarrow> holds d' r = holds d r"
  using lib_kinds_apart(1) [of r] by (auto simp: chn_only_def keeps_def)

lemma chn_only_known: "chn_only d d' \<Longrightarrow> known_only d \<Longrightarrow> known_only d'"
  by (rule known_only_keeps) (auto simp: chn_only_def outer_kinds_def)

lemma sound_device:
  assumes "device_ok d" and "audio_inv d'" and "sound_only d d'"
  shows "device_ok d' \<and> same_flags d d'"
proof -
  have k: "keeps audio_kinds d d'" using assms(3) by (simp add: sound_only_def)
  then have "known_only d'" using assms(1) known_only_keeps [of d audio_kinds d'] by (auto simp: device_ok_def)
  moreover have "holds d' r = holds d r" if "r \<in> lib_kinds" for r
    using k lib_kinds_apart(1) [OF that] by (auto simp: keeps_def)
  ultimately show ?thesis using sound_step [of d d'] assms by (auto simp: device_ok_def same_flags_def)
qed

lemma play_device:
  assumes "device_ok d"
  shows "device_ok (snd (send_g711u k data d)) \<and> same_flags d (snd (send_g711u k data d))"
proof -
  have "audio_inv d" using assms by (simp add: device_ok_def chn_inv_def)
  note i = send_g711u_inv [OF this, of k data]
  show ?thesis by (rule sound_device [OF assms i(1) audio_shape_only [OF send_g711u_only i(2)]])
qed

lemma aplay_stop_device:
  assumes "device_ok d"
  shows "device_ok (aplay_stop k d) \<and> same_flags d (aplay_stop k d) \<and> \<not> dv_aplay_started (aplay_stop k d) \<and>
    dv_aenc (aplay_stop k d) = dv_aenc d"
proof -
  have "audio_inv d" using assms by (simp add: device_ok_def chn_inv_def)
  note i = aplay_stop_inv [OF this, of k]
  show ?thesis using sound_device [OF assms i(1) audio_shape_only [OF aplay_stop_shape i(2)]] i(3,4) by blast
qed

lemma enable_audio_device:
  assumes "device_ok d" and "venc_enable_audio k enable is_mic name d = (ok, d')"
  shows "device_ok d' \<and> same_flags d d' \<and> dv_aplay_started d' = dv_aplay_started d \<and>
    (\<not> enable \<and> \<not> dv_capturing d \<longrightarrow> dv_aenc d' = None)"
proof -
  have "audio_inv d" using assms(1) by (simp add: device_ok_def chn_inv_def)
  note sp = venc_enable_audio_spec [OF this assms(2)]
  obtain t a where s: "d' = d\<lparr>sd_trace := t, dv_aenc := a\<rparr>" using sp by blast
  then have "d' = d\<lparr>sd_trace := t, dv_aenc := a, dv_aplay_started := dv_aplay_started d, dv_silence_frames := dv_silence_frames d\<rparr>"
    by simp
  then have "sound_only d d'" using sp unfolding sound_only_def by blast
  then show ?thesis using sound_device [OF assms(1)] sp s by (auto split: if_splits)
qed

lemma keyframe_device:
  assumes "device_ok d"
  shows "device_ok (snd (request_i_frame k no stream d)) \<and> same_flags d (snd (request_i_frame k no stream d)) \<and>
    dv_aenc (snd (request_i_frame k no stream d)) = dv_aenc d \<and>
    dv_aplay_started (snd (request_i_frame k no stream d)) = dv_aplay_started d"
proof -
  let ?d = "snd (request_i_frame k no stream d)"
  have "calls_on {} d (snd (venc_request_i_frame k v d))" for v unfolding venc_request_i_frame_def by (rule calls_on_ask) simp
  then have c: "calls_on {} d ?d"
    by (auto simp: request_i_frame_def Let_def split: option.splits)
  have p: "parts_inv d" "audio_inv d" using assms by (simp_all add: device_ok_def chn_inv_def)
  note st = settings_step [OF c p(1)]
  obtain t where t: "?d = d\<lparr>sd_trace := t\<rparr>" using c by (rule calls_onE)
  have h: "holds ?d r = holds d r" for r using calls_on_holds [OF c] by simp
  have "audio_inv ?d" by (rule audio_inv_frame [OF p(2)]) (use h in simp, simp_all add: t)
  moreover have "idle_chn ?d = idle_chn d" "running_chn ?d = running_chn d" unfolding t by (simp_all add: idle_chn_def running_chn_def)
  ultimately show ?thesis
    using assms st h t by (simp add: device_ok_def chn_inv_def same_flags_def sub_encoding_def vi_accounted_def known_only_def)
qed

text \<open>Calls outside: only the trace changes, and only what is outside is acquired and released.\<close>

definition outer_only :: "'m device_scheme \<Rightarrow> 'm device_scheme \<Rightarrow> bool" where
  "outer_only d d' \<longleftrightarrow>
     keeps outer_kinds d d' \<and> sy_venc d' = sy_venc d \<and> dv_vi_started d' = dv_vi_started d \<and> dv_isp_thread d' = dv_isp_thread d \<and>
     dv_osd d' = dv_osd d \<and> dv_aenc d' = dv_aenc d \<and> dv_aplay_started d' = dv_aplay_started d \<and>
     dv_venc d' = dv_venc d \<and> dv_vencs d' = dv_vencs d \<and> dv_capturing d' = dv_capturing d \<and>
     dc_is_start d' = dc_is_start d \<and> (dc_vi d' = dc_vi d \<or> \<not> dc_is_start d) \<and> dc_sub_running d' = dc_sub_running d \<and>
     dc_registered d' = dc_registered d \<and> dc_observes d' = dc_observes d"

lemma outer_only_refl [simp]: "outer_only d d"
  by (simp add: outer_only_def)

lemma outer_only_trans [trans]: "outer_only a b \<Longrightarrow> outer_only b c \<Longrightarrow> outer_only a c"
  by (auto simp: outer_only_def keeps_def)

lemma outer_only_calls: "calls_on S d d' \<Longrightarrow> S \<subseteq> outer_kinds \<Longrightarrow> outer_only d d'"
proof -
  assume a: "calls_on S d d'" "S \<subseteq> outer_kinds"
  obtain t where t: "d' = d\<lparr>sd_trace := t\<rparr>" using a(1) by (rule calls_onE)
  show "outer_only d d'"
    using keeps_mono [OF calls_on_keeps [OF a(1)] a(2)] unfolding t by (simp add: outer_only_def)
qed

lemma outer_device:
  assumes "device_ok d" and "outer_only d d'"
  shows "device_ok d'" and "dc_is_start d' = dc_is_start d" and "dv_capturing d' = dv_capturing d"
    and "sub_encoding d' = sub_encoding d" and "dv_aenc d' = dv_aenc d" and "dv_aplay_started d' = dv_aplay_started d"
    and "free_chns n d' = free_chns n d"
proof -
  have o: "keeps outer_kinds d d'" using assms(2) by (simp add: outer_only_def)
  have h: "holds d' r = holds d r" if "r \<in> camera_kinds \<union> audio_kinds" for r
    using o outer_kinds_apart [of r] that by (auto simp: keeps_def)
  have p: "encoders_inv d" "osd_inv d" "audio_inv d" using assms(1) by (simp_all add: device_ok_def chn_inv_def parts_inv_def)
  have "encoders_inv d'"
    by (rule encoders_inv_frame [OF p(1)])
      (use h assms(2) in \<open>simp_all add: outer_only_def camera_kinds_def stream_kinds_def\<close>)
  moreover have "osd_inv d'"
    by (rule osd_inv_frame [OF p(2)]) (use h assms(2) in \<open>simp_all add: outer_only_def camera_kinds_def stream_kinds_def\<close>)
  moreover have "audio_inv d'"
    by (rule audio_inv_frame [OF p(3)]) (use h assms(2) in \<open>simp_all add: outer_only_def\<close>)
  moreover have "idle_chn d' = idle_chn d" using assms(2) by (simp add: outer_only_def idle_chn_def)
  moreover have "running_chn d' = running_chn d"
    by (cases "dc_is_start d") (use assms(2) in \<open>simp_all add: outer_only_def running_chn_def\<close>)
  moreover have "vi_accounted d'"
    using assms h by (auto simp: device_ok_def vi_accounted_def outer_only_def camera_kinds_def)
  moreover have "known_only d'" using known_only_keeps [OF _ o] assms(1) by (auto simp: device_ok_def)
  ultimately show "device_ok d'" using assms(1) by (simp add: device_ok_def chn_inv_def parts_inv_def)
qed (use assms(2) in \<open>simp_all add: outer_only_def sub_encoding_def free_chns_def\<close>)

lemmas outer_tells = outer_only_calls [OF calls_on_tells subset_refl]
lemmas outer_tell = outer_only_calls [OF calls_on_tell subset_refl]
lemmas outer_ask = outer_only_calls [OF calls_on_ask subset_refl]
lemmas outer_sequence = outer_only_calls [OF calls_on_sequence subset_refl]

section \<open>Flags and calls agree\<close>

definition detector_starting :: "'h pipeline \<Rightarrow> bool" where
  "detector_starting p \<longleftrightarrow> (\<exists>g. pl_ai_worker p = Some (Ai_Started g True))"

text \<open>Everything outside channel and sound that is held has its flag.\<close>

definition flags_ok :: "'h pipeline \<Rightarrow> bool" where
  "flags_ok p \<longleftrightarrow>
     (holds (pl_device p) Fonts \<longrightarrow> pl_osd_inited p) \<and> (holds (pl_device p) Acl_Lib \<longrightarrow> pl_svp_inited p) \<and>
     (holds (pl_device p) Detector \<longrightarrow> pl_detector p \<or> detector_starting p) \<and>
     (holds (pl_device p) Detector_Observer \<longrightarrow> pl_detector p) \<and>
     (\<forall>r\<in>{Audio_Lib, Aac_Lib, Mpi_Sys, Vb_Pools}. holds (pl_device p) r \<longrightarrow> pl_sys_inited p) \<and>
     (pl_detector p \<longrightarrow> pl_publisher p)"

definition pipe_ok :: "'h pipeline \<Rightarrow> bool" where
  "pipe_ok p \<longleftrightarrow> device_ok (pl_device p) \<and> flags_ok p \<and> (dc_is_start (pl_device p) \<longrightarrow> pl_channel p \<noteq> None)"

lemma lib_kinds_simps [simp]:
  "Fonts \<in> lib_kinds" "Acl_Lib \<in> lib_kinds" "Detector \<in> lib_kinds" "Detector_Observer \<in> lib_kinds" "Audio_Lib \<in> lib_kinds"
  "Aac_Lib \<in> lib_kinds" "Mpi_Sys \<in> lib_kinds" "Vb_Pools \<in> lib_kinds"
  by (simp_all add: lib_kinds_def)

lemma outer_kinds_simps [simp]:
  "Fonts \<in> outer_kinds" "Acl_Lib \<in> outer_kinds" "Detector \<in> outer_kinds" "Detector_Observer \<in> outer_kinds"
  "Audio_Lib \<in> outer_kinds" "Aac_Lib \<in> outer_kinds" "Mpi_Sys \<in> outer_kinds" "Vb_Pools \<in> outer_kinds" "Acl_Dev 0 \<in> outer_kinds"
  by (simp_all add: outer_kinds_def)

text \<open>An operation of channel or sound, as the pipeline sees it.\<close>

lemma device_step:
  assumes "pipe_ok p" and "device_ok d'" and "\<forall>r\<in>lib_kinds. holds d' r = holds (pl_device p) r"
    and "dc_is_start d' \<longrightarrow> pl_channel p \<noteq> None"
  shows "pipe_ok (p\<lparr>pl_device := d'\<rparr>)"
  using assms by (simp add: pipe_ok_def flags_ok_def detector_starting_def)

text \<open>What is off stays off.\<close>

definition fewer :: "'h pipeline \<Rightarrow> 'h pipeline \<Rightarrow> bool" where
  "fewer p q \<longleftrightarrow> pipe_ok q \<and>
     (\<not> pl_running p \<longrightarrow> \<not> pl_running q) \<and> (pl_channel p = None \<longrightarrow> pl_channel q = None) \<and>
     (\<not> pl_publisher p \<longrightarrow> \<not> pl_publisher q) \<and> (\<not> pl_detector p \<longrightarrow> \<not> pl_detector q) \<and>
     (pl_stream_worker p = None \<longrightarrow> pl_stream_worker q = None) \<and> (pl_ai_worker p = None \<longrightarrow> pl_ai_worker q = None) \<and>
     (\<not> pl_sys_inited p \<longrightarrow> \<not> pl_sys_inited q) \<and> (\<not> pl_osd_inited p \<longrightarrow> \<not> pl_osd_inited q) \<and>
     (\<not> pl_svp_inited p \<longrightarrow> \<not> pl_svp_inited q) \<and>
     (\<not> dc_is_start (pl_device p) \<longrightarrow> \<not> dc_is_start (pl_device q)) \<and>
     (\<not> dv_capturing (pl_device p) \<longrightarrow> \<not> dv_capturing (pl_device q)) \<and>
     (dv_aenc (pl_device p) = None \<longrightarrow> dv_aenc (pl_device q) = None) \<and>
     (\<not> dv_aplay_started (pl_device p) \<longrightarrow> \<not> dv_aplay_started (pl_device q))"

lemma fewer_refl: "pipe_ok p \<Longrightarrow> fewer p p"
  by (simp add: fewer_def)

lemma fewer_trans [trans]: "fewer p q \<Longrightarrow> fewer q r \<Longrightarrow> fewer p r"
  by (simp add: fewer_def)

lemma fewer_ok: "fewer p q \<Longrightarrow> pipe_ok q"
  by (simp add: fewer_def)

text \<open>An operation outside of channel and sound that only releases.\<close>

lemma outer_fewer:
  assumes "pipe_ok p" and "outer_only (pl_device p) d'" and "\<And>r. r \<in> lib_kinds \<Longrightarrow> holds d' r \<Longrightarrow> holds (pl_device p) r"
  shows "fewer p (p\<lparr>pl_device := d'\<rparr>)"
proof -
  have d: "device_ok (pl_device p)" using assms(1) by (simp add: pipe_ok_def)
  note o = outer_device [OF d assms(2)]
  have "flags_ok (p\<lparr>pl_device := d'\<rparr>)"
    using assms(1,3) by (auto simp: pipe_ok_def flags_ok_def detector_starting_def)
  then show ?thesis using assms(1) o by (simp add: fewer_def pipe_ok_def)
qed

lemma tells_release:
  "set cs \<subseteq> {c. \<exists>r. c = Release r} \<union> {c. \<exists>n xs. c = Configure n xs} \<Longrightarrow> holds (sdk_tells k cs d) r \<Longrightarrow> holds d r \<and> Release r \<notin> set cs"
  using sdk_tells_unheld [of r cs d k] sdk_tells_released [of r cs k d] by auto

lemma release_osd_fewer:
  assumes "pipe_ok p"
  shows "fewer p (release_osd k p) \<and> \<not> pl_osd_inited (release_osd k p)"
proof (cases "pl_osd_inited p")
  case True
  let ?d = "osd_release k (pl_device p)"
  have "fewer p (p\<lparr>pl_device := ?d\<rparr>)"
    by (rule outer_fewer [OF assms]) (auto simp: osd_release_def intro!: outer_tell split: if_splits)
  moreover have "\<not> holds ?d Fonts" by (simp add: osd_release_def)
  ultimately show ?thesis
    using True by (auto simp: release_osd_def on_device_def fewer_def pipe_ok_def flags_ok_def detector_starting_def)
qed (use assms in \<open>simp add: release_osd_def fewer_refl\<close>)

lemma release_svp_fewer:
  assumes "pipe_ok p"
  shows "fewer p (release_svp k p) \<and> \<not> pl_svp_inited (release_svp k p)"
proof (cases "pl_svp_inited p")
  case True
  let ?d = "svp_release k (pl_device p)"
  have "fewer p (p\<lparr>pl_device := ?d\<rparr>)"
    by (rule outer_fewer [OF assms]) (auto simp: svp_release_def intro!: outer_tell split: if_splits)
  moreover have "\<not> holds ?d Acl_Lib" by (simp add: svp_release_def)
  ultimately show ?thesis
    using True by (auto simp: release_svp_def on_device_def fewer_def pipe_ok_def flags_ok_def detector_starting_def)
qed (use assms in \<open>simp add: release_svp_def fewer_refl\<close>)

lemma stop_yolov8_fewer:
  assumes "pipe_ok p" and "\<not> detector_starting p"
  shows "fewer p ((stop_yolov8_locked k p)\<lparr>pl_publisher := False\<rparr>) \<and> \<not> pl_detector ((stop_yolov8_locked k p)\<lparr>pl_publisher := False\<rparr>)"
proof (cases "pl_detector p")
  case True
  then have pub: "pl_publisher p" using assms(1) by (simp add: pipe_ok_def flags_ok_def)
  let ?cs = "[Release Detector_Observer, Release Detector]"
  let ?d = "sdk_tells k ?cs (pl_device p)"
  have f: "fewer p (p\<lparr>pl_device := ?d\<rparr>)"
    by (rule outer_fewer [OF assms(1)]) (auto intro!: outer_tells dest!: tells_release [rotated])
  have "\<not> holds ?d Detector" "\<not> holds ?d Detector_Observer" by (rule sdk_tells_released; simp)+
  then show ?thesis
    using f True pub
    by (simp add: stop_yolov8_locked_def on_device_def fewer_def pipe_ok_def flags_ok_def detector_starting_def)
next
  case False
  then show ?thesis
    using assms by (simp add: stop_yolov8_locked_def fewer_def pipe_ok_def flags_ok_def detector_starting_def)
qed

lemma release_channel_fewer:
  assumes "pipe_ok p"
  shows "fewer p (release_channel k p) \<and> pl_channel (release_channel k p) = None \<and> \<not> dc_is_start (pl_device (release_channel k p))"
proof (cases "pl_channel p")
  case None
  then show ?thesis using assms by (auto simp: release_channel_def fewer_refl pipe_ok_def)
next
  case (Some c)
  let ?d = "chn_stop k (pl_device p)"
  have d: "device_ok (pl_device p)" using assms by (simp add: pipe_ok_def)
  then have sp: "chn_only (pl_device p) ?d \<and> chn_inv ?d \<and> vi_accounted ?d \<and> \<not> dc_is_start ?d"
    using chn_stop_spec [of "pl_device p" k] by (simp add: device_ok_def)
  then have "device_ok ?d" using chn_only_known [of "pl_device p" ?d] d by (simp add: device_ok_def)
  moreover have "\<forall>r\<in>lib_kinds. holds ?d r = holds (pl_device p) r" using chn_only_lib sp by blast
  ultimately have "pipe_ok (p\<lparr>pl_device := ?d\<rparr>)" using device_step [OF assms] sp by blast
  then show ?thesis
    using Some sp by (simp add: release_channel_def on_device_def fewer_def pipe_ok_def flags_ok_def detector_starting_def chn_only_def)
qed

lemma release_sound_fewer:
  assumes "pipe_ok p" and "\<not> dv_capturing (pl_device p)"
  shows "fewer p (release_sound k p) \<and> dv_aenc (pl_device (release_sound k p)) = None \<and>
    \<not> dv_aplay_started (pl_device (release_sound k p))"
proof -
  let ?d1 = "aplay_stop k (pl_device p)"
  obtain ok d2 where r: "venc_enable_audio k False False [] ?d1 = (ok, d2)" by fastforce
  have d: "device_ok (pl_device p)" using assms(1) by (simp add: pipe_ok_def)
  note a = aplay_stop_device [OF d, of k]
  have d1: "device_ok ?d1" using a by blast
  note b = enable_audio_device [OF d1 r]
  have sf: "same_flags (pl_device p) ?d1" "same_flags ?d1 d2" using a b by blast+
  have "\<forall>x\<in>lib_kinds. holds d2 x = holds (pl_device p) x" "dc_is_start d2 = dc_is_start (pl_device p)"
    "dv_capturing d2 = dv_capturing (pl_device p)"
    using sf by (simp_all add: same_flags_def)
  moreover have "dv_aenc d2 = None" "\<not> dv_aplay_started d2" using a b sf(1) assms(2) by (simp_all add: same_flags_def)
  ultimately have "pipe_ok (p\<lparr>pl_device := d2\<rparr>)" using device_step [OF assms(1)] b assms(1) by (simp add: pipe_ok_def)
  then show ?thesis
    using assms r \<open>dc_is_start d2 = _\<close> \<open>dv_capturing d2 = _\<close> \<open>dv_aenc d2 = None\<close> \<open>\<not> dv_aplay_started d2\<close>
    by (simp add: release_sound_def on_device_def fewer_def)
qed

lemma release_sys_fewer:
  assumes "pipe_ok p" and "\<not> dv_aplay_started (pl_device p)"
  shows "fewer p (release_sys k p) \<and> \<not> pl_sys_inited (release_sys k p)"
proof (cases "pl_sys_inited p")
  case True
  have nop: "aplay_stop k (pl_device p) = pl_device p" using assms(2) by (simp add: aplay_stop_def)
  let ?cs = "[Release Aac_Lib, Release Audio_Lib, Release Mpi_Sys, Configure [''ss_mpi_vb_exit_mod_common_pool'', ''OT_VB_UID_VDEC''] [],
       Release Vb_Pools]"
  let ?d = "sdk_tells k ?cs (pl_device p)"
  have eq: "chn_release k (pl_device p) = ?d" using nop by (simp add: chn_release_def venc_release_def sys_release_def sdk_tells_Cons)
  have f: "fewer p (p\<lparr>pl_device := ?d\<rparr>)"
    by (rule outer_fewer [OF assms(1)]) (auto intro!: outer_tells dest!: tells_release [rotated])
  have "\<not> holds ?d r" if "r \<in> {Audio_Lib, Aac_Lib, Mpi_Sys, Vb_Pools}" for r
    by (rule sdk_tells_released) (use that in auto)
  then show ?thesis
    using f True by (simp add: release_sys_def on_device_def eq fewer_def pipe_ok_def flags_ok_def detector_starting_def)
qed (use assms in \<open>simp add: release_sys_def fewer_refl\<close>)

text \<open>A pipeline of which nothing is on, and what it may still hold.\<close>

definition all_off :: "'h pipeline \<Rightarrow> bool" where
  "all_off p \<longleftrightarrow>
     pipe_ok p \<and> \<not> pl_running p \<and> pl_channel p = None \<and> \<not> pl_publisher p \<and> \<not> pl_detector p \<and> pl_stream_worker p = None \<and>
     pl_ai_worker p = None \<and> \<not> pl_sys_inited p \<and> \<not> pl_osd_inited p \<and> \<not> pl_svp_inited p \<and>
     \<not> dc_is_start (pl_device p) \<and> \<not> dv_capturing (pl_device p) \<and> dv_aenc (pl_device p) = None \<and>
     \<not> dv_aplay_started (pl_device p)"

definition everything_released :: "'m sdk_scheme \<Rightarrow> bool" where
  "everything_released d \<longleftrightarrow> (\<forall>r. holds d r \<longrightarrow> r \<in> mipi_kinds \<union> {Acl_Dev 0})"

lemma all_off_released:
  assumes "all_off p"
  shows "everything_released (pl_device p)"
  unfolding everything_released_def
proof (intro allI impI)
  fix r assume r: "holds (pl_device p) r"
  have a: "device_ok (pl_device p)" "flags_ok p" using assms by (simp_all add: all_off_def pipe_ok_def)
  have "r \<notin> camera_kinds"
    using r idle_nothing_held [of "pl_device p"] a(1) assms by (auto simp: device_ok_def all_off_def nothing_held_def)
  moreover have "r \<notin> audio_kinds"
    using r a(1) assms by (auto simp: device_ok_def chn_inv_def audio_inv_def all_off_def audio_kind_defs)
  moreover have "r \<notin> lib_kinds"
    using r a(2) assms by (auto simp: lib_kinds_def flags_ok_def all_off_def detector_starting_def)
  ultimately show "r \<in> mipi_kinds \<union> {Acl_Dev 0}"
    using r a(1) by (auto simp: device_ok_def known_only_def outer_kinds_def)
qed

lemma fail_cleanup_off:
  assumes "pipe_ok p" and "\<not> pl_running p" and "pl_stream_worker p = None" and "pl_ai_worker p = None"
    and "\<not> dv_capturing (pl_device p)"
  shows "all_off (fail_cleanup k p)"
proof -
  define p1 where "p1 = (stop_yolov8_locked k p)\<lparr>pl_publisher := False\<rparr>"
  define p2 where "p2 = release_sound k p1"
  define p3 where "p3 = release_svp k p2"
  define p4 where "p4 = release_channel k p3"
  define p5 where "p5 = release_osd k p4"
  have 1: "fewer p p1" "\<not> pl_detector p1" "\<not> pl_publisher p1"
    using stop_yolov8_fewer [OF assms(1), of k] assms(4) unfolding p1_def by (simp_all add: detector_starting_def)
  have 2: "fewer p1 p2" "dv_aenc (pl_device p2) = None" "\<not> dv_aplay_started (pl_device p2)"
    using release_sound_fewer [OF fewer_ok [OF 1(1)], of k] 1(1) assms(5) unfolding p2_def by (auto simp: fewer_def)
  have 3: "fewer p2 p3" "\<not> pl_svp_inited p3" using release_svp_fewer [OF fewer_ok [OF 2(1)], of k] unfolding p3_def by blast+
  have 4: "fewer p3 p4" "pl_channel p4 = None" "\<not> dc_is_start (pl_device p4)"
    using release_channel_fewer [OF fewer_ok [OF 3(1)], of k] unfolding p4_def by blast+
  have 5: "fewer p4 p5" "\<not> pl_osd_inited p5" using release_osd_fewer [OF fewer_ok [OF 4(1)], of k] unfolding p5_def by blast+
  have "\<not> dv_aplay_started (pl_device p5)" using 2(3) 3(1) 4(1) 5(1) by (simp add: fewer_def)
  then have 6: "fewer p5 (release_sys k p5)" "\<not> pl_sys_inited (release_sys k p5)"
    using release_sys_fewer [OF fewer_ok [OF 5(1)], of k] by blast+
  have "fail_cleanup k p = release_sys k p5" by (simp add: fail_cleanup_def p1_def p2_def p3_def p4_def p5_def)
  then show ?thesis using assms 1 2 3 4 5 6 by (simp add: all_off_def fewer_def)
qed

lemma capture_off_fewer: "pipe_ok p \<Longrightarrow> fewer p (on_device (chn_start_capture False) p) \<and>
    \<not> dv_capturing (pl_device (on_device (chn_start_capture False) p))"
proof -
  assume a: "pipe_ok p"
  let ?d = "(pl_device p)\<lparr>dv_capturing := False\<rparr>"
  have eq: "on_device (chn_start_capture False) p = p\<lparr>pl_device := ?d\<rparr>"
    by (simp add: on_device_def chn_start_capture_def stop_capture_def)
  have "chn_inv ?d = chn_inv (pl_device p)" by (simp add: chn_inv_def idle_chn_def running_chn_def)
  moreover have "vi_accounted ?d = vi_accounted (pl_device p)" "known_only ?d = known_only (pl_device p)"
    by (simp_all add: vi_accounted_def known_only_def)
  ultimately have "pipe_ok (p\<lparr>pl_device := ?d\<rparr>)" using a device_step [OF a, of ?d] by (simp add: pipe_ok_def device_ok_def)
  then show ?thesis using a unfolding eq by (simp add: fewer_def)
qed

lemma release_all_off:
  assumes "pipe_ok p" and "\<not> pl_running p" and "pl_stream_worker p = None" and "pl_ai_worker p = None"
  shows "all_off (release_all k p)"
proof -
  define p1 where "p1 = (stop_yolov8_locked k p)\<lparr>pl_publisher := False\<rparr>"
  define p2 where "p2 = on_device (chn_start_capture False) p1"
  define p3 where "p3 = release_sound k p2"
  define p4 where "p4 = release_channel k p3"
  define p5 where "p5 = release_svp k p4"
  define p6 where "p6 = release_osd k p5"
  have 1: "fewer p p1" "\<not> pl_detector p1" "\<not> pl_publisher p1"
    using stop_yolov8_fewer [OF assms(1), of k] assms(4) unfolding p1_def by (simp_all add: detector_starting_def)
  have 2: "fewer p1 p2" "\<not> dv_capturing (pl_device p2)" using capture_off_fewer [OF fewer_ok [OF 1(1)]] unfolding p2_def by blast+
  have 3: "fewer p2 p3" "dv_aenc (pl_device p3) = None" "\<not> dv_aplay_started (pl_device p3)"
    using release_sound_fewer [OF fewer_ok [OF 2(1)] 2(2), of k] unfolding p3_def by blast+
  have 4: "fewer p3 p4" "pl_channel p4 = None" "\<not> dc_is_start (pl_device p4)"
    using release_channel_fewer [OF fewer_ok [OF 3(1)], of k] unfolding p4_def by blast+
  have 5: "fewer p4 p5" "\<not> pl_svp_inited p5" using release_svp_fewer [OF fewer_ok [OF 4(1)], of k] unfolding p5_def by blast+
  have 6: "fewer p5 p6" "\<not> pl_osd_inited p6" using release_osd_fewer [OF fewer_ok [OF 5(1)], of k] unfolding p6_def by blast+
  have "\<not> dv_aplay_started (pl_device p6)" using 3(3) 4(1) 5(1) 6(1) by (simp add: fewer_def)
  then have 7: "fewer p6 (release_sys k p6)" "\<not> pl_sys_inited (release_sys k p6)"
    using release_sys_fewer [OF fewer_ok [OF 6(1)], of k] by blast+
  have "release_all k p = release_sys k p6" by (simp add: release_all_def p1_def p2_def p3_def p4_def p5_def p6_def)
  then show ?thesis using assms 1 2 3 4 5 6 7 by (simp add: all_off_def fewer_def)
qed

section \<open>The start\<close>

text \<open>On the way: nothing runs yet.\<close>

definition starting :: "'h pipeline \<Rightarrow> bool" where
  "starting p \<longleftrightarrow>
     pipe_ok p \<and> \<not> pl_running p \<and> pl_stream_worker p = None \<and> pl_ai_worker p = None \<and> \<not> pl_detector p \<and>
     \<not> dv_capturing (pl_device p) \<and> pl_sys_inited p"

lemma starting_cleanup: "starting p \<Longrightarrow> all_off (fail_cleanup k p)"
  by (rule fail_cleanup_off) (simp_all add: starting_def)

text \<open>Outside of channel and sound, with a flag that covers what is acquired.\<close>

lemma outer_starting:
  assumes "starting p" and "outer_only (pl_device p) d'" and "flags_ok (q\<lparr>pl_device := d'\<rparr>)"
    and "pl_running q = pl_running p" and "pl_stream_worker q = pl_stream_worker p" and "pl_ai_worker q = pl_ai_worker p"
    and "pl_detector q = pl_detector p" and "pl_sys_inited q = pl_sys_inited p" and "pl_channel q = pl_channel p"
  shows "starting (q\<lparr>pl_device := d'\<rparr>)"
proof -
  have "device_ok (pl_device p)" using assms(1) by (simp add: starting_def pipe_ok_def)
  note o = outer_device [OF this assms(2)]
  show ?thesis using assms o by (simp add: starting_def pipe_ok_def)
qed

definition init_kinds :: "resource set" where
  "init_kinds = {Mpi_Sys, Vb_Pools, Audio_Lib, Aac_Lib} \<union> mipi_kinds"

lemma chn_init_calls:
  assumes "chn_init k bs flag lane w h fr wdr d = (ok, d')"
  shows "calls_on init_kinds (d\<lparr>dc_sys_flag := flag, dc_vi_max_w := w, dc_vi_max_h := h, dc_vi_fr := fr, dc_vi_wdr_mode := wdr\<rparr>) d'"
proof -
  let ?d0 = "d\<lparr>dc_sys_flag := flag, dc_vi_max_w := w, dc_vi_max_h := h, dc_vi_fr := fr, dc_vi_wdr_mode := wdr\<rparr>"
  have 1: "calls_on init_kinds e (snd (sys_init k bs flag w h e))" for e
  proof -
    let ?d1 = "sdk_tells k [Release Mpi_Sys, Release Vb_Pools] e"
    have a: "calls_on init_kinds e ?d1" by (rule calls_on_tells) (simp add: init_kinds_def)
    show ?thesis
      unfolding sys_init_def Let_def
      by (simp del: sdk_sequence.simps add: a) (intro impI calls_on_trans [OF a calls_on_sequence], simp add: init_kinds_def)
  qed
  have 2: "calls_on init_kinds e (snd (init_hs_mode k m e))" for e m
    unfolding init_hs_mode_def by (rule with_mipi_on) (auto simp: init_kinds_def mipi_kinds_def)
  have 3: "calls_on init_kinds e (snd (venc_init k e))" for e
  proof -
    let ?e1 = "sdk_tell k (Release Audio_Lib) e"
    let ?e2 = "snd (sdk_ask k (Acquire Audio_Lib) ?e1)"
    let ?e3 = "sdk_tell k (Acquire Aac_Lib) ?e2"
    have "calls_on init_kinds e ?e1" by (rule calls_on_tell) (simp add: init_kinds_def)
    also have "calls_on init_kinds ?e1 ?e2" by (rule calls_on_ask) (simp add: init_kinds_def)
    finally have a: "calls_on init_kinds e ?e2" .
    have b: "calls_on init_kinds ?e2 ?e3" by (rule calls_on_tell) (simp add: init_kinds_def)
    show ?thesis
      unfolding venc_init_def
      by (simp del: sdk_sequence.simps add: a)
        (intro impI calls_on_trans [OF calls_on_trans [OF a b] calls_on_sequence], simp add: mini_buf_calls_def)
  qed
  have c: "calls_on init_kinds ?d0 (snd (sys_init k bs flag w h ?d0))" by (rule 1)
  have "d' = (if ok then snd (venc_init k (snd (init_hs_mode k lane (snd (sys_init k bs flag w h ?d0)))))
      else snd (sys_init k bs flag w h ?d0))"
    using assms by (auto simp: chn_init_def and_try_def split: if_splits)
  then show ?thesis using c calls_on_trans [OF calls_on_trans [OF c 2] 3] by simp
qed

lemma chn_init_outer:
  assumes "chn_init k bs flag lane w h fr wdr d = (ok, d')"
  shows "outer_only d d'" and "r \<notin> init_kinds \<Longrightarrow> holds d' r = holds d r"
proof -
  let ?d0 = "d\<lparr>dc_sys_flag := flag, dc_vi_max_w := w, dc_vi_max_h := h, dc_vi_fr := fr, dc_vi_wdr_mode := wdr\<rparr>"
  have h: "holds ?d0 r = holds d r" for r by (simp add: holds_def)
  have "outer_only d ?d0" by (simp add: outer_only_def keeps_def h)
  moreover have "outer_only ?d0 d'"
    by (rule outer_only_calls [OF chn_init_calls [OF assms]]) (auto simp: init_kinds_def outer_kinds_def lib_kinds_def)
  ultimately show "outer_only d d'" by (rule outer_only_trans)
  show "r \<notin> init_kinds \<Longrightarrow> holds d' r = holds d r" using calls_on_holds [OF chn_init_calls [OF assms]] h by simp
qed

text \<open>A start of the library that fails leaves at most pools and system.\<close>

lemma chn_init_failed:
  assumes "chn_init k bs flag lane w h fr wdr d = (False, d')"
  shows "keeps {Mpi_Sys, Vb_Pools} d d'"
proof -
  let ?d0 = "d\<lparr>dc_sys_flag := flag, dc_vi_max_w := w, dc_vi_max_h := h, dc_vi_fr := fr, dc_vi_wdr_mode := wdr\<rparr>"
  let ?d1 = "sdk_tells k [Release Mpi_Sys, Release Vb_Pools] ?d0"
  have a: "calls_on {Mpi_Sys, Vb_Pools} ?d0 ?d1" by (rule calls_on_tells) simp
  have "calls_on {Mpi_Sys, Vb_Pools} ?d0 (snd (sys_init k bs flag w h ?d0))"
    unfolding sys_init_def Let_def
    by (simp del: sdk_sequence.simps add: a) (intro impI calls_on_trans [OF a calls_on_sequence], simp)
  moreover have "d' = snd (sys_init k bs flag w h ?d0)" using assms by (auto simp: chn_init_def and_try_def split: if_splits)
  moreover have "holds ?d0 r = holds d r" for r by (simp add: holds_def)
  ultimately show ?thesis using calls_on_keeps by (fastforce simp: keeps_def)
qed

lemma init_fonts_starting:
  assumes "starting p" and "\<not> pl_osd_inited p"
  shows "starting (init_fonts k p) \<and> outer_only (pl_device p) (pl_device (init_fonts k p)) \<and>
    pl_channel (init_fonts k p) = pl_channel p \<and> pl_publisher (init_fonts k p) = pl_publisher p \<and>
    pl_svp_inited (init_fonts k p) = pl_svp_inited p"
proof -
  define d' where "d' = snd (osd_init k (pl_device p))"
  define need where "need = (to_enable (es_osd (ss_main (pl_streams p))) \<or> to_enable (es_osd (ss_sub (pl_streams p))) \<or>
      ai_enable (ss_ai (pl_streams p)))"
  define q where "q = (if need then p\<lparr>pl_osd_inited := fst (osd_init k (pl_device p)), pl_device := d'\<rparr> else p)"
  have o: "outer_only (pl_device p) d'" unfolding d'_def osd_init_def by (rule outer_ask) simp
  have fo: "flags_ok p" "\<not> holds (pl_device p) Fonts" using assms by (auto simp: starting_def pipe_ok_def flags_ok_def)
  have h: "holds d' r = (if r = Fonts then fst (osd_init k (pl_device p)) else holds (pl_device p) r)" for r
    using fo(2) by (auto simp: d'_def osd_init_def)
  have "flags_ok ((p\<lparr>pl_osd_inited := fst (osd_init k (pl_device p))\<rparr>)\<lparr>pl_device := d'\<rparr>)"
    using fo h by (simp add: flags_ok_def detector_starting_def)
  then have "starting ((p\<lparr>pl_osd_inited := fst (osd_init k (pl_device p))\<rparr>)\<lparr>pl_device := d'\<rparr>)"
    by (rule outer_starting [OF assms(1) o]) simp_all
  then have q: "starting q" using assms(1) unfolding q_def by simp
  have "init_fonts k p = (if pl_osd_inited q then q else q\<lparr>pl_streams := clocks_off (pl_streams p)\<rparr>)"
    by (cases p) (simp add: init_fonts_def q_def need_def try_device_def d'_def Let_def)
  moreover have "starting (q\<lparr>pl_streams := x\<rparr>) = starting q" for x
    by (simp add: starting_def pipe_ok_def flags_ok_def detector_starting_def)
  ultimately show ?thesis using q o unfolding q_def by simp
qed

text \<open>The calls of a capture.\<close>

fun capture_call :: "sdk_call \<Rightarrow> bool" where
  "capture_call (Acquire r) = (r \<in> vi_kinds \<union> mipi_kinds)"
| "capture_call (Release r) = False"
| "capture_call (Configure n xs) = (take 10 (hd n) = ''ss_mpi_vi_'' \<or> take 12 (hd n) = ''ss_mpi_vpss_'')"

definition capture_works :: "sdk_answers \<Rightarrow> bool" where
  "capture_works k \<longleftrightarrow> (\<forall>tr c. capture_call c \<longrightarrow> k tr c)"

lemma sequence_works: "capture_works k \<Longrightarrow> \<forall>c\<in>set cs. capture_call c \<Longrightarrow> fst (sdk_sequence k cs d)"
  by (induction cs arbitrary: d) (simp_all add: capture_works_def)

lemma ask_works: "capture_works k \<Longrightarrow> capture_call c \<Longrightarrow> k tr c"
  by (simp add: capture_works_def)

lemma start_pipes_works:
  "capture_works k \<Longrightarrow> (\<Union>p\<in>set ps. set (vi_pipe_resources v p)) \<subseteq> vi_kinds \<Longrightarrow> fst (start_pipes k v ps d)"
proof (induction ps arbitrary: d)
  case (Cons p ps)
  have "fst (start_pipe k v p e)" for e
    using Cons.prems by (auto simp: start_pipe_def vi_pipe_resources_def ask_works)
  then show ?case using Cons by simp
qed simp

lemma vi_start_works:
  assumes "capture_works k" and "\<not> dv_vi_started d"
  shows "fst (vi_isp_start k v d)"
proof -
  note w = ask_works [OF assms(1)]
  have vr: "r \<in> vi_kinds" if "r \<in> vi_resources v" for r using vi_resources_kinds [of v] that by blast
  have mipi: "fst (with_mipi k cs e)" for cs and e :: "'a video_state_scheme"
    by (simp add: with_mipi_def w mipi_kinds_def)
  have "fst (sdk_sequence k
           ([Configure [''ss_mpi_vi_set_dev_attr''] [vi_dev v, vi_w v, vi_h v], Acquire (Vi_Dev (vi_dev v))] @
            map (\<lambda>p. Acquire (Vi_Bound (vi_dev v) p)) (vi_pipes v) @
            [Configure [''ss_mpi_vi_set_wdr_fusion_grp_attr''] (0 # vi_wdr_mode v # vi_h v # vi_pipes v)]) e)"
    for e :: "'a video_state_scheme"
    by (rule sequence_works [OF assms(1)]) (auto intro!: vr simp: vi_resource_defs)
  moreover have "fst (start_pipes k v (vi_pipes v) e)" for e :: "'a video_state_scheme"
    by (rule start_pipes_works [OF assms(1), where v = v]) (use vr in \<open>auto simp: vi_resources_def\<close>)
  ultimately have path: "fst (start_capture_path k v d)"
    by (simp add: start_capture_path_def start_mipi_def reset_sns_def mipi del: sdk_sequence.simps append.simps)
  have "vi_link v \<in> vi_kinds" "Vpss_Grp vi_vpss_grp \<in> vi_kinds" "Vpss_Grp_Run vi_vpss_grp \<in> vi_kinds"
    "Vpss_Chn vi_vpss_grp vi_vpss_chn \<in> vi_kinds"
    by (rule vr, simp add: vi_resources_def)+
  then have "fst (start_vpss k v e)" for e :: "'a video_state_scheme" by (simp add: start_vpss_def w)
  then show ?thesis using path assms(2) by (simp add: vi_isp_start_def)
qed

text \<open>Opening the channel.\<close>

lemma open_channel_starting:
  assumes "starting p" and "pl_channel p = None" and "free_chns 2 (pl_device p)" and "capture_works k"
  shows "\<exists>ok q. open_channel k e p = Some (ok, q) \<and> starting q \<and> (ok \<longrightarrow> dc_is_start (pl_device q)) \<and> pl_channel q \<noteq> None \<and>
    pl_streams q = pl_streams p \<and> pl_publisher q = pl_publisher p \<and> pl_svp_inited q = pl_svp_inited p \<and>
    (ok \<longrightarrow> (dv_venc (pl_device q) Sub_Venc \<noteq> None) = es_enable (ss_sub (pl_streams p)))"
proof -
  let ?s = "pl_streams p" and ?d0 = "(pl_device p)\<lparr>dc_vi := None\<rparr>"
  define c where "c = \<lparr>ch_vi_name = do_sensor_name (he_options e), ch_venc_mode = es_mode (ss_main ?s), ch_no = do_channel_id (he_options e)\<rparr>"
  define t where "t = register_encoded_tracks ?s (if contains ''H265'' (es_mode (ss_main ?s)) then H265 else H264) (pl_media p)"
  define q where "q = p\<lparr>pl_channel := Some (c, new_encoded_channel (es_mode (ss_main ?s))), pl_media := snd t\<rparr>"
  have st: "pipe_ok p" "\<not> dc_is_start (pl_device p)" using assms(1,2) by (auto simp: starting_def pipe_ok_def)
  have o: "outer_only (pl_device p) ?d0" using st(2) by (simp add: outer_only_def keeps_def)
  have q0: "starting (q\<lparr>pl_device := d\<rparr>) \<longleftrightarrow> starting (p\<lparr>pl_channel := Some (c, new_encoded_channel (es_mode (ss_main ?s))), pl_device := d\<rparr>)" for d
    by (simp add: q_def starting_def pipe_ok_def flags_ok_def detector_starting_def)
  have dok: "device_ok ?d0" "\<not> dc_is_start ?d0" "free_chns 2 ?d0" "\<not> dv_capturing ?d0"
    using outer_device [OF _ o] st assms by (simp_all add: pipe_ok_def starting_def)
  have lift: "starting (q\<lparr>pl_device := d\<rparr>)" if "device_ok d" "chn_only ?d0 d" for d
  proof -
    have "\<forall>r\<in>lib_kinds. holds d r = holds (pl_device p) r" using chn_only_lib [OF that(2)] by simp
    moreover have "\<not> dv_capturing d" using that(2) dok(4) by (simp add: chn_only_def)
    ultimately show ?thesis
      unfolding q_def using assms(1) that(1) by (auto simp: starting_def pipe_ok_def flags_ok_def detector_starting_def)
  qed
  have eq: "open_channel k e p = (if \<not> fst t then Some (False, q\<lparr>pl_device := ?d0\<rparr>)
      else map_option (\<lambda>(ok, d). (ok, q\<lparr>pl_device := d\<rparr>)) (start_encoders k c (ss_main ?s) (ss_sub ?s) ?d0))"
    unfolding open_channel_def Let_def c_def [symmetric] t_def [symmetric] by (cases p) (simp add: q_def)
  have fields: "pl_channel (q\<lparr>pl_device := d\<rparr>) \<noteq> None \<and> pl_streams (q\<lparr>pl_device := d\<rparr>) = pl_streams p \<and>
      pl_publisher (q\<lparr>pl_device := d\<rparr>) = pl_publisher p \<and> pl_svp_inited (q\<lparr>pl_device := d\<rparr>) = pl_svp_inited p" for d
    by (simp add: q_def)
  show ?thesis
  proof (cases "fst t")
    case False
    then show ?thesis using eq lift [OF dok(1)] fields [of ?d0] by auto
  next
    case True
    let ?main = "encode_options (ss_main ?s) (es_svc (ss_main ?s))" and ?sub = "encode_options (ss_sub ?s) False"
    have "\<not> dv_vi_started (?d0\<lparr>dc_vi := x\<rparr>)" for x
      using not_started_idle [of ?d0] dok(1,2) by (simp add: device_ok_def idle_chn_def)
    then have cap: "\<forall>w. chn_capture c ?main ?d0 = Some w \<longrightarrow> fst (vi_isp_start k w (?d0\<lparr>dc_vi := Some w\<rparr>))"
      using vi_start_works [OF assms(4)] by blast
    have ci: "chn_inv ?d0" "vi_accounted ?d0" using dok(1) by (simp_all add: device_ok_def)
    obtain ok d' where r: "chn_start k c ?main ?sub ?d0 = Some (ok, d')" "chn_only ?d0 d'" "chn_inv d'" "vi_accounted d'"
        "dc_is_start d' = ok" "ok \<longrightarrow> (dv_venc d' Sub_Venc \<noteq> None) = vo_enable ?sub"
      using chn_start_spec [OF ci dok(2,3) cap, of ?sub] by metis
    have "device_ok d'" using r chn_only_known [OF r(2)] dok(1) by (simp add: device_ok_def)
    then have "starting (q\<lparr>pl_device := d'\<rparr>)" using lift r(2) by blast
    moreover have "open_channel k e p = Some (ok, q\<lparr>pl_device := d'\<rparr>)"
      using eq True r(1) by (simp add: start_encoders_def)
    ultimately show ?thesis using fields [of d'] r(5,6) by (simp add: encode_options_def)
  qed
qed

text \<open>An operation of channel or sound on the way.\<close>

lemma device_starting:
  assumes "starting p" and "device_ok d'" and "\<forall>r\<in>lib_kinds. holds d' r = holds (pl_device p) r"
    and "dc_is_start d' = dc_is_start (pl_device p)" and "dv_capturing d' = dv_capturing (pl_device p)"
  shows "starting (p\<lparr>pl_device := d'\<rparr>)"
  using assms device_step [of p d'] by (simp add: starting_def pipe_ok_def)

lemma start_features_starting:
  assumes "starting p" and "dc_is_start (pl_device p)" and "\<not> pl_publisher p" and "\<not> pl_svp_inited p"
    and "start_features k e p = (ok, q)"
  shows "starting q \<and> (ok \<longrightarrow> dc_is_start (pl_device q) \<and> pl_channel q \<noteq> None \<and>
    pl_streams q = pl_streams p \<and> pl_publisher q = ai_enable (ss_ai (pl_streams q)) \<and>
    pl_svp_inited q = ai_enable (ss_ai (pl_streams q)) \<and>
    (es_enable (ss_sub (pl_streams q)) \<and> es_start (ss_sub (pl_streams q)) = Boot \<longrightarrow> sub_encoding (pl_device q)))"
proof -
  have chan: "pl_channel p \<noteq> None" using assms(1,2) by (simp add: starting_def pipe_ok_def)
  define boot where "boot = (es_enable (ss_sub (pl_streams p)) \<and> es_start (ss_sub (pl_streams p)) = Boot)"
  obtain ok1 d1 where r1: "(if boot then set_sub_stream_enabled k True (pl_device p) else (True, pl_device p)) = (ok1, d1)"
    by fastforce
  define p1 where "p1 = p\<lparr>pl_device := d1\<rparr>"
  have s1: "start_sub k p = (ok1, p1)" using r1 by (auto simp: start_sub_def boot_def try_device_def p1_def split: if_splits)
  have dok: "device_ok (pl_device p)" using assms(1) by (simp add: starting_def pipe_ok_def)
  have d1: "device_ok d1 \<and> (\<forall>r\<in>lib_kinds. holds d1 r = holds (pl_device p) r) \<and> dc_is_start d1 = dc_is_start (pl_device p) \<and>
      dv_capturing d1 = dv_capturing (pl_device p) \<and> (ok1 \<and> boot \<longrightarrow> sub_encoding d1)"
  proof (cases boot)
    case True
    then have "set_sub_stream_enabled k True (pl_device p) = (ok1, d1)" using r1 by simp
    moreover have "chn_inv (pl_device p)" using dok by (simp add: device_ok_def)
    ultimately have "chn_only (pl_device p) d1 \<and> chn_inv d1 \<and> (vi_accounted (pl_device p) \<longrightarrow> vi_accounted d1) \<and>
        sub_encoding d1 = (if ok1 then True else sub_encoding (pl_device p)) \<and> dc_is_start d1 = dc_is_start (pl_device p) \<and>
        dv_capturing d1 = dv_capturing (pl_device p)"
      using set_sub_spec by blast
    then show ?thesis using chn_only_lib chn_only_known dok by (auto simp: device_ok_def)
  next
    case False
    then show ?thesis using r1 dok by simp
  qed
  have st1: "starting p1" unfolding p1_def by (rule device_starting [OF assms(1)]) (use d1 in auto)
  obtain ok2 p2 where s2: "start_audio k e p1 = (ok2, p2)" by fastforce
  have st2: "starting p2 \<and> dc_is_start (pl_device p2) = dc_is_start (pl_device p1) \<and> pl_channel p2 \<noteq> None \<and>
      pl_streams p2 = pl_streams p \<and> pl_publisher p2 = pl_publisher p \<and> pl_svp_inited p2 = pl_svp_inited p \<and>
      sub_encoding (pl_device p2) = sub_encoding (pl_device p1)"
  proof (cases "do_audio_enabled (he_options e)")
    case False
    then show ?thesis using s2 st1 chan by (auto simp: start_audio_def Let_def p1_def)
  next
    case True
    define codec where "codec = audio_codec_from_name (do_audio_codec (he_options e))"
    obtain c ch where ch: "pl_channel p1 = Some (c, ch)" using chan by (auto simp: p1_def)
    obtain b ch1 media where t: "register_audio_tracks codec (if codec = AAC then 44100 else 8000) (if codec = AAC then 2 else 1) 16 ch
        (pl_media p1) = (b, ch1, media)" by (metis prod_cases3)
    define p' where "p' = p1\<lparr>pl_channel := Some (c, ch1), pl_media := media\<rparr>"
    have st': "starting p'" using st1 ch unfolding p'_def by (auto simp: starting_def pipe_ok_def flags_ok_def detector_starting_def)
    obtain b2 d2 where en: "venc_enable_audio k True (do_audio_microphone (he_options e)) (do_audio_codec (he_options e)) (pl_device p1) = (b2, d2)"
      by fastforce
    have "start_audio k e p1 = (if \<not> b then (False, p') else (b2, p'\<lparr>pl_device := d2\<rparr>))"
      using True ch t en by (simp add: start_audio_def Let_def codec_def p'_def try_device_def)
    then have p2: "p2 = p' \<or> p2 = p'\<lparr>pl_device := d2\<rparr>" using s2 by (auto split: if_splits)
    have "device_ok (pl_device p1)" using st1 by (simp add: starting_def pipe_ok_def)
    then have "device_ok d2 \<and> same_flags (pl_device p1) d2" using enable_audio_device [OF _ en] by blast
    then have "starting (p'\<lparr>pl_device := d2\<rparr>)" "sub_encoding d2 = sub_encoding (pl_device p1)" "dc_is_start d2 = dc_is_start (pl_device p1)"
      using device_starting [OF st', of d2] by (simp_all add: same_flags_def p'_def)
    then show ?thesis using p2 st' by (auto simp: p'_def p1_def)
  qed
  obtain ok3 p3 where s3: "start_ai k p2 = (ok3, p3)" by fastforce
  have st3: "starting p3 \<and> (ok3 \<longrightarrow> dc_is_start (pl_device p3) = dc_is_start (pl_device p2) \<and> pl_channel p3 \<noteq> None \<and>
      pl_streams p3 = pl_streams p \<and> pl_publisher p3 = ai_enable (ss_ai (pl_streams p)) \<and>
      pl_svp_inited p3 = ai_enable (ss_ai (pl_streams p)) \<and> sub_encoding (pl_device p3) = sub_encoding (pl_device p2))"
  proof (cases "ai_enable (ss_ai (pl_streams p2)) \<and> ai_acl (ss_ai (pl_streams p2)) \<noteq> [] \<and> ai_model (ss_ai (pl_streams p2)) \<noteq> []")
    case False
    then show ?thesis using s3 st2 assms(3,4) by (auto simp: start_ai_def Let_def split: if_splits)
  next
    case True
    let ?ai = "ss_ai (pl_streams p2)"
    obtain b d3 where sv: "svp_init k (pl_device p2) = (b, d3)" by fastforce
    define t where "t = ai_register_track (ai_width ?ai) (ai_height ?ai) (ai_fps ?ai) (pl_media p2)"
    define q' where "q' = p2\<lparr>pl_svp_inited := True, pl_publisher := True, pl_media := snd t\<rparr>"
    have eq: "start_ai k p2 = (if \<not> b then (False, p2\<lparr>pl_device := d3\<rparr>) else (fst t, q'\<lparr>pl_device := d3\<rparr>))"
      using True sv by (cases p2) (simp add: start_ai_def Let_def try_device_def and_try_def t_def q'_def)
    have on: "calls_on {Acl_Lib, Acl_Dev 0} (pl_device p2) (snd (svp_init k (pl_device p2)))"
      unfolding svp_init_def
      by (intro calls_on_try calls_on_undo calls_on_ask calls_on_tell; simp)+
    then have o: "outer_only (pl_device p2) d3" using outer_only_calls [OF on] sv by simp
    have h: "holds d3 r = holds (pl_device p2) r" if "r \<in> lib_kinds" "r \<noteq> Acl_Lib" for r
      using calls_on_holds [OF on, of r] lib_kinds_apart(2) [OF that(1)] that(2) sv by simp
    have nl: "\<not> holds (pl_device p2) Acl_Lib" using st2 assms(4) by (auto simp: starting_def pipe_ok_def flags_ok_def)
    have acl: "\<not> holds d3 Acl_Lib" if "\<not> b"
      using sv that nl by (auto simp: svp_init_def and_try_def or_undo_def split: if_splits)
    have f2: "flags_ok p2" "\<not> pl_detector p2" using st2 by (simp_all add: starting_def pipe_ok_def)
    have no: "starting (p2\<lparr>pl_device := d3\<rparr>)" if "\<not> b"
      by (rule outer_starting [OF _ o]) (use st2 f2 h acl [OF that] in \<open>simp_all add: flags_ok_def detector_starting_def\<close>)
    have yes: "starting (q'\<lparr>pl_device := d3\<rparr>)"
      by (rule outer_starting [OF _ o]) (use st2 f2 h in \<open>simp_all add: q'_def flags_ok_def detector_starting_def\<close>)
    have "device_ok (pl_device p2)" using st2 by (simp add: starting_def pipe_ok_def)
    note od = outer_device(2,4) [OF this o]
    show ?thesis
    proof (cases b)
      case False
      then have "ok3 = False" "p3 = p2\<lparr>pl_device := d3\<rparr>" using s3 eq by simp_all
      then show ?thesis using no [OF False] by simp
    next
      case b: True
      then have p3: "p3 = q'\<lparr>pl_device := d3\<rparr>" using s3 eq by simp
      have "pl_channel p3 = pl_channel p2" "pl_streams p3 = pl_streams p2" "pl_publisher p3" "pl_svp_inited p3" "pl_device p3 = d3"
        unfolding p3 q'_def by simp_all
      then show ?thesis using yes [folded p3] st2 True od by simp
    qed
  qed
  have "start_features k e p = (if \<not> ok1 then (False, p1) else if \<not> ok2 then (False, p2) else (ok3, p3))"
    using s1 s2 s3 by (simp add: start_features_def and_try_def)
  then consider "\<not> ok" "q = p1" | "\<not> ok" "q = p2" | "ok1" "ok = ok3" "q = p3"
    using assms(5) by (auto split: if_splits)
  then show ?thesis
  proof cases
    case 3
    have "sub_encoding (pl_device p3)" if ok3 boot
      using st3 st2 d1 that 3(1) by (simp add: p1_def)
    moreover have "dc_is_start (pl_device p3)" if ok3 using st3 st2 d1 that assms(2) by (simp add: p1_def)
    ultimately show ?thesis using st3 3 by (simp add: boot_def)
  qed (use st1 st2 in simp_all)
qed

text \<open>A pipeline that runs.\<close>

definition running_pipe :: "'h pipeline \<Rightarrow> bool" where
  "running_pipe p \<longleftrightarrow>
     pipe_ok p \<and> pl_running p \<and> pl_channel p \<noteq> None \<and> dc_is_start (pl_device p) \<and> dv_capturing (pl_device p) \<and>
     pl_sys_inited p \<and> \<not> pl_stream_worker_stop p \<and> \<not> pl_ai_worker_stop p \<and> pl_stream_worker p \<noteq> None \<and>
     pl_publisher p = ai_enable (ss_ai (pl_streams p)) \<and> pl_svp_inited p = ai_enable (ss_ai (pl_streams p)) \<and>
     (pl_ai_worker p \<noteq> None) = ai_enable (ss_ai (pl_streams p)) \<and>
     (pl_sub_required p \<longrightarrow> sub_encoding (pl_device p))"

lemma begin_running_ok:
  assumes "starting p" and "dc_is_start (pl_device p)" and "pl_publisher p = ai_enable (ss_ai (pl_streams p))"
    and "pl_svp_inited p = ai_enable (ss_ai (pl_streams p))"
    and "es_enable (ss_sub (pl_streams p)) \<and> es_start (ss_sub (pl_streams p)) = Boot \<longrightarrow> sub_encoding (pl_device p)"
  shows "running_pipe (begin_running k e p)"
proof -
  let ?d = "pl_device p" let ?d1 = "?d\<lparr>dv_capturing := True\<rparr>"
  have dok: "device_ok ?d" "\<not> dv_capturing ?d" "flags_ok p" "pl_channel p \<noteq> None" "pl_ai_worker p = None" "\<not> pl_detector p"
    using assms(1,2) by (simp_all add: starting_def pipe_ok_def)
  have cap: "chn_start_capture True ?d = ?d1" using dok(2) by (simp add: chn_start_capture_def start_capture_def)
  have "chn_inv ?d1 = chn_inv ?d" by (simp add: chn_inv_def idle_chn_def running_chn_def)
  then have "device_ok ?d1" using dok(1) by (simp add: device_ok_def vi_accounted_def known_only_def)
  note kf = keyframe_device [OF this, of k "do_channel_id (he_options e)" 0]
  let ?d2 = "snd (request_i_frame k (do_channel_id (he_options e)) 0 ?d1)"
  have f: "dc_is_start ?d2" "dv_capturing ?d2" "sub_encoding ?d2 = sub_encoding ?d" "\<forall>r\<in>lib_kinds. holds ?d2 r = holds ?d r"
    using kf assms(2) by (simp_all add: same_flags_def sub_encoding_def)
  then show ?thesis
    using kf dok assms
    by (auto simp: running_pipe_def begin_running_def Let_def on_device_def cap pipe_ok_def flags_ok_def detector_starting_def starting_def)
qed

lemma pipeline_start_spec:
  assumes "all_off p" and "free_chns 2 (pl_device p)" and "capture_works k"
  shows "\<exists>ok q. pipeline_start k e p = Some (ok, q) \<and>
    (if ok then running_pipe q
     else \<not> pl_running q \<and> pl_channel q = None \<and> pl_stream_worker q = None \<and> pl_ai_worker q = None \<and>
       \<not> pl_sys_inited q \<and> \<not> dv_capturing (pl_device q) \<and>
       (\<forall>r. holds (pl_device q) r \<longrightarrow> r \<in> mipi_kinds \<union> {Acl_Dev 0} \<or> r \<in> {Mpi_Sys, Vb_Pools} \<and> \<not> fst (start_library k e (pl_device p))) \<and>
       (fst (start_library k e (pl_device p)) \<longrightarrow> all_off q))"
proof -
  let ?o = "he_options e"
  have off: "pipe_ok p" "\<not> pl_running p" "pl_channel p = None" "\<not> dc_is_start (pl_device p)" "device_ok (pl_device p)"
    using assms(1) by (simp_all add: all_off_def pipe_ok_def)
  obtain b d1 where sl: "start_library k e (pl_device p) = (b, d1)" by fastforce
  then have i: "chn_init k (he_sizes e) (he_sys_flag e) (do_lane_mode ?o) (do_sensor_width ?o) (do_sensor_height ?o)
      (do_sensor_fps ?o) (do_wdr_mode ?o) (pl_device p) = (b, d1)" by (simp add: start_library_def Let_def)
  note o = chn_init_outer [OF i]
  note od = outer_device [OF off(5) o(1)]
  show ?thesis
  proof (cases b)
    case False
    have eq: "pipeline_start k e p = Some (False, p\<lparr>pl_device := d1\<rparr>)" using sl False off(2) by (simp add: pipeline_start_def try_device_def)
    have i': "chn_init k (he_sizes e) (he_sys_flag e) (do_lane_mode ?o) (do_sensor_width ?o) (do_sensor_height ?o)
      (do_sensor_fps ?o) (do_wdr_mode ?o) (pl_device p) = (False, d1)" using i False by simp
    have h: "r \<in> mipi_kinds \<union> {Acl_Dev 0} \<or> r \<in> {Mpi_Sys, Vb_Pools}" if "holds d1 r" for r
      using that chn_init_failed [OF i'] all_off_released [OF assms(1)] by (auto simp: everything_released_def keeps_def)
    show ?thesis
      by (rule exI [of _ False], rule exI [of _ "p\<lparr>pl_device := d1\<rparr>"])
        (use eq assms(1) od(3) h sl False in \<open>auto simp: all_off_def\<close>)
  next
    case True
    define p1 where "p1 = p\<lparr>pl_sys_inited := True, pl_device := d1\<rparr>"
    have h1: "holds d1 r = holds (pl_device p) r" if "r \<in> {Fonts, Acl_Lib, Detector, Detector_Observer}" for r
      by (rule o(2)) (use that in \<open>auto simp: init_kinds_def mipi_kinds_def\<close>)
    have "flags_ok p" using off(1) by (simp add: pipe_ok_def)
    then have "pipe_ok p1" using od h1 off(4) by (simp add: p1_def pipe_ok_def flags_ok_def detector_starting_def)
    then have s1: "starting p1" "\<not> pl_osd_inited p1" "\<not> pl_publisher p1" "\<not> pl_svp_inited p1" "pl_channel p1 = None"
      using assms(1) od(3) by (simp_all add: p1_def starting_def all_off_def)
    define p2 where "p2 = init_fonts k p1"
    have s2: "starting p2" "outer_only (pl_device p1) (pl_device p2)" "pl_channel p2 = None" "\<not> pl_publisher p2" "\<not> pl_svp_inited p2"
      using init_fonts_starting [OF s1(1,2), of k] s1 unfolding p2_def by simp_all
    have "device_ok (pl_device p1)" using s1(1) by (simp add: starting_def pipe_ok_def)
    then have fr: "free_chns 2 (pl_device p2)"
      using outer_device(7) [OF _ s2(2)] od(7) assms(2) by (simp add: p1_def)
    obtain ok3 p3 where op: "open_channel k e p2 = Some (ok3, p3)" and s3: "starting p3" "ok3 \<longrightarrow> dc_is_start (pl_device p3)"
        "pl_publisher p3 = pl_publisher p2" "pl_svp_inited p3 = pl_svp_inited p2"
      using open_channel_starting [OF s2(1,3) fr assms(3), of e] by blast
    obtain ok4 p4 where fe: "and_try (ok3, p3) (start_features k e) = (ok4, p4)" by fastforce
    have eq: "pipeline_start k e p = Some (if ok4 then (True, begin_running k e p4) else (False, fail_cleanup k p4))"
    proof -
      have "snd (try_device (start_library k e) p)\<lparr>pl_sys_inited := True\<rparr> = p1"
        using sl by (cases p) (simp add: try_device_def p1_def)
      then show ?thesis using sl True off(2) op fe by (simp add: pipeline_start_def Let_def try_device_def p2_def del: try_simps)
    qed
    have s4: "starting p4" "ok4 \<longrightarrow> running_pipe (begin_running k e p4)"
    proof -
      have "starting p4 \<and> (ok4 \<longrightarrow> running_pipe (begin_running k e p4))"
      proof (cases ok3)
        case False
        then show ?thesis using fe s3(1) by (auto simp: and_try_def)
      next
        case ok3: True
        then have "start_features k e p3 = (ok4, p4)" using fe by (simp add: and_try_def)
        then show ?thesis
          using start_features_starting [OF s3(1)] s3 s2(4,5) ok3 begin_running_ok [of p4 k e] by blast
      qed
      then show "starting p4" "ok4 \<longrightarrow> running_pipe (begin_running k e p4)" by simp_all
    qed
    show ?thesis
    proof (cases ok4)
      case True
      then show ?thesis using eq s4(2) by auto
    next
      case False
      have "all_off (fail_cleanup k p4)" by (rule starting_cleanup [OF s4(1)])
      then show ?thesis using eq False all_off_released [of "fail_cleanup k p4"] sl True
        by (auto simp: all_off_def everything_released_def)
    qed
  qed
qed


section \<open>Instances\<close>

definition demo_env :: hisi_env where
  "demo_env =
     \<lparr>he_options =
        \<lparr>do_lane_mode = 0, do_sensor_width = 2560, do_sensor_height = 1440, do_sensor_fps = 30, do_wdr_mode = 0,
         do_sensor_name = ''SC4336P'', do_channel_id = 0,
         do_streams = \<lparr>ss_main = default_encoded_stream, ss_sub = default_encoded_stream, ss_ai = default_ai_stream\<rparr>,
         do_audio_enabled = False, do_audio_microphone = False, do_audio_codec = ''G711U'', do_font_path = []\<rparr>,
      he_sys_flag = 0, he_sizes = \<lparr>bs_raw = (\<lambda>w h. w * h), bs_yuv = (\<lambda>w h. w * h), bs_wrap = (\<lambda>w h. w * h)\<rparr>,
      he_detector_size = (640, 640)\<rparr>"

definition demo_pipeline :: "nat pipeline" where
  "demo_pipeline = new_pipeline demo_env demo_device demo_source"

lemma demo_pipeline_off: "all_off demo_pipeline" "free_chns 2 (pl_device demo_pipeline)"
proof -
  have d: "pl_device demo_pipeline = demo_device" by (simp add: demo_pipeline_def new_pipeline_def)
  have "known_only demo_device" by (simp add: known_only_def)
  then show "all_off demo_pipeline"
    using demo_device_inv
    by (simp add: all_off_def pipe_ok_def flags_ok_def device_ok_def d)
      (simp add: demo_pipeline_def new_pipeline_def demo_device_def)
  show "free_chns 2 (pl_device demo_pipeline)" using demo_device_inv(4) d by simp
qed


end
