(* ===== verification/Pipeline_Run.thy ===== *)
theory Pipeline_Run
  imports Hisi_Pipeline
begin

text \<open>
  The running device (src/device\_adapter/src/hisilicon\_pipeline.cpp): the calls of the program and the steps of
  the two threads in any order, as a step relation.  The lemmas show that a running device stays consistent and
  encodes what is required, that stopping it returns and releases everything, when an unwanted sub stream
  is switched off, and two things the code misses: a demand that comes and goes
  while the thread has not woken up yet, and sound that arrives after the stop.
\<close>

section \<open>Steps\<close>

datatype device_event =
    Ev_Active int int bool
  | Ev_Keyframe int int
  | Ev_Play "u8 list option"
  | Ev_Stream_Worker bool
  | Ev_Ai_Worker bool

fun pipeline_event :: "sdk_answers \<Rightarrow> hisi_env \<Rightarrow> device_event \<Rightarrow> 'h pipeline \<Rightarrow> 'h pipeline option" where
  "pipeline_event k e (Ev_Active c s a) p = Some (snd (set_stream_active k e c s a p))"
| "pipeline_event k e (Ev_Keyframe c s) p = Some (snd (pipeline_keyframe k c s p))"
| "pipeline_event k e (Ev_Play bs) p = Some (snd (pipeline_play k bs p))"
| "pipeline_event k e (Ev_Stream_Worker t) p = stream_worker_step k t p"
| "pipeline_event k e (Ev_Ai_Worker t) p = ai_worker_step k e t p"

inductive pipeline_reaches :: "sdk_answers \<Rightarrow> hisi_env \<Rightarrow> 'h pipeline \<Rightarrow> 'h pipeline \<Rightarrow> bool" for k e p where
  here: "pipeline_reaches k e p p"
| there: "pipeline_reaches k e p q \<Longrightarrow> pipeline_event k e ev q = Some r \<Longrightarrow> pipeline_reaches k e p r"

section \<open>A running device stays consistent\<close>

lemma running_device:
  assumes "running_pipe p" and "device_ok d'" and "same_flags (pl_device p) d'"
  shows "running_pipe (p\<lparr>pl_device := d'\<rparr>)"
proof -
  have "pipe_ok (p\<lparr>pl_device := d'\<rparr>)"
    using assms device_step [of p d'] by (simp add: running_pipe_def same_flags_def)
  then show ?thesis using assms by (simp add: running_pipe_def same_flags_def)
qed

lemma running_device_ok: "running_pipe p \<Longrightarrow> device_ok (pl_device p)"
  by (simp add: running_pipe_def pipe_ok_def)

lemma keyframe_running: "running_pipe p \<Longrightarrow> running_pipe (snd (pipeline_keyframe k c s p))"
  unfolding pipeline_keyframe_def try_device_def
  by (simp, rule running_device) (simp_all add: keyframe_device running_device_ok)

lemma play_running: "running_pipe p \<Longrightarrow> running_pipe (snd (pipeline_play k bs p))"
  unfolding pipeline_play_def try_device_def
  by (simp, rule running_device) (simp_all add: play_device running_device_ok)

text \<open>Switching the sub encoder, with what is required afterwards.\<close>

lemma switch_running:
  assumes "running_pipe p" and "set_sub_stream_enabled k enable (pl_device p) = (ok, d')"
    and "required \<longrightarrow> (if ok then enable else sub_encoding (pl_device p))"
  shows "running_pipe (p\<lparr>pl_device := d', pl_sub_required := required\<rparr>)"
    and "sub_encoding d' = (if ok then enable else sub_encoding (pl_device p))"
proof -
  have d: "device_ok (pl_device p)" using assms(1) by (rule running_device_ok)
  then have ci: "chn_inv (pl_device p)" by (simp add: device_ok_def)
  note sp = set_sub_spec [OF ci assms(2)]
  have dk: "device_ok d'" using sp d chn_only_known [of "pl_device p" d'] by (simp add: device_ok_def)
  have lib: "\<forall>r\<in>lib_kinds. holds d' r = holds (pl_device p) r" using sp chn_only_lib by blast
  have "pipe_ok (p\<lparr>pl_device := d'\<rparr>)" using device_step [OF _ dk lib] sp assms(1) by (simp add: running_pipe_def)
  then show "running_pipe (p\<lparr>pl_device := d', pl_sub_required := required\<rparr>)"
    using assms(1,3) sp by (simp add: running_pipe_def pipe_ok_def flags_ok_def detector_starting_def)
  show "sub_encoding d' = (if ok then enable else sub_encoding (pl_device p))" using sp by blast
qed

lemma running_flags:
  assumes "running_pipe p"
  shows "running_pipe (p\<lparr>pl_stream_generation := g\<rparr>)" "running_pipe (p\<lparr>pl_ai_generation := g\<rparr>)"
    "running_pipe (p\<lparr>pl_ai_required := b\<rparr>)" "running_pipe (p\<lparr>pl_sub_required := False\<rparr>)"
    "running_pipe (p\<lparr>pl_stream_worker := Some w\<rparr>)" "running_pipe (p\<lparr>pl_media := m\<rparr>)"
  by (insert assms) (auto simp: running_pipe_def pipe_ok_def flags_ok_def detector_starting_def)

lemma active_running:
  assumes "running_pipe p"
  shows "running_pipe (snd (set_stream_active k e c s a p))"
proof (cases "s = SUB_STREAM_ID \<and> c = do_channel_id (he_options e) \<and> es_enable (ss_sub (pl_streams p)) \<and> a")
  case False
  have "running_pipe (p\<lparr>pl_sub_required := False, pl_stream_generation := g\<rparr>)" for g
    using running_flags(1) [OF running_flags(4) [OF assms]] by simp
  moreover have "running_pipe (p\<lparr>pl_ai_required := a, pl_ai_generation := g\<rparr>)" for g
    using running_flags(2) [OF running_flags(3) [OF assms]] by simp
  ultimately show ?thesis
    using assms False by (auto simp: set_stream_active_def Let_def SUB_STREAM_ID_def AI_STREAM_ID_def)
next
  case True
  obtain ok d' where r: "set_sub_stream_enabled k True (pl_device p) = (ok, d')" by fastforce
  let ?g = "pl_stream_generation p + 1"
  have "running_pipe (p\<lparr>pl_device := d', pl_sub_required := ok\<rparr>)"
    by (rule switch_running(1) [OF assms r]) simp
  then have run: "running_pipe (p\<lparr>pl_device := d', pl_sub_required := ok, pl_stream_generation := g\<rparr>)" for g
    using running_flags(1) by fastforce
  have "snd (set_stream_active k e c s a p) =
      p\<lparr>pl_device := d', pl_sub_required := ok, pl_stream_generation := (if ok then ?g else ?g + 1)\<rparr>"
    using True r assms
    by (cases p) (simp add: set_stream_active_def Let_def SUB_STREAM_ID_def AI_STREAM_ID_def running_pipe_def try_device_def)
  then show ?thesis using run by simp
qed

lemma stream_worker_running:
  assumes "running_pipe p" and "stream_worker_step k t p = Some q"
  shows "running_pipe q"
proof -
  have ns: "\<not> pl_stream_worker_stop p" "pl_channel p \<noteq> None" using assms(1) by (simp_all add: running_pipe_def)
  obtain ok d' where r: "set_sub_stream_enabled k False (pl_device p) = (ok, d')" by fastforce
  note fl = running_flags(5) [OF assms(1)]
  have sw: "running_pipe (p\<lparr>pl_device := d', pl_stream_worker := Some w\<rparr>)" if "\<not> pl_sub_required p" for w
    using running_flags(5) [OF switch_running(1) [OF assms(1) r, of False]] that by (cases p) simp
  show ?thesis
    using assms(2) ns fl sw r
    by (auto simp: stream_worker_step_def stream_loop_def on_device_def split: option.splits stream_place.splits if_splits)
qed

text \<open>The thread of the detector: its place matters only while the detector is being started.\<close>

lemma ai_place_running:
  assumes "running_pipe p" and "ai_enable (ss_ai (pl_streams p))" and "\<not> detector_starting p \<or> \<not> holds (pl_device p) Detector"
  shows "running_pipe (p\<lparr>pl_ai_worker := Some w\<rparr>)"
  using assms by (auto simp: running_pipe_def pipe_ok_def flags_ok_def detector_starting_def)

lemma outer_ok:
  assumes "pipe_ok p" and "outer_only (pl_device p) d'" and "flags_ok (q\<lparr>pl_device := d'\<rparr>)" and "pl_channel q = pl_channel p"
  shows "pipe_ok (q\<lparr>pl_device := d'\<rparr>)"
proof -
  have "device_ok (pl_device p)" using assms(1) by (simp add: pipe_ok_def)
  note o = outer_device [OF this assms(2)]
  show ?thesis using assms o by (simp add: pipe_ok_def)
qed

lemma ai_place_ok:
  assumes "pipe_ok p" and "\<not> detector_starting p"
  shows "pipe_ok (p\<lparr>pl_ai_worker := w\<rparr>)"
  using assms by (auto simp: pipe_ok_def flags_ok_def detector_starting_def)

text \<open>What the thread of the detector leaves alone.\<close>

definition ai_frame :: "'h pipeline \<Rightarrow> 'h pipeline \<Rightarrow> bool" where
  "ai_frame p q \<longleftrightarrow>
     outer_only (pl_device p) (pl_device q) \<and> pl_running q = pl_running p \<and> pl_channel q = pl_channel p \<and>
     pl_streams q = pl_streams p \<and> pl_stream_worker q = pl_stream_worker p \<and> pl_publisher q = pl_publisher p \<and>
     pl_svp_inited q = pl_svp_inited p \<and> pl_osd_inited q = pl_osd_inited p \<and> pl_sys_inited q = pl_sys_inited p \<and>
     pl_stream_worker_stop q = pl_stream_worker_stop p \<and> pl_ai_worker_stop q = pl_ai_worker_stop p \<and>
     pl_sub_required q = pl_sub_required p"

lemma ai_frame_refl [simp]: "ai_frame p p"
  by (simp add: ai_frame_def)

lemma ai_frame_trans [trans]: "ai_frame p q \<Longrightarrow> ai_frame q r \<Longrightarrow> ai_frame p r"
  by (auto simp: ai_frame_def intro: outer_only_trans)

lemma stop_yolov8_ok:
  assumes "pipe_ok p" and "\<not> detector_starting p"
  shows "pipe_ok (stop_yolov8_locked k p)" and "\<not> pl_detector (stop_yolov8_locked k p)"
    and "pl_ai_worker (stop_yolov8_locked k p) = pl_ai_worker p" and "ai_frame p (stop_yolov8_locked k p)"
proof -
  let ?cs = "[Release Detector_Observer, Release Detector]"
  let ?d = "sdk_tells k ?cs (pl_device p)"
  have o: "outer_only (pl_device p) ?d" by (rule outer_tells) simp
  have eq: "stop_yolov8_locked k p = (p\<lparr>pl_detector := False\<rparr>)\<lparr>pl_device := ?d\<rparr>" if "pl_detector p"
    using that assms(1) by (cases p) (simp add: stop_yolov8_locked_def on_device_def pipe_ok_def flags_ok_def)
  have "\<not> holds ?d Detector" "\<not> holds ?d Detector_Observer" by (rule sdk_tells_released; simp)+
  moreover have "holds ?d r \<Longrightarrow> holds (pl_device p) r" for r by (auto dest!: tells_release [rotated])
  ultimately have "flags_ok ((p\<lparr>pl_detector := False\<rparr>)\<lparr>pl_device := ?d\<rparr>)"
    using assms(1) by (simp add: pipe_ok_def flags_ok_def)
  then have "pipe_ok ((p\<lparr>pl_detector := False\<rparr>)\<lparr>pl_device := ?d\<rparr>)" by (rule outer_ok [OF assms(1) o]) simp
  then show "pipe_ok (stop_yolov8_locked k p)" using eq assms(1) by (cases "pl_detector p") (simp_all add: stop_yolov8_locked_def)
  show "\<not> pl_detector (stop_yolov8_locked k p)" "pl_ai_worker (stop_yolov8_locked k p) = pl_ai_worker p"
    by (simp_all add: stop_yolov8_locked_def on_device_def)
  show "ai_frame p (stop_yolov8_locked k p)"
    by (cases "pl_detector p") (use eq o in \<open>simp_all add: stop_yolov8_locked_def ai_frame_def\<close>)
qed

lemma ai_loop_ok:
  assumes "pipe_ok p" and "\<not> detector_starting p"
  shows "pipe_ok (ai_loop p)" and "ai_frame p (ai_loop p)" and "(pl_ai_worker (ai_loop p) = None) = pl_ai_worker_stop p"
  using ai_place_ok [OF assms] by (simp_all add: ai_loop_def ai_frame_def)

lemma ai_worker_ok:
  assumes "pipe_ok p" and "pl_ai_worker p \<noteq> None \<longrightarrow> pl_publisher p" and "ai_worker_step k e t p = Some q"
  shows "pipe_ok q \<and> ai_frame p q \<and> (pl_ai_worker q = None \<longrightarrow> pl_ai_worker_stop p)"
proof -
  have fl: "flags_ok p" using assms(1) by (simp add: pipe_ok_def)
  obtain w where w: "pl_ai_worker p = Some w" using assms(3) by (cases "pl_ai_worker p") (simp_all add: ai_worker_step_def Let_def)
  have to: "pipe_ok (p\<lparr>pl_ai_worker := w'\<rparr>)" "ai_frame p (p\<lparr>pl_ai_worker := w'\<rparr>)" if "\<not> detector_starting p" for w'
    using ai_place_ok [OF assms(1) that] by (simp_all add: ai_frame_def)
  show ?thesis
  proof (cases w)
    case Ai_Wait
    then show ?thesis using assms(3) w to by (auto simp: ai_worker_step_def Let_def detector_starting_def split: if_splits)
  next
    case (Ai_Launch g)
    then show ?thesis using assms(3) w to by (auto simp: ai_worker_step_def Let_def detector_starting_def split: if_splits)
  next
    case (Ai_Starting g)
    let ?r = "sdk_ask k (Acquire Detector) (pl_device p)"
    have q: "q = (p\<lparr>pl_ai_worker := Some (Ai_Started g (fst ?r))\<rparr>)\<lparr>pl_device := snd ?r\<rparr>"
      using assms(3) w Ai_Starting by (cases p) (simp add: ai_worker_step_def Let_def try_device_def)
    have o: "outer_only (pl_device p) (snd ?r)" by (rule outer_ask) simp
    have "flags_ok q" using fl w Ai_Starting unfolding q by (auto simp: flags_ok_def detector_starting_def split: if_splits)
    then have "pipe_ok q" unfolding q by (rule outer_ok [OF assms(1) o]) simp
    then show ?thesis using o unfolding q by (simp add: ai_frame_def)
  next
    case (Ai_Started g ok)
    show ?thesis
    proof (cases "\<not> ok")
      case True
      then show ?thesis using assms(3) w to Ai_Started by (auto simp: ai_worker_step_def Let_def detector_starting_def)
    next
      case ok: False
      show ?thesis
      proof (cases "ai_unwanted g p")
        case True
        let ?d = "sdk_tell k (Release Detector) (pl_device p)"
        have q: "q = (p\<lparr>pl_ai_worker := Some (Ai_Done g False)\<rparr>)\<lparr>pl_device := ?d\<rparr>"
          using assms(3) w Ai_Started ok True by (cases p) (simp add: ai_worker_step_def Let_def on_device_def)
        have o: "outer_only (pl_device p) ?d" by (rule outer_tell) simp
        have "flags_ok q" using fl unfolding q by (auto simp: flags_ok_def detector_starting_def)
        then have "pipe_ok q" unfolding q by (rule outer_ok [OF assms(1) o]) simp
        then show ?thesis using o unfolding q by (simp add: ai_frame_def)
      next
        case False
        let ?d = "sdk_tell k (Acquire Detector_Observer) (pl_device p)"
        define m where "m = pl_media (take_detector k e p)"
        have q: "q = (p\<lparr>pl_ai_worker := Some (Ai_Done g True), pl_media := m, pl_detector := True\<rparr>)\<lparr>pl_device := ?d\<rparr>"
          using assms(3) w Ai_Started ok False
          by (cases p) (auto simp: ai_worker_step_def Let_def on_device_def take_detector_def m_def split: prod.splits)
        have o: "outer_only (pl_device p) ?d" by (rule outer_tell) simp
        have "flags_ok q" using fl assms(2) w unfolding q by (auto simp: flags_ok_def detector_starting_def)
        then have "pipe_ok q" unfolding q by (rule outer_ok [OF assms(1) o]) simp
        then show ?thesis using o unfolding q by (simp add: ai_frame_def)
      qed
    qed
  next
    case (Ai_Done g ok)
    define q1 where "q1 = p\<lparr>pl_ai_required := False, pl_ai_generation := pl_ai_generation p + 1\<rparr>"
    have ns: "\<not> detector_starting p" using w Ai_Done by (simp add: detector_starting_def)
    then have a: "pipe_ok q1" "\<not> detector_starting q1" "ai_frame p q1" "pl_ai_worker_stop q1 = pl_ai_worker_stop p"
      using assms(1) by (simp_all add: q1_def pipe_ok_def flags_ok_def detector_starting_def ai_frame_def)
    have "q = ai_loop p \<or> q = ai_loop q1"
      using assms(3) w Ai_Done by (auto simp: ai_worker_step_def Let_def q1_def)
    then show ?thesis
      using ai_loop_ok [OF assms(1) ns] ai_loop_ok [OF a(1,2)] ai_frame_trans [OF a(3)] a(4) by auto
  next
    case (Ai_Idle g)
    have ns: "\<not> detector_starting p" using w Ai_Idle by (simp add: detector_starting_def)
    note s = stop_yolov8_ok [OF assms(1) ns, of k]
    have ns2: "\<not> detector_starting (stop_yolov8_locked k p)" using ns s(3) by (simp add: detector_starting_def)
    have "q = ai_loop p \<or> q = ai_loop (stop_yolov8_locked k p)"
      using assms(3) w Ai_Idle by (auto simp: ai_worker_step_def Let_def split: if_splits)
    moreover have "pl_ai_worker_stop (stop_yolov8_locked k p) = pl_ai_worker_stop p" using s(4) by (simp add: ai_frame_def)
    ultimately show ?thesis
      using ai_loop_ok [OF assms(1) ns] ai_loop_ok [OF s(1) ns2] ai_frame_trans [OF s(4)] by auto
  qed
qed

lemma ai_worker_running:
  assumes "running_pipe p" and "ai_worker_step k e t p = Some q"
  shows "running_pipe q"
proof -
  have ok: "pipe_ok p" "pl_ai_worker p \<noteq> None \<longrightarrow> pl_publisher p" "pl_ai_worker p \<noteq> None"
    using assms by (auto simp: running_pipe_def ai_worker_step_def Let_def split: option.splits)
  note s = ai_worker_ok [OF ok(1,2) assms(2)]
  then have "outer_only (pl_device p) (pl_device q)" by (simp add: ai_frame_def)
  note o = outer_device [OF running_device_ok [OF assms(1)] this]
  show ?thesis using assms(1) s o ok(3) by (auto simp: running_pipe_def ai_frame_def)
qed

lemma event_running: "running_pipe p \<Longrightarrow> pipeline_event k e ev p = Some q \<Longrightarrow> running_pipe q"
  by (cases ev) (auto intro: active_running keyframe_running play_running stream_worker_running ai_worker_running)

lemma reaches_running: "pipeline_reaches k e p q \<Longrightarrow> running_pipe p \<Longrightarrow> running_pipe q"
  by (induction rule: pipeline_reaches.induct) (auto intro: event_running)

section \<open>Stop\<close>

lemma join_stream_stopped:
  "pl_stream_worker_stop p \<Longrightarrow> join_stream k (Suc (Suc n)) p = Some (p\<lparr>pl_stream_worker := None\<rparr>)"
  by (cases "pl_stream_worker p")
    (auto simp: stream_worker_step_def stream_loop_def split: stream_place.splits)

text \<open>How many steps the thread of the detector still takes after it has been told to stop.\<close>

fun ai_steps_left :: "ai_place option \<Rightarrow> nat" where
  "ai_steps_left None = 0"
| "ai_steps_left (Some (Ai_Starting g)) = 3"
| "ai_steps_left (Some (Ai_Launch g)) = 2"
| "ai_steps_left (Some (Ai_Started g ok)) = 2"
| "ai_steps_left (Some w) = 1"

lemma ai_stops:
  assumes "pl_ai_worker_stop p" and "pl_ai_worker p \<noteq> None"
  shows "\<exists>q. ai_worker_step k e t p = Some q \<and> ai_steps_left (pl_ai_worker q) < ai_steps_left (pl_ai_worker p)"
  using assms
  by (cases "pl_ai_worker p") (auto simp: ai_worker_step_def Let_def ai_unwanted_def ai_loop_def split: ai_place.splits)

lemma join_ai_returns:
  assumes "pipe_ok p" and "pl_ai_worker p \<noteq> None \<longrightarrow> pl_publisher p" and "pl_ai_worker_stop p"
    and "ai_steps_left (pl_ai_worker p) \<le> n"
  shows "\<exists>q. join_ai k e n p = Some q \<and> pipe_ok q \<and> ai_frame p q \<and> pl_ai_worker q = None"
  using assms
proof (induction n arbitrary: p)
  case 0
  then have "pl_ai_worker p = None" by (cases "pl_ai_worker p" rule: ai_steps_left.cases) auto
  then show ?case using 0 by simp
next
  case (Suc n)
  show ?case
  proof (cases "pl_ai_worker p = None")
    case False
    obtain q where q: "ai_worker_step k e False p = Some q" "ai_steps_left (pl_ai_worker q) < ai_steps_left (pl_ai_worker p)"
      using ai_stops [OF Suc.prems(3) False] by blast
    note s = ai_worker_ok [OF Suc.prems(1,2) q(1)]
    have "pl_publisher q" "pl_ai_worker_stop q" using s Suc.prems(2,3) False by (simp_all add: ai_frame_def)
    then obtain r where r: "join_ai k e n q = Some r" "pipe_ok r" "ai_frame q r" "pl_ai_worker r = None"
      using Suc.IH [of q] s q(2) Suc.prems(4) by auto
    have "ai_frame p r" using ai_frame_trans s r(3) by blast
    then show ?thesis using r q(1) False by auto
  qed (use Suc.prems in simp)
qed

lemma pipeline_stop_spec:
  assumes "running_pipe p"
  shows "\<exists>q. pipeline_stop k e p = Some q \<and> all_off q"
proof -
  define p1 where "p1 = (ask_to_stop p)\<lparr>pl_stream_worker := None\<rparr>"
  have f: "pl_stream_worker_stop (ask_to_stop p)" by (simp add: ask_to_stop_def)
  have j: "join_stream k 4 (ask_to_stop p) = Some p1"
    using join_stream_stopped [OF f, of k 2] by (simp add: p1_def numeral_eq_Suc)
  have 1: "pipe_ok p1" "pl_ai_worker p1 \<noteq> None \<longrightarrow> pl_publisher p1" "pl_ai_worker_stop p1" "\<not> pl_running p1" "pl_stream_worker p1 = None"
    using assms by (auto simp: p1_def ask_to_stop_def running_pipe_def pipe_ok_def flags_ok_def detector_starting_def)
  have "ai_steps_left (pl_ai_worker p1) \<le> 4" by (cases "pl_ai_worker p1" rule: ai_steps_left.cases) auto
  from join_ai_returns [OF 1(1-3) this, of k e]
  obtain q where q: "join_ai k e 4 p1 = Some q" "pipe_ok q" "ai_frame p1 q" "pl_ai_worker q = None" by blast
  have "all_off (release_all k q)" by (rule release_all_off) (use q 1 in \<open>simp_all add: ai_frame_def\<close>)
  moreover have "pipeline_stop k e p = Some (release_all k q)"
    using assms j q(1) by (simp add: pipeline_stop_def running_pipe_def)
  ultimately show ?thesis by blast
qed


section \<open>The sub stream and its thread\<close>

fun stream_worker_run :: "sdk_answers \<Rightarrow> nat \<Rightarrow> 'h pipeline \<Rightarrow> 'h pipeline option" where
  "stream_worker_run k 0 p = Some p"
| "stream_worker_run k (Suc n) p = Option.bind (stream_worker_step k True p) (stream_worker_run k n)"

lemma idle_step:
  assumes "running_pipe p" and "\<not> pl_sub_required p" and "pl_stream_worker p = Some (Stream_Idle (pl_stream_generation p))"
  shows "\<exists>q. stream_worker_step k True p = Some q \<and> running_pipe q \<and> \<not> pl_sub_required q \<and> \<not> sub_encoding (pl_device q) \<and>
    pl_stream_worker q = Some Stream_Off"
proof -
  obtain ok d' where r: "set_sub_stream_enabled k False (pl_device p) = (ok, d')" by fastforce
  let ?q = "p\<lparr>pl_device := d', pl_stream_worker := Some Stream_Off\<rparr>"
  have s: "stream_worker_step k True p = Some ?q"
    using assms r by (simp add: stream_worker_step_def running_pipe_def on_device_def)
  have ci: "chn_inv (pl_device p)" using running_device_ok [OF assms(1)] by (simp add: device_ok_def)
  have "\<not> sub_encoding d'"
  proof (cases "dv_venc (pl_device p) Sub_Venc = None")
    case True
    then have "d' = pl_device p" using r by (simp add: set_sub_stream_enabled_def)
    moreover have "running_chn (pl_device p)" using started_running [OF ci] assms(1) by (simp add: running_pipe_def)
    ultimately show ?thesis using True sub_encoding_running [OF ci] by (simp add: running_chn_def)
  next
    case False
    then show ?thesis using set_sub_spec [OF ci r] assms(1) by (auto simp: running_pipe_def)
  qed
  then show ?thesis using s stream_worker_running [OF assms(1) s] assms(2) by simp
qed


text \<open>Events one after the other; a thread that has nothing to do is passed over.\<close>

fun run_events :: "sdk_answers \<Rightarrow> hisi_env \<Rightarrow> device_event list \<Rightarrow> 'h pipeline \<Rightarrow> 'h pipeline" where
  "run_events k e [] p = p"
| "run_events k e (ev # evs) p = run_events k e evs (case pipeline_event k e ev p of None \<Rightarrow> p | Some q \<Rightarrow> q)"

definition unwanted_running :: "'h pipeline \<Rightarrow> bool" where
  "unwanted_running p \<longleftrightarrow>
     running_pipe p \<and> pl_stream_worker p = Some Stream_Off \<and> \<not> pl_sub_required p \<and> sub_encoding (pl_device p)"

lemma unwanted_event:
  assumes "unwanted_running p" and "\<forall>c. ev \<noteq> Ev_Active c SUB_STREAM_ID True" and "pipeline_event k e ev p = Some q"
  shows "unwanted_running q"
proof -
  have p: "running_pipe p" "pl_stream_worker p = Some Stream_Off" "\<not> pl_sub_required p" "sub_encoding (pl_device p)"
    "\<not> pl_stream_worker_stop p"
    using assms(1) by (simp_all add: unwanted_running_def running_pipe_def)
  have q: "running_pipe q" by (rule event_running [OF p(1) assms(3)])
  have dk: "device_ok (pl_device p)" by (rule running_device_ok [OF p(1)])
  show ?thesis
  proof (cases ev)
    case (Ev_Active c s a)
    then have "\<not> (s = SUB_STREAM_ID \<and> a)" using assms(2) by auto
    then have "pl_stream_worker q = pl_stream_worker p \<and> \<not> pl_sub_required q \<and> pl_device q = pl_device p"
      using Ev_Active assms(3) p(3) by (auto simp: set_stream_active_def Let_def SUB_STREAM_ID_def AI_STREAM_ID_def split: if_splits)
    then show ?thesis using q p by (simp add: unwanted_running_def)
  next
    case (Ev_Keyframe c s)
    then show ?thesis
      using assms(3) q p keyframe_device [OF dk, of k c s] by (auto simp: unwanted_running_def pipeline_keyframe_def try_device_def same_flags_def)
  next
    case (Ev_Play bs)
    then show ?thesis
      using assms(3) q p play_device [OF dk, of k bs] by (auto simp: unwanted_running_def pipeline_play_def try_device_def same_flags_def)
  next
    case (Ev_Stream_Worker t)
    then show ?thesis using assms(3) p by (simp add: stream_worker_step_def)
  next
    case (Ev_Ai_Worker t)
    have "pl_ai_worker p \<noteq> None \<longrightarrow> pl_publisher p" "pipe_ok p" using p(1) by (auto simp: running_pipe_def)
    then have f: "ai_frame p q" using ai_worker_ok [of p k e t q] assms(3) Ev_Ai_Worker by simp
    then have "outer_only (pl_device p) (pl_device q)" by (simp add: ai_frame_def)
    then have "sub_encoding (pl_device q) = sub_encoding (pl_device p)" by (rule outer_device(4) [OF dk])
    then show ?thesis using f q p by (simp add: unwanted_running_def ai_frame_def)
  qed
qed

lemma unwanted_events:
  "unwanted_running p \<Longrightarrow> \<forall>c. Ev_Active c SUB_STREAM_ID True \<notin> set evs \<Longrightarrow> unwanted_running (run_events k e evs p)"
proof (induction evs arbitrary: p)
  case (Cons ev evs)
  have "unwanted_running (case pipeline_event k e ev p of None \<Rightarrow> p | Some q \<Rightarrow> q)"
    using Cons.prems unwanted_event [OF Cons.prems(1), of ev k e] by (auto split: option.splits)
  then show ?case using Cons.IH Cons.prems(2) by simp
qed simp

text \<open>
  C40: a demand that is withdrawn at once leaves the sub encoder running.  When the thread of the sub stream waits
  for the next demand, and a viewer comes, is given the stream and goes before the thread has woken up, then the thread keeps waiting
  for a demand: whatever happens afterwards, as long as nobody asks for the sub stream, it is encoded for nobody.
\<close>

theorem withdrawn_demand_missed:
  assumes "running_pipe p" and "pl_stream_worker p = Some Stream_Off" and "es_enable (ss_sub (pl_streams p))"
    and "fst (set_sub_stream_enabled k True (pl_device p))"
    and "\<forall>c. Ev_Active c SUB_STREAM_ID True \<notin> set evs"
  shows "let c = do_channel_id (he_options e);
             q = run_events k e ([Ev_Active c SUB_STREAM_ID True, Ev_Active c SUB_STREAM_ID False] @ evs) p
         in \<not> pl_sub_required q \<and> sub_encoding (pl_device q) \<and> (\<forall>t. stream_worker_step k t q = None)"
proof -
  let ?c = "do_channel_id (he_options e)"
  define p1 where "p1 = snd (set_stream_active k e ?c SUB_STREAM_ID True p)"
  define p2 where "p2 = snd (set_stream_active k e ?c SUB_STREAM_ID False p1)"
  obtain d' where r: "set_sub_stream_enabled k True (pl_device p) = (True, d')" using assms(4) by (metis prod.collapse)
  have run: "pl_running p" "pl_channel p \<noteq> None" "\<not> pl_stream_worker_stop p" using assms(1) by (simp_all add: running_pipe_def)
  have p1: "running_pipe p1" unfolding p1_def by (rule active_running [OF assms(1)])
  have "pl_device p1 = d'" "pl_stream_worker p1 = Some Stream_Off" "pl_streams p1 = pl_streams p"
    using assms(2,3) r run
    by (auto simp: p1_def set_stream_active_def Let_def SUB_STREAM_ID_def AI_STREAM_ID_def try_device_def)
  note p1 = p1 this
  have "running_pipe p2" unfolding p2_def by (rule active_running [OF p1(1)])
  moreover have "pl_device p2 = d'" "pl_stream_worker p2 = Some Stream_Off" "\<not> pl_sub_required p2"
    using p1 assms(3) by (auto simp: p2_def set_stream_active_def Let_def SUB_STREAM_ID_def AI_STREAM_ID_def running_pipe_def)
  moreover have "sub_encoding d'" using switch_running(2) [OF assms(1) r, of False] by simp
  ultimately have "unwanted_running p2" by (simp add: unwanted_running_def)
  then have u: "unwanted_running (run_events k e evs p2)" by (rule unwanted_events [OF _ assms(5)])
  then have "stream_worker_step k t (run_events k e evs p2) = None" for t
    by (simp add: unwanted_running_def running_pipe_def stream_worker_step_def)
  then show ?thesis using u by (simp add: Let_def p1_def p2_def unwanted_running_def)
qed

section \<open>When every call succeeds\<close>

definition all_works :: "sdk_answers \<Rightarrow> bool" where
  "all_works k \<longleftrightarrow> (\<forall>tr c. k tr c)"

lemma all_works_capture: "all_works k \<Longrightarrow> capture_works k"
  by (simp add: all_works_def capture_works_def)

lemma all_works_ask [simp]: "all_works k \<Longrightarrow> fst (sdk_ask k c d)"
  by (simp add: all_works_def)

lemma all_works_sequence: "all_works k \<Longrightarrow> fst (sdk_sequence k cs d)"
  by (induction cs arbitrary: d) (simp_all add: all_works_def)

lemma all_works_prepare: "all_works k \<Longrightarrow> fst (venc_prepare k v d)"
  by (simp add: venc_prepare_def Let_def all_works_def all_works_sequence del: sdk_sequence.simps)

lemma all_works_resume: "all_works k \<Longrightarrow> fst (venc_resume k v d)"
  using all_works_prepare [of k v d]
  by (auto simp: venc_resume_def bind_source_def start_bound_def Let_def all_works_def split: prod.splits)

lemma all_works_encoder:
  assumes "all_works k" and "dv_venc d i \<noteq> None"
  shows "fst (encoder_resume k i d)" "fst (encoder_prepare k i d)"
proof -
  obtain v where v: "dv_venc d i = Some v" using assms(2) by blast
  show "fst (encoder_resume k i d)" using all_works_resume [OF assms(1), of v d] v by (auto simp: encoder_resume_def split: prod.splits)
  show "fst (encoder_prepare k i d)" using all_works_prepare [OF assms(1), of v d] v by (auto simp: encoder_prepare_def split: prod.splits)
qed

lemma all_works_streams:
  assumes "all_works k" and "parts_inv d" and "dv_venc d = Map.empty" and "free_chns 2 d" and "venc_of_mode (ch_venc_mode c) \<noteq> None"
    and "\<not> to_enable (vo_osd main)" and "\<not> to_enable (vo_osd sub)"
  shows "fst (start_streams k c v main sub d)"
proof -
  obtain mode where m: "venc_of_mode (ch_venc_mode c) = Some mode" using assms(5) by blast
  let ?d1 = "make_encoders mode v main sub d"
  note me = make_encoders_spec [OF assms(2-4), of mode v main sub]
  have main: "fst (encoder_resume k Main_Venc ?d1)" by (rule all_works_encoder(1) [OF assms(1)]) (use me in auto)
  have "fst (start_both k ?d1)"
    using main all_works_encoder(2) [OF assms(1), of "snd (encoder_resume k Main_Venc ?d1)" Sub_Venc]
    by (simp add: start_both_def)
  moreover have "fst (start_clocks k main sub e)" for e :: "'a device_scheme"
    using assms(6,7) by (simp add: start_clocks_def start_time_osd_def)
  ultimately show ?thesis by (simp add: start_streams_def m Let_def)
qed

lemma all_works_chn_start:
  assumes "all_works k" and "chn_inv d" and "\<not> dc_is_start d" and "free_chns 2 d" and "chn_capture c main d \<noteq> None"
    and "venc_of_mode (ch_venc_mode c) \<noteq> None" and "\<not> to_enable (vo_osd main)" and "\<not> to_enable (vo_osd sub)"
  shows "\<exists>d'. chn_start k c main sub d = Some (True, d')"
proof -
  obtain w where w: "chn_capture c main d = Some w" using assms(5) by blast
  have idle: "idle_chn d" by (rule not_started_idle [OF assms(2,3)])
  let ?d0 = "d\<lparr>dc_vi := Some w\<rparr>" let ?r = "vi_isp_start k w ?d0"
  have i0: "idle_chn ?d0" "audio_inv ?d0" "parts_inv ?d0" using idle assms(2) by (simp_all add: idle_device_vi chn_inv_def)
  note v = vi_start_idle [OF i0, of k w]
  have "\<not> dv_vi_started ?d0" using idle by (simp add: idle_chn_def)
  then have "fst ?r" by (rule vi_start_works [OF all_works_capture [OF assms(1)]])
  moreover have "free_chns 2 (snd ?r)" using v assms(4) by (simp add: free_chns_def)
  then have "fst (start_streams k c w main sub (snd ?r))" using all_works_streams [OF assms(1)] v assms(6-8) by blast
  ultimately show ?thesis
    using chn_start_capture_step [OF idle w, of k sub] by (cases "start_streams k c w main sub (snd ?r)") (simp add: Let_def)
qed

lemma all_works_sub:
  assumes "all_works k" and "dc_is_start d" and "dv_venc d Sub_Venc \<noteq> None" and "chn_inv d"
  shows "fst (set_sub_stream_enabled k True d)"
proof (cases "dc_sub_running d")
  case False
  let ?d1 = "d\<lparr>dv_capturing := False\<rparr>"
  obtain s where s: "dv_venc d Sub_Venc = Some s" using assms(3) by blast
  have ok: "fst (encoder_resume k Sub_Venc ?d1)" by (rule all_works_encoder(1) [OF assms(1)]) (use s in simp)
  define r where "r = and_try (encoder_resume k Sub_Venc ?d1)
         (\<lambda>d2. (True, case dv_venc d2 Sub_Venc of None \<Rightarrow> d2 | Some v \<Rightarrow> snd (venc_request_i_frame k v d2)))"
  have p: "parts_inv ?d1" using assms(4) by (simp add: chn_inv_def)
  have s1: "dv_venc ?d1 Sub_Venc = Some s" using s by simp
  have "r = (if True then and_try (encoder_resume k Sub_Venc ?d1)
      (\<lambda>d2. (True, case dv_venc d2 Sub_Venc of None \<Rightarrow> d2 | Some v \<Rightarrow> snd (venc_request_i_frame k v d2)))
     else (True, encoder_pause k Sub_Venc ?d1))" by (simp add: r_def)
  note r = this
  have "streams_only ?d1 (snd r)" using switch_step [OF p s1 r] by blast
  then have "\<not> dv_capturing (snd r)" by (simp add: streams_only_def same_rest_def)
  then have "fst (set_sub_stream_enabled k True d) = fst r"
    using set_sub_cases [OF assms(2) s _ r] False by simp
  then show ?thesis using ok by (simp add: r_def)
qed (use assms in \<open>simp add: set_sub_stream_enabled_def\<close>)

lemma demo_pipeline_starts: "\<exists>q. pipeline_start (\<lambda>_ _. True) demo_env demo_pipeline = Some (True, q)"
proof -
  let ?k = "\<lambda>_ _. True" and ?o = "he_options demo_env"
  have k: "all_works ?k" by (simp add: all_works_def)
  obtain b d1 where sl: "start_library ?k demo_env (pl_device demo_pipeline) = (b, d1)" by fastforce
  have dev: "pl_device demo_pipeline = demo_device" by (simp add: demo_pipeline_def new_pipeline_def)
  have i: "chn_init ?k (he_sizes demo_env) 0 0 2560 1440 30 0 demo_device = (b, d1)"
    using sl by (simp add: start_library_def dev) (simp add: demo_env_def)
  have "fst (sys_init ?k bs 0 2560 1440 e)" for bs and e :: device
    by (simp add: sys_init_def Let_def all_works_sequence [OF k] del: sdk_sequence.simps)
  then have b: b using arg_cong [where f = fst, OF i] by (simp add: chn_init_def)
  obtain t where d1: "d1 = demo_device\<lparr>dc_sys_flag := 0, dc_vi_max_w := 2560, dc_vi_max_h := 1440, dc_vi_fr := 30, dc_vi_wdr_mode := 0, sd_trace := t\<rparr>"
    using calls_onE [OF chn_init_calls [OF i]] by blast
  have ok0: "device_ok demo_device" using demo_pipeline_off dev by (simp add: all_off_def pipe_ok_def)
  note o = outer_device [OF ok0 chn_init_outer(1) [OF i]]
  let ?main = "encode_options default_encoded_stream False"
  let ?c = "\<lparr>ch_vi_name = ''SC4336P'', ch_venc_mode = ''H264_CBR'', ch_no = 0\<rparr>"
  let ?d2 = "d1\<lparr>dc_vi := None\<rparr>"
  have ci: "chn_inv d1" using o(1) by (simp add: device_ok_def)
  then have inv: "chn_inv ?d2" using o(2) demo_device_inv(3) by (simp add: chn_inv_def idle_chn_def running_chn_def)
  have fr: "free_chns 2 ?d2" using o(7) [of 2] demo_device_inv(4) by (simp add: free_chns_def)
  have nd: "\<not> dc_is_start ?d2" using o(2) demo_device_inv(3) by simp
  have "chn_capture ?c ?main ?d2 \<noteq> None"
    by (simp add: d1 chn_capture_def MAX_CHANNEL_def make_vi_def too_large_def vi_liner_defs limit_rate_def new_vi_isp_def
        encode_options_def default_encoded_stream_def demo_device_inv(3))
  then obtain d3 where d3: "chn_start ?k ?c ?main ?main ?d2 = Some (True, d3)"
    using all_works_chn_start [OF k inv nd fr, of ?c ?main ?main]
    by (auto simp: venc_of_mode_def encode_options_def default_encoded_stream_def default_osd_def)
  have acc: "vi_accounted ?d2" using o(1) o(2) demo_device_inv(3) by (simp add: device_ok_def vi_accounted_def)
  have "\<exists>ok d'. chn_start ?k ?c ?main ?main ?d2 = Some (ok, d') \<and> chn_inv d' \<and> dc_is_start d' = ok \<and> (ok \<longrightarrow> (dv_venc d' Sub_Venc \<noteq> None) = vo_enable ?main)"
  proof -
    have "\<not> dc_is_start ?d2" using o(2) demo_device_inv(3) by simp
    moreover have "\<forall>w. chn_capture ?c ?main ?d2 = Some w \<longrightarrow> fst (vi_isp_start ?k w (?d2\<lparr>dc_vi := Some w\<rparr>))"
    proof (intro allI impI)
      fix w
      have "\<not> dv_vi_started (?d2\<lparr>dc_vi := Some w\<rparr>)" by (simp add: d1 demo_device_def)
      then show "fst (vi_isp_start ?k w (?d2\<lparr>dc_vi := Some w\<rparr>))" by (rule vi_start_works [OF all_works_capture [OF k]])
    qed
    ultimately show ?thesis using chn_start_spec [OF inv acc _ fr, of ?c ?main ?k ?main] by blast
  qed
  then have s3: "dc_is_start d3" "chn_inv d3" "dv_venc d3 Sub_Venc \<noteq> None"
    using d3 by (auto simp: encode_options_def default_encoded_stream_def)
  then obtain d4 where d4: "set_sub_stream_enabled ?k True d3 = (True, d4)"
    using all_works_sub [OF k, of d3] by (metis prod.collapse)
  define p1 where "p1 = demo_pipeline\<lparr>pl_sys_inited := True, pl_device := d1\<rparr>"
  have p1: "snd (try_device (start_library ?k demo_env) demo_pipeline)\<lparr>pl_sys_inited := True\<rparr> = p1"
    using sl by (simp add: try_device_def p1_def)
  have str: "pl_streams p1 = \<lparr>ss_main = default_encoded_stream, ss_sub = default_encoded_stream, ss_ai = default_ai_stream\<rparr>"
    "\<not> pl_osd_inited p1" "pl_device p1 = d1"
    by (simp_all add: p1_def demo_pipeline_def new_pipeline_def demo_env_def)
  have "init_fonts ?k p1 = p1\<lparr>pl_streams := pl_streams p1\<rparr>"
    using str by (simp add: init_fonts_def Let_def clocks_off_def default_encoded_stream_def default_osd_def default_ai_stream_def)
  then have fonts: "init_fonts ?k p1 = p1" by (cases p1) simp
  define p2 where "p2 = p1\<lparr>pl_channel := Some (?c, new_encoded_channel ''H264_CBR''),
      pl_media := snd (register_encoded_tracks (pl_streams p1) H264 (pl_media p1)), pl_device := ?d2\<rparr>"
  have codec: "\<not> contains ''H265'' ''H264_CBR''" by (simp add: contains_def)
  have "fst (register_encoded_tracks (pl_streams p1) H264 (pl_media p1))"
    by (simp add: register_encoded_tracks_def Let_def str default_encoded_stream_def)
  then have "open_channel ?k demo_env p1 =
      map_option (\<lambda>(ok, d). (ok, p2\<lparr>pl_device := d\<rparr>)) (chn_start ?k ?c ?main ?main ?d2)"
    using codec by (simp add: open_channel_def Let_def str p2_def demo_env_def start_encoders_def default_encoded_stream_def)
  then have op: "open_channel ?k demo_env p1 = Some (True, p2\<lparr>pl_device := d3\<rparr>)" by (simp add: d3)
  have "pl_streams p2 = pl_streams p1" by (simp add: p2_def)
  then have "start_features ?k demo_env (p2\<lparr>pl_device := d3\<rparr>) = (True, p2\<lparr>pl_device := d4\<rparr>)"
    using d4 by (simp add: start_features_def and_try_def start_sub_def try_device_def start_audio_def start_ai_def str Let_def
        default_encoded_stream_def default_ai_stream_def) (simp add: demo_env_def)
  moreover have "\<not> pl_running demo_pipeline" by (simp add: demo_pipeline_def new_pipeline_def)
  moreover have "fst (try_device (start_library ?k demo_env) demo_pipeline)" using sl b by (simp add: try_device_def)
  ultimately show ?thesis unfolding pipeline_start_def Let_def p1 fonts op by (simp add: and_try_def)
qed

text \<open>A device that runs, with the sub encoder switched off.\<close>

definition demo_running_pipe :: "nat pipeline" where
  "demo_running_pipe = demo_pipeline
     \<lparr>pl_device := demo_running, pl_channel := Some (demo_chn, new_encoded_channel ''H264_CBR''), pl_running := True,
      pl_stream_worker := Some Stream_Off, pl_sys_inited := True\<rparr>"

lemma demo_running_pipe: "running_pipe demo_running_pipe"
proof -
  have "Vi_Dev 0 \<in> camera_kinds" "Venc_Chn c \<in> camera_kinds" "Venc_Run c \<in> camera_kinds" for c
    using vi_resources_kinds [of "vi_sc4336p_liner 0 2560 1440 30"]
    by (auto simp: camera_kinds_def stream_kinds_def all_venc_kinds_def venc_kinds_def vi_resources_def vi_liner_defs limit_rate_def new_vi_isp_def)
  then have "known_only demo_running" unfolding known_only_def holds_demo_running by auto
  then have "device_ok demo_running" using demo_running_inv by (simp add: device_ok_def)
  moreover have "dc_is_start demo_running" "dv_capturing demo_running" by (simp_all add: demo_running_def)
  ultimately show ?thesis
    by (simp add: running_pipe_def pipe_ok_def flags_ok_def demo_running_pipe_def holds_demo_running)
      (simp add: demo_pipeline_def new_pipeline_def demo_env_def default_ai_stream_def)
qed



theorem withdrawn_demand_missed_witness:
  "sub_encoding (pl_device (run_events (\<lambda>_ _. True) demo_env
     [Ev_Active 0 SUB_STREAM_ID True, Ev_Active 0 SUB_STREAM_ID False, Ev_Stream_Worker True, Ev_Stream_Worker True] demo_running_pipe))"
proof -
  have "fst (set_sub_stream_enabled (\<lambda>_ _. True) True (pl_device demo_running_pipe))"
    by (rule all_works_sub) (use demo_running_inv(1) in \<open>simp_all add: all_works_def demo_running_pipe_def\<close>, simp_all add: demo_running_def)
  moreover have "pl_stream_worker demo_running_pipe = Some Stream_Off" "es_enable (ss_sub (pl_streams demo_running_pipe))"
    "do_channel_id (he_options demo_env) = 0"
    by (simp_all add: demo_running_pipe_def demo_pipeline_def new_pipeline_def demo_env_def default_encoded_stream_def)
  ultimately show ?thesis
    using withdrawn_demand_missed [OF demo_running_pipe, where e = demo_env and evs = "[Ev_Stream_Worker True, Ev_Stream_Worker True]"]
    by (simp add: Let_def del: run_events.simps)
qed

end
