(* ===== verification/Spec2Isabelle.thy ===== *)
theory Spec2Isabelle
  imports Media_Frame Gop_Cache Detection_Source Media_Source Application Sc4336p
    Sc431hai_Gain Sc431hai_Control Sc431hai_Wdr Record_Plugin
    Mp4_Muxer Mpeg_Muxer Flv_Muxer Main_Program Webrtc_Plugin Encoded_Stream Pipeline_Run
begin

text \<open>
  A verification of ipc-mini, the program of a network camera on a HiSilicon 3516CV610.

  \<^bold>\<open>The program.\<close>  \<^verbatim>\<open>src/src/app/main.cpp\<close> reads a configuration, builds a device pipeline, a WebRTC
  plugin and a record plugin, and hands them to the \<^verbatim>\<open>Application\<close>, which starts and stops them.  The
  device encodes pictures and sound and publishes them as frames to the media source; the source keeps
  the newest group of pictures of each stream and hands every frame to the subscribers of its stream.
  It asks the device to run a stream while the stream has subscribers.  The subscribers are the viewer sessions of the WebRTC
  plugin, which are driven by the messages of a signalling server over a WebSocket, and the recorder, which
  cuts the stream into fMP4 segments, lists them in a playlist, deletes old ones and uploads new ones.
  Below the pipeline, drivers in C set the registers of the image sensor.

  \<^bold>\<open>Conventions.\<close>  A definition has the name of the function it models, with a prefix where two classes share a
  name, and stands in the order of the source.  Records are the classes, \<open>option\<close> is a pointer or an access that may be
  undefined, \<open>bool \<times> 's\<close> is an operation with success or failure, machine integers are words or carry their
  wrap-around.  What is not under src/ - system calls, the media library of the chip, the muxing library, JSON parsing, clocks,
  peers of the KVS library - is a parameter of the definitions that use it, as a function of the calls made
  before where its answers may change.

  \<^bold>\<open>Theories.\<close>
  \<^item> \<open>Prelude\<close>: bounded loops, bytes and words, byte search.
  \<^item> \<open>Media_Frame\<close>, \<open>Gop_Cache\<close>, \<open>Subscriptions\<close>, \<open>Media_Source\<close>, \<open>Detection_Source\<close> (src/src/media): frames
    and their NALU views, the cache of the current group of pictures, the subscription tables, publication and demand.
    The lemmas show that a snapshot of the cache can be decoded and that
    the cache is the live window of its specification, that the device is asked for a stream exactly while it is subscribed, and who receives a
    frame.
  \<^item> \<open>Application\<close> (src/src/core/application.cpp): start with rollback, and stop in two phases.
  \<^item> \<open>Float32\<close>, \<open>Float64\<close>: the roundings of \<^verbatim>\<open>float\<close> and \<^verbatim>\<open>double\<close> the program relies on.
  \<^item> \<open>Sensor_Common\<close>, \<open>Gain_Table\<close>, \<open>Sensor_Driver\<close>, \<open>Sc4336p_Tables\<close>, \<open>Sc4336p\<close>, \<open>Sc431hai_Tables\<close>, \<open>Sc431hai\<close>,
    \<open>Sc431hai_Gain\<close>, \<open>Sc431hai_Control\<close>, \<open>Sc431hai_Wdr\<close> (src/devices/hisi\_3516cv610/sensor): the code all drivers share, and
    the drivers of two sensors with their tables.  The locales of \<open>Sensor_Driver\<close> and \<open>Gain_Table\<close> state
    what a driver provides and are interpreted by both drivers.  The lemmas show the ranges the registers
    stay in, that a fetch of the register set brings the sensor in line with the driver, and what
    the gain search answers.
  \<^item> \<open>Record_Path\<close>, \<open>File_System\<close>, \<open>Hls_Playlist\<close>, \<open>Fmp4_Muxer\<close>, \<open>Bounded_Queue\<close>, \<open>Segment_Uploader\<close>,
    \<open>Segment_Recorder\<close>, \<open>Recorder_Playlist\<close>, \<open>Recorder_Run\<close>, \<open>Record_Plugin\<close> (src/src/record and
    src/src/protocol/record\_plugin.cpp): the recorder with its writer thread, which takes
    turns with the callers in the step relation of \<open>Recorder_Run\<close>.
  \<^item> \<open>Memory_File\<close>, \<open>Mp4_Muxer\<close>, \<open>Packet_Sink\<close>, \<open>Mpeg_Muxer\<close>, \<open>Flv_Muxer\<close> (src/src/packaging): the muxers.
  \<^item> \<open>Json_Value\<close>, \<open>Runtime_Config\<close>, \<open>Config_Loader\<close> (src/src/config and the values of
    src/3rdpart/jsoncpp): reading and validating the configuration.
  \<^item> \<open>Signaling_Json\<close>, \<open>Ws_Frame\<close>, \<open>Ws_Client\<close>, \<open>Signaling_Client\<close>, \<open>Webrtc_Sessions\<close>, \<open>Webrtc_Plugin\<close>
    (src/protocol/webrtc): frames and messages of the signalling connection, reconnection, and the viewer sessions.
  \<^item> \<open>Encoded_Stream\<close> (src/device\_adapter): the units of the encoder, the frames
    copied from them, tracks and publication.
  \<^item> \<open>Sdk_Trace\<close>, \<open>Dev_Sys\<close>, \<open>Dev_Video_Input\<close>, \<open>Dev_Osd\<close>, \<open>Dev_Audio\<close>, \<open>Dev_Venc\<close>, \<open>Dev_Encoders\<close>, \<open>Dev_Chn\<close>
    (src/devices/hisi\_3516cv610): the device layer over the media library of the chip.  The library answers
    every call from the calls made before; the trace of the calls tells what is acquired.  The theories follow the files:
    buffers and numbers (dev\_sys), capture and sensors (dev\_vi\_isp, dev\_vi\_*\_liner), clocks (dev\_osd), microphone and
    loudspeaker (dev\_aenc, dev\_aplay), encoders and capture thread (dev\_venc), and the channel made of them (dev\_chn).
    The lemmas show that flags and members account for what is held after every operation, whichever call fails, that a channel
    starts as a whole or not at all and stops without rest, what the packs of a picture become, and what sound is played.
  \<^item> \<open>Hisi_Pipeline\<close>, \<open>Pipeline_Run\<close> (src/device\_adapter/src/hisilicon\_pipeline.cpp): the device as the program sees it.  Start
    and stop compose the operations of the device layer; the two worker threads are the places where they wait or give the
    mutex away, and steps between them.  The lemmas show that start leaves a running device or nothing, that every interleaving of
    requests and threads keeps what is held accounted for and a required sub stream encoded, that stop returns - its bound of
    four steps for each thread is enough because a thread that is told to stop has at most three - and when a sub stream is switched off.
  \<^item> \<open>Main_Program\<close> (src/src/app/main.cpp): the composition; a loaded configuration is in the range of its consumers.

  \<^bold>\<open>Bounds and fuel.\<close>  \<open>free_media_path\<close> tries the 98 suffixes the code tries.  \<open>send_chunks\<close> has the length of the body
  as fuel, as every round sends a byte or ends; \<open>consume_rounds\<close> that of the buffer, as every frame
  takes at least two bytes (\<open>Ws_Client.consume_rounds_fuel\<close>).  Loops that wait for another thread or for the network are
  \<open>partial_function (option)\<close>, so that waiting for ever is \<open>None\<close>; the properties about stopping state
  that there is a result.  The muxing library acts as a finite program on the file or the
  packet callback (\<open>Memory_File\<close>, \<open>Packet_Sink\<close>).

  \<^bold>\<open>Not modelled.\<close>  The driver of the HY006-3814-0011 sensor is a copy of the SC4336P driver with other
  names, and those of the GalaxyCore sensors follow the same framework.  Of the device layer below src/devices/hisi\_3516cv610 the detection network, AI noise reduction, snapshots, font
  rendering, and the drawing of the clock are not modelled; the detector is its start and its stop to the pipeline.
  The worker pools of src/protocol/webrtc/webrtc\_runtime.cpp and
  the peer connection wrap the vendored KVS library.  Signal handlers, the watchdog and what is printed are left out of
  \<open>Main_Program\<close>.  Of the JSON library only the values and the reading of strings are modelled.  The cloud
  server is in JavaScript, src/3rdpart is third-party code, and src/board holds start scripts.
\<close>

end
